(* ===== verification/Prelude.thy ===== *)
theory Prelude
  imports Main "HOL-Library.Stream" "HOL-Library.Multiset"
begin

text \<open>
  What every service of the repository shares: Go's \<open>error\<close> values and \<open>errors.Is\<close>, 64-bit
  integer arithmetic, slices that may panic, the environment (\<open>time.Now\<close>, \<open>uuid.NewString\<close>)
  as streams of values read by the code, the normalisation of page numbers that is repeated in the
  services, and the generic lemmas on lists that the component theories use.
\<close>

named_theorems go_simps \<open>equations that evaluate the Go primitives of the model\<close>

section \<open>Error values\<close>

text \<open>
  A sentinel made with \<open>errors.New\<close> is identified by its text (the texts of one package are
  distinct). \<open>fmt.Errorf\<close> with one \<open>%w\<close> verb keeps the wrapped error between the text
  before and the text after the verb. \<open>Foreign\<close> is an error of a third-party package.
\<close>

datatype goerr =
    Sentinel string
  | Errorf string goerr string
  | Foreign string

fun err_Error :: "goerr \<Rightarrow> string" where
  "err_Error (Sentinel s) = s"
| "err_Error (Errorf pre e post) = pre @ err_Error e @ post"
| "err_Error (Foreign s) = s"

fun errors_Is :: "goerr \<Rightarrow> goerr \<Rightarrow> bool" where
  "errors_Is (Errorf pre e post) t = (Errorf pre e post = t \<or> errors_Is e t)"
| "errors_Is e t = (e = t)"

lemma errors_Is_refl [simp]: "errors_Is e e"
  by (cases e) auto

lemma errors_Is_Errorf [simp]: "errors_Is e (Sentinel s) \<Longrightarrow> errors_Is (Errorf p e q) (Sentinel s)"
  by simp

fun err_root :: "goerr \<Rightarrow> goerr" where
  "err_root (Errorf pre e post) = err_root e"
| "err_root e = e"

text \<open>\<open>errors.Is\<close> against a sentinel looks at the end of the chain only.\<close>

lemma errors_Is_Sentinel_iff: "errors_Is e (Sentinel s) \<longleftrightarrow> err_root e = Sentinel s"
  by (induction e) auto

section \<open>64-bit integers\<close>

text \<open>Go's \<open>int\<close>, \<open>int64\<close> and \<open>time.Duration\<close> are 64 bits wide and wrap around.\<close>

definition wrap64 :: "int \<Rightarrow> int" where
  "wrap64 x = (x + 2 ^ 63) mod 2 ^ 64 - 2 ^ 63"

definition is_int64 :: "int \<Rightarrow> bool" where
  "is_int64 x \<longleftrightarrow> - (2 ^ 63) \<le> x \<and> x < 2 ^ 63"

lemma wrap64_id: "is_int64 x \<Longrightarrow> wrap64 x = x"
  by (simp add: wrap64_def is_int64_def)

lemma is_int64_wrap64 [simp]: "is_int64 (wrap64 x)"
proof -
  have "0 \<le> (x + 2 ^ 63) mod 2 ^ 64" and "(x + 2 ^ 63) mod 2 ^ 64 < (2 ^ 64 :: int)"
    by simp_all
  then show ?thesis by (simp add: wrap64_def is_int64_def)
qed

definition max_int64 :: int where
  "max_int64 = 2 ^ 63 - 1"

definition min_int64 :: int where
  "min_int64 = - (2 ^ 63)"

lemma is_int64_iff: "is_int64 x \<longleftrightarrow> min_int64 \<le> x \<and> x \<le> max_int64"
  by (auto simp: is_int64_def min_int64_def max_int64_def)

section \<open>Slices\<close>

text \<open>A computation that may panic.\<close>

datatype 'a outcome = Ret 'a | Panic

text \<open>\<open>xs[lo:hi]\<close> panics unless \<open>0 <= lo <= hi <= len(xs)\<close> (a slice with no spare capacity).\<close>

definition go_slice :: "'a list \<Rightarrow> int \<Rightarrow> int \<Rightarrow> 'a list outcome" where
  "go_slice xs lo hi =
     (if 0 \<le> lo \<and> lo \<le> hi \<and> hi \<le> int (length xs)
      then Ret (take (nat hi - nat lo) (drop (nat lo) xs)) else Panic)"

text \<open>The elements of a slice that may be nil: nil has none.\<close>

definition elems :: "'a list option \<Rightarrow> 'a list" where
  "elems s = (case s of None \<Rightarrow> [] | Some xs \<Rightarrow> xs)"

lemma elems_simps [simp]: "elems None = []" "elems (Some xs) = xs"
  by (simp_all add: elems_def)

section \<open>The environment\<close>

text \<open>
  Instants are nanoseconds since the epoch, in UTC. The values \<open>time.Now\<close> and the identifier
  generator return are inputs of the program: two streams, of which each call reads the head.
  The other two inputs are the Unicode case tables of the runtime, used on strings with bytes
  outside ASCII only (see theory GoStd). Nothing is assumed about any of them.
\<close>

type_synonym time = int

record env =
  env_clock :: "time stream"
  env_uuids :: "string stream"
  env_lower :: "string \<Rightarrow> string"
  env_upper :: "string \<Rightarrow> string"

definition time_Now :: "'w env_scheme \<Rightarrow> time \<times> 'w env_scheme" where
  "time_Now w = (shd (env_clock w), w\<lparr>env_clock := stl (env_clock w)\<rparr>)"

definition uuid_NewString :: "'w env_scheme \<Rightarrow> string \<times> 'w env_scheme" where
  "uuid_NewString w = (shd (env_uuids w), w\<lparr>env_uuids := stl (env_uuids w)\<rparr>)"

definition Hour :: int where "Hour = 3600000000000"
definition Minute :: int where "Minute = 60000000000"
definition Second :: int where "Second = 1000000000"

text \<open>\<open>time.Duration(n) * unit\<close>: a 64-bit product.\<close>

definition Duration_mul :: "int \<Rightarrow> int \<Rightarrow> int" where
  "Duration_mul n unit = wrap64 (n * unit)"

type_synonym ('w, 'a) act = "'w \<Rightarrow> (goerr + 'a) \<times> 'w"
type_synonym 'w act_err = "'w \<Rightarrow> goerr option \<times> 'w"

text \<open>\<open>keeps p f\<close>: whatever \<open>f\<close> does, the part \<open>p\<close> of the state stays as it is.\<close>

definition keeps :: "('w \<Rightarrow> 'x) \<Rightarrow> ('w \<Rightarrow> 'r \<times> 'w) \<Rightarrow> bool" where
  "keeps p f \<longleftrightarrow> (\<forall>w r w'. f w = (r, w') \<longrightarrow> p w' = p w)"

lemma keepsD: "keeps p f \<Longrightarrow> f w = (r, w') \<Longrightarrow> p w' = p w"
  by (simp add: keeps_def)

lemma keeps_snd: "keeps p f \<Longrightarrow> p (snd (f w)) = p w"
  by (cases "f w") (simp add: keeps_def)

text \<open>A loop that stops at the first error.\<close>

fun map_result :: "('a \<Rightarrow> 'e + 'b) \<Rightarrow> 'a list \<Rightarrow> 'e + 'b list" where
  "map_result f [] = Inr []"
| "map_result f (x # xs) =
     (case f x of Inl e \<Rightarrow> Inl e
      | Inr y \<Rightarrow> (case map_result f xs of Inl e \<Rightarrow> Inl e | Inr ys \<Rightarrow> Inr (y # ys)))"

lemma map_result_Inr: "map_result f xs = Inr ys \<longleftrightarrow> list_all2 (\<lambda>x y. f x = Inr y) xs ys"
proof (induction xs arbitrary: ys)
  case (Cons x xs)
  show ?case by (cases "map_result f xs"; cases "f x") (auto simp: list_all2_Cons1 simp flip: Cons.IH)
qed auto

lemma map_result_ok: "(\<And>x. x \<in> set xs \<Longrightarrow> f x = Inr (g x)) \<Longrightarrow> map_result f xs = Inr (map g xs)"
  by (induction xs) simp_all

text \<open>\<open>uuid.NewString\<close> does not repeat itself and returns no identifier that is in use.\<close>

definition fresh_ids :: "string stream \<Rightarrow> string set \<Rightarrow> bool" where
  "fresh_ids ids used \<longleftrightarrow> (\<forall>i. ids !! i \<notin> used \<and> (\<forall>j<i. ids !! i \<noteq> ids !! j))"

lemma fresh_stl: "fresh_ids ids used \<Longrightarrow> fresh_ids (stl ids) (insert (shd ids) used)"
proof -
  assume f: "fresh_ids ids used"
  have "stl ids !! i \<noteq> shd ids" for i using f [unfolded fresh_ids_def, rule_format, of "Suc i"] by force
  moreover have "stl ids !! i \<notin> used" "j < i \<Longrightarrow> stl ids !! i \<noteq> stl ids !! j" for i j
    using f [unfolded fresh_ids_def, rule_format, of "Suc i"] by force+
  ultimately show ?thesis by (simp add: fresh_ids_def)
qed

lemma fresh_mono: "fresh_ids ids used \<Longrightarrow> used' \<subseteq> used \<Longrightarrow> fresh_ids ids used'"
  by (auto simp: fresh_ids_def)

lemma fresh_shd: "fresh_ids ids used \<Longrightarrow> shd ids \<notin> used"
  unfolding fresh_ids_def by (metis snth.simps(1))

text \<open>A stream of fresh identifiers, for runs on concrete data.\<close>

lemma demo_ids: "siterate ((#) (CHR ''n'')) x !! i = replicate i (CHR ''n'') @ x"
  by (induction i arbitrary: x) (simp_all add: replicate_app_Cons_same)

lemma demo_fresh: "\<forall>i\<in>used. hd i \<noteq> CHR ''n'' \<Longrightarrow> fresh_ids (siterate ((#) (CHR ''n'')) ''n1'') used"
  unfolding fresh_ids_def demo_ids
proof (intro allI conjI impI)
  fix i j assume "\<forall>i\<in>used. hd i \<noteq> CHR ''n''"
  moreover have "hd (replicate i (CHR ''n'') @ ''n1'') = CHR ''n''" by (cases i) simp_all
  ultimately show "replicate i (CHR ''n'') @ ''n1'' \<notin> used" by metis
qed simp

section \<open>Lists\<close>

lemma distinct_key_eq:
  "distinct (map key xs) \<Longrightarrow> x \<in> set xs \<Longrightarrow> y \<in> set xs \<Longrightarrow> key x = key y \<Longrightarrow> x = y"
  by (meson distinct_map inj_onD)

lemma list_all2_map_eq: "list_all2 (\<lambda>x y. f x = f y) xs ys \<Longrightarrow> map f ys = map f xs"
  by (induction rule: list_all2_induct) simp_all

lemma list_all2_memD: "list_all2 P xs ys \<Longrightarrow> y \<in> set ys \<Longrightarrow> \<exists>x\<in>set xs. P x y"
  by (metis in_set_conv_nth list_all2_conv_all_nth)

text \<open>Consecutive pages of a fixed size cover a list exactly.\<close>

definition page_of :: "nat \<Rightarrow> nat \<Rightarrow> 'a list \<Rightarrow> 'a list" where
  "page_of p l xs = take l (drop ((p - 1) * l) xs)"

lemma concat_pages:
  "concat (map (\<lambda>p. page_of p l xs) [1..<Suc n]) = take (n * l) xs"
proof (induction n)
  case 0
  then show ?case by simp
next
  case (Suc n)
  have "take (n * l) xs @ take l (drop (n * l) xs) = take (n * l + l) xs"
    by (simp add: take_add)
  with Suc show ?case by (simp add: page_of_def add.commute)
qed

lemma page_of_length: "length (page_of p l xs) \<le> l"
  by (simp add: page_of_def)

lemma page_of_subset: "set (page_of p l xs) \<subseteq> set xs"
  unfolding page_of_def by (meson order_trans set_drop_subset set_take_subset)

declare time_Now_def [go_simps] uuid_NewString_def [go_simps]

end
