(* ===== verification/GoStd.thy ===== *)
theory GoStd
  imports Prelude
begin

text \<open>
  The functions of Go's standard library the services call on strings. A Go string is a sequence
  of bytes, here a \<open>char list\<close>. \<open>strings.TrimSpace\<close> and \<open>strconv.Atoi\<close> are written out in full;
  \<open>strings.ToLower\<close> and \<open>strings.ToUpper\<close> map ASCII bytes themselves and leave a string with other
  bytes to the Unicode tables of the runtime (\<open>env_lower\<close>, \<open>env_upper\<close>).
\<close>

section \<open>strings.TrimSpace\<close>

text \<open>The UTF-8 encodings of the code points for which \<open>unicode.IsSpace\<close> holds.\<close>

definition space_encodings :: "string list" where
  "space_encodings =
     [[CHR 0x09], [CHR 0x0A], [CHR 0x0B], [CHR 0x0C], [CHR 0x0D], [CHR 0x20],
      [CHR 0xC2, CHR 0x85], [CHR 0xC2, CHR 0xA0], [CHR 0xE1, CHR 0x9A, CHR 0x80],
      [CHR 0xE2, CHR 0x80, CHR 0x80], [CHR 0xE2, CHR 0x80, CHR 0x81],
      [CHR 0xE2, CHR 0x80, CHR 0x82], [CHR 0xE2, CHR 0x80, CHR 0x83],
      [CHR 0xE2, CHR 0x80, CHR 0x84], [CHR 0xE2, CHR 0x80, CHR 0x85],
      [CHR 0xE2, CHR 0x80, CHR 0x86], [CHR 0xE2, CHR 0x80, CHR 0x87],
      [CHR 0xE2, CHR 0x80, CHR 0x88], [CHR 0xE2, CHR 0x80, CHR 0x89],
      [CHR 0xE2, CHR 0x80, CHR 0x8A], [CHR 0xE2, CHR 0x80, CHR 0xA8],
      [CHR 0xE2, CHR 0x80, CHR 0xA9], [CHR 0xE2, CHR 0x80, CHR 0xAF],
      [CHR 0xE2, CHR 0x81, CHR 0x9F], [CHR 0xE3, CHR 0x80, CHR 0x80]]"

definition strip_prefix :: "string list \<Rightarrow> string \<Rightarrow> string option" where
  "strip_prefix encs s =
     (case find (\<lambda>e. e \<noteq> [] \<and> take (length e) s = e) encs of
        None \<Rightarrow> None | Some e \<Rightarrow> Some (drop (length e) s))"

lemma strip_prefix_SomeD:
  assumes "strip_prefix encs s = Some s'"
  shows "\<exists>e\<in>set encs. e \<noteq> [] \<and> s = e @ s'"
proof -
  from assms obtain e where e: "find (\<lambda>e. e \<noteq> [] \<and> take (length e) s = e) encs = Some e"
    and s': "s' = drop (length e) s"
    by (auto simp: strip_prefix_def split: option.splits)
  from e have "e \<in> set encs" "e \<noteq> []" "take (length e) s = e"
    by (auto simp: find_Some_iff)
  with s' show ?thesis by (metis append_take_drop_id)
qed

lemma strip_prefix_NoneD:
  "strip_prefix encs s = None \<Longrightarrow> e \<in> set encs \<Longrightarrow> e \<noteq> [] \<Longrightarrow> s \<noteq> e @ t"
  by (auto simp: strip_prefix_def find_None_iff split: option.splits)

lemma strip_prefix_None_prefix:
  assumes "strip_prefix encs (s @ t) = None"
  shows "strip_prefix encs s = None"
proof (rule ccontr)
  assume "strip_prefix encs s \<noteq> None"
  then obtain s' where "strip_prefix encs s = Some s'" by auto
  from strip_prefix_SomeD [OF this] obtain e where "e \<in> set encs" "e \<noteq> []" "s = e @ s'" by auto
  with strip_prefix_NoneD [OF assms, of e "s' @ t"] show False by simp
qed

function trim_left :: "string list \<Rightarrow> string \<Rightarrow> string" where
  "trim_left encs s = (case strip_prefix encs s of None \<Rightarrow> s | Some s' \<Rightarrow> trim_left encs s')"
  by pat_completeness auto
termination
  by (relation "measure (\<lambda>(encs, s). length s)") (auto dest!: strip_prefix_SomeD)

declare trim_left.simps [simp del]

lemma strip_prefix_trim_left: "strip_prefix encs (trim_left encs s) = None"
proof (induction encs s rule: trim_left.induct)
  case (1 encs s)
  then show ?case
    by (cases "strip_prefix encs s") (auto simp: trim_left.simps [of encs s])
qed

lemma trim_left_id: "strip_prefix encs s = None \<Longrightarrow> trim_left encs s = s"
  by (simp add: trim_left.simps)

lemma trim_left_suffix: "\<exists>p. s = p @ trim_left encs s"
proof (induction encs s rule: trim_left.induct)
  case (1 encs s)
  show ?case
  proof (cases "strip_prefix encs s")
    case None
    then show ?thesis by (simp add: trim_left.simps [of encs s])
  next
    case (Some s')
    with 1 obtain p where "s' = p @ trim_left encs s'" by blast
    moreover from strip_prefix_SomeD [OF Some] obtain e where "s = e @ s'" by blast
    ultimately have "s = (e @ p) @ trim_left encs s'" by simp
    moreover have "trim_left encs s = trim_left encs s'"
      using Some by (simp add: trim_left.simps [of encs s])
    ultimately show ?thesis by metis
  qed
qed

definition TrimLeft :: "string \<Rightarrow> string" where
  "TrimLeft s = trim_left space_encodings s"

definition TrimRight :: "string \<Rightarrow> string" where
  "TrimRight s = rev (trim_left (map rev space_encodings) (rev s))"

definition TrimSpace :: "string \<Rightarrow> string" where
  "TrimSpace s = TrimRight (TrimLeft s)"

lemma TrimRight_prefix: "\<exists>q. s = TrimRight s @ q"
proof -
  obtain p where "rev s = p @ trim_left (map rev space_encodings) (rev s)"
    using trim_left_suffix by blast
  then have "s = rev (trim_left (map rev space_encodings) (rev s)) @ rev p"
    by (metis rev_append rev_rev_ident)
  then show ?thesis by (auto simp: TrimRight_def)
qed

lemma TrimRight_idem: "TrimRight (TrimRight s) = TrimRight s"
  by (simp add: TrimRight_def trim_left_id strip_prefix_trim_left)

lemma TrimLeft_idem: "TrimLeft (TrimLeft s) = TrimLeft s"
  by (simp add: TrimLeft_def trim_left_id strip_prefix_trim_left)

lemma TrimLeft_TrimRight_TrimLeft: "TrimLeft (TrimRight (TrimLeft s)) = TrimRight (TrimLeft s)"
proof -
  obtain q where "TrimLeft s = TrimRight (TrimLeft s) @ q" using TrimRight_prefix by blast
  moreover have "strip_prefix space_encodings (TrimLeft s) = None"
    by (simp add: TrimLeft_def strip_prefix_trim_left)
  ultimately have "strip_prefix space_encodings (TrimRight (TrimLeft s)) = None"
    by (metis strip_prefix_None_prefix)
  then show ?thesis by (simp add: TrimLeft_def trim_left_id)
qed

lemma TrimSpace_idem: "TrimSpace (TrimSpace s) = TrimSpace s"
  by (simp add: TrimSpace_def TrimLeft_TrimRight_TrimLeft TrimRight_idem)

section \<open>Letter case\<close>

definition is_ascii :: "string \<Rightarrow> bool" where
  "is_ascii s \<longleftrightarrow> (\<forall>c\<in>set s. of_char c < (128::nat))"

definition ascii_lower :: "char \<Rightarrow> char" where
  "ascii_lower c = (if 65 \<le> (of_char c :: nat) \<and> (of_char c :: nat) \<le> 90
     then char_of ((of_char c :: nat) + 32) else c)"

definition ascii_upper :: "char \<Rightarrow> char" where
  "ascii_upper c = (if 97 \<le> (of_char c :: nat) \<and> (of_char c :: nat) \<le> 122
     then char_of ((of_char c :: nat) - 32) else c)"

definition strings_ToLower :: "'w env_scheme \<Rightarrow> string \<Rightarrow> string" where
  "strings_ToLower w s = (if is_ascii s then map ascii_lower s else env_lower w s)"

definition strings_ToUpper :: "'w env_scheme \<Rightarrow> string \<Rightarrow> string" where
  "strings_ToUpper w s = (if is_ascii s then map ascii_upper s else env_upper w s)"

lemma ascii_lower_idem: "ascii_lower (ascii_lower c) = ascii_lower c"
  by (auto simp: ascii_lower_def)

lemma ascii_lower_ascii: "of_char c < (128::nat) \<Longrightarrow> of_char (ascii_lower c) < (128::nat)"
  by (auto simp: ascii_lower_def)

lemma strings_ToLower_idem: "is_ascii s \<Longrightarrow> strings_ToLower w (strings_ToLower w s) = strings_ToLower w s"
  by (auto simp: strings_ToLower_def is_ascii_def ascii_lower_idem ascii_lower_ascii)

section \<open>Decimal numbers\<close>

definition is_digit :: "char \<Rightarrow> bool" where
  "is_digit c \<longleftrightarrow> 48 \<le> (of_char c :: nat) \<and> (of_char c :: nat) \<le> 57"

definition digit_val :: "char \<Rightarrow> int" where
  "digit_val c = int (of_char c :: nat) - 48"

definition digit_char :: "nat \<Rightarrow> char" where
  "digit_char d = char_of (48 + d)"

fun nat_dec :: "nat \<Rightarrow> string" where
  "nat_dec n = (if n < 10 then [digit_char n] else nat_dec (n div 10) @ [digit_char (n mod 10)])"

declare nat_dec.simps [simp del]

lemma digit_char_props:
  assumes "d < 10"
  shows "is_digit (digit_char d)" and "digit_val (digit_char d) = int d"
  using assms by (auto simp: is_digit_def digit_val_def digit_char_def)

definition dec_val :: "string \<Rightarrow> int" where
  "dec_val s = foldl (\<lambda>v c. v * 10 + digit_val c) 0 s"

lemma dec_val_snoc: "dec_val (s @ [c]) = dec_val s * 10 + digit_val c"
  by (simp add: dec_val_def)

lemma nat_dec_val: "dec_val (nat_dec n) = int n"
proof (induction n rule: nat_dec.induct)
  case (1 n)
  show ?case
  proof (cases "n < 10")
    case True
    then show ?thesis by (simp add: nat_dec.simps dec_val_def digit_char_props)
  next
    case False
    with 1 have "dec_val (nat_dec n) = int (n div 10) * 10 + int (n mod 10)"
      by (simp add: nat_dec.simps [of n] dec_val_snoc digit_char_props)
    also have "\<dots> = int (n div 10 * 10 + n mod 10)" by (simp only: of_nat_add of_nat_mult of_nat_numeral)
    finally show ?thesis by simp
  qed
qed

lemma nat_dec_digits: "\<forall>c\<in>set (nat_dec n). is_digit c"
proof (induction n rule: nat_dec.induct)
  case (1 n)
  then show ?case
    by (cases "n < 10") (auto simp: nat_dec.simps [of n] digit_char_props)
qed

lemma nat_dec_nonempty: "nat_dec n \<noteq> []"
  by (simp add: nat_dec.simps)

lemma foldl_zeros: "foldl (\<lambda>v c. v * 10 + digit_val c) 0 (replicate k (CHR ''0'') @ s) = dec_val s"
  by (induction k) (simp_all add: dec_val_def digit_val_def)

subsection \<open>fmt.Sprintf with \<open>%05d\<close>\<close>

definition pad_zeros :: "nat \<Rightarrow> string \<Rightarrow> string" where
  "pad_zeros w s = replicate (w - length s) (CHR ''0'') @ s"

definition fmt_05d :: "int \<Rightarrow> string" where
  "fmt_05d n =
     (if n < 0 then CHR ''-'' # pad_zeros 4 (nat_dec (nat (- n)))
      else pad_zeros 5 (nat_dec (nat n)))"

lemma fmt_05d_val: "0 \<le> n \<Longrightarrow> dec_val (fmt_05d n) = n"
  using foldl_zeros [of _ "nat_dec (nat n)"]
  by (simp add: fmt_05d_def pad_zeros_def dec_val_def [of "replicate _ _ @ _"] nat_dec_val)

lemma fmt_05d_inj: "0 \<le> m \<Longrightarrow> 0 \<le> n \<Longrightarrow> fmt_05d m = fmt_05d n \<longleftrightarrow> m = n"
  by (metis fmt_05d_val)

lemma fmt_05d_length: "5 \<le> length (fmt_05d n)"
  by (auto simp: fmt_05d_def pad_zeros_def)

subsection \<open>strconv.Itoa and strconv.Atoi\<close>

definition strconv_Itoa :: "int \<Rightarrow> string" where
  "strconv_Itoa n = (if n < 0 then CHR ''-'' # nat_dec (nat (- n)) else nat_dec (nat n))"

definition ErrSyntax :: goerr where "ErrSyntax = Sentinel ''invalid syntax''"
definition ErrRange :: goerr where "ErrRange = Sentinel ''value out of range''"

text \<open>
  The loop of \<open>strconv.ParseUint\<close> in base 10: a value that leaves 64 bits ends the loop at once,
  before the rest of the string is looked at.
\<close>

fun parse_uint_loop :: "int \<Rightarrow> string \<Rightarrow> goerr + int" where
  "parse_uint_loop n [] = Inr n"
| "parse_uint_loop n (c # cs) =
     (if \<not> is_digit c then Inl ErrSyntax
      else if 2 ^ 64 - 1 < n * 10 + digit_val c then Inl ErrRange
      else parse_uint_loop (n * 10 + digit_val c) cs)"

definition strconv_ParseUint :: "string \<Rightarrow> goerr + int" where
  "strconv_ParseUint s = (if s = [] then Inl ErrSyntax else parse_uint_loop 0 s)"

text \<open>
  \<open>strconv.Atoi\<close> returns a value also with a range error: the nearest 64-bit integer.
\<close>

definition clamp_sign :: "bool \<Rightarrow> goerr + int \<Rightarrow> int \<times> goerr option" where
  "clamp_sign neg r =
     (case r of
        Inl e \<Rightarrow>
          if e = ErrRange then (if neg then min_int64 else max_int64, Some ErrRange)
          else (0, Some e)
      | Inr un \<Rightarrow>
          if \<not> neg \<and> 2 ^ 63 \<le> un then (max_int64, Some ErrRange)
          else if neg \<and> 2 ^ 63 < un then (min_int64, Some ErrRange)
          else (if neg then - un else un, None))"

definition strconv_Atoi :: "string \<Rightarrow> int \<times> goerr option" where
  "strconv_Atoi s =
     (case s of
        [] \<Rightarrow> (0, Some ErrSyntax)
      | c # cs \<Rightarrow>
          if c = CHR ''+'' then clamp_sign False (strconv_ParseUint cs)
          else if c = CHR ''-'' then clamp_sign True (strconv_ParseUint cs)
          else clamp_sign False (strconv_ParseUint s))"

lemma parse_uint_loop_digits:
  assumes "\<forall>c\<in>set s. is_digit c" "0 \<le> n"
    and "foldl (\<lambda>v c. v * 10 + digit_val c) n s \<le> 2 ^ 64 - 1"
  shows "parse_uint_loop n s = Inr (foldl (\<lambda>v c. v * 10 + digit_val c) n s)"
  using assms
proof (induction s arbitrary: n)
  case Nil
  then show ?case by simp
next
  case (Cons c s)
  have mono: "v \<le> foldl (\<lambda>v c. v * 10 + digit_val c) v s" if "0 \<le> v" "\<forall>c\<in>set s. is_digit c" for v s
    using that
  proof (induction s arbitrary: v)
    case (Cons d t)
    have "v \<le> v * 10 + digit_val d" "0 \<le> v * 10 + digit_val d"
      using Cons.prems by (auto simp: digit_val_def is_digit_def)
    moreover have "v * 10 + digit_val d \<le> foldl (\<lambda>v c. v * 10 + digit_val c) (v * 10 + digit_val d) t"
      using Cons.prems(2) calculation(2) by (intro Cons.IH) auto
    ultimately show ?case by simp
  qed simp
  have "0 \<le> n * 10 + digit_val c"
    using Cons.prems by (auto simp: digit_val_def is_digit_def)
  with mono [of "n * 10 + digit_val c" s] Cons show ?case by simp
qed

lemma is_int64_clamp: "is_int64 (fst (clamp_sign neg (parse_uint_loop 0 s)))"
proof -
  have nonneg: "0 \<le> n \<Longrightarrow> parse_uint_loop n s = Inr v \<Longrightarrow> 0 \<le> v" for n s v
    by (induction n s rule: parse_uint_loop.induct)
      (auto simp: digit_val_def is_digit_def split: if_splits)
  show ?thesis
    by (cases "parse_uint_loop 0 s")
      (use nonneg [of 0 s] in \<open>auto simp: clamp_sign_def is_int64_def min_int64_def max_int64_def\<close>)
qed

lemma is_int64_Atoi: "is_int64 (fst (strconv_Atoi s))"
proof -
  have "is_int64 (fst (clamp_sign neg (strconv_ParseUint t)))" for neg t
    using is_int64_clamp [of neg t]
    by (auto simp: strconv_ParseUint_def clamp_sign_def ErrSyntax_def ErrRange_def is_int64_def)
  then show ?thesis
    by (auto simp: strconv_Atoi_def is_int64_def split: list.split)
qed

lemma Atoi_Itoa:
  assumes "is_int64 n"
  shows "strconv_Atoi (strconv_Itoa n) = (n, None)"
proof -
  have dec: "strconv_ParseUint (nat_dec k) = Inr (int k)" if "int k \<le> 2 ^ 63" for k
    using that parse_uint_loop_digits [OF nat_dec_digits, of 0 k] nat_dec_val [of k]
    by (simp add: strconv_ParseUint_def nat_dec_nonempty dec_val_def)
  obtain c cs where c: "nat_dec (nat n) = c # cs"
    by (meson list.exhaust nat_dec_nonempty)
  have "is_digit c" using nat_dec_digits [of "nat n"] c by auto
  then have "c \<noteq> CHR ''+''" "c \<noteq> CHR ''-''" by (auto simp: is_digit_def)
  with assms c dec [of "nat n"] dec [of "nat (- n)"] show ?thesis
    by (auto simp: strconv_Atoi_def strconv_Itoa_def clamp_sign_def is_int64_def)
qed

end
