(* ===== verification/Json.thy ===== *)
theory Json
  imports GoStd "HOL-Library.List_Lexorder" "HOL-Library.Char_ord"
begin

text \<open>
  \<open>encoding/json\<close>, as far as the repositories use it: the text columns of the MySQL tables hold
  string lists, feature maps, transition lists and metadata as JSON. \<open>json_text\<close> is the output of
  \<open>json.Marshal\<close> on a value tree (HTML escaping included, as \<open>Marshal\<close> does), \<open>json_parse\<close> what
  \<open>json.Unmarshal\<close> accepts. The main result is \<open>json_roundtrip\<close>: parsing gives back every
  well-formed value, strings with arbitrary valid UTF-8 included.
\<close>

datatype json =
    JNull
  | JBool bool
  | JNum string
  | JStr string
  | JArr "json list"
  | JObj "(string \<times> json) list"

section \<open>UTF-8\<close>

abbreviation byte :: "char \<Rightarrow> nat" where "byte c \<equiv> of_char c"

definition cont_byte :: "char \<Rightarrow> bool" where
  "cont_byte c \<longleftrightarrow> 128 \<le> byte c \<and> byte c \<le> 191"

text \<open>
  The size of the code point at the head of the string, 0 where it is not valid UTF-8: the first
  byte gives the length, and the others are continuation bytes, the second one in a range that
  excludes overlong forms, surrogates and values past 0x10FFFF.
\<close>

definition rune_len :: "char \<Rightarrow> nat" where
  "rune_len a =
     (let x = byte a in
      if x < 128 then 1 else if x < 194 then 0 else if x < 224 then 2
      else if x < 240 then 3 else if x < 245 then 4 else 0)"

definition tail_ok :: "char \<Rightarrow> string \<Rightarrow> bool" where
  "tail_ok a bs \<longleftrightarrow>
     list_all cont_byte bs \<and>
     (case bs of [] \<Rightarrow> True | b # _ \<Rightarrow>
        (byte a = 224 \<longrightarrow> 160 \<le> byte b) \<and> (byte a = 237 \<longrightarrow> byte b \<le> 159) \<and>
        (byte a = 240 \<longrightarrow> 144 \<le> byte b) \<and> (byte a = 244 \<longrightarrow> byte b \<le> 143))"

fun utf8_len :: "string \<Rightarrow> nat" where
  "utf8_len [] = 0"
| "utf8_len (a # r) =
     (let n = rune_len a in if n \<le> Suc (length r) \<and> tail_ok a (take (n - 1) r) then n else 0)"

lemma utf8_len_le: "utf8_len s \<le> length s"
  by (cases s) (auto simp: Let_def)

lemma utf8_len_ascii: "byte a < 128 \<Longrightarrow> utf8_len (a # r) = 1"
  by (simp add: rune_len_def tail_ok_def)

lemma utf8_len_take:
  assumes "0 < utf8_len s"
  shows "utf8_len (take (utf8_len s) s @ t) = utf8_len s"
proof (cases s)
  case Nil
  with assms show ?thesis by simp
next
  case (Cons a r)
  define n where "n = rune_len a"
  from assms Cons have *: "0 < n" "n \<le> Suc (length r)" "tail_ok a (take (n - 1) r)" "utf8_len s = n"
    by (auto simp: n_def Let_def split: if_splits)
  then obtain m where m: "n = Suc m" by (cases n) auto
  with * Cons show ?thesis by (simp add: Let_def min_def flip: n_def)
qed

function valid_utf8 :: "string \<Rightarrow> bool" where
  "valid_utf8 s \<longleftrightarrow>
     (if s = [] then True else if utf8_len s = 0 then False else valid_utf8 (drop (utf8_len s) s))"
  by pat_completeness auto
termination
  by (relation "measure length") auto

declare valid_utf8.simps [simp del]

text \<open>The bytes of a code point (\<open>utf8.EncodeRune\<close>).\<close>

definition utf8_encode :: "nat \<Rightarrow> string" where
  "utf8_encode u =
     (if u < 128 then [char_of u]
      else if u < 2048 then [char_of (192 + u div 64), char_of (128 + u mod 64)]
      else if u < 65536 then
        [char_of (224 + u div 4096), char_of (128 + u div 64 mod 64), char_of (128 + u mod 64)]
      else [char_of (240 + u div 262144), char_of (128 + u div 4096 mod 64),
            char_of (128 + u div 64 mod 64), char_of (128 + u mod 64)])"

definition replacement_char :: string where
  "replacement_char = [CHR 0xEF, CHR 0xBF, CHR 0xBD]"

section \<open>Strings\<close>

definition hex_digit :: "nat \<Rightarrow> char" where
  "hex_digit d = (if d < 10 then char_of (48 + d) else char_of (87 + d))"

definition hex_val :: "char \<Rightarrow> nat option" where
  "hex_val c =
     (if 48 \<le> byte c \<and> byte c \<le> 57 then Some (byte c - 48)
      else if 97 \<le> byte c \<and> byte c \<le> 102 then Some (byte c - 87)
      else if 65 \<le> byte c \<and> byte c \<le> 70 then Some (byte c - 55)
      else None)"

lemma hex_val_digit: "d < 16 \<Longrightarrow> hex_val (hex_digit d) = Some d"
  by (auto simp: hex_val_def hex_digit_def)

definition esc_byte :: "char \<Rightarrow> string" where
  "esc_byte c =
     (if c = CHR 0x22 \<or> c = CHR 0x5C then [CHR 0x5C, c]
      else if c = CHR 0x08 then [CHR 0x5C, CHR ''b'']
      else if c = CHR 0x0C then [CHR 0x5C, CHR ''f'']
      else if c = CHR 0x0A then [CHR 0x5C, CHR ''n'']
      else if c = CHR 0x0D then [CHR 0x5C, CHR ''r'']
      else if c = CHR 0x09 then [CHR 0x5C, CHR ''t'']
      else if byte c < 32 \<or> c = CHR ''<'' \<or> c = CHR ''>'' \<or> c = CHR ''&'' then
        [CHR 0x5C, CHR ''u'', CHR ''0'', CHR ''0'', hex_digit (byte c div 16), hex_digit (byte c mod 16)]
      else [c])"

definition line_sep :: string where "line_sep = [CHR 0xE2, CHR 0x80, CHR 0xA8]"
definition para_sep :: string where "para_sep = [CHR 0xE2, CHR 0x80, CHR 0xA9]"

function enc_body :: "string \<Rightarrow> string" where
  "enc_body s =
     (case s of
        [] \<Rightarrow> []
      | c # cs \<Rightarrow>
         if byte c < 128 then esc_byte c @ enc_body cs
         else if utf8_len s = 0 then CHR 0x5C # ''ufffd'' @ enc_body cs
         else (let r = take (utf8_len s) s in
           (if r = line_sep then CHR 0x5C # ''u2028''
            else if r = para_sep then CHR 0x5C # ''u2029'' else r)
           @ enc_body (drop (utf8_len s) s)))"
  by pat_completeness auto
termination
  by (relation "measure length") (auto simp: less_Suc_eq_le)

declare enc_body.simps [simp del]

definition json_quote :: "string \<Rightarrow> string" where
  "json_quote s = CHR 0x22 # enc_body s @ [CHR 0x22]"

fun getu4 :: "string \<Rightarrow> (nat \<times> string) option" where
  "getu4 (a # b # c # d # r) =
     (case (hex_val a, hex_val b, hex_val c, hex_val d) of
        (Some p, Some q, Some x, Some y) \<Rightarrow> Some (((p * 16 + q) * 16 + x) * 16 + y, r)
      | _ \<Rightarrow> None)"
| "getu4 _ = None"

lemma getu4_length: "getu4 s = Some (u, r) \<Longrightarrow> length r < length s"
  by (induction s rule: getu4.induct) (auto split: option.splits)

text \<open>The escape after \<open>\u\<close>: a surrogate pair is one code point, a lone surrogate is replaced.\<close>

definition dec_u :: "nat \<Rightarrow> string \<Rightarrow> string \<times> string" where
  "dec_u u r =
     (if 0xD800 \<le> u \<and> u < 0xE000 then
        (case r of
           e # v # t \<Rightarrow>
             if e = CHR 0x5C \<and> v = CHR ''u'' then
               (case getu4 t of
                  Some (l, t') \<Rightarrow>
                    if u < 0xDC00 \<and> 0xDC00 \<le> l \<and> l < 0xE000
                    then (utf8_encode ((u - 0xD800) * 1024 + (l - 0xDC00) + 0x10000), t')
                    else (replacement_char, r)
                | None \<Rightarrow> (replacement_char, r))
             else (replacement_char, r)
         | _ \<Rightarrow> (replacement_char, r))
      else (utf8_encode u, r))"

lemma dec_u_length: "length (snd (dec_u u r)) \<le> length r"
  by (auto simp: dec_u_def split: list.splits option.splits dest: getu4_length)

definition simple_escape :: "char \<Rightarrow> char option" where
  "simple_escape c =
     (if c = CHR 0x22 \<or> c = CHR 0x5C \<or> c = CHR ''/'' then Some c
      else if c = CHR ''b'' then Some (CHR 0x08)
      else if c = CHR ''f'' then Some (CHR 0x0C)
      else if c = CHR ''n'' then Some (CHR 0x0A)
      else if c = CHR ''r'' then Some (CHR 0x0D)
      else if c = CHR ''t'' then Some (CHR 0x09)
      else None)"

text \<open>A string after its opening quote: the value and what follows the closing quote.\<close>

function dec_str :: "string \<Rightarrow> (string \<times> string) option" where
  "dec_str s =
     (case s of
        [] \<Rightarrow> None
      | c # cs \<Rightarrow>
         if c = CHR 0x22 then Some ([], cs)
         else if c = CHR 0x5C then
           (case cs of
              [] \<Rightarrow> None
            | e # es \<Rightarrow>
               if e = CHR ''u'' then
                 (case getu4 es of
                    None \<Rightarrow> None
                  | Some (u, r) \<Rightarrow>
                      map_option (\<lambda>(v, t). (fst (dec_u u r) @ v, t)) (dec_str (snd (dec_u u r))))
               else
                 (case simple_escape e of
                    None \<Rightarrow> None
                  | Some x \<Rightarrow> map_option (\<lambda>(v, t). (x # v, t)) (dec_str es)))
         else if byte c < 32 then None
         else if byte c < 128 then map_option (\<lambda>(v, t). (c # v, t)) (dec_str cs)
         else if utf8_len s = 0 then map_option (\<lambda>(v, t). (replacement_char @ v, t)) (dec_str cs)
         else map_option (\<lambda>(v, t). (take (utf8_len s) s @ v, t)) (dec_str (drop (utf8_len s) s)))"
  by pat_completeness auto
termination
proof (relation "measure length", goal_cases)
  case (2 s c cs e es uu u r)
  then show ?case
    using getu4_length [of es u r] dec_u_length [of u r] by simp
qed auto

declare dec_str.simps [simp del]

lemma dec_str_Nil: "dec_str [] = None"
  by (simp add: dec_str.simps)

lemma dec_str_Cons:
  "dec_str (c # cs) =
     (if c = CHR 0x22 then Some ([], cs)
      else if c = CHR 0x5C then
        (case cs of
           [] \<Rightarrow> None
         | e # es \<Rightarrow>
            if e = CHR ''u'' then
              (case getu4 es of
                 None \<Rightarrow> None
               | Some (u, r) \<Rightarrow>
                   map_option (\<lambda>(v, t). (fst (dec_u u r) @ v, t)) (dec_str (snd (dec_u u r))))
            else
              (case simple_escape e of
                 None \<Rightarrow> None
               | Some x \<Rightarrow> map_option (\<lambda>(v, t). (x # v, t)) (dec_str es)))
      else if byte c < 32 then None
      else if byte c < 128 then map_option (\<lambda>(v, t). (c # v, t)) (dec_str cs)
      else if utf8_len (c # cs) = 0 then map_option (\<lambda>(v, t). (replacement_char @ v, t)) (dec_str cs)
      else map_option (\<lambda>(v, t). (take (utf8_len (c # cs)) (c # cs) @ v, t))
        (dec_str (drop (utf8_len (c # cs)) (c # cs))))"
  by (subst dec_str.simps) (simp only: list.case)

lemma map_option_pair_rest:
  "map_option (\<lambda>(v, t). (p @ v, t)) x = Some (w, r) \<Longrightarrow> \<exists>v. x = Some (v, r)"
  by auto

lemma dec_str_rest: "dec_str s = Some (v, t) \<Longrightarrow> length t < length s"
proof (induction s arbitrary: v t rule: dec_str.induct)
  case (1 s)
  show ?case
  proof (cases s)
    case Nil
    with "1.prems" show ?thesis by (simp add: dec_str_Nil)
  next
    case (Cons c cs)
    consider (quote) "c = CHR 0x22" | (esc) "c = CHR 0x5C" "c \<noteq> CHR 0x22"
      | (other) "c \<noteq> CHR 0x22" "c \<noteq> CHR 0x5C" by blast
    then show ?thesis
    proof cases
      case quote
      with "1.prems" Cons show ?thesis by (simp add: dec_str_Cons)
    next
      case esc
      with "1.prems" Cons obtain e es where es: "cs = e # es"
        by (auto simp: dec_str_Cons split: list.splits)
      show ?thesis
      proof (cases "e = CHR ''u''")
        case True
        with "1.prems" Cons es esc obtain u r v' where u: "getu4 es = Some (u, r)"
          and d: "dec_str (snd (dec_u u r)) = Some (v', t)"
          by (auto simp: dec_str_Cons split: option.splits)
        from "1.IH"(1) [OF Cons esc(2,1) es True u refl d] getu4_length [OF u] dec_u_length [of u r]
        show ?thesis using Cons es by simp
      next
        case False
        with "1.prems" Cons es esc obtain x v' where x: "simple_escape e = Some x"
          and d: "dec_str es = Some (v', t)"
          by (auto simp: dec_str_Cons split: option.splits)
        from "1.IH"(2) [OF Cons esc(2,1) es False x d] show ?thesis using Cons es by simp
      qed
    next
      case other
      with "1.prems" Cons have big: "\<not> byte c < 32" by (auto simp: dec_str_Cons)
      show ?thesis
      proof (cases "byte c < 128")
        case True
        with "1.prems" Cons other big obtain v' where d: "dec_str cs = Some (v', t)"
          by (auto simp: dec_str_Cons)
        from "1.IH"(3) [OF Cons other big True d] show ?thesis using Cons by simp
      next
        case False
        show ?thesis
        proof (cases "utf8_len s = 0")
          case True
          with "1.prems" Cons other big False obtain v' where d: "dec_str cs = Some (v', t)"
            by (auto simp: dec_str_Cons)
          from "1.IH"(4) [OF Cons other big False True d] show ?thesis using Cons by simp
        next
          case nz: False
          have "dec_str s = map_option (\<lambda>(v, t). (take (utf8_len s) s @ v, t)) (dec_str (drop (utf8_len s) s))"
            using Cons other big False nz by (simp add: dec_str_Cons del: utf8_len.simps)
          with "1.prems" obtain v' where d: "dec_str (drop (utf8_len s) s) = Some (v', t)"
            using map_option_pair_rest by metis
          from "1.IH"(5) [OF Cons other big False nz d] show ?thesis by simp
        qed
      qed
    qed
  qed
qed

lemma dec_esc_byte:
  assumes "byte c < 128"
  shows "dec_str (esc_byte c @ t) = map_option (\<lambda>(v, r). (c # v, r)) (dec_str t)"
proof (cases "c = CHR 0x22 \<or> c = CHR 0x5C \<or> c = CHR 0x08 \<or> c = CHR 0x0C \<or> c = CHR 0x0A
    \<or> c = CHR 0x0D \<or> c = CHR 0x09")
  case True
  then show ?thesis by (elim disjE) (simp_all add: esc_byte_def dec_str_Cons simple_escape_def)
next
  case False
  show ?thesis
  proof (cases "byte c < 32 \<or> c = CHR ''<'' \<or> c = CHR ''>'' \<or> c = CHR ''&''")
    case True
    have "getu4 (CHR ''0'' # CHR ''0'' # hex_digit (byte c div 16) # hex_digit (byte c mod 16) # t)
        = Some (byte c, t)"
      using assms by (simp add: hex_val_digit) (simp add: hex_val_def)
    moreover have "utf8_encode (byte c) = [c]"
      using assms by (simp add: utf8_encode_def)
    ultimately show ?thesis
      using False True assms by (simp add: esc_byte_def dec_str_Cons dec_u_def)
  next
    case safe: False
    with False assms show ?thesis by (simp add: esc_byte_def dec_str_Cons)
  qed
qed

lemma char_of_E2 [simp]: "char_of (226::nat) = CHR 0xE2"
  and char_of_80 [simp]: "char_of (128::nat) = CHR 0x80"
  and char_of_A8 [simp]: "char_of (168::nat) = CHR 0xA8"
  and char_of_A9 [simp]: "char_of (169::nat) = CHR 0xA9"
  by code_simp+

lemma dec_separators:
  "dec_str (CHR 0x5C # ''u2028'' @ t) = map_option (\<lambda>(v, r). (line_sep @ v, r)) (dec_str t)"
  "dec_str (CHR 0x5C # ''u2029'' @ t) = map_option (\<lambda>(v, r). (para_sep @ v, r)) (dec_str t)"
  by (simp_all add: dec_str_Cons hex_val_def dec_u_def utf8_encode_def line_sep_def para_sep_def)

lemma dec_rune:
  assumes "1 < utf8_len s"
  shows "dec_str (take (utf8_len s) s @ t) = map_option (\<lambda>(v, r). (take (utf8_len s) s @ v, r)) (dec_str t)"
proof -
  define n where "n = utf8_len s"
  from assms obtain c cs where s: "s = c # cs" by (cases s) auto
  with assms have big: "\<not> byte c < 128" using utf8_len_ascii [of c cs] by auto
  obtain m where m: "n = Suc m" using assms n_def by (metis less_imp_Suc_add)
  have len: "utf8_len (take n s @ t) = n"
    using utf8_len_take [of s t] assms by (simp add: n_def)
  have "n \<le> length s" using utf8_len_le n_def by simp
  then have tn: "take n (take n s @ t) = take n s" "drop n (take n s @ t) = t" by simp_all
  have "take n s @ t = c # take m cs @ t" using s m by simp
  moreover have "m \<le> length cs" using \<open>n \<le> length s\<close> m s by simp
  ultimately show ?thesis
    using len tn m big unfolding n_def [symmetric]
    by (auto simp: dec_str_Cons [of c "take m cs @ t"] simp del: utf8_len.simps)
qed

lemma dec_enc_body:
  "valid_utf8 s \<Longrightarrow> dec_str (enc_body s @ CHR 0x22 # rest) = Some (s, rest)"
proof (induction s rule: enc_body.induct)
  case (1 s)
  show ?case
  proof (cases s)
    case Nil
    then show ?thesis by (simp add: enc_body.simps dec_str_Cons)
  next
    case (Cons c cs)
    show ?thesis
    proof (cases "byte c < 128")
      case True
      then have "valid_utf8 cs"
        using "1.prems" Cons by (simp add: valid_utf8.simps [of "c # cs"] utf8_len_ascii del: utf8_len.simps)
      with "1.IH"(1) [OF Cons True] True Cons show ?thesis
        by (simp add: enc_body.simps [of "c # cs"] dec_esc_byte)
    next
      case False
      define n where "n = utf8_len s"
      from "1.prems" Cons have n0: "n \<noteq> 0" and v: "valid_utf8 (drop n s)"
        by (auto simp: valid_utf8.simps [of "c # cs"] n_def simp del: utf8_len.simps split: if_splits)
      have n1: "1 < n"
        using n0 False Cons by (auto simp: n_def Let_def rune_len_def split: if_splits)
      have IH: "dec_str (enc_body (drop n s) @ CHR 0x22 # rest) = Some (drop n s, rest)"
        using "1.IH"(3) [OF Cons False] n0 v by (simp add: n_def)
      have enc: "enc_body s = (if take n s = line_sep then CHR 0x5C # ''u2028''
          else if take n s = para_sep then CHR 0x5C # ''u2029'' else take n s) @ enc_body (drop n s)"
        using Cons False n0 by (simp add: enc_body.simps [of "c # cs"] n_def Let_def del: utf8_len.simps)
      have "dec_str (take n s @ enc_body (drop n s) @ CHR 0x22 # rest) = Some (s, rest)"
        using dec_rune [of s "enc_body (drop n s) @ CHR 0x22 # rest"] n1 IH by (simp add: n_def)
      moreover have "dec_str (CHR 0x5C # ''u2028'' @ enc_body (drop n s) @ CHR 0x22 # rest)
          = Some (s, rest)" if "take n s = line_sep"
        using dec_separators(1) [of "enc_body (drop n s) @ CHR 0x22 # rest"] IH that
        by (metis append_take_drop_id map_option_eq_Some old.prod.case)
      moreover have "dec_str (CHR 0x5C # ''u2029'' @ enc_body (drop n s) @ CHR 0x22 # rest)
          = Some (s, rest)" if "take n s = para_sep"
        using dec_separators(2) [of "enc_body (drop n s) @ CHR 0x22 # rest"] IH that
        by (metis append_take_drop_id map_option_eq_Some old.prod.case)
      ultimately show ?thesis by (simp add: enc)
    qed
  qed
qed

section \<open>Values\<close>

fun join_with :: "string \<Rightarrow> string list \<Rightarrow> string" where
  "join_with sep [] = []"
| "join_with sep [x] = x"
| "join_with sep (x # xs) = x @ sep @ join_with sep xs"

fun json_text :: "json \<Rightarrow> string" where
  "json_text JNull = ''null''"
| "json_text (JBool b) = (if b then ''true'' else ''false'')"
| "json_text (JNum l) = l"
| "json_text (JStr s) = json_quote s"
| "json_text (JArr vs) = CHR ''['' # join_with '','' (map json_text vs) @ '']''"
| "json_text (JObj kvs) =
     CHR ''{'' # join_with '','' (map (\<lambda>(k, v). json_quote k @ CHR '':'' # json_text v) kvs) @ ''}''"

definition is_ws :: "char \<Rightarrow> bool" where
  "is_ws c \<longleftrightarrow> c = CHR 0x20 \<or> c = CHR 0x09 \<or> c = CHR 0x0A \<or> c = CHR 0x0D"

definition skip_ws :: "string \<Rightarrow> string" where
  "skip_ws s = dropWhile is_ws s"

text \<open>The grammar of number literals; \<open>num_char\<close> are the characters a literal is cut out with.\<close>

definition num_char :: "char \<Rightarrow> bool" where
  "num_char c \<longleftrightarrow> is_digit c \<or> c \<in> {CHR ''-'', CHR ''+'', CHR ''.'', CHR ''e'', CHR ''E''}"

definition num_exp_ok :: "string \<Rightarrow> bool" where
  "num_exp_ok s =
     (case s of [] \<Rightarrow> True
      | e # r \<Rightarrow>
         (e = CHR ''e'' \<or> e = CHR ''E'') \<and>
         (let r' = (case r of c # t \<Rightarrow> if c = CHR ''+'' \<or> c = CHR ''-'' then t else r | [] \<Rightarrow> r)
          in r' \<noteq> [] \<and> list_all is_digit r'))"

definition num_frac_ok :: "string \<Rightarrow> bool" where
  "num_frac_ok s =
     (case s of [] \<Rightarrow> True
      | c # r \<Rightarrow>
         if c = CHR ''.''
         then takeWhile is_digit r \<noteq> [] \<and> num_exp_ok (dropWhile is_digit r)
         else num_exp_ok s)"

definition num_ok :: "string \<Rightarrow> bool" where
  "num_ok l =
     (list_all num_char l \<and>
      (case (case l of c # t \<Rightarrow> if c = CHR ''-'' then t else l | [] \<Rightarrow> l) of
         [] \<Rightarrow> False
       | d # r \<Rightarrow>
          if d = CHR ''0'' then num_frac_ok r
          else is_digit d \<and> num_frac_ok (dropWhile is_digit r)))"

definition parse_num :: "string \<Rightarrow> (json \<times> string) option" where
  "parse_num s =
     (let l = takeWhile num_char s in
      if num_ok l then Some (JNum l, dropWhile num_char s) else None)"

definition parse_lit :: "string \<Rightarrow> json \<Rightarrow> string \<Rightarrow> (json \<times> string) option" where
  "parse_lit w v s = (if take (length w) s = w then Some (v, drop (length w) s) else None)"

text \<open>
  The parser. The first argument is fuel: twice the length of the text is enough
  (\<open>parse_val_fuel\<close>), and \<open>json_parse\<close> starts with that.
\<close>

fun parse_val :: "nat \<Rightarrow> string \<Rightarrow> (json \<times> string) option"
  and parse_elems :: "nat \<Rightarrow> string \<Rightarrow> (json list \<times> string) option"
  and parse_members :: "nat \<Rightarrow> string \<Rightarrow> ((string \<times> json) list \<times> string) option" where
  "parse_val 0 s = None"
| "parse_val (Suc n) s =
     (case skip_ws s of
        [] \<Rightarrow> None
      | c # cs \<Rightarrow>
         if c = CHR 0x22 then map_option (\<lambda>(x, r). (JStr x, r)) (dec_str cs)
         else if c = CHR ''['' then
           (case skip_ws cs of
              [] \<Rightarrow> None
            | d # ds \<Rightarrow>
               if d = CHR '']'' then Some (JArr [], ds)
               else map_option (\<lambda>(vs, r). (JArr vs, r)) (parse_elems n (d # ds)))
         else if c = CHR ''{'' then
           (case skip_ws cs of
              [] \<Rightarrow> None
            | d # ds \<Rightarrow>
               if d = CHR ''}'' then Some (JObj [], ds)
               else map_option (\<lambda>(kvs, r). (JObj kvs, r)) (parse_members n (d # ds)))
         else if c = CHR ''n'' then parse_lit ''null'' JNull (c # cs)
         else if c = CHR ''t'' then parse_lit ''true'' (JBool True) (c # cs)
         else if c = CHR ''f'' then parse_lit ''false'' (JBool False) (c # cs)
         else parse_num (c # cs))"
| "parse_elems 0 s = None"
| "parse_elems (Suc n) s =
     (case parse_val n s of
        None \<Rightarrow> None
      | Some (v, r) \<Rightarrow>
         (case skip_ws r of
            [] \<Rightarrow> None
          | c # cs \<Rightarrow>
             if c = CHR '']'' then Some ([v], cs)
             else if c = CHR '','' then map_option (\<lambda>(vs, t). (v # vs, t)) (parse_elems n cs)
             else None))"
| "parse_members 0 s = None"
| "parse_members (Suc n) s =
     (case skip_ws s of
        [] \<Rightarrow> None
      | q # qs \<Rightarrow>
         if q \<noteq> CHR 0x22 then None
         else (case dec_str qs of
            None \<Rightarrow> None
          | Some (k, r) \<Rightarrow>
             (case skip_ws r of
                [] \<Rightarrow> None
              | c # cs \<Rightarrow>
                 if c \<noteq> CHR '':'' then None
                 else (case parse_val n cs of
                    None \<Rightarrow> None
                  | Some (v, t) \<Rightarrow>
                     (case skip_ws t of
                        [] \<Rightarrow> None
                      | d # ds \<Rightarrow>
                         if d = CHR ''}'' then Some ([(k, v)], ds)
                         else if d = CHR '','' then
                           map_option (\<lambda>(kvs, u). ((k, v) # kvs, u)) (parse_members n ds)
                         else None)))))"

definition json_parse :: "string \<Rightarrow> json option" where
  "json_parse s =
     (case parse_val (2 * length s) s of
        None \<Rightarrow> None
      | Some (v, r) \<Rightarrow> if skip_ws r = [] then Some v else None)"

section \<open>Parsing what was printed\<close>

fun wf_json :: "json \<Rightarrow> bool" where
  "wf_json (JStr s) = valid_utf8 s"
| "wf_json (JNum l) = num_ok l"
| "wf_json (JArr vs) = list_all wf_json vs"
| "wf_json (JObj kvs) = list_all (\<lambda>(k, v). valid_utf8 k \<and> wf_json v) kvs"
| "wf_json _ = True"

definition ends_number :: "string \<Rightarrow> bool" where
  "ends_number rest \<longleftrightarrow> (case rest of [] \<Rightarrow> True | c # _ \<Rightarrow> \<not> num_char c)"

lemma ends_number_simps [simp]:
  "ends_number []" "ends_number (CHR '','' # r)" "ends_number (CHR '']'' # r)" "ends_number (CHR ''}'' # r)"
  by (simp_all add: ends_number_def num_char_def is_digit_def)

lemma skip_ws_id: "\<not> is_ws c \<Longrightarrow> skip_ws (c # cs) = c # cs"
  by (simp add: skip_ws_def)

lemma skip_ws_length: "length (skip_ws s) \<le> length s"
  by (simp add: skip_ws_def length_dropWhile_le)

lemma parse_num_text:
  assumes "num_ok l" "ends_number rest"
  shows "parse_num (l @ rest) = Some (JNum l, rest)"
proof -
  have "takeWhile num_char (l @ rest) = l" "dropWhile num_char (l @ rest) = rest"
    using assms by (auto simp: num_ok_def list_all_iff ends_number_def takeWhile_append dropWhile_append
        split: list.splits)
  with assms show ?thesis by (simp add: parse_num_def)
qed

lemma num_ok_head: "num_ok l \<Longrightarrow> \<exists>c cs. l = c # cs \<and> (c = CHR ''-'' \<or> is_digit c)"
  by (cases l) (auto simp: num_ok_def is_digit_def split: list.splits if_splits)

lemma is_digit_not:
  "is_digit c \<Longrightarrow> c \<noteq> CHR 0x22 \<and> c \<noteq> CHR ''['' \<and> c \<noteq> CHR ''{'' \<and> c \<noteq> CHR ''n'' \<and> c \<noteq> CHR ''t''
     \<and> c \<noteq> CHR ''f'' \<and> c \<noteq> CHR '']'' \<and> c \<noteq> CHR ''}'' \<and> \<not> is_ws c"
  by (auto simp: is_digit_def is_ws_def)

lemma json_text_head:
  assumes "wf_json v"
  shows "\<exists>c cs. json_text v = c # cs \<and> \<not> is_ws c \<and> c \<noteq> CHR '']'' \<and> c \<noteq> CHR ''}''"
proof (cases v)
  case (JNum l)
  with assms num_ok_head [of l] is_digit_not show ?thesis by (fastforce simp: is_ws_def)
qed (auto simp: is_ws_def json_quote_def)

lemma join_with_Cons: "xs \<noteq> [] \<Longrightarrow> join_with sep (x # xs) = x @ sep @ join_with sep xs"
  by (cases xs) simp_all

definition parses :: "json \<Rightarrow> bool" where
  "parses v \<longleftrightarrow> (\<forall>n rest. ends_number rest \<longrightarrow> 2 * length (json_text v) \<le> n \<longrightarrow>
     parse_val n (json_text v @ rest) = Some (v, rest))"

lemma parse_elems_text:
  assumes "vs \<noteq> []" "\<forall>v\<in>set vs. parses v" "2 * length (join_with '','' (map json_text vs)) + 1 \<le> n"
  shows "parse_elems n (join_with '','' (map json_text vs) @ CHR '']'' # rest) = Some (vs, rest)"
  using assms
proof (induction vs arbitrary: n rule: list_nonempty_induct)
  case (single v)
  then obtain m where n: "n = Suc m" by (cases n) auto
  from single n have "parse_val m (json_text v @ CHR '']'' # rest) = Some (v, CHR '']'' # rest)"
    by (auto simp: parses_def)
  then show ?case by (simp add: n skip_ws_id is_ws_def)
next
  case (cons v vs)
  then obtain m where n: "n = Suc m" by (cases n) auto
  let ?t = "join_with '','' (map json_text vs)"
  note join = join_with_Cons [of "map json_text vs" "'',''" "json_text v", simplified, OF cons.hyps(1)]
  have "parse_val m (json_text v @ CHR '','' # ?t @ CHR '']'' # rest)
      = Some (v, CHR '','' # ?t @ CHR '']'' # rest)"
    using cons.prems n by (auto simp: parses_def join)
  moreover have "parse_elems m (?t @ CHR '']'' # rest) = Some (vs, rest)"
    using cons.prems n by (intro cons.IH) (auto simp: join)
  ultimately show ?case by (simp add: n join skip_ws_id is_ws_def)
qed

definition member_text :: "string \<times> json \<Rightarrow> string" where
  "member_text kv = json_quote (fst kv) @ CHR '':'' # json_text (snd kv)"

lemma parse_member_step:
  assumes "valid_utf8 k" "parses v" "2 * length (json_text v) \<le> m" "ends_number rest"
  shows "parse_members (Suc m) (member_text (k, v) @ rest) =
    (case skip_ws rest of
        [] \<Rightarrow> None
      | d # ds \<Rightarrow>
         if d = CHR ''}'' then Some ([(k, v)], ds)
         else if d = CHR '','' then map_option (\<lambda>(kvs, u). ((k, v) # kvs, u)) (parse_members m ds)
         else None)"
proof -
  have "parse_val m (json_text v @ rest) = Some (v, rest)"
    using assms by (simp add: parses_def)
  then show ?thesis
    using assms(1) by (simp add: member_text_def json_quote_def skip_ws_id is_ws_def dec_enc_body)
qed

lemma parse_members_text:
  assumes "kvs \<noteq> []" "\<forall>(k, v)\<in>set kvs. valid_utf8 k \<and> parses v"
    "2 * length (join_with '','' (map member_text kvs)) + 1 \<le> n"
  shows "parse_members n (join_with '','' (map member_text kvs) @ CHR ''}'' # rest) = Some (kvs, rest)"
  using assms
proof (induction kvs arbitrary: n rule: list_nonempty_induct)
  case (single kv)
  then obtain k v m where n: "n = Suc m" and kv: "kv = (k, v)" by (cases n; cases kv) auto
  have "2 * length (json_text v) \<le> m"
    using single.prems n kv by (simp add: member_text_def)
  with single.prems n kv show ?case
    by (simp add: parse_member_step skip_ws_id is_ws_def del: parse_members.simps)
next
  case (cons kv kvs)
  then obtain k v m where n: "n = Suc m" and kv: "kv = (k, v)" by (cases n; cases kv) auto
  let ?t = "join_with '','' (map member_text kvs)"
  note join = join_with_Cons [of "map member_text kvs" "'',''" "member_text (k, v)", simplified, OF cons.hyps(1)]
  have "2 * length (json_text v) \<le> m"
    using cons.prems n kv by (simp add: join) (simp add: member_text_def)
  moreover have "parse_members m (?t @ CHR ''}'' # rest) = Some (kvs, rest)"
    using cons.prems n kv by (intro cons.IH) (auto simp: join)
  ultimately show ?case
    using cons.prems n kv by (simp add: join parse_member_step skip_ws_id is_ws_def del: parse_members.simps)
qed

lemma json_text_JObj:
  "json_text (JObj kvs) = CHR ''{'' # join_with '','' (map member_text kvs) @ ''}''"
proof -
  have "map (\<lambda>(k, v). json_quote k @ CHR '':'' # json_text v) kvs = map member_text kvs"
    by (auto simp: member_text_def)
  then show ?thesis by (simp only: json_text.simps)
qed

lemma parses_wf: "wf_json v \<Longrightarrow> parses v"
proof (induction v)
  case (JNum l)
  show ?case unfolding parses_def
  proof (intro allI impI)
    fix n rest assume prems: "ends_number rest" "2 * length (json_text (JNum l)) \<le> n"
    from JNum have "num_ok l" by simp
    from num_ok_head [OF this] obtain c cs where l: "l = c # cs" "c = CHR ''-'' \<or> is_digit c"
      by blast
    then obtain m where "n = Suc m" using prems by (cases n) auto
    moreover have "\<not> is_ws c"
      using l(2) is_digit_not [of c] by (elim disjE) (simp_all add: is_ws_def)
    moreover have "c \<noteq> CHR 0x22 \<and> c \<noteq> CHR ''['' \<and> c \<noteq> CHR ''{'' \<and> c \<noteq> CHR ''n'' \<and> c \<noteq> CHR ''t'' \<and> c \<noteq> CHR ''f''"
      using l(2) is_digit_not [of c] by (elim disjE) simp_all
    ultimately show "parse_val n (json_text (JNum l) @ rest) = Some (JNum l, rest)"
      using parse_num_text [of l rest] JNum prems l by (simp add: skip_ws_id)
  qed
next
  case (JStr s)
  show ?case unfolding parses_def
  proof (intro allI impI)
    fix n rest assume "2 * length (json_text (JStr s)) \<le> n"
    then obtain m where "n = Suc m" by (cases n) (auto simp: json_quote_def)
    with JStr show "parse_val n (json_text (JStr s) @ rest) = Some (JStr s, rest)"
      by (simp add: json_quote_def skip_ws_id is_ws_def dec_enc_body)
  qed
next
  case (JArr vs)
  show ?case unfolding parses_def
  proof (intro allI impI)
    fix n rest assume n: "2 * length (json_text (JArr vs)) \<le> n"
    then obtain m where m: "n = Suc m" by (cases n) auto
    show "parse_val n (json_text (JArr vs) @ rest) = Some (JArr vs, rest)"
    proof (cases vs)
      case Nil
      then show ?thesis by (simp add: m skip_ws_id is_ws_def)
    next
      case (Cons v vs')
      from JArr.prems Cons obtain c cs where head: "json_text v = c # cs" "\<not> is_ws c" "c \<noteq> CHR '']''"
        using json_text_head [of v] by auto
      have elems: "parse_elems m (join_with '','' (map json_text vs) @ CHR '']'' # rest) = Some (vs, rest)"
        using n m Cons JArr by (intro parse_elems_text) (auto simp: list_all_iff)
      obtain t where t: "join_with '','' (map json_text vs) = c # t"
        using head Cons by (cases vs') auto
      from elems have "parse_elems m (c # t @ CHR '']'' # rest) = Some (vs, rest)" by (simp add: t)
      then show ?thesis
        using head by (simp add: m t skip_ws_id is_ws_def)
    qed
  qed
next
  case (JObj kvs)
  show ?case unfolding parses_def
  proof (intro allI impI)
    fix n rest assume n: "2 * length (json_text (JObj kvs)) \<le> n"
    then obtain m where m: "n = Suc m" by (cases n) auto
    show "parse_val n (json_text (JObj kvs) @ rest) = Some (JObj kvs, rest)"
    proof (cases kvs)
      case Nil
      then show ?thesis by (simp add: m skip_ws_id is_ws_def)
    next
      case (Cons kv kvs')
      have "\<forall>(k, v)\<in>set kvs. valid_utf8 k \<and> parses v"
        using JObj by (fastforce simp: list_all_iff)
      then have mem: "parse_members m (join_with '','' (map member_text kvs) @ CHR ''}'' # rest) = Some (kvs, rest)"
        using n m Cons by (intro parse_members_text) (auto simp del: json_text.simps simp: json_text_JObj)
      obtain t where t: "join_with '','' (map member_text kvs) = CHR 0x22 # t"
        using Cons by (cases kvs') (auto simp: member_text_def json_quote_def)
      from mem have "parse_members m (CHR 0x22 # t @ CHR ''}'' # rest) = Some (kvs, rest)" by (simp add: t)
      then show ?thesis
        by (simp add: m json_text_JObj t skip_ws_id is_ws_def del: json_text.simps parse_members.simps)
    qed
  qed
next
  case JNull
  show ?case unfolding parses_def
    by (intro allI impI, case_tac n) (auto simp: skip_ws_id is_ws_def parse_lit_def)
next
  case (JBool b)
  show ?case unfolding parses_def
    by (intro allI impI, case_tac n; cases b) (auto simp: skip_ws_id is_ws_def parse_lit_def)
qed

lemma json_roundtrip:
  assumes "wf_json v"
  shows "json_parse (json_text v) = Some v"
proof -
  have "parse_val (2 * length (json_text v)) (json_text v @ []) = Some (v, [])"
    using parses_wf [OF assms] unfolding parses_def by (metis ends_number_simps(1) order_refl)
  then show ?thesis by (simp add: json_parse_def skip_ws_def)
qed

section \<open>The fuel is enough\<close>

lemma skip_ws_Cons_length: "skip_ws s = c # cs \<Longrightarrow> length cs < length s"
  using skip_ws_length [of s] by simp

lemma parse_num_rest: "parse_num (c # cs) = Some (v, r) \<Longrightarrow> length r \<le> length cs"
  using length_dropWhile_le [of num_char cs]
  by (auto simp: parse_num_def Let_def num_ok_def split: if_splits)

lemma parse_rest:
  "parse_val n s = Some (v, r) \<Longrightarrow> length r < length s"
  "parse_elems n s = Some (vs, r) \<Longrightarrow> length r < length s"
  "parse_members n s = Some (kvs, r) \<Longrightarrow> length r < length s"
proof (induction n s and n s and n s arbitrary: v r and vs r and kvs r
    rule: parse_val_parse_elems_parse_members.induct)
  case (2 n s)
  then obtain c cs where c: "skip_ws s = c # cs" by (auto split: list.splits)
  note len = skip_ws_Cons_length [OF c]
  consider "c = CHR 0x22" | "c = CHR ''[''" | "c = CHR ''{''"
    | "c \<notin> {CHR 0x22, CHR ''['', CHR ''{''}" by blast
  then show ?case
  proof cases
    case 1
    with "2.prems" c len show ?thesis by (auto dest!: dec_str_rest)
  next
    case 2
    with "2.prems" c obtain d ds where d: "skip_ws cs = d # ds" by (auto split: list.splits)
    have "length t < Suc (length ds)" if "parse_elems n (d # ds) = Some (x, t)" "d \<noteq> CHR '']''" for x t
      using "2.IH"(1) [OF c _ _ d] 2 that by simp
    with 2 "2.prems" c d len skip_ws_Cons_length [OF d] show ?thesis by (fastforce split: if_splits)
  next
    case 3
    with "2.prems" c obtain d ds where d: "skip_ws cs = d # ds" by (auto split: list.splits)
    have "length t < Suc (length ds)" if "parse_members n (d # ds) = Some (x, t)" "d \<noteq> CHR ''}''" for x t
      using "2.IH"(2) [OF c _ _ _ d] 3 that by simp
    with 3 "2.prems" c d len skip_ws_Cons_length [OF d] show ?thesis by (fastforce split: if_splits)
  next
    case 4
    with "2.prems" c len show ?thesis
      by (auto simp: parse_lit_def dest!: parse_num_rest split: if_splits)
  qed
next
  case (4 n s)
  then obtain v' r' c cs where v': "parse_val n s = Some (v', r')" and c: "skip_ws r' = c # cs"
    by (auto split: option.splits list.splits)
  from "4.IH"(1) [OF v'] skip_ws_Cons_length [OF c] "4.prems" v' c "4.IH"(2) [OF v' _ c]
  show ?case by (fastforce split: if_splits)
next
  case (6 n s)
  from "6.prems" obtain q qs k r1 c cs v' t d ds where
    q: "skip_ws s = q # qs" "q = CHR 0x22" and k: "dec_str qs = Some (k, r1)"
    and c: "skip_ws r1 = c # cs" "c = CHR '':''" and v': "parse_val n cs = Some (v', t)"
    and d: "skip_ws t = d # ds"
    by (auto split: option.splits list.splits if_splits)
  have "length ds < length s"
    using skip_ws_Cons_length [OF q(1)] dec_str_rest [OF k] skip_ws_Cons_length [OF c(1)]
      "6.IH"(1) [of q qs _ k r1 c cs, OF q(1) _ k _ c(1) _ v'] q c skip_ws_Cons_length [OF d] by simp
  moreover have "length u < length ds" if "parse_members n ds = Some (x, u)" "d \<noteq> CHR ''}''" "d = CHR '',''" for x u
    using "6.IH"(2) [of q qs _ k r1 c cs _ v' t d ds, OF q(1) _ k _ c(1) _ v' _ d] q c that by simp
  ultimately show ?case using "6.prems" q k c v' d by (fastforce split: if_splits)
qed auto

lemma parse_fuel_Suc:
  "2 * length s \<le> n \<Longrightarrow> parse_val (Suc n) s = parse_val n s"
  "2 * length s < n \<Longrightarrow> parse_elems (Suc n) s = parse_elems n s"
  "2 * length s < n \<Longrightarrow> parse_members (Suc n) s = parse_members n s"
proof (induction n s and n s and n s rule: parse_val_parse_elems_parse_members.induct)
  case (1 s)
  then show ?case by (simp add: skip_ws_def)
next
  case (2 n s)
  show ?case
  proof (cases "skip_ws s")
    case (Cons c cs)
    note len = skip_ws_Cons_length [OF Cons]
    have short: "2 * length (d # ds) < n" if "skip_ws cs = d # ds" for d ds
      using skip_ws_Cons_length [OF that] len "2.prems" by simp
    have "parse_elems (Suc n) (d # ds) = parse_elems n (d # ds)"
      if "skip_ws cs = d # ds" "c = CHR ''[''" "d \<noteq> CHR '']''" for d ds
      using "2.IH"(1) [OF Cons _ _ that(1) that(3) short [OF that(1)]] that(2) by simp
    moreover have "parse_members (Suc n) (d # ds) = parse_members n (d # ds)"
      if "skip_ws cs = d # ds" "c = CHR ''{''" "d \<noteq> CHR ''}''" for d ds
      using "2.IH"(2) [OF Cons _ _ _ that(1) that(3) short [OF that(1)]] that(2) by simp
    ultimately show ?thesis
      unfolding parse_val.simps(2)
      by (auto simp: Cons simp del: parse_elems.simps parse_members.simps split: list.split)
  qed simp
next
  case (4 n s)
  have v: "parse_val (Suc n) s = parse_val n s" using "4.IH"(1) "4.prems" by simp
  have "parse_elems (Suc n) cs = parse_elems n cs"
    if "parse_val n s = Some (x, r)" "skip_ws r = c # cs" "c = CHR '',''" for x r c cs
    using "4.IH"(2) [OF that(1) _ that(2)] that(3) parse_rest(1) [OF that(1)]
      skip_ws_Cons_length [OF that(2)] "4.prems" by simp
  with v show ?case
    unfolding parse_elems.simps(2)
    by (auto simp del: parse_elems.simps parse_val.simps split: list.split option.split)
next
  case (6 n s)
  have v: "parse_val (Suc n) cs = parse_val n cs"
    if "skip_ws s = q # qs" "q = CHR 0x22" "dec_str qs = Some (k, r)" "skip_ws r = c # cs" "c = CHR '':''"
    for q qs k r c cs
    using "6.IH"(1) [OF that(1) _ that(3) _ that(4)] that(2,5) skip_ws_Cons_length [OF that(1)]
      dec_str_rest [OF that(3)] skip_ws_Cons_length [OF that(4)] "6.prems" by simp
  have "parse_members (Suc n) ds = parse_members n ds"
    if "skip_ws s = q # qs" "q = CHR 0x22" "dec_str qs = Some (k, r)" "skip_ws r = c # cs" "c = CHR '':''"
      "parse_val n cs = Some (x, t)" "skip_ws t = d # ds" "d = CHR '',''"
    for q qs k r c cs x t d ds
    using "6.IH"(2) [OF that(1) _ that(3) _ that(4) _ that(6) _ that(7)] that(2,5,8)
      skip_ws_Cons_length [OF that(1)] dec_str_rest [OF that(3)] skip_ws_Cons_length [OF that(4)]
      parse_rest(1) [OF that(6)] skip_ws_Cons_length [OF that(7)] "6.prems" by simp
  with v show ?case
    unfolding parse_members.simps(2)
    by (auto simp del: parse_members.simps parse_val.simps split: list.split option.split)
qed simp_all

lemma parse_val_fuel: "2 * length s \<le> n \<Longrightarrow> parse_val n s = parse_val (2 * length s) s"
  by (induction n rule: dec_induct) (simp_all add: parse_fuel_Suc del: parse_val.simps)

end
