(* ===== verification/Decode.thy ===== *)
theory Decode
  imports Json
begin

text \<open>
  How \<open>encoding/json\<close> stores a value tree into Go variables. A setter takes the JSON value and the
  value the variable has, and gives the new one, or \<open>None\<close> for the error of a type mismatch; \<open>field\<close>
  runs through the members of an object in their order. Keys match field names without regard to
  ASCII case (the two code points outside ASCII that also fold to letters are not modelled).
\<close>

section \<open>Setters\<close>

fun set_string :: "json \<Rightarrow> string \<Rightarrow> string option" where
  "set_string (JStr s) old = Some s"
| "set_string JNull old = Some old"
| "set_string _ old = None"

fun set_string_ptr :: "json \<Rightarrow> string option \<Rightarrow> string option option" where
  "set_string_ptr (JStr s) old = Some (Some s)"
| "set_string_ptr JNull old = Some None"
| "set_string_ptr _ old = None"

fun set_bool :: "json \<Rightarrow> bool \<Rightarrow> bool option" where
  "set_bool (JBool b) old = Some b"
| "set_bool JNull old = Some old"
| "set_bool _ old = None"

fun set_bool_ptr :: "json \<Rightarrow> bool option \<Rightarrow> bool option option" where
  "set_bool_ptr (JBool b) old = Some (Some b)"
| "set_bool_ptr JNull old = Some None"
| "set_bool_ptr _ old = None"

fun set_int :: "json \<Rightarrow> int \<Rightarrow> int option" where
  "set_int (JNum l) old = (case strconv_Atoi l of (n, None) \<Rightarrow> Some n | (_, Some _) \<Rightarrow> None)"
| "set_int JNull old = Some old"
| "set_int _ old = None"

text \<open>A slice: \<open>null\<close> gives nil, an array a new slice whose elements start as zero values.\<close>

fun map_opt :: "('a \<Rightarrow> 'b option) \<Rightarrow> 'a list \<Rightarrow> 'b list option" where
  "map_opt f [] = Some []"
| "map_opt f (x # xs) =
     (case f x of None \<Rightarrow> None
      | Some y \<Rightarrow> (case map_opt f xs of None \<Rightarrow> None | Some ys \<Rightarrow> Some (y # ys)))"

lemma map_opt_map: "(\<And>x. x \<in> set xs \<Longrightarrow> f (g x) = Some (h x)) \<Longrightarrow> map_opt f (map g xs) = Some (map h xs)"
  by (induction xs) simp_all

fun set_slice :: "(json \<Rightarrow> 'a \<Rightarrow> 'a option) \<Rightarrow> 'a \<Rightarrow> json \<Rightarrow> 'a list option \<Rightarrow> 'a list option option" where
  "set_slice st zero (JArr vs) old = map_option Some (map_opt (\<lambda>v. st v zero) vs)"
| "set_slice st zero JNull old = Some None"
| "set_slice st zero _ old = None"

definition field_match :: "string \<Rightarrow> string \<Rightarrow> bool" where
  "field_match name k \<longleftrightarrow> map ascii_lower k = map ascii_lower name"

fun field :: "string \<Rightarrow> (json \<Rightarrow> 'a \<Rightarrow> 'a option) \<Rightarrow> (string \<times> json) list \<Rightarrow> 'a \<Rightarrow> 'a option" where
  "field name st [] x = Some x"
| "field name st ((k, v) # kvs) x =
     (if field_match name k
      then (case st v x of None \<Rightarrow> None | Some y \<Rightarrow> field name st kvs y)
      else field name st kvs x)"

text \<open>A struct is decoded from an object; \<open>null\<close> leaves it as it is.\<close>

fun members :: "json \<Rightarrow> (string \<times> json) list option" where
  "members (JObj kvs) = Some kvs"
| "members JNull = Some []"
| "members _ = None"

text \<open>
  \<open>json.NewDecoder(r.Body).Decode(&body)\<close> reads the first value of the body and leaves the rest;
  an empty body is the error \<open>EOF\<close>.
\<close>

definition decode_first :: "string \<Rightarrow> json option" where
  "decode_first s = map_option fst (parse_val (2 * length s) s)"

definition body_members :: "string \<Rightarrow> (string \<times> json) list option" where
  "body_members s = Option.bind (decode_first s) members"

section \<open>String lists\<close>

text \<open>\<open>json.Marshal\<close> and \<open>json.Unmarshal\<close> on a \<open>[]string\<close>; \<open>None\<close> is the nil slice.\<close>

fun strings_json :: "string list option \<Rightarrow> json" where
  "strings_json None = JNull"
| "strings_json (Some ss) = JArr (map JStr ss)"

definition Marshal_strings :: "string list option \<Rightarrow> string" where
  "Marshal_strings ss = json_text (strings_json ss)"

definition Unmarshal_strings :: "string \<Rightarrow> string list option option" where
  "Unmarshal_strings s =
     (case json_parse s of None \<Rightarrow> None | Some v \<Rightarrow> set_slice set_string '''' v None)"

definition valid_strings :: "string list option \<Rightarrow> bool" where
  "valid_strings ss = (case ss of None \<Rightarrow> True | Some xs \<Rightarrow> list_all valid_utf8 xs)"

lemma strings_roundtrip:
  assumes "valid_strings ss"
  shows "Unmarshal_strings (Marshal_strings ss) = Some ss"
proof -
  have "wf_json (strings_json ss)"
    using assms by (cases ss) (auto simp: valid_strings_def list_all_iff)
  moreover have "set_slice set_string '''' (strings_json ss) None = Some ss"
    by (cases ss) (simp_all add: map_opt_map [where h = id and f = "\<lambda>v. set_string v ''''" and g = JStr, simplified])
  ultimately show ?thesis
    by (simp add: Unmarshal_strings_def Marshal_strings_def json_roundtrip)
qed

lemma Marshal_strings_nonempty [simp]: "Marshal_strings ss \<noteq> ''''"
  by (cases ss) (simp_all add: Marshal_strings_def)

section \<open>Maps\<close>

text \<open>
  A map is given by its entries in the order of the keys, the order in which \<open>json.Marshal\<close> writes
  them; \<open>None\<close> is the nil map.
\<close>

fun map_put :: "string \<Rightarrow> 'v \<Rightarrow> (string \<times> 'v) list \<Rightarrow> (string \<times> 'v) list" where
  "map_put k v [] = [(k, v)]"
| "map_put k v ((a, b) # kvs) =
     (if k = a then (a, v) # kvs else if k < a then (k, v) # (a, b) # kvs else (a, b) # map_put k v kvs)"

definition go_map :: "(string \<times> 'v) list \<Rightarrow> bool" where
  "go_map kvs \<longleftrightarrow> sorted_wrt (<) (map fst kvs)"

lemma set_map_put: "fst ` set (map_put k v kvs) = insert k (fst ` set kvs)"
  by (induction k v kvs rule: map_put.induct) (simp_all add: insert_commute)

lemma go_map_put [simp]: "go_map kvs \<Longrightarrow> go_map (map_put k v kvs)"
proof (induction kvs)
  case (Cons p kvs)
  obtain a b where p: "p = (a, b)" by (cases p)
  have "\<forall>y\<in>fst ` set (map_put k v kvs). a < y" if "a < k"
    using Cons.prems that unfolding set_map_put by (auto simp: go_map_def p)
  with Cons show ?case by (auto simp: go_map_def p)
qed (simp add: go_map_def)

lemma map_of_put: "go_map kvs \<Longrightarrow> map_of (map_put k v kvs) = (map_of kvs)(k \<mapsto> v)"
  by (induction kvs) (auto simp: go_map_def fun_eq_iff)

lemma map_put_snoc: "go_map (kvs @ [(k, v)]) \<Longrightarrow> map_put k v kvs = kvs @ [(k, v)]"
  by (induction kvs) (auto simp: go_map_def)

text \<open>Every value is decoded into a zero value, and replaces the entry of its key.\<close>

fun map_members :: "(json \<Rightarrow> 'v option) \<Rightarrow> (string \<times> json) list \<Rightarrow> (string \<times> 'v) list \<Rightarrow> (string \<times> 'v) list option" where
  "map_members dec [] m = Some m"
| "map_members dec ((k, v) # kvs) m =
     (case dec v of None \<Rightarrow> None | Some x \<Rightarrow> map_members dec kvs (map_put k x m))"

fun set_map :: "(json \<Rightarrow> 'v option) \<Rightarrow> json \<Rightarrow> (string \<times> 'v) list option \<Rightarrow> (string \<times> 'v) list option option" where
  "set_map dec (JObj kvs) old = map_option Some (map_members dec kvs (elems old))"
| "set_map dec JNull old = Some None"
| "set_map dec _ old = None"

definition map_json :: "('v \<Rightarrow> json) \<Rightarrow> (string \<times> 'v) list option \<Rightarrow> json" where
  "map_json enc m = (case m of None \<Rightarrow> JNull | Some kvs \<Rightarrow> JObj (map (\<lambda>(k, v). (k, enc v)) kvs))"

lemma map_members_json:
  assumes "\<And>v. v \<in> snd ` set kvs \<Longrightarrow> dec (enc v) = Some v" "go_map (m @ kvs)"
  shows "map_members dec (map (\<lambda>(k, v). (k, enc v)) kvs) m = Some (m @ kvs)"
  using assms
proof (induction kvs arbitrary: m)
  case (Cons p kvs)
  obtain k v where p: "p = (k, v)" by (cases p)
  have "go_map (m @ [(k, v)])" using Cons.prems(2) by (auto simp: go_map_def p sorted_wrt_append)
  with Cons show ?case by (simp add: p map_put_snoc)
qed simp

lemma set_map_json:
  assumes "\<And>v. v \<in> snd ` set (elems m) \<Longrightarrow> dec (enc v) = Some v" "go_map (elems m)"
  shows "set_map dec (map_json enc m) None = Some m"
  using assms map_members_json [of "elems m" dec enc "[]"] by (cases m) (simp_all add: map_json_def)

section \<open>Values of any type\<close>

text \<open>
  A value of type \<open>any\<close>: numbers become \<open>float64\<close>, objects become maps. \<open>fl\<close> gives the text with
  which the runtime writes the \<open>float64\<close> nearest to a literal, nothing for a literal out of range.
\<close>

fun any_json :: "(string \<Rightarrow> string option) \<Rightarrow> json \<Rightarrow> json option"
  and any_list :: "(string \<Rightarrow> string option) \<Rightarrow> json list \<Rightarrow> json list option"
  and any_members :: "(string \<Rightarrow> string option) \<Rightarrow> (string \<times> json) list \<Rightarrow> (string \<times> json) list \<Rightarrow>
    (string \<times> json) list option" where
  "any_json fl JNull = Some JNull"
| "any_json fl (JBool b) = Some (JBool b)"
| "any_json fl (JNum l) = map_option JNum (fl l)"
| "any_json fl (JStr s) = Some (JStr s)"
| "any_json fl (JArr vs) = map_option JArr (any_list fl vs)"
| "any_json fl (JObj kvs) = map_option JObj (any_members fl kvs [])"
| "any_list fl [] = Some []"
| "any_list fl (v # vs) =
     (case any_json fl v of None \<Rightarrow> None
      | Some x \<Rightarrow> (case any_list fl vs of None \<Rightarrow> None | Some xs \<Rightarrow> Some (x # xs)))"
| "any_members fl [] m = Some m"
| "any_members fl ((k, v) # kvs) m =
     (case any_json fl v of None \<Rightarrow> None | Some x \<Rightarrow> any_members fl kvs (map_put k x m))"

definition Unmarshal_map :: "(json \<Rightarrow> 'v option) \<Rightarrow> string \<Rightarrow> (string \<times> 'v) list option option" where
  "Unmarshal_map dec s = (case json_parse s of None \<Rightarrow> None | Some v \<Rightarrow> set_map dec v None)"

definition Marshal_map :: "('v \<Rightarrow> json) \<Rightarrow> (string \<times> 'v) list option \<Rightarrow> string" where
  "Marshal_map enc m = json_text (map_json enc m)"

text \<open>Pointers to numbers.\<close>

fun set_int_ptr :: "json \<Rightarrow> int option \<Rightarrow> int option option" where
  "set_int_ptr JNull old = Some None"
| "set_int_ptr v old = map_option Some (set_int v 0)"

fun set_float_ptr :: "(string \<Rightarrow> string option) \<Rightarrow> json \<Rightarrow> string option \<Rightarrow> string option option" where
  "set_float_ptr fl (JNum l) old = map_option Some (fl l)"
| "set_float_ptr fl JNull old = Some None"
| "set_float_ptr fl _ old = None"

end
