(* ===== verification/Wf_Domain.thy ===== *)
theory Wf_Domain
  imports Decode
begin

text \<open>
  workflow-service: the data of \<open>internal/domain\<close> and the interfaces of \<open>internal/ports\<close>. Status,
  priority and task status are Go string types, so any string is a value of them and the constants
  are the ones the code names. A nil slice or pointer is \<open>None\<close>. An interface is a record of
  the operations it lists, over the type \<open>'w\<close> of the states the service runs on.
\<close>

section \<open>Domain\<close>

type_synonym CaseStatus = string

definition CaseStatusNew :: CaseStatus where "CaseStatusNew = ''new''"
definition CaseStatusOpen :: CaseStatus where "CaseStatusOpen = ''open''"
definition CaseStatusInProgress :: CaseStatus where "CaseStatusInProgress = ''in_progress''"
definition CaseStatusPending :: CaseStatus where "CaseStatusPending = ''pending''"
definition CaseStatusResolved :: CaseStatus where "CaseStatusResolved = ''resolved''"
definition CaseStatusClosed :: CaseStatus where "CaseStatusClosed = ''closed''"

lemmas CaseStatus_defs = CaseStatusNew_def CaseStatusOpen_def CaseStatusInProgress_def
  CaseStatusPending_def CaseStatusResolved_def CaseStatusClosed_def

type_synonym CasePriority = string

definition PriorityLow :: CasePriority where "PriorityLow = ''low''"
definition PriorityMedium :: CasePriority where "PriorityMedium = ''medium''"
definition PriorityHigh :: CasePriority where "PriorityHigh = ''high''"
definition PriorityCritical :: CasePriority where "PriorityCritical = ''critical''"

lemmas Priority_defs = PriorityLow_def PriorityMedium_def PriorityHigh_def PriorityCritical_def

record SLA =
  sla_DueAt :: "time option"
  sla_Breached :: bool

record Case =
  case_ID :: string
  case_TenantID :: string
  case_CaseNumber :: string
  case_Title :: string
  case_Description :: string
  case_Status :: CaseStatus
  case_Priority :: CasePriority
  case_AssigneeID :: "string option"
  case_ReporterID :: string
  case_WorkflowID :: "string option"
  case_SLA :: SLA
  case_Tags :: "string list option"
  case_CreatedAt :: time
  case_UpdatedAt :: time
  case_ResolvedAt :: "time option"
  case_ClosedAt :: "time option"

record CaseTransition =
  ct_ID :: string
  ct_CaseID :: string
  ct_FromStatus :: CaseStatus
  ct_ToStatus :: CaseStatus
  ct_Reason :: string
  ct_PerformedBy :: string
  ct_PerformedAt :: time

record Comment =
  cmt_ID :: string
  cmt_CaseID :: string
  cmt_TenantID :: string
  cmt_AuthorID :: string
  cmt_Body :: string
  cmt_CreatedAt :: time
  cmt_UpdatedAt :: time

type_synonym TaskStatus = string

definition TaskStatusTodo :: TaskStatus where "TaskStatusTodo = ''todo''"
definition TaskStatusInProgress :: TaskStatus where "TaskStatusInProgress = ''in_progress''"
definition TaskStatusDone :: TaskStatus where "TaskStatusDone = ''done''"
definition TaskStatusBlocked :: TaskStatus where "TaskStatusBlocked = ''blocked''"

record Task =
  task_ID :: string
  task_CaseID :: string
  task_TenantID :: string
  task_Title :: string
  task_Description :: string
  task_Status :: TaskStatus
  task_AssigneeID :: "string option"
  task_DueAt :: "time option"
  task_CompletedAt :: "time option"
  task_CreatedAt :: time
  task_UpdatedAt :: time

record Transition =
  tr_From :: CaseStatus
  tr_To :: CaseStatus
  tr_Label :: string

record WorkflowTemplate =
  wt_ID :: string
  wt_TenantID :: string
  wt_Name :: string
  wt_Description :: string
  wt_States :: "string list option"
  wt_Transitions :: "Transition list option"
  wt_DefaultPriority :: CasePriority
  wt_SLAHours :: int
  wt_CreatedAt :: time
  wt_UpdatedAt :: time

definition ErrCaseNotFound :: goerr where "ErrCaseNotFound = Sentinel ''case not found''"
definition ErrTaskNotFound :: goerr where "ErrTaskNotFound = Sentinel ''task not found''"
definition ErrWorkflowNotFound :: goerr where "ErrWorkflowNotFound = Sentinel ''workflow not found''"
definition ErrCommentNotFound :: goerr where "ErrCommentNotFound = Sentinel ''comment not found''"
definition ErrInvalidTransition :: goerr where
  "ErrInvalidTransition = Sentinel ''invalid state transition''"
definition ErrInvalidInput :: goerr where "ErrInvalidInput = Sentinel ''invalid input''"
definition ErrPermissionDenied :: goerr where "ErrPermissionDenied = Sentinel ''permission denied''"

lemmas wf_error_defs = ErrCaseNotFound_def ErrTaskNotFound_def ErrWorkflowNotFound_def
  ErrCommentNotFound_def ErrInvalidTransition_def ErrInvalidInput_def ErrPermissionDenied_def

section \<open>Ports\<close>

record CaseFilter =
  cf_Status :: "CaseStatus option"
  cf_Priority :: "CasePriority option"
  cf_AssigneeID :: "string option"
  cf_ReporterID :: "string option"
  cf_Tags :: "string list option"

record 'w CaseRepository =
  cr_Create :: "Case \<Rightarrow> 'w act_err"
  cr_FindByID :: "string \<Rightarrow> ('w, Case) act"
  cr_FindByNumber :: "string \<Rightarrow> string \<Rightarrow> ('w, Case) act"
  cr_Update :: "Case \<Rightarrow> 'w act_err"
  cr_List :: "string \<Rightarrow> CaseFilter \<Rightarrow> int \<Rightarrow> int \<Rightarrow> ('w, Case list \<times> int) act"
  cr_RecordTransition :: "CaseTransition \<Rightarrow> 'w act_err"
  cr_GetTransitionHistory :: "string \<Rightarrow> ('w, CaseTransition list) act"
  cr_NextCaseNumber :: "string \<Rightarrow> ('w, string) act"

record 'w TaskRepository =
  tk_Create :: "Task \<Rightarrow> 'w act_err"
  tk_FindByID :: "string \<Rightarrow> ('w, Task) act"
  tk_ListByCase :: "string \<Rightarrow> ('w, Task list) act"
  tk_Update :: "Task \<Rightarrow> 'w act_err"
  tk_Delete :: "string \<Rightarrow> 'w act_err"

record 'w WorkflowTemplateRepository =
  wr_Create :: "WorkflowTemplate \<Rightarrow> 'w act_err"
  wr_FindByID :: "string \<Rightarrow> ('w, WorkflowTemplate) act"
  wr_ListByTenant :: "string \<Rightarrow> ('w, WorkflowTemplate list) act"
  wr_Update :: "WorkflowTemplate \<Rightarrow> 'w act_err"

record 'w CommentRepository =
  cm_Create :: "Comment \<Rightarrow> 'w act_err"
  cm_FindByID :: "string \<Rightarrow> ('w, Comment) act"
  cm_ListByCase :: "string \<Rightarrow> ('w, Comment list) act"
  cm_Delete :: "string \<Rightarrow> 'w act_err"

record CreateCaseRequest =
  ccr_Title :: string
  ccr_Description :: string
  ccr_Priority :: CasePriority
  ccr_WorkflowID :: "string option"
  ccr_Tags :: "string list option"

record UpdateCaseRequest =
  ucr_Title :: "string option"
  ucr_Description :: "string option"
  ucr_Priority :: "CasePriority option"
  ucr_Tags :: "string list option"

record TransitionRequest =
  trq_ToStatus :: CaseStatus
  trq_Reason :: string
  trq_PerformedBy :: string

record CreateTaskRequest =
  ctr_Title :: string
  ctr_Description :: string
  ctr_AssigneeID :: "string option"
  ctr_DueAt :: "time option"

record UpdateTaskRequest =
  utr_Title :: "string option"
  utr_Description :: "string option"
  utr_Status :: "TaskStatus option"
  utr_AssigneeID :: "string option"
  utr_DueAt :: "time option"

record CreateWorkflowTemplateRequest =
  cwr_Name :: string
  cwr_Description :: string
  cwr_States :: "string list option"
  cwr_Transitions :: "Transition list option"
  cwr_DefaultPriority :: CasePriority
  cwr_SLAHours :: int

record 'w CaseService =
  svc_CreateCase :: "string \<Rightarrow> string \<Rightarrow> CreateCaseRequest \<Rightarrow> ('w, Case) act"
  svc_GetCase :: "string \<Rightarrow> ('w, Case) act"
  svc_UpdateCase :: "string \<Rightarrow> UpdateCaseRequest \<Rightarrow> ('w, Case) act"
  svc_TransitionCase :: "string \<Rightarrow> TransitionRequest \<Rightarrow> ('w, Case) act"
  svc_AssignCase :: "string \<Rightarrow> string \<Rightarrow> ('w, Case) act"
  svc_ListCases :: "string \<Rightarrow> CaseFilter \<Rightarrow> int \<Rightarrow> int \<Rightarrow> ('w, Case list \<times> int) act"
  svc_AddComment :: "string \<Rightarrow> string \<Rightarrow> string \<Rightarrow> ('w, Comment) act"
  svc_ListComments :: "string \<Rightarrow> ('w, Comment list) act"

record 'w TaskService =
  svc_CreateTask :: "string \<Rightarrow> CreateTaskRequest \<Rightarrow> ('w, Task) act"
  svc_GetTask :: "string \<Rightarrow> ('w, Task) act"
  svc_UpdateTask :: "string \<Rightarrow> UpdateTaskRequest \<Rightarrow> ('w, Task) act"
  svc_CompleteTask :: "string \<Rightarrow> ('w, Task) act"
  svc_ListByCase :: "string \<Rightarrow> ('w, Task list) act"

record 'w WorkflowTemplateService =
  svc_CreateTemplate :: "string \<Rightarrow> CreateWorkflowTemplateRequest \<Rightarrow> ('w, WorkflowTemplate) act"
  svc_GetTemplate :: "string \<Rightarrow> ('w, WorkflowTemplate) act"
  svc_ListTemplates :: "string \<Rightarrow> ('w, WorkflowTemplate list) act"

end
