(* ===== verification/Gorm.thy ===== *)
theory Gorm
  imports Prelude
begin

text \<open>
  GORM and the MySQL server behind it are not code of this repository: a table is a parameter of
  the model, a record of the calls the repositories make on it. The locale \<open>gorm_table_laws\<close> states
  what the repositories rely on, as documented: a statement is atomic, \<open>Create\<close> respects the unique
  keys, \<open>First\<close> and \<open>Find\<close> return rows that satisfy the condition, \<open>Save\<close> rewrites the row with
  the primary key of its argument. \<open>mem_table\<close> is an executable table that satisfies the laws and can
  be told to fail; the witnesses run on it.
\<close>

section \<open>Tables and the calls on them\<close>

text \<open>
  \<open>rows\<close> lists the rows of the table in the order of their creation; whatever else the server
  keeps (connections, faults to come) is coded in \<open>tbl_hidden\<close>.
\<close>

record 'm tbl =
  rows :: "'m list"
  tbl_hidden :: nat

datatype 'm sort_order = NoOrder | Asc "'m \<Rightarrow> int" | Desc "'m \<Rightarrow> int"

text \<open>Conditions are predicates on rows; \<open>gorm_Find\<close> takes an optional offset and limit.\<close>

record 'm gorm_table =
  gorm_Create :: "'m \<Rightarrow> 'm tbl \<Rightarrow> goerr option \<times> 'm tbl"
  gorm_First :: "('m \<Rightarrow> bool) \<Rightarrow> 'm tbl \<Rightarrow> (goerr + 'm) \<times> 'm tbl"
  gorm_Save :: "'m \<Rightarrow> 'm tbl \<Rightarrow> goerr option \<times> 'm tbl"
  gorm_Find :: "('m \<Rightarrow> bool) \<Rightarrow> 'm sort_order \<Rightarrow> (int \<times> int) option \<Rightarrow> 'm tbl
    \<Rightarrow> (goerr + 'm list) \<times> 'm tbl"
  gorm_Count :: "('m \<Rightarrow> bool) \<Rightarrow> 'm tbl \<Rightarrow> (goerr + int) \<times> 'm tbl"
  gorm_Update :: "('m \<Rightarrow> bool) \<Rightarrow> ('m \<Rightarrow> 'm) \<Rightarrow> 'm tbl \<Rightarrow> goerr option \<times> 'm tbl"
  gorm_Delete :: "('m \<Rightarrow> bool) \<Rightarrow> 'm tbl \<Rightarrow> goerr option \<times> 'm tbl"

definition ErrRecordNotFound :: goerr where
  "ErrRecordNotFound = Sentinel ''record not found''"

text \<open>A call on one table of the state of a service.\<close>

definition on_table :: "('w \<Rightarrow> 't) \<Rightarrow> (('t \<Rightarrow> 't) \<Rightarrow> 'w \<Rightarrow> 'w) \<Rightarrow> ('t \<Rightarrow> 'r \<times> 't) \<Rightarrow> 'w \<Rightarrow> 'r \<times> 'w" where
  "on_table get upd f w = (let (r, t) = f (get w) in (r, upd (\<lambda>_. t) w))"

text \<open>\<open>fmt.Errorf("...: %w", err)\<close> where there was an error, and the two ways a lookup fails.\<close>

definition wrap_err :: "string \<Rightarrow> goerr option \<Rightarrow> goerr option" where
  "wrap_err pre r = (case r of None \<Rightarrow> None | Some e \<Rightarrow> Some (Errorf pre e ''''))"

definition find_err :: "goerr \<Rightarrow> string \<Rightarrow> goerr \<Rightarrow> goerr" where
  "find_err sentinel pre e = (if errors_Is e ErrRecordNotFound then sentinel else Errorf pre e '''')"

section \<open>The documented behaviour\<close>

fun sorted_by :: "'m sort_order \<Rightarrow> 'm list \<Rightarrow> bool" where
  "sorted_by NoOrder xs = True"
| "sorted_by (Asc f) xs = sorted (map f xs)"
| "sorted_by (Desc f) xs = sorted (rev (map f xs))"

fun window :: "(int \<times> int) option \<Rightarrow> 'm list \<Rightarrow> 'm list" where
  "window None xs = xs"
| "window (Some (off, lim)) xs = take (nat lim) (drop (nat off) xs)"

text \<open>
  What a row looks like once stored may differ from the argument in the columns GORM and the server
  fill in themselves (timestamps): \<open>eqv m m'\<close> says that \<open>m'\<close> is a stored form of \<open>m\<close>.
\<close>

definition inserted :: "('m \<Rightarrow> 'm \<Rightarrow> bool) \<Rightarrow> ('m \<Rightarrow> 'm \<Rightarrow> bool) \<Rightarrow> 'm \<Rightarrow> 'm tbl \<Rightarrow> 'm tbl \<Rightarrow> bool" where
  "inserted eqv conflict m t t' \<longleftrightarrow>
     (\<exists>m'. eqv m m' \<and> rows t' = rows t @ [m']) \<and> (\<forall>x\<in>set (rows t). \<not> conflict x m)"

definition rewritten :: "('m \<Rightarrow> 'm \<Rightarrow> bool) \<Rightarrow> ('m \<Rightarrow> bool) \<Rightarrow> ('m \<Rightarrow> 'm) \<Rightarrow> 'm tbl \<Rightarrow> 'm tbl \<Rightarrow> bool" where
  "rewritten eqv P f t t' \<longleftrightarrow>
     list_all2 (\<lambda>x y. if P x then eqv (f x) y else y = x) (rows t) (rows t')"

text \<open>
  \<open>ready m\<close>: no zero value of \<open>m\<close> stands in a column with a \<open>default\<close> tag, which GORM would replace.
  A failed write may have been applied (the connection can drop after the commit) or not, but it is
  never half applied.
\<close>

locale gorm_table_laws =
  fixes T :: "'m gorm_table"
    and key :: "'m \<Rightarrow> string"
    and conflict :: "'m \<Rightarrow> 'm \<Rightarrow> bool"
    and eqv :: "'m \<Rightarrow> 'm \<Rightarrow> bool"
    and ready :: "'m \<Rightarrow> bool"
  assumes create: "ready m \<Longrightarrow> gorm_Create T m t = (r, t') \<Longrightarrow>
      inserted eqv conflict m t t' \<or> r \<noteq> None \<and> rows t' = rows t"
    and first_rows: "gorm_First T P t = (fr, t') \<Longrightarrow> rows t' = rows t"
    and first_ok: "gorm_First T P t = (Inr m, t') \<Longrightarrow> m \<in> set (rows t) \<and> P m"
    and first_none: "gorm_First T P t = (Inl e, t') \<Longrightarrow> errors_Is e ErrRecordNotFound \<Longrightarrow>
      m \<in> set (rows t) \<Longrightarrow> \<not> P m"
    and save: "key m \<in> key ` set (rows t) \<Longrightarrow> gorm_Save T m t = (r, t') \<Longrightarrow>
      rewritten eqv (\<lambda>x. key x = key m) (\<lambda>_. m) t t' \<or> r \<noteq> None \<and> rows t' = rows t"
    and find_rows: "gorm_Find T P ord win t = (lr, t') \<Longrightarrow> rows t' = rows t"
    and find_ok: "gorm_Find T P ord win t = (Inr ms, t') \<Longrightarrow>
      (\<forall>off lim. win = Some (off, lim) \<longrightarrow> 0 \<le> off \<and> 0 < lim) \<Longrightarrow>
      \<exists>xs. mset xs = mset (filter P (rows t)) \<and> sorted_by ord xs \<and> ms = window win xs"
    and count_rows: "gorm_Count T P t = (cr, t') \<Longrightarrow> rows t' = rows t"
    and count_ok: "gorm_Count T P t = (Inr k, t') \<Longrightarrow> k = int (length (filter P (rows t)))"
    and update: "gorm_Update T P f t = (r, t') \<Longrightarrow>
      rewritten eqv P f t t' \<or> r \<noteq> None \<and> rows t' = rows t"
    and delete: "gorm_Delete T P t = (r, t') \<Longrightarrow>
      rows t' = filter (\<lambda>x. \<not> P x) (rows t) \<or> r \<noteq> None \<and> rows t' = rows t"
    and eqv_key: "eqv m m' \<Longrightarrow> key m' = key m"
begin

lemma create_cases:
  assumes "ready m" "gorm_Create T m t = (r, t')"
  obtains (ins) m' where "eqv m m'" "rows t' = rows t @ [m']" "\<forall>x\<in>set (rows t). \<not> conflict x m"
  | (failed) "r \<noteq> None" "rows t' = rows t"
  using create [OF assms] by (auto simp: inserted_def)

lemma create_okE:
  assumes "ready m" "gorm_Create T m t = (None, t')"
  obtains m' where "eqv m m'" "rows t' = rows t @ [m']" "\<forall>x\<in>set (rows t). \<not> conflict x m"
  using assms by (auto elim: create_cases)

lemma rewritten_keys:
  assumes "rewritten eqv P f t t'" "\<And>x. P x \<Longrightarrow> key (f x) = key x"
  shows "map key (rows t') = map key (rows t)"
proof -
  have "list_all2 (\<lambda>x y. key x = key y) (rows t) (rows t')"
    using assms(1) unfolding rewritten_def
    by (rule list_all2_mono) (auto split: if_splits dest: eqv_key simp: assms(2))
  then show ?thesis by (simp add: list.rel_map list_all2_map1 list_all2_map2 flip: list.rel_eq) (simp add: list_all2_conv_all_nth)
qed

end

lemma rewritten_memD:
  "rewritten eqv P f t t' \<Longrightarrow> y \<in> set (rows t') \<Longrightarrow>
     \<exists>x\<in>set (rows t). if P x then eqv (f x) y else y = x"
  unfolding rewritten_def list_all2_conv_all_nth by (metis in_set_conv_nth)

lemma rewritten_memE:
  "rewritten eqv P f t t' \<Longrightarrow> x \<in> set (rows t) \<Longrightarrow>
     \<exists>y\<in>set (rows t'). if P x then eqv (f x) y else y = x"
  unfolding rewritten_def list_all2_conv_all_nth by (metis in_set_conv_nth)

lemma rewritten_rel:
  "rewritten eqv P f t t' \<Longrightarrow> (\<And>x y. x \<in> set (rows t) \<Longrightarrow> if P x then eqv (f x) y else y = x \<Longrightarrow> Q x y) \<Longrightarrow>
     list_all2 Q (rows t) (rows t')"
  unfolding rewritten_def by (erule list.rel_mono_strong) blast

lemma sorted_by_unique:
  assumes mset: "mset xs = mset ys" and xs: "sorted_by (Desc f) xs" and ys: "sorted_by (Desc f) ys"
    and dist: "distinct (map f xs)"
  shows "xs = ys"
proof -
  have "sort (map f xs) = rev (map f xs)"
    using xs by (intro properties_for_sort) simp_all
  moreover have "mset (map f xs) = mset (map f ys)"
    using mset by (metis mset_map)
  then have "sort (map f xs) = rev (map f ys)"
    using ys by (intro properties_for_sort) simp_all
  ultimately have "map f xs = map f ys" by simp
  moreover have "inj_on f (set xs \<union> set ys)"
    using dist mset_eq_setD [OF mset] by (simp add: distinct_map)
  ultimately show ?thesis by (rule map_inj_on)
qed

text \<open>The laws still hold when less is said about the stored form of a row.\<close>

lemma inserted_mono: "(\<And>m m'. eqv m m' \<Longrightarrow> eqv' m m') \<Longrightarrow> inserted eqv conflict m t t' \<Longrightarrow> inserted eqv' conflict m t t'"
  by (auto simp: inserted_def)

lemma rewritten_mono: "(\<And>m m'. eqv m m' \<Longrightarrow> eqv' m m') \<Longrightarrow> rewritten eqv P f t t' \<Longrightarrow> rewritten eqv' P f t t'"
  unfolding rewritten_def by (erule list_all2_mono) (auto split: if_splits)

lemma gorm_table_laws_mono:
  assumes laws: "gorm_table_laws T key conflict eqv ready"
    and imp: "\<And>m m'. eqv m m' \<Longrightarrow> eqv' m m'" and key: "\<And>m m'. eqv' m m' \<Longrightarrow> key m' = key m"
    and rdy: "\<And>m. ready' m \<Longrightarrow> ready m"
  shows "gorm_table_laws T key conflict eqv' ready'"
proof -
  note L = laws [THEN gorm_table_laws.create] laws [THEN gorm_table_laws.save] laws [THEN gorm_table_laws.update]
  show ?thesis
  proof (unfold_locales, goal_cases)
    case 1 from L(1) [OF rdy [OF 1(1)] 1(2)] show ?case by (elim disj_forward) (rule inserted_mono [OF imp], assumption+)
  next
    case 5 from L(2) [OF 5] show ?case by (elim disj_forward) (rule rewritten_mono [OF imp], assumption+)
  next
    case 10 from L(3) [OF 10] show ?case by (elim disj_forward) (rule rewritten_mono [OF imp], assumption+)
  next
    case 2 then show ?case by (rule gorm_table_laws.first_rows [OF laws])
  next
    case 3 then show ?case by (rule gorm_table_laws.first_ok [OF laws])
  next
    case 4 then show ?case by (rule gorm_table_laws.first_none [OF laws])
  next
    case 6 then show ?case by (rule gorm_table_laws.find_rows [OF laws])
  next
    case 7 then show ?case by (rule gorm_table_laws.find_ok [OF laws])
  next
    case 8 then show ?case by (rule gorm_table_laws.count_rows [OF laws])
  next
    case 9 then show ?case by (rule gorm_table_laws.count_ok [OF laws])
  next
    case 11 then show ?case by (rule gorm_table_laws.delete [OF laws])
  next
    case 12 then show ?case by (rule key)
  qed
qed

section \<open>A reference table\<close>

text \<open>
  \<open>tbl_hidden\<close> counts the calls until one fails: 0 for no failure, \<open>Suc 0\<close> for the next call.
\<close>

definition bad_connection :: goerr where
  "bad_connection = Foreign ''driver: bad connection''"

definition mem_fault :: "'m tbl \<Rightarrow> bool" where
  "mem_fault t \<longleftrightarrow> tbl_hidden t = Suc 0"

definition mem_tick :: "'m tbl \<Rightarrow> 'm tbl" where
  "mem_tick t = t\<lparr>tbl_hidden := tbl_hidden t - 1\<rparr>"

fun mem_sort :: "'m sort_order \<Rightarrow> 'm list \<Rightarrow> 'm list" where
  "mem_sort NoOrder xs = xs"
| "mem_sort (Asc f) xs = sort_key f xs"
| "mem_sort (Desc f) xs = rev (sort_key f xs)"

definition mem_write :: "('m list \<Rightarrow> goerr + 'm list) \<Rightarrow> 'm tbl \<Rightarrow> goerr option \<times> 'm tbl" where
  "mem_write f t =
     (if mem_fault t then (Some bad_connection, mem_tick t)
      else case f (rows t) of
        Inl e \<Rightarrow> (Some e, mem_tick t)
      | Inr ms \<Rightarrow> (None, (mem_tick t)\<lparr>rows := ms\<rparr>))"

definition mem_read :: "('m list \<Rightarrow> goerr + 'a) \<Rightarrow> 'm tbl \<Rightarrow> (goerr + 'a) \<times> 'm tbl" where
  "mem_read f t = (if mem_fault t then Inl bad_connection else f (rows t), mem_tick t)"

definition mem_table :: "('m \<Rightarrow> string) \<Rightarrow> ('m \<Rightarrow> 'm \<Rightarrow> bool) \<Rightarrow> 'm gorm_table" where
  "mem_table key conflict =
     \<lparr>gorm_Create = (\<lambda>m. mem_write (\<lambda>ms. if \<exists>x\<in>set ms. conflict x m
          then Inl (Foreign ''Error 1062: Duplicate entry'') else Inr (ms @ [m]))),
      gorm_First = (\<lambda>P. mem_read (\<lambda>ms. case find P ms of
          None \<Rightarrow> Inl ErrRecordNotFound | Some m \<Rightarrow> Inr m)),
      gorm_Save = (\<lambda>m. mem_write (\<lambda>ms. Inr (map (\<lambda>x. if key x = key m then m else x) ms))),
      gorm_Find = (\<lambda>P ord win. mem_read (\<lambda>ms. Inr (window win (mem_sort ord (filter P ms))))),
      gorm_Count = (\<lambda>P. mem_read (\<lambda>ms. Inr (int (length (filter P ms))))),
      gorm_Update = (\<lambda>P f. mem_write (\<lambda>ms. Inr (map (\<lambda>x. if P x then f x else x) ms))),
      gorm_Delete = (\<lambda>P. mem_write (\<lambda>ms. Inr (filter (\<lambda>x. \<not> P x) ms)))\<rparr>"

lemmas mem_simps = mem_table_def mem_write_def mem_read_def mem_fault_def mem_tick_def

lemma rows_mem_tick [simp]: "rows (mem_tick t) = rows t"
  by (simp add: mem_tick_def)

lemma sorted_by_mem_sort: "sorted_by ord (mem_sort ord xs)"
  by (cases ord) (simp_all add: rev_map)

lemma mset_mem_sort: "mset (mem_sort ord xs) = mset xs"
  by (cases ord) simp_all

interpretation mem: gorm_table_laws "mem_table key conflict" key conflict "(=)" "\<lambda>_. True"
  for key :: "'m \<Rightarrow> string" and conflict
proof (unfold_locales, goal_cases)
  case (1 m t r t') then show ?case
    by (auto simp: mem_table_def mem_write_def inserted_def split: if_splits)
next
  case (4 P t e t' m) then show ?case
    by (auto simp: mem_table_def mem_read_def bad_connection_def ErrRecordNotFound_def find_None_iff
        split: if_splits option.splits)
next
  case (5 m t r t') then show ?case
    by (auto simp: mem_table_def mem_write_def rewritten_def list_all2_conv_all_nth split: if_splits)
next
  case (7 P ord win t ms t') then show ?case
    by (intro exI [of _ "mem_sort ord (filter P (rows t))"])
      (auto simp: mem_table_def mem_read_def sorted_by_mem_sort mset_mem_sort split: if_splits)
next
  case (10 P f t r t') then show ?case
    by (auto simp: mem_table_def mem_write_def rewritten_def list_all2_conv_all_nth split: if_splits)
qed (auto simp: mem_table_def mem_write_def mem_read_def find_Some_iff split: if_splits option.splits)

end
