(* ===== verification/Wf_Repo.thy ===== *)
theory Wf_Repo
  imports Wf_Domain Gorm
begin

text \<open>
  workflow-service: the MySQL repositories of \<open>internal/adapters/mysql\<close> over the tables of
  theory Gorm. \<open>wf_db\<close> is the handle \<open>*gorm.DB\<close>: the six tables, the equality of the collation the
  conditions are evaluated with, and \<open>Transaction\<close>. The state has the rows. Marshalling a list of
  strings never fails, so the conversions from domain values are cnt here.
\<close>

section \<open>Models\<close>

record caseModel =
  cm_ID :: string
  cm_TenantID :: string
  cm_CaseNumber :: string
  cm_Title :: string
  cm_Description :: string
  cm_Status :: string
  cm_Priority :: string
  cm_AssigneeID :: "string option"
  cm_ReporterID :: string
  cm_WorkflowID :: "string option"
  cm_SLADueAt :: "time option"
  cm_SLABreached :: bool
  cm_Tags :: string
  cm_ResolvedAt :: "time option"
  cm_ClosedAt :: "time option"
  cm_CreatedAt :: time
  cm_UpdatedAt :: time

record caseTransitionModel =
  ctm_ID :: string
  ctm_CaseID :: string
  ctm_FromStatus :: string
  ctm_ToStatus :: string
  ctm_Reason :: string
  ctm_PerformedBy :: string
  ctm_PerformedAt :: time

record caseCounterModel =
  ccm_TenantID :: string
  ccm_Counter :: int

record taskModel =
  tm_ID :: string
  tm_CaseID :: string
  tm_TenantID :: string
  tm_Title :: string
  tm_Description :: string
  tm_Status :: string
  tm_AssigneeID :: "string option"
  tm_DueAt :: "time option"
  tm_CompletedAt :: "time option"
  tm_CreatedAt :: time
  tm_UpdatedAt :: time

record workflowTemplateModel =
  wm_ID :: string
  wm_TenantID :: string
  wm_Name :: string
  wm_Description :: string
  wm_States :: string
  wm_Transitions :: string
  wm_DefaultPriority :: string
  wm_SLAHours :: int
  wm_CreatedAt :: time
  wm_UpdatedAt :: time

record commentModel =
  com_ID :: string
  com_CaseID :: string
  com_TenantID :: string
  com_AuthorID :: string
  com_Body :: string
  com_CreatedAt :: time
  com_UpdatedAt :: time

record wf_db =
  db_eq :: "string \<Rightarrow> string \<Rightarrow> bool"
  db_cases :: "caseModel gorm_table"
  db_transitions :: "caseTransitionModel gorm_table"
  db_counters :: "caseCounterModel gorm_table"
  db_tasks :: "taskModel gorm_table"
  db_templates :: "workflowTemplateModel gorm_table"
  db_comments :: "commentModel gorm_table"
  db_Transaction :: "(caseCounterModel tbl \<Rightarrow> (goerr + int) \<times> caseCounterModel tbl)
    \<Rightarrow> caseCounterModel tbl \<Rightarrow> (goerr + int) \<times> caseCounterModel tbl"

record wf_world = env +
  w_cases :: "caseModel tbl"
  w_transitions :: "caseTransitionModel tbl"
  w_counters :: "caseCounterModel tbl"
  w_tasks :: "taskModel tbl"
  w_templates :: "workflowTemplateModel tbl"
  w_comments :: "commentModel tbl"

text \<open>An operation on one table of the state.\<close>

abbreviation "on_cases \<equiv> on_table w_cases w_cases_update"
abbreviation "on_transitions \<equiv> on_table w_transitions w_transitions_update"
abbreviation "on_counters \<equiv> on_table w_counters w_counters_update"
abbreviation "on_tasks \<equiv> on_table w_tasks w_tasks_update"
abbreviation "on_templates \<equiv> on_table w_templates w_templates_update"
abbreviation "on_comments \<equiv> on_table w_comments w_comments_update"

text \<open>\<open>gorm.ErrRecordNotFound\<close> becomes the sentinel of the domain, other errors pass.\<close>

definition not_found_as :: "goerr \<Rightarrow> goerr \<Rightarrow> goerr" where
  "not_found_as sentinel e = (if errors_Is e ErrRecordNotFound then sentinel else e)"

section \<open>case_repository.go\<close>

definition domainCaseToModel :: "Case \<Rightarrow> caseModel" where
  "domainCaseToModel c =
     \<lparr>cm_ID = case_ID c, cm_TenantID = case_TenantID c, cm_CaseNumber = case_CaseNumber c,
      cm_Title = case_Title c, cm_Description = case_Description c, cm_Status = case_Status c,
      cm_Priority = case_Priority c, cm_AssigneeID = case_AssigneeID c,
      cm_ReporterID = case_ReporterID c, cm_WorkflowID = case_WorkflowID c,
      cm_SLADueAt = sla_DueAt (case_SLA c), cm_SLABreached = sla_Breached (case_SLA c),
      cm_Tags = Marshal_strings (case_Tags c), cm_ResolvedAt = case_ResolvedAt c,
      cm_ClosedAt = case_ClosedAt c, cm_CreatedAt = case_CreatedAt c, cm_UpdatedAt = case_UpdatedAt c\<rparr>"

definition column_strings :: "string \<Rightarrow> string list option" where
  "column_strings col =
     (if col = '''' then None
      else case Unmarshal_strings col of None \<Rightarrow> Some [] | Some ss \<Rightarrow> ss)"

definition modelToDomainCase :: "caseModel \<Rightarrow> Case" where
  "modelToDomainCase m =
     \<lparr>case_ID = cm_ID m, case_TenantID = cm_TenantID m, case_CaseNumber = cm_CaseNumber m,
      case_Title = cm_Title m, case_Description = cm_Description m, case_Status = cm_Status m,
      case_Priority = cm_Priority m, case_AssigneeID = cm_AssigneeID m,
      case_ReporterID = cm_ReporterID m, case_WorkflowID = cm_WorkflowID m,
      case_SLA = \<lparr>sla_DueAt = cm_SLADueAt m, sla_Breached = cm_SLABreached m\<rparr>,
      case_Tags = column_strings (cm_Tags m), case_CreatedAt = cm_CreatedAt m,
      case_UpdatedAt = cm_UpdatedAt m, case_ResolvedAt = cm_ResolvedAt m,
      case_ClosedAt = cm_ClosedAt m\<rparr>"

definition caseRepository_Create :: "wf_db \<Rightarrow> Case \<Rightarrow> wf_world act_err" where
  "caseRepository_Create db c = on_cases (gorm_Create (db_cases db) (domainCaseToModel c))"

definition caseRepository_FindByID :: "wf_db \<Rightarrow> string \<Rightarrow> (wf_world, Case) act" where
  "caseRepository_FindByID db ident w =
     (case on_cases (gorm_First (db_cases db) (\<lambda>m. db_eq db (cm_ID m) ident)) w of
        (Inl e, w') \<Rightarrow> (Inl (not_found_as ErrCaseNotFound e), w')
      | (Inr m, w') \<Rightarrow> (Inr (modelToDomainCase m), w'))"

definition caseRepository_FindByNumber :: "wf_db \<Rightarrow> string \<Rightarrow> string \<Rightarrow> (wf_world, Case) act" where
  "caseRepository_FindByNumber db tenantID caseNumber w =
     (case on_cases (gorm_First (db_cases db)
             (\<lambda>m. db_eq db (cm_TenantID m) tenantID \<and> db_eq db (cm_CaseNumber m) caseNumber)) w of
        (Inl e, w') \<Rightarrow> (Inl (not_found_as ErrCaseNotFound e), w')
      | (Inr m, w') \<Rightarrow> (Inr (modelToDomainCase m), w'))"

definition caseRepository_Update :: "wf_db \<Rightarrow> Case \<Rightarrow> wf_world act_err" where
  "caseRepository_Update db c = on_cases (gorm_Save (db_cases db) (domainCaseToModel c))"

text \<open>The condition \<open>List\<close> builds; a nullable column is equal to nothing when it is NULL.\<close>

definition case_where :: "wf_db \<Rightarrow> string \<Rightarrow> CaseFilter \<Rightarrow> caseModel \<Rightarrow> bool" where
  "case_where db tenantID flt m \<longleftrightarrow>
     db_eq db (cm_TenantID m) tenantID \<and>
     (case cf_Status flt of None \<Rightarrow> True | Some s \<Rightarrow> db_eq db (cm_Status m) s) \<and>
     (case cf_Priority flt of None \<Rightarrow> True | Some p \<Rightarrow> db_eq db (cm_Priority m) p) \<and>
     (case cf_AssigneeID flt of None \<Rightarrow> True
      | Some a \<Rightarrow> (case cm_AssigneeID m of None \<Rightarrow> False | Some a' \<Rightarrow> db_eq db a' a)) \<and>
     (case cf_ReporterID flt of None \<Rightarrow> True | Some r \<Rightarrow> db_eq db (cm_ReporterID m) r)"

definition caseRepository_List ::
  "wf_db \<Rightarrow> string \<Rightarrow> CaseFilter \<Rightarrow> int \<Rightarrow> int \<Rightarrow> (wf_world, Case list \<times> int) act" where
  "caseRepository_List db tenantID flt page limit w =
     (case on_cases (gorm_Count (db_cases db) (case_where db tenantID flt)) w of
        (Inl e, w1) \<Rightarrow> (Inl e, w1)
      | (Inr cnt, w1) \<Rightarrow>
         (let offset = wrap64 (wrap64 (page - 1) * limit) in
          case on_cases (gorm_Find (db_cases db) (case_where db tenantID flt)
                  (Desc cm_CreatedAt) (Some (offset, limit))) w1 of
            (Inl e, w2) \<Rightarrow> (Inl e, w2)
          | (Inr models, w2) \<Rightarrow> (Inr (map modelToDomainCase models, cnt), w2)))"

definition caseRepository_RecordTransition :: "wf_db \<Rightarrow> CaseTransition \<Rightarrow> wf_world act_err" where
  "caseRepository_RecordTransition db t =
     on_transitions (gorm_Create (db_transitions db)
       \<lparr>ctm_ID = ct_ID t, ctm_CaseID = ct_CaseID t, ctm_FromStatus = ct_FromStatus t,
        ctm_ToStatus = ct_ToStatus t, ctm_Reason = ct_Reason t, ctm_PerformedBy = ct_PerformedBy t,
        ctm_PerformedAt = ct_PerformedAt t\<rparr>)"

definition caseRepository_GetTransitionHistory ::
  "wf_db \<Rightarrow> string \<Rightarrow> (wf_world, CaseTransition list) act" where
  "caseRepository_GetTransitionHistory db caseID w =
     (case on_transitions (gorm_Find (db_transitions db) (\<lambda>m. db_eq db (ctm_CaseID m) caseID)
             (Asc ctm_PerformedAt) None) w of
        (Inl e, w') \<Rightarrow> (Inl e, w')
      | (Inr models, w') \<Rightarrow>
         (Inr (map (\<lambda>m. \<lparr>ct_ID = ctm_ID m, ct_CaseID = ctm_CaseID m, ct_FromStatus = ctm_FromStatus m,
             ct_ToStatus = ctm_ToStatus m, ct_Reason = ctm_Reason m,
             ct_PerformedBy = ctm_PerformedBy m, ct_PerformedAt = ctm_PerformedAt m\<rparr>) models), w'))"

text \<open>The body of the transaction of \<open>NextCaseNumber\<close>: what is read decides what is written.\<close>

definition counter_read ::
  "wf_db \<Rightarrow> string \<Rightarrow> caseCounterModel tbl \<Rightarrow> (goerr + caseCounterModel) \<times> caseCounterModel tbl" where
  "counter_read db tenantID = gorm_First (db_counters db) (\<lambda>m. db_eq db (ccm_TenantID m) tenantID)"

definition counter_write ::
  "wf_db \<Rightarrow> string \<Rightarrow> goerr + caseCounterModel \<Rightarrow> caseCounterModel tbl
     \<Rightarrow> (goerr + int) \<times> caseCounterModel tbl" where
  "counter_write db tenantID found t =
     (case found of
        Inl e \<Rightarrow>
          if errors_Is e ErrRecordNotFound then
            (case gorm_Create (db_counters db) \<lparr>ccm_TenantID = tenantID, ccm_Counter = 1\<rparr> t of
               (Some e', t') \<Rightarrow> (Inl e', t')
             | (None, t') \<Rightarrow> (Inr 1, t'))
          else (Inl e, t)
      | Inr m \<Rightarrow>
          (let m' = m\<lparr>ccm_Counter := wrap64 (ccm_Counter m + 1)\<rparr> in
           case gorm_Save (db_counters db) m' t of
             (Some e', t') \<Rightarrow> (Inl e', t')
           | (None, t') \<Rightarrow> (Inr (ccm_Counter m'), t')))"

definition counter_body ::
  "wf_db \<Rightarrow> string \<Rightarrow> caseCounterModel tbl \<Rightarrow> (goerr + int) \<times> caseCounterModel tbl" where
  "counter_body db tenantID t =
     (let (found, t1) = counter_read db tenantID t in counter_write db tenantID found t1)"

definition case_prefix :: "'a env_scheme \<Rightarrow> string \<Rightarrow> string" where
  "case_prefix w tenantID =
     (if length tenantID > 5 then strings_ToUpper w (take 5 tenantID) else strings_ToUpper w tenantID)"

definition caseRepository_NextCaseNumber :: "wf_db \<Rightarrow> string \<Rightarrow> (wf_world, string) act" where
  "caseRepository_NextCaseNumber db tenantID w =
     (case on_counters (db_Transaction db (counter_body db tenantID)) w of
        (Inl e, w') \<Rightarrow> (Inl (Errorf ''incrementing case counter: '' e ''''), w')
      | (Inr counter, w') \<Rightarrow>
         (Inr (''CASE-'' @ case_prefix w' tenantID @ ''-'' @ fmt_05d counter), w'))"

definition caseRepository :: "wf_db \<Rightarrow> wf_world CaseRepository" where
  "caseRepository db =
     \<lparr>cr_Create = caseRepository_Create db, cr_FindByID = caseRepository_FindByID db,
      cr_FindByNumber = caseRepository_FindByNumber db, cr_Update = caseRepository_Update db,
      cr_List = caseRepository_List db, cr_RecordTransition = caseRepository_RecordTransition db,
      cr_GetTransitionHistory = caseRepository_GetTransitionHistory db,
      cr_NextCaseNumber = caseRepository_NextCaseNumber db\<rparr>"

section \<open>task_repository.go\<close>

definition domainTaskToModel :: "Task \<Rightarrow> taskModel" where
  "domainTaskToModel t =
     \<lparr>tm_ID = task_ID t, tm_CaseID = task_CaseID t, tm_TenantID = task_TenantID t,
      tm_Title = task_Title t, tm_Description = task_Description t, tm_Status = task_Status t,
      tm_AssigneeID = task_AssigneeID t, tm_DueAt = task_DueAt t,
      tm_CompletedAt = task_CompletedAt t, tm_CreatedAt = task_CreatedAt t,
      tm_UpdatedAt = task_UpdatedAt t\<rparr>"

definition modelToDomainTask :: "taskModel \<Rightarrow> Task" where
  "modelToDomainTask m =
     \<lparr>task_ID = tm_ID m, task_CaseID = tm_CaseID m, task_TenantID = tm_TenantID m,
      task_Title = tm_Title m, task_Description = tm_Description m, task_Status = tm_Status m,
      task_AssigneeID = tm_AssigneeID m, task_DueAt = tm_DueAt m,
      task_CompletedAt = tm_CompletedAt m, task_CreatedAt = tm_CreatedAt m,
      task_UpdatedAt = tm_UpdatedAt m\<rparr>"

definition taskRepository_Create :: "wf_db \<Rightarrow> Task \<Rightarrow> wf_world act_err" where
  "taskRepository_Create db task = on_tasks (gorm_Create (db_tasks db) (domainTaskToModel task))"

definition taskRepository_FindByID :: "wf_db \<Rightarrow> string \<Rightarrow> (wf_world, Task) act" where
  "taskRepository_FindByID db ident w =
     (case on_tasks (gorm_First (db_tasks db) (\<lambda>m. db_eq db (tm_ID m) ident)) w of
        (Inl e, w') \<Rightarrow> (Inl (not_found_as ErrTaskNotFound e), w')
      | (Inr m, w') \<Rightarrow> (Inr (modelToDomainTask m), w'))"

definition taskRepository_ListByCase :: "wf_db \<Rightarrow> string \<Rightarrow> (wf_world, Task list) act" where
  "taskRepository_ListByCase db caseID w =
     (case on_tasks (gorm_Find (db_tasks db) (\<lambda>m. db_eq db (tm_CaseID m) caseID)
             (Asc tm_CreatedAt) None) w of
        (Inl e, w') \<Rightarrow> (Inl e, w')
      | (Inr models, w') \<Rightarrow> (Inr (map modelToDomainTask models), w'))"

definition taskRepository_Update :: "wf_db \<Rightarrow> Task \<Rightarrow> wf_world act_err" where
  "taskRepository_Update db task = on_tasks (gorm_Save (db_tasks db) (domainTaskToModel task))"

definition taskRepository_Delete :: "wf_db \<Rightarrow> string \<Rightarrow> wf_world act_err" where
  "taskRepository_Delete db ident = on_tasks (gorm_Delete (db_tasks db) (\<lambda>m. db_eq db (tm_ID m) ident))"

definition taskRepository :: "wf_db \<Rightarrow> wf_world TaskRepository" where
  "taskRepository db =
     \<lparr>tk_Create = taskRepository_Create db, tk_FindByID = taskRepository_FindByID db,
      tk_ListByCase = taskRepository_ListByCase db, tk_Update = taskRepository_Update db,
      tk_Delete = taskRepository_Delete db\<rparr>"

section \<open>workflow_template_repository.go\<close>

text \<open>\<open>transitionJSON\<close> as a value tree, and back.\<close>

definition transition_json :: "Transition \<Rightarrow> json" where
  "transition_json t =
     JObj [(''from'', JStr (tr_From t)), (''to'', JStr (tr_To t)), (''label'', JStr (tr_Label t))]"

definition set_transition :: "json \<Rightarrow> Transition \<Rightarrow> Transition option" where
  "set_transition v t =
     (case members v of
        None \<Rightarrow> None
      | Some kvs \<Rightarrow>
         (case (field ''from'' set_string kvs (tr_From t), field ''to'' set_string kvs (tr_To t),
                field ''label'' set_string kvs (tr_Label t)) of
            (Some f, Some u, Some l) \<Rightarrow> Some \<lparr>tr_From = f, tr_To = u, tr_Label = l\<rparr>
          | _ \<Rightarrow> None))"

definition zero_transition :: Transition where
  "zero_transition = \<lparr>tr_From = '''', tr_To = '''', tr_Label = ''''\<rparr>"

definition Marshal_transitions :: "Transition list \<Rightarrow> string" where
  "Marshal_transitions ts = json_text (JArr (map transition_json ts))"

definition column_transitions :: "string \<Rightarrow> Transition list" where
  "column_transitions col =
     (if col = '''' then []
      else case json_parse col of
        None \<Rightarrow> []
      | Some v \<Rightarrow> (case set_slice set_transition zero_transition v None of
           None \<Rightarrow> [] | Some ts \<Rightarrow> elems ts))"

definition domainWFToModel :: "WorkflowTemplate \<Rightarrow> workflowTemplateModel" where
  "domainWFToModel t =
     \<lparr>wm_ID = wt_ID t, wm_TenantID = wt_TenantID t, wm_Name = wt_Name t,
      wm_Description = wt_Description t, wm_States = Marshal_strings (wt_States t),
      wm_Transitions = Marshal_transitions (elems (wt_Transitions t)),
      wm_DefaultPriority = wt_DefaultPriority t, wm_SLAHours = wt_SLAHours t,
      wm_CreatedAt = wt_CreatedAt t, wm_UpdatedAt = wt_UpdatedAt t\<rparr>"

definition modelToDomainWF :: "workflowTemplateModel \<Rightarrow> WorkflowTemplate" where
  "modelToDomainWF m =
     \<lparr>wt_ID = wm_ID m, wt_TenantID = wm_TenantID m, wt_Name = wm_Name m,
      wt_Description = wm_Description m, wt_States = column_strings (wm_States m),
      wt_Transitions = Some (column_transitions (wm_Transitions m)),
      wt_DefaultPriority = wm_DefaultPriority m, wt_SLAHours = wm_SLAHours m,
      wt_CreatedAt = wm_CreatedAt m, wt_UpdatedAt = wm_UpdatedAt m\<rparr>"

definition workflowTemplateRepository_Create :: "wf_db \<Rightarrow> WorkflowTemplate \<Rightarrow> wf_world act_err" where
  "workflowTemplateRepository_Create db t =
     on_templates (gorm_Create (db_templates db) (domainWFToModel t))"

definition workflowTemplateRepository_FindByID ::
  "wf_db \<Rightarrow> string \<Rightarrow> (wf_world, WorkflowTemplate) act" where
  "workflowTemplateRepository_FindByID db ident w =
     (case on_templates (gorm_First (db_templates db) (\<lambda>m. db_eq db (wm_ID m) ident)) w of
        (Inl e, w') \<Rightarrow> (Inl (not_found_as ErrWorkflowNotFound e), w')
      | (Inr m, w') \<Rightarrow> (Inr (modelToDomainWF m), w'))"

definition workflowTemplateRepository_ListByTenant ::
  "wf_db \<Rightarrow> string \<Rightarrow> (wf_world, WorkflowTemplate list) act" where
  "workflowTemplateRepository_ListByTenant db tenantID w =
     (case on_templates (gorm_Find (db_templates db) (\<lambda>m. db_eq db (wm_TenantID m) tenantID)
             (Desc wm_CreatedAt) None) w of
        (Inl e, w') \<Rightarrow> (Inl e, w')
      | (Inr models, w') \<Rightarrow> (Inr (map modelToDomainWF models), w'))"

definition workflowTemplateRepository_Update :: "wf_db \<Rightarrow> WorkflowTemplate \<Rightarrow> wf_world act_err" where
  "workflowTemplateRepository_Update db t =
     on_templates (gorm_Save (db_templates db) (domainWFToModel t))"

definition workflowTemplateRepository :: "wf_db \<Rightarrow> wf_world WorkflowTemplateRepository" where
  "workflowTemplateRepository db =
     \<lparr>wr_Create = workflowTemplateRepository_Create db,
      wr_FindByID = workflowTemplateRepository_FindByID db,
      wr_ListByTenant = workflowTemplateRepository_ListByTenant db,
      wr_Update = workflowTemplateRepository_Update db\<rparr>"

section \<open>comment_repository.go\<close>

definition commentToModel :: "Comment \<Rightarrow> commentModel" where
  "commentToModel c =
     \<lparr>com_ID = cmt_ID c, com_CaseID = cmt_CaseID c, com_TenantID = cmt_TenantID c,
      com_AuthorID = cmt_AuthorID c, com_Body = cmt_Body c, com_CreatedAt = cmt_CreatedAt c,
      com_UpdatedAt = cmt_UpdatedAt c\<rparr>"

definition modelToComment :: "commentModel \<Rightarrow> Comment" where
  "modelToComment m =
     \<lparr>cmt_ID = com_ID m, cmt_CaseID = com_CaseID m, cmt_TenantID = com_TenantID m,
      cmt_AuthorID = com_AuthorID m, cmt_Body = com_Body m, cmt_CreatedAt = com_CreatedAt m,
      cmt_UpdatedAt = com_UpdatedAt m\<rparr>"

definition commentRepository_Create :: "wf_db \<Rightarrow> Comment \<Rightarrow> wf_world act_err" where
  "commentRepository_Create db c = on_comments (gorm_Create (db_comments db) (commentToModel c))"

definition commentRepository_FindByID :: "wf_db \<Rightarrow> string \<Rightarrow> (wf_world, Comment) act" where
  "commentRepository_FindByID db ident w =
     (case on_comments (gorm_First (db_comments db) (\<lambda>m. db_eq db (com_ID m) ident)) w of
        (Inl e, w') \<Rightarrow> (Inl (not_found_as ErrCommentNotFound e), w')
      | (Inr m, w') \<Rightarrow> (Inr (modelToComment m), w'))"

definition commentRepository_ListByCase :: "wf_db \<Rightarrow> string \<Rightarrow> (wf_world, Comment list) act" where
  "commentRepository_ListByCase db caseID w =
     (case on_comments (gorm_Find (db_comments db) (\<lambda>m. db_eq db (com_CaseID m) caseID)
             (Asc com_CreatedAt) None) w of
        (Inl e, w') \<Rightarrow> (Inl e, w')
      | (Inr models, w') \<Rightarrow> (Inr (map modelToComment models), w'))"

definition commentRepository_Delete :: "wf_db \<Rightarrow> string \<Rightarrow> wf_world act_err" where
  "commentRepository_Delete db ident =
     on_comments (gorm_Delete (db_comments db) (\<lambda>m. db_eq db (com_ID m) ident))"

definition commentRepository :: "wf_db \<Rightarrow> wf_world CommentRepository" where
  "commentRepository db =
     \<lparr>cm_Create = commentRepository_Create db, cm_FindByID = commentRepository_FindByID db,
      cm_ListByCase = commentRepository_ListByCase db, cm_Delete = commentRepository_Delete db\<rparr>"

end
