(* ===== verification/Wf_Service.thy ===== *)
theory Wf_Service
  imports Wf_Domain
begin

text \<open>
  workflow-service: the application services of \<open>internal/application\<close>, one definition per method,
  over any implementation of the ports. A struct of dependencies is a record; the logger has no
  effect in the model and is left out.
\<close>

section \<open>case_service.go\<close>

record 'w caseService =
  cs_caseRepo :: "'w CaseRepository"
  cs_workflowRepo :: "'w WorkflowTemplateRepository"
  cs_commentRepo :: "'w CommentRepository"

fun isTransitionAllowed :: "Transition list \<Rightarrow> CaseStatus \<Rightarrow> CaseStatus \<Rightarrow> bool" where
  "isTransitionAllowed [] frm to = False"
| "isTransitionAllowed (t # ts) frm to =
     (if tr_From t = frm \<and> tr_To t = to then True else isTransitionAllowed ts frm to)"

lemma isTransitionAllowed_iff:
  "isTransitionAllowed ts frm to \<longleftrightarrow> (\<exists>t\<in>set ts. tr_From t = frm \<and> tr_To t = to)"
  by (induction ts) auto

text \<open>The deadline of a case from its template (the block \<open>Resolve SLA\<close> of \<open>CreateCase\<close>).\<close>

definition resolveSLA ::
  "'w caseService \<Rightarrow> time \<Rightarrow> string option \<Rightarrow> Case \<Rightarrow> 'w \<Rightarrow> Case \<times> 'w" where
  "resolveSLA s now workflowID c w =
     (case workflowID of
        None \<Rightarrow> (c, w)
      | Some wfID \<Rightarrow>
         if wfID = '''' then (c, w)
         else (case wr_FindByID (cs_workflowRepo s) wfID w of
            (Inl e, w') \<Rightarrow> (c, w')
          | (Inr tmpl, w') \<Rightarrow>
             if wt_SLAHours tmpl > 0 then
               (let dueAt = now + Duration_mul (wt_SLAHours tmpl) Hour;
                    c1 = c\<lparr>case_SLA := \<lparr>sla_DueAt = Some dueAt, sla_Breached = False\<rparr>\<rparr>
                in (if case_Priority c1 = '''' then c1\<lparr>case_Priority := wt_DefaultPriority tmpl\<rparr> else c1, w'))
             else (c, w')))"

definition caseService_CreateCase ::
  "'a env_scheme caseService \<Rightarrow> string \<Rightarrow> string \<Rightarrow> CreateCaseRequest \<Rightarrow> ('a env_scheme, Case) act" where
  "caseService_CreateCase s tenantID reporterID req w =
     (if TrimSpace (ccr_Title req) = '''' then
        (Inl (Errorf '''' ErrInvalidInput '': title is required''), w)
      else if tenantID = '''' then (Inl (Errorf '''' ErrInvalidInput '': tenantID is required''), w)
      else if reporterID = '''' then (Inl (Errorf '''' ErrInvalidInput '': reporterID is required''), w)
      else (case cr_NextCaseNumber (cs_caseRepo s) tenantID w of
         (Inl e, w1) \<Rightarrow> (Inl (Errorf ''generating case number: '' e ''''), w1)
       | (Inr caseNumber, w1) \<Rightarrow>
          (let (now, w2) = time_Now w1;
               (ident, w3) = uuid_NewString w2;
               c0 = \<lparr>case_ID = ident, case_TenantID = tenantID, case_CaseNumber = caseNumber,
                     case_Title = ccr_Title req, case_Description = ccr_Description req,
                     case_Status = CaseStatusNew, case_Priority = ccr_Priority req,
                     case_AssigneeID = None, case_ReporterID = reporterID,
                     case_WorkflowID = ccr_WorkflowID req,
                     case_SLA = \<lparr>sla_DueAt = None, sla_Breached = False\<rparr>,
                     case_Tags = ccr_Tags req, case_CreatedAt = now, case_UpdatedAt = now,
                     case_ResolvedAt = None, case_ClosedAt = None\<rparr>;
               c1 = (if case_Priority c0 = '''' then c0\<lparr>case_Priority := PriorityMedium\<rparr> else c0);
               (c2, w4) = resolveSLA s now (ccr_WorkflowID req) c1 w3
           in case cr_Create (cs_caseRepo s) c2 w4 of
                (Some e, w5) \<Rightarrow> (Inl (Errorf ''creating case: '' e ''''), w5)
              | (None, w5) \<Rightarrow> (Inr c2, w5))))"

definition caseService_GetCase ::
  "'a env_scheme caseService \<Rightarrow> string \<Rightarrow> ('a env_scheme, Case) act" where
  "caseService_GetCase s ident w =
     (case cr_FindByID (cs_caseRepo s) ident w of
        (Inl e, w1) \<Rightarrow> (Inl e, w1)
      | (Inr c, w1) \<Rightarrow>
         (case sla_DueAt (case_SLA c) of
            None \<Rightarrow> (Inr c, w1)
          | Some dueAt \<Rightarrow>
             if sla_Breached (case_SLA c) then (Inr c, w1)
             else (let (now, w2) = time_Now w1 in
               if dueAt < now then
                 (let c1 = c\<lparr>case_SLA := (case_SLA c)\<lparr>sla_Breached := True\<rparr>\<rparr>;
                      (_, w3) = cr_Update (cs_caseRepo s) c1 w2
                  in (Inr c1, w3))
               else (Inr c, w2))))"

definition caseService_UpdateCase ::
  "'a env_scheme caseService \<Rightarrow> string \<Rightarrow> UpdateCaseRequest \<Rightarrow> ('a env_scheme, Case) act" where
  "caseService_UpdateCase s ident req w =
     (case cr_FindByID (cs_caseRepo s) ident w of
        (Inl e, w1) \<Rightarrow> (Inl e, w1)
      | (Inr c, w1) \<Rightarrow>
         if (case ucr_Title req of None \<Rightarrow> False | Some t \<Rightarrow> TrimSpace t = '''')
         then (Inl (Errorf '''' ErrInvalidInput '': title cannot be empty''), w1)
         else
           (let c1 = (case ucr_Title req of None \<Rightarrow> c | Some t \<Rightarrow> c\<lparr>case_Title := t\<rparr>);
                c2 = (case ucr_Description req of None \<Rightarrow> c1 | Some d \<Rightarrow> c1\<lparr>case_Description := d\<rparr>);
                c3 = (case ucr_Priority req of None \<Rightarrow> c2 | Some p \<Rightarrow> c2\<lparr>case_Priority := p\<rparr>);
                c4 = (case ucr_Tags req of None \<Rightarrow> c3 | Some ts \<Rightarrow> c3\<lparr>case_Tags := Some ts\<rparr>);
                (now, w2) = time_Now w1;
                c5 = c4\<lparr>case_UpdatedAt := now\<rparr>
            in case cr_Update (cs_caseRepo s) c5 w2 of
                 (Some e, w3) \<Rightarrow> (Inl (Errorf ''updating case: '' e ''''), w3)
               | (None, w3) \<Rightarrow> (Inr c5, w3)))"

text \<open>The lookup of the template in \<open>TransitionCase\<close>: an error of the repository lets the move pass.\<close>

definition checkTransition ::
  "'w caseService \<Rightarrow> Case \<Rightarrow> CaseStatus \<Rightarrow> 'w \<Rightarrow> bool \<times> 'w" where
  "checkTransition s c to w =
     (case case_WorkflowID c of
        None \<Rightarrow> (True, w)
      | Some wfID \<Rightarrow>
         if wfID = '''' then (True, w)
         else (case wr_FindByID (cs_workflowRepo s) wfID w of
            (Inl e, w') \<Rightarrow> (True, w')
          | (Inr tmpl, w') \<Rightarrow> (isTransitionAllowed (elems (wt_Transitions tmpl)) (case_Status c) to, w')))"

definition transitioned :: "Case \<Rightarrow> CaseStatus \<Rightarrow> time \<Rightarrow> Case" where
  "transitioned c to now =
     (let c1 = c\<lparr>case_Status := to, case_UpdatedAt := now\<rparr>;
          c2 = (if to = CaseStatusResolved then c1\<lparr>case_ResolvedAt := Some now\<rparr> else c1);
          c3 = (if to = CaseStatusClosed then c2\<lparr>case_ClosedAt := Some now\<rparr> else c2)
      in case sla_DueAt (case_SLA c3) of
           None \<Rightarrow> c3
         | Some dueAt \<Rightarrow>
            if \<not> sla_Breached (case_SLA c3) \<and> dueAt < now
            then c3\<lparr>case_SLA := (case_SLA c3)\<lparr>sla_Breached := True\<rparr>\<rparr> else c3)"

definition caseService_TransitionCase ::
  "'a env_scheme caseService \<Rightarrow> string \<Rightarrow> TransitionRequest \<Rightarrow> ('a env_scheme, Case) act" where
  "caseService_TransitionCase s ident req w =
     (case cr_FindByID (cs_caseRepo s) ident w of
        (Inl e, w1) \<Rightarrow> (Inl e, w1)
      | (Inr c, w1) \<Rightarrow>
         if case_Status c = trq_ToStatus req then (Inr c, w1)
         else (case checkTransition s c (trq_ToStatus req) w1 of
            (False, w2) \<Rightarrow>
              (Inl (Errorf '''' ErrInvalidTransition
                 ('': cannot transition from '' @ case_Status c @ '' to '' @ trq_ToStatus req)), w2)
          | (True, w2) \<Rightarrow>
             (let (now, w3) = time_Now w2;
                  c1 = transitioned c (trq_ToStatus req) now
              in case cr_Update (cs_caseRepo s) c1 w3 of
                   (Some e, w4) \<Rightarrow> (Inl (Errorf ''updating case status: '' e ''''), w4)
                 | (None, w4) \<Rightarrow>
                    (let (tid, w5) = uuid_NewString w4;
                         (_, w6) = cr_RecordTransition (cs_caseRepo s)
                           \<lparr>ct_ID = tid, ct_CaseID = case_ID c1, ct_FromStatus = case_Status c,
                            ct_ToStatus = trq_ToStatus req, ct_Reason = trq_Reason req,
                            ct_PerformedBy = trq_PerformedBy req, ct_PerformedAt = now\<rparr> w5
                     in (Inr c1, w6)))))"

definition caseService_AssignCase ::
  "'a env_scheme caseService \<Rightarrow> string \<Rightarrow> string \<Rightarrow> ('a env_scheme, Case) act" where
  "caseService_AssignCase s ident assigneeID w =
     (case cr_FindByID (cs_caseRepo s) ident w of
        (Inl e, w1) \<Rightarrow> (Inl e, w1)
      | (Inr c, w1) \<Rightarrow>
         (let (now, w2) = time_Now w1;
              c1 = c\<lparr>case_AssigneeID := Some assigneeID, case_UpdatedAt := now\<rparr>
          in case cr_Update (cs_caseRepo s) c1 w2 of
               (Some e, w3) \<Rightarrow> (Inl (Errorf ''assigning case: '' e ''''), w3)
             | (None, w3) \<Rightarrow> (Inr c1, w3)))"

definition caseService_ListCases ::
  "'w caseService \<Rightarrow> string \<Rightarrow> CaseFilter \<Rightarrow> int \<Rightarrow> int \<Rightarrow> ('w, Case list \<times> int) act" where
  "caseService_ListCases s tenantID flt page limit w =
     (let page1 = (if page < 1 then 1 else page);
          limit1 = (if limit < 1 \<or> limit > 100 then 20 else limit)
      in cr_List (cs_caseRepo s) tenantID flt page1 limit1 w)"

definition caseService_AddComment ::
  "'a env_scheme caseService \<Rightarrow> string \<Rightarrow> string \<Rightarrow> string \<Rightarrow> ('a env_scheme, Comment) act" where
  "caseService_AddComment s caseID authorID body w =
     (if TrimSpace body = '''' then
        (Inl (Errorf '''' ErrInvalidInput '': comment body is required''), w)
      else (case cr_FindByID (cs_caseRepo s) caseID w of
         (Inl e, w1) \<Rightarrow> (Inl e, w1)
       | (Inr c, w1) \<Rightarrow>
          (let (now, w2) = time_Now w1;
               (cid, w3) = uuid_NewString w2;
               comment = \<lparr>cmt_ID = cid, cmt_CaseID = caseID, cmt_TenantID = case_TenantID c,
                          cmt_AuthorID = authorID, cmt_Body = body, cmt_CreatedAt = now,
                          cmt_UpdatedAt = now\<rparr>
           in case cm_Create (cs_commentRepo s) comment w3 of
                (Some e, w4) \<Rightarrow> (Inl (Errorf ''creating comment: '' e ''''), w4)
              | (None, w4) \<Rightarrow> (Inr comment, w4))))"

definition caseService_ListComments :: "'w caseService \<Rightarrow> string \<Rightarrow> ('w, Comment list) act" where
  "caseService_ListComments s caseID w = cm_ListByCase (cs_commentRepo s) caseID w"

definition NewCaseService ::
  "'a env_scheme CaseRepository \<Rightarrow> 'a env_scheme WorkflowTemplateRepository
     \<Rightarrow> 'a env_scheme CommentRepository \<Rightarrow> 'a env_scheme CaseService" where
  "NewCaseService caseRepo workflowRepo commentRepo =
     (let s = \<lparr>cs_caseRepo = caseRepo, cs_workflowRepo = workflowRepo, cs_commentRepo = commentRepo\<rparr>
      in \<lparr>svc_CreateCase = caseService_CreateCase s, svc_GetCase = caseService_GetCase s,
          svc_UpdateCase = caseService_UpdateCase s, svc_TransitionCase = caseService_TransitionCase s,
          svc_AssignCase = caseService_AssignCase s, svc_ListCases = caseService_ListCases s,
          svc_AddComment = caseService_AddComment s, svc_ListComments = caseService_ListComments s\<rparr>)"

section \<open>task_service.go\<close>

record 'w taskService =
  ts_taskRepo :: "'w TaskRepository"
  ts_caseRepo :: "'w CaseRepository"

definition taskService_CreateTask ::
  "'a env_scheme taskService \<Rightarrow> string \<Rightarrow> CreateTaskRequest \<Rightarrow> ('a env_scheme, Task) act" where
  "taskService_CreateTask s caseID req w =
     (if TrimSpace (ctr_Title req) = '''' then
        (Inl (Errorf '''' ErrInvalidInput '': title is required''), w)
      else (case cr_FindByID (ts_caseRepo s) caseID w of
         (Inl e, w1) \<Rightarrow> (Inl e, w1)
       | (Inr c, w1) \<Rightarrow>
          (let (now, w2) = time_Now w1;
               (tid, w3) = uuid_NewString w2;
               task = \<lparr>task_ID = tid, task_CaseID = caseID, task_TenantID = case_TenantID c,
                       task_Title = ctr_Title req, task_Description = ctr_Description req,
                       task_Status = TaskStatusTodo, task_AssigneeID = ctr_AssigneeID req,
                       task_DueAt = ctr_DueAt req, task_CompletedAt = None,
                       task_CreatedAt = now, task_UpdatedAt = now\<rparr>
           in case tk_Create (ts_taskRepo s) task w3 of
                (Some e, w4) \<Rightarrow> (Inl (Errorf ''creating task: '' e ''''), w4)
              | (None, w4) \<Rightarrow> (Inr task, w4))))"

definition taskService_GetTask :: "'w taskService \<Rightarrow> string \<Rightarrow> ('w, Task) act" where
  "taskService_GetTask s ident w = tk_FindByID (ts_taskRepo s) ident w"

text \<open>The fields of the request written over those of the task.\<close>

definition updatedTask ::
  "UpdateTaskRequest \<Rightarrow> Task \<Rightarrow> 'a env_scheme \<Rightarrow> Task \<times> 'a env_scheme" where
  "updatedTask req task w1 =
     (let t1 = (case utr_Title req of None \<Rightarrow> task | Some t \<Rightarrow> task\<lparr>task_Title := t\<rparr>);
          t2 = (case utr_Description req of None \<Rightarrow> t1 | Some d \<Rightarrow> t1\<lparr>task_Description := d\<rparr>);
          (t3, w2) =
            (case utr_Status req of
               None \<Rightarrow> (t2, w1)
             | Some st \<Rightarrow>
                (let t' = t2\<lparr>task_Status := st\<rparr> in
                 if st = TaskStatusDone \<and> task_CompletedAt t' = None then
                   (let (now, w') = time_Now w1 in (t'\<lparr>task_CompletedAt := Some now\<rparr>, w'))
                 else (t', w1)));
          t4 = (case utr_AssigneeID req of None \<Rightarrow> t3 | Some a \<Rightarrow> t3\<lparr>task_AssigneeID := Some a\<rparr>);
          t5 = (case utr_DueAt req of None \<Rightarrow> t4 | Some d \<Rightarrow> t4\<lparr>task_DueAt := Some d\<rparr>);
          (now, w3) = time_Now w2
      in (t5\<lparr>task_UpdatedAt := now\<rparr>, w3))"

definition taskService_UpdateTask ::
  "'a env_scheme taskService \<Rightarrow> string \<Rightarrow> UpdateTaskRequest \<Rightarrow> ('a env_scheme, Task) act" where
  "taskService_UpdateTask s ident req w =
     (case tk_FindByID (ts_taskRepo s) ident w of
        (Inl e, w1) \<Rightarrow> (Inl e, w1)
      | (Inr task, w1) \<Rightarrow>
         if (case utr_Title req of None \<Rightarrow> False | Some t \<Rightarrow> TrimSpace t = '''')
         then (Inl (Errorf '''' ErrInvalidInput '': title cannot be empty''), w1)
         else
           (let (t1, w2) = updatedTask req task w1
            in case tk_Update (ts_taskRepo s) t1 w2 of
                 (Some e, w3) \<Rightarrow> (Inl (Errorf ''updating task: '' e ''''), w3)
               | (None, w3) \<Rightarrow> (Inr t1, w3)))"

definition taskService_CompleteTask ::
  "'a env_scheme taskService \<Rightarrow> string \<Rightarrow> ('a env_scheme, Task) act" where
  "taskService_CompleteTask s ident w =
     (case tk_FindByID (ts_taskRepo s) ident w of
        (Inl e, w1) \<Rightarrow> (Inl e, w1)
      | (Inr task, w1) \<Rightarrow>
         (let (now, w2) = time_Now w1;
              t1 = task\<lparr>task_Status := TaskStatusDone, task_CompletedAt := Some now, task_UpdatedAt := now\<rparr>
          in case tk_Update (ts_taskRepo s) t1 w2 of
               (Some e, w3) \<Rightarrow> (Inl (Errorf ''completing task: '' e ''''), w3)
             | (None, w3) \<Rightarrow> (Inr t1, w3)))"

definition taskService_ListByCase :: "'w taskService \<Rightarrow> string \<Rightarrow> ('w, Task list) act" where
  "taskService_ListByCase s caseID w = tk_ListByCase (ts_taskRepo s) caseID w"

definition NewTaskService ::
  "'a env_scheme TaskRepository \<Rightarrow> 'a env_scheme CaseRepository \<Rightarrow> 'a env_scheme TaskService" where
  "NewTaskService taskRepo caseRepo =
     (let s = \<lparr>ts_taskRepo = taskRepo, ts_caseRepo = caseRepo\<rparr>
      in \<lparr>svc_CreateTask = taskService_CreateTask s, svc_GetTask = taskService_GetTask s,
          svc_UpdateTask = taskService_UpdateTask s, svc_CompleteTask = taskService_CompleteTask s,
          svc_ListByCase = taskService_ListByCase s\<rparr>)"

section \<open>workflow_service.go\<close>

record 'w workflowService =
  ws_wfRepo :: "'w WorkflowTemplateRepository"

definition workflowService_CreateTemplate ::
  "'a env_scheme workflowService \<Rightarrow> string \<Rightarrow> CreateWorkflowTemplateRequest
     \<Rightarrow> ('a env_scheme, WorkflowTemplate) act" where
  "workflowService_CreateTemplate s tenantID req w =
     (if TrimSpace (cwr_Name req) = '''' then
        (Inl (Errorf '''' ErrInvalidInput '': name is required''), w)
      else if tenantID = '''' then (Inl (Errorf '''' ErrInvalidInput '': tenantID is required''), w)
      else
        (let (now, w1) = time_Now w;
             (ident, w2) = uuid_NewString w1;
             tmpl0 = \<lparr>wt_ID = ident, wt_TenantID = tenantID, wt_Name = cwr_Name req,
                    wt_Description = cwr_Description req, wt_States = cwr_States req,
                    wt_Transitions = cwr_Transitions req,
                    wt_DefaultPriority = cwr_DefaultPriority req, wt_SLAHours = cwr_SLAHours req,
                    wt_CreatedAt = now, wt_UpdatedAt = now\<rparr>;
             tmpl = (if wt_DefaultPriority tmpl0 = '''' then tmpl0\<lparr>wt_DefaultPriority := PriorityMedium\<rparr> else tmpl0)
         in case wr_Create (ws_wfRepo s) tmpl w2 of
              (Some e, w3) \<Rightarrow> (Inl (Errorf ''creating workflow template: '' e ''''), w3)
            | (None, w3) \<Rightarrow> (Inr tmpl, w3)))"

definition workflowService_GetTemplate ::
  "'w workflowService \<Rightarrow> string \<Rightarrow> ('w, WorkflowTemplate) act" where
  "workflowService_GetTemplate s ident w = wr_FindByID (ws_wfRepo s) ident w"

definition workflowService_ListTemplates ::
  "'w workflowService \<Rightarrow> string \<Rightarrow> ('w, WorkflowTemplate list) act" where
  "workflowService_ListTemplates s tenantID w = wr_ListByTenant (ws_wfRepo s) tenantID w"

definition NewWorkflowService ::
  "'a env_scheme WorkflowTemplateRepository \<Rightarrow> 'a env_scheme WorkflowTemplateService" where
  "NewWorkflowService wfRepo =
     (let s = \<lparr>ws_wfRepo = wfRepo\<rparr>
      in \<lparr>svc_CreateTemplate = workflowService_CreateTemplate s,
          svc_GetTemplate = workflowService_GetTemplate s,
          svc_ListTemplates = workflowService_ListTemplates s\<rparr>)"

end
