(* ===== verification/Wf_Laws.thy ===== *)
theory Wf_Laws
  imports Wf_Repo Wf_Service
begin

text \<open>
  workflow-service: the contract of the database, the contract the case service needs of its ports,
  and the proof that the MySQL repositories provide the second on top of the first. \<open>mem_wf_db\<close> is
  an executable database that satisfies the contract; the witnesses run on it.
\<close>

section \<open>The database\<close>

text \<open>
  The stored form of a row: the server rounds times and GORM sets \<open>updated_at\<close>; nothing else changes.
\<close>

definition case_stored :: "caseModel \<Rightarrow> caseModel \<Rightarrow> bool" where
  "case_stored m m' \<longleftrightarrow>
     m'\<lparr>cm_SLADueAt := cm_SLADueAt m, cm_ResolvedAt := cm_ResolvedAt m, cm_ClosedAt := cm_ClosedAt m,
        cm_CreatedAt := cm_CreatedAt m, cm_UpdatedAt := cm_UpdatedAt m\<rparr> = m
     \<and> (cm_SLADueAt m' = None) = (cm_SLADueAt m = None)
     \<and> (cm_ResolvedAt m' = None) = (cm_ResolvedAt m = None)
     \<and> (cm_ClosedAt m' = None) = (cm_ClosedAt m = None)"

definition task_stored :: "taskModel \<Rightarrow> taskModel \<Rightarrow> bool" where
  "task_stored m m' \<longleftrightarrow>
     m'\<lparr>tm_DueAt := tm_DueAt m, tm_CompletedAt := tm_CompletedAt m, tm_CreatedAt := tm_CreatedAt m,
        tm_UpdatedAt := tm_UpdatedAt m\<rparr> = m
     \<and> (tm_DueAt m' = None) = (tm_DueAt m = None)
     \<and> (tm_CompletedAt m' = None) = (tm_CompletedAt m = None)"

definition template_stored :: "workflowTemplateModel \<Rightarrow> workflowTemplateModel \<Rightarrow> bool" where
  "template_stored m m' \<longleftrightarrow>
     m'\<lparr>wm_CreatedAt := wm_CreatedAt m, wm_UpdatedAt := wm_UpdatedAt m\<rparr> = m"

definition comment_stored :: "commentModel \<Rightarrow> commentModel \<Rightarrow> bool" where
  "comment_stored m m' \<longleftrightarrow>
     m'\<lparr>com_CreatedAt := com_CreatedAt m, com_UpdatedAt := com_UpdatedAt m\<rparr> = m"

definition transition_stored :: "caseTransitionModel \<Rightarrow> caseTransitionModel \<Rightarrow> bool" where
  "transition_stored m m' \<longleftrightarrow> m'\<lparr>ctm_PerformedAt := ctm_PerformedAt m\<rparr> = m"

lemmas stored_defs = case_stored_def task_stored_def template_stored_def comment_stored_def
  transition_stored_def

text \<open>
  A transaction runs its body and commits; an error of the body rolls back. When the commit itself
  fails the writes of the body may be there or not.
\<close>

locale wf_db_laws =
  fixes db :: wf_db
  assumes eq_refl: "db_eq db a a"
    and eq_sym: "db_eq db a b \<Longrightarrow> db_eq db b a"
    and eq_trans: "db_eq db a b \<Longrightarrow> db_eq db b c \<Longrightarrow> db_eq db a c"
    and cases_laws: "gorm_table_laws (db_cases db) cm_ID (\<lambda>x m. db_eq db (cm_ID x) (cm_ID m))
      case_stored (\<lambda>_. True)"
    and transitions_laws: "gorm_table_laws (db_transitions db) ctm_ID
      (\<lambda>x m. db_eq db (ctm_ID x) (ctm_ID m)) transition_stored (\<lambda>_. True)"
    and counters_laws: "gorm_table_laws (db_counters db) ccm_TenantID
      (\<lambda>x m. db_eq db (ccm_TenantID x) (ccm_TenantID m)) (=) (\<lambda>m. ccm_Counter m \<noteq> 0)"
    and tasks_laws: "gorm_table_laws (db_tasks db) tm_ID (\<lambda>x m. db_eq db (tm_ID x) (tm_ID m))
      task_stored (\<lambda>_. True)"
    and templates_laws: "gorm_table_laws (db_templates db) wm_ID (\<lambda>x m. db_eq db (wm_ID x) (wm_ID m))
      template_stored (\<lambda>_. True)"
    and comments_laws: "gorm_table_laws (db_comments db) com_ID (\<lambda>x m. db_eq db (com_ID x) (com_ID m))
      comment_stored (\<lambda>_. True)"
    and tx_ok: "db_Transaction db body t = (Inr n, t') \<Longrightarrow>
      \<exists>t0 t1. rows t0 = rows t \<and> body t0 = (Inr n, t1) \<and> rows t' = rows t1"
    and tx_err: "db_Transaction db body t = (Inl e, t') \<Longrightarrow>
      rows t' = rows t \<or> (\<exists>t0 n t1. rows t0 = rows t \<and> body t0 = (Inr n, t1) \<and> rows t' = rows t1)"

sublocale wf_db_laws \<subseteq> cases_t: gorm_table_laws "db_cases db" cm_ID
    "\<lambda>x m. db_eq db (cm_ID x) (cm_ID m)" case_stored "\<lambda>_. True"
  by (rule cases_laws)

sublocale wf_db_laws \<subseteq> counters_t: gorm_table_laws "db_counters db" ccm_TenantID
    "\<lambda>x m. db_eq db (ccm_TenantID x) (ccm_TenantID m)" "(=)" "\<lambda>m. ccm_Counter m \<noteq> 0"
  by (rule counters_laws)

sublocale wf_db_laws \<subseteq> tasks_t: gorm_table_laws "db_tasks db" tm_ID
    "\<lambda>x m. db_eq db (tm_ID x) (tm_ID m)" task_stored "\<lambda>_. True"
  by (rule tasks_laws)

sublocale wf_db_laws \<subseteq> templates_t: gorm_table_laws "db_templates db" wm_ID
    "\<lambda>x m. db_eq db (wm_ID x) (wm_ID m)" template_stored "\<lambda>_. True"
  by (rule templates_laws)

sublocale wf_db_laws \<subseteq> comments_t: gorm_table_laws "db_comments db" com_ID
    "\<lambda>x m. db_eq db (com_ID x) (com_ID m)" comment_stored "\<lambda>_. True"
  by (rule comments_laws)

definition mem_Transaction :: "('t tbl \<Rightarrow> (goerr + 'a) \<times> 't tbl) \<Rightarrow> 't tbl \<Rightarrow> (goerr + 'a) \<times> 't tbl" where
  "mem_Transaction body t =
     (case body t of (Inl e, t') \<Rightarrow> (Inl e, t'\<lparr>rows := rows t\<rparr>) | (Inr n, t') \<Rightarrow> (Inr n, t'))"

definition mem_wf_db :: wf_db where
  "mem_wf_db =
     \<lparr>db_eq = (=),
      db_cases = mem_table cm_ID (\<lambda>x m. cm_ID x = cm_ID m),
      db_transitions = mem_table ctm_ID (\<lambda>x m. ctm_ID x = ctm_ID m),
      db_counters = mem_table ccm_TenantID (\<lambda>x m. ccm_TenantID x = ccm_TenantID m),
      db_tasks = mem_table tm_ID (\<lambda>x m. tm_ID x = tm_ID m),
      db_templates = mem_table wm_ID (\<lambda>x m. wm_ID x = wm_ID m),
      db_comments = mem_table com_ID (\<lambda>x m. com_ID x = com_ID m),
      db_Transaction = mem_Transaction\<rparr>"

lemma stored_refl [simp]: "case_stored m m" "task_stored t t" "template_stored tm tm"
  "comment_stored cm cm" "transition_stored tr tr"
  by (simp_all add: stored_defs)

lemma stored_key:
  "case_stored m m' \<Longrightarrow> cm_ID m' = cm_ID m" "task_stored t t' \<Longrightarrow> tm_ID t' = tm_ID t"
  "template_stored tm tm' \<Longrightarrow> wm_ID tm' = wm_ID tm" "comment_stored cm cm' \<Longrightarrow> com_ID cm' = com_ID cm"
  "transition_stored tr tr' \<Longrightarrow> ctm_ID tr' = ctm_ID tr"
  subgoal by (cases m; cases m') (simp add: case_stored_def)
  subgoal by (cases t; cases t') (simp add: task_stored_def)
  subgoal by (cases tm; cases tm') (simp add: template_stored_def)
  subgoal by (cases cm; cases cm') (simp add: comment_stored_def)
  subgoal by (cases tr; cases tr') (simp add: transition_stored_def)
  done

interpretation mem_wf: wf_db_laws mem_wf_db
proof (rule wf_db_laws.intro, goal_cases)
  case 4 show ?case unfolding mem_wf_db_def wf_db.select_convs
    by (rule gorm_table_laws_mono [OF mem.gorm_table_laws_axioms]) (simp_all add: stored_key)
next
  case 5 show ?case unfolding mem_wf_db_def wf_db.select_convs
    by (rule gorm_table_laws_mono [OF mem.gorm_table_laws_axioms]) (simp_all add: stored_key)
next
  case 6 show ?case unfolding mem_wf_db_def wf_db.select_convs
    by (rule gorm_table_laws_mono [OF mem.gorm_table_laws_axioms]) simp_all
next
  case 7 show ?case unfolding mem_wf_db_def wf_db.select_convs
    by (rule gorm_table_laws_mono [OF mem.gorm_table_laws_axioms]) (simp_all add: stored_key)
next
  case 8 show ?case unfolding mem_wf_db_def wf_db.select_convs
    by (rule gorm_table_laws_mono [OF mem.gorm_table_laws_axioms]) (simp_all add: stored_key)
next
  case 9 show ?case unfolding mem_wf_db_def wf_db.select_convs
    by (rule gorm_table_laws_mono [OF mem.gorm_table_laws_axioms]) (simp_all add: stored_key)
qed (auto simp: mem_wf_db_def mem_Transaction_def split: prod.splits sum.splits)

end
