(* ===== verification/Http.thy ===== *)
theory Http
  imports Decode
begin

text \<open>
  The part of \<open>net/http\<close> the handlers see. A request carries its method, its path split into
  segments, the values of the headers, of the query parameters and of the route parameters (the
  empty string where absent, as \<open>Get\<close> and \<open>URLParam\<close> return), the bytes of the body, and the
  context values the middleware has set. A handler maps a request and the state of the service to
  a response and a new state; logging has no effect in the model.
\<close>

record request =
  rq_Method :: string
  rq_Path :: "string list"
  rq_Header :: "string \<Rightarrow> string"
  rq_Query :: "string \<Rightarrow> string"
  rq_URLParam :: "string \<Rightarrow> string"
  rq_Body :: string
  ctx_tenantID :: "string option"
  ctx_userID :: "string option"
  ctx_requestID :: "string option"

record 'p response =
  rs_status :: nat
  rs_header :: "(string \<times> string) list"
  rs_body :: 'p

type_synonym ('r, 'w, 'p) handler = "'r \<Rightarrow> 'w \<Rightarrow> 'p response \<times> 'w"

definition StatusOK :: nat where "StatusOK = 200"
definition StatusCreated :: nat where "StatusCreated = 201"
definition StatusNoContent :: nat where "StatusNoContent = 204"
definition StatusBadRequest :: nat where "StatusBadRequest = 400"
definition StatusUnauthorized :: nat where "StatusUnauthorized = 401"
definition StatusForbidden :: nat where "StatusForbidden = 403"
definition StatusNotFound :: nat where "StatusNotFound = 404"
definition StatusMethodNotAllowed :: nat where "StatusMethodNotAllowed = 405"
definition StatusConflict :: nat where "StatusConflict = 409"
definition StatusUnprocessableEntity :: nat where "StatusUnprocessableEntity = 422"
definition StatusInternalServerError :: nat where "StatusInternalServerError = 500"

lemmas Status_defs = StatusOK_def StatusCreated_def StatusNoContent_def StatusBadRequest_def
  StatusUnauthorized_def StatusForbidden_def StatusNotFound_def StatusMethodNotAllowed_def
  StatusConflict_def StatusUnprocessableEntity_def StatusInternalServerError_def

definition add_header :: "string \<Rightarrow> string \<Rightarrow> 'p response \<Rightarrow> 'p response" where
  "add_header k v r = r\<lparr>rs_header := (k, v) # rs_header r\<rparr>"

lemma add_header_simps [simp]:
  "rs_status (add_header k v r) = rs_status r"
  "rs_body (add_header k v r) = rs_body r"
  "rs_header (add_header k v r) = (k, v) # rs_header r"
  by (simp_all add: add_header_def)

definition json_response :: "nat \<Rightarrow> 'p \<Rightarrow> 'p response" where
  "json_response status v =
     \<lparr>rs_status = status, rs_header = [(''Content-Type'', ''application/json'')], rs_body = v\<rparr>"

lemma json_response_simps [simp]:
  "rs_status (json_response st v) = st" "rs_body (json_response st v) = v"
  "rs_header (json_response st v) = [(''Content-Type'', ''application/json'')]"
  "json_response st v = json_response st' v' \<longleftrightarrow> st = st' \<and> v = v'"
  by (auto simp: json_response_def)

text \<open>\<open>v, _ := ctx.Value(key).(string)\<close>\<close>

definition ctx_string :: "string option \<Rightarrow> string" where
  "ctx_string v = (case v of None \<Rightarrow> '''' | Some s \<Rightarrow> s)"

end
