(* ===== verification/Wf_Http.thy ===== *)
theory Wf_Http
  imports Wf_Service Http
begin

text \<open>
  workflow-service: the HTTP layer of \<open>internal/adapters/http\<close>. Each handler decodes its request,
  calls one method of a service and maps the result to a status and a payload. The router of chi is
  third-party code: \<open>chi_match\<close> stands for its decision which pattern a request matches.
\<close>

datatype wf_payload =
    P_error string
  | P_health string string
  | P_case Case
  | P_case_page "Case list" int int int
  | P_task Task
  | P_tasks "Task list"
  | P_comment Comment
  | P_comments "Comment list"
  | P_template WorkflowTemplate
  | P_templates "WorkflowTemplate list"
  | P_empty

type_synonym 'w wf_handler = "(request, 'w, wf_payload) handler"

record 'w wf_Handler =
  h_caseService :: "'w CaseService"
  h_taskService :: "'w TaskService"
  h_workflowService :: "'w WorkflowTemplateService"

section \<open>Middleware\<close>

definition wf_RequestID :: "('w env_scheme) wf_handler \<Rightarrow> ('w env_scheme) wf_handler" where
  "wf_RequestID next r w =
     (let hdr = rq_Header r ''X-Request-ID'';
          (requestID, w1) = (if hdr = '''' then uuid_NewString w else (hdr, w));
          (resp, w2) = next (r\<lparr>ctx_requestID := Some requestID\<rparr>) w1
      in (add_header ''X-Request-ID'' requestID resp, w2))"

definition wf_CORS :: "'w wf_handler \<Rightarrow> 'w wf_handler" where
  "wf_CORS next r w =
     (let (resp, w1) =
        (if rq_Method r = ''OPTIONS''
         then (\<lparr>rs_status = StatusNoContent, rs_header = [], rs_body = P_empty\<rparr>, w)
         else next r w)
      in (add_header ''Access-Control-Allow-Origin'' ''*''
           (add_header ''Access-Control-Allow-Methods'' ''GET, POST, PUT, PATCH, DELETE, OPTIONS''
             (add_header ''Access-Control-Allow-Headers''
               ''Content-Type, Authorization, X-Tenant-ID, X-User-ID, X-Request-ID, x-api-key'' resp)), w1))"

text \<open>\<open>RequestLogger\<close> reads the clock before and after the request.\<close>

definition wf_RequestLogger :: "('w env_scheme) wf_handler \<Rightarrow> ('w env_scheme) wf_handler" where
  "wf_RequestLogger next r w =
     (let (start, w1) = time_Now w; (resp, w2) = next r w1; (stop, w3) = time_Now w2 in (resp, w3))"

definition wf_TenantContext :: "'w wf_handler \<Rightarrow> 'w wf_handler" where
  "wf_TenantContext next r w =
     (let tenantID = rq_Header r ''X-Tenant-ID'' in
      if tenantID = '''' then
        (json_response StatusBadRequest (P_error ''X-Tenant-ID header is required''), w)
      else next (r\<lparr>ctx_tenantID := Some tenantID\<rparr>) w)"

definition wf_UserContext :: "'w wf_handler \<Rightarrow> 'w wf_handler" where
  "wf_UserContext next r w =
     (let userID = rq_Header r ''X-User-ID'' in
      if userID = '''' then
        (json_response StatusUnauthorized (P_error ''X-User-ID header is required''), w)
      else next (r\<lparr>ctx_userID := Some userID\<rparr>) w)"

definition wf_getTenantID :: "request \<Rightarrow> string" where
  "wf_getTenantID r = ctx_string (ctx_tenantID r)"

definition wf_getUserID :: "request \<Rightarrow> string" where
  "wf_getUserID r = ctx_string (ctx_userID r)"

section \<open>Responses\<close>

definition wf_handleError :: "goerr \<Rightarrow> wf_payload response" where
  "wf_handleError err =
     (if errors_Is err ErrCaseNotFound \<or> errors_Is err ErrTaskNotFound
         \<or> errors_Is err ErrWorkflowNotFound \<or> errors_Is err ErrCommentNotFound
      then json_response StatusNotFound (P_error (err_Error err))
      else if errors_Is err ErrInvalidInput then json_response StatusBadRequest (P_error (err_Error err))
      else if errors_Is err ErrInvalidTransition
      then json_response StatusUnprocessableEntity (P_error (err_Error err))
      else if errors_Is err ErrPermissionDenied then json_response StatusForbidden (P_error (err_Error err))
      else json_response StatusInternalServerError (P_error ''internal server error''))"

definition wf_bad_body :: "wf_payload response" where
  "wf_bad_body = json_response StatusBadRequest (P_error ''invalid request body'')"

text \<open>The end every handler has: \<open>handleError\<close> or the value with a status.\<close>

fun wf_reply :: "nat \<Rightarrow> ('a \<Rightarrow> wf_payload) \<Rightarrow> (goerr + 'a) \<times> 'w \<Rightarrow> wf_payload response \<times> 'w" where
  "wf_reply status payload (Inl err, w) = (wf_handleError err, w)"
| "wf_reply status payload (Inr x, w) = (json_response status (payload x), w)"

section \<open>Cases\<close>

definition decode_CreateCase :: "string \<Rightarrow> CreateCaseRequest option" where
  "decode_CreateCase body =
     Option.bind (body_members body) (\<lambda>kvs.
     Option.bind (field ''title'' set_string kvs '''') (\<lambda>title.
     Option.bind (field ''description'' set_string kvs '''') (\<lambda>description.
     Option.bind (field ''priority'' set_string kvs '''') (\<lambda>priority.
     Option.bind (field ''workflowId'' set_string_ptr kvs None) (\<lambda>workflowID.
     Option.bind (field ''tags'' (set_slice set_string '''') kvs None) (\<lambda>tags.
       Some \<lparr>ccr_Title = title, ccr_Description = description, ccr_Priority = priority,
             ccr_WorkflowID = workflowID, ccr_Tags = tags\<rparr>))))))"

definition Handler_CreateCase :: "'w wf_Handler \<Rightarrow> 'w wf_handler" where
  "Handler_CreateCase h r w =
     (case decode_CreateCase (rq_Body r) of
        None \<Rightarrow> (wf_bad_body, w)
      | Some req \<Rightarrow>
         wf_reply StatusCreated P_case
           (svc_CreateCase (h_caseService h) (wf_getTenantID r) (wf_getUserID r) req w))"

definition nonempty_query :: "request \<Rightarrow> string \<Rightarrow> string option" where
  "nonempty_query r name = (if rq_Query r name = '''' then None else Some (rq_Query r name))"

definition Handler_ListCases :: "'w wf_Handler \<Rightarrow> 'w wf_handler" where
  "Handler_ListCases h r w =
     (let flt = \<lparr>cf_Status = nonempty_query r ''status'', cf_Priority = nonempty_query r ''priority'',
                 cf_AssigneeID = nonempty_query r ''assignee'', cf_ReporterID = None, cf_Tags = None\<rparr>;
          p = fst (strconv_Atoi (rq_Query r ''page''));
          page = (if p < 1 then 1 else p);
          l = fst (strconv_Atoi (rq_Query r ''limit''));
          limit = (if l < 1 then 20 else l)
      in wf_reply StatusOK (\<lambda>(cases, cnt). P_case_page cases cnt page limit)
           (svc_ListCases (h_caseService h) (wf_getTenantID r) flt page limit w))"

definition Handler_GetCase :: "'w wf_Handler \<Rightarrow> 'w wf_handler" where
  "Handler_GetCase h r w =
     wf_reply StatusOK P_case (svc_GetCase (h_caseService h) (rq_URLParam r ''caseId'') w)"

definition decode_UpdateCase :: "string \<Rightarrow> UpdateCaseRequest option" where
  "decode_UpdateCase body =
     Option.bind (body_members body) (\<lambda>kvs.
     Option.bind (field ''title'' set_string_ptr kvs None) (\<lambda>title.
     Option.bind (field ''description'' set_string_ptr kvs None) (\<lambda>description.
     Option.bind (field ''priority'' set_string_ptr kvs None) (\<lambda>priority.
     Option.bind (field ''tags'' (set_slice set_string '''') kvs None) (\<lambda>tags.
       Some \<lparr>ucr_Title = title, ucr_Description = description, ucr_Priority = priority,
             ucr_Tags = tags\<rparr>)))))"

definition Handler_UpdateCase :: "'w wf_Handler \<Rightarrow> 'w wf_handler" where
  "Handler_UpdateCase h r w =
     (case decode_UpdateCase (rq_Body r) of
        None \<Rightarrow> (wf_bad_body, w)
      | Some req \<Rightarrow>
         wf_reply StatusOK P_case (svc_UpdateCase (h_caseService h) (rq_URLParam r ''caseId'') req w))"

definition Handler_TransitionCase :: "'w wf_Handler \<Rightarrow> 'w wf_handler" where
  "Handler_TransitionCase h r w =
     (case Option.bind (body_members (rq_Body r)) (\<lambda>kvs.
           Option.bind (field ''toStatus'' set_string kvs '''') (\<lambda>toStatus.
           Option.bind (field ''reason'' set_string kvs '''') (\<lambda>reason. Some (toStatus, reason)))) of
        None \<Rightarrow> (wf_bad_body, w)
      | Some (toStatus, reason) \<Rightarrow>
         wf_reply StatusOK P_case (svc_TransitionCase (h_caseService h) (rq_URLParam r ''caseId'')
           \<lparr>trq_ToStatus = toStatus, trq_Reason = reason, trq_PerformedBy = wf_getUserID r\<rparr> w))"

definition Handler_AssignCase :: "'w wf_Handler \<Rightarrow> 'w wf_handler" where
  "Handler_AssignCase h r w =
     (case Option.bind (body_members (rq_Body r)) (\<lambda>kvs. field ''assigneeId'' set_string kvs '''') of
        None \<Rightarrow> (wf_bad_body, w)
      | Some assigneeID \<Rightarrow>
         if assigneeID = '''' then
           (json_response StatusBadRequest (P_error ''assigneeId is required''), w)
         else wf_reply StatusOK P_case
           (svc_AssignCase (h_caseService h) (rq_URLParam r ''caseId'') assigneeID w))"

section \<open>Tasks\<close>

definition Handler_ListTasks :: "'w wf_Handler \<Rightarrow> 'w wf_handler" where
  "Handler_ListTasks h r w =
     wf_reply StatusOK P_tasks (svc_ListByCase (h_taskService h) (rq_URLParam r ''caseId'') w)"

definition Handler_CreateTask :: "'w wf_Handler \<Rightarrow> 'w wf_handler" where
  "Handler_CreateTask h r w =
     (case Option.bind (body_members (rq_Body r)) (\<lambda>kvs.
           Option.bind (field ''title'' set_string kvs '''') (\<lambda>title.
           Option.bind (field ''description'' set_string kvs '''') (\<lambda>description.
           Option.bind (field ''assigneeId'' set_string_ptr kvs None) (\<lambda>assigneeID.
             Some \<lparr>ctr_Title = title, ctr_Description = description, ctr_AssigneeID = assigneeID,
                   ctr_DueAt = None\<rparr>)))) of
        None \<Rightarrow> (wf_bad_body, w)
      | Some req \<Rightarrow>
         wf_reply StatusCreated P_task
           (svc_CreateTask (h_taskService h) (rq_URLParam r ''caseId'') req w))"

definition Handler_UpdateTask :: "'w wf_Handler \<Rightarrow> 'w wf_handler" where
  "Handler_UpdateTask h r w =
     (case Option.bind (body_members (rq_Body r)) (\<lambda>kvs.
           Option.bind (field ''title'' set_string_ptr kvs None) (\<lambda>title.
           Option.bind (field ''description'' set_string_ptr kvs None) (\<lambda>description.
           Option.bind (field ''status'' set_string_ptr kvs None) (\<lambda>status.
           Option.bind (field ''assigneeId'' set_string_ptr kvs None) (\<lambda>assigneeID.
             Some \<lparr>utr_Title = title, utr_Description = description, utr_Status = status,
                   utr_AssigneeID = assigneeID, utr_DueAt = None\<rparr>))))) of
        None \<Rightarrow> (wf_bad_body, w)
      | Some req \<Rightarrow>
         wf_reply StatusOK P_task (svc_UpdateTask (h_taskService h) (rq_URLParam r ''taskId'') req w))"

definition Handler_CompleteTask :: "'w wf_Handler \<Rightarrow> 'w wf_handler" where
  "Handler_CompleteTask h r w =
     wf_reply StatusOK P_task (svc_CompleteTask (h_taskService h) (rq_URLParam r ''taskId'') w)"

section \<open>Comments\<close>

definition Handler_ListComments :: "'w wf_Handler \<Rightarrow> 'w wf_handler" where
  "Handler_ListComments h r w =
     wf_reply StatusOK P_comments (svc_ListComments (h_caseService h) (rq_URLParam r ''caseId'') w)"

definition Handler_AddComment :: "'w wf_Handler \<Rightarrow> 'w wf_handler" where
  "Handler_AddComment h r w =
     (case Option.bind (body_members (rq_Body r)) (\<lambda>kvs. field ''body'' set_string kvs '''') of
        None \<Rightarrow> (wf_bad_body, w)
      | Some body \<Rightarrow>
         wf_reply StatusCreated P_comment
           (svc_AddComment (h_caseService h) (rq_URLParam r ''caseId'') (wf_getUserID r) body w))"

section \<open>Workflow templates\<close>

definition Handler_ListWorkflows :: "'w wf_Handler \<Rightarrow> 'w wf_handler" where
  "Handler_ListWorkflows h r w =
     wf_reply StatusOK P_templates (svc_ListTemplates (h_workflowService h) (wf_getTenantID r) w)"

text \<open>\<open>domain.Transition\<close> has no tags: its keys are the names of its fields.\<close>

definition set_domain_transition :: "json \<Rightarrow> Transition \<Rightarrow> Transition option" where
  "set_domain_transition v t =
     Option.bind (members v) (\<lambda>kvs.
     Option.bind (field ''From'' set_string kvs (tr_From t)) (\<lambda>frm.
     Option.bind (field ''To'' set_string kvs (tr_To t)) (\<lambda>to.
     Option.bind (field ''Label'' set_string kvs (tr_Label t)) (\<lambda>label.
       Some \<lparr>tr_From = frm, tr_To = to, tr_Label = label\<rparr>))))"

definition Handler_CreateWorkflow :: "'w wf_Handler \<Rightarrow> 'w wf_handler" where
  "Handler_CreateWorkflow h r w =
     (case Option.bind (body_members (rq_Body r)) (\<lambda>kvs.
           Option.bind (field ''name'' set_string kvs '''') (\<lambda>name.
           Option.bind (field ''description'' set_string kvs '''') (\<lambda>description.
           Option.bind (field ''states'' (set_slice set_string '''') kvs None) (\<lambda>states.
           Option.bind (field ''transitions'' (set_slice set_domain_transition
               \<lparr>tr_From = '''', tr_To = '''', tr_Label = ''''\<rparr>) kvs None) (\<lambda>transitions.
           Option.bind (field ''defaultPriority'' set_string kvs '''') (\<lambda>defaultPriority.
           Option.bind (field ''slaHours'' set_int kvs 0) (\<lambda>slaHours.
             Some \<lparr>cwr_Name = name, cwr_Description = description, cwr_States = states,
                   cwr_Transitions = transitions, cwr_DefaultPriority = defaultPriority,
                   cwr_SLAHours = slaHours\<rparr>))))))) of
        None \<Rightarrow> (wf_bad_body, w)
      | Some req \<Rightarrow>
         wf_reply StatusCreated P_template
           (svc_CreateTemplate (h_workflowService h) (wf_getTenantID r) req w))"

section \<open>Router\<close>

text \<open>
  What chi makes of a request: the pattern of a route and the values of its parameters, or no
  route, inside or outside the prefix \<open>/api/v1\<close> whose middleware runs first, with status 404 or 405.
\<close>

datatype chi_match =
    Matched string "string \<Rightarrow> string"
  | No_api_route nat
  | No_route nat

definition wf_endpoint :: "'w wf_Handler \<Rightarrow> string \<Rightarrow> string \<Rightarrow> 'w wf_handler" where
  "wf_endpoint h meth pat r w =
     (if (meth, pat) = (''GET'', ''/cases/'') then Handler_ListCases h r w
      else if (meth, pat) = (''POST'', ''/cases/'') then Handler_CreateCase h r w
      else if (meth, pat) = (''GET'', ''/cases/{caseId}/'') then Handler_GetCase h r w
      else if (meth, pat) = (''PUT'', ''/cases/{caseId}/'') then Handler_UpdateCase h r w
      else if (meth, pat) = (''POST'', ''/cases/{caseId}/transitions'') then Handler_TransitionCase h r w
      else if (meth, pat) = (''POST'', ''/cases/{caseId}/assign'') then Handler_AssignCase h r w
      else if (meth, pat) = (''GET'', ''/cases/{caseId}/tasks'') then Handler_ListTasks h r w
      else if (meth, pat) = (''POST'', ''/cases/{caseId}/tasks'') then Handler_CreateTask h r w
      else if (meth, pat) = (''GET'', ''/cases/{caseId}/comments'') then Handler_ListComments h r w
      else if (meth, pat) = (''POST'', ''/cases/{caseId}/comments'') then Handler_AddComment h r w
      else if (meth, pat) = (''PUT'', ''/tasks/{taskId}/'') then Handler_UpdateTask h r w
      else if (meth, pat) = (''POST'', ''/tasks/{taskId}/complete'') then Handler_CompleteTask h r w
      else if (meth, pat) = (''GET'', ''/workflows/'') then Handler_ListWorkflows h r w
      else if (meth, pat) = (''POST'', ''/workflows/'') then Handler_CreateWorkflow h r w
      else (json_response StatusNotFound P_empty, w))"

definition wf_dispatch :: "(request \<Rightarrow> chi_match) \<Rightarrow> 'w wf_Handler \<Rightarrow> 'w wf_handler" where
  "wf_dispatch mux h r w =
     (case mux r of
        Matched pat params \<Rightarrow>
          if pat = ''/health'' then
            (json_response StatusOK (P_health ''ok'' ''workflow-service''), w)
          else wf_TenantContext (wf_UserContext (wf_endpoint h (rq_Method r) pat))
                 (r\<lparr>rq_URLParam := params\<rparr>) w
      | No_api_route st \<Rightarrow>
          wf_TenantContext (wf_UserContext (\<lambda>r w. (json_response st P_empty, w))) r w
      | No_route st \<Rightarrow> (json_response st P_empty, w))"

definition wf_NewRouter ::
  "(request \<Rightarrow> chi_match) \<Rightarrow> ('w env_scheme) wf_Handler \<Rightarrow> ('w env_scheme) wf_handler" where
  "wf_NewRouter mux h = wf_RequestID (wf_CORS (wf_RequestLogger (wf_dispatch mux h)))"

end
