(* ===== verification/Wf_Inv.thy ===== *)
theory Wf_Inv
  imports Wf_Laws Wf_Http
begin

text \<open>
  workflow-service: what no operation changes. \<open>case_port\<close> is the contract between the case service
  and its repository in terms of the list of stored cases; the service is verified against it once,
  and the MySQL repository is shown to provide it. A step of the whole service is one HTTP request
  run through the router, so the invariants hold along every sequence of requests (requests are
  steps here: a server that interleaves two of them is considered in theory Wf_Numbers).
\<close>

section \<open>How the stored cases may change\<close>

definition case_evolves :: "Case \<Rightarrow> Case \<Rightarrow> bool" where
  "case_evolves x y \<longleftrightarrow>
     case_ID y = case_ID x \<and> case_TenantID y = case_TenantID x \<and> case_CaseNumber y = case_CaseNumber x
     \<and> case_ReporterID y = case_ReporterID x \<and> case_WorkflowID y = case_WorkflowID x
     \<and> (sla_DueAt (case_SLA y) = None) = (sla_DueAt (case_SLA x) = None)
     \<and> (sla_Breached (case_SLA x) \<longrightarrow> sla_Breached (case_SLA y))
     \<and> (case_ResolvedAt x \<noteq> None \<longrightarrow> case_ResolvedAt y \<noteq> None)
     \<and> (case_ClosedAt x \<noteq> None \<longrightarrow> case_ClosedAt y \<noteq> None)"

lemma case_evolves_refl [simp]: "case_evolves x x"
  by (simp add: case_evolves_def)

lemma case_evolves_trans: "case_evolves x y \<Longrightarrow> case_evolves y z \<Longrightarrow> case_evolves x z"
  by (auto simp: case_evolves_def)

lemma case_evolves_updates [simp]:
  "case_evolves x (y\<lparr>case_Title := t\<rparr>) = case_evolves x y"
  "case_evolves x (y\<lparr>case_Description := d\<rparr>) = case_evolves x y"
  "case_evolves x (y\<lparr>case_Priority := p\<rparr>) = case_evolves x y"
  "case_evolves x (y\<lparr>case_Tags := ts\<rparr>) = case_evolves x y"
  "case_evolves x (y\<lparr>case_Status := st\<rparr>) = case_evolves x y"
  "case_evolves x (y\<lparr>case_UpdatedAt := n\<rparr>) = case_evolves x y"
  "case_evolves x (y\<lparr>case_AssigneeID := a\<rparr>) = case_evolves x y"
  by (simp_all add: case_evolves_def)

lemma case_evolves_transitioned: "case_evolves x (transitioned x to now)"
  by (auto simp: case_evolves_def transitioned_def Let_def split: option.splits)

lemma case_evolves_breached: "case_evolves x (x\<lparr>case_SLA := (case_SLA x)\<lparr>sla_Breached := True\<rparr>\<rparr>)"
  by (simp add: case_evolves_def)

definition cases_grow :: "Case list \<Rightarrow> Case list \<Rightarrow> bool" where
  "cases_grow xs ys \<longleftrightarrow> (\<exists>old new. ys = old @ new \<and> list_all2 case_evolves xs old)"

lemma cases_grow_refl [simp]: "cases_grow xs xs"
  unfolding cases_grow_def by (metis append_Nil2 list_all2_refl case_evolves_refl)

lemma cases_grow_same: "list_all2 case_evolves xs ys \<Longrightarrow> cases_grow xs ys"
  unfolding cases_grow_def by (metis append_Nil2)

lemma cases_grow_new: "cases_grow xs (xs @ ys)"
  unfolding cases_grow_def by (metis list_all2_refl case_evolves_refl)

lemma cases_grow_trans:
  assumes "cases_grow xs ys" "cases_grow ys zs"
  shows "cases_grow xs zs"
proof -
  from assms(1) obtain old new where ys: "ys = old @ new" "list_all2 case_evolves xs old"
    by (auto simp: cases_grow_def)
  from assms(2) ys(1) obtain old1 new1 rest where zs: "zs = (old1 @ new1) @ rest"
    "list_all2 case_evolves old old1"
    by (auto simp: cases_grow_def list_all2_append1)
  have "list_all2 case_evolves xs old1"
    by (rule list_all2_trans [OF case_evolves_trans ys(2) zs(2)])
  with zs(1) show ?thesis by (auto simp: cases_grow_def)
qed

lemma cases_growD:
  assumes "cases_grow xs ys" "x \<in> set xs"
  shows "\<exists>y\<in>set ys. case_evolves x y"
  using assms unfolding cases_grow_def by (fastforce simp: list_all2_conv_all_nth in_set_conv_nth nth_append)

text \<open>One step: the identifiers stay distinct and the list grows.\<close>

definition cases_step :: "Case list \<Rightarrow> Case list \<Rightarrow> bool" where
  "cases_step xs ys \<longleftrightarrow>
     (distinct (map case_ID xs) \<longrightarrow> distinct (map case_ID ys) \<and> cases_grow xs ys)"

lemma cases_step_refl [simp]: "cases_step xs xs"
  by (simp add: cases_step_def)

lemma cases_step_trans: "cases_step xs ys \<Longrightarrow> cases_step ys zs \<Longrightarrow> cases_step xs zs"
  unfolding cases_step_def using cases_grow_trans by blast

section \<open>The contract of the case repository\<close>

locale case_port =
  fixes repo :: "'w CaseRepository"
    and view :: "'w \<Rightarrow> Case list"
  assumes create: "cr_Create repo c w = (r, w') \<Longrightarrow> cases_step (view w) (view w')"
    and find_view: "cr_FindByID repo i w = (fr, w') \<Longrightarrow> view w' = view w"
    and find_mem: "cr_FindByID repo i w = (Inr c, w') \<Longrightarrow> c \<in> set (view w)"
    and update: "x \<in> set (view w) \<Longrightarrow> case_evolves x c \<Longrightarrow> cr_Update repo c w = (r, w') \<Longrightarrow>
      cases_step (view w) (view w')"
    and list_view: "cr_List repo t flt p l w = (lr, w') \<Longrightarrow> view w' = view w"
    and record_view: "cr_RecordTransition repo tr w = (r, w') \<Longrightarrow> view w' = view w"
    and number_view: "cr_NextCaseNumber repo t w = (nr, w') \<Longrightarrow> view w' = view w"

text \<open>What the case service needs besides: its other calls leave the stored cases alone.\<close>

locale case_client = case_port repo view
  for repo :: "'a env_scheme CaseRepository" and view :: "'a env_scheme \<Rightarrow> Case list" +
  fixes s :: "'a env_scheme caseService"
  assumes repo_eq: "cs_caseRepo s = repo"
    and now_view: "time_Now w = (n, w') \<Longrightarrow> view w' = view w"
    and uuid_view: "uuid_NewString w = (u, w') \<Longrightarrow> view w' = view w"
    and template_view: "wr_FindByID (cs_workflowRepo s) i w = (tr, w') \<Longrightarrow> view w' = view w"
    and comment_view: "cm_Create (cs_commentRepo s) cm w = (r, w') \<Longrightarrow> view w' = view w"
    and comments_view: "cm_ListByCase (cs_commentRepo s) i w = (cl, w') \<Longrightarrow> view w' = view w"
begin

lemma resolveSLA_view: "resolveSLA s now wid c w = (c', w') \<Longrightarrow> view w' = view w"
  by (auto simp: resolveSLA_def Let_def dest: template_view split: option.splits if_splits prod.splits sum.splits)

lemma checkTransition_view: "checkTransition s c to w = (b, w') \<Longrightarrow> view w' = view w"
  by (auto simp: checkTransition_def dest: template_view split: option.splits if_splits prod.splits sum.splits)

lemmas views = find_view now_view uuid_view resolveSLA_view checkTransition_view number_view
  comment_view comments_view list_view record_view

lemma CreateCase_step:
  "caseService_CreateCase s t rep req w = (r, w') \<Longrightarrow> cases_step (view w) (view w')"
  by (auto simp: caseService_CreateCase_def Let_def repo_eq dest!: views create
      split: if_splits prod.splits sum.splits option.splits)

lemma GetCase_step:
  assumes "caseService_GetCase s i w = (r, w')"
  shows "cases_step (view w) (view w')"
proof -
  obtain fr w1 where f: "cr_FindByID repo i w = (fr, w1)" by force
  then have w1: "view w1 = view w" by (rule find_view)
  { fix c n w2 u assume c: "fr = Inr c" and n: "time_Now w1 = (n, w2)"
      and u: "cr_Update repo (c\<lparr>case_SLA := (case_SLA c)\<lparr>sla_Breached := True\<rparr>\<rparr>) w2 = (u, w')"
    have "c \<in> set (view w2)" using find_mem f c now_view [OF n] w1 by simp
    then have "cases_step (view w) (view w')"
      using update [OF _ case_evolves_breached u] now_view [OF n] w1 by simp }
  with assms f w1 show ?thesis
    by (auto simp: caseService_GetCase_def Let_def repo_eq dest: now_view
        split: sum.splits option.splits if_splits prod.splits)
qed

text \<open>A case found, changed within the limits and written back.\<close>

lemma written_back:
  assumes "cr_FindByID repo i w = (Inr c, w1)" "cr_Update repo c' w2 = (u, w3)" "view w2 = view w1"
    "case_evolves c c'"
  shows "cases_step (view w) (view w3)"
  using update [OF _ assms(4,2)] find_mem [OF assms(1)] find_view [OF assms(1)] assms(3) by simp

lemma UpdateCase_step:
  assumes "caseService_UpdateCase s i req w = (r, w')"
  shows "cases_step (view w) (view w')"
proof -
  obtain fr w1 where f: "cr_FindByID repo i w = (fr, w1)" by force
  show ?thesis
  proof (cases fr)
    case (Inr c)
    obtain n w2 where n: "time_Now w1 = (n, w2)" by force
    have "cases_step (view w) (view w3)" if "cr_Update repo c' w2 = (u, w3)" "case_evolves c c'" for c' u w3
      using f Inr n that by (auto intro!: written_back now_view)
    with assms f Inr n find_view [OF f] show ?thesis
      by (auto simp: caseService_UpdateCase_def Let_def repo_eq split: if_splits prod.splits option.splits)
  qed (use assms f find_view [OF f] in \<open>auto simp: caseService_UpdateCase_def repo_eq\<close>)
qed

lemma TransitionCase_step:
  assumes "caseService_TransitionCase s i req w = (r, w')"
  shows "cases_step (view w) (view w')"
proof -
  obtain fr w1 where f: "cr_FindByID repo i w = (fr, w1)" by force
  show ?thesis
  proof (cases fr)
    case (Inr c)
    let ?to = "trq_ToStatus req"
    obtain ok w2 n w3 u w4 where ct: "checkTransition s c ?to w1 = (ok, w2)" and n: "time_Now w2 = (n, w3)"
      and u: "cr_Update repo (transitioned c ?to n) w3 = (u, w4)" by (metis surj_pair)
    have v: "view w3 = view w1" using checkTransition_view [OF ct] now_view [OF n] by simp
    have st: "cases_step (view w) (view w4)"
      using f Inr by (auto intro!: written_back [OF _ u v] case_evolves_transitioned)
    from assms f Inr ct n u st find_view [OF f] checkTransition_view [OF ct] show ?thesis
      by (auto simp: caseService_TransitionCase_def Let_def repo_eq dest!: uuid_view record_view
          split: if_splits prod.splits option.splits bool.splits)
  qed (use assms f find_view [OF f] in \<open>auto simp: caseService_TransitionCase_def repo_eq\<close>)
qed

lemma AssignCase_step:
  assumes "caseService_AssignCase s i a w = (r, w')"
  shows "cases_step (view w) (view w')"
proof -
  obtain fr w1 where f: "cr_FindByID repo i w = (fr, w1)" by force
  show ?thesis
  proof (cases fr)
    case (Inr c)
    obtain n w2 where n: "time_Now w1 = (n, w2)" by force
    have "cases_step (view w) (view w3)" if "cr_Update repo c' w2 = (u, w3)" "case_evolves c c'" for c' u w3
      using f Inr n that by (auto intro!: written_back now_view)
    with assms f Inr n find_view [OF f] show ?thesis
      by (auto simp: caseService_AssignCase_def Let_def repo_eq split: if_splits prod.splits option.splits)
  qed (use assms f find_view [OF f] in \<open>auto simp: caseService_AssignCase_def repo_eq\<close>)
qed

lemma AddComment_view: "caseService_AddComment s i a b w = (r, w') \<Longrightarrow> view w' = view w"
  by (auto simp: caseService_AddComment_def Let_def repo_eq dest!: views
      split: if_splits prod.splits sum.splits option.splits)

lemma ListCases_view: "caseService_ListCases s t flt p l w = (r, w') \<Longrightarrow> view w' = view w"
  by (auto simp: caseService_ListCases_def Let_def repo_eq dest: list_view)

lemma ListComments_view: "caseService_ListComments s i w = (r, w') \<Longrightarrow> view w' = view w"
  by (auto simp: caseService_ListComments_def dest: comments_view)

end

section \<open>The MySQL repository provides it\<close>

definition stored_cases :: "wf_world \<Rightarrow> Case list" where
  "stored_cases w = map modelToDomainCase (rows (w_cases w))"

lemma stored_cases_ids: "map case_ID (stored_cases w) = map cm_ID (rows (w_cases w))"
  by (simp add: stored_cases_def modelToDomainCase_def)

lemma stored_cases_other [simp]:
  "stored_cases (w\<lparr>w_transitions := t\<rparr>) = stored_cases w" "stored_cases (w\<lparr>w_counters := c\<rparr>) = stored_cases w"
  "stored_cases (w\<lparr>w_tasks := k\<rparr>) = stored_cases w" "stored_cases (w\<lparr>w_templates := p\<rparr>) = stored_cases w"
  "stored_cases (w\<lparr>w_comments := m\<rparr>) = stored_cases w" "stored_cases (w\<lparr>env_clock := k'\<rparr>) = stored_cases w"
  "stored_cases (w\<lparr>env_uuids := u\<rparr>) = stored_cases w"
  by (simp_all add: stored_cases_def)

lemma stored_evolves:
  assumes "case_stored (domainCaseToModel c) m"
  shows "case_evolves c (modelToDomainCase m)"
  using assms by (cases c; cases m)
    (simp add: case_stored_def domainCaseToModel_def case_evolves_def modelToDomainCase_def)

context wf_db_laws
begin

lemma case_created:
  assumes "gorm_Create (db_cases db) (domainCaseToModel c) (w_cases w) = (r, t)"
  shows "cases_step (stored_cases w) (stored_cases (w\<lparr>w_cases := t\<rparr>))"
  using assms
proof (rule cases_t.create_cases [OF TrueI])
  fix m' assume ins: "case_stored (domainCaseToModel c) m'" "rows t = rows (w_cases w) @ [m']"
    "\<forall>x\<in>set (rows (w_cases w)). \<not> db_eq db (cm_ID x) (cm_ID (domainCaseToModel c))"
  have "cm_ID m' \<notin> cm_ID ` set (rows (w_cases w))"
    using ins stored_key(1) [OF ins(1)] eq_refl by (auto simp: image_iff)
  moreover have "stored_cases (w\<lparr>w_cases := t\<rparr>) = stored_cases w @ [modelToDomainCase m']"
    using ins by (simp add: stored_cases_def)
  moreover have "case_ID (modelToDomainCase m') = cm_ID m'" by (simp add: modelToDomainCase_def)
  moreover have "case_ID ` set (stored_cases w) = cm_ID ` set (rows (w_cases w))"
    using arg_cong [OF stored_cases_ids [of w], of set] by simp
  ultimately show ?thesis
    by (auto simp: cases_step_def cases_grow_new)
qed (simp add: stored_cases_def)

lemma case_saved:
  assumes x: "x \<in> set (stored_cases w)" "case_evolves x c"
    and save: "gorm_Save (db_cases db) (domainCaseToModel c) (w_cases w) = (r, t)"
  shows "cases_step (stored_cases w) (stored_cases (w\<lparr>w_cases := t\<rparr>))"
proof -
  let ?old = "rows (w_cases w)" and ?new = "rows t"
  obtain mx where mx: "mx \<in> set ?old" "x = modelToDomainCase mx" using x by (auto simp: stored_cases_def)
  have key: "cm_ID (domainCaseToModel c) = cm_ID mx"
    using x(2) mx(2) by (simp add: case_evolves_def domainCaseToModel_def modelToDomainCase_def)
  then have "cm_ID (domainCaseToModel c) \<in> cm_ID ` set ?old" using mx by blast
  from cases_t.save [OF this save] consider
    "rewritten case_stored (\<lambda>y. cm_ID y = cm_ID mx) (\<lambda>_. domainCaseToModel c) (w_cases w) t"
    | "?new = ?old" unfolding key by blast
  then show ?thesis
  proof cases
    case 1
    have ids: "map cm_ID ?new = map cm_ID ?old"
      by (rule cases_t.rewritten_keys [OF 1]) (simp add: key)
    show ?thesis unfolding cases_step_def
    proof (intro impI conjI)
      assume d: "distinct (map case_ID (stored_cases w))"
      then show "distinct (map case_ID (stored_cases (w\<lparr>w_cases := t\<rparr>)))"
        by (simp add: stored_cases_ids ids)
      have same: "y = mx" if "y \<in> set ?old" "cm_ID y = cm_ID mx" for y
        using distinct_key_eq [OF _ that(1) mx(1)] that(2) d by (simp add: stored_cases_ids)
      have "list_all2 (\<lambda>y z. case_evolves (modelToDomainCase y) (modelToDomainCase z)) ?old ?new"
        using 1 unfolding rewritten_def
      proof (rule list.rel_mono_strong)
        fix y z assume y: "y \<in> set ?old"
          and yz: "if cm_ID y = cm_ID mx then case_stored (domainCaseToModel c) z else z = y"
        show "case_evolves (modelToDomainCase y) (modelToDomainCase z)"
        proof (cases "cm_ID y = cm_ID mx")
          case True
          with yz same [OF y True] show ?thesis
            using case_evolves_trans [OF x(2)] stored_evolves mx(2) by simp
        qed (use yz in simp)
      qed
      then show "cases_grow (stored_cases w) (stored_cases (w\<lparr>w_cases := t\<rparr>))"
        by (intro cases_grow_same) (simp add: stored_cases_def list_all2_map1 list_all2_map2)
    qed
  qed (simp add: stored_cases_def)
qed

end

sublocale wf_db_laws \<subseteq> port: case_port "caseRepository db" stored_cases
proof (unfold_locales, goal_cases)
  case (1 c w r w')
  then show ?case
    by (auto simp: caseRepository_def caseRepository_Create_def on_table_def Let_def dest: case_created split: prod.splits)
next
  case (2 i w fr w')
  then show ?case
    by (auto simp: caseRepository_def caseRepository_FindByID_def on_table_def Let_def stored_cases_def
        dest: cases_t.first_rows split: prod.splits sum.splits)
next
  case (3 i w c w')
  then show ?case
    by (auto simp: caseRepository_def caseRepository_FindByID_def on_table_def Let_def stored_cases_def
        dest: cases_t.first_ok split: prod.splits sum.splits)
next
  case (4 x w c r w')
  then show ?case
    by (auto simp: caseRepository_def caseRepository_Update_def on_table_def Let_def dest: case_saved split: prod.splits)
next
  case (5 t flt p l w lr w')
  then show ?case
    by (auto simp: caseRepository_def caseRepository_List_def on_table_def Let_def stored_cases_def
        dest!: cases_t.count_rows cases_t.find_rows split: prod.splits sum.splits)
next
  case (6 tr w r w')
  then show ?case
    by (auto simp: caseRepository_def caseRepository_RecordTransition_def on_table_def Let_def split: prod.splits)
next
  case (7 t w nr w')
  then show ?case
    by (auto simp: caseRepository_def caseRepository_NextCaseNumber_def on_table_def Let_def
        split: prod.splits sum.splits)
qed

section \<open>The service as main wires it\<close>

definition wf_caseService :: "wf_db \<Rightarrow> wf_world caseService" where
  "wf_caseService db = \<lparr>cs_caseRepo = caseRepository db,
     cs_workflowRepo = workflowTemplateRepository db, cs_commentRepo = commentRepository db\<rparr>"

definition wf_taskService :: "wf_db \<Rightarrow> wf_world taskService" where
  "wf_taskService db = \<lparr>ts_taskRepo = taskRepository db, ts_caseRepo = caseRepository db\<rparr>"

definition wf_main :: "wf_db \<Rightarrow> wf_world wf_Handler" where
  "wf_main db =
     (let caseRepo = caseRepository db; taskRepo = taskRepository db;
          wfRepo = workflowTemplateRepository db; commentRepo = commentRepository db
      in \<lparr>h_caseService = NewCaseService caseRepo wfRepo commentRepo,
          h_taskService = NewTaskService taskRepo caseRepo,
          h_workflowService = NewWorkflowService wfRepo\<rparr>)"

lemma wf_main_simps [simp]:
  "svc_CreateCase (h_caseService (wf_main db)) = caseService_CreateCase (wf_caseService db)"
  "svc_GetCase (h_caseService (wf_main db)) = caseService_GetCase (wf_caseService db)"
  "svc_UpdateCase (h_caseService (wf_main db)) = caseService_UpdateCase (wf_caseService db)"
  "svc_TransitionCase (h_caseService (wf_main db)) = caseService_TransitionCase (wf_caseService db)"
  "svc_AssignCase (h_caseService (wf_main db)) = caseService_AssignCase (wf_caseService db)"
  "svc_ListCases (h_caseService (wf_main db)) = caseService_ListCases (wf_caseService db)"
  "svc_AddComment (h_caseService (wf_main db)) = caseService_AddComment (wf_caseService db)"
  "svc_ListComments (h_caseService (wf_main db)) = caseService_ListComments (wf_caseService db)"
  "svc_CreateTask (h_taskService (wf_main db)) = taskService_CreateTask (wf_taskService db)"
  "svc_UpdateTask (h_taskService (wf_main db)) = taskService_UpdateTask (wf_taskService db)"
  "svc_CompleteTask (h_taskService (wf_main db)) = taskService_CompleteTask (wf_taskService db)"
  "svc_ListByCase (h_taskService (wf_main db)) = taskService_ListByCase (wf_taskService db)"
  "svc_CreateTemplate (h_workflowService (wf_main db)) =
     workflowService_CreateTemplate \<lparr>ws_wfRepo = workflowTemplateRepository db\<rparr>"
  "svc_ListTemplates (h_workflowService (wf_main db)) =
     workflowService_ListTemplates \<lparr>ws_wfRepo = workflowTemplateRepository db\<rparr>"
  by (simp_all add: wf_main_def wf_caseService_def wf_taskService_def NewCaseService_def
      NewTaskService_def NewWorkflowService_def Let_def)

lemma wf_service_fields [simp]:
  "cs_caseRepo (wf_caseService db) = caseRepository db"
  "cs_workflowRepo (wf_caseService db) = workflowTemplateRepository db"
  "cs_commentRepo (wf_caseService db) = commentRepository db"
  "ts_taskRepo (wf_taskService db) = taskRepository db"
  "ts_caseRepo (wf_taskService db) = caseRepository db"
  by (simp_all add: wf_caseService_def wf_taskService_def)

lemmas other_table_defs = commentRepository_def commentRepository_Create_def
  commentRepository_ListByCase_def workflowTemplateRepository_def
  workflowTemplateRepository_FindByID_def workflowTemplateRepository_ListByTenant_def
  workflowTemplateRepository_Create_def taskRepository_def taskRepository_Create_def
  taskRepository_FindByID_def taskRepository_ListByCase_def taskRepository_Update_def on_table_def Let_def

sublocale wf_db_laws \<subseteq> client: case_client "caseRepository db" stored_cases "wf_caseService db"
  by unfold_locales
    (auto simp: other_table_defs time_Now_def uuid_NewString_def split: prod.splits sum.splits)

end
