(* ===== verification/Wf_Serve.thy ===== *)
theory Wf_Serve
  imports Wf_Inv
begin

text \<open>
  workflow-service: a relation between states that every operation of the services keeps, and that
  does not look at the clock and the identifiers still to come, is kept by every HTTP request.
\<close>

lemma snd_wf_reply [simp]: "snd (wf_reply st f x) = snd x"
  by (cases "(st, f, x)" rule: wf_reply.cases) simp_all

abbreviation wf_templates :: "wf_db \<Rightarrow> wf_world workflowService" where
  "wf_templates db \<equiv> \<lparr>ws_wfRepo = workflowTemplateRepository db\<rparr>"

locale wf_request =
  fixes db :: wf_db
    and R :: "wf_world \<Rightarrow> wf_world \<Rightarrow> bool"
  assumes refl: "R w w"
    and clock_l: "R (w\<lparr>env_clock := k\<rparr>) w' = R w w'"
    and uuids_l: "R (w\<lparr>env_uuids := u\<rparr>) w' = R w w'"
    and clock_r: "R w (w'\<lparr>env_clock := k\<rparr>) = R w w'"
    and CreateCase: "R w (snd (caseService_CreateCase (wf_caseService db) t rep creq w))"
    and GetCase: "R w (snd (caseService_GetCase (wf_caseService db) i w))"
    and UpdateCase: "R w (snd (caseService_UpdateCase (wf_caseService db) i ureq w))"
    and TransitionCase: "R w (snd (caseService_TransitionCase (wf_caseService db) i treq w))"
    and AssignCase: "R w (snd (caseService_AssignCase (wf_caseService db) i a w))"
    and ListCases: "R w (snd (caseService_ListCases (wf_caseService db) t flt pg l w))"
    and AddComment: "R w (snd (caseService_AddComment (wf_caseService db) i a b w))"
    and ListComments: "R w (snd (caseService_ListComments (wf_caseService db) i w))"
    and CreateTask: "R w (snd (taskService_CreateTask (wf_taskService db) i ctreq w))"
    and UpdateTask: "R w (snd (taskService_UpdateTask (wf_taskService db) i utreq w))"
    and CompleteTask: "R w (snd (taskService_CompleteTask (wf_taskService db) i w))"
    and ListByCase: "R w (snd (taskService_ListByCase (wf_taskService db) i w))"
    and CreateTemplate: "R w (snd (workflowService_CreateTemplate (wf_templates db) t wreq w))"
    and ListTemplates: "R w (snd (workflowService_ListTemplates (wf_templates db) t w))"
begin

lemmas ops = CreateCase GetCase UpdateCase TransitionCase AssignCase ListCases AddComment ListComments
  CreateTask UpdateTask CompleteTask ListByCase CreateTemplate ListTemplates

definition serves :: "wf_world wf_handler \<Rightarrow> bool" where
  "serves f \<longleftrightarrow> (\<forall>r w. R w (snd (f r w)))"

lemma middleware:
  assumes "serves f"
  shows "serves (wf_RequestID f)" "serves (wf_CORS f)" "serves (wf_RequestLogger f)"
    "serves (wf_TenantContext f)" "serves (wf_UserContext f)"
proof -
  have f: "R w (snd (f r w))" for r w using assms by (simp add: serves_def)
  have g: "R w (snd (f r (w\<lparr>env_clock := k\<rparr>)))" "R w (snd (f r (w\<lparr>env_uuids := u\<rparr>)))" for r w k u
    using f [of "w\<lparr>env_clock := k\<rparr>" r] f [of "w\<lparr>env_uuids := u\<rparr>" r] by (simp_all add: clock_l uuids_l)
  show "serves (wf_RequestID f)" "serves (wf_CORS f)" "serves (wf_RequestLogger f)"
    "serves (wf_TenantContext f)" "serves (wf_UserContext f)"
    using f g unfolding serves_def
    by (simp_all add: wf_RequestID_def wf_CORS_def wf_RequestLogger_def wf_TenantContext_def wf_UserContext_def
        Let_def time_Now_def uuid_NewString_def split_beta refl clock_r)
qed

lemma option_step:
  "R w w1 \<Longrightarrow> (\<And>y. R w (snd (f y))) \<Longrightarrow> R w (snd (case x of None \<Rightarrow> (a, w1) | Some y \<Rightarrow> f y))"
  by (cases x) simp_all

lemma handlers:
  "serves (Handler_CreateCase (wf_main db))"
  "serves (Handler_ListCases (wf_main db))"
  "serves (Handler_GetCase (wf_main db))"
  "serves (Handler_UpdateCase (wf_main db))"
  "serves (Handler_TransitionCase (wf_main db))"
  "serves (Handler_AssignCase (wf_main db))"
  "serves (Handler_ListTasks (wf_main db))"
  "serves (Handler_CreateTask (wf_main db))"
  "serves (Handler_UpdateTask (wf_main db))"
  "serves (Handler_CompleteTask (wf_main db))"
  "serves (Handler_ListComments (wf_main db))"
  "serves (Handler_AddComment (wf_main db))"
  "serves (Handler_ListWorkflows (wf_main db))"
  "serves (Handler_CreateWorkflow (wf_main db))"
  unfolding serves_def
  subgoal unfolding Handler_CreateCase_def by (intro allI option_step refl) (simp_all add: ops refl split: prod.split)
  subgoal unfolding Handler_ListCases_def by (simp add: ops Let_def)
  subgoal unfolding Handler_GetCase_def by (simp add: ops Let_def)
  subgoal unfolding Handler_UpdateCase_def by (intro allI option_step refl) (simp_all add: ops refl split: prod.split)
  subgoal unfolding Handler_TransitionCase_def by (intro allI option_step refl) (simp_all add: ops refl split: prod.split)
  subgoal unfolding Handler_AssignCase_def by (intro allI option_step refl) (simp_all add: ops refl split: prod.split)
  subgoal unfolding Handler_ListTasks_def by (simp add: ops Let_def)
  subgoal unfolding Handler_CreateTask_def by (intro allI option_step refl) (simp_all add: ops refl split: prod.split)
  subgoal unfolding Handler_UpdateTask_def by (intro allI option_step refl) (simp_all add: ops refl split: prod.split)
  subgoal unfolding Handler_CompleteTask_def by (simp add: ops Let_def)
  subgoal unfolding Handler_ListComments_def by (simp add: ops Let_def)
  subgoal unfolding Handler_AddComment_def by (intro allI option_step refl) (simp_all add: ops refl split: prod.split)
  subgoal unfolding Handler_ListWorkflows_def by (simp add: ops Let_def)
  subgoal unfolding Handler_CreateWorkflow_def by (intro allI option_step refl) (simp_all add: ops refl split: prod.split)
  done

lemma router: "R w (snd (wf_NewRouter mux (wf_main db) r w))"
proof -
  have ep: "serves (wf_endpoint (wf_main db) m pat)" for m pat
    using handlers unfolding serves_def wf_endpoint_def by (simp add: refl)
  have st: "serves (\<lambda>r w. (json_response st P_empty, w))" for st
    by (simp add: serves_def refl)
  note api = middleware(4) [OF middleware(5)]
  have "serves (wf_dispatch mux (wf_main db))"
    using api [OF ep] api [OF st] unfolding serves_def wf_dispatch_def
    by (simp add: refl split: chi_match.split)
  then have "serves (wf_NewRouter mux (wf_main db))" unfolding wf_NewRouter_def by (intro middleware)
  then show ?thesis by (simp add: serves_def)
qed

end

end
