(* ===== verification/Wf_Reach.thy ===== *)
theory Wf_Reach
  imports Wf_Serve
begin

text \<open>
  workflow-service: sequences of HTTP requests. A request run through the router changes the stored
  cases only as \<open>cases_step\<close> allows, and every task and comment carries the tenant of its case.
\<close>

section \<open>Tasks and comments belong to the tenant of their case\<close>

definition owner_refs :: "wf_world \<Rightarrow> (string \<times> string) set" where
  "owner_refs w = (\<lambda>m. (tm_CaseID m, tm_TenantID m)) ` set (rows (w_tasks w))
     \<union> (\<lambda>m. (com_CaseID m, com_TenantID m)) ` set (rows (w_comments w))"

definition owned :: "wf_db \<Rightarrow> Case list \<Rightarrow> string \<times> string \<Rightarrow> bool" where
  "owned db cs p \<longleftrightarrow> (\<exists>c\<in>set cs. db_eq db (case_ID c) (fst p) \<and> case_TenantID c = snd p)"

definition wf_step_ok :: "wf_db \<Rightarrow> wf_world \<Rightarrow> wf_world \<Rightarrow> bool" where
  "wf_step_ok db w w' \<longleftrightarrow> cases_step (stored_cases w) (stored_cases w')
     \<and> (\<forall>p\<in>owner_refs w'. p \<in> owner_refs w \<or> owned db (stored_cases w) p)"

lemma wf_step_okI:
  "cases_step (stored_cases w) (stored_cases w') \<Longrightarrow> w_tasks w' = w_tasks w \<Longrightarrow> w_comments w' = w_comments w
     \<Longrightarrow> wf_step_ok db w w'"
  by (simp add: wf_step_ok_def owner_refs_def)

lemma wf_step_ok_refl [simp]: "wf_step_ok db w w"
  by (simp add: wf_step_ok_def)

lemma owner_refs_other [simp]:
  "owner_refs (w\<lparr>w_transitions := t\<rparr>) = owner_refs w" "owner_refs (w\<lparr>w_counters := c\<rparr>) = owner_refs w"
  "owner_refs (w\<lparr>w_cases := k\<rparr>) = owner_refs w" "owner_refs (w\<lparr>w_templates := p\<rparr>) = owner_refs w"
  "owner_refs (w\<lparr>env_clock := k'\<rparr>) = owner_refs w" "owner_refs (w\<lparr>env_uuids := u\<rparr>) = owner_refs w"
  by (simp_all add: owner_refs_def)

section \<open>Parts of the state the case operations keep\<close>

text \<open>
  \<open>wf_frame\<close> collects what the operations on an existing case and the operations on templates are
  made of; a part of the state all of these calls keep is kept by the operations.
\<close>

locale wf_frame = wf_db_laws db for db :: wf_db +
  fixes p :: "wf_world \<Rightarrow> 'x"
  assumes find: "keeps p (caseRepository_FindByID db i)"
    and update: "case_ID c \<in> case_ID ` set (stored_cases w) \<Longrightarrow> caseRepository_Update db c w = (r, w') \<Longrightarrow> p w' = p w"
    and page: "keeps p (caseRepository_List db t flt pg l)"
    and record_transition: "keeps p (caseRepository_RecordTransition db tr)"
    and template_find: "keeps p (workflowTemplateRepository_FindByID db i)"
    and template_create: "keeps p (workflowTemplateRepository_Create db wt)"
    and template_list: "keeps p (workflowTemplateRepository_ListByTenant db t)"
    and now: "keeps p (time_Now :: wf_world \<Rightarrow> time \<times> wf_world)"
    and uuid: "keeps p (uuid_NewString :: wf_world \<Rightarrow> string \<times> wf_world)"
begin

lemmas repo = find [THEN keepsD] page [THEN keepsD] record_transition [THEN keepsD]
  template_find [THEN keepsD] template_create [THEN keepsD] template_list [THEN keepsD] now [THEN keepsD]
  uuid [THEN keepsD]

lemma lookups:
  "keeps p (resolveSLA (wf_caseService db) tm wid c)"
  "keeps p (checkTransition (wf_caseService db) c to)"
  by (auto simp: keeps_def resolveSLA_def checkTransition_def workflowTemplateRepository_def Let_def
      dest: repo split: option.splits if_splits prod.splits sum.splits)

text \<open>A case that was found, with its identifier kept, written back.\<close>

lemma written_back:
  assumes f: "caseRepository_FindByID db i w = (Inr c, w1)" and w2: "stored_cases w2 = stored_cases w1"
    and u: "caseRepository_Update db c' w2 = (r, w3)" and id: "case_ID c' = case_ID c"
  shows "p w3 = p w2"
proof -
  have f': "cr_FindByID (caseRepository db) i w = (Inr c, w1)" using f by (simp add: caseRepository_def)
  from port.find_mem [OF f'] port.find_view [OF f'] w2 have "case_ID c' \<in> case_ID ` set (stored_cases w2)"
    by (simp add: id)
  from update [OF this u] show ?thesis .
qed

lemma found_now:
  assumes f: "caseRepository_FindByID db i w = (Inr c, w1)" and u: "caseRepository_Update db c' (snd (time_Now w1)) = (r, w3)"
    and id: "case_ID c' = case_ID c"
  shows "p w3 = p w"
  using written_back [OF f _ u id] find [THEN keepsD, OF f] now [THEN keeps_snd] by (simp add: time_Now_def)

lemma GetCase: "keeps p (caseService_GetCase (wf_caseService db) i)"
  unfolding keeps_def
proof (intro allI impI)
  fix w r w' assume run: "caseService_GetCase (wf_caseService db) i w = (r, w')"
  obtain fr w1 where f: "caseRepository_FindByID db i w = (fr, w1)" by force
  note same = find [THEN keepsD, OF f] now [THEN keeps_snd, of w1]
  show "p w' = p w"
  proof (cases fr)
    case (Inr c)
    from run f Inr same found_now [OF f [unfolded Inr]] show ?thesis
      by (auto simp: caseService_GetCase_def caseRepository_def Let_def split: option.splits if_splits prod.splits)
  qed (use run f same in \<open>auto simp: caseService_GetCase_def caseRepository_def\<close>)
qed

lemma UpdateCase: "keeps p (caseService_UpdateCase (wf_caseService db) i req)"
  unfolding keeps_def
proof (intro allI impI)
  fix w r w' assume run: "caseService_UpdateCase (wf_caseService db) i req w = (r, w')"
  obtain fr w1 where f: "caseRepository_FindByID db i w = (fr, w1)" by force
  note same = find [THEN keepsD, OF f] now [THEN keeps_snd, of w1]
  show "p w' = p w"
  proof (cases fr)
    case (Inr c)
    from run f Inr same found_now [OF f [unfolded Inr]] show ?thesis
      by (auto simp: caseService_UpdateCase_def caseRepository_def Let_def split: option.splits if_splits prod.splits)
  qed (use run f same in \<open>auto simp: caseService_UpdateCase_def caseRepository_def\<close>)
qed

lemma AssignCase: "keeps p (caseService_AssignCase (wf_caseService db) i a)"
  unfolding keeps_def
proof (intro allI impI)
  fix w r w' assume run: "caseService_AssignCase (wf_caseService db) i a w = (r, w')"
  obtain fr w1 where f: "caseRepository_FindByID db i w = (fr, w1)" by force
  note same = find [THEN keepsD, OF f] now [THEN keeps_snd, of w1]
  show "p w' = p w"
  proof (cases fr)
    case (Inr c)
    from run f Inr same found_now [OF f [unfolded Inr]] show ?thesis
      by (auto simp: caseService_AssignCase_def caseRepository_def Let_def split: option.splits prod.splits)
  qed (use run f same in \<open>auto simp: caseService_AssignCase_def caseRepository_def\<close>)
qed

lemma transitioned_ID [simp]: "case_ID (transitioned c to n) = case_ID c"
  using case_evolves_transitioned [of c to n] by (simp add: case_evolves_def)

lemma TransitionCase: "keeps p (caseService_TransitionCase (wf_caseService db) i req)"
  unfolding keeps_def
proof (intro allI impI)
  fix w r w' assume run: "caseService_TransitionCase (wf_caseService db) i req w = (r, w')"
  obtain fr w1 where f: "caseRepository_FindByID db i w = (fr, w1)" by force
  show "p w' = p w"
  proof (cases fr)
    case (Inr c)
    let ?to = "trq_ToStatus req"
    obtain ok w2 n w3 u w4 where ct: "checkTransition (wf_caseService db) c ?to w1 = (ok, w2)"
      and n: "time_Now w2 = (n, w3)" and u: "caseRepository_Update db (transitioned c ?to n) w3 = (u, w4)"
      by (metis surj_pair)
    have "stored_cases w3 = stored_cases w1"
      using client.checkTransition_view [OF ct] client.now_view [OF n] by simp
    from written_back [OF f [unfolded Inr] this u] have "p w4 = p w3" by simp
    with run f Inr ct n u find [THEN keepsD, OF f] lookups(2) [THEN keepsD, OF ct] now [THEN keepsD, OF n]
    show ?thesis
      by (auto simp: caseService_TransitionCase_def caseRepository_def Let_def
          dest!: record_transition [THEN keepsD] uuid [THEN keepsD] split: if_splits prod.splits option.splits bool.splits)
  qed (use run f find [THEN keepsD, OF f] in \<open>auto simp: caseService_TransitionCase_def caseRepository_def\<close>)
qed

lemma ListCases: "keeps p (caseService_ListCases (wf_caseService db) t flt pg l)"
  by (auto simp: keeps_def caseService_ListCases_def caseRepository_def Let_def dest!: repo)

lemma CreateTemplate:
  "keeps p (workflowService_CreateTemplate \<lparr>ws_wfRepo = workflowTemplateRepository db\<rparr> t req)"
  by (auto simp: keeps_def workflowService_CreateTemplate_def workflowTemplateRepository_def Let_def dest!: repo
      split: option.splits if_splits prod.splits)

lemma ListTemplates:
  "keeps p (workflowService_ListTemplates \<lparr>ws_wfRepo = workflowTemplateRepository db\<rparr> t)"
  by (auto simp: keeps_def workflowService_ListTemplates_def workflowTemplateRepository_def dest!: repo)

end

lemmas case_repo_defs = caseRepository_Create_def caseRepository_FindByID_def caseRepository_Update_def
  caseRepository_List_def caseRepository_RecordTransition_def caseRepository_NextCaseNumber_def
  workflowTemplateRepository_FindByID_def workflowTemplateRepository_Create_def
  workflowTemplateRepository_ListByTenant_def time_Now_def uuid_NewString_def on_table_def Let_def

lemma keeps_refs_repo:
  "keeps owner_refs (caseRepository_Create db c)" "keeps owner_refs (caseRepository_FindByID db i)"
  "keeps owner_refs (caseRepository_Update db c)" "keeps owner_refs (caseRepository_List db t flt pg l)"
  "keeps owner_refs (caseRepository_RecordTransition db tr)" "keeps owner_refs (caseRepository_NextCaseNumber db t)"
  "keeps owner_refs (workflowTemplateRepository_FindByID db i)"
  "keeps owner_refs (workflowTemplateRepository_Create db wt)"
  "keeps owner_refs (workflowTemplateRepository_ListByTenant db t)"
  "keeps owner_refs (time_Now :: wf_world \<Rightarrow> _)" "keeps owner_refs (uuid_NewString :: wf_world \<Rightarrow> _)"
  by (auto simp: keeps_def case_repo_defs split: prod.splits sum.splits)

sublocale wf_db_laws \<subseteq> refs: wf_frame db owner_refs
  by unfold_locales (auto intro: keeps_refs_repo dest: keeps_refs_repo(3) [THEN keepsD])

context wf_db_laws
begin

lemma keeps_refs_CreateCase: "keeps owner_refs (caseService_CreateCase (wf_caseService db) t rep req)"
proof -
  note [dest!] = keeps_refs_repo(1,6) [THEN keepsD] refs.lookups(1) [THEN keepsD] refs.now [THEN keepsD]
    refs.uuid [THEN keepsD]
  show ?thesis
    by (auto simp: keeps_def caseService_CreateCase_def caseRepository_def Let_def
        split: option.splits if_splits prod.splits sum.splits)
qed

end

end
