(* ===== verification/Wf_Steps.thy ===== *)
theory Wf_Steps
  imports Wf_Reach
begin

text \<open>
  workflow-service: every request keeps \<open>wf_step_ok\<close>, first for the operations of the services,
  then for the handlers and the router, and so along every sequence of requests.
\<close>

lemma comment_stored_owner:
  "comment_stored m m' \<Longrightarrow> com_CaseID m' = com_CaseID m \<and> com_TenantID m' = com_TenantID m"
  by (cases m; cases m') (simp add: comment_stored_def)

lemma task_stored_owner:
  "task_stored m m' \<Longrightarrow> tm_ID m' = tm_ID m \<and> tm_CaseID m' = tm_CaseID m \<and> tm_TenantID m' = tm_TenantID m"
  by (cases m; cases m') (simp add: task_stored_def)

section \<open>The steps of the services\<close>

context wf_db_laws
begin

lemma find_case_owned:
  assumes "caseRepository_FindByID db i w = (Inr c, w')"
  shows "owned db (stored_cases w) (i, case_TenantID c)"
proof -
  from assms obtain m t where "gorm_First (db_cases db) (\<lambda>m. db_eq db (cm_ID m) i) (w_cases w) = (Inr m, t)"
    and "c = modelToDomainCase m"
    by (auto simp: caseRepository_FindByID_def on_table_def Let_def split: prod.splits sum.splits)
  with cases_t.first_ok [of "\<lambda>m. db_eq db (cm_ID m) i" "w_cases w" m t] show ?thesis
    by (auto simp: owned_def stored_cases_def modelToDomainCase_def)
qed

lemma comment_create_refs:
  assumes "commentRepository_Create db c w = (r, w')"
  shows "owner_refs w' \<subseteq> insert (cmt_CaseID c, cmt_TenantID c) (owner_refs w)"
proof -
  from assms obtain t where t: "gorm_Create (db_comments db) (commentToModel c) (w_comments w) = (r, t)"
    and w': "w' = w\<lparr>w_comments := t\<rparr>"
    by (auto simp: commentRepository_Create_def on_table_def Let_def split: prod.splits)
  show ?thesis
    by (rule comments_t.create_cases [OF TrueI t])
      (auto simp: w' owner_refs_def commentToModel_def dest!: comment_stored_owner)
qed

lemma task_create_refs:
  assumes "taskRepository_Create db k w = (r, w')"
  shows "owner_refs w' \<subseteq> insert (task_CaseID k, task_TenantID k) (owner_refs w)"
proof -
  from assms obtain t where t: "gorm_Create (db_tasks db) (domainTaskToModel k) (w_tasks w) = (r, t)"
    and w': "w' = w\<lparr>w_tasks := t\<rparr>"
    by (auto simp: taskRepository_Create_def on_table_def Let_def split: prod.splits)
  show ?thesis
    by (rule tasks_t.create_cases [OF TrueI t])
      (auto simp: w' owner_refs_def domainTaskToModel_def dest!: task_stored_owner)
qed

lemma task_find:
  assumes "taskRepository_FindByID db i w = (r, w')"
  shows "owner_refs w' = owner_refs w" "stored_cases w' = stored_cases w" "rows (w_tasks w') = rows (w_tasks w)"
    "r = Inr k \<Longrightarrow> k \<in> modelToDomainTask ` set (rows (w_tasks w))"
  using assms by (auto simp: taskRepository_FindByID_def on_table_def Let_def owner_refs_def
      dest: tasks_t.first_rows tasks_t.first_ok split: prod.splits sum.splits)

lemma task_update_refs:
  assumes u: "taskRepository_Update db k' w = (r, w')"
    and k: "k \<in> modelToDomainTask ` set (rows (w_tasks w))"
    and same: "task_ID k' = task_ID k" "task_CaseID k' = task_CaseID k" "task_TenantID k' = task_TenantID k"
  shows "owner_refs w' \<subseteq> owner_refs w"
proof -
  from u obtain t where t: "gorm_Save (db_tasks db) (domainTaskToModel k') (w_tasks w) = (r, t)"
    and w': "w' = w\<lparr>w_tasks := t\<rparr>"
    by (auto simp: taskRepository_Update_def on_table_def Let_def split: prod.splits)
  from k obtain m where m: "m \<in> set (rows (w_tasks w))" "k = modelToDomainTask m" by auto
  then have key: "tm_ID (domainTaskToModel k') = tm_ID m"
    using same by (simp add: domainTaskToModel_def modelToDomainTask_def)
  with m have "tm_ID (domainTaskToModel k') \<in> tm_ID ` set (rows (w_tasks w))" by simp
  from tasks_t.save [OF this t] show ?thesis
  proof
    assume rw: "rewritten task_stored (\<lambda>x. tm_ID x = tm_ID (domainTaskToModel k'))
      (\<lambda>_. domainTaskToModel k') (w_tasks w) t"
    have "(tm_CaseID y, tm_TenantID y) \<in> owner_refs w" if y: "y \<in> set (rows t)" for y
    proof -
      from rewritten_memD [OF rw y] obtain x where x: "x \<in> set (rows (w_tasks w))"
        and xy: "if tm_ID x = tm_ID (domainTaskToModel k') then task_stored (domainTaskToModel k') y else y = x"
        by blast
      have "tm_CaseID (domainTaskToModel k') = tm_CaseID m" "tm_TenantID (domainTaskToModel k') = tm_TenantID m"
        using same m(2) by (simp_all add: domainTaskToModel_def modelToDomainTask_def)
      with xy x m(1) show ?thesis
        by (auto simp: owner_refs_def dest: task_stored_owner split: if_splits)
    qed
    then show ?thesis by (auto simp: w' owner_refs_def)
  qed (auto simp: w' owner_refs_def)
qed

lemma case_create_step:
  assumes "caseRepository_FindByID db i w = (r, w')"
  shows "stored_cases w' = stored_cases w"
  using assms port.find_view [of i w r w'] by (simp add: caseRepository_def)

lemma step_ok_cases:
  "wf_step_ok db w (snd (caseService_CreateCase (wf_caseService db) t rep creq w))"
  "wf_step_ok db w (snd (caseService_GetCase (wf_caseService db) i w))"
  "wf_step_ok db w (snd (caseService_UpdateCase (wf_caseService db) i ureq w))"
  "wf_step_ok db w (snd (caseService_TransitionCase (wf_caseService db) i treq w))"
  "wf_step_ok db w (snd (caseService_AssignCase (wf_caseService db) i a w))"
  "wf_step_ok db w (snd (caseService_ListCases (wf_caseService db) t flt p l w))"
  subgoal using client.CreateCase_step [OF prod.collapse [symmetric]] keeps_refs_CreateCase [THEN keeps_snd] by (simp add: wf_step_ok_def)
  subgoal using client.GetCase_step [OF prod.collapse [symmetric]] refs.GetCase [THEN keeps_snd] by (simp add: wf_step_ok_def)
  subgoal using client.UpdateCase_step [OF prod.collapse [symmetric]] refs.UpdateCase [THEN keeps_snd] by (simp add: wf_step_ok_def)
  subgoal using client.TransitionCase_step [OF prod.collapse [symmetric]] refs.TransitionCase [THEN keeps_snd] by (simp add: wf_step_ok_def)
  subgoal using client.AssignCase_step [OF prod.collapse [symmetric]] refs.AssignCase [THEN keeps_snd] by (simp add: wf_step_ok_def)
  subgoal using client.ListCases_view [OF prod.collapse [symmetric]] refs.ListCases [THEN keeps_snd] by (simp add: wf_step_ok_def)
  done

lemma step_ok_templates:
  "wf_step_ok db w (snd (workflowService_CreateTemplate \<lparr>ws_wfRepo = workflowTemplateRepository db\<rparr> t wreq w))"
  "wf_step_ok db w (snd (workflowService_ListTemplates \<lparr>ws_wfRepo = workflowTemplateRepository db\<rparr> t w))"
  by (auto intro!: wf_step_okI simp: workflowService_CreateTemplate_def workflowService_ListTemplates_def
      other_table_defs time_Now_def uuid_NewString_def split: prod.splits sum.splits option.splits)

lemma step_ok_lists:
  "wf_step_ok db w (snd (caseService_ListComments (wf_caseService db) i w))"
  "wf_step_ok db w (snd (taskService_ListByCase (wf_taskService db) i w))"
  by (auto simp: caseService_ListComments_def taskService_ListByCase_def other_table_defs wf_step_ok_def
      owner_refs_def dest: comments_t.find_rows tasks_t.find_rows split: prod.splits sum.splits)

lemma step_ok_AddComment:
  "wf_step_ok db w (snd (caseService_AddComment (wf_caseService db) i a b w))"
proof (cases "caseService_AddComment (wf_caseService db) i a b w")
  case (Pair r w')
  obtain fr w1 where f: "caseRepository_FindByID db i w = (fr, w1)" by force
  have v: "stored_cases w' = stored_cases w"
    using client.AddComment_view [OF Pair] .
  have "\<forall>p\<in>owner_refs w'. p \<in> owner_refs w \<or> owned db (stored_cases w) p"
  proof (cases fr)
    case (Inr c)
    then show ?thesis
      using Pair f find_case_owned [OF f [unfolded Inr]] refs.find [THEN keepsD, OF f]
      by (auto simp: caseService_AddComment_def caseRepository_def commentRepository_def Let_def time_Now_def
          uuid_NewString_def dest!: comment_create_refs split: if_splits prod.splits option.splits)
  qed (use Pair f refs.find [THEN keepsD, OF f] in \<open>auto simp: caseService_AddComment_def caseRepository_def split: if_splits\<close>)
  with v show ?thesis by (simp add: Pair wf_step_ok_def)
qed

lemma step_ok_CreateTask:
  "wf_step_ok db w (snd (taskService_CreateTask (wf_taskService db) i req w))"
proof -
  obtain fr w1 where f: "caseRepository_FindByID db i w = (fr, w1)" by force
  note same = refs.find [THEN keepsD, OF f] case_create_step [OF f]
  show ?thesis
  proof (cases fr)
    case (Inr c)
    let ?w2 = "snd (uuid_NewString (snd (time_Now w1)))"
    let ?k = "\<lparr>task_ID = fst (uuid_NewString (snd (time_Now w1))), task_CaseID = i,
      task_TenantID = case_TenantID c, task_Title = ctr_Title req, task_Description = ctr_Description req,
      task_Status = TaskStatusTodo, task_AssigneeID = ctr_AssigneeID req, task_DueAt = ctr_DueAt req,
      task_CompletedAt = None, task_CreatedAt = fst (time_Now w1), task_UpdatedAt = fst (time_Now w1)\<rparr>"
    obtain u w3 where u: "taskRepository_Create db ?k ?w2 = (u, w3)" by force
    have "owner_refs w3 \<subseteq> insert (i, case_TenantID c) (owner_refs w)"
      using task_create_refs [OF u] same by (simp add: time_Now_def uuid_NewString_def)
    moreover have "stored_cases w3 = stored_cases w"
      using u same by (auto simp: other_table_defs time_Now_def uuid_NewString_def split: prod.splits)
    ultimately have "wf_step_ok db w w3"
      using find_case_owned [OF f [unfolded Inr]] by (auto simp: wf_step_ok_def)
    with f Inr u show ?thesis
      by (auto simp: taskService_CreateTask_def caseRepository_def taskRepository_def Let_def split: prod.splits option.splits)
  qed (use f same in \<open>auto simp: taskService_CreateTask_def caseRepository_def wf_step_ok_def\<close>)
qed

lemma task_written_back:
  assumes f: "taskRepository_FindByID db i w = (Inr k, w1)" and u: "taskRepository_Update db k' w2 = (r, w3)"
    and w2: "stored_cases w2 = stored_cases w1" "owner_refs w2 = owner_refs w1" "w_tasks w2 = w_tasks w1"
    and same: "task_ID k' = task_ID k" "task_CaseID k' = task_CaseID k" "task_TenantID k' = task_TenantID k"
  shows "wf_step_ok db w w3"
proof -
  have "k \<in> modelToDomainTask ` set (rows (w_tasks w2))"
    using task_find(3,4) [OF f] w2(3) by simp
  from task_update_refs [OF u this same] have "owner_refs w3 \<subseteq> owner_refs w"
    using w2(2) task_find(1) [OF f] by simp
  moreover have "stored_cases w3 = stored_cases w2"
    using u by (auto simp: other_table_defs split: prod.splits)
  ultimately show ?thesis using w2(1) task_find(2) [OF f] by (auto simp: wf_step_ok_def)
qed

lemma task_found_step: "taskRepository_FindByID db i w = (r, w1) \<Longrightarrow> wf_step_ok db w w1"
  by (simp add: wf_step_ok_def task_find(1,2))

lemma step_ok_CompleteTask:
  "wf_step_ok db w (snd (taskService_CompleteTask (wf_taskService db) i w))"
  by (auto simp: taskService_CompleteTask_def taskRepository_def time_Now_def Let_def
      intro: task_found_step task_written_back split: prod.splits sum.splits option.splits)

lemma updatedTask_frame:
  assumes "updatedTask req k w = (k', w')"
  shows "task_ID k' = task_ID k" "task_CaseID k' = task_CaseID k" "task_TenantID k' = task_TenantID k"
    "\<exists>cl. w' = w\<lparr>env_clock := cl\<rparr>"
proof -
  obtain t2 where t2: "t2 = (case utr_Description req of None \<Rightarrow> (case utr_Title req of None \<Rightarrow> k | Some t \<Rightarrow> k\<lparr>task_Title := t\<rparr>)
      | Some d \<Rightarrow> (case utr_Title req of None \<Rightarrow> k | Some t \<Rightarrow> k\<lparr>task_Title := t\<rparr>)\<lparr>task_Description := d\<rparr>)"
    by simp
  then have "task_ID t2 = task_ID k \<and> task_CaseID t2 = task_CaseID k \<and> task_TenantID t2 = task_TenantID k"
    by (auto split: option.splits)
  with assms show "task_ID k' = task_ID k" "task_CaseID k' = task_CaseID k" "task_TenantID k' = task_TenantID k"
    "\<exists>cl. w' = w\<lparr>env_clock := cl\<rparr>"
    unfolding updatedTask_def Let_def t2 [symmetric]
    by (auto simp: time_Now_def split: option.splits if_splits)
qed

lemma step_ok_UpdateTask:
  "wf_step_ok db w (snd (taskService_UpdateTask (wf_taskService db) i req w))"
proof -
  obtain fr w1 where f: "taskRepository_FindByID db i w = (fr, w1)" by force
  show ?thesis
  proof (cases fr)
    case (Inr k)
    obtain k' w2 where k': "updatedTask req k w1 = (k', w2)" by force
    obtain u w3 where u: "taskRepository_Update db k' w2 = (u, w3)" by force
    from updatedTask_frame(4) [OF k'] obtain cl where "w2 = w1\<lparr>env_clock := cl\<rparr>" by blast
    then have "wf_step_ok db w w3"
      by (intro task_written_back [OF f [unfolded Inr] u] updatedTask_frame [OF k']) simp_all
    with f Inr k' u task_found_step [OF f] show ?thesis
      by (simp add: taskService_UpdateTask_def taskRepository_def split: option.splits)
  qed (use f task_found_step [OF f] in \<open>simp add: taskService_UpdateTask_def taskRepository_def\<close>)
qed

end

sublocale wf_db_laws \<subseteq> owner_steps: wf_request db "wf_step_ok db"
  by unfold_locales
    (rule step_ok_cases step_ok_templates step_ok_lists step_ok_AddComment step_ok_CreateTask
      step_ok_UpdateTask step_ok_CompleteTask | simp add: wf_step_ok_def)+

context wf_db_laws
begin

lemma owner_request: "wf_request db (wf_step_ok db)"
  by (rule owner_steps.wf_request_axioms)

end

section \<open>Sequences of requests\<close>

text \<open>\<open>wf_reach db w n w'\<close>: from the state \<open>w\<close>, \<open>n\<close> requests lead to \<open>w'\<close>.\<close>

inductive wf_reach :: "wf_db \<Rightarrow> wf_world \<Rightarrow> nat \<Rightarrow> wf_world \<Rightarrow> bool" for db :: wf_db and w :: wf_world where
  start: "wf_reach db w 0 w"
| request: "wf_reach db w n w1 \<Longrightarrow> wf_reach db w (Suc n) (snd (wf_NewRouter mux (wf_main db) r w1))"

inductive_cases wf_reach_SucE: "wf_reach db w (Suc n) w'"
inductive_simps wf_reach_0: "wf_reach db w 0 w'"

definition wf_inv :: "wf_db \<Rightarrow> wf_world \<Rightarrow> bool" where
  "wf_inv db w \<longleftrightarrow> distinct (map case_ID (stored_cases w)) \<and> (\<forall>p\<in>owner_refs w. owned db (stored_cases w) p)"

lemma owned_mono:
  assumes "cases_grow xs ys" "owned db xs p"
  shows "owned db ys p"
proof -
  from assms(2) obtain c where c: "c \<in> set xs" "db_eq db (case_ID c) (fst p)" "case_TenantID c = snd p"
    by (auto simp: owned_def)
  from cases_growD [OF assms(1) c(1)] obtain y where "y \<in> set ys" "case_evolves c y" by blast
  with c show ?thesis unfolding owned_def case_evolves_def by (intro bexI [of _ y]) simp_all
qed

lemma wf_step_inv:
  assumes inv: "wf_inv db w" and ok: "wf_step_ok db w w'"
  shows "wf_inv db w' \<and> cases_grow (stored_cases w) (stored_cases w')"
proof -
  have d: "distinct (map case_ID (stored_cases w'))" and g: "cases_grow (stored_cases w) (stored_cases w')"
    using assms by (simp_all add: wf_inv_def wf_step_ok_def cases_step_def)
  have "owned db (stored_cases w') p" if p: "p \<in> owner_refs w'" for p
  proof -
    have "owned db (stored_cases w) p"
      using inv ok p unfolding wf_inv_def wf_step_ok_def by blast
    with g show ?thesis by (rule owned_mono)
  qed
  with d g show ?thesis by (simp add: wf_inv_def)
qed

lemma wf_reach_inv:
  assumes laws: "wf_db_laws db" and inv: "wf_inv db w" and reach: "wf_reach db w n w'"
  shows "wf_inv db w' \<and> cases_grow (stored_cases w) (stored_cases w')"
  using reach
proof induction
  case (request n w1 mux r)
  have "wf_step_ok db w1 (snd (wf_NewRouter mux (wf_main db) r w1))"
    by (rule wf_request.router [OF wf_db_laws.owner_request [OF laws]])
  with request.IH wf_step_inv cases_grow_trans show ?case by blast
qed (use inv in simp)

end
