(* ===== verification/Wf_Numbers.thy ===== *)
theory Wf_Numbers
  imports Wf_Steps
begin

text \<open>
  workflow-service: the numbers of cases. Run one after the other, the transactions of
  \<open>NextCaseNumber\<close> count upwards for each tenant, so the stored cases of a tenant have different
  numbers; the transaction does not lock the row it reads, and two of them interleaved return the
  same number (\<open>interleaved_numbers\<close>).
\<close>

section \<open>The counters\<close>

definition counter_val :: "wf_db \<Rightarrow> string \<Rightarrow> caseCounterModel list \<Rightarrow> int" where
  "counter_val db t ms =
     (case find (\<lambda>m. db_eq db (ccm_TenantID m) t) ms of None \<Rightarrow> 0 | Some m \<Rightarrow> ccm_Counter m)"

text \<open>One row for a tenant, up to the collation, and every counter between 1 and \<open>K\<close>.\<close>

definition counters_ok :: "wf_db \<Rightarrow> int \<Rightarrow> caseCounterModel list \<Rightarrow> bool" where
  "counters_ok db K ms \<longleftrightarrow>
     sorted_wrt (\<lambda>x y. \<not> db_eq db x y) (map ccm_TenantID ms) \<and> (\<forall>m\<in>set ms. 1 \<le> ccm_Counter m \<and> ccm_Counter m \<le> K)"

lemma counter_val_range: "counters_ok db K ms \<Longrightarrow> 0 \<le> K \<Longrightarrow> 0 \<le> counter_val db t ms \<and> counter_val db t ms \<le> K"
  by (auto simp: counter_val_def counters_ok_def find_Some_iff split: option.splits) (metis nth_mem order_trans zero_le_one)

lemma counters_ok_mono: "counters_ok db K ms \<Longrightarrow> K \<le> K' \<Longrightarrow> counters_ok db K' ms"
  by (auto simp: counters_ok_def)

context wf_db_laws
begin

lemma eq_cong: "db_eq db a b \<Longrightarrow> db_eq db a c = db_eq db b c"
  using eq_sym eq_trans by blast

lemma counter_val_found:
  assumes "sorted_wrt (\<lambda>x y. \<not> db_eq db x y) (map ccm_TenantID ms)" "m \<in> set ms" "db_eq db (ccm_TenantID m) t"
  shows "counter_val db t ms = ccm_Counter m"
  using assms
proof (induction ms)
  case (Cons x ms)
  show ?case
  proof (cases "m = x")
    case False
    with Cons.prems have m: "m \<in> set ms" by simp
    with Cons.prems have "\<not> db_eq db (ccm_TenantID x) (ccm_TenantID m)" by auto
    then have "\<not> db_eq db (ccm_TenantID x) t"
      using Cons.prems(3) eq_sym eq_trans by blast
    moreover have "counter_val db t ms = ccm_Counter m" using Cons m by simp
    ultimately show ?thesis by (simp add: counter_val_def)
  qed (use Cons.prems in \<open>simp add: counter_val_def\<close>)
qed simp

lemma counter_val_cong: "db_eq db a b \<Longrightarrow> counter_val db a ms = counter_val db b ms"
proof -
  assume "db_eq db a b"
  then have "(\<lambda>m. db_eq db (ccm_TenantID m) a) = (\<lambda>m. db_eq db (ccm_TenantID m) b)"
    using eq_sym eq_trans by (intro ext) blast
  then have "find (\<lambda>m. db_eq db (ccm_TenantID m) a) ms = find (\<lambda>m. db_eq db (ccm_TenantID m) b) ms"
    by (rule arg_cong [where f = "\<lambda>P. find P ms"])
  then show ?thesis unfolding counter_val_def by (simp only:)
qed

lemma counter_val_none: "(\<And>m. m \<in> set ms \<Longrightarrow> \<not> db_eq db (ccm_TenantID m) t) \<Longrightarrow> counter_val db t ms = 0"
  by (auto simp: counter_val_def find_None_iff split: option.splits) (metis find_Some_iff nth_mem option.distinct(1))

text \<open>The two outcomes of a committed transaction.\<close>

lemma counter_inserted:
  assumes ok: "counters_ok db K ms" "1 \<le> K" and new: "\<And>m. m \<in> set ms \<Longrightarrow> \<not> db_eq db (ccm_TenantID m) t"
  shows "counters_ok db K (ms @ [\<lparr>ccm_TenantID = t, ccm_Counter = 1\<rparr>])"
    "counter_val db u (ms @ [\<lparr>ccm_TenantID = t, ccm_Counter = 1\<rparr>]) = (if db_eq db t u then 1 else counter_val db u ms)"
proof -
  show ok': "counters_ok db K (ms @ [\<lparr>ccm_TenantID = t, ccm_Counter = 1\<rparr>])"
    using ok new by (auto simp: counters_ok_def sorted_wrt_append)
  show "counter_val db u (ms @ [\<lparr>ccm_TenantID = t, ccm_Counter = 1\<rparr>]) = (if db_eq db t u then 1 else counter_val db u ms)"
  proof (cases "db_eq db t u")
    case True
    from ok' counter_val_found [of "ms @ [\<lparr>ccm_TenantID = t, ccm_Counter = 1\<rparr>]" "\<lparr>ccm_TenantID = t, ccm_Counter = 1\<rparr>" u]
    show ?thesis using True by (simp add: counters_ok_def)
  next
    case False
    then have "find (\<lambda>m. db_eq db (ccm_TenantID m) u) (ms @ [\<lparr>ccm_TenantID = t, ccm_Counter = 1\<rparr>])
        = find (\<lambda>m. db_eq db (ccm_TenantID m) u) ms"
      by (induction ms) simp_all
    with False show ?thesis by (simp add: counter_val_def)
  qed
qed

lemma counter_incremented:
  assumes ok: "counters_ok db K ms" and m: "m \<in> set ms"
    and rw: "list_all2 (\<lambda>x y. if ccm_TenantID x = ccm_TenantID m then m\<lparr>ccm_Counter := ccm_Counter m + 1\<rparr> = y else y = x) ms ms'"
  shows "counters_ok db (K + 1) ms'"
    "counter_val db u ms' = (if db_eq db (ccm_TenantID m) u then ccm_Counter m + 1 else counter_val db u ms)"
proof -
  let ?upd = "\<lambda>x. if ccm_TenantID x = ccm_TenantID m then m\<lparr>ccm_Counter := ccm_Counter m + 1\<rparr> else x"
  have ms': "ms' = map ?upd ms"
    using rw by (auto simp: list_eq_iff_nth_eq list_all2_conv_all_nth split: if_splits)
  have keys: "map ccm_TenantID ms' = map ccm_TenantID ms" by (simp add: ms')
  show ok': "counters_ok db (K + 1) ms'"
    unfolding counters_ok_def keys using ok m by (auto simp: counters_ok_def ms')
  have sorted: "sorted_wrt (\<lambda>x y. \<not> db_eq db x y) (map ccm_TenantID ms)" using ok by (simp add: counters_ok_def)
  show "counter_val db u ms' = (if db_eq db (ccm_TenantID m) u then ccm_Counter m + 1 else counter_val db u ms)"
  proof (cases "db_eq db (ccm_TenantID m) u")
    case True
    have "?upd m \<in> set ms'" using m by (auto simp: ms')
    with counter_val_found [of ms' "?upd m" u] sorted keys True show ?thesis by simp
  next
    case False
    have "find (\<lambda>x. db_eq db (ccm_TenantID x) u) (map ?upd ms) = find (\<lambda>x. db_eq db (ccm_TenantID x) u) ms"
      using False by (induction ms) auto
    with False show ?thesis by (simp add: counter_val_def ms')
  qed
qed

lemma counter_body_ok:
  assumes ok: "counters_ok db K (rows t)" and K: "0 \<le> K" "K < max_int64"
    and run: "counter_body db tenant t = (Inr n, t')"
  shows "n = counter_val db tenant (rows t) + 1" "counters_ok db (K + 1) (rows t')"
    "counter_val db u (rows t') = (if db_eq db tenant u then n else counter_val db u (rows t))"
proof -
  obtain found t1 where r: "counter_read db tenant t = (found, t1)" by force
  note read = r [unfolded counter_read_def]
  have t1: "rows t1 = rows t" by (rule counters_t.first_rows [OF read])
  have "n = counter_val db tenant (rows t) + 1 \<and> counters_ok db (K + 1) (rows t') \<and>
    counter_val db u (rows t') = (if db_eq db tenant u then n else counter_val db u (rows t))"
  proof (cases found)
    case (Inl e)
    with run r have e: "errors_Is e ErrRecordNotFound"
      and c: "gorm_Create (db_counters db) \<lparr>ccm_TenantID = tenant, ccm_Counter = 1\<rparr> t1 = (None, t')" and n: "n = 1"
      by (auto simp: counter_body_def counter_write_def split: if_splits prod.splits option.splits)
    have new: "\<not> db_eq db (ccm_TenantID m) tenant" if "m \<in> set (rows t)" for m
      using counters_t.first_none [OF read [unfolded Inl] e] that by blast
    have rows': "rows t' = rows t @ [\<lparr>ccm_TenantID = tenant, ccm_Counter = 1\<rparr>]"
      by (rule counters_t.create_okE [OF _ c]) (simp_all add: t1)
    have ok1: "counters_ok db (K + 1) (rows t)" by (rule counters_ok_mono [OF ok]) simp
    show ?thesis
      using counter_inserted(1) [OF ok1 _ new] counter_inserted(2) [OF ok1 _ new, of u] counter_val_none [OF new] K n by (auto simp: rows')
  next
    case (Inr m)
    from counters_t.first_ok [OF read [unfolded Inr]] have m: "m \<in> set (rows t)" "db_eq db (ccm_TenantID m) tenant" by auto
    then have cnt: "1 \<le> ccm_Counter m" "ccm_Counter m \<le> K" using ok by (auto simp: counters_ok_def)
    then have wrap: "wrap64 (ccm_Counter m + 1) = ccm_Counter m + 1"
      using K by (intro wrap64_id) (simp add: is_int64_iff min_int64_def max_int64_def)
    let ?m = "m\<lparr>ccm_Counter := ccm_Counter m + 1\<rparr>"
    from run r Inr wrap have s: "gorm_Save (db_counters db) ?m t1 = (None, t')" and n: "n = ccm_Counter m + 1"
      by (auto simp: counter_body_def counter_write_def Let_def split: prod.splits option.splits)
    have "ccm_TenantID ?m \<in> ccm_TenantID ` set (rows t1)" using m t1 by simp
    from counters_t.save [OF this s] have
      "list_all2 (\<lambda>x y. if ccm_TenantID x = ccm_TenantID m then ?m = y else y = x) (rows t) (rows t')"
      by (simp add: rewritten_def t1)
    note inc = counter_incremented(1) [OF ok m(1) this] counter_incremented(2) [OF ok m(1) this, of u]
    have "counter_val db tenant (rows t) = ccm_Counter m"
      using counter_val_found m ok by (simp add: counters_ok_def)
    with inc n show ?thesis using eq_cong [OF m(2)] by auto
  qed
  then show "n = counter_val db tenant (rows t) + 1" "counters_ok db (K + 1) (rows t')"
    "counter_val db u (rows t') = (if db_eq db tenant u then n else counter_val db u (rows t))" by blast+
qed

end

section \<open>Numbers along a sequence of requests\<close>

definition case_number :: "'a env_scheme \<Rightarrow> string \<Rightarrow> int \<Rightarrow> string" where
  "case_number w tenantID n = ''CASE-'' @ case_prefix w tenantID @ ''-'' @ fmt_05d n"

lemma case_number_inj: "0 \<le> m \<Longrightarrow> 0 \<le> n \<Longrightarrow> case_number w t m = case_number w t n \<longleftrightarrow> m = n"
  by (simp add: case_number_def fmt_05d_inj)

lemma case_number_cong: "env_upper w = env_upper w' \<Longrightarrow> case_number w t n = case_number w' t n"
  by (simp add: case_number_def case_prefix_def strings_ToUpper_def)

definition case_key :: "Case \<Rightarrow> string \<times> string" where
  "case_key c = (case_TenantID c, case_CaseNumber c)"

definition numbers_inv :: "wf_db \<Rightarrow> int \<Rightarrow> wf_world \<Rightarrow> bool" where
  "numbers_inv db K w \<longleftrightarrow>
     counters_ok db K (rows (w_counters w)) \<and> distinct (map case_key (stored_cases w)) \<and>
     (\<forall>c\<in>set (stored_cases w). \<exists>n. 1 \<le> n \<and> n \<le> counter_val db (case_TenantID c) (rows (w_counters w))
        \<and> case_CaseNumber c = case_number w (case_TenantID c) n)"

definition number_state :: "wf_world \<Rightarrow> nat \<times> caseCounterModel list \<times> (string \<Rightarrow> string)" where
  "number_state w = (length (stored_cases w), rows (w_counters w), env_upper w)"

lemma numbers_inv_keys:
  assumes keys: "map case_key (stored_cases w') = map case_key (stored_cases w)"
    and cnt: "counters_ok db K' (rows (w_counters w'))"
      "\<And>u. counter_val db u (rows (w_counters w)) \<le> counter_val db u (rows (w_counters w'))"
    and up: "env_upper w' = env_upper w" and inv: "numbers_inv db K w"
  shows "numbers_inv db K' w'"
proof -
  have "\<exists>n. 1 \<le> n \<and> n \<le> counter_val db (case_TenantID c) (rows (w_counters w')) \<and>
      case_CaseNumber c = case_number w' (case_TenantID c) n" if c: "c \<in> set (stored_cases w')" for c
  proof -
    from c keys have "case_key c \<in> case_key ` set (stored_cases w)" by (metis image_eqI image_set)
    then obtain x where x: "x \<in> set (stored_cases w)" "case_key x = case_key c" by force
    with inv obtain n where "1 \<le> n" "n \<le> counter_val db (case_TenantID c) (rows (w_counters w))"
      "case_CaseNumber c = case_number w (case_TenantID c) n"
      unfolding numbers_inv_def case_key_def by fastforce
    with cnt(2) [of "case_TenantID c"] case_number_cong [OF up] show ?thesis by fastforce
  qed
  with keys cnt(1) inv show ?thesis by (simp add: numbers_inv_def)
qed

definition numbers_step :: "wf_db \<Rightarrow> wf_world \<Rightarrow> wf_world \<Rightarrow> bool" where
  "numbers_step db w w' \<longleftrightarrow>
     (\<forall>K. distinct (map case_ID (stored_cases w)) \<longrightarrow> 0 \<le> K \<longrightarrow> K < max_int64 \<longrightarrow> numbers_inv db K w \<longrightarrow>
        numbers_inv db (K + 1) w')"

lemma numbers_step_quiet:
  assumes st: "number_state w' = number_state w" and step: "cases_step (stored_cases w) (stored_cases w')"
  shows "numbers_step db w w'"
  unfolding numbers_step_def
proof (intro allI impI)
  fix K assume d: "distinct (map case_ID (stored_cases w))" and inv: "numbers_inv db K w"
  from step d obtain old new where on: "stored_cases w' = old @ new" "list_all2 case_evolves (stored_cases w) old"
    by (auto simp: cases_step_def cases_grow_def)
  with st list_all2_lengthD [OF on(2)] have "new = []" by (simp add: number_state_def)
  with on have "list_all2 case_evolves (stored_cases w) (stored_cases w')" by simp
  then have "list_all2 (\<lambda>x y. case_key x = case_key y) (stored_cases w) (stored_cases w')"
    by (rule list_all2_mono) (simp add: case_evolves_def case_key_def)
  then have keys: "map case_key (stored_cases w') = map case_key (stored_cases w)"
    by (rule list_all2_map_eq)
  have cnt: "rows (w_counters w') = rows (w_counters w)" and up: "env_upper w' = env_upper w"
    using st by (simp_all add: number_state_def)
  have "counters_ok db (K + 1) (rows (w_counters w))"
    using inv by (auto simp: numbers_inv_def elim: counters_ok_mono)
  with keys cnt up inv show "numbers_inv db (K + 1) w'"
    by (intro numbers_inv_keys [OF keys _ _ up inv]) simp_all
qed

context wf_db_laws
begin

lemma next_number:
  assumes run: "caseRepository_NextCaseNumber db t w = (r, w')" and ok: "counters_ok db K (rows (w_counters w))"
    and K: "0 \<le> K" "K < max_int64"
  shows "stored_cases w' = stored_cases w" "env_upper w' = env_upper w"
    "counters_ok db (K + 1) (rows (w_counters w'))"
    "counter_val db u (rows (w_counters w)) \<le> counter_val db u (rows (w_counters w'))"
    "r = Inr s \<Longrightarrow> s = case_number w t (counter_val db t (rows (w_counters w)) + 1) \<and>
       counter_val db t (rows (w_counters w')) = counter_val db t (rows (w_counters w)) + 1"
proof -
  obtain res t' where tx: "db_Transaction db (counter_body db t) (w_counters w) = (res, t')" by force
  have w': "w' = w\<lparr>w_counters := t'\<rparr>"
    and r: "r = (case res of Inl e \<Rightarrow> Inl (Errorf ''incrementing case counter: '' e '''')
      | Inr n \<Rightarrow> Inr (case_number w t n))"
    using run tx by (auto simp: caseRepository_NextCaseNumber_def on_table_def case_number_def case_prefix_def
        strings_ToUpper_def split: sum.splits)
  show "stored_cases w' = stored_cases w" "env_upper w' = env_upper w" by (simp_all add: w')
  have committed: "counters_ok db (K + 1) (rows t1) \<and>
      counter_val db u (rows (w_counters w)) \<le> counter_val db u (rows t1) \<and>
      n = counter_val db t (rows (w_counters w)) + 1 \<and> counter_val db t (rows t1) = n"
    if "rows t0 = rows (w_counters w)" "counter_body db t t0 = (Inr n, t1)" for t0 n t1 u
  proof -
    have ok0: "counters_ok db K (rows t0)" using ok that(1) by simp
    note body = counter_body_ok(1,2) [OF ok0 K that(2)] counter_body_ok(3) [OF ok0 K that(2)]
    have "counter_val db u (rows t0) = counter_val db t (rows t0)" if "db_eq db t u"
      using counter_val_cong [OF that] by simp
    with body(1,2) body(3) [of u] body(3) [of t] that(1) eq_refl show ?thesis by auto
  qed
  have "counters_ok db (K + 1) (rows t') \<and> counter_val db u (rows (w_counters w)) \<le> counter_val db u (rows t') \<and>
    (\<forall>n. res = Inr n \<longrightarrow> n = counter_val db t (rows (w_counters w)) + 1 \<and> counter_val db t (rows t') = n)" for u
  proof (cases res)
    case (Inr n)
    from tx_ok [OF tx [unfolded Inr]] committed Inr show ?thesis by auto
  next
    case (Inl e)
    from tx_err [OF tx [unfolded Inl]] show ?thesis
      using committed Inl counters_ok_mono [OF ok] by auto
  qed
  then show "counters_ok db (K + 1) (rows (w_counters w'))"
    "counter_val db u (rows (w_counters w)) \<le> counter_val db u (rows (w_counters w'))"
    "r = Inr s \<Longrightarrow> s = case_number w t (counter_val db t (rows (w_counters w)) + 1) \<and>
       counter_val db t (rows (w_counters w')) = counter_val db t (rows (w_counters w)) + 1"
    using r w' by (auto split: sum.splits)
qed

lemma case_created_key:
  assumes "caseRepository_Create db c w = (r, w')"
  shows "(\<exists>y. stored_cases w' = stored_cases w @ [y] \<and> case_key y = case_key c) \<or> stored_cases w' = stored_cases w"
    "rows (w_counters w') = rows (w_counters w)" "env_upper w' = env_upper w"
proof -
  from assms obtain t where t: "gorm_Create (db_cases db) (domainCaseToModel c) (w_cases w) = (r, t)"
    and w': "w' = w\<lparr>w_cases := t\<rparr>"
    by (auto simp: caseRepository_Create_def on_table_def Let_def split: prod.splits)
  have key: "case_key (modelToDomainCase m') = case_key c" if "case_stored (domainCaseToModel c) m'" for m'
    using stored_evolves [OF that] by (simp add: case_evolves_def case_key_def)
  show "(\<exists>y. stored_cases w' = stored_cases w @ [y] \<and> case_key y = case_key c) \<or> stored_cases w' = stored_cases w"
    by (rule cases_t.create_cases [OF TrueI t]) (auto simp: w' stored_cases_def key)
  show "rows (w_counters w') = rows (w_counters w)" "env_upper w' = env_upper w" by (simp_all add: w')
qed

lemma created_numbers:
  assumes run: "caseRepository_NextCaseNumber db t w = (Inr s, w1)" and w2: "stored_cases w2 = stored_cases w1"
    "rows (w_counters w2) = rows (w_counters w1)" "env_upper w2 = env_upper w1"
    and cr: "caseRepository_Create db c w2 = (r, w')" and c: "case_TenantID c = t" "case_CaseNumber c = s"
    and K: "0 \<le> K" "K < max_int64" and inv: "numbers_inv db K w"
  shows "numbers_inv db (K + 1) w'"
proof -
  have ok: "counters_ok db K (rows (w_counters w))" using inv by (simp add: numbers_inv_def)
  note next_no = next_number(1-3) [OF run ok K] next_number(4) [OF run ok K] next_number(5) [OF run ok K refl]
  let ?v = "\<lambda>u. counter_val db u (rows (w_counters w))"
  note w' = case_created_key [OF cr]
  have mono: "?v u \<le> counter_val db u (rows (w_counters w'))" for u
    using next_no(4) w2 w'(2) by simp
  have up: "env_upper w' = env_upper w" using w'(3) w2(3) next_no(2) by simp
  have cok: "counters_ok db (K + 1) (rows (w_counters w'))" using next_no(3) w2 w'(2) by simp
  from w'(1) show ?thesis
  proof
    assume "stored_cases w' = stored_cases w2"
    with w2 next_no(1) have "map case_key (stored_cases w') = map case_key (stored_cases w)" by simp
    then show ?thesis by (rule numbers_inv_keys [OF _ cok mono up inv])
  next
    assume "\<exists>y. stored_cases w' = stored_cases w2 @ [y] \<and> case_key y = case_key c"
    then obtain y where y: "stored_cases w' = stored_cases w @ [y]" "case_key y = case_key c"
      using w2(1) next_no(1) by auto
    then have yk: "case_TenantID y = t" "case_CaseNumber y = s" using c by (auto simp: case_key_def)
    have v0: "0 \<le> ?v t" using counter_val_range [OF ok K(1)] by simp
    have s: "s = case_number w t (?v t + 1)" using next_no(5) by simp
    have "case_key y \<notin> case_key ` set (stored_cases w)"
    proof
      assume "case_key y \<in> case_key ` set (stored_cases w)"
      then obtain x where x: "x \<in> set (stored_cases w)" and same: "case_key x = case_key y" by force
      from inv x obtain n where n: "1 \<le> n" "n \<le> ?v (case_TenantID x)"
        "case_CaseNumber x = case_number w (case_TenantID x) n"
        unfolding numbers_inv_def by blast
      with same yk s case_number_inj [of n "?v t + 1" w t] v0 show False
        by (auto simp: case_key_def)
    qed
    then have "distinct (map case_key (stored_cases w'))"
      using inv by (auto simp: y(1) numbers_inv_def)
    moreover have "\<exists>n\<ge>1. n \<le> counter_val db (case_TenantID x) (rows (w_counters w'))
        \<and> case_CaseNumber x = case_number w' (case_TenantID x) n" if x: "x \<in> set (stored_cases w')" for x
    proof (cases "x = y")
      case True
      have "counter_val db t (rows (w_counters w')) = ?v t + 1" using next_no(5) w2 w'(2) by simp
      with True yk s v0 case_number_cong [OF up] show ?thesis by (intro exI [of _ "?v t + 1"]) simp
    next
      case False
      with x y have "x \<in> set (stored_cases w)" by simp
      with inv obtain n where "1 \<le> n" "n \<le> ?v (case_TenantID x)" "case_CaseNumber x = case_number w (case_TenantID x) n"
        unfolding numbers_inv_def by blast
      with mono [of "case_TenantID x"] case_number_cong [OF up] show ?thesis by (intro exI [of _ n]) simp
    qed
    ultimately show ?thesis using cok by (auto simp: numbers_inv_def)
  qed
qed

end

sublocale wf_db_laws \<subseteq> numbers: wf_frame db number_state
proof (unfold_locales, goal_cases)
  case (1 i)
  show ?case by (auto simp: keeps_def case_repo_defs number_state_def stored_cases_def dest: cases_t.first_rows split: prod.splits sum.splits)
next
  case (2 c w r w')
  then have "cm_ID (domainCaseToModel c) \<in> cm_ID ` set (rows (w_cases w))"
    by (simp add: stored_cases_def domainCaseToModel_def modelToDomainCase_def image_image)
  from cases_t.save [OF this] have "length (rows t) = length (rows (w_cases w))"
    if "gorm_Save (db_cases db) (domainCaseToModel c) (w_cases w) = (r, t)" for t
    using that by (auto simp: rewritten_def dest: list_all2_lengthD)
  with 2 show ?case
    by (auto simp: case_repo_defs number_state_def stored_cases_def split: prod.splits)
next
  case (3 t flt pg l)
  show ?case by (auto simp: keeps_def case_repo_defs number_state_def stored_cases_def
      dest!: cases_t.count_rows cases_t.find_rows split: prod.splits sum.splits)
qed (auto simp: keeps_def case_repo_defs number_state_def stored_cases_def split: prod.splits sum.splits)

lemma resolveSLA_key: "resolveSLA s now wid c w = (c', w') \<Longrightarrow> case_TenantID c' = case_TenantID c \<and> case_CaseNumber c' = case_CaseNumber c"
  by (auto simp: resolveSLA_def Let_def split: option.splits if_splits prod.splits sum.splits)

context wf_db_laws
begin

lemma CreateCase_numbers: "numbers_step db w (snd (caseService_CreateCase (wf_caseService db) t rep req w))"
proof (cases "TrimSpace (ccr_Title req) = '''' \<or> t = '''' \<or> rep = ''''")
  case True
  then show ?thesis
    by (auto simp: caseService_CreateCase_def intro: numbers_step_quiet)
next
  case valid: False
  obtain nr w1 where nr: "caseRepository_NextCaseNumber db t w = (nr, w1)" by force
  show ?thesis
  proof (cases nr)
    case (Inl e)
    have "numbers_step db w w1" unfolding numbers_step_def
    proof (intro allI impI)
      fix K :: int assume K: "0 \<le> K" "K < max_int64" and inv: "numbers_inv db K w"
      then have ok: "counters_ok db K (rows (w_counters w))" by (simp add: numbers_inv_def)
      from next_number(1-3) [OF nr ok K] next_number(4) [OF nr ok K]
      show "numbers_inv db (K + 1) w1" by (intro numbers_inv_keys [OF _ _ _ _ inv]) simp_all
    qed
    with Inl nr valid show ?thesis by (simp add: caseService_CreateCase_def caseRepository_def)
  next
    case (Inr s)
    obtain n w2 u w3 where n: "time_Now w1 = (n, w2)" and u: "uuid_NewString w2 = (u, w3)" by (metis surj_pair)
    obtain c0 where c0: "c0 = \<lparr>case_ID = u, case_TenantID = t, case_CaseNumber = s,
        case_Title = ccr_Title req, case_Description = ccr_Description req, case_Status = CaseStatusNew,
        case_Priority = ccr_Priority req, case_AssigneeID = None, case_ReporterID = rep,
        case_WorkflowID = ccr_WorkflowID req, case_SLA = \<lparr>sla_DueAt = None, sla_Breached = False\<rparr>,
        case_Tags = ccr_Tags req, case_CreatedAt = n, case_UpdatedAt = n,
        case_ResolvedAt = None, case_ClosedAt = None\<rparr>" by simp
    define c1 where "c1 = (if case_Priority c0 = '''' then c0\<lparr>case_Priority := PriorityMedium\<rparr> else c0)"
    obtain c2 w4 where sla: "resolveSLA (wf_caseService db) n (ccr_WorkflowID req) c1 w3 = (c2, w4)" by force
    obtain r w5 where cr: "caseRepository_Create db c2 w4 = (r, w5)" by force
    have c2: "case_TenantID c2 = t" "case_CaseNumber c2 = s"
      using resolveSLA_key [OF sla] by (simp_all add: c1_def c0)
    have v: "stored_cases w4 = stored_cases w1"
      using client.resolveSLA_view [OF sla] client.now_view [OF n] client.uuid_view [OF u] by simp
    have "number_state w4 = number_state w1"
      using numbers.lookups(1) [THEN keepsD, OF sla] numbers.now [THEN keepsD, OF n] numbers.uuid [THEN keepsD, OF u] by simp
    then have v': "rows (w_counters w4) = rows (w_counters w1)" "env_upper w4 = env_upper w1"
      by (simp_all add: number_state_def)
    have "numbers_step db w w5"
      using created_numbers [OF nr [unfolded Inr] v v' cr c2] by (simp add: numbers_step_def)
    with Inr nr n u sla cr valid show ?thesis
      by (cases "ccr_Priority req = ''''")
        (simp_all add: caseService_CreateCase_def caseRepository_def Let_def c1_def c0 split: option.split)
  qed
qed

lemma quiet_other:
  "keeps number_state (caseService_AddComment (wf_caseService db) i a b)"
  "keeps number_state (caseService_ListComments (wf_caseService db) i)"
  "keeps number_state (taskService_CreateTask (wf_taskService db) i ctreq)"
  "keeps number_state (taskService_CompleteTask (wf_taskService db) i)"
  "keeps number_state (taskService_ListByCase (wf_taskService db) i)"
proof -
  have env: "number_state (w\<lparr>env_clock := k\<rparr>) = number_state w" "number_state (w\<lparr>env_uuids := us\<rparr>) = number_state w"
    "number_state (w\<lparr>w_tasks := tt\<rparr>) = number_state w" "number_state (w\<lparr>w_comments := ct\<rparr>) = number_state w"
    for w k us tt ct by (simp_all add: number_state_def stored_cases_def)
  note [dest!] = numbers.find [THEN keepsD]
  show "keeps number_state (caseService_AddComment (wf_caseService db) i a b)"
    by (auto simp: keeps_def caseService_AddComment_def caseRepository_def other_table_defs env time_Now_def
        uuid_NewString_def split: if_splits prod.splits sum.splits option.splits)
  show "keeps number_state (taskService_CreateTask (wf_taskService db) i ctreq)"
    by (auto simp: keeps_def taskService_CreateTask_def caseRepository_def other_table_defs env time_Now_def
        uuid_NewString_def split: if_splits prod.splits sum.splits option.splits)
  show "keeps number_state (caseService_ListComments (wf_caseService db) i)"
    "keeps number_state (taskService_CompleteTask (wf_taskService db) i)"
    "keeps number_state (taskService_ListByCase (wf_taskService db) i)"
    by (auto simp: keeps_def caseService_ListComments_def taskService_CompleteTask_def taskService_ListByCase_def
        other_table_defs env time_Now_def split: prod.splits sum.splits option.splits)
qed

lemma quiet_UpdateTask: "keeps number_state (taskService_UpdateTask (wf_taskService db) i utreq)"
  unfolding keeps_def
proof (intro allI impI)
  fix w r w' assume run: "taskService_UpdateTask (wf_taskService db) i utreq w = (r, w')"
  obtain fr w1 where f: "taskRepository_FindByID db i w = (fr, w1)" by force
  then have w1: "number_state w1 = number_state w"
    by (auto simp: other_table_defs number_state_def stored_cases_def split: prod.splits sum.splits)
  show "number_state w' = number_state w"
  proof (cases fr)
    case (Inr k)
    obtain k' w2 where k': "updatedTask utreq k w1 = (k', w2)" by force
    from updatedTask_frame(4) [OF k'] obtain cl where w2: "w2 = w1\<lparr>env_clock := cl\<rparr>" by blast
    obtain u w3 where u: "taskRepository_Update db k' w2 = (u, w3)" by force
    then have "number_state w3 = number_state w1"
      using w2 by (auto simp: other_table_defs number_state_def stored_cases_def split: prod.splits)
    with run f Inr k' u w1 show ?thesis
      by (auto simp: taskService_UpdateTask_def taskRepository_def split: if_splits option.splits)
  qed (use run f w1 in \<open>simp add: taskService_UpdateTask_def taskRepository_def\<close>)
qed

lemma numbers_quiet: "keeps number_state f \<Longrightarrow> wf_step_ok db w (snd (f w)) \<Longrightarrow> numbers_step db w (snd (f w))"
  by (rule numbers_step_quiet [OF keeps_snd]) (simp_all add: wf_step_ok_def)

lemma numbers_request: "wf_request db (numbers_step db)"
proof (unfold_locales, goal_cases)
  case 5 show ?case by (rule CreateCase_numbers)
next
  case 6 show ?case by (rule numbers_quiet [OF numbers.GetCase step_ok_cases(2)])
next
  case 7 show ?case by (rule numbers_quiet [OF numbers.UpdateCase step_ok_cases(3)])
next
  case 8 show ?case by (rule numbers_quiet [OF numbers.TransitionCase step_ok_cases(4)])
next
  case 9 show ?case by (rule numbers_quiet [OF numbers.AssignCase step_ok_cases(5)])
next
  case 10 show ?case by (rule numbers_quiet [OF numbers.ListCases step_ok_cases(6)])
next
  case 11 show ?case by (rule numbers_quiet [OF quiet_other(1) step_ok_AddComment])
next
  case 12 show ?case by (rule numbers_quiet [OF quiet_other(2) step_ok_lists(1)])
next
  case 13 show ?case by (rule numbers_quiet [OF quiet_other(3) step_ok_CreateTask])
next
  case 14 show ?case by (rule numbers_quiet [OF quiet_UpdateTask step_ok_UpdateTask])
next
  case 15 show ?case by (rule numbers_quiet [OF quiet_other(4) step_ok_CompleteTask])
next
  case 16 show ?case by (rule numbers_quiet [OF quiet_other(5) step_ok_lists(2)])
next
  case 17 show ?case by (rule numbers_quiet [OF numbers.CreateTemplate step_ok_templates(1)])
next
  case 18 show ?case by (rule numbers_quiet [OF numbers.ListTemplates step_ok_templates(2)])
qed (auto simp: numbers_step_def numbers_inv_def stored_cases_def case_number_def case_prefix_def
    strings_ToUpper_def intro: counters_ok_mono)

end

lemma wf_reach_numbers:
  assumes laws: "wf_db_laws db" and inv: "wf_inv db w" "numbers_inv db 0 w" and n: "int n < max_int64"
    and reach: "wf_reach db w n w'"
  shows "numbers_inv db (int n) w'"
  using reach n
proof (induction)
  case (request n w1 mux r)
  have "numbers_step db w1 (snd (wf_NewRouter mux (wf_main db) r w1))"
    by (rule wf_request.router [OF wf_db_laws.numbers_request [OF laws]])
  moreover have "distinct (map case_ID (stored_cases w1))"
    using wf_reach_inv [OF laws inv(1) request.hyps] by (simp add: wf_inv_def)
  moreover have "numbers_inv db (int n) w1" "int n < max_int64" using request by simp_all
  ultimately have "numbers_inv db (int n + 1) (snd (wf_NewRouter mux (wf_main db) r w1))"
    unfolding numbers_step_def by fastforce
  then show ?case by (simp add: add.commute)
qed (use inv in simp)

section \<open>Two transactions interleaved\<close>

text \<open>
  Two requests of one tenant, each in its own transaction: both read the counter before either
  writes it. The read takes no lock.
\<close>

definition interleaved_numbers ::
  "wf_db \<Rightarrow> string \<Rightarrow> caseCounterModel tbl \<Rightarrow> ((goerr + int) \<times> (goerr + int)) \<times> caseCounterModel tbl" where
  "interleaved_numbers db tenantID t =
     (let (f1, t1) = counter_read db tenantID t;
          (f2, t2) = counter_read db tenantID t1;
          (r1, t3) = counter_write db tenantID f1 t2;
          (r2, t4) = counter_write db tenantID f2 t3
      in ((r1, r2), t4))"

end
