(* ===== verification/Wf_Seed.thy ===== *)
theory Wf_Seed
  imports Wf_Service
begin

text \<open>
  workflow-service: the seeding command \<open>cmd/seed/main.go\<close>. The main function runs over the three
  services; \<open>logger.Fatal\<close> ends the run, a failed transition, assignment, task or comment is logged
  and skipped.
\<close>

section \<open>The path of transitions\<close>

definition orderedPath :: "CaseStatus list" where
  "orderedPath = [CaseStatusOpen, CaseStatusInProgress, CaseStatusResolved, CaseStatusClosed]"

text \<open>\<open>continue\<close> skips the test that breaks the loop.\<close>

fun path_loop :: "CaseStatus \<Rightarrow> CaseStatus \<Rightarrow> bool \<Rightarrow> CaseStatus list \<Rightarrow> CaseStatus list" where
  "path_loop frm to collecting [] = []"
| "path_loop frm to collecting (s # ss) =
     (if s = frm then path_loop frm to True ss
      else (if collecting then [s] else []) @ (if s = to then [] else path_loop frm to collecting ss))"

definition transitionPath :: "CaseStatus \<Rightarrow> CaseStatus \<Rightarrow> CaseStatus list" where
  "transitionPath frm to =
     (if frm = to then [] else path_loop frm to (frm = CaseStatusNew) orderedPath)"

section \<open>The seeded data\<close>

definition mk_transition :: "CaseStatus \<Rightarrow> CaseStatus \<Rightarrow> string \<Rightarrow> Transition" where
  "mk_transition frm to label = \<lparr>tr_From = frm, tr_To = to, tr_Label = label\<rparr>"

definition seed_transitions :: "Transition list" where
  "seed_transitions =
     [mk_transition CaseStatusNew CaseStatusOpen ''Open'',
      mk_transition CaseStatusOpen CaseStatusInProgress ''Start Work'',
      mk_transition CaseStatusOpen CaseStatusClosed ''Close (Duplicate/Invalid)'',
      mk_transition CaseStatusInProgress CaseStatusPending ''Waiting on Customer'',
      mk_transition CaseStatusInProgress CaseStatusResolved ''Resolve'',
      mk_transition CaseStatusPending CaseStatusInProgress ''Resume'',
      mk_transition CaseStatusPending CaseStatusResolved ''Resolve'',
      mk_transition CaseStatusResolved CaseStatusClosed ''Close'',
      mk_transition CaseStatusResolved CaseStatusOpen ''Reopen'',
      mk_transition CaseStatusClosed CaseStatusOpen ''Reopen'']"

definition seed_template :: CreateWorkflowTemplateRequest where
  "seed_template =
     \<lparr>cwr_Name = ''IT Support Workflow'',
      cwr_Description = ''Standard IT support case workflow with SLA tracking'',
      cwr_States = Some [CaseStatusNew, CaseStatusOpen, CaseStatusInProgress, CaseStatusPending,
        CaseStatusResolved, CaseStatusClosed],
      cwr_Transitions = Some seed_transitions,
      cwr_DefaultPriority = PriorityMedium, cwr_SLAHours = 24\<rparr>"

record seedCase =
  sd_title :: string
  sd_description :: string
  sd_priority :: CasePriority
  sd_status :: CaseStatus
  sd_tags :: "string list"

definition seedCases :: "seedCase list" where
  "seedCases =
     [\<lparr>sd_title = ''VPN Access Issue - Unable to connect from home'',
       sd_description = ''User reports VPN client fails to connect after recent password change. Error: authentication failed.'',
       sd_priority = PriorityHigh, sd_status = CaseStatusNew,
       sd_tags = [''vpn'', ''access'', ''remote-work'']\<rparr>,
      \<lparr>sd_title = ''Laptop performance degradation after Windows update'',
       sd_description = ''Multiple users in Finance department reporting slow performance after KB5034122 update applied on 2024-01-15.'',
       sd_priority = PriorityCritical, sd_status = CaseStatusInProgress,
       sd_tags = [''laptop'', ''windows'', ''performance'', ''finance'']\<rparr>,
      \<lparr>sd_title = ''Email signature not displaying correctly in Outlook'',
       sd_description = ''HTML email signature is rendering as plain text in Outlook 365 on Windows 11.'',
       sd_priority = PriorityLow, sd_status = CaseStatusResolved,
       sd_tags = [''email'', ''outlook'', ''signature'']\<rparr>]"

section \<open>The run\<close>

fun seed_transitions_run :: "'w CaseService \<Rightarrow> string \<Rightarrow> string \<Rightarrow> CaseStatus list \<Rightarrow> 'w \<Rightarrow> 'w" where
  "seed_transitions_run cs caseID assigneeID [] w = w"
| "seed_transitions_run cs caseID assigneeID (to # tos) w =
     seed_transitions_run cs caseID assigneeID tos
       (snd (svc_TransitionCase cs caseID
          \<lparr>trq_ToStatus = to, trq_Reason = ''Seed data transition'', trq_PerformedBy = assigneeID\<rparr> w))"

definition seed_case ::
  "'a env_scheme CaseService \<Rightarrow> 'a env_scheme TaskService \<Rightarrow> string \<Rightarrow> string \<Rightarrow> string \<Rightarrow> string
     \<Rightarrow> seedCase \<Rightarrow> ('a env_scheme, unit) act" where
  "seed_case cs ts tenantID wfID reporterID assigneeID sc w =
     (case svc_CreateCase cs tenantID reporterID
         \<lparr>ccr_Title = sd_title sc, ccr_Description = sd_description sc, ccr_Priority = sd_priority sc,
          ccr_WorkflowID = Some wfID, ccr_Tags = Some (sd_tags sc)\<rparr> w of
        (Inl e, w1) \<Rightarrow> (Inl e, w1)
      | (Inr c, w1) \<Rightarrow>
         (let w2 = seed_transitions_run cs (case_ID c) assigneeID
                     (transitionPath CaseStatusNew (sd_status sc)) w1;
              (_, w3) = svc_AssignCase cs (case_ID c) assigneeID w2;
              (now, w4) = time_Now w3;
              (_, w5) = svc_CreateTask ts (case_ID c)
                 \<lparr>ctr_Title = ''Initial investigation and diagnosis'',
                  ctr_Description = ''Gather logs, reproduce the issue, identify root cause'',
                  ctr_AssigneeID = Some assigneeID, ctr_DueAt = Some (now + Duration_mul 48 Hour)\<rparr> w4;
              (_, w6) = svc_CreateTask ts (case_ID c)
                 \<lparr>ctr_Title = ''Apply fix and verify resolution'',
                  ctr_Description = ''Implement fix, test with affected user, document solution'',
                  ctr_AssigneeID = Some assigneeID, ctr_DueAt = None\<rparr> w5;
              (_, w7) = svc_AddComment cs (case_ID c) reporterID
                 ''Case has been logged and is under review by the IT support team.'' w6
          in (Inr (), w7)))"

fun seed_cases ::
  "'a env_scheme CaseService \<Rightarrow> 'a env_scheme TaskService \<Rightarrow> string \<Rightarrow> string \<Rightarrow> string \<Rightarrow> string
     \<Rightarrow> seedCase list \<Rightarrow> ('a env_scheme, unit) act" where
  "seed_cases cs ts tenantID wfID reporterID assigneeID [] w = (Inr (), w)"
| "seed_cases cs ts tenantID wfID reporterID assigneeID (sc # scs) w =
     (case seed_case cs ts tenantID wfID reporterID assigneeID sc w of
        (Inl e, w1) \<Rightarrow> (Inl e, w1)
      | (Inr _, w1) \<Rightarrow> seed_cases cs ts tenantID wfID reporterID assigneeID scs w1)"

definition wf_seed_main ::
  "'a env_scheme CaseService \<Rightarrow> 'a env_scheme TaskService \<Rightarrow> 'a env_scheme WorkflowTemplateService
     \<Rightarrow> ('a env_scheme, unit) act" where
  "wf_seed_main cs ts ws w =
     (let (u, w1) = uuid_NewString w; tenantID = ''tenant-'' @ take 8 u
      in case svc_CreateTemplate ws tenantID seed_template w1 of
           (Inl e, w2) \<Rightarrow> (Inl e, w2)
         | (Inr tmpl, w2) \<Rightarrow>
            (let (u1, w3) = uuid_NewString w2; reporterID = ''user-'' @ take 8 u1;
                 (u2, w4) = uuid_NewString w3; assigneeID = ''user-'' @ take 8 u2
             in seed_cases cs ts tenantID (wt_ID tmpl) reporterID assigneeID seedCases w4))"

text \<open>A path of statuses each step of which a template allows.\<close>

fun legal_path :: "Transition list \<Rightarrow> CaseStatus \<Rightarrow> CaseStatus list \<Rightarrow> bool" where
  "legal_path ts frm [] = True"
| "legal_path ts frm (to # tos) = (isTransitionAllowed ts frm to \<and> legal_path ts to tos)"

end
