(* ===== verification/Wf_Props.thy ===== *)
theory Wf_Props
  imports Wf_Numbers Wf_Seed
begin

text \<open>
  workflow-service: the properties of cases, tasks and templates, each with a run on concrete data
  where it has hypotheses.
\<close>

section \<open>Columns\<close>

lemma column_strings_Marshal [simp]: "valid_strings ss \<Longrightarrow> column_strings (Marshal_strings ss) = ss"
  by (simp add: column_strings_def strings_roundtrip)

definition valid_transition :: "Transition \<Rightarrow> bool" where
  "valid_transition t \<longleftrightarrow> valid_utf8 (tr_From t) \<and> valid_utf8 (tr_To t) \<and> valid_utf8 (tr_Label t)"

lemma ascii_lower_simps: "map ascii_lower ''from'' = ''from''" "map ascii_lower ''to'' = ''to''"
  "map ascii_lower ''label'' = ''label''"
  by (simp_all add: ascii_lower_def)

lemma set_transition_json: "set_transition (transition_json t) zero_transition = Some t"
  by (simp add: set_transition_def transition_json_def field_match_def ascii_lower_simps zero_transition_def)

lemma column_transitions_Marshal [simp]:
  assumes "list_all valid_transition ts"
  shows "column_transitions (Marshal_transitions ts) = ts"
proof -
  have "wf_json (JArr (map transition_json ts))"
    using assms by (induction ts) (auto simp: transition_json_def valid_transition_def
        is_digit_def split: if_splits simp del: valid_utf8.simps, code_simp+)
  moreover have "map_opt (\<lambda>v. set_transition v zero_transition) (map transition_json ts) = Some (map id ts)"
    by (rule map_opt_map) (simp add: set_transition_json)
  moreover have "Marshal_transitions ts \<noteq> ''''" by (simp add: Marshal_transitions_def)
  ultimately show ?thesis
    by (simp add: column_transitions_def Marshal_transitions_def json_roundtrip del: json_text.simps)
qed

section \<open>Data for the concrete runs\<close>

definition demo_case :: Case where
  "demo_case = \<lparr>case_ID = ''c1'', case_TenantID = ''acme'', case_CaseNumber = ''CASE-ACME-00001'',
     case_Title = ''VPN'', case_Description = '''', case_Status = CaseStatusNew, case_Priority = PriorityHigh,
     case_AssigneeID = None, case_ReporterID = ''bob'', case_WorkflowID = Some ''wf'',
     case_SLA = \<lparr>sla_DueAt = Some 500, sla_Breached = False\<rparr>, case_Tags = None, case_CreatedAt = 0,
     case_UpdatedAt = 0, case_ResolvedAt = None, case_ClosedAt = None\<rparr>"

definition demo_template :: "int \<Rightarrow> WorkflowTemplate" where
  "demo_template hours = \<lparr>wt_ID = ''wf'', wt_TenantID = ''acme'', wt_Name = ''IT'', wt_Description = '''',
     wt_States = None, wt_Transitions = Some [\<lparr>tr_From = CaseStatusNew, tr_To = CaseStatusOpen, tr_Label = ''Open''\<rparr>],
     wt_DefaultPriority = PriorityLow, wt_SLAHours = hours, wt_CreatedAt = 0, wt_UpdatedAt = 0\<rparr>"

definition demo_env :: env where
  "demo_env = \<lparr>env_clock = siterate (\<lambda>t. t + 1) 1000, env_uuids = ''u1'' ## ''u2'' ## ''u3'' ## sconst ''u'',
     env_lower = (\<lambda>s. s), env_upper = (\<lambda>s. s)\<rparr>"

text \<open>Ports that answer with fixed values.\<close>

definition stub_caseService :: "(goerr + WorkflowTemplate) \<Rightarrow> 'w caseService" where
  "stub_caseService tmpl =
     \<lparr>cs_caseRepo = \<lparr>cr_Create = (\<lambda>c w. (None, w)), cr_FindByID = (\<lambda>i w. (Inr demo_case, w)),
        cr_FindByNumber = (\<lambda>t n w. (Inr demo_case, w)), cr_Update = (\<lambda>c w. (None, w)),
        cr_List = (\<lambda>t f p l w. (Inr ([demo_case], 1), w)), cr_RecordTransition = (\<lambda>t w. (None, w)),
        cr_GetTransitionHistory = (\<lambda>i w. (Inr [], w)), cr_NextCaseNumber = (\<lambda>t w. (Inr ''CASE-ACME-00001'', w))\<rparr>,
      cs_workflowRepo = \<lparr>wr_Create = (\<lambda>t w. (None, w)), wr_FindByID = (\<lambda>i w. (tmpl, w)),
        wr_ListByTenant = (\<lambda>t w. (Inr [], w)), wr_Update = (\<lambda>t w. (None, w))\<rparr>,
      cs_commentRepo = \<lparr>cm_Create = (\<lambda>c w. (None, w)), cm_FindByID = (\<lambda>i w. (Inl ErrCommentNotFound, w)),
        cm_ListByCase = (\<lambda>i w. (Inr [], w)), cm_Delete = (\<lambda>i w. (None, w))\<rparr>\<rparr>"

definition empty_tbl :: "'m tbl" where "empty_tbl = \<lparr>rows = [], tbl_hidden = 0\<rparr>"

definition demo_world :: "Case list \<Rightarrow> caseCounterModel list \<Rightarrow> wf_world" where
  "demo_world cs ks = \<lparr>env_clock = siterate (\<lambda>t. t + 1) 1000, env_uuids = ''u1'' ## ''u2'' ## ''u3'' ## sconst ''u'',
     env_lower = (\<lambda>s. s), env_upper = (\<lambda>s. s), w_cases = \<lparr>rows = map domainCaseToModel cs, tbl_hidden = 0\<rparr>,
     w_transitions = empty_tbl, w_counters = \<lparr>rows = ks, tbl_hidden = 0\<rparr>, w_tasks = empty_tbl,
     w_templates = \<lparr>rows = [domainWFToModel (demo_template 24)], tbl_hidden = 0\<rparr>, w_comments = empty_tbl\<rparr>"

lemmas demo_defs = demo_case_def demo_template_def demo_env_def stub_caseService_def CaseStatus_defs Priority_defs

lemma demo_template_valid: "list_all valid_transition (elems (wt_Transitions (demo_template h)))"
  by code_simp

lemma demo_columns [simp]:
  "column_strings (Marshal_strings None) = None"
  "column_transitions (Marshal_transitions [\<lparr>tr_From = CaseStatusNew, tr_To = CaseStatusOpen, tr_Label = ''Open''\<rparr>])
     = [\<lparr>tr_From = CaseStatusNew, tr_To = CaseStatusOpen, tr_Label = ''Open''\<rparr>]"
  using column_transitions_Marshal [OF demo_template_valid [of 0]]
  by (simp_all add: demo_template_def valid_strings_def)

text \<open>The equations that run the repositories on the reference tables.\<close>

lemmas demo_eval = demo_case_def demo_template_def caseRepository_def workflowTemplateRepository_def
  case_repo_defs mem_wf_db_def mem_simps mem_Transaction_def domainCaseToModel_def modelToDomainCase_def
  domainWFToModel_def modelToDomainWF_def checkTransition_def transitioned_def empty_tbl_def

section \<open>Transitions\<close>

lemma transitioned_Status: "case_Status (transitioned c to n) = to"
  by (auto simp: transitioned_def Let_def split: option.splits)

text \<open>A case after a move: status, times of the move and the breach of its deadline; nothing else.\<close>

definition moved_case :: "Case \<Rightarrow> CaseStatus \<Rightarrow> time \<Rightarrow> Case" where
  "moved_case c to now = c\<lparr>case_Status := to, case_UpdatedAt := now,
     case_ResolvedAt := (if to = CaseStatusResolved then Some now else case_ResolvedAt c),
     case_ClosedAt := (if to = CaseStatusClosed then Some now else case_ClosedAt c),
     case_SLA := (case_SLA c)\<lparr>sla_Breached :=
       sla_Breached (case_SLA c) \<or> (case sla_DueAt (case_SLA c) of None \<Rightarrow> False | Some dueAt \<Rightarrow> dueAt < now)\<rparr>\<rparr>"

lemma transitioned_moved: "transitioned c to now = moved_case c to now"
  by (cases c) (auto simp: transitioned_def moved_case_def Let_def split: option.splits)

text \<open>The row of a case is rewritten with \<open>c\<close>, no other row changes, none is added or removed.\<close>

definition case_row_rewritten :: "Case \<Rightarrow> caseModel list \<Rightarrow> caseModel list \<Rightarrow> bool" where
  "case_row_rewritten c = list_all2 (\<lambda>m m'. if cm_ID m = case_ID c then case_stored (domainCaseToModel c) m' else m' = m)"

context wf_db_laws
begin

lemma update_rows:
  assumes u: "caseRepository_Update db c w = (None, w')" and x: "case_ID c \<in> case_ID ` set (stored_cases w)"
  shows "case_row_rewritten c (rows (w_cases w)) (rows (w_cases w'))" "w_transitions w' = w_transitions w"
proof -
  from u obtain t where t: "gorm_Save (db_cases db) (domainCaseToModel c) (w_cases w) = (None, t)"
    and w': "w' = w\<lparr>w_cases := t\<rparr>"
    by (auto simp: caseRepository_Update_def on_table_def Let_def split: prod.splits)
  have ids: "cm_ID (domainCaseToModel c) = case_ID c" "\<And>m. case_ID (modelToDomainCase m) = cm_ID m"
    by (simp_all add: domainCaseToModel_def modelToDomainCase_def)
  have "cm_ID (domainCaseToModel c) \<in> cm_ID ` set (rows (w_cases w))"
    using x by (simp add: stored_cases_def image_image ids)
  from cases_t.save [OF this t] show "case_row_rewritten c (rows (w_cases w)) (rows (w_cases w'))"
    by (simp add: rewritten_def ids case_row_rewritten_def w')
  show "w_transitions w' = w_transitions w" by (simp add: w')
qed

lemma find_case:
  assumes "cr_FindByID (caseRepository db) i w = (Inr c, w')"
  shows "c \<in> set (stored_cases w)" "db_eq db (case_ID c) i" "rows (w_cases w') = rows (w_cases w)"
    "w_transitions w' = w_transitions w" "env_clock w' = env_clock w"
proof -
  from assms obtain m t where m: "gorm_First (db_cases db) (\<lambda>m. db_eq db (cm_ID m) i) (w_cases w) = (Inr m, t)"
    "c = modelToDomainCase m" "w' = w\<lparr>w_cases := t\<rparr>"
    by (auto simp: caseRepository_def caseRepository_FindByID_def on_table_def Let_def split: prod.splits sum.splits)
  with cases_t.first_ok [OF m(1)] cases_t.first_rows [OF m(1)]
  show "c \<in> set (stored_cases w)" "db_eq db (case_ID c) i" "rows (w_cases w') = rows (w_cases w)"
    "w_transitions w' = w_transitions w" "env_clock w' = env_clock w"
    by (auto simp: stored_cases_def modelToDomainCase_def)
qed

lemma checked_world:
  "checkTransition (wf_caseService db) c to w = (ok, w') \<Longrightarrow>
     w_cases w' = w_cases w \<and> w_transitions w' = w_transitions w \<and> env_clock w' = env_clock w"
  by (auto simp: checkTransition_def wf_caseService_def workflowTemplateRepository_def workflowTemplateRepository_FindByID_def
      on_table_def Let_def split: option.splits if_splits prod.splits sum.splits)

lemma recorded_rows:
  assumes "cr_RecordTransition (caseRepository db) h w = (r, w')"
  shows "w_cases w' = w_cases w" "rows (w_transitions w') = rows (w_transitions w) \<or>
    (\<exists>m. rows (w_transitions w') = rows (w_transitions w) @ [m] \<and> ctm_CaseID m = ct_CaseID h \<and>
       ctm_FromStatus m = ct_FromStatus h \<and> ctm_ToStatus m = ct_ToStatus h)"
proof -
  let ?m = "\<lparr>ctm_ID = ct_ID h, ctm_CaseID = ct_CaseID h, ctm_FromStatus = ct_FromStatus h, ctm_ToStatus = ct_ToStatus h,
    ctm_Reason = ct_Reason h, ctm_PerformedBy = ct_PerformedBy h, ctm_PerformedAt = ct_PerformedAt h\<rparr>"
  from assms obtain t where t: "gorm_Create (db_transitions db) ?m (w_transitions w) = (r, t)"
    and w': "w' = w\<lparr>w_transitions := t\<rparr>"
    by (auto simp: caseRepository_def caseRepository_RecordTransition_def on_table_def Let_def split: prod.splits)
  have same: "ctm_CaseID m = ct_CaseID h \<and> ctm_FromStatus m = ct_FromStatus h \<and> ctm_ToStatus m = ct_ToStatus h"
    if "transition_stored ?m m" for m using that by (cases m) (simp add: transition_stored_def)
  show "w_cases w' = w_cases w" by (simp add: w')
  show "rows (w_transitions w') = rows (w_transitions w) \<or>
    (\<exists>m. rows (w_transitions w') = rows (w_transitions w) @ [m] \<and> ctm_CaseID m = ct_CaseID h \<and>
       ctm_FromStatus m = ct_FromStatus h \<and> ctm_ToStatus m = ct_ToStatus h)"
    using gorm_table_laws.create [OF transitions_laws TrueI t] same by (auto simp: inserted_def w')
qed

lemma transition_result:
  assumes run: "caseService_TransitionCase (wf_caseService db) i req w = (Inr c', w')"
    and now: "now = shd (env_clock w)"
  shows "\<exists>c\<in>set (stored_cases w). db_eq db (case_ID c) i \<and>
    (case_Status c = trq_ToStatus req \<and> c' = c \<and> rows (w_cases w') = rows (w_cases w) \<and> w_transitions w' = w_transitions w \<or>
     case_Status c \<noteq> trq_ToStatus req \<and> c' = moved_case c (trq_ToStatus req) now \<and>
     case_row_rewritten c' (rows (w_cases w)) (rows (w_cases w')) \<and>
     (rows (w_transitions w') = rows (w_transitions w) \<or>
      (\<exists>h. rows (w_transitions w') = rows (w_transitions w) @ [h] \<and> ctm_CaseID h = case_ID c \<and>
         ctm_FromStatus h = case_Status c \<and> ctm_ToStatus h = trq_ToStatus req)))"
proof -
  let ?to = "trq_ToStatus req"
  obtain fr w1 where f: "cr_FindByID (caseRepository db) i w = (fr, w1)" by force
  with run obtain c where c: "fr = Inr c"
    by (cases fr) (auto simp: caseService_TransitionCase_def)
  note found = find_case [OF f [unfolded c]]
  show ?thesis
  proof (cases "case_Status c = ?to")
    case True
    with run f c found show ?thesis by (intro bexI [of _ c]) (auto simp: caseService_TransitionCase_def)
  next
    case False
    obtain ok w2 n w3 u w4 where ct: "checkTransition (wf_caseService db) c ?to w1 = (ok, w2)"
      and n: "time_Now w2 = (n, w3)" and u: "cr_Update (caseRepository db) (transitioned c ?to n) w3 = (u, w4)"
      by (metis surj_pair)
    obtain tid w5 where uu: "uuid_NewString w4 = (tid, w5)" by force
    define h where "h = \<lparr>ct_ID = tid, ct_CaseID = case_ID c, ct_FromStatus = case_Status c, ct_ToStatus = ?to,
      ct_Reason = trq_Reason req, ct_PerformedBy = trq_PerformedBy req, ct_PerformedAt = n\<rparr>"
    obtain r w6 where rec: "cr_RecordTransition (caseRepository db) h w5 = (r, w6)" by force
    note ids = transitioned_moved [of c ?to n]
    have ID: "case_ID (moved_case c ?to n) = case_ID c" by (simp add: moved_case_def)
    have ok: "ok" "u = None" and c': "c' = moved_case c ?to n" and w': "w' = w6"
      using run f c False ct n u uu rec by (auto simp: caseService_TransitionCase_def ids ID h_def Let_def split: bool.splits option.splits)
    have w2: "w_cases w2 = w_cases w1" "w_transitions w2 = w_transitions w1" "env_clock w2 = env_clock w1"
      using checked_world [OF ct] by auto
    have w3: "rows (w_cases w3) = rows (w_cases w)" "w_transitions w3 = w_transitions w" "n = now"
      using n w2 found by (auto simp: time_Now_def now)
    have "case_ID c' \<in> case_ID ` set (stored_cases w3)" using found w3 ID by (simp add: stored_cases_def c')
    moreover have "caseRepository_Update db c' w3 = (None, w4)" using u ok(2) c' ids by (simp add: caseRepository_def)
    ultimately have w4: "case_row_rewritten c' (rows (w_cases w)) (rows (w_cases w4))" "w_transitions w4 = w_transitions w"
      using update_rows w3 by metis+
    have w5: "w_cases w5 = w_cases w4" "w_transitions w5 = w_transitions w4" using uu by (auto simp: uuid_NewString_def)
    from recorded_rows [OF rec] w4 w5 found False c' w3(3) show ?thesis
      by (intro bexI [of _ c]) (auto simp: w' h_def)
  qed
qed

end

text \<open>
  C11: A transition to another status that the template attached to the case does not list is refused
  with \<open>ErrInvalidTransition\<close>, and nothing but the two lookups has happened.
\<close>

theorem transition_refused:
  assumes "cr_FindByID (cs_caseRepo s) i w = (Inr c, w1)" "case_Status c \<noteq> trq_ToStatus req"
    "case_WorkflowID c = Some wid" "wid \<noteq> ''''" "wr_FindByID (cs_workflowRepo s) wid w1 = (Inr t, w2)"
    "\<forall>tr\<in>set (elems (wt_Transitions t)). \<not> (tr_From tr = case_Status c \<and> tr_To tr = trq_ToStatus req)"
  shows "\<exists>e. caseService_TransitionCase s i req w = (Inl e, w2) \<and> errors_Is e ErrInvalidTransition"
proof -
  have "\<not> isTransitionAllowed (elems (wt_Transitions t)) (case_Status c) (trq_ToStatus req)"
    using assms(6) by (auto simp: isTransitionAllowed_iff)
  with assms show ?thesis
    by (simp add: caseService_TransitionCase_def checkTransition_def ErrInvalidTransition_def)
qed

theorem transition_refused_witness:
  "\<exists>e. caseService_TransitionCase (stub_caseService (Inr (demo_template 24))) ''c1''
     \<lparr>trq_ToStatus = CaseStatusClosed, trq_Reason = '''', trq_PerformedBy = ''bob''\<rparr> demo_env = (Inl e, demo_env)
     \<and> errors_Is e ErrInvalidTransition"
  by (rule transition_refused [where c = demo_case and t = "demo_template 24" and wid = "''wf''" and ?w1.0 = demo_env])
    (simp_all add: demo_defs)

text \<open>
  C19: A transition that succeeds is about the stored case the identifier of the request names. When that case
  has the requested status already nothing changes; otherwise the answer is that case with the new status, the
  time of the move, its resolution or closing time where the status is one of these two, and the breach of its
  deadline. The row of that case is rewritten with the answer and no other row of the cases changes; the
  history gains nothing or one row, with the case and both statuses.
\<close>

theorem transition_stored:
  assumes "wf_db_laws db" "caseService_TransitionCase (wf_caseService db) i req w = (Inr c', w')"
    and "now = shd (env_clock w)"
  shows "\<exists>c\<in>set (stored_cases w). db_eq db (case_ID c) i \<and>
    (case_Status c = trq_ToStatus req \<and> c' = c \<and> rows (w_cases w') = rows (w_cases w) \<and> w_transitions w' = w_transitions w \<or>
     case_Status c \<noteq> trq_ToStatus req \<and> c' = moved_case c (trq_ToStatus req) now \<and>
     case_row_rewritten c' (rows (w_cases w)) (rows (w_cases w')) \<and>
     (rows (w_transitions w') = rows (w_transitions w) \<or>
      (\<exists>h. rows (w_transitions w') = rows (w_transitions w) @ [h] \<and> ctm_CaseID h = case_ID c \<and>
         ctm_FromStatus h = case_Status c \<and> ctm_ToStatus h = trq_ToStatus req)))"
  by (rule wf_db_laws.transition_result [OF assms])

theorem transition_stored_witness:
  "\<exists>c' w'. caseService_TransitionCase (wf_caseService mem_wf_db) ''c1''
       \<lparr>trq_ToStatus = CaseStatusOpen, trq_Reason = '''', trq_PerformedBy = ''bob''\<rparr>
       (demo_world [demo_case\<lparr>case_ID := ''c0''\<rparr>, demo_case] []) = (Inr c', w')
     \<and> case_ID c' = ''c1'' \<and> case_Status c' = CaseStatusOpen
     \<and> (\<exists>m. rows (w_cases w') = [domainCaseToModel (demo_case\<lparr>case_ID := ''c0''\<rparr>), m] \<and> cm_Status m = CaseStatusOpen)"
proof -
  define w where "w = demo_world [demo_case\<lparr>case_ID := ''c0''\<rparr>, demo_case] []"
  define req where "req = \<lparr>trq_ToStatus = CaseStatusOpen, trq_Reason = '''', trq_PerformedBy = ''bob''\<rparr>"
  have "\<exists>c'. fst (caseService_TransitionCase (wf_caseService mem_wf_db) ''c1'' req w) = Inr c'"
    by (simp add: w_def req_def caseService_TransitionCase_def demo_world_def demo_eval)
  then obtain c' w' where r: "caseService_TransitionCase (wf_caseService mem_wf_db) ''c1'' req w = (Inr c', w')"
    by (metis prod.collapse)
  have to: "trq_ToStatus req = CaseStatusOpen" by (simp add: req_def)
  have rows: "rows (w_cases w) = [domainCaseToModel (demo_case\<lparr>case_ID := ''c0''\<rparr>), domainCaseToModel demo_case]"
    by (simp add: w_def demo_world_def)
  from transition_stored [OF mem_wf.wf_db_laws_axioms r refl] obtain c where
    c: "c \<in> set (stored_cases w)" "db_eq mem_wf_db (case_ID c) ''c1''"
    and moved: "case_Status c = CaseStatusOpen \<or> c' = moved_case c CaseStatusOpen (shd (env_clock w)) \<and>
      case_row_rewritten c' (rows (w_cases w)) (rows (w_cases w'))"
    unfolding to by blast
  have "case_ID c = ''c1''" using c(2) by (simp add: mem_wf_db_def)
  with c(1) have c1: "case_ID c = ''c1''" "case_Status c = CaseStatusNew"
    by (auto simp: stored_cases_def rows modelToDomainCase_def domainCaseToModel_def demo_case_def)
  with moved have c': "c' = moved_case c CaseStatusOpen (shd (env_clock w))"
    and new: "case_row_rewritten c' (rows (w_cases w)) (rows (w_cases w'))"
    by (auto simp: CaseStatus_defs)
  have id: "case_ID c' = ''c1''" "case_Status c' = CaseStatusOpen" by (simp_all add: c' c1 moved_case_def)
  have "cm_Status m = case_Status c'" if "case_stored (domainCaseToModel c') m" for m
    using that by (cases c'; cases m) (simp add: case_stored_def domainCaseToModel_def)
  with new rows id have "\<exists>m. rows (w_cases w') = [domainCaseToModel (demo_case\<lparr>case_ID := ''c0''\<rparr>), m] \<and> cm_Status m = CaseStatusOpen"
    by (auto simp: case_row_rewritten_def list_all2_Cons1 domainCaseToModel_def demo_case_def)
  with r id show ?thesis unfolding w_def req_def by blast
qed

text \<open>
  When the template of a case cannot be read the transition is not checked: any status is
  accepted as soon as the case can be written.
\<close>

theorem transition_unchecked:
  assumes "cr_FindByID (cs_caseRepo s) i w = (Inr c, w1)" "case_Status c \<noteq> trq_ToStatus req"
    "case_WorkflowID c = Some wid" "wid \<noteq> ''''" "wr_FindByID (cs_workflowRepo s) wid w1 = (Inl e, w2)"
    "cr_Update (cs_caseRepo s) (transitioned c (trq_ToStatus req) (fst (time_Now w2))) (snd (time_Now w2)) = (None, w3)"
  shows "\<exists>c' w'. caseService_TransitionCase s i req w = (Inr c', w') \<and> case_Status c' = trq_ToStatus req"
  using assms by (simp add: caseService_TransitionCase_def checkTransition_def Let_def split_beta transitioned_Status)

theorem transition_unchecked_witness:
  "\<exists>c' w'. caseService_TransitionCase (stub_caseService (Inl (Foreign ''timeout''))) ''c1''
     \<lparr>trq_ToStatus = ''no such status'', trq_Reason = '''', trq_PerformedBy = ''bob''\<rparr> demo_env = (Inr c', w')
     \<and> case_Status c' = ''no such status''"
  using transition_unchecked [where s = "stub_caseService (Inl (Foreign ''timeout''))" and c = demo_case
      and i = "''c1''" and w = demo_env and ?w1.0 = demo_env and ?w2.0 = demo_env and wid = "''wf''"
      and req = "\<lparr>trq_ToStatus = ''no such status'', trq_Reason = '''', trq_PerformedBy = ''bob''\<rparr>"
      and e = "Foreign ''timeout''" and ?w3.0 = "snd (time_Now demo_env)"]
  by (simp add: demo_defs)

section \<open>Deadlines\<close>

lemma hours_wrap: "0 < h \<Longrightarrow> h \<le> 2562047 \<Longrightarrow> Duration_mul h Hour = h * Hour"
  by (simp add: Duration_mul_def Hour_def wrap64_id is_int64_def)

lemma hours_overflow: "2562047 < h \<Longrightarrow> h \<le> 5124095 \<Longrightarrow> Duration_mul h Hour < 0"
proof -
  assume h: "2562047 < h" "h \<le> 5124095"
  then have "(h * 3600000000000 + 2 ^ 63) div 2 ^ 64 = (1 :: int)" by simp
  then have "(h * 3600000000000 + 2 ^ 63) mod 2 ^ 64 = h * 3600000000000 + 2 ^ 63 - 2 ^ 64"
    by (simp add: minus_div_mult_eq_mod [symmetric])
  with h show ?thesis by (simp add: Duration_mul_def Hour_def wrap64_def)
qed

lemma resolveSLA_deadline:
  assumes "resolveSLA s now (Some wid) c w = (c', w')" "wid \<noteq> ''''" "case_Priority c \<noteq> ''''"
    "fst (wr_FindByID (cs_workflowRepo s) wid w) = Inr t" "0 < wt_SLAHours t" "wt_SLAHours t \<le> 2562047"
  shows "c' = c\<lparr>case_SLA := \<lparr>sla_DueAt = Some (now + wt_SLAHours t * Hour), sla_Breached = False\<rparr>\<rparr>"
  using assms hours_wrap [OF assms(5,6)] by (auto simp: resolveSLA_def Let_def split: prod.splits)

lemma resolveSLA_world:
  "resolveSLA (wf_caseService db) now wid c w = (c', w') \<Longrightarrow> w_cases w' = w_cases w"
  by (auto simp: resolveSLA_def wf_caseService_def workflowTemplateRepository_def workflowTemplateRepository_FindByID_def
      on_table_def Let_def split: option.splits if_splits prod.splits sum.splits)

lemma number_world:
  "cr_NextCaseNumber (caseRepository db) t w = (r, w') \<Longrightarrow>
     w_cases w' = w_cases w \<and> w_templates w' = w_templates w \<and> env_clock w' = env_clock w"
  by (auto simp: caseRepository_def caseRepository_NextCaseNumber_def on_table_def Let_def split: prod.splits sum.splits)

lemma template_lookup:
  "w_templates w' = w_templates w \<Longrightarrow>
     fst (workflowTemplateRepository_FindByID db wid w') = fst (workflowTemplateRepository_FindByID db wid w)"
  by (auto simp: workflowTemplateRepository_FindByID_def on_table_def Let_def split: prod.splits sum.splits)

context wf_db_laws
begin

lemma case_inserted:
  assumes "cr_Create (caseRepository db) c w = (None, w')"
  shows "gorm_Create (db_cases db) (domainCaseToModel c) (w_cases w) = (None, w_cases w')"
    "\<exists>m. rows (w_cases w') = rows (w_cases w) @ [m] \<and> case_stored (domainCaseToModel c) m"
proof -
  show t: "gorm_Create (db_cases db) (domainCaseToModel c) (w_cases w) = (None, w_cases w')"
    using assms by (auto simp: caseRepository_def caseRepository_Create_def on_table_def Let_def split: prod.splits)
  show "\<exists>m. rows (w_cases w') = rows (w_cases w) @ [m] \<and> case_stored (domainCaseToModel c) m"
    by (rule cases_t.create_okE [OF TrueI t]) blast
qed

lemma created_deadline:
  assumes run: "caseService_CreateCase (wf_caseService db) t rep req w = (Inr c, w')"
    and wid: "ccr_WorkflowID req = Some wid" "wid \<noteq> ''''"
    and tmpl: "fst (workflowTemplateRepository_FindByID db wid w) = Inr tmpl"
    and hours: "0 < wt_SLAHours tmpl" "wt_SLAHours tmpl \<le> 2562047"
    and due: "due = shd (env_clock w) + wt_SLAHours tmpl * Hour"
  shows "case_CreatedAt c = shd (env_clock w) \<and> case_SLA c = \<lparr>sla_DueAt = Some due, sla_Breached = False\<rparr> \<and>
    gorm_Create (db_cases db) (domainCaseToModel c) (w_cases w) = (None, w_cases w') \<and>
    (\<exists>m. rows (w_cases w') = rows (w_cases w) @ [m] \<and> case_stored (domainCaseToModel c) m)"
proof -
  have valid: "TrimSpace (ccr_Title req) \<noteq> ''''" "t \<noteq> ''''" "rep \<noteq> ''''"
    using run by (auto simp: caseService_CreateCase_def split: if_splits)
  obtain nr w1 where nr: "cr_NextCaseNumber (caseRepository db) t w = (nr, w1)" by force
  then obtain s where s: "nr = Inr s" using run valid by (cases nr) (auto simp: caseService_CreateCase_def)
  obtain n w2 u w3 where n: "time_Now w1 = (n, w2)" and u: "uuid_NewString w2 = (u, w3)" by (metis surj_pair)
  define c1 where "c1 = \<lparr>case_ID = u, case_TenantID = t, case_CaseNumber = s, case_Title = ccr_Title req,
      case_Description = ccr_Description req, case_Status = CaseStatusNew,
      case_Priority = (if ccr_Priority req = '''' then PriorityMedium else ccr_Priority req), case_AssigneeID = None,
      case_ReporterID = rep, case_WorkflowID = ccr_WorkflowID req, case_SLA = \<lparr>sla_DueAt = None, sla_Breached = False\<rparr>,
      case_Tags = ccr_Tags req, case_CreatedAt = n, case_UpdatedAt = n, case_ResolvedAt = None, case_ClosedAt = None\<rparr>"
  obtain c2 w4 where sla: "resolveSLA (wf_caseService db) n (Some wid) c1 w3 = (c2, w4)" by force
  obtain r w5 where cr: "cr_Create (caseRepository db) c2 w4 = (r, w5)" by force
  have fin: "r = None" "c = c2" "w' = w5"
    using run valid nr s n u sla cr wid
    by (auto simp: caseService_CreateCase_def c1_def Let_def split: option.splits if_splits)
  have w3: "w_cases w3 = w_cases w" "w_templates w3 = w_templates w" "n = shd (env_clock w)"
    using number_world [OF nr] n u by (auto simp: time_Now_def uuid_NewString_def)
  have "c = c1\<lparr>case_SLA := \<lparr>sla_DueAt = Some due, sla_Breached = False\<rparr>\<rparr>"
    unfolding fin(2) due w3(3) [symmetric]
    by (rule resolveSLA_deadline [OF sla wid(2)])
      (use template_lookup [OF w3(2)] tmpl hours in \<open>simp_all add: c1_def PriorityMedium_def workflowTemplateRepository_def wf_caseService_def\<close>)
  then have "case_CreatedAt c = n" "case_SLA c = \<lparr>sla_DueAt = Some due, sla_Breached = False\<rparr>"
    by (simp_all add: c1_def)
  with case_inserted [OF cr [unfolded fin(1)]] resolveSLA_world [OF sla] w3 fin(2,3) show ?thesis
    by simp
qed

end

text \<open>
  C38: A case created from a template that is found, with a positive number of hours up to 2562047, has the
  reading of the clock as its creation time and this time plus the hours of the template as its deadline, later
  than the creation and not breached; this deadline is in the row handed to the database, and exactly one
  row, with the identifier of the case, a deadline and no breach, is added to the stored cases.
\<close>

theorem sla_deadline:
  assumes "wf_db_laws db" "caseService_CreateCase (wf_caseService db) t rep req w = (Inr c, w')"
    and "ccr_WorkflowID req = Some wid" "wid \<noteq> ''''" "fst (workflowTemplateRepository_FindByID db wid w) = Inr tmpl"
    and "0 < wt_SLAHours tmpl" "wt_SLAHours tmpl \<le> 2562047"
    and "due = shd (env_clock w) + wt_SLAHours tmpl * 3600 * 1000000000"
  shows "case_CreatedAt c = shd (env_clock w) \<and> sla_DueAt (case_SLA c) = Some due \<and> case_CreatedAt c < due \<and>
    \<not> sla_Breached (case_SLA c) \<and>
    (\<exists>row. gorm_Create (db_cases db) row (w_cases w) = (None, w_cases w') \<and> cm_ID row = case_ID c \<and>
       cm_CreatedAt row = case_CreatedAt c \<and> cm_SLADueAt row = Some due) \<and>
    (\<exists>m. rows (w_cases w') = rows (w_cases w) @ [m] \<and> cm_ID m = case_ID c \<and> cm_SLADueAt m \<noteq> None \<and> \<not> cm_SLABreached m)"
proof -
  have due: "due = shd (env_clock w) + wt_SLAHours tmpl * Hour" using assms(8) by (simp add: Hour_def)
  have "cm_SLABreached m = sla_Breached (case_SLA c)" "cm_SLADueAt m = None \<longleftrightarrow> sla_DueAt (case_SLA c) = None" "cm_ID m = case_ID c"
    if "case_stored (domainCaseToModel c) m" for m
    using that by (cases c; cases m; simp add: case_stored_def domainCaseToModel_def)+
  with wf_db_laws.created_deadline [OF assms(1-7) due] assms(6,8) show ?thesis
    by (auto simp: domainCaseToModel_def)
qed

theorem sla_deadline_witness:
  "\<exists>c w'. caseService_CreateCase (wf_caseService mem_wf_db) ''acme'' ''bob''
       \<lparr>ccr_Title = ''VPN'', ccr_Description = '''', ccr_Priority = '''', ccr_WorkflowID = Some ''wf'', ccr_Tags = None\<rparr>
       (demo_world [] []) = (Inr c, w')
     \<and> sla_DueAt (case_SLA c) = Some (1000 + 24 * 3600 * 1000000000) \<and> length (rows (w_cases w')) = 1"
proof -
  define w where "w = demo_world [] []"
  define req where "req = \<lparr>ccr_Title = ''VPN'', ccr_Description = '''', ccr_Priority = '''', ccr_WorkflowID = Some ''wf'',
    ccr_Tags = (None :: string list option)\<rparr>"
  have trim: "TrimSpace ''VPN'' \<noteq> ''''" by code_simp
  have "\<exists>c. fst (caseService_CreateCase (wf_caseService mem_wf_db) ''acme'' ''bob'' req w) = Inr c"
    by (simp add: caseService_CreateCase_def w_def req_def trim resolveSLA_def counter_body_def counter_read_def
        counter_write_def wf_caseService_def demo_world_def demo_eval split_beta)
  then obtain c w' where r: "caseService_CreateCase (wf_caseService mem_wf_db) ''acme'' ''bob'' req w = (Inr c, w')"
    by (metis prod.collapse)
  obtain tmpl where tmpl: "fst (workflowTemplateRepository_FindByID mem_wf_db ''wf'' w) = Inr tmpl" "wt_SLAHours tmpl = 24"
    by (simp add: w_def demo_world_def demo_eval)
  have w: "shd (env_clock w) = 1000" "rows (w_cases w) = []" by (simp_all add: w_def demo_world_def)
  have wid: "ccr_WorkflowID req = Some ''wf''" by (simp add: req_def)
  from sla_deadline [OF mem_wf.wf_db_laws_axioms r wid _ tmpl(1) _ _ refl] tmpl(2) w
  have "sla_DueAt (case_SLA c) = Some (1000 + 24 * 3600 * 1000000000)" "length (rows (w_cases w')) = 1" by auto
  with r show ?thesis unfolding w_def req_def by blast
qed

text \<open>
  A template with more hours than a duration can hold (2562048 to 5124095) puts the deadline of
  a new case before its creation: the product of hours and \<open>time.Hour\<close> wraps around.
\<close>

theorem sla_deadline_overflow:
  assumes "resolveSLA s now (Some wid) c w = (c', w')" "wid \<noteq> ''''"
    "wr_FindByID (cs_workflowRepo s) wid w = (Inr t, w1)" "2562047 < wt_SLAHours t" "wt_SLAHours t \<le> 5124095"
  shows "\<exists>d. sla_DueAt (case_SLA c') = Some d \<and> d < now"
  using assms hours_overflow [OF assms(4,5)]
  by (cases "case_Priority c = ''''") (auto simp: resolveSLA_def Let_def)

theorem sla_deadline_overflow_witness:
  "\<exists>d. sla_DueAt (case_SLA (fst (resolveSLA (stub_caseService (Inr (demo_template 2562048))) 1000 (Some ''wf'')
     demo_case demo_env))) = Some d \<and> d < 1000"
  using sla_deadline_overflow [where s = "stub_caseService (Inr (demo_template 2562048))" and now = 1000
      and wid = "''wf''" and c = demo_case and w = demo_env and t = "demo_template 2562048" and ?w1.0 = demo_env,
      OF prod.collapse [symmetric]]
  by (simp add: stub_caseService_def demo_template_def)

text \<open>
  The priority of a new case is the requested one, or medium when none is requested. The default
  priority of the template never has an effect, whatever the ports answer.
\<close>

theorem priority_of_new_case:
  assumes "caseService_CreateCase s t rep req w = (Inr c, w')"
  shows "case_Priority c = (if ccr_Priority req = '''' then PriorityMedium else ccr_Priority req)"
proof -
  have keep: "case_Priority c1 = case_Priority c0"
    if "resolveSLA s n wid c0 w0 = (c1, w1)" "case_Priority c0 \<noteq> ''''" for n wid c0 w0 c1 w1
    using that by (auto simp: resolveSLA_def Let_def split: option.splits if_splits prod.splits sum.splits)
  have med: "PriorityMedium \<noteq> ''''" by (simp add: PriorityMedium_def)
  from assms show ?thesis
    by (auto simp: caseService_CreateCase_def Let_def med dest!: keep split: if_splits prod.splits sum.splits option.splits)
qed

theorem priority_of_new_case_witness:
  "\<exists>c w'. caseService_CreateCase (stub_caseService (Inr (demo_template 24))) ''acme'' ''bob''
      \<lparr>ccr_Title = ''VPN'', ccr_Description = '''', ccr_Priority = '''', ccr_WorkflowID = Some ''wf'', ccr_Tags = None\<rparr>
      demo_env = (Inr c, w') \<and> case_Priority c = PriorityMedium \<and> wt_DefaultPriority (demo_template 24) = PriorityLow"
proof -
  let ?req = "\<lparr>ccr_Title = ''VPN'', ccr_Description = '''', ccr_Priority = '''', ccr_WorkflowID = Some ''wf'', ccr_Tags = None\<rparr>"
  let ?r = "caseService_CreateCase (stub_caseService (Inr (demo_template 24))) ''acme'' ''bob'' ?req demo_env"
  have trim: "TrimSpace ''VPN'' \<noteq> ''''" by code_simp
  have "\<exists>c. fst ?r = Inr c"
    by (simp add: caseService_CreateCase_def trim stub_caseService_def Let_def split_beta)
  then obtain c w' where r: "?r = (Inr c, w')" by (metis prod.collapse)
  from priority_of_new_case [OF r] r show ?thesis by (simp add: demo_template_def)
qed

text \<open>
  Reading a case that is not marked breached marks it exactly when its deadline has passed at the
  time the clock shows; a mark is never taken back.
\<close>

theorem breach_on_read:
  assumes "caseService_GetCase s i w = (Inr c', w')" "cr_FindByID (cs_caseRepo s) i w = (Inr c, w1)"
  shows "sla_Breached (case_SLA c') \<longleftrightarrow>
    sla_Breached (case_SLA c) \<or> (\<exists>d. sla_DueAt (case_SLA c) = Some d \<and> d < fst (time_Now w1))"
  using assms by (auto simp: caseService_GetCase_def Let_def split: option.splits if_splits prod.splits)

theorem breach_on_read_witness:
  "\<exists>c'. fst (caseService_GetCase (stub_caseService (Inr (demo_template 24))) ''c1'' demo_env) = Inr c'
     \<and> sla_Breached (case_SLA c')"
proof -
  let ?r = "caseService_GetCase (stub_caseService (Inr (demo_template 24))) ''c1'' demo_env"
  have "\<exists>c'. fst ?r = Inr c'"
    by (simp add: caseService_GetCase_def stub_caseService_def Let_def split_beta split: option.split)
  then obtain c' w' where r: "?r = (Inr c', w')" by (metis prod.collapse)
  have f: "cr_FindByID (cs_caseRepo (stub_caseService (Inr (demo_template 24)))) ''c1'' demo_env = (Inr demo_case, demo_env)"
    by (simp add: stub_caseService_def)
  have d: "sla_DueAt (case_SLA demo_case) = Some 500" and c: "fst (time_Now demo_env) = 1000"
    by (simp_all add: demo_case_def demo_env_def time_Now_def)
  from breach_on_read [OF r f] r d c show ?thesis by auto
qed

section \<open>Tasks\<close>

text \<open>
  Updating a task keeps the time of its first completion, sets it when the task becomes done
  without one, and never clears it, whatever status it gets.
\<close>

theorem task_completion_time:
  assumes "taskService_UpdateTask s i req w = (Inr k', w')" "tk_FindByID (ts_taskRepo s) i w = (Inr k, w1)"
  shows "task_CompletedAt k' =
    (case task_CompletedAt k of Some t \<Rightarrow> Some t
     | None \<Rightarrow> if utr_Status req = Some TaskStatusDone then Some (fst (time_Now w1)) else None)"
proof -
  have keep: "task_CompletedAt k2 = (case task_CompletedAt k of Some t \<Rightarrow> Some t
     | None \<Rightarrow> if utr_Status req = Some TaskStatusDone then Some (fst (time_Now w1)) else None)"
    if "updatedTask req k w1 = (k2, w2)" for k2 w2
    using that unfolding updatedTask_def Let_def
    by (cases "utr_Status req"; cases "utr_Title req"; cases "utr_Description req"; cases "utr_AssigneeID req";
        cases "utr_DueAt req"; cases "task_CompletedAt k") (auto simp: split_beta split: if_splits)
  from assms show ?thesis
    by (auto simp: taskService_UpdateTask_def dest!: keep split: if_splits prod.splits option.splits)
qed

definition demo_task :: Task where
  "demo_task = \<lparr>task_ID = ''k1'', task_CaseID = ''c1'', task_TenantID = ''acme'', task_Title = ''Check'',
     task_Description = '''', task_Status = TaskStatusDone, task_AssigneeID = None, task_DueAt = None,
     task_CompletedAt = Some 7, task_CreatedAt = 0, task_UpdatedAt = 7\<rparr>"

definition stub_taskService :: "'w taskService" where
  "stub_taskService = \<lparr>ts_taskRepo = \<lparr>tk_Create = (\<lambda>k w. (None, w)), tk_FindByID = (\<lambda>i w. (Inr demo_task, w)),
     tk_ListByCase = (\<lambda>i w. (Inr [demo_task], w)), tk_Update = (\<lambda>k w. (None, w)), tk_Delete = (\<lambda>i w. (None, w))\<rparr>,
     ts_caseRepo = cs_caseRepo (stub_caseService (Inl ErrWorkflowNotFound))\<rparr>"

theorem task_completion_time_witness:
  "\<exists>k' w'. taskService_UpdateTask stub_taskService ''k1''
      \<lparr>utr_Title = None, utr_Description = None, utr_Status = Some TaskStatusTodo, utr_AssigneeID = None,
       utr_DueAt = None\<rparr> demo_env = (Inr k', w') \<and> task_CompletedAt k' = Some 7"
proof -
  let ?req = "\<lparr>utr_Title = None, utr_Description = None, utr_Status = Some TaskStatusTodo, utr_AssigneeID = None,
       utr_DueAt = None\<rparr>"
  let ?r = "taskService_UpdateTask stub_taskService ''k1'' ?req demo_env"
  have "\<exists>k'. fst ?r = Inr k'"
    by (simp add: taskService_UpdateTask_def stub_taskService_def split_beta)
  then obtain k' w' where r: "?r = (Inr k', w')" by (metis prod.collapse)
  have f: "tk_FindByID (ts_taskRepo stub_taskService) ''k1'' demo_env = (Inr demo_task, demo_env)"
    by (simp add: stub_taskService_def)
  from task_completion_time [OF r f] r show ?thesis by (simp add: demo_task_def)
qed

section \<open>Numbers and histories\<close>

text \<open>
  C2: Over any sequence of requests on an empty database, fewer than \<open>2^63 - 1\<close> of them, no two
  stored cases of one tenant have the same number.
\<close>

theorem case_numbers_unique:
  assumes "wf_db_laws db" "rows (w_cases w) = []" "rows (w_counters w) = []" "rows (w_tasks w) = []"
    "rows (w_comments w) = []" "wf_reach db w n w'" "int n < max_int64"
  shows "distinct (map (\<lambda>c. (case_TenantID c, case_CaseNumber c)) (stored_cases w'))"
proof -
  have "wf_inv db w" "numbers_inv db 0 w"
    using assms(2-5) by (simp_all add: wf_inv_def numbers_inv_def stored_cases_def owner_refs_def counters_ok_def)
  from wf_reach_numbers [OF assms(1) this assms(7,6)] have "distinct (map case_key (stored_cases w'))"
    by (simp add: numbers_inv_def)
  moreover have "case_key = (\<lambda>c. (case_TenantID c, case_CaseNumber c))" by (auto simp: case_key_def)
  ultimately show ?thesis by simp
qed

theorem case_numbers_unique_witness:
  "\<forall>mux r. distinct (map (\<lambda>c. (case_TenantID c, case_CaseNumber c))
     (stored_cases (snd (wf_NewRouter mux (wf_main mem_wf_db) r (demo_world [] [])))))"
  by (intro allI, rule case_numbers_unique [OF mem_wf.wf_db_laws_axioms _ _ _ _ wf_reach.request [OF wf_reach.start]])
    (simp_all add: demo_world_def empty_tbl_def max_int64_def)

context wf_db_laws
begin

lemma counter_write_found:
  assumes s: "sorted_wrt (\<lambda>x y. \<not> db_eq db x y) (map ccm_TenantID (rows t))" and k: "k \<in> set (rows t)"
    "db_eq db (ccm_TenantID k) tenantID"
    and r: "counter_read db tenantID t0 = (f, t1)" "rows t0 = rows t"
    and w: "counter_write db tenantID f t2 = (Inr n, t3)"
  shows "n = wrap64 (ccm_Counter k + 1)"
proof (cases f)
  case (Inl e)
  from r k counters_t.first_none [of "\<lambda>m. db_eq db (ccm_TenantID m) tenantID" t0 e t1 k]
  have "\<not> errors_Is e ErrRecordNotFound" by (auto simp: Inl counter_read_def)
  with w show ?thesis by (simp add: Inl counter_write_def)
next
  case (Inr m)
  from r counters_t.first_ok [of "\<lambda>m. db_eq db (ccm_TenantID m) tenantID" t0 m t1]
  have "m \<in> set (rows t)" "db_eq db (ccm_TenantID m) tenantID" by (auto simp: Inr counter_read_def)
  then have "ccm_Counter m = ccm_Counter k"
    using counter_val_found [OF s] k by metis
  with w show ?thesis by (auto simp: Inr counter_write_def Let_def split: prod.splits option.splits)
qed

end

text \<open>
  C39: Two transactions of \<open>NextCaseNumber\<close> of one tenant that both read before either writes return
  the same number, when both succeed and the tenant has a counter.
\<close>

theorem case_numbers_race:
  assumes "wf_db_laws db" "sorted_wrt (\<lambda>x y. \<not> db_eq db x y) (map ccm_TenantID (rows t))"
    "k \<in> set (rows t)" "db_eq db (ccm_TenantID k) tenantID"
    "interleaved_numbers db tenantID t = ((Inr n1, Inr n2), t')"
  shows "n1 = n2"
proof -
  obtain f1 t1 f2 t2 t3 where r1: "counter_read db tenantID t = (f1, t1)"
    and r2: "counter_read db tenantID t1 = (f2, t2)" and w1: "counter_write db tenantID f1 t2 = (Inr n1, t3)"
    and w2: "counter_write db tenantID f2 t3 = (Inr n2, t')"
    using assms(5) by (auto simp: interleaved_numbers_def split: prod.splits)
  have t1: "rows t1 = rows t"
    using gorm_table_laws.first_rows [OF wf_db_laws.counters_laws [OF assms(1)]] r1 by (simp add: counter_read_def)
  note found = wf_db_laws.counter_write_found [OF assms(1-4)]
  from found [OF r1 _ w1] found [OF r2 t1 w2] show ?thesis by simp
qed

theorem case_numbers_race_witness:
  "\<exists>t'. interleaved_numbers mem_wf_db ''acme'' \<lparr>rows = [\<lparr>ccm_TenantID = ''acme'', ccm_Counter = 5\<rparr>], tbl_hidden = 0\<rparr>
     = ((Inr 6, Inr 6), t')"
proof -
  let ?t = "\<lparr>rows = [\<lparr>ccm_TenantID = ''acme'', ccm_Counter = 5\<rparr>], tbl_hidden = 0\<rparr>"
  have "\<exists>t' n. interleaved_numbers mem_wf_db ''acme'' ?t = ((Inr 6, Inr n), t')"
    by (simp add: interleaved_numbers_def counter_read_def counter_write_def mem_wf_db_def mem_simps wrap64_def)
  then obtain t' n where r: "interleaved_numbers mem_wf_db ''acme'' ?t = ((Inr 6, Inr n), t')" by blast
  from case_numbers_race [OF mem_wf.wf_db_laws_axioms _ _ _ r, of "\<lparr>ccm_TenantID = ''acme'', ccm_Counter = 5\<rparr>"] r
  show ?thesis by (auto simp: mem_wf_db_def)
qed

text \<open>
  C1: Over any sequence of requests every stored case stays stored with its identifier, tenant,
  number, reporter and template; a breach mark, a resolution time and a closing time are never taken
  back; and every task and comment carries the tenant of a stored case it belongs to.
\<close>

theorem requests_keep_cases:
  assumes "wf_db_laws db" "wf_inv db w" "wf_reach db w n w'"
  shows "(\<forall>c\<in>set (stored_cases w). \<exists>c'\<in>set (stored_cases w'). case_evolves c c') \<and>
    distinct (map case_ID (stored_cases w')) \<and> (\<forall>p\<in>owner_refs w'. owned db (stored_cases w') p)"
  using wf_reach_inv [OF assms] cases_growD by (auto simp: wf_inv_def)

theorem requests_keep_cases_witness:
  "\<forall>mux r. \<exists>c'\<in>set (stored_cases (snd (wf_NewRouter mux (wf_main mem_wf_db) r (demo_world [demo_case] [])))).
     case_TenantID c' = ''acme'' \<and> case_CaseNumber c' = ''CASE-ACME-00001''"
proof (intro allI)
  fix mux r
  have inv: "wf_inv mem_wf_db (demo_world [demo_case] [])"
    by (simp add: wf_inv_def stored_cases_def demo_world_def owner_refs_def empty_tbl_def)
  from requests_keep_cases [OF mem_wf.wf_db_laws_axioms inv wf_reach.request [OF wf_reach.start], of mux r]
  show "\<exists>c'\<in>set (stored_cases (snd (wf_NewRouter mux (wf_main mem_wf_db) r (demo_world [demo_case] [])))).
     case_TenantID c' = ''acme'' \<and> case_CaseNumber c' = ''CASE-ACME-00001''"
    by (auto simp: stored_cases_def demo_world_def demo_case_def domainCaseToModel_def modelToDomainCase_def
        case_evolves_def)
qed

end
