(* ===== verification/Wf_Api.thy ===== *)
theory Wf_Api
  imports Wf_Props
begin

text \<open>
  workflow-service: listing and paging, the HTTP layer, the seeded workflow and the stored form of
  templates and cases.
\<close>

section \<open>Listing\<close>

definition eff_page :: "int \<Rightarrow> int" where "eff_page p = (if p < 1 then 1 else p)"
definition eff_limit :: "int \<Rightarrow> int" where "eff_limit l = (if l < 1 \<or> l > 100 then 20 else l)"

lemma eff_limit_range: "1 \<le> eff_limit l \<and> eff_limit l \<le> 100"
  by (simp add: eff_limit_def)

context wf_db_laws
begin

lemma list_result:
  assumes run: "caseService_ListCases (wf_caseService db) t flt p l w = (Inr (cs, cnt), w')"
    and page: "(eff_page p - 1) * eff_limit l < 2 ^ 63"
  shows "\<exists>xs. mset xs = mset (filter (case_where db t flt) (rows (w_cases w))) \<and> sorted_by (Desc cm_CreatedAt) xs
    \<and> cs = map modelToDomainCase (take (nat (eff_limit l)) (drop (nat ((eff_page p - 1) * eff_limit l)) xs))
    \<and> cnt = int (length (filter (case_where db t flt) (rows (w_cases w))))"
proof -
  let ?off = "(eff_page p - 1) * eff_limit l"
  have off: "0 \<le> ?off" using eff_limit_range [of l] by (simp add: eff_page_def)
  have le: "eff_page p - 1 \<le> ?off" using eff_limit_range [of l] mult_left_mono [of 1 "eff_limit l" "eff_page p - 1"]
    by (simp add: eff_page_def split: if_splits)
  have "wrap64 (eff_page p - 1) = eff_page p - 1"
    using page le by (intro wrap64_id) (simp add: is_int64_def eff_page_def split: if_splits)
  moreover have "wrap64 ?off = ?off" using page off by (intro wrap64_id) (simp add: is_int64_def)
  ultimately have wrap: "wrap64 (wrap64 (eff_page p - 1) * eff_limit l) = ?off" by simp
  from run obtain t1 t2 ms where c: "gorm_Count (db_cases db) (case_where db t flt) (w_cases w) = (Inr cnt, t1)"
    and f: "gorm_Find (db_cases db) (case_where db t flt) (Desc cm_CreatedAt) (Some (?off, eff_limit l)) t1 = (Inr ms, t2)"
    and cs: "cs = map modelToDomainCase ms"
    by (auto simp: caseService_ListCases_def caseRepository_def caseRepository_List_def on_table_def Let_def wrap
        eff_page_def [symmetric] eff_limit_def [symmetric] split: prod.splits sum.splits)
  from cases_t.find_ok [OF f] off eff_limit_range [of l] obtain xs where
    "mset xs = mset (filter (case_where db t flt) (rows t1))" "sorted_by (Desc cm_CreatedAt) xs"
    "ms = window (Some (?off, eff_limit l)) xs" by auto
  with cases_t.count_rows [OF c] cases_t.count_ok [OF c] cs show ?thesis by auto
qed

end

text \<open>
  A page of cases holds at most 100 cases, all of the tenant asked for and matching the filter,
  the newest first, and comes with the number of all matching cases.
\<close>

theorem list_cases_page:
  assumes "wf_db_laws db" "caseService_ListCases (wf_caseService db) t flt p l w = (Inr (cs, cnt), w')"
    "(eff_page p - 1) * eff_limit l < 2 ^ 63"
  shows "length cs \<le> 100 \<and> sorted (rev (map case_CreatedAt cs))
    \<and> (\<forall>c\<in>set cs. \<exists>m\<in>set (rows (w_cases w)). case_where db t flt m \<and> c = modelToDomainCase m)
    \<and> cnt = int (length (filter (case_where db t flt) (rows (w_cases w))))"
proof -
  let ?k = "nat (eff_limit l)" and ?o = "nat ((eff_page p - 1) * eff_limit l)"
  from wf_db_laws.list_result [OF assms] obtain xs where
    xs: "mset xs = mset (filter (case_where db t flt) (rows (w_cases w)))" "sorted_by (Desc cm_CreatedAt) xs"
    and cs: "cs = map modelToDomainCase (take ?k (drop ?o xs))"
    and cnt: "cnt = int (length (filter (case_where db t flt) (rows (w_cases w))))" by blast
  have "case_CreatedAt \<circ> modelToDomainCase = cm_CreatedAt" by (auto simp: modelToDomainCase_def)
  then have "map case_CreatedAt cs = take ?k (drop ?o (map cm_CreatedAt xs))"
    by (simp add: cs take_map drop_map)
  moreover have "sorted (rev (take a (drop b ys)))" if "sorted (rev ys)" for a b and ys :: "int list"
    using that by (simp add: rev_take rev_drop sorted_wrt_drop sorted_wrt_take)
  ultimately have "sorted (rev (map case_CreatedAt cs))" using xs(2) by simp
  moreover have "set (take ?k (drop ?o xs)) \<subseteq> set (filter (case_where db t flt) (rows (w_cases w)))"
    using set_take_subset set_drop_subset mset_eq_setD [OF xs(1)] by fast
  moreover have "nat (eff_limit l) \<le> 100" using eff_limit_range [of l] by (simp add: nat_le_iff)
  then have "length cs \<le> 100" by (simp add: cs min.coboundedI2)
  ultimately show ?thesis using cnt cs by auto
qed

theorem list_cases_page_witness:
  "\<exists>cs cnt w'. caseService_ListCases (wf_caseService mem_wf_db) ''acme''
      \<lparr>cf_Status = None, cf_Priority = None, cf_AssigneeID = None, cf_ReporterID = None, cf_Tags = None\<rparr> 1 500
      (demo_world [demo_case] []) = (Inr (cs, cnt), w') \<and> length cs \<le> 100 \<and> cnt = 1"
proof -
  let ?f = "\<lparr>cf_Status = None, cf_Priority = None, cf_AssigneeID = None, cf_ReporterID = None, cf_Tags = None\<rparr>"
  let ?r = "caseService_ListCases (wf_caseService mem_wf_db) ''acme'' ?f 1 500 (demo_world [demo_case] [])"
  have "\<exists>x. fst ?r = Inr x"
    by (simp add: caseService_ListCases_def demo_world_def case_where_def demo_eval)
  then obtain cs cnt w' where r: "?r = (Inr (cs, cnt), w')" by (metis prod.collapse)
  have "length (filter (case_where mem_wf_db ''acme'' ?f) (rows (w_cases (demo_world [demo_case] [])))) = 1"
    by (simp add: case_where_def demo_world_def demo_eval)
  with list_cases_page [OF mem_wf.wf_db_laws_axioms r] r show ?thesis by (simp add: eff_page_def)
qed

text \<open>
  As long as the stored cases do not change and the matching ones were created at different
  times, the pages of one size up to the last contain every matching case exactly once.
\<close>

theorem pages_partition:
  assumes "wf_db_laws db" "1 \<le> l" "l \<le> 100" "int n * l < 2 ^ 63"
    "\<forall>p\<in>{1..n}. rows (w_cases (ws p)) = R
       \<and> (\<exists>cnt w'. caseService_ListCases (wf_caseService db) t flt (int p) l (ws p) = (Inr (cs p, cnt), w'))"
    "distinct (map cm_CreatedAt (filter (case_where db t flt) R))"
    "length (filter (case_where db t flt) R) \<le> n * nat l"
  shows "mset (concat (map cs [1..<Suc n])) = mset (map modelToDomainCase (filter (case_where db t flt) R))"
proof -
  let ?F = "filter (case_where db t flt) R"
  obtain ys where ys: "mset ys = mset ?F" "sorted_by (Desc cm_CreatedAt) ys"
    by (metis mset_mem_sort sorted_by_mem_sort)
  have d: "distinct (map cm_CreatedAt ys)"
    using assms(6) mset_eq_imp_distinct_iff [of "map cm_CreatedAt ys" "map cm_CreatedAt ?F"] ys(1) by simp
  have page: "cs p = map modelToDomainCase (page_of p (nat l) ys)" if p: "p \<in> {1..n}" for p
  proof -
    from assms(5) p obtain cnt w' where rows: "rows (w_cases (ws p)) = R"
      and run: "caseService_ListCases (wf_caseService db) t flt (int p) l (ws p) = (Inr (cs p, cnt), w')" by blast
    have e: "eff_page (int p) = int p" "eff_limit l = l" using p assms(2,3) by (simp_all add: eff_page_def eff_limit_def)
    have "(int p - 1) * l \<le> int n * l" using p assms(2) by (intro mult_right_mono) auto
    then have "(eff_page (int p) - 1) * eff_limit l < 2 ^ 63" using assms(4) e by simp
    from wf_db_laws.list_result [OF assms(1) run this] obtain xs where
      xs: "mset xs = mset ?F" "sorted_by (Desc cm_CreatedAt) xs"
      and cs: "cs p = map modelToDomainCase (take (nat l) (drop (nat ((int p - 1) * l)) xs))"
      by (auto simp: rows e)
    have "ys = xs" using xs ys d by (intro sorted_by_unique) simp_all
    moreover have "nat ((int p - 1) * l) = (p - 1) * nat l"
      using p assms(2) by (simp add: nat_mult_distrib nat_diff_distrib)
    ultimately show ?thesis using cs by (simp add: page_of_def)
  qed
  have "map cs [1..<Suc n] = map (\<lambda>p. map modelToDomainCase (page_of p (nat l) ys)) [1..<Suc n]"
    by (rule map_cong [OF refl]) (use page in auto)
  then have "concat (map cs [1..<Suc n]) = map modelToDomainCase (concat (map (\<lambda>p. page_of p (nat l) ys) [1..<Suc n]))"
    by (simp only: map_concat map_map comp_def)
  also have "\<dots> = map modelToDomainCase (take (n * nat l) ys)" by (simp only: concat_pages)
  also have "take (n * nat l) ys = ys" using assms(7) mset_eq_length [OF ys(1)] by simp
  finally show ?thesis using ys(1) by simp
qed

theorem pages_partition_witness:
  "\<exists>cs cnt w'. caseService_ListCases (wf_caseService mem_wf_db) ''acme''
      \<lparr>cf_Status = None, cf_Priority = None, cf_AssigneeID = None, cf_ReporterID = None, cf_Tags = None\<rparr> 1 5
      (demo_world [demo_case] []) = (Inr (cs, cnt), w') \<and> mset cs = {#demo_case#}"
proof -
  let ?f = "\<lparr>cf_Status = None, cf_Priority = None, cf_AssigneeID = None, cf_ReporterID = None, cf_Tags = None\<rparr>"
  let ?w = "demo_world [demo_case] []"
  let ?r = "caseService_ListCases (wf_caseService mem_wf_db) ''acme'' ?f 1 5 ?w"
  have "\<exists>x. fst ?r = Inr x"
    by (simp add: caseService_ListCases_def demo_world_def case_where_def demo_eval)
  then obtain cs cnt w' where r: "?r = (Inr (cs, cnt), w')" by (metis prod.collapse)
  have F: "filter (case_where mem_wf_db ''acme'' ?f) (rows (w_cases ?w)) = [domainCaseToModel demo_case]"
    by (simp add: case_where_def demo_world_def demo_eval)
  have m: "modelToDomainCase (domainCaseToModel demo_case) = demo_case" by (simp add: demo_eval)
  have "mset (concat (map (\<lambda>_. cs) [1..<Suc 1])) = mset (map modelToDomainCase [domainCaseToModel demo_case])"
    using pages_partition [OF mem_wf.wf_db_laws_axioms, where l = 5 and n = 1 and ws = "\<lambda>_. ?w"
        and R = "rows (w_cases ?w)" and t = "''acme''" and flt = ?f and cs = "\<lambda>_. cs"] r
    unfolding F by (auto simp del: upt_Suc)
  with r m show ?thesis by (simp add: upt_rec)
qed

section \<open>The HTTP layer\<close>

text \<open>
  The status of an error response is decided by the end of the error's chain: 404 for the four
  not-found errors, 400 for invalid input, 422 for a refused transition, 403 for a permission, and
  500 for every other error, whose text is not sent.
\<close>

theorem error_status:
  "rs_status (wf_handleError e) =
     (if err_root e \<in> {ErrCaseNotFound, ErrTaskNotFound, ErrWorkflowNotFound, ErrCommentNotFound} then 404
      else if err_root e = ErrInvalidInput then 400 else if err_root e = ErrInvalidTransition then 422
      else if err_root e = ErrPermissionDenied then 403 else 500)
   \<and> rs_body (wf_handleError e) =
     P_error (if rs_status (wf_handleError e) = 500 then ''internal server error'' else err_Error e)"
  unfolding wf_handleError_def wf_error_defs errors_Is_Sentinel_iff by (simp add: Status_defs)

text \<open>
  A request to an API route that lacks the tenant or the user header is answered with 400 or 401
  and touches no table.
\<close>

theorem api_needs_headers:
  assumes "mux (r\<lparr>ctx_requestID := Some rid\<rparr>) = Matched pat params" "pat \<noteq> ''/health''" "rq_Method r \<noteq> ''OPTIONS''"
    "rq_Header r ''X-Tenant-ID'' = '''' \<or> rq_Header r ''X-User-ID'' = ''''"
    "rq_Header r ''X-Request-ID'' = rid" "rid \<noteq> ''''"
  shows "rs_status (fst (wf_NewRouter mux h r w)) \<in> {400, 401} \<and>
    (\<exists>cl. snd (wf_NewRouter mux h r w) = w\<lparr>env_clock := cl\<rparr>)"
  using assms by (auto simp: wf_NewRouter_def wf_RequestID_def wf_CORS_def wf_RequestLogger_def wf_dispatch_def
      wf_TenantContext_def wf_UserContext_def Let_def time_Now_def Status_defs split: prod.splits)

definition demo_request :: request where
  "demo_request = \<lparr>rq_Method = ''POST'', rq_Path = [''api'', ''v1'', ''cases''],
     rq_Header = (\<lambda>k. if k = ''X-Tenant-ID'' then ''acme'' else if k = ''X-Request-ID'' then ''r1'' else ''''),
     rq_Query = (\<lambda>_. ''''), rq_URLParam = (\<lambda>_. ''''), rq_Body = '''', ctx_tenantID = None, ctx_userID = None,
     ctx_requestID = None\<rparr>"

theorem api_needs_headers_witness:
  "rs_status (fst (wf_NewRouter (\<lambda>_. Matched ''/cases/'' (\<lambda>_. '''')) (wf_main mem_wf_db) demo_request
     (demo_world [demo_case] []))) \<in> {400, 401}"
  using api_needs_headers [where mux = "\<lambda>_. Matched ''/cases/'' (\<lambda>_. '''')" and r = demo_request and rid = "''r1''"
      and pat = "''/cases/''" and params = "\<lambda>_. ''''" and h = "wf_main mem_wf_db" and w = "demo_world [demo_case] []"]
  by (simp add: demo_request_def)

text \<open>
  The handlers that name a case or a task by its identifier do not look at the tenant of the
  request: the answer and the effect are the same for every tenant header.
\<close>

theorem tenant_not_checked:
  "Handler_GetCase h (r\<lparr>ctx_tenantID := t\<rparr>) w = Handler_GetCase h r w \<and>
   Handler_UpdateCase h (r\<lparr>ctx_tenantID := t\<rparr>) w = Handler_UpdateCase h r w \<and>
   Handler_TransitionCase h (r\<lparr>ctx_tenantID := t\<rparr>) w = Handler_TransitionCase h r w \<and>
   Handler_AssignCase h (r\<lparr>ctx_tenantID := t\<rparr>) w = Handler_AssignCase h r w \<and>
   Handler_AddComment h (r\<lparr>ctx_tenantID := t\<rparr>) w = Handler_AddComment h r w \<and>
   Handler_ListTasks h (r\<lparr>ctx_tenantID := t\<rparr>) w = Handler_ListTasks h r w \<and>
   Handler_CreateTask h (r\<lparr>ctx_tenantID := t\<rparr>) w = Handler_CreateTask h r w \<and>
   Handler_UpdateTask h (r\<lparr>ctx_tenantID := t\<rparr>) w = Handler_UpdateTask h r w \<and>
   Handler_CompleteTask h (r\<lparr>ctx_tenantID := t\<rparr>) w = Handler_CompleteTask h r w \<and>
   Handler_ListComments h (r\<lparr>ctx_tenantID := t\<rparr>) w = Handler_ListComments h r w"
proof -
  have u: "rq_URLParam (r\<lparr>ctx_tenantID := t\<rparr>) = rq_URLParam r" "rq_Body (r\<lparr>ctx_tenantID := t\<rparr>) = rq_Body r"
    "wf_getUserID (r\<lparr>ctx_tenantID := t\<rparr>) = wf_getUserID r"
    by (simp_all add: wf_getUserID_def)
  show ?thesis
    unfolding Handler_GetCase_def Handler_UpdateCase_def Handler_TransitionCase_def Handler_AssignCase_def Handler_AddComment_def
      Handler_ListTasks_def Handler_CreateTask_def Handler_UpdateTask_def Handler_CompleteTask_def Handler_ListComments_def u by (intro conjI refl)
qed

section \<open>The seeded workflow\<close>

text \<open>
  In the seeded workflow the path the seeding takes from \<open>new\<close> to a status of the ordered path
  uses transitions of the template only and ends in that status; this covers every seeded case.
\<close>

theorem seed_paths_legal:
  "\<forall>to\<in>{CaseStatusNew, CaseStatusOpen, CaseStatusInProgress, CaseStatusResolved, CaseStatusClosed}.
     legal_path seed_transitions CaseStatusNew (transitionPath CaseStatusNew to) \<and>
     last (CaseStatusNew # transitionPath CaseStatusNew to) = to"
  by (simp add: transitionPath_def orderedPath_def seed_transitions_def mk_transition_def CaseStatus_defs)

theorem seed_paths_legal_witness:
  "map sd_status seedCases = [CaseStatusNew, CaseStatusInProgress, CaseStatusResolved] \<and>
   last (CaseStatusNew # transitionPath CaseStatusNew CaseStatusInProgress) = CaseStatusInProgress \<and>
   last (CaseStatusNew # transitionPath CaseStatusNew CaseStatusResolved) = CaseStatusResolved"
  using seed_paths_legal by (simp add: seedCases_def)

section \<open>Stored forms\<close>

text \<open>
  A template read back from the database is the one that was written, with a nil list of
  transitions turned into an empty one, when its states and transitions are valid UTF-8.
\<close>

theorem template_roundtrip:
  assumes "valid_strings (wt_States t)" "list_all valid_transition (elems (wt_Transitions t))"
  shows "modelToDomainWF (domainWFToModel t) = t\<lparr>wt_Transitions := Some (elems (wt_Transitions t))\<rparr>"
  using assms by (simp add: modelToDomainWF_def domainWFToModel_def)

theorem template_roundtrip_witness:
  "modelToDomainWF (domainWFToModel (demo_template 24)) = demo_template 24"
  using template_roundtrip [of "demo_template 24"] demo_template_valid
  by (simp add: demo_template_def valid_strings_def)

text \<open>A case read back from the database is the one that was written, when its tags are valid UTF-8.\<close>

theorem case_roundtrip:
  assumes "valid_strings (case_Tags c)"
  shows "modelToDomainCase (domainCaseToModel c) = c"
  using assms by (simp add: modelToDomainCase_def domainCaseToModel_def)

theorem case_roundtrip_witness: "modelToDomainCase (domainCaseToModel demo_case) = demo_case"
  by (rule case_roundtrip) (simp add: demo_case_def valid_strings_def)

end
