(* ===== verification/Auth_Domain.thy ===== *)
theory Auth_Domain
  imports Decode
begin

text \<open>
  auth-service: the data of \<open>internal/domain\<close>, the ports, and the two libraries the service rests on
  as parameters: bcrypt and the JWT package.
\<close>

section \<open>Domain\<close>

record Permission =
  pm_ID :: string
  pm_Resource :: string
  pm_Action :: string

record Role =
  role_ID :: string
  role_TenantID :: string
  role_Name :: string
  role_Description :: string
  role_Permissions :: "Permission list"
  role_CreatedAt :: time
  role_UpdatedAt :: time

definition SystemRoles :: "string list" where
  "SystemRoles = [''super_admin'', ''admin'', ''operator'', ''viewer'']"

type_synonym UserStatus = string

definition UserStatusActive :: UserStatus where "UserStatusActive = ''active''"
definition UserStatusInactive :: UserStatus where "UserStatusInactive = ''inactive''"
definition UserStatusSuspended :: UserStatus where "UserStatusSuspended = ''suspended''"

record User =
  user_ID :: string
  user_TenantID :: string
  user_Email :: string
  user_PasswordHash :: string
  user_FirstName :: string
  user_LastName :: string
  user_Status :: UserStatus
  user_Roles :: "Role list"
  user_CreatedAt :: time
  user_UpdatedAt :: time

definition User_FullName :: "User \<Rightarrow> string" where
  "User_FullName u = user_FirstName u @ '' '' @ user_LastName u"

definition User_IsActive :: "User \<Rightarrow> bool" where
  "User_IsActive u \<longleftrightarrow> user_Status u = UserStatusActive"

fun has_role :: "Role list \<Rightarrow> string \<Rightarrow> bool" where
  "has_role [] name = False"
| "has_role (r # rs) name = (if role_Name r = name then True else has_role rs name)"

definition User_HasRole :: "User \<Rightarrow> string \<Rightarrow> bool" where
  "User_HasRole u name = has_role (user_Roles u) name"

fun perms_allow :: "Permission list \<Rightarrow> string \<Rightarrow> string \<Rightarrow> bool" where
  "perms_allow [] resource action = False"
| "perms_allow (p # ps) resource action =
     (if pm_Resource p = resource \<and> (pm_Action p = action \<or> pm_Action p = ''admin'') then True
      else perms_allow ps resource action)"

fun roles_allow :: "Role list \<Rightarrow> string \<Rightarrow> string \<Rightarrow> bool" where
  "roles_allow [] resource action = False"
| "roles_allow (r # rs) resource action =
     (if perms_allow (role_Permissions r) resource action then True else roles_allow rs resource action)"

definition User_HasPermission :: "User \<Rightarrow> string \<Rightarrow> string \<Rightarrow> bool" where
  "User_HasPermission u resource action = roles_allow (user_Roles u) resource action"

record TokenPair =
  tp_AccessToken :: string
  tp_RefreshToken :: string
  tp_ExpiresIn :: int
  tp_TokenType :: string

record RefreshToken =
  rt_ID :: string
  rt_UserID :: string
  rt_TenantID :: string
  rt_Token :: string
  rt_ExpiresAt :: time
  rt_Revoked :: bool
  rt_CreatedAt :: time

text \<open>\<open>&&\<close> reads the clock only when the token is not revoked.\<close>

definition RefreshToken_IsValid :: "RefreshToken \<Rightarrow> 'a env_scheme \<Rightarrow> bool \<times> 'a env_scheme" where
  "RefreshToken_IsValid t w =
     (if rt_Revoked t then (False, w)
      else (let (now, w') = time_Now w in (now < rt_ExpiresAt t, w')))"

definition ErrUserNotFound :: goerr where "ErrUserNotFound = Sentinel ''user not found''"
definition ErrUserAlreadyExists :: goerr where "ErrUserAlreadyExists = Sentinel ''user already exists''"
definition ErrInvalidCredentials :: goerr where "ErrInvalidCredentials = Sentinel ''invalid credentials''"
definition ErrUserInactive :: goerr where "ErrUserInactive = Sentinel ''user account is inactive''"
definition ErrTokenExpired :: goerr where "ErrTokenExpired = Sentinel ''token expired''"
definition ErrTokenInvalid :: goerr where "ErrTokenInvalid = Sentinel ''token invalid''"
definition ErrTokenRevoked :: goerr where "ErrTokenRevoked = Sentinel ''token revoked''"
definition ErrRoleNotFound :: goerr where "ErrRoleNotFound = Sentinel ''role not found''"
definition auth_ErrPermissionDenied :: goerr where "auth_ErrPermissionDenied = Sentinel ''permission denied''"
definition auth_ErrInvalidInput :: goerr where "auth_ErrInvalidInput = Sentinel ''invalid input''"
definition ErrTenantMismatch :: goerr where "ErrTenantMismatch = Sentinel ''tenant mismatch''"

lemmas auth_error_defs = ErrUserNotFound_def ErrUserAlreadyExists_def ErrInvalidCredentials_def
  ErrUserInactive_def ErrTokenExpired_def ErrTokenInvalid_def ErrTokenRevoked_def ErrRoleNotFound_def
  auth_ErrPermissionDenied_def auth_ErrInvalidInput_def ErrTenantMismatch_def

section \<open>Ports\<close>

record 'w UserRepository =
  ur_Create :: "User \<Rightarrow> 'w act_err"
  ur_FindByID :: "string \<Rightarrow> ('w, User) act"
  ur_FindByEmail :: "string \<Rightarrow> ('w, User) act"
  ur_FindByTenantAndEmail :: "string \<Rightarrow> string \<Rightarrow> ('w, User) act"
  ur_Update :: "User \<Rightarrow> 'w act_err"
  ur_ListByTenant :: "string \<Rightarrow> int \<Rightarrow> int \<Rightarrow> ('w, User list \<times> int) act"

record 'w RoleRepository =
  rr_Create :: "Role \<Rightarrow> 'w act_err"
  rr_FindByID :: "string \<Rightarrow> ('w, Role) act"
  rr_FindByName :: "string \<Rightarrow> string \<Rightarrow> ('w, Role) act"
  rr_ListByTenant :: "string \<Rightarrow> ('w, Role list) act"
  rr_AssignToUser :: "string \<Rightarrow> string \<Rightarrow> 'w act_err"
  rr_RevokeFromUser :: "string \<Rightarrow> string \<Rightarrow> 'w act_err"

record 'w RefreshTokenRepository =
  tr_Create :: "RefreshToken \<Rightarrow> 'w act_err"
  tr_FindByToken :: "string \<Rightarrow> ('w, RefreshToken) act"
  tr_RevokeByUserID :: "string \<Rightarrow> 'w act_err"
  tr_RevokeToken :: "string \<Rightarrow> 'w act_err"

record RegisterRequest =
  rg_TenantID :: string
  rg_Email :: string
  rg_Password :: string
  rg_FirstName :: string
  rg_LastName :: string

record LoginRequest =
  lg_Email :: string
  lg_Password :: string

record Claims =
  cl_UserID :: string
  cl_TenantID :: string
  cl_Email :: string
  cl_Roles :: "string list"

record 'w AuthService =
  as_Register :: "RegisterRequest \<Rightarrow> ('w, User) act"
  as_Login :: "LoginRequest \<Rightarrow> ('w, TokenPair) act"
  as_RefreshToken :: "string \<Rightarrow> ('w, TokenPair) act"
  as_Logout :: "string \<Rightarrow> 'w act_err"
  as_ValidateToken :: "string \<Rightarrow> ('w, Claims) act"
  as_GetCurrentUser :: "string \<Rightarrow> ('w, User) act"
  as_AssignRole :: "string \<Rightarrow> string \<Rightarrow> 'w act_err"
  as_ListUsers :: "string \<Rightarrow> int \<Rightarrow> int \<Rightarrow> ('w, User list \<times> int) act"
  as_UpdateUserStatus :: "string \<Rightarrow> string \<Rightarrow> 'w act_err"

section \<open>Libraries\<close>

text \<open>
  bcrypt hashes with a random salt, read from the stream \<open>env_entropy\<close>. The JWT package signs a
  claim set, given as the members of a JSON object, and parses a token: it asks the key function for
  the key (telling it whether the method of the header is an HMAC one, and its name), checks the
  signature and the times against the clock, and gives the claims and the flag \<open>Valid\<close>.
\<close>

record auth_env = env +
  env_entropy :: "nat stream"

record auth_libs =
  bcrypt_Generate :: "nat \<Rightarrow> string \<Rightarrow> int \<Rightarrow> goerr + string"
  bcrypt_Compare :: "string \<Rightarrow> string \<Rightarrow> goerr option"
  jwt_SignHS256 :: "string \<Rightarrow> (string \<times> json) list \<Rightarrow> goerr + string"
  jwt_Parse :: "(bool \<Rightarrow> string \<Rightarrow> goerr + string) \<Rightarrow> time \<Rightarrow> string
    \<Rightarrow> goerr + ((string \<times> json) list \<times> bool)"

definition rand_read :: "'a auth_env_scheme \<Rightarrow> nat \<times> 'a auth_env_scheme" where
  "rand_read w = (shd (env_entropy w), w\<lparr>env_entropy := stl (env_entropy w)\<rparr>)"

definition time_Unix :: "time \<Rightarrow> int" where
  "time_Unix t = t div Second"

end
