(* ===== verification/Auth_Repo.thy ===== *)
theory Auth_Repo
  imports Auth_Domain Gorm
begin

text \<open>
  auth-service: the MySQL repositories of \<open>internal/adapters/mysql\<close>. The rows of \<open>users\<close> are given
  with the roles \<open>Preload\<close> attaches to them, the rows of \<open>roles\<close> with their permissions; the two
  operations on the association are calls of the database handle like the ones on the tables.
\<close>

section \<open>models.go\<close>

record permissionModel =
  pmm_ID :: string
  pmm_Resource :: string
  pmm_Action :: string

record roleModel =
  rm_ID :: string
  rm_TenantID :: string
  rm_Name :: string
  rm_Description :: string
  rm_CreatedAt :: time
  rm_UpdatedAt :: time
  rm_Permissions :: "permissionModel list"

record userModel =
  um_ID :: string
  um_TenantID :: string
  um_Email :: string
  um_PasswordHash :: string
  um_FirstName :: string
  um_LastName :: string
  um_Status :: string
  um_CreatedAt :: time
  um_UpdatedAt :: time
  um_Roles :: "roleModel list"

record refreshTokenModel =
  rtm_ID :: string
  rtm_UserID :: string
  rtm_TenantID :: string
  rtm_Token :: string
  rtm_ExpiresAt :: time
  rtm_Revoked :: bool
  rtm_CreatedAt :: time

record auth_db =
  adb_eq :: "string \<Rightarrow> string \<Rightarrow> bool"
  adb_users :: "userModel gorm_table"
  adb_roles :: "roleModel gorm_table"
  adb_tokens :: "refreshTokenModel gorm_table"
  adb_AppendRole :: "userModel \<Rightarrow> roleModel \<Rightarrow> userModel tbl \<Rightarrow> goerr option \<times> userModel tbl"
  adb_DeleteRole :: "userModel \<Rightarrow> roleModel \<Rightarrow> userModel tbl \<Rightarrow> goerr option \<times> userModel tbl"

record auth_world = auth_env +
  aw_users :: "userModel tbl"
  aw_roles :: "roleModel tbl"
  aw_tokens :: "refreshTokenModel tbl"

abbreviation "on_users \<equiv> on_table aw_users aw_users_update"
abbreviation "on_roles \<equiv> on_table aw_roles aw_roles_update"
abbreviation "on_tokens \<equiv> on_table aw_tokens aw_tokens_update"

section \<open>user_repository.go\<close>

definition toDomainRole :: "roleModel \<Rightarrow> Role" where
  "toDomainRole m =
     \<lparr>role_ID = rm_ID m, role_TenantID = rm_TenantID m, role_Name = rm_Name m,
      role_Description = rm_Description m,
      role_Permissions = map (\<lambda>p. \<lparr>pm_ID = pmm_ID p, pm_Resource = pmm_Resource p, pm_Action = pmm_Action p\<rparr>)
        (rm_Permissions m),
      role_CreatedAt = rm_CreatedAt m, role_UpdatedAt = rm_UpdatedAt m\<rparr>"

definition toDomainUser :: "userModel \<Rightarrow> User" where
  "toDomainUser m =
     \<lparr>user_ID = um_ID m, user_TenantID = um_TenantID m, user_Email = um_Email m,
      user_PasswordHash = um_PasswordHash m, user_FirstName = um_FirstName m,
      user_LastName = um_LastName m, user_Status = um_Status m,
      user_Roles = map toDomainRole (um_Roles m), user_CreatedAt = um_CreatedAt m,
      user_UpdatedAt = um_UpdatedAt m\<rparr>"

definition fromDomainUser :: "User \<Rightarrow> userModel" where
  "fromDomainUser u =
     \<lparr>um_ID = user_ID u, um_TenantID = user_TenantID u, um_Email = user_Email u,
      um_PasswordHash = user_PasswordHash u, um_FirstName = user_FirstName u,
      um_LastName = user_LastName u, um_Status = user_Status u, um_CreatedAt = user_CreatedAt u,
      um_UpdatedAt = user_UpdatedAt u, um_Roles = []\<rparr>"

definition userRepository_Create :: "auth_db \<Rightarrow> User \<Rightarrow> auth_world act_err" where
  "userRepository_Create db user w =
     (let (r, w') = on_users (gorm_Create (adb_users db) (fromDomainUser user)) w
      in (wrap_err ''creating user: '' r, w'))"

definition userRepository_FindByID :: "auth_db \<Rightarrow> string \<Rightarrow> (auth_world, User) act" where
  "userRepository_FindByID db ident w =
     (case on_users (gorm_First (adb_users db) (\<lambda>m. adb_eq db (um_ID m) ident)) w of
        (Inl e, w') \<Rightarrow> (Inl (find_err ErrUserNotFound ''finding user by id: '' e), w')
      | (Inr m, w') \<Rightarrow> (Inr (toDomainUser m), w'))"

definition userRepository_FindByEmail :: "auth_db \<Rightarrow> string \<Rightarrow> (auth_world, User) act" where
  "userRepository_FindByEmail db email w =
     (case on_users (gorm_First (adb_users db) (\<lambda>m. adb_eq db (um_Email m) email)) w of
        (Inl e, w') \<Rightarrow> (Inl (find_err ErrUserNotFound ''finding user by email: '' e), w')
      | (Inr m, w') \<Rightarrow> (Inr (toDomainUser m), w'))"

definition userRepository_FindByTenantAndEmail ::
  "auth_db \<Rightarrow> string \<Rightarrow> string \<Rightarrow> (auth_world, User) act" where
  "userRepository_FindByTenantAndEmail db tenantID email w =
     (case on_users (gorm_First (adb_users db)
             (\<lambda>m. adb_eq db (um_TenantID m) tenantID \<and> adb_eq db (um_Email m) email)) w of
        (Inl e, w') \<Rightarrow> (Inl (find_err ErrUserNotFound ''finding user by tenant and email: '' e), w')
      | (Inr m, w') \<Rightarrow> (Inr (toDomainUser m), w'))"

definition userRepository_Update :: "auth_db \<Rightarrow> User \<Rightarrow> auth_world act_err" where
  "userRepository_Update db user w =
     (let (r, w') = on_users (gorm_Save (adb_users db) (fromDomainUser user)) w
      in (wrap_err ''updating user: '' r, w'))"

definition userRepository_ListByTenant ::
  "auth_db \<Rightarrow> string \<Rightarrow> int \<Rightarrow> int \<Rightarrow> (auth_world, User list \<times> int) act" where
  "userRepository_ListByTenant db tenantID page limit w =
     (let offset = wrap64 (wrap64 (page - 1) * limit) in
      case on_users (gorm_Count (adb_users db) (\<lambda>m. adb_eq db (um_TenantID m) tenantID)) w of
        (Inl e, w1) \<Rightarrow> (Inl (Errorf ''counting users: '' e ''''), w1)
      | (Inr cnt, w1) \<Rightarrow>
         (case on_users (gorm_Find (adb_users db) (\<lambda>m. adb_eq db (um_TenantID m) tenantID) NoOrder
                 (Some (offset, limit))) w1 of
            (Inl e, w2) \<Rightarrow> (Inl (Errorf ''listing users: '' e ''''), w2)
          | (Inr models, w2) \<Rightarrow> (Inr (map toDomainUser models, cnt), w2)))"

definition userRepository :: "auth_db \<Rightarrow> auth_world UserRepository" where
  "userRepository db =
     \<lparr>ur_Create = userRepository_Create db, ur_FindByID = userRepository_FindByID db,
      ur_FindByEmail = userRepository_FindByEmail db,
      ur_FindByTenantAndEmail = userRepository_FindByTenantAndEmail db,
      ur_Update = userRepository_Update db, ur_ListByTenant = userRepository_ListByTenant db\<rparr>"

section \<open>role_repository.go\<close>

definition fromDomainRole :: "Role \<Rightarrow> roleModel" where
  "fromDomainRole r =
     \<lparr>rm_ID = role_ID r, rm_TenantID = role_TenantID r, rm_Name = role_Name r,
      rm_Description = role_Description r, rm_CreatedAt = role_CreatedAt r, rm_UpdatedAt = role_UpdatedAt r,
      rm_Permissions = map (\<lambda>p. \<lparr>pmm_ID = pm_ID p, pmm_Resource = pm_Resource p, pmm_Action = pm_Action p\<rparr>)
        (role_Permissions r)\<rparr>"

definition roleRepository_Create :: "auth_db \<Rightarrow> Role \<Rightarrow> auth_world act_err" where
  "roleRepository_Create db role w =
     (let (r, w') = on_roles (gorm_Create (adb_roles db) (fromDomainRole role)) w
      in (wrap_err ''creating role: '' r, w'))"

definition roleRepository_FindByID :: "auth_db \<Rightarrow> string \<Rightarrow> (auth_world, Role) act" where
  "roleRepository_FindByID db ident w =
     (case on_roles (gorm_First (adb_roles db) (\<lambda>m. adb_eq db (rm_ID m) ident)) w of
        (Inl e, w') \<Rightarrow> (Inl (find_err ErrRoleNotFound ''finding role by id: '' e), w')
      | (Inr m, w') \<Rightarrow> (Inr (toDomainRole m), w'))"

definition roleRepository_FindByName :: "auth_db \<Rightarrow> string \<Rightarrow> string \<Rightarrow> (auth_world, Role) act" where
  "roleRepository_FindByName db tenantID name w =
     (case on_roles (gorm_First (adb_roles db)
             (\<lambda>m. adb_eq db (rm_TenantID m) tenantID \<and> adb_eq db (rm_Name m) name)) w of
        (Inl e, w') \<Rightarrow> (Inl (find_err ErrRoleNotFound ''finding role by name: '' e), w')
      | (Inr m, w') \<Rightarrow> (Inr (toDomainRole m), w'))"

definition roleRepository_ListByTenant :: "auth_db \<Rightarrow> string \<Rightarrow> (auth_world, Role list) act" where
  "roleRepository_ListByTenant db tenantID w =
     (case on_roles (gorm_Find (adb_roles db) (\<lambda>m. adb_eq db (rm_TenantID m) tenantID) NoOrder None) w of
        (Inl e, w') \<Rightarrow> (Inl (Errorf ''listing roles: '' e ''''), w')
      | (Inr models, w') \<Rightarrow> (Inr (map toDomainRole models), w'))"

definition roleRepository_AssignToUser :: "auth_db \<Rightarrow> string \<Rightarrow> string \<Rightarrow> auth_world act_err" where
  "roleRepository_AssignToUser db userID roleID w =
     (case on_users (gorm_First (adb_users db) (\<lambda>m. adb_eq db (um_ID m) userID)) w of
        (Inl _, w1) \<Rightarrow> (Some ErrUserNotFound, w1)
      | (Inr user, w1) \<Rightarrow>
         (case on_roles (gorm_First (adb_roles db) (\<lambda>m. adb_eq db (rm_ID m) roleID)) w1 of
            (Inl _, w2) \<Rightarrow> (Some ErrRoleNotFound, w2)
          | (Inr role, w2) \<Rightarrow>
             (let (r, w3) = on_users (adb_AppendRole db user role) w2
              in (wrap_err ''assigning role: '' r, w3))))"

definition roleRepository_RevokeFromUser :: "auth_db \<Rightarrow> string \<Rightarrow> string \<Rightarrow> auth_world act_err" where
  "roleRepository_RevokeFromUser db userID roleID w =
     (case on_users (gorm_First (adb_users db) (\<lambda>m. adb_eq db (um_ID m) userID)) w of
        (Inl _, w1) \<Rightarrow> (Some ErrUserNotFound, w1)
      | (Inr user, w1) \<Rightarrow>
         (case on_roles (gorm_First (adb_roles db) (\<lambda>m. adb_eq db (rm_ID m) roleID)) w1 of
            (Inl _, w2) \<Rightarrow> (Some ErrRoleNotFound, w2)
          | (Inr role, w2) \<Rightarrow>
             (let (r, w3) = on_users (adb_DeleteRole db user role) w2
              in (wrap_err ''revoking role: '' r, w3))))"

definition roleRepository :: "auth_db \<Rightarrow> auth_world RoleRepository" where
  "roleRepository db =
     \<lparr>rr_Create = roleRepository_Create db, rr_FindByID = roleRepository_FindByID db,
      rr_FindByName = roleRepository_FindByName db, rr_ListByTenant = roleRepository_ListByTenant db,
      rr_AssignToUser = roleRepository_AssignToUser db, rr_RevokeFromUser = roleRepository_RevokeFromUser db\<rparr>"

section \<open>refresh_token_repository.go\<close>

definition refreshTokenRepository_Create :: "auth_db \<Rightarrow> RefreshToken \<Rightarrow> auth_world act_err" where
  "refreshTokenRepository_Create db token w =
     (let model = \<lparr>rtm_ID = rt_ID token, rtm_UserID = rt_UserID token, rtm_TenantID = rt_TenantID token,
                   rtm_Token = rt_Token token, rtm_ExpiresAt = rt_ExpiresAt token,
                   rtm_Revoked = rt_Revoked token, rtm_CreatedAt = rt_CreatedAt token\<rparr>;
          (r, w') = on_tokens (gorm_Create (adb_tokens db) model) w
      in (wrap_err ''creating refresh token: '' r, w'))"

definition refreshTokenRepository_FindByToken :: "auth_db \<Rightarrow> string \<Rightarrow> (auth_world, RefreshToken) act" where
  "refreshTokenRepository_FindByToken db token w =
     (case on_tokens (gorm_First (adb_tokens db) (\<lambda>m. adb_eq db (rtm_Token m) token)) w of
        (Inl e, w') \<Rightarrow> (Inl (find_err ErrTokenInvalid ''finding refresh token: '' e), w')
      | (Inr m, w') \<Rightarrow>
         (Inr \<lparr>rt_ID = rtm_ID m, rt_UserID = rtm_UserID m, rt_TenantID = rtm_TenantID m,
               rt_Token = rtm_Token m, rt_ExpiresAt = rtm_ExpiresAt m, rt_Revoked = rtm_Revoked m,
               rt_CreatedAt = rtm_CreatedAt m\<rparr>, w'))"

definition refreshTokenRepository_RevokeByUserID :: "auth_db \<Rightarrow> string \<Rightarrow> auth_world act_err" where
  "refreshTokenRepository_RevokeByUserID db userID w =
     (let (r, w') = on_tokens (gorm_Update (adb_tokens db)
            (\<lambda>m. adb_eq db (rtm_UserID m) userID \<and> \<not> rtm_Revoked m) (\<lambda>m. m\<lparr>rtm_Revoked := True\<rparr>)) w
      in (wrap_err ''revoking tokens by user id: '' r, w'))"

definition refreshTokenRepository_RevokeToken :: "auth_db \<Rightarrow> string \<Rightarrow> auth_world act_err" where
  "refreshTokenRepository_RevokeToken db token w =
     (let (r, w') = on_tokens (gorm_Update (adb_tokens db)
            (\<lambda>m. adb_eq db (rtm_Token m) token) (\<lambda>m. m\<lparr>rtm_Revoked := True\<rparr>)) w
      in (wrap_err ''revoking token: '' r, w'))"

definition refreshTokenRepository :: "auth_db \<Rightarrow> auth_world RefreshTokenRepository" where
  "refreshTokenRepository db =
     \<lparr>tr_Create = refreshTokenRepository_Create db, tr_FindByToken = refreshTokenRepository_FindByToken db,
      tr_RevokeByUserID = refreshTokenRepository_RevokeByUserID db,
      tr_RevokeToken = refreshTokenRepository_RevokeToken db\<rparr>"

end
