(* ===== verification/Auth_Service.thy ===== *)
theory Auth_Service
  imports Auth_Domain
begin

text \<open>
  auth-service: \<open>internal/application/auth_service.go\<close>, one definition per method, over any
  implementation of the ports and of the libraries.
\<close>

record 'w authService =
  au_userRepo :: "'w UserRepository"
  au_roleRepo :: "'w RoleRepository"
  au_tokenRepo :: "'w RefreshTokenRepository"
  au_jwtSecret :: string
  au_accessTTL :: int
  au_refreshTTL :: int
  au_libs :: auth_libs

section \<open>Registration\<close>

definition authService_Register ::
  "'a auth_env_scheme authService \<Rightarrow> RegisterRequest \<Rightarrow> ('a auth_env_scheme, User) act" where
  "authService_Register s req w =
     (if rg_Email req = '''' \<or> rg_Password req = '''' \<or> rg_FirstName req = '''' \<or> rg_LastName req = ''''
      then (Inl auth_ErrInvalidInput, w)
      else if rg_TenantID req = '''' then (Inl auth_ErrInvalidInput, w)
      else (case ur_FindByTenantAndEmail (au_userRepo s) (rg_TenantID req) (rg_Email req) w of
         (Inr existing, w1) \<Rightarrow> (Inl ErrUserAlreadyExists, w1)
       | (Inl _, w1) \<Rightarrow>
          (let (salt, w2) = rand_read w1 in
           case bcrypt_Generate (au_libs s) salt (rg_Password req) 12 of
             Inl e \<Rightarrow> (Inl (Errorf ''hashing password: '' e ''''), w2)
           | Inr hash \<Rightarrow>
              (let (uid, w3) = uuid_NewString w2;
                   email = strings_ToLower w3 (TrimSpace (rg_Email req));
                   (created, w4) = time_Now w3;
                   (updated, w5) = time_Now w4;
                   user = \<lparr>user_ID = uid, user_TenantID = rg_TenantID req, user_Email = email,
                           user_PasswordHash = hash, user_FirstName = rg_FirstName req,
                           user_LastName = rg_LastName req, user_Status = UserStatusActive,
                           user_Roles = [], user_CreatedAt = created, user_UpdatedAt = updated\<rparr>
               in case ur_Create (au_userRepo s) user w5 of
                    (Some e, w6) \<Rightarrow> (Inl (Errorf ''creating user: '' e ''''), w6)
                  | (None, w6) \<Rightarrow> (Inr user, w6)))))"

section \<open>Tokens\<close>

definition access_claims :: "User \<Rightarrow> time \<Rightarrow> int \<Rightarrow> (string \<times> json) list" where
  "access_claims user now ttl =
     [(''sub'', JStr (user_ID user)), (''tid'', JStr (user_TenantID user)),
      (''email'', JStr (user_Email user)), (''roles'', JArr (map (\<lambda>r. JStr (role_Name r)) (user_Roles user))),
      (''iss'', JStr ''opsnexus-auth''), (''iat'', JNum (strconv_Itoa (time_Unix now))),
      (''exp'', JNum (strconv_Itoa (time_Unix (now + ttl))))]"

definition authService_generateAccessToken ::
  "'a env_scheme authService \<Rightarrow> User \<Rightarrow> ('a env_scheme, string) act" where
  "authService_generateAccessToken s user w =
     (let (now, w1) = time_Now w
      in (jwt_SignHS256 (au_libs s) (au_jwtSecret s) (access_claims user now (au_accessTTL s)), w1))"

text \<open>\<open>int64(s.accessTTL.Seconds())\<close>: the lifetimes are whole minutes.\<close>

definition ttl_seconds :: "int \<Rightarrow> int" where
  "ttl_seconds ttl = (if 0 \<le> ttl then ttl div Second else - ((- ttl) div Second))"

definition authService_Login ::
  "'a env_scheme authService \<Rightarrow> LoginRequest \<Rightarrow> ('a env_scheme, TokenPair) act" where
  "authService_Login s req w =
     (if lg_Email req = '''' \<or> lg_Password req = '''' then (Inl auth_ErrInvalidInput, w)
      else (case ur_FindByEmail (au_userRepo s) (strings_ToLower w (TrimSpace (lg_Email req))) w of
         (Inl _, w1) \<Rightarrow> (Inl ErrInvalidCredentials, w1)
       | (Inr user, w1) \<Rightarrow>
          if bcrypt_Compare (au_libs s) (user_PasswordHash user) (lg_Password req) \<noteq> None
          then (Inl ErrInvalidCredentials, w1)
          else if \<not> User_IsActive user then (Inl ErrUserInactive, w1)
          else (case authService_generateAccessToken s user w1 of
             (Inl e, w2) \<Rightarrow> (Inl (Errorf ''generating access token: '' e ''''), w2)
           | (Inr accessToken, w2) \<Rightarrow>
              (let (a, w3) = uuid_NewString w2;
                   (b, w4) = uuid_NewString w3;
                   refreshTokenStr = a @ ''-'' @ b;
                   (rid, w5) = uuid_NewString w4;
                   (t1, w6) = time_Now w5;
                   (t2, w7) = time_Now w6;
                   refreshToken = \<lparr>rt_ID = rid, rt_UserID = user_ID user, rt_TenantID = user_TenantID user,
                     rt_Token = refreshTokenStr, rt_ExpiresAt = t1 + au_refreshTTL s, rt_Revoked = False,
                     rt_CreatedAt = t2\<rparr>
               in case tr_Create (au_tokenRepo s) refreshToken w7 of
                    (Some e, w8) \<Rightarrow> (Inl (Errorf ''storing refresh token: '' e ''''), w8)
                  | (None, w8) \<Rightarrow>
                     (Inr \<lparr>tp_AccessToken = accessToken, tp_RefreshToken = refreshTokenStr,
                           tp_ExpiresIn = ttl_seconds (au_accessTTL s), tp_TokenType = ''Bearer''\<rparr>, w8)))))"

definition authService_RefreshToken ::
  "'a env_scheme authService \<Rightarrow> string \<Rightarrow> ('a env_scheme, TokenPair) act" where
  "authService_RefreshToken s refreshToken w =
     (if refreshToken = '''' then (Inl auth_ErrInvalidInput, w)
      else (case tr_FindByToken (au_tokenRepo s) refreshToken w of
         (Inl _, w1) \<Rightarrow> (Inl ErrTokenInvalid, w1)
       | (Inr stored, w1) \<Rightarrow>
          (case RefreshToken_IsValid stored w1 of
             (False, w2) \<Rightarrow> (Inl (if rt_Revoked stored then ErrTokenRevoked else ErrTokenExpired), w2)
           | (True, w2) \<Rightarrow>
              (case ur_FindByID (au_userRepo s) (rt_UserID stored) w2 of
                 (Inl _, w3) \<Rightarrow> (Inl ErrUserNotFound, w3)
               | (Inr user, w3) \<Rightarrow>
                  if \<not> User_IsActive user then (Inl ErrUserInactive, w3)
                  else (case authService_generateAccessToken s user w3 of
                     (Inl e, w4) \<Rightarrow> (Inl (Errorf ''generating access token: '' e ''''), w4)
                   | (Inr accessToken, w4) \<Rightarrow>
                      (Inr \<lparr>tp_AccessToken = accessToken, tp_RefreshToken = refreshToken,
                            tp_ExpiresIn = ttl_seconds (au_accessTTL s), tp_TokenType = ''Bearer''\<rparr>, w4))))))"

definition authService_Logout :: "'w authService \<Rightarrow> string \<Rightarrow> 'w act_err" where
  "authService_Logout s refreshToken w =
     (if refreshToken = '''' then (Some auth_ErrInvalidInput, w)
      else tr_RevokeToken (au_tokenRepo s) refreshToken w)"

definition jwt_key_func :: "string \<Rightarrow> bool \<Rightarrow> string \<Rightarrow> goerr + string" where
  "jwt_key_func secret isHMAC alg =
     (if \<not> isHMAC then Inl (Foreign (''unexpected signing method: '' @ alg)) else Inr secret)"

text \<open>\<open>v, _ := claims[key].(string)\<close> and the loop over \<open>roles\<close>.\<close>

definition claim_string :: "(string \<times> json) list \<Rightarrow> string \<Rightarrow> string" where
  "claim_string claims key = (case map_of claims key of Some (JStr s) \<Rightarrow> s | _ \<Rightarrow> '''')"

fun role_strings :: "json list \<Rightarrow> string list" where
  "role_strings [] = []"
| "role_strings (JStr s # vs) = s # role_strings vs"
| "role_strings (_ # vs) = role_strings vs"

definition authService_ValidateToken ::
  "'a env_scheme authService \<Rightarrow> string \<Rightarrow> ('a env_scheme, Claims) act" where
  "authService_ValidateToken s accessToken w =
     (let (now, w1) = time_Now w in
      case jwt_Parse (au_libs s) (jwt_key_func (au_jwtSecret s)) now accessToken of
        Inl _ \<Rightarrow> (Inl ErrTokenInvalid, w1)
      | Inr (claims, valid) \<Rightarrow>
         if \<not> valid then (Inl ErrTokenInvalid, w1)
         else (Inr \<lparr>cl_UserID = claim_string claims ''sub'', cl_TenantID = claim_string claims ''tid'',
                    cl_Email = claim_string claims ''email'',
                    cl_Roles = (case map_of claims ''roles'' of Some (JArr vs) \<Rightarrow> role_strings vs | _ \<Rightarrow> [])\<rparr>, w1))"

section \<open>Users and roles\<close>

definition authService_GetCurrentUser :: "'w authService \<Rightarrow> string \<Rightarrow> ('w, User) act" where
  "authService_GetCurrentUser s userID w = ur_FindByID (au_userRepo s) userID w"

definition authService_AssignRole :: "'w authService \<Rightarrow> string \<Rightarrow> string \<Rightarrow> 'w act_err" where
  "authService_AssignRole s userID roleID w =
     (case ur_FindByID (au_userRepo s) userID w of
        (Inl _, w1) \<Rightarrow> (Some ErrUserNotFound, w1)
      | (Inr user, w1) \<Rightarrow>
         (case rr_FindByID (au_roleRepo s) roleID w1 of
            (Inl _, w2) \<Rightarrow> (Some ErrRoleNotFound, w2)
          | (Inr role, w2) \<Rightarrow>
             if user_TenantID user \<noteq> role_TenantID role then (Some ErrTenantMismatch, w2)
             else rr_AssignToUser (au_roleRepo s) userID roleID w2))"

definition authService_ListUsers ::
  "'w authService \<Rightarrow> string \<Rightarrow> int \<Rightarrow> int \<Rightarrow> ('w, User list \<times> int) act" where
  "authService_ListUsers s tenantID page limit w =
     (let page1 = (if page < 1 then 1 else page);
          limit1 = (if limit < 1 \<or> limit > 100 then 20 else limit)
      in ur_ListByTenant (au_userRepo s) tenantID page1 limit1 w)"

definition authService_UpdateUserStatus ::
  "'a env_scheme authService \<Rightarrow> string \<Rightarrow> string \<Rightarrow> 'a env_scheme act_err" where
  "authService_UpdateUserStatus s userID status w =
     (case ur_FindByID (au_userRepo s) userID w of
        (Inl e, w1) \<Rightarrow> (Some (Errorf ''finding user: '' e ''''), w1)
      | (Inr user, w1) \<Rightarrow>
         (case (if status = ''active'' then Some UserStatusActive
                else if status = ''inactive'' then Some UserStatusInactive
                else if status = ''suspended'' then Some UserStatusSuspended else None) of
            None \<Rightarrow> (Some auth_ErrInvalidInput, w1)
          | Some st \<Rightarrow>
             (let (now, w2) = time_Now w1
              in ur_Update (au_userRepo s) (user\<lparr>user_Status := st, user_UpdatedAt := now\<rparr>) w2)))"

definition NewAuthService ::
  "'a auth_env_scheme UserRepository \<Rightarrow> 'a auth_env_scheme RoleRepository
     \<Rightarrow> 'a auth_env_scheme RefreshTokenRepository \<Rightarrow> auth_libs \<Rightarrow> string \<Rightarrow> int \<Rightarrow> int
     \<Rightarrow> 'a auth_env_scheme authService" where
  "NewAuthService userRepo roleRepo tokenRepo libs jwtSecret accessTTLMinutes refreshTTLHours =
     \<lparr>au_userRepo = userRepo, au_roleRepo = roleRepo, au_tokenRepo = tokenRepo, au_jwtSecret = jwtSecret,
      au_accessTTL = Duration_mul accessTTLMinutes Minute, au_refreshTTL = Duration_mul refreshTTLHours Hour,
      au_libs = libs\<rparr>"

definition authService_api :: "'a auth_env_scheme authService \<Rightarrow> 'a auth_env_scheme AuthService" where
  "authService_api s =
     \<lparr>as_Register = authService_Register s, as_Login = authService_Login s,
      as_RefreshToken = authService_RefreshToken s, as_Logout = authService_Logout s,
      as_ValidateToken = authService_ValidateToken s, as_GetCurrentUser = authService_GetCurrentUser s,
      as_AssignRole = authService_AssignRole s, as_ListUsers = authService_ListUsers s,
      as_UpdateUserStatus = authService_UpdateUserStatus s\<rparr>"

end
