(* ===== verification/Auth_Http.thy ===== *)
theory Auth_Http
  imports Auth_Service Http
begin

text \<open>
  auth-service: the HTTP layer of \<open>internal/adapters/http\<close>. The context of a request has the claims
  the middleware \<open>JWTAuth\<close> puts there. Responses carry domain values; the handlers that answer with
  a part of a user show the fields they send.
\<close>

record auth_request = request +
  ctx_claims :: "Claims option"

datatype auth_payload =
    AP_error string string
  | AP_health string string
  | AP_user User
  | AP_profile User
  | AP_own_names string string string string string
  | AP_tokens TokenPair
  | AP_message string
  | AP_roles "Role list"
  | AP_users "User list" int int int
  | AP_empty

type_synonym 'w auth_handler = "(auth_request, 'w, auth_payload) handler"

section \<open>Responses\<close>

definition respondError :: "nat \<Rightarrow> string \<Rightarrow> string \<Rightarrow> auth_payload response" where
  "respondError status code message = json_response status (AP_error code message)"

definition mapDomainError :: "goerr \<Rightarrow> nat \<times> string \<times> string" where
  "mapDomainError err =
     (if errors_Is err ErrInvalidCredentials then (StatusUnauthorized, ''INVALID_CREDENTIALS'', err_Error err)
      else if errors_Is err ErrUserNotFound then (StatusNotFound, ''USER_NOT_FOUND'', err_Error err)
      else if errors_Is err ErrUserAlreadyExists then (StatusConflict, ''USER_ALREADY_EXISTS'', err_Error err)
      else if errors_Is err auth_ErrPermissionDenied then (StatusForbidden, ''PERMISSION_DENIED'', err_Error err)
      else if errors_Is err auth_ErrInvalidInput then (StatusBadRequest, ''INVALID_INPUT'', err_Error err)
      else if errors_Is err ErrUserInactive then (StatusForbidden, ''USER_INACTIVE'', err_Error err)
      else if errors_Is err ErrTokenInvalid then (StatusUnauthorized, ''TOKEN_INVALID'', err_Error err)
      else if errors_Is err ErrTokenExpired then (StatusUnauthorized, ''TOKEN_EXPIRED'', err_Error err)
      else if errors_Is err ErrTokenRevoked then (StatusUnauthorized, ''TOKEN_REVOKED'', err_Error err)
      else if errors_Is err ErrRoleNotFound then (StatusNotFound, ''ROLE_NOT_FOUND'', err_Error err)
      else if errors_Is err ErrTenantMismatch then (StatusBadRequest, ''TENANT_MISMATCH'', err_Error err)
      else (StatusInternalServerError, ''INTERNAL_ERROR'', ''an internal error occurred''))"

definition domain_error :: "goerr \<Rightarrow> auth_payload response" where
  "domain_error err = (let (status, code, msg) = mapDomainError err in respondError status code msg)"

definition invalid_json :: "auth_payload response" where
  "invalid_json = respondError StatusBadRequest ''INVALID_JSON'' ''invalid request body''"

fun auth_reply :: "nat \<Rightarrow> ('a \<Rightarrow> auth_payload) \<Rightarrow> (goerr + 'a) \<times> 'w \<Rightarrow> auth_payload response \<times> 'w" where
  "auth_reply status payload (Inl err, w) = (domain_error err, w)"
| "auth_reply status payload (Inr x, w) = (json_response status (payload x), w)"

fun auth_done :: "string \<Rightarrow> goerr option \<times> 'w \<Rightarrow> auth_payload response \<times> 'w" where
  "auth_done message (Some err, w) = (domain_error err, w)"
| "auth_done message (None, w) = (json_response StatusOK (AP_message message), w)"

section \<open>Public routes\<close>

definition decode_register :: "string \<Rightarrow> RegisterRequest option" where
  "decode_register body =
     Option.bind (body_members body) (\<lambda>kvs.
     Option.bind (field ''tenant_id'' set_string kvs '''') (\<lambda>tenant.
     Option.bind (field ''email'' set_string kvs '''') (\<lambda>email.
     Option.bind (field ''password'' set_string kvs '''') (\<lambda>password.
     Option.bind (field ''first_name'' set_string kvs '''') (\<lambda>fname.
     Option.bind (field ''last_name'' set_string kvs '''') (\<lambda>lname.
       Some \<lparr>rg_TenantID = tenant, rg_Email = email, rg_Password = password, rg_FirstName = fname,
             rg_LastName = lname\<rparr>))))))"

definition auth_Handler_Register :: "'w AuthService \<Rightarrow> 'w auth_handler" where
  "auth_Handler_Register svc r w =
     (case decode_register (rq_Body r) of
        None \<Rightarrow> (invalid_json, w)
      | Some req \<Rightarrow> auth_reply StatusCreated AP_user (as_Register svc req w))"

definition decode_login :: "string \<Rightarrow> LoginRequest option" where
  "decode_login body =
     Option.bind (body_members body) (\<lambda>kvs.
     Option.bind (field ''email'' set_string kvs '''') (\<lambda>email.
     Option.bind (field ''password'' set_string kvs '''') (\<lambda>password.
       Some \<lparr>lg_Email = email, lg_Password = password\<rparr>)))"

definition auth_Handler_Login :: "'w AuthService \<Rightarrow> 'w auth_handler" where
  "auth_Handler_Login svc r w =
     (case decode_login (rq_Body r) of
        None \<Rightarrow> (invalid_json, w)
      | Some req \<Rightarrow> auth_reply StatusOK AP_tokens (as_Login svc req w))"

definition decode_member :: "string \<Rightarrow> string \<Rightarrow> string option" where
  "decode_member name body = Option.bind (body_members body) (\<lambda>kvs. field name set_string kvs '''')"

definition auth_Handler_Refresh :: "'w AuthService \<Rightarrow> 'w auth_handler" where
  "auth_Handler_Refresh svc r w =
     (case decode_member ''refresh_token'' (rq_Body r) of
        None \<Rightarrow> (invalid_json, w)
      | Some token \<Rightarrow> auth_reply StatusOK AP_tokens (as_RefreshToken svc token w))"

section \<open>Protected routes\<close>

definition auth_Handler_Logout :: "'w AuthService \<Rightarrow> 'w auth_handler" where
  "auth_Handler_Logout svc r w =
     (case decode_member ''refresh_token'' (rq_Body r) of
        None \<Rightarrow> (invalid_json, w)
      | Some token \<Rightarrow> auth_done ''logged out successfully'' (as_Logout svc token w))"

definition unauthorized :: "auth_payload response" where
  "unauthorized = respondError StatusUnauthorized ''UNAUTHORIZED'' ''not authenticated''"

definition auth_Handler_Me :: "'w AuthService \<Rightarrow> 'w auth_handler" where
  "auth_Handler_Me svc r w =
     (let userID = ctx_string (ctx_userID r) in
      if userID = '''' then (unauthorized, w)
      else auth_reply StatusOK AP_profile (as_GetCurrentUser svc userID w))"

definition auth_Handler_UpdateMe :: "'w AuthService \<Rightarrow> 'w auth_handler" where
  "auth_Handler_UpdateMe svc r w =
     (let userID = ctx_string (ctx_userID r) in
      if userID = '''' then (unauthorized, w)
      else (case Option.bind (body_members (rq_Body r)) (\<lambda>kvs.
              Option.bind (field ''first_name'' set_string kvs '''') (\<lambda>fname.
              Option.bind (field ''last_name'' set_string kvs '''') (\<lambda>lname. Some (fname, lname)))) of
         None \<Rightarrow> (invalid_json, w)
       | Some (fname, lname) \<Rightarrow>
          auth_reply StatusOK (\<lambda>user.
              let u1 = (if fname \<noteq> '''' then user\<lparr>user_FirstName := fname\<rparr> else user);
                  u2 = (if lname \<noteq> '''' then u1\<lparr>user_LastName := lname\<rparr> else u1)
              in AP_own_names (user_ID u2) (user_Email u2) (user_FirstName u2) (user_LastName u2) (user_Status u2))
            (as_GetCurrentUser svc userID w)))"

section \<open>Admin routes\<close>

definition auth_Handler_ListRoles :: "'w AuthService \<Rightarrow> 'w auth_handler" where
  "auth_Handler_ListRoles svc r w = (json_response StatusOK (AP_roles []), w)"

definition auth_Handler_CreateRole :: "'w AuthService \<Rightarrow> 'w auth_handler" where
  "auth_Handler_CreateRole svc r w =
     (json_response StatusCreated (AP_message ''role creation endpoint - wire roleRepo to implement fully''), w)"

definition user_id_required :: "auth_payload response" where
  "user_id_required = respondError StatusBadRequest ''INVALID_INPUT'' ''user ID is required''"

definition auth_Handler_AssignRole :: "'w AuthService \<Rightarrow> 'w auth_handler" where
  "auth_Handler_AssignRole svc r w =
     (let userID = rq_URLParam r ''userId'' in
      if userID = '''' then (user_id_required, w)
      else (case decode_member ''role_id'' (rq_Body r) of
         None \<Rightarrow> (invalid_json, w)
       | Some roleID \<Rightarrow> auth_done ''role assigned successfully'' (as_AssignRole svc userID roleID w)))"

text \<open>
  \<open>fmt.Sscanf(v, "%d", &n)\<close> skips spaces other than newlines, reads a sign and digits, and leaves the
  variable alone when there are none or the number does not fit.
\<close>

definition Sscanf_d :: "string \<Rightarrow> int \<Rightarrow> int" where
  "Sscanf_d s old =
     (let t = trim_left (filter (\<lambda>e. e \<noteq> [CHR 0x0A]) space_encodings) s;
          (sign, u) = (case t of c # cs \<Rightarrow> if c = CHR ''+'' \<or> c = CHR ''-'' then ([c], cs) else ([], t) | [] \<Rightarrow> ([], t));
          ds = takeWhile is_digit u
      in if ds = [] then old
         else case strconv_Atoi (sign @ ds) of (n, None) \<Rightarrow> n | (_, Some _) \<Rightarrow> old)"

definition query_int :: "request \<Rightarrow> string \<Rightarrow> int \<Rightarrow> int" where
  "query_int r name old = (let v = rq_Query r name in if v = '''' then old else Sscanf_d v old)"

definition auth_Handler_ListUsers :: "'w AuthService \<Rightarrow> 'w auth_handler" where
  "auth_Handler_ListUsers svc r w =
     (let t = ctx_string (ctx_tenantID r);
          tenantID = (if t = '''' then rq_Header r ''X-Tenant-ID'' else t)
      in if tenantID = '''' then (respondError StatusBadRequest ''INVALID_INPUT'' ''tenant ID not found'', w)
         else
           (let page = query_int (request.truncate r) ''page'' 1;
                limit = query_int (request.truncate r) ''limit'' 20
            in case as_ListUsers svc tenantID page limit w of
                 (Inl _, w1) \<Rightarrow>
                   (respondError StatusInternalServerError ''INTERNAL_ERROR'' ''failed to list users'', w1)
               | (Inr (users, cnt), w1) \<Rightarrow> (json_response StatusOK (AP_users users cnt page limit), w1)))"

definition auth_Handler_UpdateUserStatus :: "'w AuthService \<Rightarrow> 'w auth_handler" where
  "auth_Handler_UpdateUserStatus svc r w =
     (let userID = rq_URLParam r ''userId'' in
      if userID = '''' then (user_id_required, w)
      else (case decode_member ''status'' (rq_Body r) of
         None \<Rightarrow> (invalid_json, w)
       | Some status \<Rightarrow> auth_done ''user updated'' (as_UpdateUserStatus svc userID status w)))"

section \<open>Middleware\<close>

text \<open>\<open>strings.SplitN(h, " ", 2)\<close>\<close>

definition split_space :: "string \<Rightarrow> (string \<times> string) option" where
  "split_space h =
     (case dropWhile (\<lambda>c. c \<noteq> CHR '' '') h of
        [] \<Rightarrow> None | _ # rest \<Rightarrow> Some (takeWhile (\<lambda>c. c \<noteq> CHR '' '') h, rest))"

definition JWTAuth :: "'a env_scheme AuthService \<Rightarrow> 'a env_scheme auth_handler \<Rightarrow> 'a env_scheme auth_handler" where
  "JWTAuth svc next r w =
     (let authHeader = rq_Header r ''Authorization'' in
      if authHeader = '''' then
        (respondError StatusUnauthorized ''MISSING_TOKEN'' ''authorization header required'', w)
      else (case split_space authHeader of
         None \<Rightarrow> (respondError StatusUnauthorized ''INVALID_TOKEN_FORMAT''
                    ''authorization header must be Bearer <token>'', w)
       | Some (scheme, token) \<Rightarrow>
          if strings_ToLower w scheme \<noteq> ''bearer'' then
            (respondError StatusUnauthorized ''INVALID_TOKEN_FORMAT''
               ''authorization header must be Bearer <token>'', w)
          else (case as_ValidateToken svc token w of
             (Inl _, w1) \<Rightarrow>
               (respondError StatusUnauthorized ''INVALID_TOKEN'' ''invalid or expired token'', w1)
           | (Inr claims, w1) \<Rightarrow>
               next (r\<lparr>ctx_userID := Some (cl_UserID claims), ctx_tenantID := Some (cl_TenantID claims),
                       ctx_claims := Some claims\<rparr>) w1)))"

fun any_role :: "string list \<Rightarrow> string list \<Rightarrow> bool" where
  "any_role required [] = False"
| "any_role required (u # us) = (if u \<in> set required then True else any_role required us)"

definition RequireRole :: "string list \<Rightarrow> 'w auth_handler \<Rightarrow> 'w auth_handler" where
  "RequireRole required next r w =
     (case ctx_claims r of
        None \<Rightarrow> (unauthorized, w)
      | Some claims \<Rightarrow>
         if any_role required (cl_Roles claims) then next r w
         else (respondError StatusForbidden ''PERMISSION_DENIED'' ''insufficient permissions'', w))"

definition auth_RequestLogger :: "'a env_scheme auth_handler \<Rightarrow> 'a env_scheme auth_handler" where
  "auth_RequestLogger next r w =
     (let (start, w1) = time_Now w; (resp, w2) = next r w1; (stop, w3) = time_Now w2 in (resp, w3))"

definition auth_CORS :: "'w auth_handler \<Rightarrow> 'w auth_handler" where
  "auth_CORS next r w =
     (let (resp, w1) =
        (if rq_Method r = ''OPTIONS''
         then (\<lparr>rs_status = StatusNoContent, rs_header = [], rs_body = AP_empty\<rparr>, w)
         else next r w)
      in (add_header ''Access-Control-Allow-Origin'' ''*''
           (add_header ''Access-Control-Allow-Methods'' ''GET, POST, PUT, DELETE, OPTIONS, PATCH''
             (add_header ''Access-Control-Allow-Headers''
               ''Accept, Authorization, Content-Type, X-Request-ID, X-Tenant-ID, x-api-key''
               (add_header ''Access-Control-Max-Age'' ''86400'' resp))), w1))"

definition auth_RequestID :: "'a env_scheme auth_handler \<Rightarrow> 'a env_scheme auth_handler" where
  "auth_RequestID next r w =
     (let hdr = rq_Header r ''X-Request-ID'';
          (requestID, w1) = (if hdr = '''' then uuid_NewString w else (hdr, w));
          (resp, w2) = next (r\<lparr>rq_Header := (rq_Header r)(''X-Request-ID'' := requestID)\<rparr>) w1
      in (add_header ''X-Request-ID'' requestID resp, w2))"

section \<open>Router\<close>

text \<open>What chi makes of a request: a pattern under \<open>/api/v1/auth\<close>, the health route, or no route.\<close>

datatype auth_match =
    A_Matched string "string \<Rightarrow> string"
  | A_Health
  | A_None nat

definition auth_admin_endpoint :: "'w AuthService \<Rightarrow> string \<Rightarrow> string \<Rightarrow> 'w auth_handler" where
  "auth_admin_endpoint svc meth pat r w =
     (if (meth, pat) = (''GET'', ''/roles'') then auth_Handler_ListRoles svc r w
      else if (meth, pat) = (''POST'', ''/roles'') then auth_Handler_CreateRole svc r w
      else if (meth, pat) = (''GET'', ''/users'') then auth_Handler_ListUsers svc r w
      else if (meth, pat) = (''PATCH'', ''/users/{userId}'') then auth_Handler_UpdateUserStatus svc r w
      else if (meth, pat) = (''POST'', ''/users/{userId}/roles'') then auth_Handler_AssignRole svc r w
      else (json_response StatusNotFound AP_empty, w))"

definition auth_endpoint :: "'a env_scheme AuthService \<Rightarrow> string \<Rightarrow> string \<Rightarrow> 'a env_scheme auth_handler" where
  "auth_endpoint svc meth pat r w =
     (if (meth, pat) = (''POST'', ''/register'') then auth_Handler_Register svc r w
      else if (meth, pat) = (''POST'', ''/login'') then auth_Handler_Login svc r w
      else if (meth, pat) = (''POST'', ''/refresh'') then auth_Handler_Refresh svc r w
      else if (meth, pat) = (''POST'', ''/logout'') then JWTAuth svc (auth_Handler_Logout svc) r w
      else if (meth, pat) = (''GET'', ''/me'') then JWTAuth svc (auth_Handler_Me svc) r w
      else if (meth, pat) = (''PUT'', ''/me'') then JWTAuth svc (auth_Handler_UpdateMe svc) r w
      else JWTAuth svc (RequireRole [''admin'', ''super_admin''] (auth_admin_endpoint svc meth pat)) r w)"

definition auth_NewRouter ::
  "(auth_request \<Rightarrow> auth_match) \<Rightarrow> 'a env_scheme AuthService \<Rightarrow> 'a env_scheme auth_handler" where
  "auth_NewRouter mux svc =
     auth_RequestID (auth_RequestLogger (auth_CORS (\<lambda>r w.
       case mux r of
         A_Matched pat params \<Rightarrow> auth_endpoint svc (rq_Method r) pat (r\<lparr>rq_URLParam := params\<rparr>) w
       | A_Health \<Rightarrow> (json_response StatusOK (AP_health ''ok'' ''auth-service''), w)
       | A_None status \<Rightarrow> (json_response status AP_empty, w))))"

end
