(* ===== verification/Auth_Laws.thy ===== *)
theory Auth_Laws
  imports Auth_Repo Auth_Http
begin

text \<open>
  auth-service: the contract of the database, an executable database that satisfies it, the wiring of
  \<open>cmd/server/main.go\<close>, and the rule that a relation kept by every operation of the service is kept
  by every sequence of HTTP requests.
\<close>

section \<open>The database\<close>

text \<open>
  The stored form of a row: the server rounds times and GORM sets \<open>updated_at\<close>; the roles of a user
  and the permissions of a role stand in other tables and are described by laws of their own.
\<close>

definition user_stored :: "userModel \<Rightarrow> userModel \<Rightarrow> bool" where
  "user_stored m m' \<longleftrightarrow>
     m'\<lparr>um_CreatedAt := um_CreatedAt m, um_UpdatedAt := um_UpdatedAt m, um_Roles := um_Roles m\<rparr> = m"

definition role_stored :: "roleModel \<Rightarrow> roleModel \<Rightarrow> bool" where
  "role_stored m m' \<longleftrightarrow>
     m'\<lparr>rm_CreatedAt := rm_CreatedAt m, rm_UpdatedAt := rm_UpdatedAt m, rm_Permissions := rm_Permissions m\<rparr> = m"

definition token_stored :: "refreshTokenModel \<Rightarrow> refreshTokenModel \<Rightarrow> bool" where
  "token_stored m m' \<longleftrightarrow> m'\<lparr>rtm_ExpiresAt := rtm_ExpiresAt m, rtm_CreatedAt := rtm_CreatedAt m\<rparr> = m"

lemma user_storedD: "user_stored m m' \<Longrightarrow> um_ID m' = um_ID m \<and> um_TenantID m' = um_TenantID m \<and>
    um_Email m' = um_Email m \<and> um_PasswordHash m' = um_PasswordHash m \<and> um_Status m' = um_Status m \<and>
    um_FirstName m' = um_FirstName m \<and> um_LastName m' = um_LastName m"
  by (cases m; cases m') (simp add: user_stored_def)

lemma role_storedD: "role_stored m m' \<Longrightarrow> rm_ID m' = rm_ID m \<and> rm_TenantID m' = rm_TenantID m \<and> rm_Name m' = rm_Name m"
  by (cases m; cases m') (simp add: role_stored_def)

lemma token_storedD: "token_stored m m' \<Longrightarrow> rtm_ID m' = rtm_ID m \<and> rtm_UserID m' = rtm_UserID m \<and>
    rtm_Token m' = rtm_Token m \<and> rtm_Revoked m' = rtm_Revoked m"
  by (cases m; cases m') (simp add: token_stored_def)

lemma auth_stored_refl [simp]: "user_stored m m" "role_stored r r" "token_stored t t"
  by (simp_all add: user_stored_def role_stored_def token_stored_def)

definition user_conflict :: "auth_db \<Rightarrow> userModel \<Rightarrow> userModel \<Rightarrow> bool" where
  "user_conflict db x m \<longleftrightarrow> adb_eq db (um_ID x) (um_ID m) \<or> adb_eq db (um_Email x) (um_Email m)"

definition token_conflict :: "auth_db \<Rightarrow> refreshTokenModel \<Rightarrow> refreshTokenModel \<Rightarrow> bool" where
  "token_conflict db x m \<longleftrightarrow> adb_eq db (rtm_ID x) (rtm_ID m) \<or> adb_eq db (rtm_Token x) (rtm_Token m)"

text \<open>\<open>Save\<close> and \<open>Append\<close> on the associations add rows to the join table and remove none.\<close>

definition roles_kept :: "userModel tbl \<Rightarrow> userModel tbl \<Rightarrow> bool" where
  "roles_kept t t' \<longleftrightarrow> list_all2 (\<lambda>x y. um_Roles y = um_Roles x) (rows t) (rows t')"

definition role_appended :: "userModel \<Rightarrow> roleModel \<Rightarrow> userModel tbl \<Rightarrow> userModel tbl \<Rightarrow> bool" where
  "role_appended user role t t' \<longleftrightarrow>
     list_all2 (\<lambda>x y. if um_ID x = um_ID user
        then user_stored x y \<and> set (um_Roles y) = insert role (set (um_Roles x)) else y = x) (rows t) (rows t')"

locale auth_db_laws =
  fixes db :: auth_db
  assumes eq_refl: "adb_eq db a a"
    and eq_sym: "adb_eq db a b \<Longrightarrow> adb_eq db b a"
    and eq_trans: "adb_eq db a b \<Longrightarrow> adb_eq db b c \<Longrightarrow> adb_eq db a c"
    and users_laws: "gorm_table_laws (adb_users db) um_ID (user_conflict db) user_stored (\<lambda>m. um_Status m \<noteq> '''')"
    and roles_laws: "gorm_table_laws (adb_roles db) rm_ID (\<lambda>x m. adb_eq db (rm_ID x) (rm_ID m)) role_stored (\<lambda>_. True)"
    and tokens_laws: "gorm_table_laws (adb_tokens db) rtm_ID (token_conflict db) token_stored (\<lambda>_. True)"
    and create_roles: "gorm_Create (adb_users db) m t = (r, t') \<Longrightarrow> um_Roles m = [] \<Longrightarrow>
      y \<in> set (rows t') \<Longrightarrow> y \<notin> set (rows t) \<Longrightarrow> um_Roles y = []"
    and save_roles: "um_ID m \<in> um_ID ` set (rows t) \<Longrightarrow> gorm_Save (adb_users db) m t = (r, t') \<Longrightarrow> roles_kept t t'"
    and append: "adb_AppendRole db user role t = (r, t') \<Longrightarrow>
      role_appended user role t t' \<or> r \<noteq> None \<and> rows t' = rows t"

sublocale auth_db_laws \<subseteq> users_t: gorm_table_laws "adb_users db" um_ID "user_conflict db" user_stored
    "\<lambda>m. um_Status m \<noteq> ''''"
  by (rule users_laws)

sublocale auth_db_laws \<subseteq> roles_t: gorm_table_laws "adb_roles db" rm_ID
    "\<lambda>x m. adb_eq db (rm_ID x) (rm_ID m)" role_stored "\<lambda>_. True"
  by (rule roles_laws)

sublocale auth_db_laws \<subseteq> tokens_t: gorm_table_laws "adb_tokens db" rtm_ID "token_conflict db" token_stored
    "\<lambda>_. True"
  by (rule tokens_laws)

section \<open>The reference database\<close>

definition mem_users :: "userModel gorm_table" where
  "mem_users = (mem_table um_ID (\<lambda>x m. um_ID x = um_ID m \<or> um_Email x = um_Email m))
     \<lparr>gorm_Save := (\<lambda>m. mem_write (\<lambda>ms. Inr (map (\<lambda>x. if um_ID x = um_ID m then m\<lparr>um_Roles := um_Roles x\<rparr> else x) ms)))\<rparr>"

definition mem_auth_db :: auth_db where
  "mem_auth_db =
     \<lparr>adb_eq = (=), adb_users = mem_users,
      adb_roles = mem_table rm_ID (\<lambda>x m. rm_ID x = rm_ID m),
      adb_tokens = mem_table rtm_ID (\<lambda>x m. rtm_ID x = rtm_ID m \<or> rtm_Token x = rtm_Token m),
      adb_AppendRole = (\<lambda>user role. mem_write (\<lambda>ms. Inr (map (\<lambda>x. if um_ID x = um_ID user
        then x\<lparr>um_Roles := um_Roles x @ [role]\<rparr> else x) ms))),
      adb_DeleteRole = (\<lambda>user role. mem_write (\<lambda>ms. Inr (map (\<lambda>x. if um_ID x = um_ID user
        then x\<lparr>um_Roles := filter (\<lambda>r. rm_ID r \<noteq> rm_ID role) (um_Roles x)\<rparr> else x) ms)))\<rparr>"

lemma user_stored_roles [simp]: "user_stored m (m\<lparr>um_Roles := rs\<rparr>)"
  by (cases m) (simp add: user_stored_def)

lemma mem_users_laws:
  "gorm_table_laws mem_users um_ID (\<lambda>x m. um_ID x = um_ID m \<or> um_Email x = um_Email m) user_stored (\<lambda>m. um_Status m \<noteq> '''')"
proof -
  let ?c = "\<lambda>x m. um_ID x = um_ID m \<or> um_Email x = um_Email m"
  have M: "gorm_table_laws (mem_table um_ID ?c) um_ID ?c user_stored (\<lambda>m. um_Status m \<noteq> '''')"
    by (rule gorm_table_laws_mono [OF mem.gorm_table_laws_axioms]) (simp_all add: user_storedD)
  have other: "gorm_Create mem_users = gorm_Create (mem_table um_ID ?c)" "gorm_First mem_users = gorm_First (mem_table um_ID ?c)"
    "gorm_Find mem_users = gorm_Find (mem_table um_ID ?c)" "gorm_Count mem_users = gorm_Count (mem_table um_ID ?c)"
    "gorm_Update mem_users = gorm_Update (mem_table um_ID ?c)" "gorm_Delete mem_users = gorm_Delete (mem_table um_ID ?c)"
    by (simp_all add: mem_users_def)
  show ?thesis
  proof (unfold_locales, goal_cases)
    case (5 m t r t') then show ?case
      by (auto simp: mem_users_def mem_write_def rewritten_def list_all2_conv_all_nth split: if_splits)
  qed (use gorm_table_laws.create [OF M] gorm_table_laws.first_rows [OF M] gorm_table_laws.first_ok [OF M]
      gorm_table_laws.first_none [OF M] gorm_table_laws.find_rows [OF M] gorm_table_laws.find_ok [OF M]
      gorm_table_laws.count_rows [OF M] gorm_table_laws.count_ok [OF M] gorm_table_laws.update [OF M]
      gorm_table_laws.delete [OF M] in \<open>(simp only: other user_storedD; blast)\<close>)+
qed

interpretation mem_auth: auth_db_laws mem_auth_db
proof (rule auth_db_laws.intro, goal_cases)
  case 4 show ?case using mem_users_laws by (simp add: mem_auth_db_def user_conflict_def [abs_def])
next
  case 5 show ?case unfolding mem_auth_db_def auth_db.select_convs
    by (rule gorm_table_laws_mono [OF mem.gorm_table_laws_axioms]) (simp_all add: role_storedD)
next
  case 6 show ?case unfolding mem_auth_db_def auth_db.select_convs token_conflict_def [abs_def]
    by (rule gorm_table_laws_mono [OF mem.gorm_table_laws_axioms]) (simp_all add: token_storedD)
next
  case (7 m t r t' y) then show ?case
    by (auto simp: mem_auth_db_def mem_users_def mem_table_def mem_write_def split: if_splits)
next
  case (8 m t r t') then show ?case
    by (auto simp: mem_auth_db_def mem_users_def mem_write_def roles_kept_def list_all2_conv_all_nth split: if_splits)
next
  case (9 user role t r t') then show ?case
    by (auto simp: mem_auth_db_def mem_write_def role_appended_def list_all2_conv_all_nth split: if_splits)
qed (simp_all add: mem_auth_db_def)

section \<open>Wiring and sequences of requests\<close>

text \<open>\<open>cmd/server/main.go\<close>: the repositories, the service and the router.\<close>

definition auth_service :: "auth_db \<Rightarrow> auth_libs \<Rightarrow> string \<Rightarrow> int \<Rightarrow> int \<Rightarrow> auth_world authService" where
  "auth_service db libs secret access refresh =
     NewAuthService (userRepository db) (roleRepository db) (refreshTokenRepository db) libs secret access refresh"

definition auth_main :: "auth_db \<Rightarrow> auth_libs \<Rightarrow> string \<Rightarrow> int \<Rightarrow> int \<Rightarrow> auth_world AuthService" where
  "auth_main db libs secret access refresh = authService_api (auth_service db libs secret access refresh)"

lemma auth_service_simps [simp]:
  "au_userRepo (auth_service db libs secret ac rf) = userRepository db"
  "au_roleRepo (auth_service db libs secret ac rf) = roleRepository db"
  "au_tokenRepo (auth_service db libs secret ac rf) = refreshTokenRepository db"
  "au_libs (auth_service db libs secret ac rf) = libs"
  "au_jwtSecret (auth_service db libs secret ac rf) = secret"
  by (simp_all add: auth_service_def NewAuthService_def)

lemma repository_simps [simp]:
  "ur_Create (userRepository db) = userRepository_Create db"
  "ur_FindByID (userRepository db) = userRepository_FindByID db"
  "ur_FindByEmail (userRepository db) = userRepository_FindByEmail db"
  "ur_FindByTenantAndEmail (userRepository db) = userRepository_FindByTenantAndEmail db"
  "ur_Update (userRepository db) = userRepository_Update db"
  "ur_ListByTenant (userRepository db) = userRepository_ListByTenant db"
  "rr_FindByID (roleRepository db) = roleRepository_FindByID db"
  "rr_AssignToUser (roleRepository db) = roleRepository_AssignToUser db"
  "tr_Create (refreshTokenRepository db) = refreshTokenRepository_Create db"
  "tr_FindByToken (refreshTokenRepository db) = refreshTokenRepository_FindByToken db"
  "tr_RevokeToken (refreshTokenRepository db) = refreshTokenRepository_RevokeToken db"
  by (simp_all add: userRepository_def roleRepository_def refreshTokenRepository_def)

inductive auth_reach :: "'a env_scheme AuthService \<Rightarrow> 'a env_scheme \<Rightarrow> 'a env_scheme \<Rightarrow> bool"
  for svc :: "'a env_scheme AuthService" and w :: "'a env_scheme" where
  start: "auth_reach svc w w"
| request: "auth_reach svc w w1 \<Longrightarrow> auth_reach svc w (snd (auth_NewRouter mux svc r w1))"

text \<open>\<open>auth_frame\<close>: a transitive relation on states kept by every operation of the service interface.\<close>

locale auth_frame =
  fixes svc :: "'a env_scheme AuthService" and R :: "'a env_scheme \<Rightarrow> 'a env_scheme \<Rightarrow> bool"
  assumes refl: "R w w" and trans: "R w w1 \<Longrightarrow> R w1 w2 \<Longrightarrow> R w w2"
    and now: "R w (w\<lparr>env_clock := k\<rparr>)" and uuid: "R w (w\<lparr>env_uuids := u\<rparr>)"
    and Register: "R w (snd (as_Register svc rreq w))" and Login: "R w (snd (as_Login svc lreq w))"
    and Refresh: "R w (snd (as_RefreshToken svc tok w))" and Logout: "R w (snd (as_Logout svc tok w))"
    and Validate: "R w (snd (as_ValidateToken svc tok w))"
    and GetCurrentUser: "R w (snd (as_GetCurrentUser svc i w))"
    and AssignRole: "R w (snd (as_AssignRole svc i j w))"
    and ListUsers: "R w (snd (as_ListUsers svc t pg l w))"
    and UpdateUserStatus: "R w (snd (as_UpdateUserStatus svc i st w))"
begin

lemmas ops = Register Login Refresh Logout Validate GetCurrentUser AssignRole ListUsers UpdateUserStatus

definition serves :: "'a env_scheme auth_handler \<Rightarrow> bool" where
  "serves f \<longleftrightarrow> (\<forall>r w. R w (snd (f r w)))"

lemma servesD: "serves f \<Longrightarrow> R w (snd (f r w))"
  by (simp add: serves_def)

lemma answers [simp]: "snd (auth_reply st f x) = snd x" "snd (auth_done msg y) = snd y"
  by (cases x; cases "fst x"; simp) (cases y; cases "fst y"; simp)

lemma ListUsers_eq: "as_ListUsers svc t pg l w = (x, w') \<Longrightarrow> R w w'"
  using ListUsers [of w t pg l] by simp

lemma handlers:
  "serves (auth_Handler_Register svc)" "serves (auth_Handler_Login svc)" "serves (auth_Handler_Refresh svc)"
  "serves (auth_Handler_Logout svc)" "serves (auth_Handler_Me svc)" "serves (auth_Handler_UpdateMe svc)"
  "serves (auth_Handler_ListRoles svc)" "serves (auth_Handler_CreateRole svc)" "serves (auth_Handler_AssignRole svc)"
  "serves (auth_Handler_ListUsers svc)" "serves (auth_Handler_UpdateUserStatus svc)"
  unfolding serves_def
  by (simp_all add: auth_Handler_Register_def auth_Handler_Login_def auth_Handler_Refresh_def auth_Handler_Logout_def
      auth_Handler_Me_def auth_Handler_UpdateMe_def auth_Handler_ListRoles_def auth_Handler_CreateRole_def
      auth_Handler_AssignRole_def auth_Handler_UpdateUserStatus_def Let_def ops refl split: option.split prod.split)
    (auto simp: auth_Handler_ListUsers_def Let_def refl dest: ListUsers_eq split: prod.split sum.split)

lemma middleware:
  assumes "serves f"
  shows "serves (JWTAuth svc f)" "serves (RequireRole names f)" "serves (auth_RequestLogger f)"
    "serves (auth_CORS f)" "serves (auth_RequestID f)"
proof -
  have f: "R w (snd (f r w))" for r w using assms by (rule servesD)
  have k: "R w (snd (f r (w\<lparr>env_clock := k\<rparr>)))" "R w (snd (f r (w\<lparr>env_uuids := u\<rparr>)))" for r w k u
    using trans [OF now f] trans [OF uuid f] by blast+
  have v: "R w (snd (f r w1))" if "as_ValidateToken svc tok w = (x, w1)" for tok w x w1 r
    using trans [OF Validate [of w tok] f [of _ r]] that by simp
  have e: "R w w1" if "as_ValidateToken svc tok w = (x, w1)" for tok w x w1
    using Validate [of w tok] that by simp
  show "serves (JWTAuth svc f)"
    unfolding serves_def JWTAuth_def by (auto simp: Let_def refl split: option.split prod.split sum.split dest: v e)
  show "serves (RequireRole names f)"
    unfolding serves_def RequireRole_def by (auto simp: refl f split: option.split)
  show "serves (auth_RequestLogger f)"
    unfolding serves_def auth_RequestLogger_def time_Now_def by (auto simp: Let_def split_beta intro: trans [OF k(1) now])
  show "serves (auth_CORS f)"
    unfolding serves_def auth_CORS_def by (auto simp: Let_def split_beta refl f)
  show "serves (auth_RequestID f)"
    unfolding serves_def auth_RequestID_def uuid_NewString_def by (auto simp: Let_def split_beta f k)
qed

lemma router: "R w (snd (auth_NewRouter mux svc r w))"
proof -
  have admin: "serves (auth_admin_endpoint svc m pat)" for m pat
    using handlers unfolding serves_def auth_admin_endpoint_def by (simp add: refl)
  have "serves (auth_endpoint svc m pat)" for m pat
    using handlers handlers [THEN middleware(1)] middleware(1) [OF middleware(2) [OF admin]]
    unfolding serves_def auth_endpoint_def by simp
  then have "serves (\<lambda>r w. case mux r of
         A_Matched pat params \<Rightarrow> auth_endpoint svc (rq_Method r) pat (r\<lparr>rq_URLParam := params\<rparr>) w
       | A_Health \<Rightarrow> (json_response StatusOK (AP_health ''ok'' ''auth-service''), w)
       | A_None status \<Rightarrow> (json_response status AP_empty, w))"
    unfolding serves_def by (simp add: refl split: auth_match.split)
  then have "serves (auth_NewRouter mux svc)" unfolding auth_NewRouter_def by (intro middleware)
  then show ?thesis by (rule servesD)
qed

lemma reach: "auth_reach svc w w' \<Longrightarrow> R w w'"
  by (induction rule: auth_reach.induct) (auto intro: refl trans router)

end

end
