(* ===== verification/Auth_Inv.thy ===== *)
theory Auth_Inv
  imports Auth_Laws
begin

text \<open>
  auth-service: two relations that every operation keeps. A refresh token that is stored and revoked
  stays so; and the roles a user holds stay roles of the tenant of the user. Both hold along every
  sequence of requests, by the rule of theory Auth_Laws.
\<close>

section \<open>What the repositories keep\<close>

abbreviation token_rows :: "auth_world \<Rightarrow> refreshTokenModel list" where "token_rows w \<equiv> rows (aw_tokens w)"
abbreviation user_rows :: "auth_world \<Rightarrow> userModel list" where "user_rows w \<equiv> rows (aw_users w)"

lemmas user_repo_defs = userRepository_Create_def userRepository_FindByID_def userRepository_FindByEmail_def
  userRepository_FindByTenantAndEmail_def userRepository_Update_def userRepository_ListByTenant_def
lemmas role_repo_defs = roleRepository_FindByID_def roleRepository_AssignToUser_def
lemmas token_repo_defs = refreshTokenRepository_Create_def refreshTokenRepository_FindByToken_def
  refreshTokenRepository_RevokeToken_def

lemma keeps_tokens:
  "keeps token_rows (userRepository_Create db u)" "keeps token_rows (userRepository_FindByID db i)"
  "keeps token_rows (userRepository_FindByEmail db i)" "keeps token_rows (userRepository_FindByTenantAndEmail db i j)"
  "keeps token_rows (userRepository_Update db u)" "keeps token_rows (userRepository_ListByTenant db i pg l)"
  "keeps token_rows (roleRepository_FindByID db i)" "keeps token_rows (roleRepository_AssignToUser db i j)"
  "keeps token_rows (time_Now :: auth_world \<Rightarrow> _)" "keeps token_rows (uuid_NewString :: auth_world \<Rightarrow> _)"
  "keeps token_rows (rand_read :: auth_world \<Rightarrow> _)" "keeps token_rows (authService_generateAccessToken s u)"
  "keeps token_rows (RefreshToken_IsValid tk)"
  by (auto simp: keeps_def user_repo_defs role_repo_defs on_table_def Let_def time_Now_def uuid_NewString_def
      rand_read_def authService_generateAccessToken_def RefreshToken_IsValid_def split: prod.splits sum.splits if_splits)

lemma keeps_users:
  "keeps user_rows (roleRepository_FindByID db i)" "keeps user_rows (refreshTokenRepository_Create db tk)"
  "keeps user_rows (refreshTokenRepository_FindByToken db i)" "keeps user_rows (refreshTokenRepository_RevokeToken db i)"
  "keeps user_rows (time_Now :: auth_world \<Rightarrow> _)" "keeps user_rows (uuid_NewString :: auth_world \<Rightarrow> _)"
  "keeps user_rows (rand_read :: auth_world \<Rightarrow> _)" "keeps user_rows (authService_generateAccessToken s u)"
  "keeps user_rows (RefreshToken_IsValid tk)"
  by (auto simp: keeps_def role_repo_defs token_repo_defs on_table_def Let_def time_Now_def uuid_NewString_def
      rand_read_def authService_generateAccessToken_def RefreshToken_IsValid_def split: prod.splits sum.splits if_splits)

section \<open>Revoked tokens\<close>

definition revoked :: "auth_db \<Rightarrow> string \<Rightarrow> auth_world \<Rightarrow> bool" where
  "revoked db t w \<longleftrightarrow>
     (\<exists>x\<in>set (rows (aw_tokens w)). adb_eq db (rtm_Token x) t) \<and>
     (\<forall>x\<in>set (rows (aw_tokens w)). adb_eq db (rtm_Token x) t \<longrightarrow> rtm_Revoked x)"

definition revocations_kept :: "auth_db \<Rightarrow> auth_world \<Rightarrow> auth_world \<Rightarrow> bool" where
  "revocations_kept db w w' \<longleftrightarrow> (\<forall>t. revoked db t w \<longrightarrow> revoked db t w')"

lemma revocations_same: "token_rows w' = token_rows w \<Longrightarrow> revocations_kept db w w'"
  by (simp add: revocations_kept_def revoked_def)

lemma revocations_cong: "token_rows v = token_rows w \<Longrightarrow> revocations_kept db v w' \<Longrightarrow> revocations_kept db w w'"
  by (simp add: revocations_kept_def revoked_def)

context auth_db_laws
begin

lemma token_Create: "refreshTokenRepository_Create db tk w = (r, w') \<Longrightarrow> revocations_kept db w w'"
proof -
  assume run: "refreshTokenRepository_Create db tk w = (r, w')"
  then obtain m r' t where c: "gorm_Create (adb_tokens db) m (aw_tokens w) = (r', t)" and w': "w' = w\<lparr>aw_tokens := t\<rparr>"
    by (auto simp: refreshTokenRepository_Create_def on_table_def Let_def split: prod.splits)
  consider (ins) m' where "token_stored m m'" "rows t = rows (aw_tokens w) @ [m']"
      "\<forall>x\<in>set (rows (aw_tokens w)). \<not> token_conflict db x m" | (failed) "rows t = rows (aw_tokens w)"
    using tokens_t.create [OF TrueI c] by (auto simp: inserted_def)
  then show ?thesis
  proof cases
    case (ins m')
    then have "\<not> adb_eq db (rtm_Token m') t" if "x \<in> set (rows (aw_tokens w))" "adb_eq db (rtm_Token x) t" for x t
      using that token_storedD [OF ins(1)] eq_trans eq_sym unfolding token_conflict_def by metis
    with ins show ?thesis by (auto simp: revocations_kept_def revoked_def w')
  qed (simp_all add: revocations_kept_def revoked_def w')
qed

lemma token_Revoke:
  assumes run: "refreshTokenRepository_RevokeToken db tok w = (r, w')"
  shows "revocations_kept db w w'"
    and "r = None \<Longrightarrow> \<exists>x\<in>set (rows (aw_tokens w)). adb_eq db (rtm_Token x) tok \<Longrightarrow> revoked db tok w'"
proof -
  let ?P = "\<lambda>m. adb_eq db (rtm_Token m) tok"
  from run obtain r' t where u: "gorm_Update (adb_tokens db) ?P (\<lambda>m. m\<lparr>rtm_Revoked := True\<rparr>) (aw_tokens w) = (r', t)"
    and w': "w' = w\<lparr>aw_tokens := t\<rparr>" and r: "r = wrap_err ''revoking token: '' r'"
    by (auto simp: refreshTokenRepository_RevokeToken_def on_table_def Let_def split: prod.splits)
  have cols: "rtm_Token y = rtm_Token x \<and> (rtm_Revoked y \<longleftrightarrow> rtm_Revoked x \<or> ?P x)"
    if "if ?P x then token_stored (x\<lparr>rtm_Revoked := True\<rparr>) y else y = x" for x y
    using that token_storedD [of "x\<lparr>rtm_Revoked := True\<rparr>" y] by (auto split: if_splits)
  consider (applied) "rewritten token_stored ?P (\<lambda>m. m\<lparr>rtm_Revoked := True\<rparr>) (aw_tokens w) t"
    | (failed) "r' \<noteq> None" "rows t = rows (aw_tokens w)"
    using tokens_t.update [OF u] by blast
  note how = this
  have bwd: "\<exists>x\<in>set (rows (aw_tokens w)). rtm_Token y = rtm_Token x \<and> (rtm_Revoked y \<longleftrightarrow> rtm_Revoked x \<or> ?P x)"
    and fwd: "\<exists>y\<in>set (rows t). rtm_Token y = rtm_Token x \<and> (rtm_Revoked y \<longleftrightarrow> rtm_Revoked x \<or> ?P x)"
    if rw: "rewritten token_stored ?P (\<lambda>m. m\<lparr>rtm_Revoked := True\<rparr>) (aw_tokens w) t"
      and mem: "y \<in> set (rows t)" "x \<in> set (rows (aw_tokens w))" for x y
    using rewritten_memD [OF rw mem(1)] rewritten_memE [OF rw mem(2)] cols by blast+
  show "revocations_kept db w w'"
  proof (cases rule: how)
    case applied
    have "revoked db s w'" if s: "revoked db s w" for s
    proof -
      from s obtain x where x: "x \<in> set (rows (aw_tokens w))" "adb_eq db (rtm_Token x) s" by (auto simp: revoked_def)
      obtain y where "y \<in> set (rows t)" "rtm_Token y = rtm_Token x" using rewritten_memE [OF applied x(1)] cols by blast
      then have "\<exists>y\<in>set (rows t). adb_eq db (rtm_Token y) s" using x by metis
      moreover have "rtm_Revoked y" if y: "y \<in> set (rows t)" "adb_eq db (rtm_Token y) s" for y
        using bwd [OF applied y(1) x(1)] s y(2) unfolding revoked_def by metis
      ultimately show ?thesis by (simp add: revoked_def w')
    qed
    then show ?thesis by (simp add: revocations_kept_def)
  qed (simp add: revocations_kept_def revoked_def w')
  show "revoked db tok w'" if "r = None" "\<exists>x\<in>set (rows (aw_tokens w)). ?P x"
  proof (cases rule: how)
    case applied
    from that(2) obtain x where x: "x \<in> set (rows (aw_tokens w))" "?P x" by blast
    obtain y where "y \<in> set (rows t)" "rtm_Token y = rtm_Token x" using rewritten_memE [OF applied x(1)] cols by blast
    then have "\<exists>y\<in>set (rows t). ?P y" using x by metis
    moreover have "rtm_Revoked y" if y: "y \<in> set (rows t)" "?P y" for y
      using bwd [OF applied y(1) x(1)] y(2) by metis
    ultimately show ?thesis by (simp add: revoked_def w')
  qed (use that(1) r in \<open>simp add: wrap_err_def split: option.splits\<close>)
qed

lemma tokens_Register: "revocations_kept db w (snd (authService_Register (auth_service db libs secret ac rf) req w))"
proof (rule revocations_same)
  note [dest!] = keeps_tokens [THEN keepsD]
  show "token_rows (snd (authService_Register (auth_service db libs secret ac rf) req w)) = token_rows w"
    by (auto simp: authService_Register_def Let_def split: prod.splits sum.splits option.splits)
qed

lemma tokens_Login: "revocations_kept db w (snd (authService_Login (auth_service db libs secret ac rf) req w))"
proof -
  note keep = keeps_tokens [THEN keepsD]
  show ?thesis
    by (auto simp: authService_Login_def Let_def
        dest!: keep token_Create intro: revocations_same elim!: revocations_cong [rotated]
        split: prod.splits sum.splits option.splits)
qed

lemma tokens_Refresh: "revocations_kept db w (snd (authService_RefreshToken (auth_service db libs secret ac rf) tok w))"
proof (rule revocations_same)
  have "token_rows w' = token_rows w" if "refreshTokenRepository_FindByToken db tok w = (x, w')" for w x w'
    using that by (auto simp: token_repo_defs on_table_def dest: tokens_t.first_rows split: prod.splits sum.splits)
  note [dest!] = keeps_tokens [THEN keepsD] this
  show "token_rows (snd (authService_RefreshToken (auth_service db libs secret ac rf) tok w)) = token_rows w"
    by (auto simp: authService_RefreshToken_def Let_def split: prod.splits sum.splits option.splits bool.splits)
qed

lemma tokens_AssignRole: "revocations_kept db w (snd (authService_AssignRole (auth_service db libs secret ac rf) i j w))"
proof (rule revocations_same)
  note [dest!] = keeps_tokens [THEN keepsD]
  show "token_rows (snd (authService_AssignRole (auth_service db libs secret ac rf) i j w)) = token_rows w"
    by (auto simp: authService_AssignRole_def keeps_tokens [THEN keeps_snd] split: prod.splits sum.splits)
qed

lemma tokens_UpdateUserStatus:
  "revocations_kept db w (snd (authService_UpdateUserStatus (auth_service db libs secret ac rf) i st w))"
proof (rule revocations_same)
  obtain fr w1 where f: "userRepository_FindByID db i w = (fr, w1)" by force
  then have "token_rows w1 = token_rows w" by (rule keeps_tokens [THEN keepsD])
  with f show "token_rows (snd (authService_UpdateUserStatus (auth_service db libs secret ac rf) i st w)) = token_rows w"
    by (cases fr) (simp_all add: authService_UpdateUserStatus_def time_Now_def keeps_tokens [THEN keeps_snd])
qed

lemma tokens_Logout: "revocations_kept db w (snd (authService_Logout (auth_service db libs secret ac rf) tok w))"
  using token_Revoke(1) [of tok w "fst (refreshTokenRepository_RevokeToken db tok w)" "snd (refreshTokenRepository_RevokeToken db tok w)"]
  by (simp add: authService_Logout_def revocations_same)

end

lemma auth_main_simps [simp]:
  "as_Register (auth_main db libs secret ac rf) = authService_Register (auth_service db libs secret ac rf)"
  "as_Login (auth_main db libs secret ac rf) = authService_Login (auth_service db libs secret ac rf)"
  "as_RefreshToken (auth_main db libs secret ac rf) = authService_RefreshToken (auth_service db libs secret ac rf)"
  "as_Logout (auth_main db libs secret ac rf) = authService_Logout (auth_service db libs secret ac rf)"
  "as_ValidateToken (auth_main db libs secret ac rf) = authService_ValidateToken (auth_service db libs secret ac rf)"
  "as_GetCurrentUser (auth_main db libs secret ac rf) = userRepository_FindByID db"
  "as_AssignRole (auth_main db libs secret ac rf) = authService_AssignRole (auth_service db libs secret ac rf)"
  "as_ListUsers (auth_main db libs secret ac rf) = authService_ListUsers (auth_service db libs secret ac rf)"
  "as_UpdateUserStatus (auth_main db libs secret ac rf) = authService_UpdateUserStatus (auth_service db libs secret ac rf)"
  by (simp_all add: auth_main_def authService_api_def authService_GetCurrentUser_def fun_eq_iff)

lemma ValidateToken_state:
  "\<exists>cl. snd (authService_ValidateToken s tok w) = w\<lparr>env_clock := cl\<rparr>"
  by (auto simp: authService_ValidateToken_def Let_def time_Now_def split: sum.splits prod.splits)

sublocale auth_db_laws \<subseteq> tokens: auth_frame "auth_main db libs secret ac rf" "revocations_kept db" for libs secret ac rf
proof (unfold_locales, goal_cases)
  case (2 w w1 w2) then show ?case by (simp add: revocations_kept_def)
next
  case (9 w tok)
  from ValidateToken_state [of "auth_service db libs secret ac rf" tok w] show ?case by (auto simp: revocations_same)
next
  case (12 w t pg l)
  show ?case by (auto simp: authService_ListUsers_def Let_def intro!: revocations_same keeps_tokens [THEN keeps_snd])
qed (simp_all add: tokens_Register tokens_Login tokens_Refresh tokens_Logout tokens_AssignRole tokens_UpdateUserStatus
    revocations_same keeps_tokens [THEN keeps_snd])

section \<open>Roles and tenants\<close>

text \<open>
  Identifiers are unique up to the collation of the server; every role of a user is a role of the
  tenant of the user.
\<close>

abbreviation role_rows :: "auth_world \<Rightarrow> roleModel list" where "role_rows w \<equiv> rows (aw_roles w)"

definition apart :: "auth_db \<Rightarrow> string list \<Rightarrow> bool" where
  "apart db ids \<longleftrightarrow> sorted_wrt (\<lambda>x y. \<not> adb_eq db x y) ids"

definition auth_inv :: "auth_db \<Rightarrow> auth_world \<Rightarrow> bool" where
  "auth_inv db w \<longleftrightarrow> apart db (map um_ID (user_rows w)) \<and> apart db (map rm_ID (role_rows w)) \<and>
     (\<forall>u\<in>set (user_rows w). \<forall>r\<in>set (um_Roles u). rm_TenantID r = um_TenantID u)"

definition auth_inv_kept :: "auth_db \<Rightarrow> auth_world \<Rightarrow> auth_world \<Rightarrow> bool" where
  "auth_inv_kept db w w' \<longleftrightarrow> (auth_inv db w \<longrightarrow> auth_inv db w')"

lemma auth_inv_cong: "user_rows v = user_rows w \<Longrightarrow> role_rows v = role_rows w \<Longrightarrow> auth_inv db v = auth_inv db w"
  by (simp add: auth_inv_def)

lemma keeps_user_rows:
  "keeps (\<lambda>w. (user_rows w, role_rows w)) (refreshTokenRepository_Create db tk)"
  "keeps (\<lambda>w. (user_rows w, role_rows w)) (refreshTokenRepository_FindByToken db i)"
  "keeps (\<lambda>w. (user_rows w, role_rows w)) (refreshTokenRepository_RevokeToken db i)"
  "keeps (\<lambda>w. (user_rows w, role_rows w)) (time_Now :: auth_world \<Rightarrow> _)"
  "keeps (\<lambda>w. (user_rows w, role_rows w)) (uuid_NewString :: auth_world \<Rightarrow> _)"
  "keeps (\<lambda>w. (user_rows w, role_rows w)) (rand_read :: auth_world \<Rightarrow> _)"
  "keeps (\<lambda>w. (user_rows w, role_rows w)) (authService_generateAccessToken s u)"
  "keeps (\<lambda>w. (user_rows w, role_rows w)) (RefreshToken_IsValid tk)"
  by (auto simp: keeps_def token_repo_defs on_table_def Let_def time_Now_def uuid_NewString_def
      rand_read_def authService_generateAccessToken_def RefreshToken_IsValid_def split: prod.splits sum.splits if_splits)

context auth_db_laws
begin

lemma apart_eq: "apart db (map f xs) \<Longrightarrow> x \<in> set xs \<Longrightarrow> y \<in> set xs \<Longrightarrow> adb_eq db (f x) (f y) \<Longrightarrow> x = y"
  unfolding apart_def by (induction xs) (auto dest: eq_sym)

lemma keeps_lookups:
  "keeps (\<lambda>w. (user_rows w, role_rows w)) (userRepository_FindByID db i)"
  "keeps (\<lambda>w. (user_rows w, role_rows w)) (userRepository_FindByEmail db i)"
  "keeps (\<lambda>w. (user_rows w, role_rows w)) (userRepository_FindByTenantAndEmail db i j)"
  "keeps (\<lambda>w. (user_rows w, role_rows w)) (userRepository_ListByTenant db i pg l)"
  "keeps (\<lambda>w. (user_rows w, role_rows w)) (roleRepository_FindByID db i)"
  by (auto simp: keeps_def user_repo_defs role_repo_defs on_table_def Let_def
      dest!: users_t.first_rows roles_t.first_rows users_t.find_rows users_t.count_rows split: prod.splits sum.splits)

lemmas keeps_all = keeps_user_rows keeps_lookups

lemma found_user: "userRepository_FindByID db i w = (Inr u, w') \<Longrightarrow>
    \<exists>m\<in>set (user_rows w). adb_eq db (um_ID m) i \<and> u = toDomainUser m"
  by (auto simp: userRepository_FindByID_def on_table_def dest!: users_t.first_ok split: prod.splits sum.splits)

lemma found_role: "roleRepository_FindByID db i w = (Inr u, w') \<Longrightarrow>
    \<exists>m\<in>set (role_rows w). adb_eq db (rm_ID m) i \<and> u = toDomainRole m"
  by (auto simp: roleRepository_FindByID_def on_table_def dest!: roles_t.first_ok split: prod.splits sum.splits)

lemma inv_Create:
  assumes run: "userRepository_Create db u w = (r, w')" and st: "user_Status u \<noteq> ''''"
  shows "auth_inv_kept db w w'"
proof -
  let ?m = "fromDomainUser u"
  from run obtain r' t where c: "gorm_Create (adb_users db) ?m (aw_users w) = (r', t)" and w': "w' = w\<lparr>aw_users := t\<rparr>"
    by (auto simp: userRepository_Create_def on_table_def Let_def split: prod.splits)
  have "um_Status ?m \<noteq> ''''" using st by (simp add: fromDomainUser_def)
  then consider (ins) m' where "user_stored ?m m'" "rows t = user_rows w @ [m']"
      "\<forall>x\<in>set (user_rows w). \<not> user_conflict db x ?m" | (failed) "rows t = user_rows w"
    using users_t.create [OF _ c] by (auto simp: inserted_def)
  then show ?thesis
  proof cases
    case (ins m')
    have ap: "\<not> adb_eq db (um_ID x) (um_ID m')" if "x \<in> set (user_rows w)" for x
      using ins(3) that user_storedD [OF ins(1)] by (simp add: user_conflict_def)
    have "m' \<notin> set (user_rows w)" using ap eq_refl by blast
    with create_roles [OF c] ins(2) have "um_Roles m' = []" by (simp add: fromDomainUser_def)
    with ins(2) ap show ?thesis by (auto simp: auth_inv_kept_def auth_inv_def apart_def sorted_wrt_append w')
  qed (simp add: auth_inv_kept_def auth_inv_def w')
qed

text \<open>Rows rewritten one by one, with the identifier and the tenant kept.\<close>

lemma inv_rows:
  assumes inv: "auth_inv db w" and roles: "role_rows w' = role_rows w"
    and rw: "list_all2 (\<lambda>x y. um_ID y = um_ID x \<and> um_TenantID y = um_TenantID x \<and>
      (\<forall>r\<in>set (um_Roles y). r \<in> set (um_Roles x) \<or> rm_TenantID r = um_TenantID x)) (user_rows w) (user_rows w')"
  shows "auth_inv db w'"
proof -
  have "list_all2 (\<lambda>x y. um_ID x = um_ID y) (user_rows w) (user_rows w')"
    using rw by (rule list_all2_mono) simp
  then have "map um_ID (user_rows w') = map um_ID (user_rows w)" by (rule list_all2_map_eq)
  moreover have "\<forall>r\<in>set (um_Roles y). rm_TenantID r = um_TenantID y" if y: "y \<in> set (user_rows w')" for y
  proof -
    from list_all2_memD [OF rw y] obtain x where "x \<in> set (user_rows w)" "um_TenantID y = um_TenantID x"
      "\<forall>r\<in>set (um_Roles y). r \<in> set (um_Roles x) \<or> rm_TenantID r = um_TenantID x" by blast
    with inv show ?thesis unfolding auth_inv_def by (metis (no_types))
  qed
  ultimately show ?thesis using inv roles by (simp add: auth_inv_def)
qed

lemma inv_Update:
  assumes run: "userRepository_Update db u w = (r, w')"
    and m: "m \<in> set (user_rows w)" "user_ID u = um_ID m" "user_TenantID u = um_TenantID m"
  shows "auth_inv_kept db w w'"
  unfolding auth_inv_kept_def
proof
  assume inv: "auth_inv db w"
  let ?m = "fromDomainUser u"
  from run obtain r' t where c: "gorm_Save (adb_users db) ?m (aw_users w) = (r', t)" and w': "w' = w\<lparr>aw_users := t\<rparr>"
    by (auto simp: userRepository_Update_def on_table_def Let_def split: prod.splits)
  have key: "um_ID ?m \<in> um_ID ` set (user_rows w)" using m by (simp add: fromDomainUser_def)
  from users_t.save [OF key c] show "auth_inv db w'"
  proof (elim disjE conjE)
    assume "rewritten user_stored (\<lambda>x. um_ID x = um_ID ?m) (\<lambda>_. ?m) (aw_users w) t"
    with save_roles [OF key c] have rw: "\<forall>i<length (user_rows w). um_Roles (rows t ! i) = um_Roles (user_rows w ! i) \<and>
        (if um_ID (user_rows w ! i) = um_ID ?m then user_stored ?m (rows t ! i) else rows t ! i = user_rows w ! i)"
      and len: "length (rows t) = length (user_rows w)"
      by (auto simp: rewritten_def roles_kept_def list_all2_conv_all_nth)
    have "um_TenantID (user_rows w ! i) = um_TenantID m" if "i < length (user_rows w)" "um_ID (user_rows w ! i) = um_ID m" for i
      using apart_eq [of um_ID "user_rows w" "user_rows w ! i" m] inv that m(1) eq_refl by (simp add: auth_inv_def)
    with rw len m(2,3) inv show ?thesis
      by (intro inv_rows [OF inv]) (auto simp: w' list_all2_conv_all_nth fromDomainUser_def dest!: user_storedD split: if_splits)
  qed (use inv in \<open>simp add: w' auth_inv_def\<close>)
qed

lemma inv_AssignToUser:
  assumes inv: "auth_inv db w" and run: "roleRepository_AssignToUser db i j w = (r, w')"
    and tenants: "\<And>u k. u \<in> set (user_rows w) \<Longrightarrow> adb_eq db (um_ID u) i \<Longrightarrow> k \<in> set (role_rows w) \<Longrightarrow>
      adb_eq db (rm_ID k) j \<Longrightarrow> rm_TenantID k = um_TenantID u"
  shows "auth_inv db w'"
proof -
  obtain fu t1 where f: "gorm_First (adb_users db) (\<lambda>m. adb_eq db (um_ID m) i) (aw_users w) = (fu, t1)" by force
  note t1 = users_t.first_rows [OF f]
  obtain fr t2 where g: "gorm_First (adb_roles db) (\<lambda>m. adb_eq db (rm_ID m) j) (aw_roles w) = (fr, t2)" by force
  note t2 = roles_t.first_rows [OF g]
  show ?thesis
  proof (cases "\<exists>u k. fu = Inr u \<and> fr = Inr k")
    case False
    with run f g t1 t2 inv show ?thesis
      by (auto simp: roleRepository_AssignToUser_def on_table_def auth_inv_def split: sum.splits)
  next
    case True
    then obtain u k where u: "fu = Inr u" and k: "fr = Inr k" by blast
    obtain a t3 where ap: "adb_AppendRole db u k t1 = (a, t3)" by force
    have w': "w' = w\<lparr>aw_roles := t2, aw_users := t3\<rparr>"
      using run f g u k ap by (auto simp: roleRepository_AssignToUser_def on_table_def)
    from users_t.first_ok [OF f [unfolded u]] roles_t.first_ok [OF g [unfolded k]]
    have mem: "u \<in> set (user_rows w)" "adb_eq db (um_ID u) i" "k \<in> set (role_rows w)" "adb_eq db (rm_ID k) j" by auto
    from append [OF ap] show ?thesis
    proof (elim disjE conjE)
      assume ra: "role_appended u k t1 t3"
      have "um_TenantID (user_rows w ! i) = um_TenantID u" if "i < length (user_rows w)" "um_ID (user_rows w ! i) = um_ID u" for i
        using apart_eq [of um_ID "user_rows w" "user_rows w ! i" u] inv that mem(1) eq_refl by (simp add: auth_inv_def)
      with ra tenants [OF mem] t2 show ?thesis
        by (intro inv_rows [OF inv]) (auto simp: w' role_appended_def t1 list_all2_conv_all_nth dest!: user_storedD split: if_splits)
    qed (use inv t1 t2 in \<open>simp add: w' auth_inv_def\<close>)
  qed
qed

lemma inv_Register: "auth_inv_kept db w (snd (authService_Register (auth_service db libs secret ac rf) req w))"
proof -
  have st: "UserStatusActive \<noteq> ''''" by (simp add: UserStatusActive_def)
  note keep = keeps_all [THEN keepsD]
  have same: "auth_inv_kept db w w'" if "(user_rows w', role_rows w') = (user_rows w, role_rows w)" for w w'
    using that by (simp add: auth_inv_kept_def auth_inv_def)
  have later: "auth_inv_kept db w w'" if "(user_rows v, role_rows v) = (user_rows w, role_rows w)" "auth_inv_kept db v w'" for v w w'
    using that by (simp add: auth_inv_kept_def auth_inv_def)
  show ?thesis
    by (auto simp: authService_Register_def Let_def st dest!: keep inv_Create intro: same later
        split: prod.splits sum.splits option.splits)
qed

lemma inv_AssignRole: "auth_inv_kept db w (snd (authService_AssignRole (auth_service db libs secret ac rf) i j w))"
  unfolding auth_inv_kept_def
proof
  assume inv: "auth_inv db w"
  obtain fu w1 where f: "userRepository_FindByID db i w = (fu, w1)" by force
  obtain fr w2 where g: "roleRepository_FindByID db j w1 = (fr, w2)" by force
  have same: "user_rows w1 = user_rows w" "role_rows w1 = role_rows w" "user_rows w2 = user_rows w" "role_rows w2 = role_rows w"
    using keeps_lookups(1) [THEN keepsD, OF f] keeps_lookups(5) [THEN keepsD, OF g] by simp_all
  have inv2: "auth_inv db w1" "auth_inv db w2" using inv same by (simp_all add: auth_inv_def)
  show "auth_inv db (snd (authService_AssignRole (auth_service db libs secret ac rf) i j w))"
  proof (cases "\<exists>u k. fu = Inr u \<and> fr = Inr k \<and> user_TenantID u = role_TenantID k")
    case False
    with f g inv2 show ?thesis by (auto simp: authService_AssignRole_def split: sum.splits)
  next
    case True
    then obtain u k where u: "fu = Inr u" and k: "fr = Inr k" and t: "user_TenantID u = role_TenantID k" by blast
    obtain r w' where a: "roleRepository_AssignToUser db i j w2 = (r, w')" by force
    from found_user [OF f [unfolded u]] obtain mu where mu: "mu \<in> set (user_rows w)" "adb_eq db (um_ID mu) i" "u = toDomainUser mu" by auto
    from found_role [OF g [unfolded k]] same obtain mk where mk: "mk \<in> set (role_rows w)" "adb_eq db (rm_ID mk) j" "k = toDomainRole mk" by auto
    have "auth_inv db w'"
    proof (rule inv_AssignToUser [OF inv2(2) a])
      fix x y assume xy: "x \<in> set (user_rows w2)" "adb_eq db (um_ID x) i" "y \<in> set (role_rows w2)" "adb_eq db (rm_ID y) j"
      have "x = mu" using apart_eq [of um_ID "user_rows w" x mu] inv xy mu same eq_trans [OF xy(2) eq_sym [OF mu(2)]]
        by (simp add: auth_inv_def)
      moreover have "y = mk" using apart_eq [of rm_ID "role_rows w" y mk] inv xy mk same eq_trans [OF xy(4) eq_sym [OF mk(2)]]
        by (simp add: auth_inv_def)
      ultimately show "rm_TenantID y = um_TenantID x" using t mu mk by (simp add: toDomainUser_def toDomainRole_def)
    qed
    then show ?thesis using f g u k t a by (simp add: authService_AssignRole_def)
  qed
qed

lemma inv_UpdateUserStatus: "auth_inv_kept db w (snd (authService_UpdateUserStatus (auth_service db libs secret ac rf) i st w))"
proof -
  obtain fu w1 where f: "userRepository_FindByID db i w = (fu, w1)" by force
  have same: "user_rows w1 = user_rows w" "role_rows w1 = role_rows w" using keeps_lookups(1) [THEN keepsD, OF f] by simp_all
  show ?thesis
  proof (cases fu)
    case (Inr u)
    from found_user [OF f [unfolded Inr]] obtain m where m: "m \<in> set (user_rows w1)" "u = toDomainUser m" using same by auto
    have up: "auth_inv_kept db w (snd (userRepository_Update db (u\<lparr>user_Status := s, user_UpdatedAt := n\<rparr>) (w1\<lparr>env_clock := k\<rparr>)))" for s n k
    proof -
      obtain r w' where r: "userRepository_Update db (u\<lparr>user_Status := s, user_UpdatedAt := n\<rparr>) (w1\<lparr>env_clock := k\<rparr>) = (r, w')" by force
      have "auth_inv_kept db (w1\<lparr>env_clock := k\<rparr>) w'"
        by (rule inv_Update [OF r, of m]) (use m in \<open>simp_all add: toDomainUser_def\<close>)
      then show ?thesis unfolding r by (simp add: auth_inv_kept_def auth_inv_def same)
    qed
    then show ?thesis using f Inr same
      by (simp add: authService_UpdateUserStatus_def time_Now_def) (simp add: auth_inv_kept_def auth_inv_def)
  qed (use f same in \<open>simp add: authService_UpdateUserStatus_def auth_inv_kept_def auth_inv_def\<close>)
qed

lemma inv_same: "(user_rows w', role_rows w') = (user_rows w, role_rows w) \<Longrightarrow> auth_inv_kept db w w'"
  by (simp add: auth_inv_kept_def auth_inv_def)

lemma inv_Login: "auth_inv_kept db w (snd (authService_Login (auth_service db libs secret ac rf) req w))"
proof (rule inv_same)
  note [dest!] = keeps_all [THEN keepsD]
  show "(user_rows (snd (authService_Login (auth_service db libs secret ac rf) req w)),
    role_rows (snd (authService_Login (auth_service db libs secret ac rf) req w))) = (user_rows w, role_rows w)"
    by (auto simp: authService_Login_def Let_def split: prod.splits sum.splits option.splits)
qed

lemma inv_Refresh: "auth_inv_kept db w (snd (authService_RefreshToken (auth_service db libs secret ac rf) tok w))"
proof (rule inv_same)
  note [dest!] = keeps_all [THEN keepsD]
  show "(user_rows (snd (authService_RefreshToken (auth_service db libs secret ac rf) tok w)),
    role_rows (snd (authService_RefreshToken (auth_service db libs secret ac rf) tok w))) = (user_rows w, role_rows w)"
    by (auto simp: authService_RefreshToken_def split: prod.splits sum.splits option.splits bool.splits)
qed

end

sublocale auth_db_laws \<subseteq> tenants: auth_frame "auth_main db libs secret ac rf" "auth_inv_kept db" for libs secret ac rf
proof (unfold_locales, goal_cases)
  case (2 w w1 w2) then show ?case by (simp add: auth_inv_kept_def)
next
  case (8 w tok) show ?case
    using keeps_all [THEN keeps_snd] by (auto simp: authService_Logout_def intro: inv_same)
next
  case (9 w tok)
  from ValidateToken_state [of "auth_service db libs secret ac rf" tok w] show ?case by (auto intro: inv_same)
next
  case (12 w t pg l)
  show ?case using keeps_all [THEN keeps_snd] by (auto simp: authService_ListUsers_def Let_def intro!: inv_same)
next
  case (10 w i) show ?case using keeps_all [THEN keeps_snd] by (auto intro!: inv_same)
qed (simp_all add: inv_Register inv_Login inv_Refresh inv_AssignRole inv_UpdateUserStatus inv_same)

end
