(* ===== verification/Auth_Props.thy ===== *)
theory Auth_Props
  imports Auth_Inv
begin

text \<open>
  auth-service: the contract of the libraries, and the properties of registration, login, tokens,
  roles and the HTTP layer, each with a run on concrete data where it has hypotheses.
\<close>

section \<open>The libraries\<close>

lemma nat_dec_head: "nat_dec n = CHR ''0'' # r \<Longrightarrow> r = []"
proof (induction n arbitrary: r rule: nat_dec.induct)
  case (1 n)
  show ?case
  proof (cases "n < 10")
    case False
    then have e: "nat_dec n = nat_dec (n div 10) @ [digit_char (n mod 10)]" by (simp add: nat_dec.simps [of n])
    with 1(2) nat_dec_nonempty [of "n div 10"] obtain r' where r': "nat_dec (n div 10) = CHR ''0'' # r'"
      by (cases "nat_dec (n div 10)") auto
    with 1(1) [OF False] have "nat_dec (n div 10) = ''0''" by simp
    then have "n div 10 = 0" using nat_dec_val [of "n div 10"] by (simp add: dec_val_def digit_val_def)
    with False show ?thesis by simp
  qed (use 1(2) in \<open>simp add: nat_dec.simps [of n]\<close>)
qed

lemma num_ok_digits:
  assumes "list_all is_digit l" "l \<noteq> []" "\<And>r. l = CHR ''0'' # r \<Longrightarrow> r = []"
  shows "num_ok l" "num_ok (CHR ''-'' # l)"
proof -
  obtain c cs where l: "l = c # cs" using assms(2) by (cases l) auto
  have c: "c \<noteq> CHR ''-''" using assms(1) l by (auto simp: is_digit_def)
  have d: "dropWhile is_digit cs = []" using assms(1) l by (auto simp: list_all_iff)
  have "list_all num_char l" using assms(1) by (auto simp: list_all_iff num_char_def)
  with c d assms l show "num_ok l" "num_ok (CHR ''-'' # l)"
    by (auto simp: num_ok_def num_frac_ok_def num_char_def simp del: dropWhile_eq_Nil_conv)
qed

lemma num_ok_Itoa: "num_ok (strconv_Itoa n)"
  using num_ok_digits [of "nat_dec (nat n)"] num_ok_digits [of "nat_dec (nat (- n))"] nat_dec_digits nat_dec_nonempty nat_dec_head
  by (simp add: strconv_Itoa_def list_all_iff)

text \<open>
  What the service relies on: a hash made from a password matches it; a token that \<open>SignedString\<close>
  has made parses, under a key function that gives the same key for HMAC methods, into the signed
  claims until the second \<open>exp\<close> names, and is refused from then on.
\<close>

locale auth_libs_laws =
  fixes libs :: auth_libs
  assumes hash_matches: "bcrypt_Generate libs salt password cost = Inr hash \<Longrightarrow> bcrypt_Compare libs hash password = None"
    and sign_parse: "jwt_SignHS256 libs key claims = Inr tok \<Longrightarrow> wf_json (JObj claims) \<Longrightarrow>
      map_of claims ''exp'' = Some (JNum (strconv_Itoa e)) \<Longrightarrow> is_int64 e \<Longrightarrow> kf True ''HS256'' = Inr key \<Longrightarrow>
      now < e * Second \<Longrightarrow> jwt_Parse libs kf now tok = Inr (claims, True)"
    and sign_expired: "jwt_SignHS256 libs key claims = Inr tok \<Longrightarrow> wf_json (JObj claims) \<Longrightarrow>
      map_of claims ''exp'' = Some (JNum (strconv_Itoa e)) \<Longrightarrow> is_int64 e \<Longrightarrow> kf True ''HS256'' = Inr key \<Longrightarrow>
      e * Second \<le> now \<Longrightarrow> \<exists>err. jwt_Parse libs kf now tok = Inl err"

text \<open>An executable instance: the key is written in front of the text of the claims.\<close>

definition demo_libs :: auth_libs where
  "demo_libs =
     \<lparr>bcrypt_Generate = (\<lambda>salt p cost. if 72 < length p then Inl (Foreign ''bcrypt: password length exceeds 72 bytes'')
        else Inr (CHR ''$'' # p)),
      bcrypt_Compare = (\<lambda>h p. if h = CHR ''$'' # p then None else Some (Foreign ''mismatch'')),
      jwt_SignHS256 = (\<lambda>key claims. Inr (key @ json_text (JObj claims))),
      jwt_Parse = (\<lambda>kf now tok. case kf True ''HS256'' of Inl e \<Rightarrow> Inl e
        | Inr key \<Rightarrow> if take (length key) tok \<noteq> key then Inl (Foreign ''signature is invalid'')
            else case json_parse (drop (length key) tok) of
              Some (JObj claims) \<Rightarrow>
                (case map_of claims ''exp'' of
                   Some (JNum l) \<Rightarrow> if now < fst (strconv_Atoi l) * Second then Inr (claims, True)
                                   else Inl (Foreign ''token is expired'')
                 | _ \<Rightarrow> Inr (claims, True))
            | _ \<Rightarrow> Inl (Foreign ''token is malformed''))\<rparr>"

interpretation demo_libs: auth_libs_laws demo_libs
  by unfold_locales (auto simp: demo_libs_def json_roundtrip Atoi_Itoa simp del: json_text.simps wf_json.simps split: if_splits)

section \<open>Access tokens\<close>

lemma wf_access_claims:
  assumes "valid_utf8 (user_ID u)" "valid_utf8 (user_TenantID u)" "valid_utf8 (user_Email u)"
    "list_all (\<lambda>r. valid_utf8 (role_Name r)) (user_Roles u)"
  shows "wf_json (JObj (access_claims u now ttl))"
proof -
  have "list_all valid_utf8 [''sub'', ''tid'', ''email'', ''roles'', ''iss'', ''iat'', ''exp'', ''opsnexus-auth'']"
    by code_simp
  with assms show ?thesis by (simp add: access_claims_def num_ok_Itoa list_all_iff del: valid_utf8.simps)
qed

lemma role_strings_map [simp]: "role_strings (map (\<lambda>r. JStr (f r)) rs) = map f rs"
  by (induction rs) simp_all

text \<open>
  C16: An access token made for a user is accepted until the second of its expiry and gives back the
  identifier, the tenant, the e-mail and the role names of the user; from then on it is refused.
\<close>

theorem access_token_claims:
  assumes "auth_libs_laws (au_libs s)" "authService_generateAccessToken s u w = (Inr tok, w1)"
    "valid_utf8 (user_ID u)" "valid_utf8 (user_TenantID u)" "valid_utf8 (user_Email u)"
    "list_all (\<lambda>r. valid_utf8 (role_Name r)) (user_Roles u)"
    "exp = time_Unix (fst (time_Now w) + au_accessTTL s)" "is_int64 exp"
  shows "fst (authService_ValidateToken s tok w2) =
    (if fst (time_Now w2) < exp * Second
     then Inr \<lparr>cl_UserID = user_ID u, cl_TenantID = user_TenantID u, cl_Email = user_Email u,
               cl_Roles = map role_Name (user_Roles u)\<rparr>
     else Inl ErrTokenInvalid)"
proof -
  let ?c = "access_claims u (fst (time_Now w)) (au_accessTTL s)"
  have sign: "jwt_SignHS256 (au_libs s) (au_jwtSecret s) ?c = Inr tok"
    using assms(2) by (auto simp: authService_generateAccessToken_def split: prod.splits)
  have exp: "map_of ?c ''exp'' = Some (JNum (strconv_Itoa exp))" by (simp add: access_claims_def assms(7))
  have key: "jwt_key_func (au_jwtSecret s) True ''HS256'' = Inr (au_jwtSecret s)" by (simp add: jwt_key_func_def)
  note laws = sign wf_access_claims [OF assms(3-6)] exp assms(8)
  show ?thesis
    using auth_libs_laws.sign_parse [where kf = "jwt_key_func (au_jwtSecret s)", OF assms(1) laws key, of "fst (time_Now w2)"]
      auth_libs_laws.sign_expired [where kf = "jwt_key_func (au_jwtSecret s)", OF assms(1) laws key, of "fst (time_Now w2)"]
    by (cases "fst (time_Now w2) < exp * Second")
      (auto simp: authService_ValidateToken_def Let_def claim_string_def access_claims_def split_beta not_less)
qed

text \<open>Data for the concrete runs: one administrator, one refresh token, the clock at second 1.\<close>

definition demo_roleModel :: roleModel where
  "demo_roleModel = \<lparr>rm_ID = ''r1'', rm_TenantID = ''acme'', rm_Name = ''admin'', rm_Description = '''', rm_CreatedAt = 0,
     rm_UpdatedAt = 0, rm_Permissions = [\<lparr>pmm_ID = ''p1'', pmm_Resource = ''users'', pmm_Action = ''read''\<rparr>]\<rparr>"

definition demo_userModel :: userModel where
  "demo_userModel = \<lparr>um_ID = ''u1'', um_TenantID = ''acme'', um_Email = ''bob@x.io'', um_PasswordHash = ''$secret'',
     um_FirstName = ''Bob'', um_LastName = ''Bee'', um_Status = UserStatusActive, um_CreatedAt = 0, um_UpdatedAt = 0,
     um_Roles = [demo_roleModel]\<rparr>"

definition demo_tokenModel :: refreshTokenModel where
  "demo_tokenModel = \<lparr>rtm_ID = ''k1'', rtm_UserID = ''u1'', rtm_TenantID = ''acme'', rtm_Token = ''tok'',
     rtm_ExpiresAt = 9000000000, rtm_Revoked = False, rtm_CreatedAt = 0\<rparr>"

definition demo_auth :: "userModel list \<Rightarrow> auth_world" where
  "demo_auth us = \<lparr>env_clock = siterate (\<lambda>t. t + 1) 1000000000, env_uuids = ''n1'' ## ''n2'' ## ''n3'' ## sconst ''n'',
     env_lower = (\<lambda>s. s), env_upper = (\<lambda>s. s), env_entropy = sconst 7,
     aw_users = \<lparr>rows = us, tbl_hidden = 0\<rparr>, aw_roles = \<lparr>rows = [demo_roleModel], tbl_hidden = 0\<rparr>,
     aw_tokens = \<lparr>rows = [demo_tokenModel], tbl_hidden = 0\<rparr>\<rparr>"

abbreviation demo_service :: "auth_world authService" where
  "demo_service \<equiv> auth_service mem_auth_db demo_libs ''key'' 15 168"

abbreviation demo_main :: "auth_world AuthService" where
  "demo_main \<equiv> auth_main mem_auth_db demo_libs ''key'' 15 168"

lemma demo_TTL [simp]: "au_accessTTL demo_service = 900000000000" "au_refreshTTL demo_service = 604800000000000"
  by (simp_all add: auth_service_def NewAuthService_def Duration_mul_def Minute_def Hour_def wrap64_def)

theorem access_token_claims_witness:
  "\<exists>tok w1. authService_generateAccessToken demo_service (toDomainUser demo_userModel) (demo_auth []) = (Inr tok, w1) \<and>
     fst (authService_ValidateToken demo_service tok (demo_auth [])) =
       Inr \<lparr>cl_UserID = ''u1'', cl_TenantID = ''acme'', cl_Email = ''bob@x.io'', cl_Roles = [''admin'']\<rparr>"
proof -
  let ?u = "toDomainUser demo_userModel" and ?w = "demo_auth []"
  have now: "fst (time_Now ?w) = 1000000000" by (simp add: demo_auth_def time_Now_def)
  obtain tok w1 where g: "authService_generateAccessToken demo_service ?u ?w = (Inr tok, w1)"
    by (auto simp: authService_generateAccessToken_def split_beta demo_libs_def)
  have v: "valid_utf8 ''u1'' \<and> valid_utf8 ''acme'' \<and> valid_utf8 ''bob@x.io'' \<and> valid_utf8 ''admin''" by code_simp
  have u: "user_ID ?u = ''u1''" "user_TenantID ?u = ''acme''" "user_Email ?u = ''bob@x.io''" "map role_Name (user_Roles ?u) = [''admin'']"
    by (simp_all add: toDomainUser_def toDomainRole_def demo_userModel_def demo_roleModel_def)
  then have r: "list_all (\<lambda>r. valid_utf8 (role_Name r)) (user_Roles ?u)" using v by (auto simp: list_all_iff map_eq_Cons_conv)
  have "is_int64 (time_Unix 901000000000)" by (simp add: time_Unix_def Second_def is_int64_def)
  with access_token_claims [OF _ g _ _ _ r refl, of ?w] u v demo_libs.auth_libs_laws_axioms
  have "fst (authService_ValidateToken demo_service tok ?w) =
       Inr \<lparr>cl_UserID = ''u1'', cl_TenantID = ''acme'', cl_Email = ''bob@x.io'', cl_Roles = [''admin'']\<rparr>"
    by (simp add: now time_Unix_def Second_def del: valid_utf8.simps)
  with g show ?thesis by blast
qed

section \<open>Refresh tokens\<close>

context auth_db_laws
begin

lemma refresh_of_revoked:
  assumes "revoked db tok w"
  shows "\<exists>e. fst (authService_RefreshToken (auth_service db libs secret ac rf) tok w) = Inl e"
proof (cases "tok = ''''")
  case False
  obtain f t where g: "gorm_First (adb_tokens db) (\<lambda>m. adb_eq db (rtm_Token m) tok) (aw_tokens w) = (f, t)" by force
  show ?thesis
  proof (cases f)
    case (Inr m)
    from tokens_t.first_ok [OF g [unfolded Inr]] assms have "rtm_Revoked m" by (simp add: revoked_def)
    with False g Inr show ?thesis
      by (simp add: authService_RefreshToken_def refreshTokenRepository_FindByToken_def on_table_def RefreshToken_IsValid_def)
  qed (use False g in \<open>simp add: authService_RefreshToken_def refreshTokenRepository_FindByToken_def on_table_def\<close>)
qed (simp add: authService_RefreshToken_def)

lemma logout_then_refresh:
  assumes run: "authService_Logout (auth_service db libs secret ac rf) tok w = (None, w1)"
    and "\<exists>x\<in>set (token_rows w). adb_eq db (rtm_Token x) tok" "auth_reach (auth_main db libs secret ac rf) w1 w2"
  shows "\<exists>e. fst (authService_RefreshToken (auth_service db libs secret ac rf) tok w2) = Inl e"
proof -
  from run have "refreshTokenRepository_RevokeToken db tok w = (None, w1)"
    by (simp add: authService_Logout_def split: if_splits)
  then have "revoked db tok w1" using token_Revoke(2) assms(2) by blast
  with tokens.reach [OF assms(3)] have "revoked db tok w2" by (simp add: revocations_kept_def)
  then show ?thesis by (rule refresh_of_revoked)
qed

end

text \<open>
  C3: A stored refresh token that was logged out never yields an access token again, whatever
  requests follow.
\<close>

theorem logout_is_final:
  assumes "auth_db_laws db" "authService_Logout (auth_service db libs secret ac rf) tok w = (None, w1)"
    "\<exists>x\<in>set (token_rows w). adb_eq db (rtm_Token x) tok" "auth_reach (auth_main db libs secret ac rf) w1 w2"
  shows "\<exists>e. fst (authService_RefreshToken (auth_service db libs secret ac rf) tok w2) = Inl e"
  by (rule auth_db_laws.logout_then_refresh [OF assms])

theorem logout_is_final_witness:
  "\<exists>w1. authService_Logout demo_service ''tok'' (demo_auth [demo_userModel]) = (None, w1) \<and>
     (\<forall>mux r. \<exists>e. fst (authService_RefreshToken demo_service ''tok'' (snd (auth_NewRouter mux demo_main r w1))) = Inl e)"
proof -
  let ?w = "demo_auth [demo_userModel]"
  obtain w1 where l: "authService_Logout demo_service ''tok'' ?w = (None, w1)"
    by (simp add: authService_Logout_def refreshTokenRepository_RevokeToken_def on_table_def mem_auth_db_def mem_simps
        demo_auth_def wrap_err_def)
  have "\<exists>x\<in>set (token_rows ?w). adb_eq mem_auth_db (rtm_Token x) ''tok''"
    by (simp add: demo_auth_def mem_auth_db_def demo_tokenModel_def)
  from logout_is_final [OF mem_auth.auth_db_laws_axioms l this auth_reach.request [OF auth_reach.start]] l
  show ?thesis by blast
qed

section \<open>Roles\<close>

context auth_db_laws
begin

lemma inv_reach: "auth_reach (auth_main db libs secret ac rf) w w' \<Longrightarrow> auth_inv db w \<Longrightarrow> auth_inv db w'"
  using tenants.reach by (auto simp: auth_inv_kept_def)

end

text \<open>
  C5: Over any sequence of requests the roles of every user stay roles of the tenant of the user, and
  the identifiers of users and roles stay unique up to the collation of the server.
\<close>

theorem roles_stay_in_tenant:
  assumes "auth_db_laws db" "auth_inv db w" "auth_reach (auth_main db libs secret ac rf) w w'"
  shows "auth_inv db w' \<and> (\<forall>u\<in>set (user_rows w'). \<forall>r\<in>set (user_Roles (toDomainUser u)). role_TenantID r = um_TenantID u)"
proof -
  from auth_db_laws.inv_reach [OF assms(1,3,2)] have "auth_inv db w'" .
  then show ?thesis by (auto simp: auth_inv_def toDomainUser_def toDomainRole_def)
qed

theorem roles_stay_in_tenant_witness:
  "\<forall>mux r. auth_inv mem_auth_db (snd (auth_NewRouter mux demo_main r (demo_auth [demo_userModel])))"
proof (intro allI)
  fix mux r
  have "auth_inv mem_auth_db (demo_auth [demo_userModel])"
    by (simp add: auth_inv_def apart_def demo_auth_def demo_userModel_def demo_roleModel_def)
  from roles_stay_in_tenant [OF mem_auth.auth_db_laws_axioms this auth_reach.request [OF auth_reach.start]]
  show "auth_inv mem_auth_db (snd (auth_NewRouter mux demo_main r (demo_auth [demo_userModel])))" by blast
qed

lemma perms_allow_iff: "perms_allow ps resource action \<longleftrightarrow>
    (\<exists>p\<in>set ps. pm_Resource p = resource \<and> pm_Action p \<in> {action, ''admin''})"
  by (induction ps) auto

lemma roles_allow_iff: "roles_allow rs resource action \<longleftrightarrow>
    (\<exists>r\<in>set rs. \<exists>p\<in>set (role_Permissions r). pm_Resource p = resource \<and> pm_Action p \<in> {action, ''admin''})"
  by (induction rs) (auto simp: perms_allow_iff)

text \<open>
  \<open>HasPermission\<close> holds exactly when some role of the user has a permission on the very resource
  asked for, with the action asked for or with the action \<open>admin\<close>.
\<close>

theorem permission_iff:
  "User_HasPermission u resource action =
     ((resource, action) \<in> {(pm_Resource p, a) | r p a. r \<in> set (user_Roles u) \<and> p \<in> set (role_Permissions r)
        \<and> a = pm_Action p} \<or>
      (resource, ''admin'') \<in> {(pm_Resource p, pm_Action p) | r p. r \<in> set (user_Roles u) \<and> p \<in> set (role_Permissions r)})"
  unfolding User_HasPermission_def roles_allow_iff by fastforce

section \<open>The administration routes\<close>

lemma any_role_iff: "any_role names us \<longleftrightarrow> set names \<inter> set us \<noteq> {}"
  by (induction us) auto

definition admin_routes :: "(string \<times> string) list" where
  "admin_routes = [(''GET'', ''/roles''), (''POST'', ''/roles''), (''GET'', ''/users''),
     (''PATCH'', ''/users/{userId}''), (''POST'', ''/users/{userId}/roles'')]"

text \<open>The bearer token of a request is accepted, at some time, with a role that may administrate.\<close>

definition admin_token :: "'a env_scheme AuthService \<Rightarrow> auth_request \<Rightarrow> bool" where
  "admin_token svc r \<longleftrightarrow> (\<exists>scheme tok w claims w1. split_space (rq_Header r ''Authorization'') = Some (scheme, tok) \<and>
     as_ValidateToken svc tok w = (Inr claims, w1) \<and> set (cl_Roles claims) \<inter> {''admin'', ''super_admin''} \<noteq> {})"

lemma JWTAuth_refuses:
  assumes no: "\<not> admin_token (auth_main db libs secret ac rf) r"
  shows "rs_status (fst (JWTAuth (auth_main db libs secret ac rf) (RequireRole [''admin'', ''super_admin''] f) r w)) \<in> {401, 403} \<and>
    (\<exists>cl. snd (JWTAuth (auth_main db libs secret ac rf) (RequireRole [''admin'', ''super_admin''] f) r w) = w\<lparr>env_clock := cl\<rparr>)"
proof (cases "split_space (rq_Header r ''Authorization'')")
  case None
  then show ?thesis by (auto simp: JWTAuth_def Let_def respondError_def Status_defs intro!: exI [of _ "env_clock w"])
next
  case (Some p)
  obtain scheme tok where p: "p = (scheme, tok)" by (cases p)
  obtain x w1 where v: "authService_ValidateToken (auth_service db libs secret ac rf) tok w = (x, w1)" by force
  then obtain cl where cl: "w1 = w\<lparr>env_clock := cl\<rparr>"
    using ValidateToken_state [of "auth_service db libs secret ac rf" tok w] by auto
  have same: "\<exists>cl. w = w\<lparr>env_clock := cl\<rparr>" by (intro exI [of _ "env_clock w"]) simp
  show ?thesis
  proof (cases "rq_Header r ''Authorization'' = '''' \<or> strings_ToLower w scheme \<noteq> ''bearer''")
    case True
    with Some p same show ?thesis by (auto simp: JWTAuth_def Let_def respondError_def Status_defs)
  next
    case False
    show ?thesis
    proof (cases x)
      case (Inl e)
      with Some p False v cl show ?thesis by (auto simp: JWTAuth_def Let_def respondError_def Status_defs)
    next
      case (Inr claims)
      with no Some p v have "set (cl_Roles claims) \<inter> {''admin'', ''super_admin''} = {}"
        unfolding admin_token_def auth_main_simps by blast
      then have "\<not> any_role [''admin'', ''super_admin''] (cl_Roles claims)" unfolding any_role_iff by auto
      with Some p False v Inr cl show ?thesis
        by (auto simp: JWTAuth_def RequireRole_def Let_def respondError_def Status_defs simp del: any_role.simps)
    qed
  qed
qed

text \<open>
  C4: A request to an administration route whose bearer token is not accepted with the role \<open>admin\<close> or
  \<open>super_admin\<close> is answered with 401 or 403 and changes no table.
\<close>

theorem admin_routes_guarded:
  assumes "\<forall>h. mux (r\<lparr>rq_Header := h\<rparr>) = A_Matched pat params" "(rq_Method r, pat) \<in> set admin_routes"
    "\<not> admin_token (auth_main db libs secret ac rf) r"
  shows "rs_status (fst (auth_NewRouter mux (auth_main db libs secret ac rf) r w)) \<in> {401, 403} \<and>
    (\<exists>cl us. snd (auth_NewRouter mux (auth_main db libs secret ac rf) r w) = w\<lparr>env_uuids := us, env_clock := cl\<rparr>)"
proof -
  let ?svc = "auth_main db libs secret ac rf"
  let ?f = "\<lambda>r. auth_endpoint ?svc (rq_Method r) pat (r\<lparr>rq_URLParam := params\<rparr>)"
  have m: "rq_Method r \<noteq> ''OPTIONS''" "auth_endpoint ?svc (rq_Method r) pat =
      JWTAuth ?svc (RequireRole [''admin'', ''super_admin''] (auth_admin_endpoint ?svc (rq_Method r) pat))"
    using assms(2) by (auto simp: admin_routes_def auth_endpoint_def fun_eq_iff)
  have no: "\<not> admin_token ?svc (r\<lparr>rq_Header := (rq_Header r)(''X-Request-ID'' := i), rq_URLParam := params\<rparr>)" for i
    using assms(3) by (simp add: admin_token_def)
  have ep: "rs_status (fst (?f (r\<lparr>rq_Header := (rq_Header r)(''X-Request-ID'' := i)\<rparr>) v)) \<in> {401, 403} \<and>
      (\<exists>cl. snd (?f (r\<lparr>rq_Header := (rq_Header r)(''X-Request-ID'' := i)\<rparr>) v) = v\<lparr>env_clock := cl\<rparr>)" for i v
    using JWTAuth_refuses [OF no] m(2) by simp
  obtain i w1 where i: "(if rq_Header r ''X-Request-ID'' = '''' then uuid_NewString w else (rq_Header r ''X-Request-ID'', w)) = (i, w1)"
    by force
  have w1: "\<exists>us. w1 = w\<lparr>env_uuids := us\<rparr>" using i by (auto simp: uuid_NewString_def split: if_splits intro: exI [of _ "env_uuids w"])
  let ?r = "r\<lparr>rq_Header := (rq_Header r)(''X-Request-ID'' := i)\<rparr>"
  obtain resp w2 where f: "?f ?r (snd (time_Now w1)) = (resp, w2)" by force
  with ep [of i "snd (time_Now w1)"] obtain cl where st: "rs_status resp \<in> {401, 403}" and w2: "w2 = (snd (time_Now w1))\<lparr>env_clock := cl\<rparr>"
    by auto
  have "auth_NewRouter mux ?svc r w = (add_header ''X-Request-ID'' i (fst (auth_CORS (\<lambda>r w. ?f r w) ?r (snd (time_Now w1)))), snd (time_Now w2))"
    using i f m(1) assms(1)
    by (auto simp: auth_NewRouter_def auth_RequestID_def auth_RequestLogger_def auth_CORS_def Let_def split_beta split: if_splits)
  with f st w2 w1 m(1) show ?thesis by (auto simp: auth_CORS_def Let_def time_Now_def)
qed

definition demo_auth_request :: auth_request where
  "demo_auth_request = \<lparr>rq_Method = ''GET'', rq_Path = [], rq_Header = (\<lambda>k. if k = ''Authorization'' then ''Bearer'' else ''''),
     rq_Query = (\<lambda>_. ''''), rq_URLParam = (\<lambda>_. ''''), rq_Body = '''', ctx_tenantID = None, ctx_userID = None,
     ctx_requestID = None, ctx_claims = None\<rparr>"

theorem admin_routes_guarded_witness:
  "rs_status (fst (auth_NewRouter (\<lambda>_. A_Matched ''/users'' (\<lambda>_. '''')) demo_main demo_auth_request (demo_auth [demo_userModel]))) \<in> {401, 403}"
proof -
  have "\<not> admin_token demo_main demo_auth_request"
    by (simp add: admin_token_def demo_auth_request_def split_space_def)
  with admin_routes_guarded [where mux = "\<lambda>_. A_Matched ''/users'' (\<lambda>_. '''')" and r = demo_auth_request
      and pat = "''/users''" and params = "\<lambda>_. ''''" and db = mem_auth_db and libs = demo_libs and secret = "''key''" and ac = 15 and rf = 168]
  show ?thesis by (simp add: demo_auth_request_def admin_routes_def)
qed

section \<open>Login\<close>

context auth_db_laws
begin

lemma login_success:
  assumes run: "authService_Login (auth_service db libs secret ac rf) req w = (Inr tp, w')"
  shows "\<exists>x\<in>set (user_rows w). \<exists>m. um_Status x = UserStatusActive \<and>
    adb_eq db (um_Email x) (strings_ToLower w (TrimSpace (lg_Email req))) \<and>
    bcrypt_Compare libs (um_PasswordHash x) (lg_Password req) = None \<and>
    token_rows w' = token_rows w @ [m] \<and> rtm_Token m = tp_RefreshToken tp \<and> rtm_UserID m = um_ID x \<and> \<not> rtm_Revoked m \<and>
    user_rows w' = user_rows w"
proof -
  let ?e = "strings_ToLower w (TrimSpace (lg_Email req))"
  obtain f t where g: "gorm_First (adb_users db) (\<lambda>m. adb_eq db (um_Email m) ?e) (aw_users w) = (f, t)" by force
  then have F: "userRepository_FindByEmail db ?e w =
      (case f of Inl e \<Rightarrow> (Inl (find_err ErrUserNotFound ''finding user by email: '' e), w\<lparr>aw_users := t\<rparr>)
       | Inr m \<Rightarrow> (Inr (toDomainUser m), w\<lparr>aw_users := t\<rparr>))"
    by (simp add: userRepository_FindByEmail_def on_table_def split: sum.split)
  from run F obtain x where x: "f = Inr x" by (cases f) (auto simp: authService_Login_def split: if_splits)
  from users_t.first_ok [OF g [unfolded x]] users_t.first_rows [OF g]
  have x': "x \<in> set (user_rows w)" "adb_eq db (um_Email x) ?e" "rows t = user_rows w" by auto
  from run F x obtain w2 tk w3 where c: "bcrypt_Compare libs (um_PasswordHash x) (lg_Password req) = None" "um_Status x = UserStatusActive"
    and cr: "refreshTokenRepository_Create db tk w2 = (None, w')" and tk: "rt_Token tk = tp_RefreshToken tp" "rt_UserID tk = um_ID x" "\<not> rt_Revoked tk"
    and w2: "token_rows w2 = token_rows w" "user_rows w2 = rows t"
    by (auto simp: authService_Login_def authService_generateAccessToken_def Let_def uuid_NewString_def time_Now_def
        User_IsActive_def toDomainUser_def split: if_splits sum.splits option.splits prod.splits)
  from cr obtain t' m where "gorm_Create (adb_tokens db) m (aw_tokens w2) = (None, t')" "w' = w2\<lparr>aw_tokens := t'\<rparr>"
    "rtm_Token m = rt_Token tk" "rtm_UserID m = rt_UserID tk" "rtm_Revoked m = rt_Revoked tk"
    by (auto simp: refreshTokenRepository_Create_def on_table_def Let_def wrap_err_def split: prod.splits option.splits)
  with tokens_t.create [OF TrueI this(1)] w2 tk obtain m' where "token_rows w' = token_rows w @ [m']" "user_rows w' = rows t"
    "rtm_Token m' = tp_RefreshToken tp" "rtm_UserID m' = um_ID x" "\<not> rtm_Revoked m'"
    by (auto simp: inserted_def dest!: token_storedD)
  with c x' show ?thesis by auto
qed

end

text \<open>
  C12: A login succeeds only for a stored active user with the normalised e-mail whose hash matches
  the password; it then adds one refresh token, of that user and not revoked, and changes no user.
\<close>

theorem login_succeeds_only:
  assumes "auth_db_laws db" "authService_Login (auth_service db libs secret ac rf) req w = (Inr tp, w')"
  shows "\<exists>x\<in>set (user_rows w). \<exists>m. um_Status x = UserStatusActive \<and>
    adb_eq db (um_Email x) (strings_ToLower w (TrimSpace (lg_Email req))) \<and>
    bcrypt_Compare libs (um_PasswordHash x) (lg_Password req) = None \<and>
    token_rows w' = token_rows w @ [m] \<and> rtm_Token m = tp_RefreshToken tp \<and> rtm_UserID m = um_ID x \<and> \<not> rtm_Revoked m \<and>
    user_rows w' = user_rows w"
  by (rule auth_db_laws.login_success [OF assms])

lemma demo_email: "strings_ToLower w (TrimSpace '' Bob@x.io '') = ''bob@x.io''"
proof -
  have "TrimSpace '' Bob@x.io '' = ''Bob@x.io''" by code_simp
  moreover have "is_ascii ''Bob@x.io'' \<and> map ascii_lower ''Bob@x.io'' = ''bob@x.io''" by code_simp
  ultimately show ?thesis by (simp add: strings_ToLower_def)
qed

lemmas auth_eval = mem_auth_db_def mem_users_def mem_simps demo_auth_def demo_userModel_def demo_roleModel_def
  demo_tokenModel_def on_table_def wrap_err_def find_err_def toDomainUser_def toDomainRole_def

theorem login_succeeds_only_witness:
  "\<exists>tp w'. authService_Login demo_service \<lparr>lg_Email = '' Bob@x.io '', lg_Password = ''secret''\<rparr> (demo_auth [demo_userModel])
      = (Inr tp, w') \<and> length (token_rows w') = 2"
proof -
  let ?w = "demo_auth [demo_userModel]"
  let ?r = "authService_Login demo_service \<lparr>lg_Email = '' Bob@x.io '', lg_Password = ''secret''\<rparr> ?w"
  have "\<exists>tp. fst ?r = Inr tp"
    by (simp add: authService_Login_def demo_email userRepository_FindByEmail_def refreshTokenRepository_Create_def auth_eval
        authService_generateAccessToken_def uuid_NewString_def time_Now_def demo_libs_def User_IsActive_def Let_def)
  then obtain tp w' where r: "?r = (Inr tp, w')" by (metis prod.collapse)
  have "length (token_rows ?w) = 1" by (simp add: demo_auth_def)
  with login_succeeds_only [OF mem_auth.auth_db_laws_axioms r] r show ?thesis by auto
qed

text \<open>
  An unknown e-mail and a wrong password are answered alike: the same error, and no change but the
  lookup of the user.
\<close>

theorem login_failures_alike:
  assumes "lg_Email req \<noteq> ''''" "lg_Password req \<noteq> ''''"
    "ur_FindByEmail (au_userRepo s) (strings_ToLower w (TrimSpace (lg_Email req))) w = (found, w1)"
    "\<forall>u. found = Inr u \<longrightarrow> bcrypt_Compare (au_libs s) (user_PasswordHash u) (lg_Password req) \<noteq> None"
  shows "authService_Login s req w = (Inl ErrInvalidCredentials, w1) \<and>
    mapDomainError ErrInvalidCredentials = (401, ''INVALID_CREDENTIALS'', ''invalid credentials'')"
  using assms by (cases found) (auto simp: authService_Login_def mapDomainError_def ErrInvalidCredentials_def Status_defs)

theorem login_failures_alike_witness:
  "fst (authService_Login demo_service \<lparr>lg_Email = '' Bob@x.io '', lg_Password = ''wrong''\<rparr> (demo_auth [demo_userModel]))
     = Inl ErrInvalidCredentials \<and>
   fst (authService_Login demo_service \<lparr>lg_Email = '' Bob@x.io '', lg_Password = ''wrong''\<rparr> (demo_auth []))
     = Inl ErrInvalidCredentials"
  using login_failures_alike [where s = demo_service and req = "\<lparr>lg_Email = '' Bob@x.io '', lg_Password = ''wrong''\<rparr>"
      and w = "demo_auth [demo_userModel]", OF _ _ surjective_pairing]
    login_failures_alike [where s = demo_service and req = "\<lparr>lg_Email = '' Bob@x.io '', lg_Password = ''wrong''\<rparr>"
      and w = "demo_auth []", OF _ _ surjective_pairing]
  by (simp add: demo_email userRepository_FindByEmail_def auth_eval demo_libs_def)

context auth_db_laws
begin

lemma refresh_success:
  assumes run: "authService_RefreshToken (auth_service db libs secret ac rf) tok w = (Inr tp, w')"
  shows "\<exists>t\<in>set (token_rows w). adb_eq db (rtm_Token t) tok \<and> \<not> rtm_Revoked t \<and> shd (env_clock w) < rtm_ExpiresAt t \<and>
    (\<exists>x\<in>set (user_rows w). adb_eq db (um_ID x) (rtm_UserID t) \<and> um_Status x = UserStatusActive)"
proof -
  obtain f t1 where g: "gorm_First (adb_tokens db) (\<lambda>m. adb_eq db (rtm_Token m) tok) (aw_tokens w) = (f, t1)" by force
  with run obtain t where t: "f = Inr t"
    by (cases f) (auto simp: authService_RefreshToken_def refreshTokenRepository_FindByToken_def on_table_def split: if_splits)
  let ?w = "w\<lparr>aw_tokens := t1, env_clock := stl (env_clock w)\<rparr>"
  obtain h t2 where u: "gorm_First (adb_users db) (\<lambda>m. adb_eq db (um_ID m) (rtm_UserID t)) (aw_users w) = (h, t2)" by force
  from run g t u obtain x where x: "h = Inr x" "\<not> rtm_Revoked t" "shd (env_clock w) < rtm_ExpiresAt t" "um_Status x = UserStatusActive"
    by (cases h; cases "shd (env_clock w) < rtm_ExpiresAt t")
      (auto simp: authService_RefreshToken_def refreshTokenRepository_FindByToken_def userRepository_FindByID_def on_table_def
        RefreshToken_IsValid_def time_Now_def User_IsActive_def toDomainUser_def split: if_splits)
  with tokens_t.first_ok [OF g [unfolded t]] users_t.first_ok [OF u [unfolded x(1)]] show ?thesis by auto
qed

end

text \<open>
  C13: A refresh succeeds only with a stored token that is neither revoked nor expired and belongs to
  a stored user who is active at that time.
\<close>

theorem refresh_succeeds_only:
  assumes "auth_db_laws db" "authService_RefreshToken (auth_service db libs secret ac rf) tok w = (Inr tp, w')"
  shows "\<exists>t\<in>set (token_rows w). adb_eq db (rtm_Token t) tok \<and> \<not> rtm_Revoked t \<and> shd (env_clock w) < rtm_ExpiresAt t \<and>
    (\<exists>x\<in>set (user_rows w). adb_eq db (um_ID x) (rtm_UserID t) \<and> um_Status x = UserStatusActive)"
  by (rule auth_db_laws.refresh_success [OF assms])

theorem refresh_succeeds_only_witness:
  "\<exists>tp w'. authService_RefreshToken demo_service ''tok'' (demo_auth [demo_userModel]) = (Inr tp, w') \<and> 1000000000 < rtm_ExpiresAt demo_tokenModel"
proof -
  let ?r = "authService_RefreshToken demo_service ''tok'' (demo_auth [demo_userModel])"
  have "\<exists>tp. fst ?r = Inr tp"
    by (simp add: authService_RefreshToken_def refreshTokenRepository_FindByToken_def userRepository_FindByID_def auth_eval
        RefreshToken_IsValid_def time_Now_def User_IsActive_def authService_generateAccessToken_def demo_libs_def)
  then obtain tp w' where r: "?r = (Inr tp, w')" by (metis prod.collapse)
  with refresh_succeeds_only [OF mem_auth.auth_db_laws_axioms r] show ?thesis by (simp add: demo_auth_def)
qed

end
