(* ===== verification/Auth_Accounts.thy ===== *)
theory Auth_Accounts
  imports Auth_Props
begin

text \<open>
  auth-service: accounts. Registration followed by login, addresses that are taken, the status of a
  user, and the profile route.
\<close>

section \<open>Registration\<close>

lemma ToLower_cong: "env_lower v = env_lower w \<Longrightarrow> strings_ToLower v s = strings_ToLower w s"
  by (simp add: strings_ToLower_def)

context auth_db_laws
begin

text \<open>A registration that gets as far as the database.\<close>

lemma register_runs:
  assumes "rg_Email req \<noteq> ''''" "rg_Password req \<noteq> ''''" "rg_FirstName req \<noteq> ''''" "rg_LastName req \<noteq> ''''"
    "rg_TenantID req \<noteq> ''''" "userRepository_FindByTenantAndEmail db (rg_TenantID req) (rg_Email req) w = (Inl e, w1)"
    "\<And>salt. \<exists>h. bcrypt_Generate libs salt (rg_Password req) 12 = Inr h"
  shows "\<exists>u h salt w2. bcrypt_Generate libs salt (rg_Password req) 12 = Inr h \<and> user_PasswordHash u = h \<and>
    user_Email u = strings_ToLower w (TrimSpace (rg_Email req)) \<and> user_TenantID u = rg_TenantID req \<and>
    user_Status u = UserStatusActive \<and> aw_users w2 = aw_users w1 \<and> env_lower w2 = env_lower w \<and>
    authService_Register (auth_service db libs secret ac rf) req w =
      (case userRepository_Create db u w2 of (Some e, w3) \<Rightarrow> (Inl (Errorf ''creating user: '' e ''''), w3)
       | (None, w3) \<Rightarrow> (Inr u, w3))"
proof -
  have low: "env_lower w1 = env_lower w"
    using assms(6) by (auto simp: userRepository_FindByTenantAndEmail_def on_table_def split: sum.splits prod.splits)
  obtain h where h: "bcrypt_Generate libs (shd (env_entropy w1)) (rg_Password req) 12 = Inr h" using assms(7) by blast
  let ?w2 = "w1\<lparr>env_entropy := stl (env_entropy w1), env_uuids := stl (env_uuids w1)\<rparr>"
  let ?email = "strings_ToLower ?w2 (TrimSpace (rg_Email req))"
  let ?u = "\<lparr>user_ID = shd (env_uuids w1), user_TenantID = rg_TenantID req, user_Email = ?email,
             user_PasswordHash = h, user_FirstName = rg_FirstName req, user_LastName = rg_LastName req,
             user_Status = UserStatusActive, user_Roles = [], user_CreatedAt = shd (env_clock w1),
             user_UpdatedAt = shd (stl (env_clock w1))\<rparr>"
  have "?email = strings_ToLower w (TrimSpace (rg_Email req))" using low by (intro ToLower_cong) simp
  moreover have "authService_Register (auth_service db libs secret ac rf) req w =
      (case userRepository_Create db ?u (?w2\<lparr>env_clock := stl (stl (env_clock w1))\<rparr>) of
         (Some e, w3) \<Rightarrow> (Inl (Errorf ''creating user: '' e ''''), w3) | (None, w3) \<Rightarrow> (Inr ?u, w3))"
    using assms(1-6) h by (simp add: authService_Register_def rand_read_def uuid_NewString_def time_Now_def Let_def split: option.split prod.split)
  ultimately show ?thesis using h low
    by (intro exI [of _ ?u] exI [of _ h] exI [of _ "shd (env_entropy w1)"] exI [of _ "?w2\<lparr>env_clock := stl (stl (env_clock w1))\<rparr>"]) simp
qed

lemma user_Create_cases:
  assumes "userRepository_Create db u w = (r, w')" "user_Status u \<noteq> ''''"
  obtains (stored) m where "user_stored (fromDomainUser u) m" "user_rows w' = user_rows w @ [m]"
      "\<forall>x\<in>set (user_rows w). \<not> user_conflict db x (fromDomainUser u)"
  | (failed) e where "r = Some (Errorf ''creating user: '' e '''')" "user_rows w' = user_rows w"
      "\<exists>t t'. gorm_Create (adb_users db) (fromDomainUser u) t = (Some e, t')"
proof -
  from assms(1) obtain r' t where c: "gorm_Create (adb_users db) (fromDomainUser u) (aw_users w) = (r', t)"
    and w': "w' = w\<lparr>aw_users := t\<rparr>" "r = wrap_err ''creating user: '' r'"
    by (auto simp: userRepository_Create_def on_table_def Let_def split: prod.splits)
  have "um_Status (fromDomainUser u) \<noteq> ''''" using assms(2) by (simp add: fromDomainUser_def)
  from users_t.create [OF this c] show ?thesis
  proof (elim disjE conjE)
    assume "inserted user_stored (user_conflict db) (fromDomainUser u) (aw_users w) t"
    then show ?thesis using stored w' by (auto simp: inserted_def)
  next
    assume "r' \<noteq> None" "rows t = user_rows w"
    then obtain e where "r' = Some e" by blast
    with failed [of e] c w' \<open>rows t = user_rows w\<close> show ?thesis by (simp add: wrap_err_def) blast
  qed
qed

text \<open>The user just registered is the one the lookup by e-mail finds.\<close>

lemma register_found:
  assumes run: "authService_Register (auth_service db libs secret ac rf) req w = (Inr u, w1)"
    and salts: "\<And>salt. \<exists>h. bcrypt_Generate libs salt (rg_Password req) 12 = Inr h"
    and find: "userRepository_FindByEmail db (strings_ToLower w (TrimSpace (rg_Email req))) w1 = (Inr v, w2)"
  shows "user_ID v = user_ID u \<and> user_TenantID v = rg_TenantID req \<and> user_Status v = UserStatusActive \<and>
    rg_Email req \<noteq> '''' \<and> rg_Password req \<noteq> '''' \<and> env_lower w1 = env_lower w \<and>
    (\<exists>salt. bcrypt_Generate libs salt (rg_Password req) 12 = Inr (user_PasswordHash v))"
proof -
  let ?e = "strings_ToLower w (TrimSpace (rg_Email req))"
  from run have fields: "rg_Email req \<noteq> ''''" "rg_Password req \<noteq> ''''" "rg_FirstName req \<noteq> ''''" "rg_LastName req \<noteq> ''''"
    "rg_TenantID req \<noteq> ''''" by (auto simp: authService_Register_def split: if_splits)
  obtain f w0 where f: "userRepository_FindByTenantAndEmail db (rg_TenantID req) (rg_Email req) w = (f, w0)" by force
  with run fields obtain e where "f = Inl e" by (cases f) (auto simp: authService_Register_def)
  with f have "userRepository_FindByTenantAndEmail db (rg_TenantID req) (rg_Email req) w = (Inl e, w0)" by simp
  from register_runs [OF fields this salts, of secret ac rf] obtain u0 h salt wa where
    h: "bcrypt_Generate libs salt (rg_Password req) 12 = Inr h" "user_PasswordHash u0 = h"
    and u0: "user_Email u0 = ?e" "user_TenantID u0 = rg_TenantID req" "user_Status u0 = UserStatusActive"
    and low: "env_lower wa = env_lower w"
    and res: "authService_Register (auth_service db libs secret ac rf) req w =
      (case userRepository_Create db u0 wa of (Some e, w3) \<Rightarrow> (Inl (Errorf ''creating user: '' e ''''), w3)
       | (None, w3) \<Rightarrow> (Inr u0, w3))" by blast
  obtain r w3 where c0: "userRepository_Create db u0 wa = (r, w3)" by force
  with res run have c: "userRepository_Create db u wa = (None, w1)" and u: "u0 = u" by (cases r; simp)+
  note h = h [unfolded u] and u = u0 [unfolded u]
  have st: "user_Status u \<noteq> ''''" using u by (simp add: UserStatusActive_def)
  from c have lw: "env_lower w1 = env_lower wa"
    by (auto simp: userRepository_Create_def on_table_def Let_def split: prod.splits)
  from c st show ?thesis
  proof (cases rule: user_Create_cases)
    case (stored m)
    obtain g t where g: "gorm_First (adb_users db) (\<lambda>m. adb_eq db (um_Email m) ?e) (aw_users w1) = (g, t)" by force
    with find obtain x where x: "g = Inr x" "v = toDomainUser x"
      by (cases g) (auto simp: userRepository_FindByEmail_def on_table_def)
    from users_t.first_ok [OF g [unfolded x(1)]] have mem: "x \<in> set (user_rows w1)" "adb_eq db (um_Email x) ?e" by auto
    have "um_Email (fromDomainUser u) = ?e" using u by (simp add: fromDomainUser_def)
    with stored mem have "x = m" unfolding user_conflict_def by auto
    with user_storedD [OF stored(1)] x h u fields low lw show ?thesis
      by (auto simp: toDomainUser_def fromDomainUser_def)
  qed simp
qed

lemma register_login:
  assumes libs: "auth_libs_laws libs"
    and run: "authService_Register (auth_service db libs secret ac rf) req w = (Inr u, w1)"
    and salts: "\<And>salt. \<exists>h. bcrypt_Generate libs salt (rg_Password req) 12 = Inr h"
    and find: "userRepository_FindByEmail db (strings_ToLower w (TrimSpace (rg_Email req))) w1 = (Inr v, w2)"
  shows "user_ID v = user_ID u \<and> fst (authService_Login (auth_service db libs secret ac rf)
      \<lparr>lg_Email = rg_Email req, lg_Password = rg_Password req\<rparr> w1)
    \<notin> {Inl ErrInvalidCredentials, Inl ErrUserInactive, Inl auth_ErrInvalidInput}"
proof -
  note v = register_found [OF run salts find]
  then obtain salt where "bcrypt_Generate libs salt (rg_Password req) 12 = Inr (user_PasswordHash v)" by blast
  then have "bcrypt_Compare libs (user_PasswordHash v) (rg_Password req) = None" by (rule auth_libs_laws.hash_matches [OF libs])
  moreover have "strings_ToLower w1 (TrimSpace (rg_Email req)) = strings_ToLower w (TrimSpace (rg_Email req))"
    using v by (intro ToLower_cong) simp
  ultimately show ?thesis using v find
    by (auto simp: authService_Login_def User_IsActive_def Let_def auth_error_defs split: sum.splits prod.splits option.splits)
qed

end

text \<open>
  C31: After a registration, where the lookup of the normalised e-mail succeeds and bcrypt can hash the password
  of the request, that lookup finds the new user, and a login with the same e-mail and password is not refused
  for its credentials or the status of the account: the code makes the account active at once
  (contracts/auth.yaml keeps it inactive until the e-mail address is verified).
\<close>

theorem register_then_login:
  assumes "auth_db_laws db" "auth_libs_laws libs"
    "authService_Register (auth_service db libs secret ac rf) req w = (Inr u, w1)"
    "\<And>salt. \<exists>h. bcrypt_Generate libs salt (rg_Password req) 12 = Inr h"
    "userRepository_FindByEmail db (strings_ToLower w (TrimSpace (rg_Email req))) w1 = (Inr v, w2)"
  shows "user_ID v = user_ID u \<and> fst (authService_Login (auth_service db libs secret ac rf)
      \<lparr>lg_Email = rg_Email req, lg_Password = rg_Password req\<rparr> w1)
    \<notin> {Inl ErrInvalidCredentials, Inl ErrUserInactive, Inl auth_ErrInvalidInput}"
  by (rule auth_db_laws.register_login [OF assms])

definition demo_register :: RegisterRequest where
  "demo_register = \<lparr>rg_TenantID = ''acme'', rg_Email = '' Bob@x.io '', rg_Password = ''secret'', rg_FirstName = ''Bob'',
     rg_LastName = ''Bee''\<rparr>"

lemmas register_eval = authService_Register_def userRepository_FindByTenantAndEmail_def userRepository_Create_def
  rand_read_def uuid_NewString_def time_Now_def demo_email demo_libs_def fromDomainUser_def auth_eval Let_def

theorem register_then_login_witness:
  "\<exists>u w1 v w2. authService_Register demo_service demo_register (demo_auth []) = (Inr u, w1) \<and>
     userRepository_FindByEmail mem_auth_db ''bob@x.io'' w1 = (Inr v, w2) \<and> user_ID v = user_ID u"
proof -
  let ?r = "authService_Register demo_service demo_register (demo_auth [])"
  have "\<exists>u. fst ?r = Inr u" by (simp add: demo_register_def register_eval)
  then obtain u w1 where r: "?r = (Inr u, w1)" by (metis prod.collapse)
  let ?f = "userRepository_FindByEmail mem_auth_db ''bob@x.io'' w1"
  have "\<exists>v. fst (userRepository_FindByEmail mem_auth_db ''bob@x.io'' (snd ?r)) = Inr v"
    by (simp add: demo_register_def register_eval userRepository_FindByEmail_def)
  then obtain v w2 where f: "?f = (Inr v, w2)" using r by (metis prod.collapse snd_conv)
  have "\<And>salt. \<exists>h. bcrypt_Generate demo_libs salt (rg_Password demo_register) 12 = Inr h"
    by (simp add: demo_libs_def demo_register_def)
  with register_then_login [OF mem_auth.auth_db_laws_axioms demo_libs.auth_libs_laws_axioms r, of v w2] f r
  show ?thesis by (simp add: demo_register_def demo_email)
qed

definition auth_sentinels :: "goerr list" where
  "auth_sentinels = [ErrUserNotFound, ErrUserAlreadyExists, ErrInvalidCredentials, ErrUserInactive, ErrTokenExpired,
     ErrTokenInvalid, ErrTokenRevoked, ErrRoleNotFound, auth_ErrPermissionDenied, auth_ErrInvalidInput, ErrTenantMismatch]"

lemma mapDomainError_other:
  "\<forall>s\<in>set auth_sentinels. \<not> errors_Is e s \<Longrightarrow> mapDomainError e = (500, ''INTERNAL_ERROR'', ''an internal error occurred'')"
  by (simp add: mapDomainError_def auth_sentinels_def Status_defs)

lemma sentinels_Errorf: "s \<in> set auth_sentinels \<Longrightarrow> errors_Is (Errorf p e q) s = errors_Is e s"
  by (auto simp: auth_sentinels_def auth_error_defs)

context auth_db_laws
begin

lemma register_taken:
  assumes fields: "rg_Email req \<noteq> ''''" "rg_Password req \<noteq> ''''" "rg_FirstName req \<noteq> ''''" "rg_LastName req \<noteq> ''''"
      "rg_TenantID req \<noteq> ''''"
    and find: "userRepository_FindByTenantAndEmail db (rg_TenantID req) (rg_Email req) w = (Inl e0, w0)"
    and salts: "\<And>salt. \<exists>h. bcrypt_Generate libs salt (rg_Password req) 12 = Inr h"
    and taken: "x \<in> set (user_rows w)" "adb_eq db (um_Email x) (strings_ToLower w (TrimSpace (rg_Email req)))"
    and driver: "\<forall>m t e t'. gorm_Create (adb_users db) m t = (Some e, t') \<longrightarrow> (\<forall>s\<in>set auth_sentinels. \<not> errors_Is e s)"
  shows "\<exists>e w'. authService_Register (auth_service db libs secret ac rf) req w = (Inl e, w') \<and> user_rows w' = user_rows w \<and>
    fst (mapDomainError e) = 500"
proof -
  let ?e = "strings_ToLower w (TrimSpace (rg_Email req))"
  have w0: "user_rows w0 = user_rows w"
    using keeps_lookups(3) [THEN keepsD, OF find] by simp
  from register_runs [OF fields find salts, of secret ac rf] obtain u wa where
    u: "user_Email u = ?e" "user_Status u = UserStatusActive" and wa: "aw_users wa = aw_users w0"
    and res: "authService_Register (auth_service db libs secret ac rf) req w =
      (case userRepository_Create db u wa of (Some e, w3) \<Rightarrow> (Inl (Errorf ''creating user: '' e ''''), w3)
       | (None, w3) \<Rightarrow> (Inr u, w3))" by blast
  obtain r w3 where c: "userRepository_Create db u wa = (r, w3)" by force
  have st: "user_Status u \<noteq> ''''" using u by (simp add: UserStatusActive_def)
  have x: "x \<in> set (user_rows wa)" using taken wa w0 by simp
  from c st show ?thesis
  proof (cases rule: user_Create_cases)
    case (stored m)
    have "user_conflict db x (fromDomainUser u)" using taken u by (simp add: user_conflict_def fromDomainUser_def)
    with stored x show ?thesis by blast
  next
    case (failed e)
    then have "\<forall>s\<in>set auth_sentinels. \<not> errors_Is e s" using driver by blast
    then have "mapDomainError (Errorf ''creating user: '' (Errorf ''creating user: '' e '''') '''') =
        (500, ''INTERNAL_ERROR'', ''an internal error occurred'')"
      by (intro mapDomainError_other) (simp add: sentinels_Errorf del: errors_Is.simps)
    with failed res c wa w0 show ?thesis by simp
  qed
qed

end

text \<open>
  An e-mail that is taken, by the user of another tenant or in another spelling that the lookup of
  the raw address does not find, is refused by the database: no user is stored, and the answer is 500
  and not the 409 of \<open>ErrUserAlreadyExists\<close>.
\<close>

theorem register_taken_email:
  assumes "auth_db_laws db" "rg_Email req \<noteq> ''''" "rg_Password req \<noteq> ''''" "rg_FirstName req \<noteq> ''''"
    "rg_LastName req \<noteq> ''''" "rg_TenantID req \<noteq> ''''"
    "userRepository_FindByTenantAndEmail db (rg_TenantID req) (rg_Email req) w = (Inl e0, w0)"
    "\<And>salt. \<exists>h. bcrypt_Generate libs salt (rg_Password req) 12 = Inr h"
    "x \<in> set (user_rows w)" "adb_eq db (um_Email x) (strings_ToLower w (TrimSpace (rg_Email req)))"
    "\<forall>m t e t'. gorm_Create (adb_users db) m t = (Some e, t') \<longrightarrow> (\<forall>s\<in>set auth_sentinels. \<not> errors_Is e s)"
  shows "\<exists>e w'. authService_Register (auth_service db libs secret ac rf) req w = (Inl e, w') \<and> user_rows w' = user_rows w \<and>
    fst (mapDomainError e) = 500"
  by (rule auth_db_laws.register_taken [OF assms])

theorem register_taken_email_witness:
  "\<exists>e w'. authService_Register demo_service demo_register (demo_auth [demo_userModel]) = (Inl e, w') \<and>
     user_rows w' = [demo_userModel] \<and> fst (mapDomainError e) = 500"
proof -
  let ?w = "demo_auth [demo_userModel]"
  have "\<exists>e0. fst (userRepository_FindByTenantAndEmail mem_auth_db ''acme'' '' Bob@x.io '' ?w) = Inl e0"
    by (simp add: userRepository_FindByTenantAndEmail_def auth_eval)
  then obtain e0 w0 where f: "userRepository_FindByTenantAndEmail mem_auth_db ''acme'' '' Bob@x.io '' ?w = (Inl e0, w0)"
    by (metis prod.collapse)
  have d: "\<forall>m t e t'. gorm_Create (adb_users mem_auth_db) m t = (Some e, t') \<longrightarrow> (\<forall>s\<in>set auth_sentinels. \<not> errors_Is e s)"
    by (auto simp: mem_auth_db_def mem_users_def mem_simps bad_connection_def auth_sentinels_def auth_error_defs split: if_splits)
  show ?thesis
    using register_taken_email [where req = demo_register and w = ?w and x = demo_userModel and ?e0.0 = e0 and ?w0.0 = w0
        and libs = demo_libs and secret = "''key''" and ac = 15 and rf = 168, OF mem_auth.auth_db_laws_axioms _ _ _ _ _ _ _ _ _ d] f
    by (simp add: demo_register_def demo_email demo_libs_def auth_eval)
qed

section \<open>The status and the profile of a user\<close>

context auth_db_laws
begin

lemma status_update:
  assumes run: "authService_UpdateUserStatus (auth_service db libs secret ac rf) i st w = (r, w')" and inv: "auth_inv db w"
  shows "(st \<notin> {''active'', ''inactive'', ''suspended''} \<longrightarrow> r \<noteq> None \<and> user_rows w' = user_rows w) \<and>
    (r = None \<longrightarrow> list_all2 (\<lambda>x y. if adb_eq db (um_ID x) i
       then um_Status y = st \<and> um_ID y = um_ID x \<and> um_TenantID y = um_TenantID x \<and> um_Email y = um_Email x
         \<and> um_PasswordHash y = um_PasswordHash x \<and> um_Roles y = um_Roles x
       else y = x) (user_rows w) (user_rows w'))"
proof -
  obtain fu w1 where f: "userRepository_FindByID db i w = (fu, w1)" by force
  have w1: "user_rows w1 = user_rows w" using keeps_lookups(1) [THEN keepsD, OF f] by simp
  show ?thesis
  proof (cases "st \<in> {''active'', ''inactive'', ''suspended''} \<and> (\<exists>u. fu = Inr u)")
    case False
    with run f w1 show ?thesis by (cases fu) (auto simp: authService_UpdateUserStatus_def)
  next
    case True
    then obtain u where u: "fu = Inr u" and st: "st \<in> {''active'', ''inactive'', ''suspended''}" by blast
    from found_user [OF f [unfolded u]] obtain m where m: "m \<in> set (user_rows w)" "adb_eq db (um_ID m) i" "u = toDomainUser m" by blast
    let ?u = "u\<lparr>user_Status := st, user_UpdatedAt := shd (env_clock w1)\<rparr>"
    let ?w = "w1\<lparr>env_clock := stl (env_clock w1)\<rparr>"
    have up: "userRepository_Update db ?u ?w = (r, w')"
      using run f u st by (auto simp: authService_UpdateUserStatus_def time_Now_def UserStatusActive_def
          UserStatusInactive_def UserStatusSuspended_def)
    then obtain r' t where c: "gorm_Save (adb_users db) (fromDomainUser ?u) (aw_users w1) = (r', t)"
      and w': "w' = ?w\<lparr>aw_users := t\<rparr>" "r = wrap_err ''updating user: '' r'"
      by (auto simp: userRepository_Update_def on_table_def Let_def split: prod.splits)
    have key: "um_ID (fromDomainUser ?u) \<in> um_ID ` set (rows (aw_users w1))"
      using m w1 by (simp add: fromDomainUser_def toDomainUser_def)
    have same: "adb_eq db (um_ID x) i \<longleftrightarrow> x = m" "um_ID x = um_ID m \<longleftrightarrow> x = m" if "x \<in> set (user_rows w)" for x
      using apart_eq [of um_ID "user_rows w" x m] inv that m eq_trans eq_sym eq_refl unfolding auth_inv_def by metis+
    have "list_all2 (\<lambda>x y. if adb_eq db (um_ID x) i
       then um_Status y = st \<and> um_ID y = um_ID x \<and> um_TenantID y = um_TenantID x \<and> um_Email y = um_Email x
         \<and> um_PasswordHash y = um_PasswordHash x \<and> um_Roles y = um_Roles x
       else y = x) (user_rows w) (rows t)" if "r = None"
    proof -
      have "r' = None" using that w' by (simp add: wrap_err_def split: option.splits)
      with users_t.save [OF key c] save_roles [OF key c] have
        "rewritten user_stored (\<lambda>x. um_ID x = um_ID (fromDomainUser ?u)) (\<lambda>_. fromDomainUser ?u) (aw_users w1) t"
        "roles_kept (aw_users w1) t" by auto
      then have both: "list_all2 (\<lambda>x y. (if um_ID x = um_ID m then user_stored (fromDomainUser ?u) y else y = x)
          \<and> um_Roles y = um_Roles x) (user_rows w) (rows t)"
        using m(3) w1 by (simp add: rewritten_def roles_kept_def list_all2_conv_all_nth fromDomainUser_def toDomainUser_def)
      show ?thesis
      proof (rule list.rel_mono_strong [OF both])
        fix x y assume x: "x \<in> set (user_rows w)" and "y \<in> set (rows t)" and xy: "(if um_ID x = um_ID m then user_stored (fromDomainUser ?u) y else y = x)
          \<and> um_Roles y = um_Roles x"
        show "if adb_eq db (um_ID x) i
       then um_Status y = st \<and> um_ID y = um_ID x \<and> um_TenantID y = um_TenantID x \<and> um_Email y = um_Email x
         \<and> um_PasswordHash y = um_PasswordHash x \<and> um_Roles y = um_Roles x
       else y = x"
          using xy same [OF x] user_storedD [of "fromDomainUser ?u" y] m(3)
          by (cases "x = m") (simp_all add: fromDomainUser_def toDomainUser_def)
      qed
    qed
    then show ?thesis using st w' by auto
  qed
qed

end

text \<open>
  The status of a user can only be set to active, inactive or suspended; any other value is an
  error that writes nothing. A successful update sets the status of that user, keeps the user's
  identity, tenant, e-mail, password and roles, and leaves every other user alone.
\<close>

theorem status_update_result:
  assumes "auth_db_laws db" "authService_UpdateUserStatus (auth_service db libs secret ac rf) i st w = (r, w')" "auth_inv db w"
  shows "(st \<notin> {''active'', ''inactive'', ''suspended''} \<longrightarrow> r \<noteq> None \<and> user_rows w' = user_rows w) \<and>
    (r = None \<longrightarrow> list_all2 (\<lambda>x y. if adb_eq db (um_ID x) i
       then um_Status y = st \<and> um_ID y = um_ID x \<and> um_TenantID y = um_TenantID x \<and> um_Email y = um_Email x
         \<and> um_PasswordHash y = um_PasswordHash x \<and> um_Roles y = um_Roles x
       else y = x) (user_rows w) (user_rows w'))"
  by (rule auth_db_laws.status_update [OF assms])

theorem status_update_result_witness:
  "\<exists>w'. authService_UpdateUserStatus demo_service ''u1'' ''suspended'' (demo_auth [demo_userModel]) = (None, w') \<and>
     map um_Status (user_rows w') = [''suspended'']"
proof -
  let ?r = "authService_UpdateUserStatus demo_service ''u1'' ''suspended'' (demo_auth [demo_userModel])"
  have "fst ?r = None"
    by (simp add: authService_UpdateUserStatus_def userRepository_FindByID_def userRepository_Update_def auth_eval
        time_Now_def fromDomainUser_def Let_def)
  then obtain w' where r: "?r = (None, w')" by (metis prod.collapse)
  have "auth_inv mem_auth_db (demo_auth [demo_userModel])"
    by (simp add: auth_inv_def apart_def demo_auth_def demo_userModel_def demo_roleModel_def)
  with status_update_result [OF mem_auth.auth_db_laws_axioms r] r show ?thesis
    by (auto simp: demo_auth_def demo_userModel_def mem_auth_db_def list_all2_Cons1)
qed

text \<open>
  Changing one's own names answers with the new names and stores nothing: every table is as it
  was.
\<close>

theorem update_me_stores_nothing:
  assumes "auth_db_laws db" "ctx_userID r = Some i" "i \<noteq> ''''"
    "body_members (rq_Body r) = Some kvs" "field ''first_name'' set_string kvs '''' = Some fname"
    "field ''last_name'' set_string kvs '''' = Some lname" "fname \<noteq> ''''" "lname \<noteq> ''''"
    "userRepository_FindByID db i w = (Inr u, w1)"
  shows "\<exists>resp w'. auth_Handler_UpdateMe (auth_main db libs secret ac rf) r w = (resp, w') \<and> rs_status resp = 200 \<and>
    rs_body resp = AP_own_names (user_ID u) (user_Email u) fname lname (user_Status u) \<and>
    user_rows w' = user_rows w \<and> role_rows w' = role_rows w \<and> token_rows w' = token_rows w"
proof -
  have "user_rows w1 = user_rows w \<and> role_rows w1 = role_rows w"
    using auth_db_laws.keeps_lookups(1) [OF assms(1), THEN keepsD, OF assms(9)] by simp
  moreover have "token_rows w1 = token_rows w" using keeps_tokens(2) [THEN keepsD, OF assms(9)] .
  ultimately show ?thesis using assms(2-)
    by (simp add: auth_Handler_UpdateMe_def ctx_string_def Status_defs)
qed

definition demo_names :: string where
  "demo_names = json_text (JObj [(''first_name'', JStr ''Ann''), (''last_name'', JStr ''Ant'')])"

lemma demo_names_members: "body_members demo_names = Some [(''first_name'', JStr ''Ann''), (''last_name'', JStr ''Ant'')]"
  by code_simp

theorem update_me_stores_nothing_witness:
  "\<exists>resp w'. auth_Handler_UpdateMe demo_main (demo_auth_request\<lparr>ctx_userID := Some ''u1'', rq_Body := demo_names\<rparr>)
      (demo_auth [demo_userModel]) = (resp, w') \<and> rs_body resp = AP_own_names ''u1'' ''bob@x.io'' ''Ann'' ''Ant'' ''active'' \<and>
      map um_FirstName (user_rows w') = [''Bob'']"
proof -
  let ?w = "demo_auth [demo_userModel]"
  have "fst (userRepository_FindByID mem_auth_db ''u1'' ?w) = Inr (toDomainUser demo_userModel)"
    by (simp add: userRepository_FindByID_def auth_eval)
  then obtain w1 where f: "userRepository_FindByID mem_auth_db ''u1'' ?w = (Inr (toDomainUser demo_userModel), w1)"
    by (metis prod.collapse)
  have d: "field ''first_name'' set_string [(''first_name'', JStr ''Ann''), (''last_name'', JStr ''Ant'')] '''' = Some ''Ann''"
    "field ''last_name'' set_string [(''first_name'', JStr ''Ann''), (''last_name'', JStr ''Ant'')] '''' = Some ''Ant''"
    by code_simp+
  have "\<exists>resp w'. auth_Handler_UpdateMe demo_main (demo_auth_request\<lparr>ctx_userID := Some ''u1'', rq_Body := demo_names\<rparr>) ?w = (resp, w') \<and>
      rs_status resp = 200 \<and> rs_body resp = AP_own_names (user_ID (toDomainUser demo_userModel)) (user_Email (toDomainUser demo_userModel))
        ''Ann'' ''Ant'' (user_Status (toDomainUser demo_userModel)) \<and>
      user_rows w' = user_rows ?w \<and> role_rows w' = role_rows ?w \<and> token_rows w' = token_rows ?w"
    by (rule update_me_stores_nothing [OF mem_auth.auth_db_laws_axioms _ _ _ d _ _ f]) (simp_all add: demo_names_members)
  then obtain resp w' where h: "auth_Handler_UpdateMe demo_main (demo_auth_request\<lparr>ctx_userID := Some ''u1'', rq_Body := demo_names\<rparr>) ?w = (resp, w')"
      "rs_body resp = AP_own_names (user_ID (toDomainUser demo_userModel)) (user_Email (toDomainUser demo_userModel))
        ''Ann'' ''Ant'' (user_Status (toDomainUser demo_userModel))" "user_rows w' = user_rows ?w" by blast
  from h(2,3) show ?thesis unfolding h(1)
    by (simp add: toDomainUser_def demo_userModel_def demo_auth_def UserStatusActive_def)
qed

text \<open>
  The status of an error of the authentication service is decided by the end of the error's chain:
  401 for credentials and tokens, 403 for permissions and inactive accounts, 404, 409 and 400 for
  missing, existing and mismatched values, and 500, with the text hidden, for every other error.
\<close>

theorem auth_error_status:
  "mapDomainError e =
     (if err_root e \<notin> set auth_sentinels then (500, ''INTERNAL_ERROR'', ''an internal error occurred'')
      else if err_root e = ErrInvalidCredentials then (401, ''INVALID_CREDENTIALS'', err_Error e)
      else if err_root e \<in> {ErrTokenInvalid, ErrTokenExpired, ErrTokenRevoked} then
        (401, if err_root e = ErrTokenInvalid then ''TOKEN_INVALID'' else if err_root e = ErrTokenExpired
              then ''TOKEN_EXPIRED'' else ''TOKEN_REVOKED'', err_Error e)
      else if err_root e = auth_ErrPermissionDenied then (403, ''PERMISSION_DENIED'', err_Error e)
      else if err_root e = ErrUserInactive then (403, ''USER_INACTIVE'', err_Error e)
      else if err_root e = ErrUserNotFound then (404, ''USER_NOT_FOUND'', err_Error e)
      else if err_root e = ErrRoleNotFound then (404, ''ROLE_NOT_FOUND'', err_Error e)
      else if err_root e = ErrUserAlreadyExists then (409, ''USER_ALREADY_EXISTS'', err_Error e)
      else (400, if err_root e = ErrTenantMismatch then ''TENANT_MISMATCH'' else ''INVALID_INPUT'', err_Error e))"
  unfolding mapDomainError_def auth_sentinels_def auth_error_defs errors_Is_Sentinel_iff by (simp add: Status_defs)

end
