(* ===== verification/Auth_Seed.thy ===== *)
theory Auth_Seed
  imports Auth_Accounts
begin

text \<open>
  auth-service: the seeding command \<open>cmd/seed/main.go\<close>, which creates three roles and an administrator
  in the system tenant unless it finds them. The run starts where the configuration is loaded and the
  database open and migrated; it gives the lines written to the standard output and, when it ends with
  \<open>os.Exit(1)\<close>, the line written to the standard error.
\<close>

section \<open>The seeded data\<close>

definition systemTenantID :: string where
  "systemTenantID = ''00000000-0000-0000-0000-000000000001''"

definition allPerms :: "(string \<times> string) list" where
  "allPerms =
     [(''*'', ''admin''), (''users'', ''read''), (''users'', ''write''), (''users'', ''delete''),
      (''roles'', ''read''), (''roles'', ''write''), (''roles'', ''delete''), (''tenants'', ''read''),
      (''tenants'', ''write'')]"

definition rwPerms :: "(string \<times> string) list" where
  "rwPerms = [(''users'', ''read''), (''users'', ''write''), (''roles'', ''read'')]"

definition readPerms :: "(string \<times> string) list" where
  "readPerms = [(''users'', ''read''), (''roles'', ''read''), (''tenants'', ''read'')]"

text \<open>Every permission of a list gets an identifier of its own.\<close>

fun seed_perms :: "(string \<times> string) list \<Rightarrow> 'a env_scheme \<Rightarrow> Permission list \<times> 'a env_scheme" where
  "seed_perms [] w = ([], w)"
| "seed_perms ((resource, action) # ps) w =
     (let (ident, w1) = uuid_NewString w;
          (perms, w2) = seed_perms ps w1
      in (\<lparr>pm_ID = ident, pm_Resource = resource, pm_Action = action\<rparr> # perms, w2))"

definition seed_role :: "string \<Rightarrow> string \<Rightarrow> Permission list \<Rightarrow> time \<Rightarrow> 'a env_scheme \<Rightarrow> Role \<times> 'a env_scheme" where
  "seed_role name description perms now w =
     (let (ident, w1) = uuid_NewString w
      in (\<lparr>role_ID = ident, role_TenantID = systemTenantID, role_Name = name, role_Description = description,
           role_Permissions = perms, role_CreatedAt = now, role_UpdatedAt = now\<rparr>, w1))"

definition seed_user :: "string \<Rightarrow> string \<Rightarrow> time \<Rightarrow> User" where
  "seed_user ident hash now =
     \<lparr>user_ID = ident, user_TenantID = systemTenantID, user_Email = ''admin@opsnexus.com'',
      user_PasswordHash = hash, user_FirstName = ''System'', user_LastName = ''Admin'',
      user_Status = UserStatusActive, user_Roles = [], user_CreatedAt = now, user_UpdatedAt = now\<rparr>"

section \<open>The run\<close>

type_synonym 'w seed_run = "'w \<Rightarrow> (string list \<times> string option) \<times> 'w"

definition seed_print :: "string \<Rightarrow> (string list \<times> string option) \<times> 'w \<Rightarrow> (string list \<times> string option) \<times> 'w" where
  "seed_print line r = (case r of ((lines, failure), w) \<Rightarrow> ((line # lines, failure), w))"

definition seed_exit :: "string \<Rightarrow> 'w seed_run" where
  "seed_exit line w = (([], Some line), w)"

text \<open>The lookup of a role answers \<open>nil\<close> after any error, which the loop does not look at.\<close>

fun seed_roles :: "'w RoleRepository \<Rightarrow> Role list \<Rightarrow> 'w seed_run \<Rightarrow> 'w seed_run" where
  "seed_roles roleRepo [] rest w = rest w"
| "seed_roles roleRepo (role # roles) rest w =
     (case rr_FindByName roleRepo systemTenantID (role_Name role) w of
        (Inr existing, w1) \<Rightarrow>
          seed_print (''Role '' @ role_Name role @ '' already exists, skipping.'') (seed_roles roleRepo roles rest w1)
      | (Inl _, w1) \<Rightarrow>
          (case rr_Create roleRepo role w1 of
             (Some e, w2) \<Rightarrow> seed_exit (''failed to create role '' @ role_Name role @ '': '' @ err_Error e) w2
           | (None, w2) \<Rightarrow> seed_print (''Created role: '' @ role_Name role) (seed_roles roleRepo roles rest w2)))"

definition seed_assign :: "'w RoleRepository \<Rightarrow> User \<Rightarrow> 'w seed_run \<Rightarrow> 'w seed_run" where
  "seed_assign roleRepo testUser rest w =
     (case rr_FindByName roleRepo systemTenantID ''super_admin'' w of
        (Inl e, w1) \<Rightarrow> seed_exit (''failed to find super_admin role: '' @ err_Error e) w1
      | (Inr sa, w1) \<Rightarrow>
          (case rr_AssignToUser roleRepo (user_ID testUser) (role_ID sa) w1 of
             (Some e, w2) \<Rightarrow> seed_exit (''failed to assign role: '' @ err_Error e) w2
           | (None, w2) \<Rightarrow> seed_print ''Assigned super_admin role to test user.'' (rest w2)))"

definition seed_account :: "'w RoleRepository \<Rightarrow> 'w UserRepository \<Rightarrow> User \<Rightarrow> 'w seed_run \<Rightarrow> 'w seed_run" where
  "seed_account roleRepo userRepo testUser rest w =
     (case ur_FindByTenantAndEmail userRepo systemTenantID (user_Email testUser) w of
        (Inr existing, w1) \<Rightarrow> seed_print ''Test user already exists, skipping.'' (rest w1)
      | (Inl _, w1) \<Rightarrow>
          (case ur_Create userRepo testUser w1 of
             (Some e, w2) \<Rightarrow> seed_exit (''failed to create test user: '' @ err_Error e) w2
           | (None, w2) \<Rightarrow>
               seed_print (''Created test user: '' @ user_Email testUser) (seed_assign roleRepo testUser rest w2)))"

definition seed_hash_user ::
  "auth_libs \<Rightarrow> 'a auth_env_scheme RoleRepository \<Rightarrow> 'a auth_env_scheme UserRepository \<Rightarrow> time
     \<Rightarrow> 'a auth_env_scheme seed_run" where
  "seed_hash_user libs roleRepo userRepo now w =
     (let (salt, w1) = rand_read w in
      case bcrypt_Generate libs salt ''Admin123!'' 12 of
        Inl e \<Rightarrow> seed_exit (''failed to hash password: '' @ err_Error e) w1
      | Inr hash \<Rightarrow>
          (let (ident, w2) = uuid_NewString w1
           in seed_account roleRepo userRepo (seed_user ident hash now)
                (\<lambda>w3. (([''Seeding complete.''], None), w3)) w2))"

definition auth_seed_main ::
  "auth_libs \<Rightarrow> 'a auth_env_scheme RoleRepository \<Rightarrow> 'a auth_env_scheme UserRepository
     \<Rightarrow> 'a auth_env_scheme seed_run" where
  "auth_seed_main libs roleRepo userRepo w =
     (let (perms1, w1) = seed_perms allPerms w;
          (perms2, w2) = seed_perms rwPerms w1;
          (perms3, w3) = seed_perms readPerms w2;
          (now, w4) = time_Now w3;
          (superAdminRole, w5) = seed_role ''super_admin'' ''Full system access'' perms1 now w4;
          (adminRole, w6) = seed_role ''admin'' ''Administrative access with read/write permissions'' perms2 now w5;
          (viewerRole, w7) = seed_role ''viewer'' ''Read-only access'' perms3 now w6
      in seed_roles roleRepo [superAdminRole, adminRole, viewerRole]
           (seed_hash_user libs roleRepo userRepo now) w7)"

end
