(* ===== verification/Auth_Seeded.thy ===== *)
theory Auth_Seeded
  imports Auth_Seed "HOL-Library.Sublist"
begin

text \<open>
  auth-service: what a run of the seeding command leaves in the database, what it does when it is run
  again, and the login of the seeded administrator.
\<close>

section \<open>Roles\<close>

abbreviation seed_names :: "string list" where
  "seed_names \<equiv> [''super_admin'', ''admin'', ''viewer'']"

definition system_role :: "auth_db \<Rightarrow> string \<Rightarrow> roleModel \<Rightarrow> bool" where
  "system_role db name m \<longleftrightarrow> adb_eq db (rm_TenantID m) systemTenantID \<and> adb_eq db (rm_Name m) name"

definition system_account :: "auth_db \<Rightarrow> userModel \<Rightarrow> bool" where
  "system_account db m \<longleftrightarrow> adb_eq db (um_TenantID m) systemTenantID \<and> adb_eq db (um_Email m) ''admin@opsnexus.com''"

text \<open>\<open>steady T\<close>: a lookup in \<open>T\<close> fails only where there is no such row.\<close>

definition steady :: "'m gorm_table \<Rightarrow> bool" where
  "steady T \<longleftrightarrow> (\<forall>P t e t'. gorm_First T P t = (Inl e, t') \<longrightarrow> errors_Is e ErrRecordNotFound)"

lemma roleRepository_simps [simp]:
  "rr_FindByName (roleRepository db) = roleRepository_FindByName db"
  "rr_Create (roleRepository db) = roleRepository_Create db"
  by (simp_all add: roleRepository_def)

lemma seed_print_None [simp]: "seed_print l r = ((ls, None), w) \<longleftrightarrow> (\<exists>ls'. r = ((ls', None), w) \<and> ls = l # ls')"
  by (auto simp: seed_print_def split: prod.splits)

lemma snd_seed_print [simp]: "snd (seed_print l r) = snd r"
  by (simp add: seed_print_def split: prod.splits)

text \<open>\<open>account_made\<close>: the user is new, its address was free, and its one role is the super administrator.\<close>

definition account_made :: "auth_db \<Rightarrow> User \<Rightarrow> auth_world \<Rightarrow> auth_world \<Rightarrow> bool" where
  "account_made db u w w' \<longleftrightarrow>
     (\<forall>x\<in>set (user_rows w). \<not> adb_eq db (um_Email x) (user_Email u)) \<and>
     (\<exists>m. \<exists>k\<in>set (role_rows w). user_rows w' = user_rows w @ [m] \<and> user_stored (fromDomainUser u) m \<and>
        system_role db ''super_admin'' k \<and> set (um_Roles m) = {k})"

lemma seed_perms_snd: "\<exists>u. snd (seed_perms ps w) = w\<lparr>env_uuids := u\<rparr>"
proof (induction ps arbitrary: w)
  case Nil
  have "w = w\<lparr>env_uuids := env_uuids w\<rparr>" by simp
  then show ?case by (metis seed_perms.simps(1) snd_conv)
next
  case (Cons p ps)
  obtain r a where p: "p = (r, a)" by force
  from Cons [of "w\<lparr>env_uuids := stl (env_uuids w)\<rparr>"] show ?case
    by (auto simp: p uuid_NewString_def Let_def split_beta)
qed

context auth_db_laws
begin

lemma FindByName_cases:
  assumes "roleRepository_FindByName db systemTenantID name w = (r, w')"
  obtains (found) m where "r = Inr (toDomainRole m)" "m \<in> set (role_rows w)" "system_role db name m"
      "user_rows w' = user_rows w" "role_rows w' = role_rows w"
  | (none) e e' where "r = Inl e" "user_rows w' = user_rows w" "role_rows w' = role_rows w"
      "errors_Is e' ErrRecordNotFound \<Longrightarrow> \<forall>m\<in>set (role_rows w). \<not> system_role db name m"
      "\<exists>P t t'. gorm_First (adb_roles db) P t = (Inl e', t')"
proof -
  obtain f t where f: "gorm_First (adb_roles db) (\<lambda>m. adb_eq db (rm_TenantID m) systemTenantID \<and> adb_eq db (rm_Name m) name)
      (aw_roles w) = (f, t)" by force
  note t = roles_t.first_rows [OF f]
  show ?thesis
  proof (cases f)
    case (Inl e)
    have "\<exists>P t t'. gorm_First (adb_roles db) P t = (Inl e, t')" using f Inl by blast
    from none [OF _ _ _ _ this] roles_t.first_none [OF f [unfolded Inl]] f t assms Inl show ?thesis
      by (auto simp: roleRepository_FindByName_def on_table_def system_role_def)
  next
    case (Inr m)
    with roles_t.first_ok [OF f [unfolded Inr]] f t assms found [of m] show ?thesis
      by (auto simp: roleRepository_FindByName_def on_table_def system_role_def)
  qed
qed

lemma role_Create_cases:
  assumes "roleRepository_Create db role w = (r, w')"
  obtains (stored) m where "rm_ID m = role_ID role" "rm_TenantID m = role_TenantID role" "rm_Name m = role_Name role"
      "role_rows w' = role_rows w @ [m]" "user_rows w' = user_rows w"
      "\<forall>x\<in>set (role_rows w). \<not> adb_eq db (rm_ID x) (rm_ID m)"
  | (failed) "r \<noteq> None" "role_rows w' = role_rows w" "user_rows w' = user_rows w"
proof -
  obtain r' t where c: "gorm_Create (adb_roles db) (fromDomainRole role) (aw_roles w) = (r', t)" by force
  with assms have w': "w' = w\<lparr>aw_roles := t\<rparr>" "r = wrap_err ''creating role: '' r'"
    by (auto simp: roleRepository_Create_def on_table_def)
  from roles_t.create [OF TrueI c] show ?thesis
  proof (elim disjE conjE)
    assume "inserted role_stored (\<lambda>x m. adb_eq db (rm_ID x) (rm_ID m)) (fromDomainRole role) (aw_roles w) t"
    then show ?thesis using w' by (auto simp: inserted_def fromDomainRole_def dest!: role_storedD intro: stored)
  qed (use w' in \<open>auto simp: wrap_err_def intro: failed\<close>)
qed

lemma apart_snoc:
  "apart db (map f xs) \<Longrightarrow> \<forall>x\<in>set xs. \<not> adb_eq db (f x) (f y) \<Longrightarrow> apart db (map f (xs @ [y]))"
  by (simp add: apart_def sorted_wrt_append)

text \<open>What the loop over the roles leaves when it gets through.\<close>

lemma seed_roles_done:
  assumes "seed_roles (roleRepository db) roles rest w = ((lines, None), w')"
    and "\<forall>r\<in>set roles. role_TenantID r = systemTenantID" and "apart db (map rm_ID (role_rows w))"
  shows "\<exists>v lines' new. rest v = ((lines', None), w') \<and> user_rows v = user_rows w \<and> role_rows v = role_rows w @ new \<and>
    subseq (map rm_Name new) (map role_Name roles) \<and> (\<forall>m\<in>set new. rm_TenantID m = systemTenantID) \<and>
    apart db (map rm_ID (role_rows v)) \<and> (\<forall>r\<in>set roles. \<exists>m\<in>set (role_rows v). system_role db (role_Name r) m) \<and>
    (steady (adb_roles db) \<longrightarrow> (\<forall>m\<in>set new. \<forall>x\<in>set (role_rows w). \<not> system_role db (rm_Name m) x))"
  using assms
proof (induction roles arbitrary: w lines)
  case (Cons role roles)
  obtain f w1 where f: "roleRepository_FindByName db systemTenantID (role_Name role) w = (f, w1)" by force
  from f show ?case
  proof (cases rule: FindByName_cases)
    case (found m)
    with Cons.prems f obtain ls where "seed_roles (roleRepository db) roles rest w1 = ((ls, None), w')" by auto
    from Cons.IH [OF this] Cons.prems found obtain v lines' new where
      "rest v = ((lines', None), w')" "user_rows v = user_rows w" "role_rows v = role_rows w @ new"
      "subseq (map rm_Name new) (map role_Name roles)" "\<forall>m\<in>set new. rm_TenantID m = systemTenantID"
      "apart db (map rm_ID (role_rows v))" "\<forall>r\<in>set roles. \<exists>m\<in>set (role_rows v). system_role db (role_Name r) m"
      "steady (adb_roles db) \<longrightarrow> (\<forall>m\<in>set new. \<forall>x\<in>set (role_rows w). \<not> system_role db (rm_Name m) x)"
      by auto
    moreover from this found have "m \<in> set (role_rows v)" by simp
    ultimately show ?thesis using found(3)
      by (intro exI [of _ v] exI [of _ lines'] exI [of _ new]) auto
  next
    case (none e e')
    obtain c w2 where c: "roleRepository_Create db role w1 = (c, w2)" by force
    from c show ?thesis
    proof (cases rule: role_Create_cases)
      case failed
      then show ?thesis using Cons.prems f none c by (auto simp: seed_exit_def)
    next
      case (stored m)
      have "c = None" using Cons.prems(1) f none c by (auto simp: seed_exit_def split: option.splits)
      with Cons.prems f none c obtain ls where run: "seed_roles (roleRepository db) roles rest w2 = ((ls, None), w')" by auto
      have "apart db (map rm_ID (role_rows w2))" using Cons.prems(3) stored none by (simp only: apart_snoc)
      from Cons.IH [OF run _ this] Cons.prems stored none obtain v lines' new where v:
        "rest v = ((lines', None), w')" "user_rows v = user_rows w" "role_rows v = role_rows w @ m # new"
        "subseq (map rm_Name new) (map role_Name roles)" "\<forall>m\<in>set new. rm_TenantID m = systemTenantID"
        "apart db (map rm_ID (role_rows v))" "\<forall>r\<in>set roles. \<exists>m\<in>set (role_rows v). system_role db (role_Name r) m"
        "steady (adb_roles db) \<longrightarrow> (\<forall>m\<in>set new. \<forall>x\<in>set (role_rows w). \<not> system_role db (rm_Name m) x)"
        by auto
      have missing: "\<forall>x\<in>set (role_rows w). \<not> system_role db (rm_Name m) x" if "steady (adb_roles db)"
        using none(4,5) that stored(3) by (auto simp: steady_def)
      have "system_role db (role_Name role) m" using stored Cons.prems(2) eq_refl by (simp add: system_role_def)
      with v missing stored Cons.prems(2) show ?thesis
        by (intro exI [of _ v] exI [of _ lines'] exI [of _ "m # new"]) auto
    qed
  qed
qed auto

text \<open>An account that is there stays as it is, whatever the rest of the run does.\<close>

lemma seed_roles_users:
  "(\<And>v. user_rows v = U \<Longrightarrow> user_rows (snd (rest v)) = U) \<Longrightarrow> user_rows w = U \<Longrightarrow>
     user_rows (snd (seed_roles (roleRepository db) roles rest w)) = U"
proof (induction roles arbitrary: w)
  case (Cons role roles)
  obtain f w1 where f: "roleRepository_FindByName db systemTenantID (role_Name role) w = (f, w1)" by force
  obtain c w2 where c: "roleRepository_Create db role w1 = (c, w2)" by force
  have "user_rows w1 = U" using f by (cases rule: FindByName_cases) (simp_all add: Cons.prems)
  moreover from c this have "user_rows w2 = U" by (cases rule: role_Create_cases) simp_all
  ultimately show ?case using Cons f c by (simp add: seed_exit_def split: sum.split option.split)
qed simp

section \<open>The account\<close>

lemma user_Create_stored:
  assumes "userRepository_Create db u w = (None, w')" "user_Status u \<noteq> ''''"
  obtains m where "user_stored (fromDomainUser u) m" "user_rows w' = user_rows w @ [m]" "um_Roles m = []"
    "role_rows w' = role_rows w" "\<forall>x\<in>set (user_rows w). \<not> user_conflict db x (fromDomainUser u)"
proof -
  from assms(1) obtain t where c: "gorm_Create (adb_users db) (fromDomainUser u) (aw_users w) = (None, t)"
    and w': "w' = w\<lparr>aw_users := t\<rparr>"
    by (auto simp: userRepository_Create_def on_table_def Let_def wrap_err_def split: prod.splits option.splits)
  have st: "um_Status (fromDomainUser u) \<noteq> ''''" using assms(2) by (simp add: fromDomainUser_def)
  from users_t.create_okE [OF this c] obtain m where m: "user_stored (fromDomainUser u) m" "rows t = user_rows w @ [m]"
    "\<forall>x\<in>set (user_rows w). \<not> user_conflict db x (fromDomainUser u)" by blast
  then have "m \<notin> set (user_rows w)"
    using user_storedD [OF m(1)] eq_refl by (auto simp: user_conflict_def)
  with create_roles [OF c, of m] m w' that show ?thesis by (simp add: fromDomainUser_def)
qed

lemma user_stored_trans: "user_stored a b \<Longrightarrow> user_stored b c \<Longrightarrow> user_stored a c"
  by (cases a; cases b; cases c) (simp add: user_stored_def)

text \<open>Assigning a role to the user that was appended last.\<close>

lemma assign_last:
  assumes "roleRepository_AssignToUser db (um_ID m) (rm_ID k) w = (None, w')"
    and rows: "user_rows w = us @ [m]" "\<forall>x\<in>set us. \<not> adb_eq db (um_ID x) (um_ID m)" "um_Roles m = []"
    and k: "k \<in> set (role_rows w)" "apart db (map rm_ID (role_rows w))"
  shows "role_rows w' = role_rows w \<and> (\<exists>y. user_rows w' = us @ [y] \<and> user_stored m y \<and> set (um_Roles y) = {k})"
proof -
  obtain fu t1 where f: "gorm_First (adb_users db) (\<lambda>x. adb_eq db (um_ID x) (um_ID m)) (aw_users w) = (fu, t1)" by force
  obtain fr t2 where g: "gorm_First (adb_roles db) (\<lambda>x. adb_eq db (rm_ID x) (rm_ID k)) (aw_roles w) = (fr, t2)" by force
  from assms(1) f g obtain u r where u: "fu = Inr u" and r: "fr = Inr r"
    by (auto simp: roleRepository_AssignToUser_def on_table_def split: sum.splits)
  have "u = m" using users_t.first_ok [OF f [unfolded u]] rows by auto
  have "r = k" using roles_t.first_ok [OF g [unfolded r]] apart_eq [OF k(2), of r k] k(1) by auto
  note same = users_t.first_rows [OF f] roles_t.first_rows [OF g]
  obtain t3 where ap: "adb_AppendRole db m k t1 = (None, t3)" and w': "w' = w\<lparr>aw_roles := t2, aw_users := t3\<rparr>"
    using assms(1) f g u r \<open>u = m\<close> \<open>r = k\<close>
    by (auto simp: roleRepository_AssignToUser_def on_table_def wrap_err_def Let_def split: prod.splits option.splits)
  from append [OF ap] have "role_appended m k t1 t3" by simp
  then have rel: "list_all2 (\<lambda>x y. if um_ID x = um_ID m then user_stored x y \<and> set (um_Roles y) = insert k (set (um_Roles x))
      else y = x) (us @ [m]) (rows t3)" using rows(1) same by (simp add: role_appended_def)
  then obtain us' y where t3: "rows t3 = us' @ [y]" and tail: "user_stored m y" "set (um_Roles y) = {k}"
    and init: "list_all2 (\<lambda>x y. if um_ID x = um_ID m then user_stored x y \<and> set (um_Roles y) = insert k (set (um_Roles x))
      else y = x) us us'" using rows(3) by (auto simp: list_all2_append1 list_all2_Cons1)
  have "list_all2 (\<lambda>x y. y = x) us us'"
    using init by (rule list.rel_mono_strong) (use rows(2) eq_refl in \<open>metis\<close>)
  then have "us' = us" by (simp add: list_all2_conv_all_nth list_eq_iff_nth_eq)
  with t3 tail w' same show ?thesis by simp
qed

lemma FindAccount_cases:
  assumes "userRepository_FindByTenantAndEmail db systemTenantID ''admin@opsnexus.com'' w = (r, w')"
  obtains (found) m v where "r = Inr v" "m \<in> set (user_rows w)" "system_account db m"
      "user_rows w' = user_rows w" "role_rows w' = role_rows w"
  | (none) e where "r = Inl e" "user_rows w' = user_rows w" "role_rows w' = role_rows w"
proof (cases r)
  case (Inl e) then show ?thesis using keeps_lookups(3) [THEN keepsD, OF assms] none by simp
next
  case (Inr v)
  with assms have "\<exists>m\<in>set (user_rows w). system_account db m"
    by (auto simp: userRepository_FindByTenantAndEmail_def on_table_def system_account_def dest!: users_t.first_ok
        split: prod.splits sum.splits)
  then show ?thesis using Inr keeps_lookups(3) [THEN keepsD, OF assms] found by auto
qed

lemma seed_account_done:
  assumes run: "seed_account (roleRepository db) (userRepository db) u (\<lambda>v. ((ls, None), v)) w = ((lines, None), w')"
    and u: "user_Status u \<noteq> ''''" "user_Email u = ''admin@opsnexus.com''" and ap: "apart db (map rm_ID (role_rows w))"
  shows "role_rows w' = role_rows w \<and>
    (user_rows w' = user_rows w \<and> (\<exists>m\<in>set (user_rows w). system_account db m) \<or> account_made db u w w')"
proof -
  obtain f w1 where f: "userRepository_FindByTenantAndEmail db systemTenantID (user_Email u) w = (f, w1)" by force
  from f [unfolded u] show ?thesis
  proof (cases rule: FindAccount_cases)
    case found then show ?thesis using run f u by (auto simp: seed_account_def)
  next
    case (none e)
    with run f obtain w2 ls' where c: "userRepository_Create db u w1 = (None, w2)"
      and a: "seed_assign (roleRepository db) u (\<lambda>v. ((ls, None), v)) w2 = ((ls', None), w')"
      by (auto simp: seed_account_def seed_exit_def split: option.splits prod.splits)
    from user_Create_stored [OF c u(1)] none obtain m where m: "user_stored (fromDomainUser u) m"
      "user_rows w2 = user_rows w @ [m]" "um_Roles m = []" "role_rows w2 = role_rows w"
      "\<forall>x\<in>set (user_rows w). \<not> user_conflict db x (fromDomainUser u)" by metis
    have mid: "um_ID m = user_ID u" using user_storedD [OF m(1)] by (simp add: fromDomainUser_def)
    obtain g w3 where g: "roleRepository_FindByName db systemTenantID ''super_admin'' w2 = (g, w3)" by force
    from g show ?thesis
    proof (cases rule: FindByName_cases)
      case (found k)
      with a g mid have "roleRepository_AssignToUser db (um_ID m) (rm_ID k) w3 = (None, w')"
        by (auto simp: seed_assign_def seed_exit_def toDomainRole_def split: option.splits prod.splits)
      from assign_last [OF this] found m mid ap obtain y where
        y: "role_rows w' = role_rows w" "user_rows w' = user_rows w @ [y]" "user_stored m y" "set (um_Roles y) = {k}"
        by (auto simp: user_conflict_def fromDomainUser_def)
      with found m user_stored_trans [OF m(1) y(3)] show ?thesis
        unfolding account_made_def by (auto simp: user_conflict_def fromDomainUser_def)
    qed (use a g in \<open>simp add: seed_assign_def seed_exit_def\<close>)
  qed
qed

text \<open>What a run that ends with the line "Seeding complete." leaves.\<close>

lemma seed_done:
  assumes run: "auth_seed_main libs (roleRepository db) (userRepository db) w = ((lines, None), w')"
    and ap: "apart db (map rm_ID (role_rows w))"
  shows "\<exists>new v u salt. role_rows w' = role_rows w @ new \<and> subseq (map rm_Name new) seed_names \<and>
    (\<forall>m\<in>set new. rm_TenantID m = systemTenantID) \<and> (\<forall>n\<in>set seed_names. \<exists>m\<in>set (role_rows w'). system_role db n m) \<and>
    (steady (adb_roles db) \<longrightarrow> (\<forall>m\<in>set new. \<forall>x\<in>set (role_rows w). \<not> system_role db (rm_Name m) x)) \<and>
    user_rows v = user_rows w \<and> role_rows v = role_rows w' \<and>
    (\<exists>ident hash now. u = seed_user ident hash now \<and> bcrypt_Generate libs salt ''Admin123!'' 12 = Inr hash) \<and>
    (user_rows w' = user_rows w \<and> (\<exists>m\<in>set (user_rows w). system_account db m) \<or> account_made db u v w')"
proof -
  let ?rest = "\<lambda>now. seed_hash_user libs (roleRepository db) (userRepository db) now"
  obtain p1 w1 p2 w2 p3 w3 where p: "seed_perms allPerms w = (p1, w1)" "seed_perms rwPerms w1 = (p2, w2)"
    "seed_perms readPerms w2 = (p3, w3)" by (metis surj_pair)
  have w3: "user_rows w3 = user_rows w" "role_rows w3 = role_rows w"
    using seed_perms_snd [of allPerms w] seed_perms_snd [of rwPerms w1] seed_perms_snd [of readPerms w2] p by auto
  obtain r1 r2 r3 now w7 where s: "seed_roles (roleRepository db) [r1, r2, r3] (?rest now) w7 = ((lines, None), w')"
    and r: "map role_Name [r1, r2, r3] = seed_names" "\<forall>r\<in>set [r1, r2, r3]. role_TenantID r = systemTenantID"
    and w7: "user_rows w7 = user_rows w" "role_rows w7 = role_rows w"
    using run p w3 by (auto simp: auth_seed_main_def seed_role_def time_Now_def uuid_NewString_def Let_def)
  from seed_roles_done [OF s r(2), unfolded r(1) w7, OF ap] obtain v lines' new where
    rest: "?rest now v = ((lines', None), w')" and v: "user_rows v = user_rows w" "role_rows v = role_rows w @ new"
      "subseq (map rm_Name new) seed_names" "\<forall>m\<in>set new. rm_TenantID m = systemTenantID" "apart db (map rm_ID (role_rows v))"
      "\<forall>r\<in>set [r1, r2, r3]. \<exists>m\<in>set (role_rows v). system_role db (role_Name r) m"
      "steady (adb_roles db) \<longrightarrow> (\<forall>m\<in>set new. \<forall>x\<in>set (role_rows w). \<not> system_role db (rm_Name m) x)"
    by blast
  have names: "role_Name ` set [r1, r2, r3] = set seed_names" using r(1) by (metis list.set_map)
  from rest obtain hash ident v' where hash: "bcrypt_Generate libs (shd (env_entropy v)) ''Admin123!'' 12 = Inr hash"
    and acc: "seed_account (roleRepository db) (userRepository db) (seed_user ident hash now)
      (\<lambda>w3. (([''Seeding complete.''], None), w3)) v' = ((lines', None), w')"
    and v': "user_rows v' = user_rows v" "role_rows v' = role_rows v"
    by (auto simp: seed_hash_user_def rand_read_def uuid_NewString_def seed_exit_def Let_def split: sum.splits)
  have u: "user_Status (seed_user ident hash now) \<noteq> ''''" "user_Email (seed_user ident hash now) = ''admin@opsnexus.com''"
    by (simp_all add: seed_user_def UserStatusActive_def)
  from seed_account_done [OF acc u] v v' hash show ?thesis unfolding names [symmetric] ball_simps
    by (intro exI [of _ new] exI [of _ v'] exI [of _ "seed_user ident hash now"] exI [of _ "shd (env_entropy v)"]) auto
qed

lemma seed_keeps_users:
  assumes x: "x \<in> set (user_rows w)" "adb_eq db (um_Email x) ''admin@opsnexus.com''"
  shows "user_rows (snd (auth_seed_main libs (roleRepository db) (userRepository db) w)) = user_rows w"
proof -
  have acc: "user_rows (snd (seed_account (roleRepository db) (userRepository db) (seed_user ident hash now)
      (\<lambda>v. ((ls, None), v)) v)) = user_rows w" if v: "user_rows v = user_rows w" for ident hash now ls v
  proof -
    let ?u = "seed_user ident hash now"
    obtain f v1 where f: "userRepository_FindByTenantAndEmail db systemTenantID (user_Email ?u) v = (f, v1)" by force
    then have f': "userRepository_FindByTenantAndEmail db systemTenantID ''admin@opsnexus.com'' v = (f, v1)"
      by (simp add: seed_user_def)
    obtain c v2 where c: "userRepository_Create db ?u v1 = (c, v2)" by force
    have v1: "user_rows v1 = user_rows w" using f' by (cases rule: FindAccount_cases) (simp_all add: v)
    have "user_Status ?u \<noteq> ''''" by (simp add: seed_user_def UserStatusActive_def)
    with c have "c \<noteq> None \<and> user_rows v2 = user_rows w"
    proof (cases rule: user_Create_cases)
      case (stored m)
      then show ?thesis using x v1 by (auto simp: user_conflict_def fromDomainUser_def seed_user_def)
    qed (simp add: v1)
    with f c v1 show ?thesis by (auto simp: seed_account_def seed_exit_def split: sum.split)
  qed
  have rest: "user_rows (snd (seed_hash_user libs (roleRepository db) (userRepository db) now v)) = user_rows w"
    if "user_rows v = user_rows w" for now v
    using that by (auto simp: seed_hash_user_def rand_read_def uuid_NewString_def seed_exit_def Let_def acc split: sum.split)
  obtain p1 w1 p2 w2 p3 w3 where p: "seed_perms allPerms w = (p1, w1)" "seed_perms rwPerms w1 = (p2, w2)"
    "seed_perms readPerms w2 = (p3, w3)" by (metis surj_pair)
  have "user_rows w3 = user_rows w"
    using seed_perms_snd [of allPerms w] seed_perms_snd [of rwPerms w1] seed_perms_snd [of readPerms w2] p by auto
  with p show ?thesis
    by (simp add: auth_seed_main_def seed_role_def time_Now_def uuid_NewString_def Let_def seed_roles_users rest
        del: seed_roles.simps)
qed

text \<open>After a run that made the account, the login of the administrator is not refused.\<close>

lemma seed_login:
  assumes libs: "auth_libs_laws libs" and ap: "apart db (map rm_ID (role_rows w))"
    and run: "auth_seed_main libs (roleRepository db) (userRepository db) w = ((lines, None), w')"
    and new: "\<forall>x\<in>set (user_rows w). \<not> adb_eq db (um_Email x) ''admin@opsnexus.com''"
    and find: "userRepository_FindByEmail db ''admin@opsnexus.com'' w' = (Inr v, w2)"
  shows "(\<exists>k\<in>set (role_rows w'). system_role db ''super_admin'' k \<and> set (user_Roles v) = {toDomainRole k}) \<and>
    fst (authService_Login (auth_service db libs secret ac rf)
      \<lparr>lg_Email = ''admin@opsnexus.com'', lg_Password = ''Admin123!''\<rparr> w')
      \<notin> {Inl ErrInvalidCredentials, Inl ErrUserInactive, Inl auth_ErrInvalidInput}"
proof -
  from seed_done [OF run ap] new obtain x u salt ident hash now where
    rows: "role_rows x = role_rows w'" "user_rows x = user_rows w" and u: "u = seed_user ident hash now"
    and h: "bcrypt_Generate libs salt ''Admin123!'' 12 = Inr hash" and made: "account_made db u x w'"
    by (auto simp: system_account_def)
  from made rows obtain m k where m: "user_rows w' = user_rows w @ [m]" "user_stored (fromDomainUser u) m"
    and k: "k \<in> set (role_rows w')" "system_role db ''super_admin'' k" "set (um_Roles m) = {k}"
    by (auto simp: account_made_def)
  obtain g t where g: "gorm_First (adb_users db) (\<lambda>m. adb_eq db (um_Email m) ''admin@opsnexus.com'') (aw_users w') = (g, t)" by force
  with find obtain y where y: "g = Inr y" "v = toDomainUser y"
    by (cases g) (auto simp: userRepository_FindByEmail_def on_table_def)
  from users_t.first_ok [OF g [unfolded y(1)]] m new have "y = m" by auto
  have v: "user_PasswordHash v = hash" "user_Status v = UserStatusActive" "set (user_Roles v) = {toDomainRole k}"
    using user_storedD [OF m(2)] y \<open>y = m\<close> u k by (simp_all add: toDomainUser_def fromDomainUser_def seed_user_def)
  have "TrimSpace ''admin@opsnexus.com'' = ''admin@opsnexus.com''"
    "is_ascii ''admin@opsnexus.com'' \<and> map ascii_lower ''admin@opsnexus.com'' = ''admin@opsnexus.com''" by code_simp+
  then have "strings_ToLower w' (TrimSpace ''admin@opsnexus.com'') = ''admin@opsnexus.com''"
    by (simp add: strings_ToLower_def)
  with find v auth_libs_laws.hash_matches [OF libs h] k show ?thesis
    by (auto simp: authService_Login_def User_IsActive_def Let_def auth_error_defs split: sum.splits prod.splits option.splits)
qed

end

section \<open>Running the command again\<close>

definition skip_lines :: "string list" where
  "skip_lines =
     [''Role super_admin already exists, skipping.'', ''Role admin already exists, skipping.'',
      ''Role viewer already exists, skipping.'', ''Test user already exists, skipping.'', ''Seeding complete.'']"

context auth_db_laws
begin

lemma steady_FindByName:
  assumes "steady (adb_roles db)" "m \<in> set (role_rows w)" "system_role db name m"
  obtains r w' where "roleRepository_FindByName db systemTenantID name w = (Inr r, w')"
    "user_rows w' = user_rows w" "role_rows w' = role_rows w"
proof -
  obtain f w' where f: "roleRepository_FindByName db systemTenantID name w = (f, w')" by force
  then show ?thesis
    by (cases rule: FindByName_cases) (use f assms that in \<open>auto simp: steady_def\<close>)
qed

lemma steady_FindAccount:
  assumes "steady (adb_users db)" "m \<in> set (user_rows w)" "system_account db m"
  obtains u w' where "userRepository_FindByTenantAndEmail db systemTenantID ''admin@opsnexus.com'' w = (Inr u, w')"
    "user_rows w' = user_rows w" "role_rows w' = role_rows w"
proof -
  obtain g t where g: "gorm_First (adb_users db)
      (\<lambda>m. adb_eq db (um_TenantID m) systemTenantID \<and> adb_eq db (um_Email m) ''admin@opsnexus.com'') (aw_users w) = (g, t)"
    by force
  obtain y where y: "g = Inr y"
  proof (cases g)
    case (Inl e)
    then have "errors_Is e ErrRecordNotFound" using g assms(1) unfolding steady_def by blast
    with users_t.first_none [OF g [unfolded Inl] _ assms(2)] assms(3) show ?thesis by (simp add: system_account_def)
  qed
  with g users_t.first_rows [OF g] that show ?thesis
    by (auto simp: userRepository_FindByTenantAndEmail_def on_table_def)
qed

lemma seed_again:
  assumes st: "steady (adb_roles db)" "steady (adb_users db)"
    and roles: "\<forall>n\<in>set seed_names. \<exists>m\<in>set (role_rows w). system_role db n m"
    and acc: "\<exists>m\<in>set (user_rows w). system_account db m"
    and salts: "\<And>salt. \<exists>h. bcrypt_Generate libs salt ''Admin123!'' 12 = Inr h"
  shows "\<exists>w'. auth_seed_main libs (roleRepository db) (userRepository db) w = ((skip_lines, None), w') \<and>
    user_rows w' = user_rows w \<and> role_rows w' = role_rows w"
proof -
  let ?same = "\<lambda>v. user_rows v = user_rows w \<and> role_rows v = role_rows w"
  have role: "\<exists>r v'. roleRepository_FindByName db systemTenantID n v = (Inr r, v') \<and> ?same v'"
    if "n \<in> set seed_names" "?same v" for n v
    using that roles steady_FindByName [OF st(1), of _ v n] by metis
  have rest: "\<exists>v'. seed_hash_user libs (roleRepository db) (userRepository db) now v =
      (([''Test user already exists, skipping.'', ''Seeding complete.''], None), v') \<and> ?same v'"
    if v: "?same v" for now v
  proof -
    obtain h where h: "bcrypt_Generate libs (shd (env_entropy v)) ''Admin123!'' 12 = Inr h" using salts by blast
    let ?v = "v\<lparr>env_entropy := stl (env_entropy v), env_uuids := stl (env_uuids v)\<rparr>"
    obtain m where m: "m \<in> set (user_rows ?v)" "system_account db m" using acc v by auto
    obtain u v' where "userRepository_FindByTenantAndEmail db systemTenantID ''admin@opsnexus.com'' ?v = (Inr u, v')"
      "?same v'" by (rule steady_FindAccount [OF st(2) m]) (use v that in simp)
    with h show ?thesis
      by (simp add: seed_hash_user_def rand_read_def uuid_NewString_def seed_account_def seed_user_def Let_def seed_print_def)
  qed
  obtain p1 w1 p2 w2 p3 w3 where p: "seed_perms allPerms w = (p1, w1)" "seed_perms rwPerms w1 = (p2, w2)"
    "seed_perms readPerms w2 = (p3, w3)" by (metis surj_pair)
  let ?w = "w3\<lparr>env_clock := stl (env_clock w3), env_uuids := stl (stl (stl (env_uuids w3)))\<rparr>"
  have "?same ?w"
    using seed_perms_snd [of allPerms w] seed_perms_snd [of rwPerms w1] seed_perms_snd [of readPerms w2] p by auto
  then obtain r1 v1 r2 v2 r3 v3 v4 where
    "roleRepository_FindByName db systemTenantID ''super_admin'' ?w = (Inr r1, v1)"
    "roleRepository_FindByName db systemTenantID ''admin'' v1 = (Inr r2, v2)"
    "roleRepository_FindByName db systemTenantID ''viewer'' v2 = (Inr r3, v3)"
    and "seed_hash_user libs (roleRepository db) (userRepository db) (shd (env_clock w3)) v3 =
      (([''Test user already exists, skipping.'', ''Seeding complete.''], None), v4)" "?same v4"
    using role rest by (metis list.set_intros)
  with p show ?thesis
    by (simp add: auth_seed_main_def seed_role_def time_Now_def uuid_NewString_def Let_def skip_lines_def seed_print_def)
qed

end

text \<open>The reference database with lookups that do not fail.\<close>

definition steady_table :: "'m gorm_table \<Rightarrow> 'm gorm_table" where
  "steady_table T =
     T\<lparr>gorm_First := (\<lambda>P t. (case find P (rows t) of None \<Rightarrow> Inl ErrRecordNotFound | Some m \<Rightarrow> Inr m, t))\<rparr>"

lemma steady_steady_table: "steady (steady_table T)"
  by (auto simp: steady_def steady_table_def split: option.splits)

lemma steady_table_laws:
  assumes "gorm_table_laws T key conflict eqv ready"
  shows "gorm_table_laws (steady_table T) key conflict eqv ready"
proof -
  note L = assms [THEN gorm_table_laws.create] assms [THEN gorm_table_laws.save] assms [THEN gorm_table_laws.find_rows]
    assms [THEN gorm_table_laws.find_ok] assms [THEN gorm_table_laws.count_rows] assms [THEN gorm_table_laws.count_ok]
    assms [THEN gorm_table_laws.update] assms [THEN gorm_table_laws.delete] assms [THEN gorm_table_laws.eqv_key]
  have other: "gorm_Create (steady_table T) = gorm_Create T" "gorm_Save (steady_table T) = gorm_Save T"
    "gorm_Find (steady_table T) = gorm_Find T" "gorm_Count (steady_table T) = gorm_Count T"
    "gorm_Update (steady_table T) = gorm_Update T" "gorm_Delete (steady_table T) = gorm_Delete T"
    by (simp_all add: steady_table_def)
  have first: "rows t' = rows t" "r = Inr m \<Longrightarrow> m \<in> set (rows t) \<and> P m" "r = Inl e \<Longrightarrow> x \<in> set (rows t) \<Longrightarrow> \<not> P x"
    if "gorm_First (steady_table T) P t = (r, t')" for P t r t' m e x
    using that by (auto simp: steady_table_def find_Some_iff find_None_iff split: option.splits)
  show ?thesis
  proof (unfold_locales, goal_cases)
    case 1 then show ?case unfolding other by (rule L(1))
  next
    case 2 then show ?case by (rule first(1))
  next
    case 3 from first(2) [OF 3] show ?case by simp
  next
    case 4 from first(3) [OF 4(1)] 4(3) show ?case by simp
  next
    case 5 then show ?case unfolding other by (rule L(2))
  next
    case 6 then show ?case unfolding other by (rule L(3))
  next
    case 7 then show ?case unfolding other by (rule L(4))
  next
    case 8 then show ?case unfolding other by (rule L(5))
  next
    case 9 then show ?case unfolding other by (rule L(6))
  next
    case 10 then show ?case unfolding other by (rule L(7))
  next
    case 11 then show ?case unfolding other by (rule L(8))
  next
    case 12 then show ?case by (rule L(9))
  qed
qed

definition steady_auth_db :: auth_db where
  "steady_auth_db = mem_auth_db\<lparr>adb_users := steady_table (adb_users mem_auth_db), adb_roles := steady_table (adb_roles mem_auth_db)\<rparr>"

lemma steady_auth_simps:
  "adb_eq steady_auth_db = (=)" "gorm_Create (adb_users steady_auth_db) = gorm_Create (adb_users mem_auth_db)"
  "gorm_Save (adb_users steady_auth_db) = gorm_Save (adb_users mem_auth_db)"
  "adb_AppendRole steady_auth_db = adb_AppendRole mem_auth_db" "adb_tokens steady_auth_db = adb_tokens mem_auth_db"
  "adb_users steady_auth_db = steady_table (adb_users mem_auth_db)" "adb_roles steady_auth_db = steady_table (adb_roles mem_auth_db)"
  "adb_eq mem_auth_db = (=)" "user_conflict steady_auth_db = user_conflict mem_auth_db"
  "token_conflict steady_auth_db = token_conflict mem_auth_db"
  by (simp_all add: steady_auth_db_def steady_table_def mem_auth_db_def user_conflict_def [abs_def] token_conflict_def [abs_def])

interpretation steady_auth: auth_db_laws steady_auth_db
proof (rule auth_db_laws.intro, goal_cases)
  case 4 show ?case unfolding steady_auth_simps(6,9) by (rule steady_table_laws [OF mem_auth.users_laws])
next
  case 5 show ?case unfolding steady_auth_simps(1,7)
    by (rule steady_table_laws [OF mem_auth.roles_laws [unfolded steady_auth_simps(8)]])
next
  case 6 show ?case unfolding steady_auth_simps(5,10) by (rule mem_auth.tokens_laws)
next
  case (7 m t r t' y) then show ?case unfolding steady_auth_simps(2) by (rule mem_auth.create_roles)
next
  case (8 m t r t') then show ?case unfolding steady_auth_simps(3) by (rule mem_auth.save_roles)
next
  case (9 user role t r t') then show ?case unfolding steady_auth_simps(4) by (rule mem_auth.append)
qed (simp_all add: steady_auth_simps(1))

section \<open>The properties\<close>

abbreviation seed_run :: "auth_db \<Rightarrow> auth_libs \<Rightarrow> auth_world seed_run" where
  "seed_run db libs \<equiv> auth_seed_main libs (roleRepository db) (userRepository db)"

text \<open>
  C23: A run of the seeding command that ends without a failure leaves each of the three roles in the
  system tenant. It adds at most one row for each, in this order, and no other role; where the lookup of a role
  fails only for a role that is not there, each role it adds was missing before. It either finds the account of the administrator and leaves the
  users as they are, or adds exactly that account: its address was free, it is active, its password is a
  hash of the seeded one, and its one role is the super administrator.
\<close>

theorem seed_outcome:
  assumes "auth_db_laws db" "apart db (map rm_ID (role_rows w))" "seed_run db libs w = ((lines, None), w')"
  shows "(\<exists>new. role_rows w' = role_rows w @ new \<and> subseq (map rm_Name new) [''super_admin'', ''admin'', ''viewer''] \<and>
      (\<forall>m\<in>set new. rm_TenantID m = systemTenantID) \<and>
      (steady (adb_roles db) \<longrightarrow> (\<forall>m\<in>set new. \<forall>x\<in>set (role_rows w).
         \<not> (adb_eq db (rm_TenantID x) systemTenantID \<and> adb_eq db (rm_Name x) (rm_Name m))))) \<and>
    (\<forall>n\<in>{''super_admin'', ''admin'', ''viewer''}. \<exists>m\<in>set (role_rows w').
      adb_eq db (rm_TenantID m) systemTenantID \<and> adb_eq db (rm_Name m) n) \<and>
    (user_rows w' = user_rows w \<and>
      (\<exists>m\<in>set (user_rows w). adb_eq db (um_TenantID m) systemTenantID \<and> adb_eq db (um_Email m) ''admin@opsnexus.com'') \<or>
     (\<exists>m salt. \<exists>k\<in>set (role_rows w'). user_rows w' = user_rows w @ [m] \<and>
        (\<forall>x\<in>set (user_rows w). \<not> adb_eq db (um_Email x) ''admin@opsnexus.com'') \<and>
        um_TenantID m = systemTenantID \<and> um_Email m = ''admin@opsnexus.com'' \<and> um_Status m = UserStatusActive \<and>
        bcrypt_Generate libs salt ''Admin123!'' 12 = Inr (um_PasswordHash m) \<and> set (um_Roles m) = {k} \<and>
        adb_eq db (rm_TenantID k) systemTenantID \<and> adb_eq db (rm_Name k) ''super_admin''))"
proof -
  from auth_db_laws.seed_done [OF assms(1,3,2)] obtain new v u salt ident hash now where
    r: "role_rows w' = role_rows w @ new" "subseq (map rm_Name new) seed_names" "\<forall>m\<in>set new. rm_TenantID m = systemTenantID"
      "\<forall>n\<in>set seed_names. \<exists>m\<in>set (role_rows w'). system_role db n m"
      "steady (adb_roles db) \<longrightarrow> (\<forall>m\<in>set new. \<forall>x\<in>set (role_rows w). \<not> system_role db (rm_Name m) x)"
    and v: "user_rows v = user_rows w" "role_rows v = role_rows w'"
    and u: "u = seed_user ident hash now" "bcrypt_Generate libs salt ''Admin123!'' 12 = Inr hash"
    and acc: "user_rows w' = user_rows w \<and> (\<exists>m\<in>set (user_rows w). system_account db m) \<or> account_made db u v w'"
    by blast
  from acc have "user_rows w' = user_rows w \<and> (\<exists>m\<in>set (user_rows w). system_account db m) \<or>
    (\<exists>m. \<exists>k\<in>set (role_rows w'). user_rows w' = user_rows w @ [m] \<and> (\<forall>x\<in>set (user_rows w). \<not> adb_eq db (um_Email x) (user_Email u)) \<and>
       user_stored (fromDomainUser u) m \<and> system_role db ''super_admin'' k \<and> set (um_Roles m) = {k})"
    unfolding account_made_def v by blast
  then show ?thesis
  proof (elim disjE exE bexE conjE, goal_cases)
    case 1 with r show ?case by (auto simp: system_role_def system_account_def)
  next
    case (2 m k)
    with user_storedD [OF 2(4)] u have "um_TenantID m = systemTenantID" "um_Email m = ''admin@opsnexus.com''"
      "um_Status m = UserStatusActive" "um_PasswordHash m = hash" "user_Email u = ''admin@opsnexus.com''"
      by (simp_all add: fromDomainUser_def seed_user_def)
    with 2 u r show ?case by (intro conjI disjI2 exI [of _ m] exI [of _ salt] bexI [of _ k]) (auto simp: system_role_def)
  qed
qed

text \<open>Data for the concrete runs: an empty table of users, one role of another tenant.\<close>

definition demo_seed :: auth_world where
  "demo_seed = (demo_auth [])\<lparr>env_uuids := siterate ((#) (CHR ''n'')) ''n1''\<rparr>"

lemmas seed_eval = auth_seed_main_def seed_role_def seed_hash_user_def seed_account_def seed_assign_def seed_user_def
  seed_print_def allPerms_def rwPerms_def readPerms_def uuid_NewString_def time_Now_def rand_read_def
  roleRepository_FindByName_def roleRepository_Create_def roleRepository_AssignToUser_def
  userRepository_FindByTenantAndEmail_def userRepository_Create_def fromDomainRole_def fromDomainUser_def
  steady_auth_db_def steady_table_def demo_seed_def demo_libs_def

lemma demo_seed_run:
  "\<exists>lines w'. seed_run steady_auth_db demo_libs demo_seed = ((lines, None), w') \<and>
     (\<exists>v w2. userRepository_FindByEmail steady_auth_db ''admin@opsnexus.com'' w' = (Inr v, w2))"
  by (simp add: seed_eval auth_eval systemTenantID_def userRepository_FindByEmail_def)

definition demo_seed_admin :: auth_world where
  "demo_seed_admin = demo_seed\<lparr>aw_roles := \<lparr>rows =
     [demo_roleModel\<lparr>rm_TenantID := systemTenantID, rm_Name := ''admin''\<rparr>], tbl_hidden = 0\<rparr>\<rparr>"

theorem seed_outcome_witness:
  "\<exists>lines w' new m. seed_run steady_auth_db demo_libs demo_seed_admin = ((lines, None), w') \<and>
     role_rows w' = role_rows demo_seed_admin @ new \<and> ''admin'' \<notin> set (map rm_Name new) \<and>
     user_rows w' = [m] \<and> um_Status m = UserStatusActive"
proof -
  have "\<exists>lines w'. seed_run steady_auth_db demo_libs demo_seed_admin = ((lines, None), w')"
    by (simp add: seed_eval auth_eval systemTenantID_def demo_seed_admin_def)
  then obtain lines w' where r: "seed_run steady_auth_db demo_libs demo_seed_admin = ((lines, None), w')" by blast
  have w: "apart steady_auth_db (map rm_ID (role_rows demo_seed_admin))" "user_rows demo_seed_admin = []"
    "\<exists>x\<in>set (role_rows demo_seed_admin). adb_eq steady_auth_db (rm_TenantID x) systemTenantID \<and> adb_eq steady_auth_db (rm_Name x) ''admin''"
    by (simp_all add: apart_def demo_seed_admin_def demo_seed_def demo_auth_def steady_auth_simps)
  have "steady (adb_roles steady_auth_db)" by (simp add: steady_auth_simps steady_steady_table)
  from seed_outcome [OF steady_auth.auth_db_laws_axioms w(1) r] this w(2) obtain new m where
    "role_rows w' = role_rows demo_seed_admin @ new"
    and new: "\<forall>m\<in>set new. \<forall>x\<in>set (role_rows demo_seed_admin).
       \<not> (adb_eq steady_auth_db (rm_TenantID x) systemTenantID \<and> adb_eq steady_auth_db (rm_Name x) (rm_Name m))"
    and "user_rows w' = [m]" "um_Status m = UserStatusActive"
    by auto
  moreover have "''admin'' \<notin> set (map rm_Name new)" using new w(3) by fastforce
  ultimately show ?thesis using r by blast
qed

text \<open>
  Where the address of the administrator is taken, in whatever tenant, the seeding command changes
  no user, whether it ends with a failure or not: an account that an interrupted run left without its
  role does not get it from a later run.
\<close>

theorem seed_keeps_account:
  assumes "auth_db_laws db" "x \<in> set (user_rows w)" "adb_eq db (um_Email x) ''admin@opsnexus.com''"
  shows "user_rows (snd (seed_run db libs w)) = user_rows w"
  by (rule auth_db_laws.seed_keeps_users [OF assms])

definition demo_roleless :: userModel where
  "demo_roleless = demo_userModel\<lparr>um_TenantID := systemTenantID, um_Email := ''admin@opsnexus.com'', um_Roles := []\<rparr>"

theorem seed_keeps_account_witness:
  "\<exists>lines w'. seed_run steady_auth_db demo_libs (demo_seed\<lparr>aw_users := \<lparr>rows = [demo_roleless], tbl_hidden = 0\<rparr>\<rparr>) =
     ((lines, None), w') \<and> map um_Roles (user_rows w') = [[]]"
proof -
  let ?w = "demo_seed\<lparr>aw_users := \<lparr>rows = [demo_roleless], tbl_hidden = 0\<rparr>\<rparr>"
  have "\<exists>lines w'. seed_run steady_auth_db demo_libs ?w = ((lines, None), w')"
    by (simp add: seed_eval auth_eval systemTenantID_def demo_roleless_def)
  then obtain lines w' where r: "seed_run steady_auth_db demo_libs ?w = ((lines, None), w')" by blast
  with seed_keeps_account [OF steady_auth.auth_db_laws_axioms, of demo_roleless ?w demo_libs] show ?thesis
    by (simp add: demo_roleless_def steady_auth_simps)
qed

text \<open>
  C34: Where the identifiers of the stored roles differ, lookups of users and roles fail only for rows that are
  not there, and bcrypt can hash the seeded password, a second run after one that ended without a failure, in
  any state with the same users and roles, ends without a failure, says of everything that it is there
  already, and changes no user and no role.
\<close>

theorem seed_idempotent:
  assumes "auth_db_laws db" "steady (adb_roles db)" "steady (adb_users db)" "apart db (map rm_ID (role_rows w))"
    and "seed_run db libs w = ((lines, None), w1)" "user_rows w2 = user_rows w1" "role_rows w2 = role_rows w1"
    and "\<And>salt. \<exists>h. bcrypt_Generate libs salt ''Admin123!'' 12 = Inr h"
  shows "\<exists>w3. seed_run db libs w2 =
      (([''Role super_admin already exists, skipping.'', ''Role admin already exists, skipping.'',
         ''Role viewer already exists, skipping.'', ''Test user already exists, skipping.'', ''Seeding complete.''], None), w3) \<and>
    user_rows w3 = user_rows w1 \<and> role_rows w3 = role_rows w1"
proof -
  from auth_db_laws.seed_done [OF assms(1,5,4)] obtain v u ident hash now where
    roles: "\<forall>n\<in>set seed_names. \<exists>m\<in>set (role_rows w1). system_role db n m" and u: "u = seed_user ident hash now"
    and acc: "user_rows w1 = user_rows w \<and> (\<exists>m\<in>set (user_rows w). system_account db m) \<or> account_made db u v w1" by blast
  have "\<exists>m\<in>set (user_rows w1). system_account db m"
    using acc auth_db_laws.eq_refl [OF assms(1)] unfolding account_made_def system_account_def
    by (auto dest!: user_storedD simp: u seed_user_def fromDomainUser_def)
  with auth_db_laws.seed_again [OF assms(1-3), of w2 libs] roles assms(6-8) show ?thesis
    by (simp add: skip_lines_def)
qed

theorem seed_idempotent_witness:
  "\<exists>lines w1. seed_run steady_auth_db demo_libs demo_seed = ((lines, None), w1) \<and>
     snd (fst (seed_run steady_auth_db demo_libs w1)) = None \<and>
     user_rows (snd (seed_run steady_auth_db demo_libs w1)) = user_rows w1"
proof -
  obtain lines w1 where r: "seed_run steady_auth_db demo_libs demo_seed = ((lines, None), w1)" using demo_seed_run by blast
  have "steady (adb_roles steady_auth_db)" "steady (adb_users steady_auth_db)"
    by (simp_all add: steady_auth_simps steady_steady_table)
  moreover have "apart steady_auth_db (map rm_ID (role_rows demo_seed))" by (simp add: apart_def demo_seed_def demo_auth_def)
  moreover have "\<And>salt. \<exists>h. bcrypt_Generate demo_libs salt ''Admin123!'' 12 = Inr h" by (simp add: demo_libs_def)
  ultimately show ?thesis using r seed_idempotent [OF steady_auth.auth_db_laws_axioms _ _ _ r refl refl] by fastforce
qed

text \<open>
  After a run that found the address of the administrator free, the user the lookup by that address
  gives has the super administrator's role and no other, and the login with the seeded password is not
  refused for its credentials or the status of the account.
\<close>

theorem seed_then_login:
  assumes "auth_db_laws db" "auth_libs_laws libs" "apart db (map rm_ID (role_rows w))"
    and "seed_run db libs w = ((lines, None), w')"
    and "\<forall>x\<in>set (user_rows w). \<not> adb_eq db (um_Email x) ''admin@opsnexus.com''"
    and "userRepository_FindByEmail db ''admin@opsnexus.com'' w' = (Inr v, w2)"
  shows "(\<exists>k\<in>set (role_rows w'). adb_eq db (rm_TenantID k) systemTenantID \<and> adb_eq db (rm_Name k) ''super_admin'' \<and>
      set (user_Roles v) = {toDomainRole k}) \<and>
    fst (authService_Login (auth_service db libs secret ac rf)
      \<lparr>lg_Email = ''admin@opsnexus.com'', lg_Password = ''Admin123!''\<rparr> w')
      \<notin> {Inl ErrInvalidCredentials, Inl ErrUserInactive, Inl auth_ErrInvalidInput}"
  using auth_db_laws.seed_login [OF assms(1-3) assms(4-6), of secret ac rf] unfolding system_role_def by blast

theorem seed_then_login_witness:
  "\<exists>lines w' v w2. seed_run steady_auth_db demo_libs demo_seed = ((lines, None), w') \<and>
     userRepository_FindByEmail steady_auth_db ''admin@opsnexus.com'' w' = (Inr v, w2) \<and> map role_Name (user_Roles v) \<noteq> []"
proof -
  obtain lines w' v w2 where r: "seed_run steady_auth_db demo_libs demo_seed = ((lines, None), w')"
    and f: "userRepository_FindByEmail steady_auth_db ''admin@opsnexus.com'' w' = (Inr v, w2)" using demo_seed_run by blast
  have "apart steady_auth_db (map rm_ID (role_rows demo_seed))" "user_rows demo_seed = []"
    by (simp_all add: apart_def demo_seed_def demo_auth_def)
  with seed_then_login [OF steady_auth.auth_db_laws_axioms demo_libs.auth_libs_laws_axioms _ r _ f] r f
  show ?thesis by fastforce
qed

text \<open>
  The error of a lookup is not looked at: where the first one fails for a reason of the connection, the
  run gets through and leaves a second super administrator's role.
\<close>

theorem seed_duplicates_role:
  "\<exists>lines w'. seed_run mem_auth_db demo_libs (demo_seed\<lparr>aw_roles := \<lparr>rows =
       [demo_roleModel\<lparr>rm_TenantID := systemTenantID, rm_Name := ''super_admin''\<rparr>], tbl_hidden = 1\<rparr>\<rparr>) = ((lines, None), w') \<and>
     map rm_Name (role_rows w') = [''super_admin'', ''super_admin'', ''admin'', ''viewer'']"
  by (simp add: seed_eval auth_eval systemTenantID_def)

end
