(* ===== verification/Tn_Domain.thy ===== *)
theory Tn_Domain
  imports Decode
begin

text \<open>
  tenant-service: the data of \<open>internal/domain\<close> and the interfaces of \<open>internal/ports\<close>. A map is given
  by its entries in the order of the keys (theory Decode); metadata is a map to JSON values.
\<close>

section \<open>Domain\<close>

type_synonym TenantStatus = string

definition TenantStatusActive :: TenantStatus where "TenantStatusActive = ''active''"
definition TenantStatusInactive :: TenantStatus where "TenantStatusInactive = ''inactive''"
definition TenantStatusSuspended :: TenantStatus where "TenantStatusSuspended = ''suspended''"

type_synonym TenantPlan = string

definition PlanFree :: TenantPlan where "PlanFree = ''free''"
definition PlanPro :: TenantPlan where "PlanPro = ''pro''"
definition PlanEnterprise :: TenantPlan where "PlanEnterprise = ''enterprise''"

lemmas Plan_defs = PlanFree_def PlanPro_def PlanEnterprise_def

record NotificationPreferences =
  np_EmailEnabled :: bool
  np_SMSEnabled :: bool
  np_InAppEnabled :: bool

record TenantSettings =
  se_MaxUsers :: int
  se_AllowedDomains :: "string list option"
  se_Features :: "(string \<times> bool) list option"
  se_NotificationPrefs :: NotificationPreferences

record Tenant =
  te_ID :: string
  te_Name :: string
  te_Slug :: string
  te_Plan :: TenantPlan
  te_Status :: TenantStatus
  te_Settings :: TenantSettings
  te_MaxUsers :: int
  te_AllowedDomains :: "string list option"
  te_CreatedAt :: time
  te_UpdatedAt :: time

record Organization =
  or_ID :: string
  or_TenantID :: string
  or_Name :: string
  or_Type :: string
  or_ParentID :: "string option"
  or_Metadata :: "(string \<times> json) list option"
  or_CreatedAt :: time
  or_UpdatedAt :: time

record UserProfile =
  pf_UserID :: string
  pf_TenantID :: string
  pf_OrganizationID :: "string option"
  pf_DisplayName :: string
  pf_AvatarURL :: string
  pf_Timezone :: string
  pf_Locale :: string
  pf_Metadata :: "(string \<times> json) list option"
  pf_CreatedAt :: time
  pf_UpdatedAt :: time

definition ErrTenantNotFound :: goerr where "ErrTenantNotFound = Sentinel ''tenant not found''"
definition ErrTenantAlreadyExists :: goerr where "ErrTenantAlreadyExists = Sentinel ''tenant already exists''"
definition ErrSlugTaken :: goerr where "ErrSlugTaken = Sentinel ''slug is already taken''"
definition ErrOrganizationNotFound :: goerr where "ErrOrganizationNotFound = Sentinel ''organization not found''"
definition ErrProfileNotFound :: goerr where "ErrProfileNotFound = Sentinel ''user profile not found''"
definition tn_ErrInvalidInput :: goerr where "tn_ErrInvalidInput = Sentinel ''invalid input''"

lemmas tn_error_defs = ErrTenantNotFound_def ErrTenantAlreadyExists_def ErrSlugTaken_def
  ErrOrganizationNotFound_def ErrProfileNotFound_def tn_ErrInvalidInput_def

section \<open>Ports\<close>

record 'w TenantRepository =
  ten_Create :: "Tenant \<Rightarrow> 'w act_err"
  ten_FindByID :: "string \<Rightarrow> ('w, Tenant) act"
  ten_FindBySlug :: "string \<Rightarrow> ('w, Tenant) act"
  ten_Update :: "Tenant \<Rightarrow> 'w act_err"
  ten_Deactivate :: "string \<Rightarrow> 'w act_err"
  ten_List :: "int \<Rightarrow> int \<Rightarrow> ('w, Tenant list \<times> int) act"

record 'w OrganizationRepository =
  org_Create :: "Organization \<Rightarrow> 'w act_err"
  org_FindByID :: "string \<Rightarrow> ('w, Organization) act"
  org_ListByTenant :: "string \<Rightarrow> ('w, Organization list) act"
  org_Update :: "Organization \<Rightarrow> 'w act_err"
  org_Delete :: "string \<Rightarrow> 'w act_err"

record 'w UserProfileRepository =
  pro_Create :: "UserProfile \<Rightarrow> 'w act_err"
  pro_FindByUserID :: "string \<Rightarrow> ('w, UserProfile) act"
  pro_Update :: "UserProfile \<Rightarrow> 'w act_err"
  pro_ListByTenant :: "string \<Rightarrow> int \<Rightarrow> int \<Rightarrow> ('w, UserProfile list \<times> int) act"

record CreateTenantRequest =
  ctr_Name :: string
  ctr_Slug :: string
  ctr_Plan :: TenantPlan

record UpdateTenantRequest =
  uten_Name :: "string option"
  uten_Plan :: "TenantPlan option"
  uten_Status :: "TenantStatus option"

record CreateOrgRequest =
  cor_Name :: string
  cor_Type :: string
  cor_ParentID :: "string option"

record UpdateOrgRequest =
  uor_Name :: "string option"
  uor_Type :: "string option"
  uor_ParentID :: "string option"

record CreateProfileRequest =
  cpr_UserID :: string
  cpr_TenantID :: string
  cpr_OrganizationID :: "string option"
  cpr_DisplayName :: string
  cpr_Timezone :: string
  cpr_Locale :: string

record UpdateProfileRequest =
  upr_DisplayName :: "string option"
  upr_AvatarURL :: "string option"
  upr_Timezone :: "string option"
  upr_Locale :: "string option"
  upr_OrganizationID :: "string option"

record 'w TenantService =
  tsv_CreateTenant :: "CreateTenantRequest \<Rightarrow> ('w, Tenant) act"
  tsv_GetTenant :: "string \<Rightarrow> ('w, Tenant) act"
  tsv_UpdateTenant :: "string \<Rightarrow> UpdateTenantRequest \<Rightarrow> ('w, Tenant) act"
  tsv_DeactivateTenant :: "string \<Rightarrow> 'w act_err"
  tsv_ListTenants :: "int \<Rightarrow> int \<Rightarrow> ('w, Tenant list \<times> int) act"
  tsv_GetSettings :: "string \<Rightarrow> ('w, TenantSettings) act"
  tsv_UpdateSettings :: "string \<Rightarrow> TenantSettings \<Rightarrow> 'w act_err"

record 'w OrganizationService =
  osv_CreateOrganization :: "string \<Rightarrow> CreateOrgRequest \<Rightarrow> ('w, Organization) act"
  osv_GetOrganization :: "string \<Rightarrow> ('w, Organization) act"
  osv_ListOrganizations :: "string \<Rightarrow> ('w, Organization list) act"
  osv_UpdateOrganization :: "string \<Rightarrow> UpdateOrgRequest \<Rightarrow> ('w, Organization) act"

record 'w UserProfileService =
  psv_CreateProfile :: "CreateProfileRequest \<Rightarrow> ('w, UserProfile) act"
  psv_GetProfile :: "string \<Rightarrow> ('w, UserProfile) act"
  psv_UpdateProfile :: "string \<Rightarrow> UpdateProfileRequest \<Rightarrow> ('w, UserProfile) act"
  psv_ListProfiles :: "string \<Rightarrow> int \<Rightarrow> int \<Rightarrow> ('w, UserProfile list \<times> int) act"

end
