(* ===== verification/Tn_Repo.thy ===== *)
theory Tn_Repo
  imports Tn_Domain Gorm
begin

text \<open>
  tenant-service: the MySQL repositories of \<open>internal/adapters/mysql\<close>. Lists, feature maps and metadata
  stand in text columns as JSON. Marshalling them never fails (metadata only ever holds what
  \<open>json.Unmarshal\<close> made), so the conversions from domain values are total here; the ones from rows
  are not, for a column can hold text that is not JSON.
\<close>

section \<open>Models\<close>

record tenantModel =
  tnm_ID :: string
  tnm_Name :: string
  tnm_Slug :: string
  tnm_Plan :: string
  tnm_Status :: string
  tnm_MaxUsers :: int
  tnm_AllowedDomains :: string
  tnm_Features :: string
  tnm_CreatedAt :: time
  tnm_UpdatedAt :: time

record organizationModel =
  orm_ID :: string
  orm_TenantID :: string
  orm_Name :: string
  orm_Type :: string
  orm_ParentID :: "string option"
  orm_Metadata :: string
  orm_CreatedAt :: time
  orm_UpdatedAt :: time

record userProfileModel =
  pfm_UserID :: string
  pfm_TenantID :: string
  pfm_OrganizationID :: "string option"
  pfm_DisplayName :: string
  pfm_AvatarURL :: string
  pfm_Timezone :: string
  pfm_Locale :: string
  pfm_Metadata :: string
  pfm_CreatedAt :: time
  pfm_UpdatedAt :: time

text \<open>
  The handle \<open>*gorm.DB\<close>: the equality of the collation the conditions are evaluated with, and the three
  tables. The state has their rows; \<open>tw_float\<close> is the text with which the runtime writes the
  \<open>float64\<close> nearest to a number literal, nothing for a literal out of range.
\<close>

record tn_db =
  tdb_eq :: "string \<Rightarrow> string \<Rightarrow> bool"
  tdb_tenants :: "tenantModel gorm_table"
  tdb_orgs :: "organizationModel gorm_table"
  tdb_profiles :: "userProfileModel gorm_table"

record tn_world = env +
  tw_tenants :: "tenantModel tbl"
  tw_orgs :: "organizationModel tbl"
  tw_profiles :: "userProfileModel tbl"
  tw_float :: "string \<Rightarrow> string option"

abbreviation "on_tenants \<equiv> on_table tw_tenants tw_tenants_update"
abbreviation "on_orgs \<equiv> on_table tw_orgs tw_orgs_update"
abbreviation "on_profiles \<equiv> on_table tw_profiles tw_profiles_update"

section \<open>JSON columns\<close>

text \<open>The text of a decoding error is not modelled; no response shows it.\<close>

definition ErrDecode :: goerr where "ErrDecode = Foreign ''json: cannot unmarshal''"

definition dec_bool :: "json \<Rightarrow> bool option" where
  "dec_bool v = set_bool v False"

text \<open>\<open>if col != "" { if err := json.Unmarshal(...) ... }; if v == nil { v = ... empty }\<close>\<close>

definition column :: "string \<Rightarrow> (string \<Rightarrow> 'a list option option) \<Rightarrow> string \<Rightarrow> goerr + 'a list" where
  "column what unmarshal col =
     (if col = '''' then Inr []
      else case unmarshal col of
        None \<Rightarrow> Inl (Errorf (''unmarshal '' @ what @ '': '') ErrDecode '''')
      | Some v \<Rightarrow> Inr (elems v))"

section \<open>tenant_repository.go\<close>

definition domainToTenantModel :: "Tenant \<Rightarrow> tenantModel" where
  "domainToTenantModel t =
     \<lparr>tnm_ID = te_ID t, tnm_Name = te_Name t, tnm_Slug = te_Slug t, tnm_Plan = te_Plan t, tnm_Status = te_Status t,
      tnm_MaxUsers = te_MaxUsers t, tnm_AllowedDomains = Marshal_strings (te_AllowedDomains t),
      tnm_Features = Marshal_map JBool (se_Features (te_Settings t)), tnm_CreatedAt = te_CreatedAt t,
      tnm_UpdatedAt = te_UpdatedAt t\<rparr>"

definition tenantModelToDomain :: "tenantModel \<Rightarrow> goerr + Tenant" where
  "tenantModelToDomain m =
     (case column ''allowed_domains'' Unmarshal_strings (tnm_AllowedDomains m) of
        Inl e \<Rightarrow> Inl e
      | Inr allowedDomains \<Rightarrow>
         (case column ''features'' (Unmarshal_map dec_bool) (tnm_Features m) of
            Inl e \<Rightarrow> Inl e
          | Inr features \<Rightarrow>
              Inr \<lparr>te_ID = tnm_ID m, te_Name = tnm_Name m, te_Slug = tnm_Slug m, te_Plan = tnm_Plan m,
                   te_Status = tnm_Status m,
                   te_Settings = \<lparr>se_MaxUsers = tnm_MaxUsers m, se_AllowedDomains = Some allowedDomains,
                     se_Features = Some features,
                     se_NotificationPrefs = \<lparr>np_EmailEnabled = True, np_SMSEnabled = False, np_InAppEnabled = True\<rparr>\<rparr>,
                   te_MaxUsers = tnm_MaxUsers m, te_AllowedDomains = Some allowedDomains,
                   te_CreatedAt = tnm_CreatedAt m, te_UpdatedAt = tnm_UpdatedAt m\<rparr>))"

definition tenantRepository_Create :: "tn_db \<Rightarrow> Tenant \<Rightarrow> tn_world act_err" where
  "tenantRepository_Create db t w =
     (let (r, w') = on_tenants (gorm_Create (tdb_tenants db) (domainToTenantModel t)) w
      in (wrap_err ''insert tenant: '' r, w'))"

definition tenantRepository_FindByID :: "tn_db \<Rightarrow> string \<Rightarrow> (tn_world, Tenant) act" where
  "tenantRepository_FindByID db ident w =
     (case on_tenants (gorm_First (tdb_tenants db) (\<lambda>m. tdb_eq db (tnm_ID m) ident)) w of
        (Inl e, w') \<Rightarrow> (Inl (find_err ErrTenantNotFound ''find tenant by id: '' e), w')
      | (Inr m, w') \<Rightarrow> (tenantModelToDomain m, w'))"

definition tenantRepository_FindBySlug :: "tn_db \<Rightarrow> string \<Rightarrow> (tn_world, Tenant) act" where
  "tenantRepository_FindBySlug db slug w =
     (case on_tenants (gorm_First (tdb_tenants db) (\<lambda>m. tdb_eq db (tnm_Slug m) slug)) w of
        (Inl e, w') \<Rightarrow> (Inl (find_err ErrTenantNotFound ''find tenant by slug: '' e), w')
      | (Inr m, w') \<Rightarrow> (tenantModelToDomain m, w'))"

definition tenantRepository_Update :: "tn_db \<Rightarrow> Tenant \<Rightarrow> tn_world act_err" where
  "tenantRepository_Update db t w =
     (let (r, w') = on_tenants (gorm_Save (tdb_tenants db) (domainToTenantModel t)) w
      in (wrap_err ''update tenant: '' r, w'))"

definition tenantRepository_Deactivate :: "tn_db \<Rightarrow> string \<Rightarrow> tn_world act_err" where
  "tenantRepository_Deactivate db ident w =
     (let (r, w') = on_tenants (gorm_Update (tdb_tenants db) (\<lambda>m. tdb_eq db (tnm_ID m) ident)
                      (\<lambda>m. m\<lparr>tnm_Status := TenantStatusInactive\<rparr>)) w
      in (wrap_err ''deactivate tenant: '' r, w'))"

definition tenantRepository_List :: "tn_db \<Rightarrow> int \<Rightarrow> int \<Rightarrow> (tn_world, Tenant list \<times> int) act" where
  "tenantRepository_List db page limit w =
     (let offset = wrap64 (wrap64 (page - 1) * limit) in
      case on_tenants (gorm_Count (tdb_tenants db) (\<lambda>_. True)) w of
        (Inl e, w1) \<Rightarrow> (Inl (Errorf ''count tenants: '' e ''''), w1)
      | (Inr cnt, w1) \<Rightarrow>
         (case on_tenants (gorm_Find (tdb_tenants db) (\<lambda>_. True) (Desc tnm_CreatedAt) (Some (offset, limit))) w1 of
            (Inl e, w2) \<Rightarrow> (Inl (Errorf ''list tenants: '' e ''''), w2)
          | (Inr models, w2) \<Rightarrow>
              (map_sum id (\<lambda>ts. (ts, cnt)) (map_result tenantModelToDomain models), w2)))"

definition tenantRepository :: "tn_db \<Rightarrow> tn_world TenantRepository" where
  "tenantRepository db =
     \<lparr>ten_Create = tenantRepository_Create db, ten_FindByID = tenantRepository_FindByID db,
      ten_FindBySlug = tenantRepository_FindBySlug db, ten_Update = tenantRepository_Update db,
      ten_Deactivate = tenantRepository_Deactivate db, ten_List = tenantRepository_List db\<rparr>"

section \<open>organization_repository.go\<close>

definition domainToOrgModel :: "Organization \<Rightarrow> organizationModel" where
  "domainToOrgModel org =
     \<lparr>orm_ID = or_ID org, orm_TenantID = or_TenantID org, orm_Name = or_Name org, orm_Type = or_Type org,
      orm_ParentID = or_ParentID org, orm_Metadata = Marshal_map id (Some (elems (or_Metadata org))),
      orm_CreatedAt = or_CreatedAt org, orm_UpdatedAt = or_UpdatedAt org\<rparr>"

definition orgModelToDomain :: "(string \<Rightarrow> string option) \<Rightarrow> organizationModel \<Rightarrow> goerr + Organization" where
  "orgModelToDomain fl m =
     (case column ''metadata'' (Unmarshal_map (any_json fl)) (orm_Metadata m) of
        Inl e \<Rightarrow> Inl e
      | Inr metadata \<Rightarrow>
          Inr \<lparr>or_ID = orm_ID m, or_TenantID = orm_TenantID m, or_Name = orm_Name m, or_Type = orm_Type m,
               or_ParentID = orm_ParentID m, or_Metadata = Some metadata, or_CreatedAt = orm_CreatedAt m,
               or_UpdatedAt = orm_UpdatedAt m\<rparr>)"

definition organizationRepository_Create :: "tn_db \<Rightarrow> Organization \<Rightarrow> tn_world act_err" where
  "organizationRepository_Create db org w =
     (let (r, w') = on_orgs (gorm_Create (tdb_orgs db) (domainToOrgModel org)) w
      in (wrap_err ''insert organization: '' r, w'))"

definition organizationRepository_FindByID :: "tn_db \<Rightarrow> string \<Rightarrow> (tn_world, Organization) act" where
  "organizationRepository_FindByID db ident w =
     (case on_orgs (gorm_First (tdb_orgs db) (\<lambda>m. tdb_eq db (orm_ID m) ident)) w of
        (Inl e, w') \<Rightarrow> (Inl (find_err ErrOrganizationNotFound ''find org by id: '' e), w')
      | (Inr m, w') \<Rightarrow> (orgModelToDomain (tw_float w') m, w'))"

definition organizationRepository_ListByTenant :: "tn_db \<Rightarrow> string \<Rightarrow> (tn_world, Organization list) act" where
  "organizationRepository_ListByTenant db tenantID w =
     (case on_orgs (gorm_Find (tdb_orgs db) (\<lambda>m. tdb_eq db (orm_TenantID m) tenantID) (Asc orm_CreatedAt) None) w of
        (Inl e, w') \<Rightarrow> (Inl (Errorf ''list orgs by tenant: '' e ''''), w')
      | (Inr models, w') \<Rightarrow> (map_result (orgModelToDomain (tw_float w')) models, w'))"

definition organizationRepository_Update :: "tn_db \<Rightarrow> Organization \<Rightarrow> tn_world act_err" where
  "organizationRepository_Update db org w =
     (let (r, w') = on_orgs (gorm_Save (tdb_orgs db) (domainToOrgModel org)) w
      in (wrap_err ''update organization: '' r, w'))"

definition organizationRepository_Delete :: "tn_db \<Rightarrow> string \<Rightarrow> tn_world act_err" where
  "organizationRepository_Delete db ident w =
     (let (r, w') = on_orgs (gorm_Delete (tdb_orgs db) (\<lambda>m. tdb_eq db (orm_ID m) ident)) w
      in (wrap_err ''delete organization: '' r, w'))"

definition organizationRepository :: "tn_db \<Rightarrow> tn_world OrganizationRepository" where
  "organizationRepository db =
     \<lparr>org_Create = organizationRepository_Create db, org_FindByID = organizationRepository_FindByID db,
      org_ListByTenant = organizationRepository_ListByTenant db, org_Update = organizationRepository_Update db,
      org_Delete = organizationRepository_Delete db\<rparr>"

section \<open>user_profile_repository.go\<close>

definition domainToProfileModel :: "UserProfile \<Rightarrow> userProfileModel" where
  "domainToProfileModel p =
     \<lparr>pfm_UserID = pf_UserID p, pfm_TenantID = pf_TenantID p, pfm_OrganizationID = pf_OrganizationID p,
      pfm_DisplayName = pf_DisplayName p, pfm_AvatarURL = pf_AvatarURL p, pfm_Timezone = pf_Timezone p,
      pfm_Locale = pf_Locale p, pfm_Metadata = Marshal_map id (Some (elems (pf_Metadata p))),
      pfm_CreatedAt = pf_CreatedAt p, pfm_UpdatedAt = pf_UpdatedAt p\<rparr>"

definition profileModelToDomain :: "(string \<Rightarrow> string option) \<Rightarrow> userProfileModel \<Rightarrow> goerr + UserProfile" where
  "profileModelToDomain fl m =
     (case column ''metadata'' (Unmarshal_map (any_json fl)) (pfm_Metadata m) of
        Inl e \<Rightarrow> Inl e
      | Inr metadata \<Rightarrow>
          Inr \<lparr>pf_UserID = pfm_UserID m, pf_TenantID = pfm_TenantID m, pf_OrganizationID = pfm_OrganizationID m,
               pf_DisplayName = pfm_DisplayName m, pf_AvatarURL = pfm_AvatarURL m, pf_Timezone = pfm_Timezone m,
               pf_Locale = pfm_Locale m, pf_Metadata = Some metadata, pf_CreatedAt = pfm_CreatedAt m,
               pf_UpdatedAt = pfm_UpdatedAt m\<rparr>)"

definition userProfileRepository_Create :: "tn_db \<Rightarrow> UserProfile \<Rightarrow> tn_world act_err" where
  "userProfileRepository_Create db p w =
     (let (r, w') = on_profiles (gorm_Create (tdb_profiles db) (domainToProfileModel p)) w
      in (wrap_err ''insert user_profile: '' r, w'))"

definition userProfileRepository_FindByUserID :: "tn_db \<Rightarrow> string \<Rightarrow> (tn_world, UserProfile) act" where
  "userProfileRepository_FindByUserID db userID w =
     (case on_profiles (gorm_First (tdb_profiles db) (\<lambda>m. tdb_eq db (pfm_UserID m) userID)) w of
        (Inl e, w') \<Rightarrow> (Inl (find_err ErrProfileNotFound ''find profile by user_id: '' e), w')
      | (Inr m, w') \<Rightarrow> (profileModelToDomain (tw_float w') m, w'))"

definition userProfileRepository_Update :: "tn_db \<Rightarrow> UserProfile \<Rightarrow> tn_world act_err" where
  "userProfileRepository_Update db p w =
     (let (r, w') = on_profiles (gorm_Save (tdb_profiles db) (domainToProfileModel p)) w
      in (wrap_err ''update user_profile: '' r, w'))"

definition userProfileRepository_ListByTenant ::
  "tn_db \<Rightarrow> string \<Rightarrow> int \<Rightarrow> int \<Rightarrow> (tn_world, UserProfile list \<times> int) act" where
  "userProfileRepository_ListByTenant db tenantID page limit w =
     (let offset = wrap64 (wrap64 (page - 1) * limit);
          mine = (\<lambda>m. tdb_eq db (pfm_TenantID m) tenantID) in
      case on_profiles (gorm_Count (tdb_profiles db) mine) w of
        (Inl e, w1) \<Rightarrow> (Inl (Errorf ''count profiles: '' e ''''), w1)
      | (Inr cnt, w1) \<Rightarrow>
         (case on_profiles (gorm_Find (tdb_profiles db) mine (Asc pfm_CreatedAt) (Some (offset, limit))) w1 of
            (Inl e, w2) \<Rightarrow> (Inl (Errorf ''list profiles by tenant: '' e ''''), w2)
          | (Inr models, w2) \<Rightarrow>
              (map_sum id (\<lambda>ps. (ps, cnt)) (map_result (profileModelToDomain (tw_float w2)) models), w2)))"

definition userProfileRepository :: "tn_db \<Rightarrow> tn_world UserProfileRepository" where
  "userProfileRepository db =
     \<lparr>pro_Create = userProfileRepository_Create db, pro_FindByUserID = userProfileRepository_FindByUserID db,
      pro_Update = userProfileRepository_Update db, pro_ListByTenant = userProfileRepository_ListByTenant db\<rparr>"

end
