(* ===== verification/Tn_Service.thy ===== *)
theory Tn_Service
  imports Tn_Domain
begin

text \<open>
  tenant-service: \<open>internal/application/tenant_service.go\<close>, the three services, one definition per
  method, over any implementation of the repositories.
\<close>

section \<open>Plans and slugs\<close>

text \<open>
  \<open>^[a-z0-9]+(?:-[a-z0-9]+)*$\<close> as an automaton; \<open>seen\<close> says that the last character was a letter or a
  digit. Without flags \<open>$\<close> matches at the end of the text only.
\<close>

definition slug_char :: "char \<Rightarrow> bool" where
  "slug_char c \<longleftrightarrow> (CHR ''a'' \<le> c \<and> c \<le> CHR ''z'') \<or> (CHR ''0'' \<le> c \<and> c \<le> CHR ''9'')"

fun slug_run :: "bool \<Rightarrow> string \<Rightarrow> bool" where
  "slug_run seen [] = seen"
| "slug_run seen (c # cs) = (if slug_char c then slug_run True cs else c = CHR ''-'' \<and> seen \<and> slug_run False cs)"

definition slugRegexp :: "string \<Rightarrow> bool" where
  "slugRegexp s = slug_run False s"

definition maxUsersForPlan :: "TenantPlan \<Rightarrow> int" where
  "maxUsersForPlan plan = (if plan = PlanPro then 50 else if plan = PlanEnterprise then 1000 else 10)"

definition base_features :: "(string \<times> bool) list" where
  "base_features =
     [(''advanced_reports'', False), (''api_access'', True), (''audit_logs'', False), (''custom_roles'', False),
      (''email_alerts'', True), (''sso'', False)]"

definition defaultFeatures :: "TenantPlan \<Rightarrow> (string \<times> bool) list" where
  "defaultFeatures plan =
     (if plan = PlanPro then
        map_put ''advanced_reports'' True (map_put ''custom_roles'' True (map_put ''audit_logs'' True base_features))
      else if plan = PlanEnterprise then map (\<lambda>(k, _). (k, True)) base_features
      else base_features)"

section \<open>TenantService\<close>

record 'w tenantServiceImpl =
  tsi_repo :: "'w TenantRepository"

definition new_tenant :: "string \<Rightarrow> string \<Rightarrow> string \<Rightarrow> TenantPlan \<Rightarrow> time \<Rightarrow> time \<Rightarrow> Tenant" where
  "new_tenant ident name slug plan created updated =
     \<lparr>te_ID = ident, te_Name = name, te_Slug = slug, te_Plan = plan, te_Status = TenantStatusActive,
      te_Settings = \<lparr>se_MaxUsers = maxUsersForPlan plan, se_AllowedDomains = Some [],
        se_Features = Some (defaultFeatures plan),
        se_NotificationPrefs = \<lparr>np_EmailEnabled = True, np_SMSEnabled = False, np_InAppEnabled = True\<rparr>\<rparr>,
      te_MaxUsers = maxUsersForPlan plan, te_AllowedDomains = Some [], te_CreatedAt = created, te_UpdatedAt = updated\<rparr>"

definition tenantService_CreateTenant ::
  "'a env_scheme tenantServiceImpl \<Rightarrow> CreateTenantRequest \<Rightarrow> ('a env_scheme, Tenant) act" where
  "tenantService_CreateTenant s req w =
     (if ctr_Name req = '''' then (Inl (Errorf '''' tn_ErrInvalidInput '': name is required''), w)
      else if \<not> slugRegexp (ctr_Slug req) then
        (Inl (Errorf '''' tn_ErrInvalidInput '': slug must be lowercase alphanumeric with hyphens''), w)
      else (case ten_FindBySlug (tsi_repo s) (ctr_Slug req) w of
         (Inr existing, w1) \<Rightarrow> (Inl ErrSlugTaken, w1)
       | (Inl err, w1) \<Rightarrow>
          if err \<noteq> ErrTenantNotFound then (Inl (Errorf ''check slug: '' err ''''), w1)
          else
            (let plan = (if ctr_Plan req = '''' then PlanFree else ctr_Plan req);
                 (ident, w2) = uuid_NewString w1;
                 (created, w3) = time_Now w2;
                 (updated, w4) = time_Now w3;
                 tenant = new_tenant ident (ctr_Name req) (ctr_Slug req) plan created updated
             in case ten_Create (tsi_repo s) tenant w4 of
                  (Some e, w5) \<Rightarrow> (Inl (Errorf ''create tenant: '' e ''''), w5)
                | (None, w5) \<Rightarrow> (Inr tenant, w5))))"

definition tenantService_GetTenant :: "'w tenantServiceImpl \<Rightarrow> string \<Rightarrow> ('w, Tenant) act" where
  "tenantService_GetTenant s ident w = ten_FindByID (tsi_repo s) ident w"

definition patchedTenant :: "UpdateTenantRequest \<Rightarrow> Tenant \<Rightarrow> Tenant" where
  "patchedTenant req t =
     (let t1 = (case uten_Name req of None \<Rightarrow> t | Some n \<Rightarrow> t\<lparr>te_Name := n\<rparr>);
          t2 = (case uten_Plan req of None \<Rightarrow> t1
                | Some p \<Rightarrow> t1\<lparr>te_Plan := p, te_MaxUsers := maxUsersForPlan p,
                    te_Settings := (te_Settings t1)\<lparr>se_MaxUsers := maxUsersForPlan p,
                                                    se_Features := Some (defaultFeatures p)\<rparr>\<rparr>)
      in case uten_Status req of None \<Rightarrow> t2 | Some st \<Rightarrow> t2\<lparr>te_Status := st\<rparr>)"

definition tenantService_UpdateTenant ::
  "'a env_scheme tenantServiceImpl \<Rightarrow> string \<Rightarrow> UpdateTenantRequest \<Rightarrow> ('a env_scheme, Tenant) act" where
  "tenantService_UpdateTenant s ident req w =
     (case ten_FindByID (tsi_repo s) ident w of
        (Inl e, w1) \<Rightarrow> (Inl e, w1)
      | (Inr t, w1) \<Rightarrow>
         if uten_Name req = Some '''' then (Inl (Errorf '''' tn_ErrInvalidInput '': name cannot be empty''), w1)
         else
           (let (now, w2) = time_Now w1;
                t' = (patchedTenant req t)\<lparr>te_UpdatedAt := now\<rparr>
            in case ten_Update (tsi_repo s) t' w2 of
                 (Some e, w3) \<Rightarrow> (Inl (Errorf ''update tenant: '' e ''''), w3)
               | (None, w3) \<Rightarrow> (Inr t', w3)))"

definition tenantService_DeactivateTenant :: "'w tenantServiceImpl \<Rightarrow> string \<Rightarrow> 'w act_err" where
  "tenantService_DeactivateTenant s ident w =
     (case ten_FindByID (tsi_repo s) ident w of
        (Inl e, w1) \<Rightarrow> (Some e, w1)
      | (Inr t, w1) \<Rightarrow> ten_Deactivate (tsi_repo s) ident w1)"

definition tenantService_ListTenants :: "'w tenantServiceImpl \<Rightarrow> int \<Rightarrow> int \<Rightarrow> ('w, Tenant list \<times> int) act" where
  "tenantService_ListTenants s page limit w =
     (let page1 = (if page < 1 then 1 else page);
          limit1 = (if limit < 1 \<or> limit > 100 then 20 else limit)
      in ten_List (tsi_repo s) page1 limit1 w)"

definition tenantService_GetSettings :: "'w tenantServiceImpl \<Rightarrow> string \<Rightarrow> ('w, TenantSettings) act" where
  "tenantService_GetSettings s tenantID w =
     (case ten_FindByID (tsi_repo s) tenantID w of
        (Inl e, w1) \<Rightarrow> (Inl e, w1)
      | (Inr t, w1) \<Rightarrow> (Inr (te_Settings t), w1))"

definition tenantService_UpdateSettings ::
  "'a env_scheme tenantServiceImpl \<Rightarrow> string \<Rightarrow> TenantSettings \<Rightarrow> 'a env_scheme act_err" where
  "tenantService_UpdateSettings s tenantID settings w =
     (case ten_FindByID (tsi_repo s) tenantID w of
        (Inl e, w1) \<Rightarrow> (Some e, w1)
      | (Inr t, w1) \<Rightarrow>
         (let (now, w2) = time_Now w1
          in ten_Update (tsi_repo s)
               (t\<lparr>te_Settings := settings, te_AllowedDomains := se_AllowedDomains settings, te_UpdatedAt := now\<rparr>) w2))"

definition NewTenantService :: "'a env_scheme TenantRepository \<Rightarrow> 'a env_scheme TenantService" where
  "NewTenantService repo =
     (let s = \<lparr>tsi_repo = repo\<rparr> in
      \<lparr>tsv_CreateTenant = tenantService_CreateTenant s, tsv_GetTenant = tenantService_GetTenant s,
       tsv_UpdateTenant = tenantService_UpdateTenant s, tsv_DeactivateTenant = tenantService_DeactivateTenant s,
       tsv_ListTenants = tenantService_ListTenants s, tsv_GetSettings = tenantService_GetSettings s,
       tsv_UpdateSettings = tenantService_UpdateSettings s\<rparr>)"

section \<open>OrganizationService\<close>

record 'w organizationServiceImpl =
  osi_repo :: "'w OrganizationRepository"
  osi_tenantRepo :: "'w TenantRepository"

definition organizationService_CreateOrganization ::
  "'a env_scheme organizationServiceImpl \<Rightarrow> string \<Rightarrow> CreateOrgRequest \<Rightarrow> ('a env_scheme, Organization) act" where
  "organizationService_CreateOrganization s tenantID req w =
     (if cor_Name req = '''' then (Inl (Errorf '''' tn_ErrInvalidInput '': name is required''), w)
      else (case ten_FindByID (osi_tenantRepo s) tenantID w of
         (Inl e, w1) \<Rightarrow> (Inl e, w1)
       | (Inr t, w1) \<Rightarrow>
          (let (ident, w2) = uuid_NewString w1;
               (created, w3) = time_Now w2;
               (updated, w4) = time_Now w3;
               org = \<lparr>or_ID = ident, or_TenantID = tenantID, or_Name = cor_Name req, or_Type = cor_Type req,
                      or_ParentID = cor_ParentID req, or_Metadata = Some [], or_CreatedAt = created,
                      or_UpdatedAt = updated\<rparr>
           in case org_Create (osi_repo s) org w4 of
                (Some e, w5) \<Rightarrow> (Inl (Errorf ''create organization: '' e ''''), w5)
              | (None, w5) \<Rightarrow> (Inr org, w5))))"

definition organizationService_GetOrganization ::
  "'w organizationServiceImpl \<Rightarrow> string \<Rightarrow> ('w, Organization) act" where
  "organizationService_GetOrganization s ident w = org_FindByID (osi_repo s) ident w"

definition organizationService_ListOrganizations ::
  "'w organizationServiceImpl \<Rightarrow> string \<Rightarrow> ('w, Organization list) act" where
  "organizationService_ListOrganizations s tenantID w = org_ListByTenant (osi_repo s) tenantID w"

definition patchedOrg :: "UpdateOrgRequest \<Rightarrow> Organization \<Rightarrow> Organization" where
  "patchedOrg req org =
     (let o1 = (case uor_Name req of None \<Rightarrow> org | Some n \<Rightarrow> org\<lparr>or_Name := n\<rparr>);
          o2 = (case uor_Type req of None \<Rightarrow> o1 | Some ty \<Rightarrow> o1\<lparr>or_Type := ty\<rparr>)
      in case uor_ParentID req of None \<Rightarrow> o2 | Some p \<Rightarrow> o2\<lparr>or_ParentID := Some p\<rparr>)"

definition organizationService_UpdateOrganization ::
  "'a env_scheme organizationServiceImpl \<Rightarrow> string \<Rightarrow> UpdateOrgRequest \<Rightarrow> ('a env_scheme, Organization) act" where
  "organizationService_UpdateOrganization s ident req w =
     (case org_FindByID (osi_repo s) ident w of
        (Inl e, w1) \<Rightarrow> (Inl e, w1)
      | (Inr org, w1) \<Rightarrow>
         if uor_Name req = Some '''' then (Inl (Errorf '''' tn_ErrInvalidInput '': name cannot be empty''), w1)
         else
           (let (now, w2) = time_Now w1;
                org' = (patchedOrg req org)\<lparr>or_UpdatedAt := now\<rparr>
            in case org_Update (osi_repo s) org' w2 of
                 (Some e, w3) \<Rightarrow> (Inl (Errorf ''update organization: '' e ''''), w3)
               | (None, w3) \<Rightarrow> (Inr org', w3)))"

definition NewOrganizationService ::
  "'a env_scheme OrganizationRepository \<Rightarrow> 'a env_scheme TenantRepository \<Rightarrow> 'a env_scheme OrganizationService" where
  "NewOrganizationService repo tenantRepo =
     (let s = \<lparr>osi_repo = repo, osi_tenantRepo = tenantRepo\<rparr> in
      \<lparr>osv_CreateOrganization = organizationService_CreateOrganization s,
       osv_GetOrganization = organizationService_GetOrganization s,
       osv_ListOrganizations = organizationService_ListOrganizations s,
       osv_UpdateOrganization = organizationService_UpdateOrganization s\<rparr>)"

section \<open>UserProfileService\<close>

record 'w userProfileServiceImpl =
  psi_repo :: "'w UserProfileRepository"
  psi_tenantRepo :: "'w TenantRepository"

definition userProfileService_CreateProfile ::
  "'a env_scheme userProfileServiceImpl \<Rightarrow> CreateProfileRequest \<Rightarrow> ('a env_scheme, UserProfile) act" where
  "userProfileService_CreateProfile s req w =
     (if cpr_UserID req = '''' then (Inl (Errorf '''' tn_ErrInvalidInput '': userID is required''), w)
      else if cpr_TenantID req = '''' then (Inl (Errorf '''' tn_ErrInvalidInput '': tenantID is required''), w)
      else (case ten_FindByID (psi_tenantRepo s) (cpr_TenantID req) w of
         (Inl e, w1) \<Rightarrow> (Inl e, w1)
       | (Inr t, w1) \<Rightarrow>
          (let timezone = (if cpr_Timezone req = '''' then ''UTC'' else cpr_Timezone req);
               locale' = (if cpr_Locale req = '''' then ''en'' else cpr_Locale req);
               (created, w2) = time_Now w1;
               (updated, w3) = time_Now w2;
               profile = \<lparr>pf_UserID = cpr_UserID req, pf_TenantID = cpr_TenantID req,
                          pf_OrganizationID = cpr_OrganizationID req, pf_DisplayName = cpr_DisplayName req,
                          pf_AvatarURL = '''', pf_Timezone = timezone, pf_Locale = locale', pf_Metadata = Some [],
                          pf_CreatedAt = created, pf_UpdatedAt = updated\<rparr>
           in case pro_Create (psi_repo s) profile w3 of
                (Some e, w4) \<Rightarrow> (Inl (Errorf ''create profile: '' e ''''), w4)
              | (None, w4) \<Rightarrow> (Inr profile, w4))))"

definition userProfileService_GetProfile :: "'w userProfileServiceImpl \<Rightarrow> string \<Rightarrow> ('w, UserProfile) act" where
  "userProfileService_GetProfile s userID w = pro_FindByUserID (psi_repo s) userID w"

definition patchedProfile :: "UpdateProfileRequest \<Rightarrow> UserProfile \<Rightarrow> UserProfile" where
  "patchedProfile req p =
     (let p1 = (case upr_DisplayName req of None \<Rightarrow> p | Some v \<Rightarrow> p\<lparr>pf_DisplayName := v\<rparr>);
          p2 = (case upr_AvatarURL req of None \<Rightarrow> p1 | Some v \<Rightarrow> p1\<lparr>pf_AvatarURL := v\<rparr>);
          p3 = (case upr_Timezone req of None \<Rightarrow> p2 | Some v \<Rightarrow> p2\<lparr>pf_Timezone := v\<rparr>);
          p4 = (case upr_Locale req of None \<Rightarrow> p3 | Some v \<Rightarrow> p3\<lparr>pf_Locale := v\<rparr>)
      in case upr_OrganizationID req of None \<Rightarrow> p4 | Some v \<Rightarrow> p4\<lparr>pf_OrganizationID := Some v\<rparr>)"

definition userProfileService_UpdateProfile ::
  "'a env_scheme userProfileServiceImpl \<Rightarrow> string \<Rightarrow> UpdateProfileRequest \<Rightarrow> ('a env_scheme, UserProfile) act" where
  "userProfileService_UpdateProfile s userID req w =
     (case pro_FindByUserID (psi_repo s) userID w of
        (Inl e, w1) \<Rightarrow> (Inl e, w1)
      | (Inr p, w1) \<Rightarrow>
         (let (now, w2) = time_Now w1;
              p' = (patchedProfile req p)\<lparr>pf_UpdatedAt := now\<rparr>
          in case pro_Update (psi_repo s) p' w2 of
               (Some e, w3) \<Rightarrow> (Inl (Errorf ''update profile: '' e ''''), w3)
             | (None, w3) \<Rightarrow> (Inr p', w3)))"

definition userProfileService_ListProfiles ::
  "'w userProfileServiceImpl \<Rightarrow> string \<Rightarrow> int \<Rightarrow> int \<Rightarrow> ('w, UserProfile list \<times> int) act" where
  "userProfileService_ListProfiles s tenantID page limit w =
     (let page1 = (if page < 1 then 1 else page);
          limit1 = (if limit < 1 \<or> limit > 100 then 20 else limit)
      in pro_ListByTenant (psi_repo s) tenantID page1 limit1 w)"

definition NewUserProfileService ::
  "'a env_scheme UserProfileRepository \<Rightarrow> 'a env_scheme TenantRepository \<Rightarrow> 'a env_scheme UserProfileService" where
  "NewUserProfileService repo tenantRepo =
     (let s = \<lparr>psi_repo = repo, psi_tenantRepo = tenantRepo\<rparr> in
      \<lparr>psv_CreateProfile = userProfileService_CreateProfile s, psv_GetProfile = userProfileService_GetProfile s,
       psv_UpdateProfile = userProfileService_UpdateProfile s,
       psv_ListProfiles = userProfileService_ListProfiles s\<rparr>)"

end
