(* ===== verification/Tn_Http.thy ===== *)
theory Tn_Http
  imports Tn_Service Http
begin

text \<open>
  tenant-service: the HTTP layer of \<open>internal/adapters/http\<close>: the handlers, the middleware and the
  router. Responses carry domain values.
\<close>

datatype tn_payload =
    T_error string
  | T_status string
  | T_tenant Tenant
  | T_tenants "Tenant list" int int int
  | T_settings TenantSettings
  | T_profile UserProfile
  | T_profiles "UserProfile list" int int int
  | T_org Organization
  | T_orgs "Organization list"
  | T_empty

type_synonym 'w tn_handler = "(request, 'w, tn_payload) handler"

record 'w tn_Handler =
  th_tenantSvc :: "'w TenantService"
  th_orgSvc :: "'w OrganizationService"
  th_profileSvc :: "'w UserProfileService"

section \<open>Responses\<close>

definition tn_respondError :: "nat \<Rightarrow> string \<Rightarrow> tn_payload response" where
  "tn_respondError status message = json_response status (T_error message)"

definition tn_handleDomainError :: "goerr \<Rightarrow> tn_payload response" where
  "tn_handleDomainError err =
     (if errors_Is err ErrTenantNotFound then tn_respondError StatusNotFound ''tenant not found''
      else if errors_Is err ErrTenantAlreadyExists then tn_respondError StatusConflict ''tenant already exists''
      else if errors_Is err ErrSlugTaken then tn_respondError StatusConflict ''slug is already taken''
      else if errors_Is err ErrOrganizationNotFound then tn_respondError StatusNotFound ''organization not found''
      else if errors_Is err ErrProfileNotFound then tn_respondError StatusNotFound ''profile not found''
      else if errors_Is err tn_ErrInvalidInput then tn_respondError StatusBadRequest (err_Error err)
      else tn_respondError StatusInternalServerError ''internal server error'')"

definition tn_bad_body :: "tn_payload response" where
  "tn_bad_body = tn_respondError StatusBadRequest ''invalid request body''"

fun tn_reply :: "nat \<Rightarrow> ('a \<Rightarrow> tn_payload) \<Rightarrow> (goerr + 'a) \<times> 'w \<Rightarrow> tn_payload response \<times> 'w" where
  "tn_reply status payload (Inl err, w) = (tn_handleDomainError err, w)"
| "tn_reply status payload (Inr x, w) = (json_response status (payload x), w)"

fun tn_done :: "string \<Rightarrow> goerr option \<times> 'w \<Rightarrow> tn_payload response \<times> 'w" where
  "tn_done message (Some err, w) = (tn_handleDomainError err, w)"
| "tn_done message (None, w) = (json_response StatusOK (T_status message), w)"

text \<open>\<open>page\<close> and \<open>limit\<close> of the query, with their defaults.\<close>

definition query_page :: "request \<Rightarrow> int \<times> int" where
  "query_page r =
     (let page = fst (strconv_Atoi (rq_Query r ''page''));
          limit = fst (strconv_Atoi (rq_Query r ''limit''))
      in (if page < 1 then 1 else page, if limit < 1 then 20 else limit))"

section \<open>Tenants\<close>

definition decode_CreateTenant :: "string \<Rightarrow> CreateTenantRequest option" where
  "decode_CreateTenant body =
     Option.bind (body_members body) (\<lambda>kvs.
     Option.bind (field ''name'' set_string kvs '''') (\<lambda>name.
     Option.bind (field ''slug'' set_string kvs '''') (\<lambda>slug.
     Option.bind (field ''plan'' set_string kvs '''') (\<lambda>plan.
       Some \<lparr>ctr_Name = name, ctr_Slug = slug, ctr_Plan = plan\<rparr>))))"

definition tn_Handler_CreateTenant :: "'w tn_Handler \<Rightarrow> 'w tn_handler" where
  "tn_Handler_CreateTenant h r w =
     (case decode_CreateTenant (rq_Body r) of
        None \<Rightarrow> (tn_bad_body, w)
      | Some req \<Rightarrow> tn_reply StatusCreated T_tenant (tsv_CreateTenant (th_tenantSvc h) req w))"

definition tn_Handler_ListTenants :: "'w tn_Handler \<Rightarrow> 'w tn_handler" where
  "tn_Handler_ListTenants h r w =
     (let (page, limit) = query_page r in
      case tsv_ListTenants (th_tenantSvc h) page limit w of
        (Inl _, w1) \<Rightarrow> (tn_respondError StatusInternalServerError ''failed to list tenants'', w1)
      | (Inr (tenants, cnt), w1) \<Rightarrow> (json_response StatusOK (T_tenants tenants cnt page limit), w1))"

definition tn_Handler_GetTenant :: "'w tn_Handler \<Rightarrow> 'w tn_handler" where
  "tn_Handler_GetTenant h r w =
     tn_reply StatusOK T_tenant (tsv_GetTenant (th_tenantSvc h) (rq_URLParam r ''tenantId'') w)"

definition decode_UpdateTenant :: "string \<Rightarrow> UpdateTenantRequest option" where
  "decode_UpdateTenant body =
     Option.bind (body_members body) (\<lambda>kvs.
     Option.bind (field ''name'' set_string_ptr kvs None) (\<lambda>name.
     Option.bind (field ''plan'' set_string_ptr kvs None) (\<lambda>plan.
     Option.bind (field ''status'' set_string_ptr kvs None) (\<lambda>status.
       Some \<lparr>uten_Name = name, uten_Plan = plan, uten_Status = status\<rparr>))))"

definition tn_Handler_UpdateTenant :: "'w tn_Handler \<Rightarrow> 'w tn_handler" where
  "tn_Handler_UpdateTenant h r w =
     (case decode_UpdateTenant (rq_Body r) of
        None \<Rightarrow> (tn_bad_body, w)
      | Some req \<Rightarrow>
         tn_reply StatusOK T_tenant (tsv_UpdateTenant (th_tenantSvc h) (rq_URLParam r ''tenantId'') req w))"

definition tn_Handler_DeactivateTenant :: "'w tn_Handler \<Rightarrow> 'w tn_handler" where
  "tn_Handler_DeactivateTenant h r w =
     tn_done ''deactivated'' (tsv_DeactivateTenant (th_tenantSvc h) (rq_URLParam r ''tenantId'') w)"

definition tn_Handler_GetSettings :: "'w tn_Handler \<Rightarrow> 'w tn_handler" where
  "tn_Handler_GetSettings h r w =
     tn_reply StatusOK T_settings (tsv_GetSettings (th_tenantSvc h) (rq_URLParam r ''tenantId'') w)"

definition set_prefs :: "json \<Rightarrow> NotificationPreferences \<Rightarrow> NotificationPreferences option" where
  "set_prefs v p =
     Option.bind (members v) (\<lambda>kvs.
     Option.bind (field ''email_enabled'' set_bool kvs (np_EmailEnabled p)) (\<lambda>email.
     Option.bind (field ''sms_enabled'' set_bool kvs (np_SMSEnabled p)) (\<lambda>sms.
     Option.bind (field ''in_app_enabled'' set_bool kvs (np_InAppEnabled p)) (\<lambda>inapp.
       Some \<lparr>np_EmailEnabled = email, np_SMSEnabled = sms, np_InAppEnabled = inapp\<rparr>))))"

definition decode_settings :: "string \<Rightarrow> TenantSettings option" where
  "decode_settings body =
     Option.bind (body_members body) (\<lambda>kvs.
     Option.bind (field ''max_users'' set_int kvs 0) (\<lambda>maxUsers.
     Option.bind (field ''allowed_domains'' (set_slice set_string '''') kvs None) (\<lambda>domains.
     Option.bind (field ''features'' (set_map (\<lambda>v. set_bool v False)) kvs None) (\<lambda>features.
     Option.bind (field ''notification_prefs'' set_prefs kvs
         \<lparr>np_EmailEnabled = False, np_SMSEnabled = False, np_InAppEnabled = False\<rparr>) (\<lambda>prefs.
       Some \<lparr>se_MaxUsers = maxUsers, se_AllowedDomains = domains, se_Features = features,
             se_NotificationPrefs = prefs\<rparr>)))))"

definition tn_Handler_UpdateSettings :: "'w tn_Handler \<Rightarrow> 'w tn_handler" where
  "tn_Handler_UpdateSettings h r w =
     (case decode_settings (rq_Body r) of
        None \<Rightarrow> (tn_bad_body, w)
      | Some settings \<Rightarrow>
         tn_done ''updated'' (tsv_UpdateSettings (th_tenantSvc h) (rq_URLParam r ''tenantId'') settings w))"

definition tn_Handler_ListMembers :: "'w tn_Handler \<Rightarrow> 'w tn_handler" where
  "tn_Handler_ListMembers h r w =
     (let (page, limit) = query_page r in
      case psv_ListProfiles (th_profileSvc h) (rq_URLParam r ''tenantId'') page limit w of
        (Inl _, w1) \<Rightarrow> (tn_respondError StatusInternalServerError ''failed to list members'', w1)
      | (Inr (profiles, cnt), w1) \<Rightarrow> (json_response StatusOK (T_profiles profiles cnt page limit), w1))"

section \<open>Profiles and organizations\<close>

definition tn_Handler_GetProfile :: "'w tn_Handler \<Rightarrow> 'w tn_handler" where
  "tn_Handler_GetProfile h r w =
     tn_reply StatusOK T_profile (psv_GetProfile (th_profileSvc h) (rq_URLParam r ''userId'') w)"

definition decode_UpdateProfile :: "string \<Rightarrow> UpdateProfileRequest option" where
  "decode_UpdateProfile body =
     Option.bind (body_members body) (\<lambda>kvs.
     Option.bind (field ''display_name'' set_string_ptr kvs None) (\<lambda>displayName.
     Option.bind (field ''avatar_url'' set_string_ptr kvs None) (\<lambda>avatarURL.
     Option.bind (field ''timezone'' set_string_ptr kvs None) (\<lambda>timezone.
     Option.bind (field ''locale'' set_string_ptr kvs None) (\<lambda>loc.
     Option.bind (field ''organization_id'' set_string_ptr kvs None) (\<lambda>organizationID.
       Some \<lparr>upr_DisplayName = displayName, upr_AvatarURL = avatarURL, upr_Timezone = timezone,
             upr_Locale = loc, upr_OrganizationID = organizationID\<rparr>))))))"

definition tn_Handler_UpdateProfile :: "'w tn_Handler \<Rightarrow> 'w tn_handler" where
  "tn_Handler_UpdateProfile h r w =
     (case decode_UpdateProfile (rq_Body r) of
        None \<Rightarrow> (tn_bad_body, w)
      | Some req \<Rightarrow>
         tn_reply StatusOK T_profile (psv_UpdateProfile (th_profileSvc h) (rq_URLParam r ''userId'') req w))"

definition tn_tenant_required :: "tn_payload response" where
  "tn_tenant_required = tn_respondError StatusBadRequest ''tenant_id is required''"

definition tn_Handler_ListOrganizations :: "'w tn_Handler \<Rightarrow> 'w tn_handler" where
  "tn_Handler_ListOrganizations h r w =
     (let q = rq_Query r ''tenant_id'';
          tenantID = (if q = '''' then ctx_string (ctx_tenantID r) else q)
      in if tenantID = '''' then (tn_tenant_required, w)
         else (case osv_ListOrganizations (th_orgSvc h) tenantID w of
           (Inl _, w1) \<Rightarrow> (tn_respondError StatusInternalServerError ''failed to list organizations'', w1)
         | (Inr orgs, w1) \<Rightarrow> (json_response StatusOK (T_orgs orgs), w1)))"

definition decode_CreateOrg :: "string \<Rightarrow> (string \<times> CreateOrgRequest) option" where
  "decode_CreateOrg body =
     Option.bind (body_members body) (\<lambda>kvs.
     Option.bind (field ''tenant_id'' set_string kvs '''') (\<lambda>tenantID.
     Option.bind (field ''name'' set_string kvs '''') (\<lambda>name.
     Option.bind (field ''type'' set_string kvs '''') (\<lambda>ty.
     Option.bind (field ''parent_id'' set_string_ptr kvs None) (\<lambda>parentID.
       Some (tenantID, \<lparr>cor_Name = name, cor_Type = ty, cor_ParentID = parentID\<rparr>))))))"

definition tn_Handler_CreateOrganization :: "'w tn_Handler \<Rightarrow> 'w tn_handler" where
  "tn_Handler_CreateOrganization h r w =
     (case decode_CreateOrg (rq_Body r) of
        None \<Rightarrow> (tn_bad_body, w)
      | Some (tid, req) \<Rightarrow>
         (let tenantID = (if tid = '''' then ctx_string (ctx_tenantID r) else tid)
          in if tenantID = '''' then (tn_tenant_required, w)
             else tn_reply StatusCreated T_org (osv_CreateOrganization (th_orgSvc h) tenantID req w)))"

section \<open>Middleware\<close>

definition tn_RequestLogger :: "'a env_scheme tn_handler \<Rightarrow> 'a env_scheme tn_handler" where
  "tn_RequestLogger next r w =
     (let (start, w1) = time_Now w; (resp, w2) = next r w1; (stop, w3) = time_Now w2 in (resp, w3))"

definition tn_CORS :: "'w tn_handler \<Rightarrow> 'w tn_handler" where
  "tn_CORS next r w =
     (let (resp, w1) =
        (if rq_Method r = ''OPTIONS''
         then (\<lparr>rs_status = StatusNoContent, rs_header = [], rs_body = T_empty\<rparr>, w)
         else next r w)
      in (add_header ''Access-Control-Allow-Origin'' ''*''
           (add_header ''Access-Control-Allow-Methods'' ''GET, POST, PUT, PATCH, DELETE, OPTIONS''
             (add_header ''Access-Control-Allow-Headers''
               ''Accept, Authorization, Content-Type, X-Request-ID, X-Tenant-ID, x-api-key''
               (add_header ''Access-Control-Max-Age'' ''300'' resp))), w1))"

definition tn_RequestID :: "'a env_scheme tn_handler \<Rightarrow> 'a env_scheme tn_handler" where
  "tn_RequestID next r w =
     (let hdr = rq_Header r ''X-Request-ID'';
          (requestID, w1) = (if hdr = '''' then uuid_NewString w else (hdr, w));
          (resp, w2) = next (r\<lparr>ctx_requestID := Some requestID\<rparr>) w1
      in (add_header ''X-Request-ID'' requestID resp, w2))"

definition tn_TenantContext :: "'w tn_handler \<Rightarrow> 'w tn_handler" where
  "tn_TenantContext next r w =
     (let tenantID = rq_Header r ''X-Tenant-ID''
      in next (if tenantID = '''' then r else r\<lparr>ctx_tenantID := Some tenantID\<rparr>) w)"

section \<open>Router\<close>

text \<open>What chi makes of a request: a pattern under \<open>/api/v1\<close>, the health route, or no route.\<close>

datatype tn_match =
    T_Matched string "string \<Rightarrow> string"
  | T_Health
  | T_None nat

definition tn_endpoint :: "'w tn_Handler \<Rightarrow> string \<Rightarrow> string \<Rightarrow> 'w tn_handler" where
  "tn_endpoint h meth pat r w =
     (if (meth, pat) = (''POST'', ''/tenants/'') then tn_Handler_CreateTenant h r w
      else if (meth, pat) = (''GET'', ''/tenants/'') then tn_Handler_ListTenants h r w
      else if (meth, pat) = (''GET'', ''/tenants/{tenantId}/'') then tn_Handler_GetTenant h r w
      else if (meth, pat) = (''PUT'', ''/tenants/{tenantId}/'') then tn_Handler_UpdateTenant h r w
      else if (meth, pat) = (''DELETE'', ''/tenants/{tenantId}/'') then tn_Handler_DeactivateTenant h r w
      else if (meth, pat) = (''GET'', ''/tenants/{tenantId}/settings'') then tn_Handler_GetSettings h r w
      else if (meth, pat) = (''PUT'', ''/tenants/{tenantId}/settings'') then tn_Handler_UpdateSettings h r w
      else if (meth, pat) = (''GET'', ''/tenants/{tenantId}/members'') then tn_Handler_ListMembers h r w
      else if (meth, pat) = (''GET'', ''/profiles/{userId}'') then tn_Handler_GetProfile h r w
      else if (meth, pat) = (''PUT'', ''/profiles/{userId}'') then tn_Handler_UpdateProfile h r w
      else if (meth, pat) = (''GET'', ''/organizations/'') then tn_Handler_ListOrganizations h r w
      else if (meth, pat) = (''POST'', ''/organizations/'') then tn_Handler_CreateOrganization h r w
      else (json_response StatusNotFound T_empty, w))"

definition tn_NewRouter :: "(request \<Rightarrow> tn_match) \<Rightarrow> 'a env_scheme tn_Handler \<Rightarrow> 'a env_scheme tn_handler" where
  "tn_NewRouter mux h =
     tn_RequestID (tn_RequestLogger (tn_CORS (tn_TenantContext (\<lambda>r w.
       case mux r of
         T_Matched pat params \<Rightarrow> tn_endpoint h (rq_Method r) pat (r\<lparr>rq_URLParam := params\<rparr>) w
       | T_Health \<Rightarrow> (json_response StatusOK (T_status ''ok''), w)
       | T_None status \<Rightarrow> (json_response status T_empty, w)))))"

end
