(* ===== verification/Tn_Laws.thy ===== *)
theory Tn_Laws
  imports Tn_Repo Tn_Http
begin

text \<open>
  tenant-service: the contract of the database, an executable database that satisfies it, the wiring
  of \<open>cmd/server/main.go\<close>, the command \<open>cmd/seed\<close>, and the rule that an invariant kept by every
  operation of the services is kept by every sequence of requests and runs of the command.
\<close>

section \<open>The database\<close>

text \<open>The stored form of a row: the server rounds times and GORM sets \<open>updated_at\<close>.\<close>

definition tenant_stored :: "tenantModel \<Rightarrow> tenantModel \<Rightarrow> bool" where
  "tenant_stored m m' \<longleftrightarrow> m'\<lparr>tnm_CreatedAt := tnm_CreatedAt m, tnm_UpdatedAt := tnm_UpdatedAt m\<rparr> = m"

definition org_stored :: "organizationModel \<Rightarrow> organizationModel \<Rightarrow> bool" where
  "org_stored m m' \<longleftrightarrow> m'\<lparr>orm_CreatedAt := orm_CreatedAt m, orm_UpdatedAt := orm_UpdatedAt m\<rparr> = m"

definition profile_stored :: "userProfileModel \<Rightarrow> userProfileModel \<Rightarrow> bool" where
  "profile_stored m m' \<longleftrightarrow> m'\<lparr>pfm_CreatedAt := pfm_CreatedAt m, pfm_UpdatedAt := pfm_UpdatedAt m\<rparr> = m"

lemma tenant_storedD: "tenant_stored m m' \<Longrightarrow> tnm_ID m' = tnm_ID m \<and> tnm_Name m' = tnm_Name m \<and>
    tnm_Slug m' = tnm_Slug m \<and> tnm_Plan m' = tnm_Plan m \<and> tnm_Status m' = tnm_Status m \<and>
    tnm_MaxUsers m' = tnm_MaxUsers m \<and> tnm_AllowedDomains m' = tnm_AllowedDomains m \<and>
    tnm_Features m' = tnm_Features m"
  by (cases m; cases m') (simp add: tenant_stored_def)

lemma org_storedD: "org_stored m m' \<Longrightarrow> orm_ID m' = orm_ID m \<and> orm_TenantID m' = orm_TenantID m"
  by (cases m; cases m') (simp add: org_stored_def)

lemma profile_storedD: "profile_stored m m' \<Longrightarrow> pfm_UserID m' = pfm_UserID m \<and> pfm_TenantID m' = pfm_TenantID m"
  by (cases m; cases m') (simp add: profile_stored_def)

lemma tn_stored_refl [simp]: "tenant_stored m m" "org_stored g g" "profile_stored p p"
  by (simp_all add: tenant_stored_def org_stored_def profile_stored_def)

definition tenant_conflict :: "tn_db \<Rightarrow> tenantModel \<Rightarrow> tenantModel \<Rightarrow> bool" where
  "tenant_conflict db x m \<longleftrightarrow> tdb_eq db (tnm_ID x) (tnm_ID m) \<or> tdb_eq db (tnm_Slug x) (tnm_Slug m)"

definition tenant_ready :: "tenantModel \<Rightarrow> bool" where
  "tenant_ready m \<longleftrightarrow> tnm_Plan m \<noteq> '''' \<and> tnm_Status m \<noteq> '''' \<and> tnm_MaxUsers m \<noteq> 0"

definition profile_ready :: "userProfileModel \<Rightarrow> bool" where
  "profile_ready m \<longleftrightarrow> pfm_Timezone m \<noteq> '''' \<and> pfm_Locale m \<noteq> ''''"

locale tn_db_laws =
  fixes db :: tn_db
  assumes eq_refl: "tdb_eq db a a"
    and eq_sym: "tdb_eq db a b \<Longrightarrow> tdb_eq db b a"
    and eq_trans: "tdb_eq db a b \<Longrightarrow> tdb_eq db b c \<Longrightarrow> tdb_eq db a c"
    and tenants_laws: "gorm_table_laws (tdb_tenants db) tnm_ID (tenant_conflict db) tenant_stored tenant_ready"
    and orgs_laws: "gorm_table_laws (tdb_orgs db) orm_ID (\<lambda>x m. tdb_eq db (orm_ID x) (orm_ID m)) org_stored (\<lambda>_. True)"
    and profiles_laws: "gorm_table_laws (tdb_profiles db) pfm_UserID (\<lambda>x m. tdb_eq db (pfm_UserID x) (pfm_UserID m))
      profile_stored profile_ready"

sublocale tn_db_laws \<subseteq> tenants_t: gorm_table_laws "tdb_tenants db" tnm_ID "tenant_conflict db" tenant_stored tenant_ready
  by (rule tenants_laws)

sublocale tn_db_laws \<subseteq> orgs_t: gorm_table_laws "tdb_orgs db" orm_ID "\<lambda>x m. tdb_eq db (orm_ID x) (orm_ID m)"
    org_stored "\<lambda>_. True"
  by (rule orgs_laws)

sublocale tn_db_laws \<subseteq> profiles_t: gorm_table_laws "tdb_profiles db" pfm_UserID
    "\<lambda>x m. tdb_eq db (pfm_UserID x) (pfm_UserID m)" profile_stored profile_ready
  by (rule profiles_laws)

definition mem_tn_db :: tn_db where
  "mem_tn_db =
     \<lparr>tdb_eq = (=),
      tdb_tenants = mem_table tnm_ID (\<lambda>x m. tnm_ID x = tnm_ID m \<or> tnm_Slug x = tnm_Slug m),
      tdb_orgs = mem_table orm_ID (\<lambda>x m. orm_ID x = orm_ID m),
      tdb_profiles = mem_table pfm_UserID (\<lambda>x m. pfm_UserID x = pfm_UserID m)\<rparr>"

interpretation mem_tn: tn_db_laws mem_tn_db
proof (rule tn_db_laws.intro, goal_cases)
  case 4 show ?case unfolding mem_tn_db_def tn_db.select_convs tenant_conflict_def [abs_def]
    by (rule gorm_table_laws_mono [OF mem.gorm_table_laws_axioms]) (simp_all add: tenant_storedD)
next
  case 5 show ?case unfolding mem_tn_db_def tn_db.select_convs
    by (rule gorm_table_laws_mono [OF mem.gorm_table_laws_axioms]) (simp_all add: org_storedD)
next
  case 6 show ?case unfolding mem_tn_db_def tn_db.select_convs
    by (rule gorm_table_laws_mono [OF mem.gorm_table_laws_axioms]) (simp_all add: profile_storedD)
qed (simp_all add: mem_tn_db_def)

section \<open>Wiring\<close>

definition tn_main :: "tn_db \<Rightarrow> tn_world tn_Handler" where
  "tn_main db =
     \<lparr>th_tenantSvc = NewTenantService (tenantRepository db),
      th_orgSvc = NewOrganizationService (organizationRepository db) (tenantRepository db),
      th_profileSvc = NewUserProfileService (userProfileRepository db) (tenantRepository db)\<rparr>"

section \<open>The seeding command\<close>

text \<open>\<open>cmd/seed\<close> stops with a message at the first failure.\<close>

definition seed_org_names :: "(string \<times> string) list" where
  "seed_org_names = [(''Engineering'', ''department''), (''Marketing'', ''department''), (''Operations'', ''department'')]"

fun seed_orgs :: "'w OrganizationService \<Rightarrow> string \<Rightarrow> (string \<times> string) list \<Rightarrow> (string \<Rightarrow> string) \<Rightarrow> 'w \<Rightarrow>
    (string + (string \<Rightarrow> string)) \<times> 'w" where
  "seed_orgs os tenantID [] orgIDs w = (Inr orgIDs, w)"
| "seed_orgs os tenantID ((name, kind) # ns) orgIDs w =
     (case osv_CreateOrganization os tenantID \<lparr>cor_Name = name, cor_Type = kind, cor_ParentID = None\<rparr> w of
        (Inl e, w1) \<Rightarrow> (Inl (''create org '' @ name @ '': '' @ err_Error e), w1)
      | (Inr org, w1) \<Rightarrow> seed_orgs os tenantID ns (orgIDs(name := or_ID org)) w1)"

definition seed_profile_reqs :: "string \<Rightarrow> (string \<Rightarrow> string) \<Rightarrow> CreateProfileRequest list" where
  "seed_profile_reqs tenantID orgIDs =
     [\<lparr>cpr_UserID = ''seed-user-001'', cpr_TenantID = tenantID, cpr_OrganizationID = Some (orgIDs ''Engineering''),
       cpr_DisplayName = ''Alice Engineer'', cpr_Timezone = ''America/New_York'', cpr_Locale = ''en''\<rparr>,
      \<lparr>cpr_UserID = ''seed-user-002'', cpr_TenantID = tenantID, cpr_OrganizationID = Some (orgIDs ''Marketing''),
       cpr_DisplayName = ''Bob Marketer'', cpr_Timezone = ''America/Los_Angeles'', cpr_Locale = ''en''\<rparr>]"

fun seed_profiles :: "'w UserProfileService \<Rightarrow> CreateProfileRequest list \<Rightarrow> 'w \<Rightarrow> (string + unit) \<times> 'w" where
  "seed_profiles ps [] w = (Inr (), w)"
| "seed_profiles ps (u # us) w =
     (case psv_CreateProfile ps u w of
        (Inl e, w1) \<Rightarrow> (Inl (''create profile for '' @ cpr_UserID u @ '': '' @ err_Error e), w1)
      | (Inr _, w1) \<Rightarrow> seed_profiles ps us w1)"

definition tn_seed_main :: "'w tn_Handler \<Rightarrow> 'w \<Rightarrow> (string + unit) \<times> 'w" where
  "tn_seed_main h w =
     (case tsv_CreateTenant (th_tenantSvc h) \<lparr>ctr_Name = ''Demo Corp'', ctr_Slug = ''demo'', ctr_Plan = PlanEnterprise\<rparr> w of
        (Inl e, w1) \<Rightarrow> (Inl (''create demo tenant: '' @ err_Error e), w1)
      | (Inr tenant, w1) \<Rightarrow>
         (case seed_orgs (th_orgSvc h) (te_ID tenant) seed_org_names (\<lambda>_. '''') w1 of
            (Inl msg, w2) \<Rightarrow> (Inl msg, w2)
          | (Inr orgIDs, w2) \<Rightarrow> seed_profiles (th_profileSvc h) (seed_profile_reqs (te_ID tenant) orgIDs) w2))"

section \<open>Runs\<close>

inductive tn_reach :: "'a env_scheme tn_Handler \<Rightarrow> 'a env_scheme \<Rightarrow> 'a env_scheme \<Rightarrow> bool"
  for h :: "'a env_scheme tn_Handler" and w :: "'a env_scheme" where
  start: "tn_reach h w w"
| request: "tn_reach h w w1 \<Longrightarrow> tn_reach h w (snd (tn_NewRouter mux h r w1))"
| seed: "tn_reach h w w1 \<Longrightarrow> tn_reach h w (snd (tn_seed_main h w1))"

text \<open>\<open>tn_kept\<close>: an invariant kept by every operation the handlers and the command call.\<close>

locale tn_kept =
  fixes h :: "'a env_scheme tn_Handler" and I :: "'a env_scheme \<Rightarrow> bool"
  assumes now: "I w \<Longrightarrow> I (w\<lparr>env_clock := k\<rparr>)" and uuid: "I w \<Longrightarrow> I (w\<lparr>env_uuids := u\<rparr>)"
    and CreateTenant: "I w \<Longrightarrow> I (snd (tsv_CreateTenant (th_tenantSvc h) creq w))"
    and GetTenant: "I w \<Longrightarrow> I (snd (tsv_GetTenant (th_tenantSvc h) i w))"
    and UpdateTenant: "I w \<Longrightarrow> I (snd (tsv_UpdateTenant (th_tenantSvc h) i ureq w))"
    and DeactivateTenant: "I w \<Longrightarrow> I (snd (tsv_DeactivateTenant (th_tenantSvc h) i w))"
    and ListTenants: "I w \<Longrightarrow> I (snd (tsv_ListTenants (th_tenantSvc h) pg l w))"
    and GetSettings: "I w \<Longrightarrow> I (snd (tsv_GetSettings (th_tenantSvc h) i w))"
    and UpdateSettings: "I w \<Longrightarrow> I (snd (tsv_UpdateSettings (th_tenantSvc h) i st w))"
    and CreateOrganization: "I w \<Longrightarrow> I (snd (osv_CreateOrganization (th_orgSvc h) i oreq w))"
    and ListOrganizations: "I w \<Longrightarrow> I (snd (osv_ListOrganizations (th_orgSvc h) i w))"
    and CreateProfile: "I w \<Longrightarrow> I (snd (psv_CreateProfile (th_profileSvc h) preq w))"
    and GetProfile: "I w \<Longrightarrow> I (snd (psv_GetProfile (th_profileSvc h) i w))"
    and UpdateProfile: "I w \<Longrightarrow> I (snd (psv_UpdateProfile (th_profileSvc h) i qreq w))"
    and ListProfiles: "I w \<Longrightarrow> I (snd (psv_ListProfiles (th_profileSvc h) i pg l w))"
begin

lemmas ops = CreateTenant GetTenant UpdateTenant DeactivateTenant ListTenants GetSettings UpdateSettings
  CreateOrganization ListOrganizations CreateProfile GetProfile UpdateProfile ListProfiles

definition serves :: "'a env_scheme tn_handler \<Rightarrow> bool" where
  "serves f \<longleftrightarrow> (\<forall>r w. I w \<longrightarrow> I (snd (f r w)))"

lemma servesD: "serves f \<Longrightarrow> I w \<Longrightarrow> I (snd (f r w))"
  by (simp add: serves_def)

lemma answers [simp]: "snd (tn_reply st f x) = snd x" "snd (tn_done msg y) = snd y"
  by (cases x; cases "fst x"; simp) (cases y; cases "fst y"; simp)

lemma lists:
  "tsv_ListTenants (th_tenantSvc h) pg l w = (x, w') \<Longrightarrow> I w \<Longrightarrow> I w'"
  "osv_ListOrganizations (th_orgSvc h) i w = (y, w') \<Longrightarrow> I w \<Longrightarrow> I w'"
  "psv_ListProfiles (th_profileSvc h) i pg l w = (z, w') \<Longrightarrow> I w \<Longrightarrow> I w'"
  using ListTenants [of w pg l] ListOrganizations [of w i] ListProfiles [of w i pg l] by simp_all

lemma tn_handlers:
  "serves (tn_Handler_CreateTenant h)" "serves (tn_Handler_ListTenants h)" "serves (tn_Handler_GetTenant h)"
  "serves (tn_Handler_UpdateTenant h)" "serves (tn_Handler_DeactivateTenant h)" "serves (tn_Handler_GetSettings h)"
  "serves (tn_Handler_UpdateSettings h)" "serves (tn_Handler_ListMembers h)" "serves (tn_Handler_GetProfile h)"
  "serves (tn_Handler_UpdateProfile h)" "serves (tn_Handler_ListOrganizations h)"
  "serves (tn_Handler_CreateOrganization h)"
  unfolding serves_def
  by (simp_all add: tn_Handler_CreateTenant_def tn_Handler_GetTenant_def tn_Handler_UpdateTenant_def
      tn_Handler_DeactivateTenant_def tn_Handler_GetSettings_def tn_Handler_UpdateSettings_def tn_Handler_GetProfile_def
      tn_Handler_UpdateProfile_def tn_Handler_CreateOrganization_def Let_def ops split: option.split prod.split)
    (auto simp: tn_Handler_ListTenants_def tn_Handler_ListMembers_def tn_Handler_ListOrganizations_def Let_def
      dest: lists split: prod.split sum.split)

lemma middleware:
  assumes "serves f"
  shows "serves (tn_RequestLogger f)" "serves (tn_CORS f)" "serves (tn_RequestID f)" "serves (tn_TenantContext f)"
proof -
  have f: "I w \<Longrightarrow> I (snd (f r w))" for r w using assms by (rule servesD)
  show "serves (tn_RequestLogger f)"
    unfolding serves_def tn_RequestLogger_def time_Now_def by (auto simp: Let_def split_beta intro!: now f)
  show "serves (tn_CORS f)"
    unfolding serves_def tn_CORS_def by (auto simp: Let_def split_beta f)
  show "serves (tn_RequestID f)"
    unfolding serves_def tn_RequestID_def uuid_NewString_def by (auto simp: Let_def split_beta intro!: f uuid)
  show "serves (tn_TenantContext f)"
    unfolding serves_def tn_TenantContext_def by (auto simp: Let_def f)
qed

lemma router: "I w \<Longrightarrow> I (snd (tn_NewRouter mux h r w))"
proof -
  assume w: "I w"
  have "serves (tn_endpoint h m pat)" for m pat
    using tn_handlers unfolding serves_def tn_endpoint_def by simp
  then have "serves (\<lambda>r w. case mux r of
         T_Matched pat params \<Rightarrow> tn_endpoint h (rq_Method r) pat (r\<lparr>rq_URLParam := params\<rparr>) w
       | T_Health \<Rightarrow> (json_response StatusOK (T_status ''ok''), w)
       | T_None status \<Rightarrow> (json_response status T_empty, w))"
    unfolding serves_def by (simp split: tn_match.split)
  then have "serves (tn_NewRouter mux h)" unfolding tn_NewRouter_def by (intro middleware)
  then show ?thesis using w by (rule servesD)
qed

lemma seed_orgs_kept: "I w \<Longrightarrow> I (snd (seed_orgs (th_orgSvc h) t ns ids w))"
proof (induction ns arbitrary: ids w)
  case (Cons n ns)
  obtain name kind where n: "n = (name, kind)" by (cases n)
  let ?c = "osv_CreateOrganization (th_orgSvc h) t \<lparr>cor_Name = name, cor_Type = kind, cor_ParentID = None\<rparr> w"
  have "I (snd ?c)" using Cons.prems by (rule CreateOrganization)
  then show ?case using Cons.IH by (cases ?c) (auto simp: n split: sum.split)
qed simp

lemma seed_profiles_kept: "I w \<Longrightarrow> I (snd (seed_profiles (th_profileSvc h) us w))"
proof (induction us arbitrary: w)
  case (Cons u us)
  let ?c = "psv_CreateProfile (th_profileSvc h) u w"
  have "I (snd ?c)" using Cons.prems by (rule CreateProfile)
  then show ?case using Cons.IH by (cases ?c) (auto split: sum.split)
qed simp

lemma seeding: "I w \<Longrightarrow> I (snd (tn_seed_main h w))"
  using CreateTenant [of w] seed_orgs_kept seed_profiles_kept
  by (fastforce simp: tn_seed_main_def split: prod.split sum.split dest: arg_cong [of _ _ snd])

lemma tn_reach_kept: "tn_reach h w w' \<Longrightarrow> I w \<Longrightarrow> I w'"
  by (induction rule: tn_reach.induct) (auto intro: router seeding)

end

end
