(* ===== verification/Tn_Inv.thy ===== *)
theory Tn_Inv
  imports Tn_Laws
begin

text \<open>
  tenant-service: the invariant of the stored data and the proof that every operation keeps it, from
  the repositories up to sequences of requests (locale \<open>tn_kept\<close> of theory Tn_Laws).
\<close>

section \<open>The invariant\<close>

abbreviation tenant_rows :: "tn_world \<Rightarrow> tenantModel list" where "tenant_rows w \<equiv> rows (tw_tenants w)"
abbreviation org_rows :: "tn_world \<Rightarrow> organizationModel list" where "org_rows w \<equiv> rows (tw_orgs w)"
abbreviation profile_rows :: "tn_world \<Rightarrow> userProfileModel list" where "profile_rows w \<equiv> rows (tw_profiles w)"
abbreviation "tn_rows w \<equiv> (tenant_rows w, org_rows w, profile_rows w)"

definition tenant_keys :: "tenantModel \<Rightarrow> string \<times> string" where
  "tenant_keys m = (tnm_ID m, tnm_Slug m)"

text \<open>No two tenants share an identifier or a slug, in the collation of the server.\<close>

definition tenants_apart :: "tn_db \<Rightarrow> tenantModel list \<Rightarrow> bool" where
  "tenants_apart db ms \<longleftrightarrow>
     sorted_wrt (\<lambda>(i, s) (j, t). \<not> tdb_eq db i j \<and> \<not> tdb_eq db s t) (map tenant_keys ms)"

definition tenant_ok :: "tenantModel \<Rightarrow> bool" where
  "tenant_ok m \<longleftrightarrow> slugRegexp (tnm_Slug m) \<and> tnm_MaxUsers m = maxUsersForPlan (tnm_Plan m)"

definition is_tenant :: "tn_db \<Rightarrow> tenantModel list \<Rightarrow> string \<Rightarrow> bool" where
  "is_tenant db ms ident \<longleftrightarrow> list_ex (\<lambda>m. tdb_eq db (tnm_ID m) ident) ms"

definition tn_inv :: "tn_db \<Rightarrow> tn_world \<Rightarrow> bool" where
  "tn_inv db w \<longleftrightarrow> tenants_apart db (tenant_rows w) \<and> list_all tenant_ok (tenant_rows w) \<and>
     list_all (\<lambda>g. is_tenant db (tenant_rows w) (orm_TenantID g)) (org_rows w) \<and>
     list_all (\<lambda>p. is_tenant db (tenant_rows w) (pfm_TenantID p)) (profile_rows w)"

lemma tn_inv_cong: "tn_rows v = tn_rows w \<Longrightarrow> tn_inv db v = tn_inv db w"
  by (simp add: tn_inv_def)

lemmas tn_lookup_defs = tenantRepository_FindByID_def tenantRepository_FindBySlug_def tenantRepository_List_def
  organizationRepository_FindByID_def organizationRepository_ListByTenant_def
  userProfileRepository_FindByUserID_def userProfileRepository_ListByTenant_def

lemma tenantModelToDomain_ids: "tenantModelToDomain m = Inr t \<Longrightarrow>
    te_ID t = tnm_ID m \<and> te_Name t = tnm_Name m \<and> te_Slug t = tnm_Slug m \<and> te_Plan t = tnm_Plan m \<and>
    te_Status t = tnm_Status m \<and> te_MaxUsers t = tnm_MaxUsers m"
  by (auto simp: tenantModelToDomain_def split: sum.splits)

lemma orgModelToDomain_ids: "orgModelToDomain fl m = Inr g \<Longrightarrow> or_ID g = orm_ID m \<and> or_TenantID g = orm_TenantID m"
  by (auto simp: orgModelToDomain_def split: sum.splits)

lemma profileModelToDomain_ids: "profileModelToDomain fl m = Inr p \<Longrightarrow> pf_UserID p = pfm_UserID m \<and> pf_TenantID p = pfm_TenantID m"
  by (auto simp: profileModelToDomain_def split: sum.splits)

lemma patchedTenant_ids [simp]: "te_ID (patchedTenant req t) = te_ID t" "te_Slug (patchedTenant req t) = te_Slug t"
  by (simp_all add: patchedTenant_def Let_def split: option.split)

lemma patchedTenant_users:
  "te_MaxUsers t = maxUsersForPlan (te_Plan t) \<Longrightarrow>
     te_MaxUsers (patchedTenant req t) = maxUsersForPlan (te_Plan (patchedTenant req t))"
  by (simp add: patchedTenant_def Let_def split: option.split)

lemma patchedProfile_ids [simp]:
  "pf_UserID (patchedProfile req p) = pf_UserID p" "pf_TenantID (patchedProfile req p) = pf_TenantID p"
  by (simp_all add: patchedProfile_def Let_def split: option.split)

section \<open>The repositories\<close>

context tn_db_laws
begin

lemma keeps_lookups:
  "keeps tn_rows (tenantRepository_FindByID db i)" "keeps tn_rows (tenantRepository_FindBySlug db i)"
  "keeps tn_rows (tenantRepository_List db pg l)" "keeps tn_rows (organizationRepository_FindByID db i)"
  "keeps tn_rows (organizationRepository_ListByTenant db i)" "keeps tn_rows (userProfileRepository_FindByUserID db i)"
  "keeps tn_rows (userProfileRepository_ListByTenant db i pg l)"
  "keeps tn_rows (time_Now :: tn_world \<Rightarrow> _)" "keeps tn_rows (uuid_NewString :: tn_world \<Rightarrow> _)"
  by (auto simp: keeps_def tn_lookup_defs on_table_def Let_def time_Now_def uuid_NewString_def
      dest!: tenants_t.first_rows orgs_t.first_rows profiles_t.first_rows tenants_t.find_rows orgs_t.find_rows
        profiles_t.find_rows tenants_t.count_rows profiles_t.count_rows split: prod.splits sum.splits)

lemma found_tenant: "tenantRepository_FindByID db i w = (Inr t, w') \<Longrightarrow>
    \<exists>m\<in>set (tenant_rows w). tdb_eq db (tnm_ID m) i \<and> tenantModelToDomain m = Inr t"
  by (auto simp: tenantRepository_FindByID_def on_table_def dest!: tenants_t.first_ok split: prod.splits sum.splits)

lemma found_profile: "userProfileRepository_FindByUserID db i w = (Inr p, w') \<Longrightarrow>
    \<exists>m\<in>set (profile_rows w). tdb_eq db (pfm_UserID m) i \<and> (\<exists>fl. profileModelToDomain fl m = Inr p)"
  by (auto simp: userProfileRepository_FindByUserID_def on_table_def dest!: profiles_t.first_ok split: prod.splits sum.splits)

text \<open>Tenants rewritten one by one, with identifier and slug kept.\<close>

lemma inv_rewrite:
  assumes inv: "tn_inv db w" and other: "org_rows w' = org_rows w" "profile_rows w' = profile_rows w"
    and rw: "list_all2 (\<lambda>x y. tenant_keys x = tenant_keys y \<and> tenant_ok y) (tenant_rows w) (tenant_rows w')"
  shows "tn_inv db w'"
proof -
  have keys: "map tenant_keys (tenant_rows w') = map tenant_keys (tenant_rows w)"
    using rw by (intro list_all2_map_eq) (auto elim: list_all2_mono)
  have "is_tenant db (tenant_rows w') i = is_tenant db (tenant_rows w) i" for i
  proof -
    have "is_tenant db ms i = list_ex (\<lambda>(j, s). tdb_eq db j i) (map tenant_keys ms)" for ms
      by (simp add: is_tenant_def list_ex_iff tenant_keys_def)
    then show ?thesis using keys by metis
  qed
  moreover have "list_all tenant_ok (tenant_rows w')"
    using list_all2_memD [OF rw] by (auto simp: list_all_iff)
  ultimately show ?thesis using inv other keys by (simp add: tn_inv_def tenants_apart_def)
qed

lemma apart_eq:
  assumes "tenants_apart db ms" "x \<in> set ms" "y \<in> set ms" "tdb_eq db (tnm_ID x) (tnm_ID y)"
  shows "x = y"
  using assms unfolding tenants_apart_def tenant_keys_def by (induction ms) (auto dest: eq_sym)

lemma inv_tenant_Create:
  assumes inv: "tn_inv db w" and run: "tenantRepository_Create db t w = (r, w')"
    and ok: "tenant_ok (domainToTenantModel t)" "tenant_ready (domainToTenantModel t)"
  shows "tn_inv db w'"
proof -
  let ?m = "domainToTenantModel t"
  from run obtain r' t' where c: "gorm_Create (tdb_tenants db) ?m (tw_tenants w) = (r', t')" and w': "w' = w\<lparr>tw_tenants := t'\<rparr>"
    by (auto simp: tenantRepository_Create_def on_table_def Let_def split: prod.splits)
  from ok(2) c show ?thesis
  proof (cases rule: tenants_t.create_cases)
    case (ins m')
    note st = tenant_storedD [OF ins(1)]
    have "tenants_apart db (tenant_rows w @ [m'])"
      using inv ins(3) st by (auto simp: tn_inv_def tenants_apart_def sorted_wrt_append tenant_keys_def tenant_conflict_def)
    moreover have "tenant_ok m'" using ok(1) st by (simp add: tenant_ok_def)
    ultimately show ?thesis using inv ins(2) by (auto simp: tn_inv_def w' is_tenant_def list_all_iff)
  qed (use inv in \<open>simp add: tn_inv_def w'\<close>)
qed

lemma inv_tenant_Update:
  assumes inv: "tn_inv db w" and run: "tenantRepository_Update db t w = (r, w')"
    and m: "m \<in> set (tenant_rows w)" "tenant_keys (domainToTenantModel t) = tenant_keys m"
      "tenant_ok (domainToTenantModel t)"
  shows "tn_inv db w'"
proof -
  let ?m = "domainToTenantModel t"
  from run obtain r' t' where c: "gorm_Save (tdb_tenants db) ?m (tw_tenants w) = (r', t')" and w': "w' = w\<lparr>tw_tenants := t'\<rparr>"
    by (auto simp: tenantRepository_Update_def on_table_def Let_def split: prod.splits)
  have key: "tnm_ID ?m \<in> tnm_ID ` set (tenant_rows w)" using m by (auto simp: tenant_keys_def)
  from tenants_t.save [OF key c] show ?thesis
  proof (elim disjE conjE)
    assume rw: "rewritten tenant_stored (\<lambda>x. tnm_ID x = tnm_ID ?m) (\<lambda>_. ?m) (tw_tenants w) t'"
    have "tenant_keys x = tenant_keys y \<and> tenant_ok y"
      if "x \<in> set (tenant_rows w)" "if tnm_ID x = tnm_ID ?m then tenant_stored ?m y else y = x" for x y
    proof (cases "tnm_ID x = tnm_ID ?m")
      case True
      then have "x = m" using apart_eq [of "tenant_rows w" x m] inv that(1) m eq_refl by (simp add: tn_inv_def tenant_keys_def)
      then show ?thesis using that(2) True m tenant_storedD [of ?m y] by (simp add: tenant_keys_def tenant_ok_def)
    next
      case False
      then show ?thesis using that inv by (auto simp: tn_inv_def list_all_iff)
    qed
    from rewritten_rel [OF rw this] show ?thesis by (intro inv_rewrite [OF inv]) (simp_all add: w')
  qed (use inv in \<open>simp add: w' tn_inv_def\<close>)
qed

lemma inv_Deactivate:
  assumes inv: "tn_inv db w" and run: "tenantRepository_Deactivate db i w = (r, w')"
  shows "tn_inv db w'"
proof -
  let ?P = "\<lambda>m. tdb_eq db (tnm_ID m) i" and ?f = "\<lambda>m. m\<lparr>tnm_Status := TenantStatusInactive\<rparr>"
  from run obtain r' t' where c: "gorm_Update (tdb_tenants db) ?P ?f (tw_tenants w) = (r', t')" and w': "w' = w\<lparr>tw_tenants := t'\<rparr>"
    by (auto simp: tenantRepository_Deactivate_def on_table_def Let_def split: prod.splits)
  from tenants_t.update [OF c] show ?thesis
  proof (elim disjE conjE)
    assume rw: "rewritten tenant_stored ?P ?f (tw_tenants w) t'"
    have "tenant_keys x = tenant_keys y \<and> tenant_ok y"
      if "x \<in> set (tenant_rows w)" "if ?P x then tenant_stored (?f x) y else y = x" for x y
      using that inv tenant_storedD [of "?f x" y]
      by (auto simp: tn_inv_def list_all_iff tenant_keys_def tenant_ok_def split: if_splits)
    from rewritten_rel [OF rw this] show ?thesis by (intro inv_rewrite [OF inv]) (simp_all add: w')
  qed (use inv in \<open>simp add: w' tn_inv_def\<close>)
qed

lemma inv_org_Create:
  assumes inv: "tn_inv db w" and run: "organizationRepository_Create db g w = (r, w')"
    and ten: "is_tenant db (tenant_rows w) (or_TenantID g)"
  shows "tn_inv db w'"
proof -
  let ?m = "domainToOrgModel g"
  from run obtain r' t' where c: "gorm_Create (tdb_orgs db) ?m (tw_orgs w) = (r', t')" and w': "w' = w\<lparr>tw_orgs := t'\<rparr>"
    by (auto simp: organizationRepository_Create_def on_table_def Let_def split: prod.splits)
  from TrueI c show ?thesis
  proof (cases rule: orgs_t.create_cases)
    case (ins m')
    then show ?thesis using inv ten org_storedD [OF ins(1)] by (simp add: tn_inv_def w' domainToOrgModel_def)
  qed (use inv in \<open>simp add: tn_inv_def w'\<close>)
qed

lemma inv_profile_Create:
  assumes inv: "tn_inv db w" and run: "userProfileRepository_Create db p w = (r, w')"
    and ten: "is_tenant db (tenant_rows w) (pf_TenantID p)" and rdy: "profile_ready (domainToProfileModel p)"
  shows "tn_inv db w'"
proof -
  let ?m = "domainToProfileModel p"
  from run obtain r' t' where c: "gorm_Create (tdb_profiles db) ?m (tw_profiles w) = (r', t')" and w': "w' = w\<lparr>tw_profiles := t'\<rparr>"
    by (auto simp: userProfileRepository_Create_def on_table_def Let_def split: prod.splits)
  from rdy c show ?thesis
  proof (cases rule: profiles_t.create_cases)
    case (ins m')
    then show ?thesis using inv ten profile_storedD [OF ins(1)] by (simp add: tn_inv_def w' domainToProfileModel_def)
  qed (use inv in \<open>simp add: tn_inv_def w'\<close>)
qed

lemma inv_profile_Update:
  assumes inv: "tn_inv db w" and run: "userProfileRepository_Update db p w = (r, w')"
    and m: "m \<in> set (profile_rows w)" "pf_UserID p = pfm_UserID m" "pf_TenantID p = pfm_TenantID m"
  shows "tn_inv db w'"
proof -
  let ?m = "domainToProfileModel p"
  from run obtain r' t' where c: "gorm_Save (tdb_profiles db) ?m (tw_profiles w) = (r', t')" and w': "w' = w\<lparr>tw_profiles := t'\<rparr>"
    by (auto simp: userProfileRepository_Update_def on_table_def Let_def split: prod.splits)
  have key: "pfm_UserID ?m \<in> pfm_UserID ` set (profile_rows w)" using m by (auto simp: domainToProfileModel_def)
  from profiles_t.save [OF key c] show ?thesis
  proof (elim disjE conjE)
    assume rw: "rewritten profile_stored (\<lambda>x. pfm_UserID x = pfm_UserID ?m) (\<lambda>_. ?m) (tw_profiles w) t'"
    have "is_tenant db (tenant_rows w) (pfm_TenantID y)" if "y \<in> set (rows t')" for y
      using rewritten_memD [OF rw that] inv m(1,3) profile_storedD [of ?m y]
      by (auto simp: tn_inv_def list_all_iff domainToProfileModel_def split: if_splits)
    then show ?thesis using inv by (simp add: tn_inv_def w' list_all_iff)
  qed (use inv in \<open>simp add: w' tn_inv_def\<close>)
qed

end

section \<open>The services\<close>

definition tn_tenants :: "tn_db \<Rightarrow> tn_world tenantServiceImpl" where
  "tn_tenants db = \<lparr>tsi_repo = tenantRepository db\<rparr>"

definition tn_orgs :: "tn_db \<Rightarrow> tn_world organizationServiceImpl" where
  "tn_orgs db = \<lparr>osi_repo = organizationRepository db, osi_tenantRepo = tenantRepository db\<rparr>"

definition tn_profiles :: "tn_db \<Rightarrow> tn_world userProfileServiceImpl" where
  "tn_profiles db = \<lparr>psi_repo = userProfileRepository db, psi_tenantRepo = tenantRepository db\<rparr>"

lemma tn_main_simps [simp]:
  "tsv_CreateTenant (th_tenantSvc (tn_main db)) = tenantService_CreateTenant (tn_tenants db)"
  "tsv_GetTenant (th_tenantSvc (tn_main db)) = tenantRepository_FindByID db"
  "tsv_UpdateTenant (th_tenantSvc (tn_main db)) = tenantService_UpdateTenant (tn_tenants db)"
  "tsv_DeactivateTenant (th_tenantSvc (tn_main db)) = tenantService_DeactivateTenant (tn_tenants db)"
  "tsv_ListTenants (th_tenantSvc (tn_main db)) = tenantService_ListTenants (tn_tenants db)"
  "tsv_GetSettings (th_tenantSvc (tn_main db)) = tenantService_GetSettings (tn_tenants db)"
  "tsv_UpdateSettings (th_tenantSvc (tn_main db)) = tenantService_UpdateSettings (tn_tenants db)"
  "osv_CreateOrganization (th_orgSvc (tn_main db)) = organizationService_CreateOrganization (tn_orgs db)"
  "osv_ListOrganizations (th_orgSvc (tn_main db)) = organizationRepository_ListByTenant db"
  "psv_CreateProfile (th_profileSvc (tn_main db)) = userProfileService_CreateProfile (tn_profiles db)"
  "psv_GetProfile (th_profileSvc (tn_main db)) = userProfileRepository_FindByUserID db"
  "psv_UpdateProfile (th_profileSvc (tn_main db)) = userProfileService_UpdateProfile (tn_profiles db)"
  "psv_ListProfiles (th_profileSvc (tn_main db)) = userProfileService_ListProfiles (tn_profiles db)"
  by (simp_all add: tn_main_def Let_def NewTenantService_def NewOrganizationService_def NewUserProfileService_def
      tn_tenants_def tn_orgs_def tn_profiles_def fun_eq_iff tenantService_GetTenant_def tenantRepository_def
      organizationService_ListOrganizations_def organizationRepository_def userProfileService_GetProfile_def
      userProfileRepository_def)

lemma tn_repo_simps [simp]:
  "ten_Create (tsi_repo (tn_tenants db)) = tenantRepository_Create db"
  "ten_FindByID (tsi_repo (tn_tenants db)) = tenantRepository_FindByID db"
  "ten_FindBySlug (tsi_repo (tn_tenants db)) = tenantRepository_FindBySlug db"
  "ten_Update (tsi_repo (tn_tenants db)) = tenantRepository_Update db"
  "ten_Deactivate (tsi_repo (tn_tenants db)) = tenantRepository_Deactivate db"
  "ten_List (tsi_repo (tn_tenants db)) = tenantRepository_List db"
  "org_Create (osi_repo (tn_orgs db)) = organizationRepository_Create db"
  "ten_FindByID (osi_tenantRepo (tn_orgs db)) = tenantRepository_FindByID db"
  "pro_Create (psi_repo (tn_profiles db)) = userProfileRepository_Create db"
  "pro_FindByUserID (psi_repo (tn_profiles db)) = userProfileRepository_FindByUserID db"
  "pro_Update (psi_repo (tn_profiles db)) = userProfileRepository_Update db"
  "pro_ListByTenant (psi_repo (tn_profiles db)) = userProfileRepository_ListByTenant db"
  "ten_FindByID (psi_tenantRepo (tn_profiles db)) = tenantRepository_FindByID db"
  by (simp_all add: tn_tenants_def tn_orgs_def tn_profiles_def tenantRepository_def organizationRepository_def
      userProfileRepository_def)

text \<open>A write at the end of an operation.\<close>

lemma snd_write: "snd (case X of (r, w) \<Rightarrow> (case r of None \<Rightarrow> (Inr t, w) | Some e \<Rightarrow> (Inl (g e), w))) = snd X"
  by (simp split: prod.split option.split)

lemma new_tenant_row:
  assumes "slugRegexp slug" "plan \<noteq> ''''"
  shows "tenant_ok (domainToTenantModel (new_tenant i n slug plan c u))"
    "tenant_ready (domainToTenantModel (new_tenant i n slug plan c u))"
  using assms by (simp_all add: tenant_ok_def tenant_ready_def domainToTenantModel_def new_tenant_def
      TenantStatusActive_def maxUsersForPlan_def)

context tn_db_laws
begin

lemma inv_lookup: "keeps tn_rows f \<Longrightarrow> f w = (r, w') \<Longrightarrow> tn_inv db w \<Longrightarrow> tn_inv db w'"
  using keepsD [of tn_rows f w r w'] tn_inv_cong [of w' w db] by simp

lemmas inv_lookups = keeps_lookups [THEN inv_lookup]
lemmas inv_lookups_snd = keeps_lookups [THEN keeps_snd, THEN tn_inv_cong, THEN iffD2]

lemma inv_env [simp]: "tn_inv db (w\<lparr>env_clock := k\<rparr>) = tn_inv db w" "tn_inv db (w\<lparr>env_uuids := u\<rparr>) = tn_inv db w"
  by (simp_all add: tn_inv_def)

lemma inv_CreateTenant: "tn_inv db w \<Longrightarrow> tn_inv db (snd (tenantService_CreateTenant (tn_tenants db) req w))"
proof -
  assume inv: "tn_inv db w"
  obtain f w1 where f: "tenantRepository_FindBySlug db (ctr_Slug req) w = (f, w1)" by force
  have inv1: "tn_inv db w1" using inv_lookups(2) [OF f inv] .
  have new: "tn_inv db w'" if "tenantRepository_Create db (new_tenant i n (ctr_Slug req) plan c u)
      (w1\<lparr>env_uuids := x, env_clock := y\<rparr>) = (r, w')" "slugRegexp (ctr_Slug req)" "plan \<noteq> ''''" for i n c u x y r w' plan
    by (rule inv_tenant_Create [OF _ that(1) new_tenant_row [OF that(2,3)]]) (simp add: inv1)
  show ?thesis
    using inv inv1 f new [OF prod.collapse [symmetric]]
    by (cases f) (simp_all add: tenantService_CreateTenant_def Let_def time_Now_def uuid_NewString_def PlanFree_def snd_write)
qed

lemma inv_UpdateTenant_row:
  assumes inv: "tn_inv db w" and f: "tenantRepository_FindByID db i w = (Inr t, w1)"
    and t': "te_ID t' = te_ID t" "te_Slug t' = te_Slug t" "te_MaxUsers t' = maxUsersForPlan (te_Plan t')"
    and w2: "tn_rows w2 = tn_rows w" and run: "tenantRepository_Update db t' w2 = (r, w')"
  shows "tn_inv db w'"
proof -
  from found_tenant [OF f] obtain m where m: "m \<in> set (tenant_rows w)" "tenantModelToDomain m = Inr t" by blast
  show ?thesis
    using inv tenantModelToDomain_ids [OF m(2)] m(1) w2 t'
    by (intro inv_tenant_Update [OF _ run, of m]) (auto simp: tn_inv_def tenant_keys_def tenant_ok_def domainToTenantModel_def list_all_iff)
qed

lemma found_users:
  assumes "tn_inv db w" "tenantRepository_FindByID db i w = (Inr t, w1)"
  shows "te_MaxUsers t = maxUsersForPlan (te_Plan t)"
  using found_tenant [OF assms(2)] assms(1) tenantModelToDomain_ids [of _ t]
  by (auto simp: tn_inv_def list_all_iff tenant_ok_def)

lemma inv_UpdateTenant: "tn_inv db w \<Longrightarrow> tn_inv db (snd (tenantService_UpdateTenant (tn_tenants db) i req w))"
proof -
  assume inv: "tn_inv db w"
  obtain f w1 where f: "tenantRepository_FindByID db i w = (f, w1)" by force
  have same: "tn_rows w1 = tn_rows w" using keeps_lookups(1) [THEN keepsD, OF f] .
  have inv1: "tn_inv db w1" using inv tn_inv_cong [OF same] by simp
  have up: "tn_inv db w'"
    if "tenantRepository_Update db ((patchedTenant req t)\<lparr>te_UpdatedAt := n\<rparr>) (w1\<lparr>env_clock := k\<rparr>) = (r, w')"
      "tenantRepository_FindByID db i w = (Inr t, w1)" for t n k r w'
    using found_users [OF inv that(2), THEN patchedTenant_users] same
    by (intro inv_UpdateTenant_row [OF inv that(2) _ _ _ _ that(1)]) simp_all
  show ?thesis
    using f inv1 up [OF prod.collapse [symmetric]]
    by (cases f) (simp_all add: tenantService_UpdateTenant_def Let_def time_Now_def snd_write)
qed

lemma inv_UpdateSettings: "tn_inv db w \<Longrightarrow> tn_inv db (snd (tenantService_UpdateSettings (tn_tenants db) i st w))"
proof -
  assume inv: "tn_inv db w"
  obtain f w1 where f: "tenantRepository_FindByID db i w = (f, w1)" by force
  have same: "tn_rows w1 = tn_rows w" using keeps_lookups(1) [THEN keepsD, OF f] .
  have up: "tn_inv db (snd (tenantRepository_Update db (t\<lparr>te_Settings := st, te_AllowedDomains := se_AllowedDomains st,
      te_UpdatedAt := n\<rparr>) (w1\<lparr>env_clock := k\<rparr>)))" if "f = Inr t" for t n k
    using found_users [OF inv f [unfolded that]] same
    by (intro inv_UpdateTenant_row [OF inv f [unfolded that] _ _ _ _ prod.collapse [symmetric]]) simp_all
  show ?thesis
    using f inv_lookups(1) [OF f inv] up by (cases f) (simp_all add: tenantService_UpdateSettings_def time_Now_def)
qed

lemma inv_DeactivateTenant: "tn_inv db w \<Longrightarrow> tn_inv db (snd (tenantService_DeactivateTenant (tn_tenants db) i w))"
  by (auto simp: tenantService_DeactivateTenant_def split: prod.split sum.split
      intro: inv_lookups(1) inv_Deactivate [OF _ prod.collapse [symmetric]])

lemma inv_CreateOrganization: "tn_inv db w \<Longrightarrow> tn_inv db (snd (organizationService_CreateOrganization (tn_orgs db) i req w))"
proof -
  assume inv: "tn_inv db w"
  obtain f w1 where f: "tenantRepository_FindByID db i w = (f, w1)" by force
  have inv1: "tn_inv db w1" using inv_lookups(1) [OF f inv] .
  have same: "tn_rows w1 = tn_rows w" using keeps_lookups(1) [THEN keepsD, OF f] .
  have new: "tn_inv db w'" if "organizationRepository_Create db g (w1\<lparr>env_uuids := u, env_clock := k\<rparr>) = (r, w')"
      "tenantRepository_FindByID db i w = (Inr t, w1)" "or_TenantID g = i" for t g u k r w'
    using found_tenant [OF that(2)] that(3) inv1 same
    by (intro inv_org_Create [OF _ that(1)]) (auto simp: is_tenant_def list_ex_iff)
  show ?thesis
    using inv inv1 f new [OF prod.collapse [symmetric]]
    by (cases f) (simp_all add: organizationService_CreateOrganization_def Let_def time_Now_def uuid_NewString_def snd_write)
qed

lemma inv_CreateProfile: "tn_inv db w \<Longrightarrow> tn_inv db (snd (userProfileService_CreateProfile (tn_profiles db) req w))"
proof -
  assume inv: "tn_inv db w"
  obtain f w1 where f: "tenantRepository_FindByID db (cpr_TenantID req) w = (f, w1)" by force
  have inv1: "tn_inv db w1" using inv_lookups(1) [OF f inv] .
  have same: "tn_rows w1 = tn_rows w" using keeps_lookups(1) [THEN keepsD, OF f] .
  have new: "tn_inv db w'" if "userProfileRepository_Create db p (w1\<lparr>env_clock := k\<rparr>) = (r, w')"
      "tenantRepository_FindByID db (cpr_TenantID req) w = (Inr t, w1)" "pf_TenantID p = cpr_TenantID req"
      "pf_Timezone p \<noteq> ''''" "pf_Locale p \<noteq> ''''" for t p k r w'
    using found_tenant [OF that(2)] that(3-) inv1 same
    by (intro inv_profile_Create [OF _ that(1)])
      (auto simp: is_tenant_def list_ex_iff profile_ready_def domainToProfileModel_def)
  show ?thesis
    using inv inv1 f new [OF prod.collapse [symmetric]]
    by (cases f) (simp_all add: userProfileService_CreateProfile_def Let_def time_Now_def snd_write)
qed

lemma inv_UpdateProfile: "tn_inv db w \<Longrightarrow> tn_inv db (snd (userProfileService_UpdateProfile (tn_profiles db) i req w))"
proof -
  assume inv: "tn_inv db w"
  obtain f w1 where f: "userProfileRepository_FindByUserID db i w = (f, w1)" by force
  have inv1: "tn_inv db w1" using inv_lookups(6) [OF f inv] .
  have same: "tn_rows w1 = tn_rows w" using keeps_lookups(6) [THEN keepsD, OF f] .
  have up: "tn_inv db w'"
    if "userProfileRepository_Update db ((patchedProfile req p)\<lparr>pf_UpdatedAt := n\<rparr>) (w1\<lparr>env_clock := k\<rparr>) = (r, w')"
      "userProfileRepository_FindByUserID db i w = (Inr p, w1)" for p n k r w'
  proof -
    from found_profile [OF that(2)] obtain m fl where "m \<in> set (profile_rows w)" "profileModelToDomain fl m = Inr p" by blast
    then show ?thesis using inv1 same profileModelToDomain_ids [of fl m p]
      by (intro inv_profile_Update [OF _ that(1), of m]) auto
  qed
  show ?thesis
    using f inv1 up [OF prod.collapse [symmetric]]
    by (cases f) (simp_all add: userProfileService_UpdateProfile_def Let_def time_Now_def snd_write)
qed

end

sublocale tn_db_laws \<subseteq> data: tn_kept "tn_main db" "tn_inv db"
proof (unfold_locales, goal_cases)
  case (8 w i) then show ?case
    by (auto simp: tenantService_GetSettings_def split: prod.split sum.split intro: inv_lookups(1))
qed (simp_all add: inv_CreateTenant inv_UpdateTenant inv_DeactivateTenant inv_UpdateSettings inv_CreateOrganization
    inv_CreateProfile inv_UpdateProfile inv_lookups_snd tenantService_ListTenants_def userProfileService_ListProfiles_def Let_def)

end
