(* ===== verification/Tn_Props.thy ===== *)
theory Tn_Props
  imports Tn_Inv
begin

text \<open>
  tenant-service: the properties of slugs, tenants, settings, plans and pages, each with a run on
  concrete data where it has hypotheses.
\<close>

section \<open>Slugs\<close>

text \<open>The words of \<open>^[a-z0-9]+(?:-[a-z0-9]+)*$\<close>: non-empty parts with single hyphens between them.\<close>

fun hyphenated :: "string list \<Rightarrow> string" where
  "hyphenated [] = ''''"
| "hyphenated [p] = p"
| "hyphenated (p # q # ps) = p @ CHR ''-'' # hyphenated (q # ps)"

definition slug_part :: "string \<Rightarrow> bool" where
  "slug_part p \<longleftrightarrow> p \<noteq> '''' \<and> set p \<subseteq> set ''abcdefghijklmnopqrstuvwxyz0123456789''"

lemma slug_char_alphabet: "slug_char c \<longleftrightarrow> c \<in> set ''abcdefghijklmnopqrstuvwxyz0123456789''"
proof -
  have "list_all (\<lambda>c. slug_char c = (c \<in> set ''abcdefghijklmnopqrstuvwxyz0123456789'')) Enum.enum" by code_simp
  then show ?thesis by (simp add: list_all_iff UNIV_enum [symmetric])
qed

lemma slug_part_iff: "slug_part p \<longleftrightarrow> p \<noteq> '''' \<and> list_all slug_char p"
  unfolding slug_part_def list_all_iff slug_char_alphabet by blast

lemma hyphen_not_slug [simp]: "\<not> slug_char (CHR ''-'')"
  by (simp add: slug_char_def less_eq_char_def)

lemma slug_run_part: "list_all slug_char p \<Longrightarrow> slug_run seen (p @ s) = slug_run (if p = [] then seen else True) s"
  by (induction p arbitrary: seen) auto

lemma slug_run_hyphenated: "ps \<noteq> [] \<Longrightarrow> list_all slug_part ps \<Longrightarrow> slug_run False (hyphenated ps)"
proof (induction ps rule: hyphenated.induct)
  case (2 p)
  then show ?case using slug_run_part [of p False "[]"] by (simp add: slug_part_iff)
next
  case (3 p q ps)
  then show ?case by (simp add: slug_part_iff slug_run_part)
qed simp

lemma slug_run_parts:
  "slug_run seen s \<Longrightarrow> \<exists>p ps. list_all slug_char p \<and> list_all slug_part ps \<and> (seen \<or> p \<noteq> []) \<and> s = hyphenated (p # ps)"
proof (induction s arbitrary: seen)
  case Nil
  then show ?case by (intro exI [of _ "[]"] exI [of _ "[]"]) simp
next
  case (Cons c s)
  show ?case
  proof (cases "slug_char c")
    case True
    with Cons.prems have "slug_run True s" by simp
    from Cons.IH [OF this] obtain p ps where "list_all slug_char p" "list_all slug_part ps" "s = hyphenated (p # ps)" by blast
    with True show ?thesis by (intro exI [of _ "c # p"] exI [of _ ps]) (cases ps; simp)
  next
    case False
    with Cons.prems have c: "c = CHR ''-''" "seen" "slug_run False s" by simp_all
    from Cons.IH [OF c(3)] obtain p ps where "list_all slug_char p" "list_all slug_part ps" "p \<noteq> []" "s = hyphenated (p # ps)" by blast
    with c show ?thesis by (intro exI [of _ "[] :: string"] exI [of _ "p # ps"]) (simp add: slug_part_iff [of p])
  qed
qed

text \<open>
  C40: The slugs the service accepts are exactly the non-empty lists of parts joined by single hyphens, each
  part a non-empty word of the 26 lower-case ASCII letters and the ten digits, of any length: the pattern
  \<open>slugRegexp\<close> of the code. The one of contracts/tenant.yaml, \<open>^[a-z0-9-]+$\<close> of 2 to 64 characters, is another.
\<close>

theorem slug_language: "slugRegexp s = (\<exists>ps. ps \<noteq> [] \<and> list_all slug_part ps \<and> s = hyphenated ps)"
proof
  assume "slugRegexp s"
  then obtain p ps where "list_all slug_char p" "list_all slug_part ps" "p \<noteq> []" "s = hyphenated (p # ps)"
    using slug_run_parts [of False s] by (auto simp: slugRegexp_def)
  then show "\<exists>ps. ps \<noteq> [] \<and> list_all slug_part ps \<and> s = hyphenated ps"
    by (intro exI [of _ "p # ps"]) (auto simp: slug_part_iff hyphen_not_slug)
qed (auto simp: slugRegexp_def slug_run_hyphenated)

section \<open>Data for the concrete runs\<close>

definition demo_tenantModel :: tenantModel where
  "demo_tenantModel = \<lparr>tnm_ID = ''t1'', tnm_Name = ''Acme'', tnm_Slug = ''acme'', tnm_Plan = PlanPro,
     tnm_Status = TenantStatusActive, tnm_MaxUsers = 50, tnm_AllowedDomains = ''[]'', tnm_Features = ''{}'',
     tnm_CreatedAt = 0, tnm_UpdatedAt = 0\<rparr>"

definition demo_tn :: "tenantModel list \<Rightarrow> tn_world" where
  "demo_tn ms = \<lparr>env_clock = siterate (\<lambda>t. t + 1) 1000, env_uuids = ''n1'' ## ''n2'' ## ''n3'' ## sconst ''n'',
     env_lower = id, env_upper = id, tw_tenants = \<lparr>rows = ms, tbl_hidden = 0\<rparr>,
     tw_orgs = \<lparr>rows = [], tbl_hidden = 0\<rparr>, tw_profiles = \<lparr>rows = [], tbl_hidden = 0\<rparr>, tw_float = Some\<rparr>"

lemmas tn_eval = mem_tn_db_def mem_simps on_table_def wrap_err_def find_err_def ErrRecordNotFound_def demo_tn_def
  time_Now_def uuid_NewString_def Let_def

lemma demo_tn_inv: "tn_inv mem_tn_db (demo_tn [])" "tn_inv mem_tn_db (demo_tn [demo_tenantModel])"
  by (simp_all add: tn_inv_def tenants_apart_def demo_tn_def demo_tenantModel_def tenant_keys_def tenant_ok_def
      Plan_defs maxUsersForPlan_def slugRegexp_def slug_char_def less_eq_char_def)

section \<open>What is stored\<close>

context tn_db_laws
begin

lemma reach_inv: "tn_reach (tn_main db) w w' \<Longrightarrow> tn_inv db w \<Longrightarrow> tn_inv db w'"
  by (rule data.tn_reach_kept)

lemma apart_slugs:
  assumes "tenants_apart db ms" "x \<in> set ms" "y \<in> set ms" "tdb_eq db (tnm_Slug x) (tnm_Slug y)"
  shows "x = y"
  using assms unfolding tenants_apart_def tenant_keys_def by (induction ms) (auto dest: eq_sym)

lemma apart_ids:
  assumes "tenants_apart db ms" "x \<in> set ms" "y \<in> set ms" "tdb_eq db (tnm_ID x) i" "tdb_eq db (tnm_ID y) i"
  shows "x = y"
  using apart_eq [OF assms(1-3) eq_trans [OF assms(4) eq_sym [OF assms(5)]]] .

end

text \<open>
  C6: Over any sequence of requests and runs of the seeding command, two stored tenants never share a
  slug, every stored slug is well-formed, and the number of users of a tenant is the one of its plan.
\<close>

theorem slugs_unique:
  assumes "tn_db_laws db" "tn_reach (tn_main db) w w'" "tn_inv db w" "x \<in> set (tenant_rows w')" "y \<in> set (tenant_rows w')"
    "tdb_eq db (tnm_Slug x) (tnm_Slug y)"
  shows "x = y \<and> slugRegexp (tnm_Slug x) \<and> tnm_MaxUsers x = maxUsersForPlan (tnm_Plan x)"
  using tn_db_laws.reach_inv [OF assms(1-3)] tn_db_laws.apart_slugs [OF assms(1) _ assms(4-6)] assms(4)
  by (simp add: tn_inv_def list_all_iff tenant_ok_def)

text \<open>
  C20: Over any sequence of requests and runs of the seeding command, every stored organization and
  profile belongs to exactly one stored tenant.
\<close>

theorem records_have_tenant:
  assumes "tn_db_laws db" "tn_reach (tn_main db) w w'" "tn_inv db w"
    "i \<in> orm_TenantID ` set (org_rows w') \<union> pfm_TenantID ` set (profile_rows w')"
  shows "\<exists>!x. x \<in> set (tenant_rows w') \<and> tdb_eq db (tnm_ID x) i"
proof -
  have inv: "tn_inv db w'" by (rule tn_db_laws.reach_inv [OF assms(1-3)])
  then have "is_tenant db (tenant_rows w') i" using assms(4) by (auto simp: tn_inv_def list_all_iff)
  then show ?thesis using inv tn_db_laws.apart_ids [OF assms(1), of "tenant_rows w'"]
    by (auto simp: is_tenant_def list_ex_iff tn_inv_def)
qed

section \<open>The columns of a tenant\<close>

definition valid_settings :: "string list option \<Rightarrow> (string \<times> bool) list option \<Rightarrow> bool" where
  "valid_settings domains features \<longleftrightarrow> valid_strings domains \<and> go_map (elems features) \<and>
     list_all (\<lambda>k. valid_utf8 (fst k)) (elems features)"

lemma column_strings_text: "valid_strings ss \<Longrightarrow> column what Unmarshal_strings (Marshal_strings ss) = Inr (elems ss)"
  by (simp add: column_def strings_roundtrip)

lemma column_features_text:
  assumes "go_map (elems f)" "list_all (\<lambda>k. valid_utf8 (fst k)) (elems f)"
  shows "column what (Unmarshal_map dec_bool) (Marshal_map JBool f) = Inr (elems f)"
proof -
  have wf: "wf_json (map_json JBool f)" using assms(2) by (cases f) (auto simp: map_json_def list_all_iff)
  have "json_text (map_json JBool f) \<noteq> ''''" using json_roundtrip [OF wf] by (cases f) (simp_all add: map_json_def)
  then show ?thesis
    using set_map_json [of f dec_bool JBool] assms(1) by (simp add: column_def Marshal_map_def Unmarshal_map_def json_roundtrip [OF wf] dec_bool_def)
qed

text \<open>
  A tenant written to its row and read back keeps everything but the settings outside the columns:
  its settings get the number of users and the domains of the tenant and the default notification
  preferences, and nil lists become empty ones.
\<close>

theorem tenant_roundtrip:
  assumes "valid_settings (te_AllowedDomains t) (se_Features (te_Settings t))"
  shows "tenantModelToDomain (domainToTenantModel t) =
    Inr (t\<lparr>te_AllowedDomains := Some (elems (te_AllowedDomains t)),
           te_Settings := \<lparr>se_MaxUsers = te_MaxUsers t, se_AllowedDomains = Some (elems (te_AllowedDomains t)),
             se_Features = Some (elems (se_Features (te_Settings t))),
             se_NotificationPrefs = \<lparr>np_EmailEnabled = True, np_SMSEnabled = False, np_InAppEnabled = True\<rparr>\<rparr>\<rparr>)"
  using assms by (simp add: tenantModelToDomain_def domainToTenantModel_def valid_settings_def column_strings_text
      column_features_text)

lemma default_features:
  "valid_settings (Some []) (Some (defaultFeatures PlanPro))" "valid_settings (Some []) (Some (defaultFeatures PlanEnterprise))"
  "valid_settings (Some []) (Some (defaultFeatures PlanFree))"
  by code_simp+

lemma default_features_valid: "valid_settings (Some []) (Some (defaultFeatures plan))"
proof -
  have "defaultFeatures plan \<in> {defaultFeatures PlanPro, defaultFeatures PlanEnterprise, defaultFeatures PlanFree}"
    by (simp add: defaultFeatures_def Plan_defs)
  then show ?thesis using default_features by auto
qed

theorem tenant_roundtrip_witness:
  "tenantModelToDomain (domainToTenantModel (new_tenant ''t1'' ''Acme'' ''acme'' PlanPro 0 0)) =
     Inr (new_tenant ''t1'' ''Acme'' ''acme'' PlanPro 0 0)"
  using tenant_roundtrip [of "new_tenant ''t1'' ''Acme'' ''acme'' PlanPro 0 0"] default_features_valid
  by (simp add: new_tenant_def)

section \<open>Creating a tenant\<close>

definition slug_taken :: "tn_db \<Rightarrow> CreateTenantRequest \<Rightarrow> tn_world \<Rightarrow> bool" where
  "slug_taken db req w \<longleftrightarrow> list_ex (\<lambda>x. tdb_eq db (tnm_Slug x) (ctr_Slug req)) (tenant_rows w)"

context tn_db_laws
begin

lemma slug_lookup:
  assumes "tenantRepository_FindBySlug db s w = (f, w1)"
  shows "tenant_rows w1 = tenant_rows w"
    and "list_ex (\<lambda>x. tdb_eq db (tnm_Slug x) s) (tenant_rows w) \<Longrightarrow> f \<noteq> Inl ErrTenantNotFound"
    and "f = Inr t \<Longrightarrow> list_ex (\<lambda>x. tdb_eq db (tnm_Slug x) s) (tenant_rows w)"
    and "f = Inl e \<Longrightarrow> list_ex (\<lambda>x. tdb_eq db (tnm_Slug x) s) (tenant_rows w) \<or> e = ErrTenantNotFound \<or>
      (\<exists>e'. e = Errorf ''find tenant by slug: '' e' '''')"
proof -
  obtain g t' where g: "gorm_First (tdb_tenants db) (\<lambda>m. tdb_eq db (tnm_Slug m) s) (tw_tenants w) = (g, t')" by force
  note run = assms [unfolded tenantRepository_FindBySlug_def on_table_def g]
  show "tenant_rows w1 = tenant_rows w"
    using keeps_lookups(2) [THEN keepsD, OF assms] by simp
  show "f \<noteq> Inl ErrTenantNotFound" if "list_ex (\<lambda>x. tdb_eq db (tnm_Slug x) s) (tenant_rows w)"
  proof (cases g)
    case (Inl e)
    with tenants_t.first_none [OF g [unfolded Inl]] that have "\<not> errors_Is e ErrRecordNotFound" by (auto simp: list_ex_iff)
    with run Inl show ?thesis by (auto simp: find_err_def ErrTenantNotFound_def)
  next
    case (Inr m)
    with run show ?thesis by (auto simp: tenantModelToDomain_def column_def ErrTenantNotFound_def split: sum.splits if_splits option.splits)
  qed
  show "list_ex (\<lambda>x. tdb_eq db (tnm_Slug x) s) (tenant_rows w)" if "f = Inr t" for t
    using run that tenants_t.first_ok [of "\<lambda>m. tdb_eq db (tnm_Slug m) s" "tw_tenants w"] g
    by (cases g) (auto simp: list_ex_iff)
  show "list_ex (\<lambda>x. tdb_eq db (tnm_Slug x) s) (tenant_rows w) \<or> e = ErrTenantNotFound \<or>
      (\<exists>e'. e = Errorf ''find tenant by slug: '' e' '''')" if "f = Inl e" for e
    using run that tenants_t.first_ok [of "\<lambda>m. tdb_eq db (tnm_Slug m) s" "tw_tenants w"] g
    by (cases g) (auto simp: find_err_def list_ex_iff split: if_splits)
qed

lemma create_tenant_stored:
  assumes "tenantRepository_Create db (new_tenant i n slug plan c u) w = (None, w')" "slugRegexp slug" "plan \<noteq> ''''"
  shows "\<exists>m. tenant_stored (domainToTenantModel (new_tenant i n slug plan c u)) m \<and> tenant_rows w' = tenant_rows w @ [m] \<and>
    \<not> list_ex (\<lambda>x. tdb_eq db (tnm_Slug x) slug) (tenant_rows w)"
proof -
  let ?m = "domainToTenantModel (new_tenant i n slug plan c u)"
  from assms(1) obtain t' where g: "gorm_Create (tdb_tenants db) ?m (tw_tenants w) = (None, t')" and w': "w' = w\<lparr>tw_tenants := t'\<rparr>"
    by (auto simp: tenantRepository_Create_def on_table_def wrap_err_def Let_def split: prod.splits option.splits)
  from new_tenant_row(2) [OF assms(2,3)] g show ?thesis
    by (rule tenants_t.create_okE) (auto simp: w' tenant_conflict_def list_ex_iff domainToTenantModel_def new_tenant_def)
qed

lemma create_tenant_cases:
  assumes run: "tenantService_CreateTenant (tn_tenants db) req w = (r, w')"
    and name: "ctr_Name req \<noteq> ''''" and slug: "slugRegexp (ctr_Slug req)"
  obtains (taken) "r = Inl ErrSlugTaken" "slug_taken db req w" "tenant_rows w' = tenant_rows w"
  | (lookup) e where "r = Inl (Errorf ''check slug: '' e '''')" "tenant_rows w' = tenant_rows w"
  | (failed) e where "r = Inl (Errorf ''create tenant: '' e '''')" "\<not> slug_taken db req w"
  | (stored) t m i c u where "r = Inr t" "\<not> slug_taken db req w"
      "t = new_tenant i (ctr_Name req) (ctr_Slug req) (if ctr_Plan req = '''' then PlanFree else ctr_Plan req) c u"
      "tenant_stored (domainToTenantModel t) m" "tenant_rows w' = tenant_rows w @ [m]"
proof -
  obtain f w1 where f: "tenantRepository_FindBySlug db (ctr_Slug req) w = (f, w1)" by force
  note look = slug_lookup [OF f, folded slug_taken_def]
  consider t where "f = Inr t" | e where "f = Inl e" "e \<noteq> ErrTenantNotFound" | "f = Inl ErrTenantNotFound"
    by (cases f) auto
  then show ?thesis
  proof cases
    case 1
    with run name slug f look show ?thesis by (intro taken) (auto simp: tenantService_CreateTenant_def)
  next
    case 2
    with run name slug f look(1) show ?thesis by (intro lookup) (auto simp: tenantService_CreateTenant_def)
  next
    case 3
    let ?plan = "if ctr_Plan req = '''' then PlanFree else ctr_Plan req"
    let ?t = "new_tenant (shd (env_uuids w1)) (ctr_Name req) (ctr_Slug req) ?plan (shd (env_clock w1)) (shd (stl (env_clock w1)))"
    let ?w = "w1\<lparr>env_uuids := stl (env_uuids w1), env_clock := stl (stl (env_clock w1))\<rparr>"
    obtain x w5 where c: "tenantRepository_Create db ?t ?w = (x, w5)" by force
    have res: "(r, w') = (case x of Some e \<Rightarrow> (Inl (Errorf ''create tenant: '' e ''''), w5) | None \<Rightarrow> (Inr ?t, w5))"
      using run name slug f c 3 by (cases x) (simp_all add: tenantService_CreateTenant_def Let_def time_Now_def uuid_NewString_def)
    have free: "\<not> slug_taken db req w" using look(2) 3 by (auto simp: slug_taken_def)
    show ?thesis
    proof (cases x)
      case None
      have "?plan \<noteq> ''''" by (simp add: PlanFree_def)
      from create_tenant_stored [OF c [unfolded None] slug this] obtain m where
        m: "tenant_stored (domainToTenantModel ?t) m" "tenant_rows w5 = tenant_rows ?w @ [m]" by blast
      show ?thesis by (rule stored [OF _ free refl m(1)]) (use res None m(2) look(1) in simp_all)
    qed (use res free in \<open>simp add: failed\<close>)
  qed
qed

end

text \<open>
  C28: Creating a tenant succeeds only with a name and a slug of the pattern of the code no stored tenant has;
  then one row is added and the answer is an active tenant with the users and features of the requested
  plan, the free one when none is requested; the request the code reads has no settings (contracts/tenant.yaml
  requires a plan, has a wider pattern and answers with the requested settings). Invalid input is refused before the
  database is asked, and a taken slug before anything is written.
\<close>

theorem create_tenant_outcome:
  assumes "tn_db_laws db" "tenantService_CreateTenant (tn_tenants db) req w = (r, w')"
  shows "case r of
      Inr t \<Rightarrow> ctr_Name req \<noteq> '''' \<and> slugRegexp (ctr_Slug req) \<and> \<not> slug_taken db req w \<and>
        (\<exists>i c u. t = new_tenant i (ctr_Name req) (ctr_Slug req) (if ctr_Plan req = '''' then PlanFree else ctr_Plan req) c u) \<and>
        (\<exists>m. tenant_stored (domainToTenantModel t) m \<and> tenant_rows w' = tenant_rows w @ [m])
    | Inl e \<Rightarrow>
        (if ctr_Name req = '''' \<or> \<not> slugRegexp (ctr_Slug req) then errors_Is e tn_ErrInvalidInput \<and> w' = w
         else if slug_taken db req w then tenant_rows w' = tenant_rows w \<and>
           (e = ErrSlugTaken \<or> (\<exists>e'. e = Errorf ''check slug: '' e' ''''))
         else \<exists>e'. e = Errorf ''check slug: '' e' '''' \<or> e = Errorf ''create tenant: '' e' '''')"
proof (cases "ctr_Name req = '''' \<or> \<not> slugRegexp (ctr_Slug req)")
  case True
  with assms(2) show ?thesis
    by (auto simp: tenantService_CreateTenant_def tn_ErrInvalidInput_def split: if_splits)
next
  case False
  then have input: "ctr_Name req \<noteq> ''''" "slugRegexp (ctr_Slug req)" by simp_all
  show ?thesis by (rule tn_db_laws.create_tenant_cases [OF assms input]) (use input in \<open>auto\<close>)
qed

definition demo_create :: CreateTenantRequest where
  "demo_create = \<lparr>ctr_Name = ''Beta'', ctr_Slug = ''beta-1'', ctr_Plan = ''''\<rparr>"

lemma demo_slug: "slugRegexp ''beta-1''" "slugRegexp ''demo''"
  by code_simp+

theorem create_tenant_outcome_witness:
  "\<exists>t w'. tenantService_CreateTenant (tn_tenants mem_tn_db) demo_create (demo_tn [demo_tenantModel]) = (Inr t, w') \<and>
     te_Plan t = PlanFree \<and> map tnm_Slug (tenant_rows w') = [''acme'', ''beta-1'']"
proof -
  let ?r = "tenantService_CreateTenant (tn_tenants mem_tn_db) demo_create (demo_tn [demo_tenantModel])"
  have "\<exists>t. fst ?r = Inr t"
    by (simp add: tenantService_CreateTenant_def demo_create_def demo_slug tenantRepository_FindBySlug_def
        tenantRepository_Create_def domainToTenantModel_def new_tenant_def demo_tenantModel_def tn_eval ErrTenantNotFound_def)
  then obtain t w' where r: "?r = (Inr t, w')" by (metis prod.collapse)
  from create_tenant_outcome [OF mem_tn.tn_db_laws_axioms r] obtain m i c u where
    "t = new_tenant i ''Beta'' ''beta-1'' PlanFree c u" "tenant_stored (domainToTenantModel t) m"
    "tenant_rows w' = [demo_tenantModel, m]" by (auto simp: demo_create_def demo_tn_def)
  with tenant_storedD [of "domainToTenantModel t" m] r show ?thesis
    by (simp add: new_tenant_def domainToTenantModel_def demo_tenantModel_def)
qed

section \<open>The seeding command\<close>

lemma new_tenant_columns [simp]:
  "tnm_ID (domainToTenantModel t) = te_ID t" "tnm_Slug (domainToTenantModel t) = te_Slug t"
  "te_ID (new_tenant i n s p c u) = i" "te_Slug (new_tenant i n s p c u) = s"
  by (simp_all add: domainToTenantModel_def new_tenant_def)

lemma read_new_tenant: "tenantModelToDomain (domainToTenantModel (new_tenant i n s p c u)) = Inr (new_tenant i n s p c u)"
  using default_features_valid [of p]
  by (simp add: tenantModelToDomain_def domainToTenantModel_def new_tenant_def valid_settings_def column_strings_text
      column_features_text)

lemma mem_find_tenant:
  "tw_tenants w = \<lparr>rows = [m], tbl_hidden = 0\<rparr> \<Longrightarrow> tenantModelToDomain m = Inr t \<Longrightarrow>
     tenantRepository_FindByID mem_tn_db (tnm_ID m) w = (Inr t, w)"
  by (cases w) (simp add: tenantRepository_FindByID_def mem_tn_db_def mem_simps on_table_def)

lemma mem_create_org:
  "tw_orgs w = \<lparr>rows = gs, tbl_hidden = 0\<rparr> \<Longrightarrow> list_all (\<lambda>x. orm_ID x \<noteq> or_ID g) gs \<Longrightarrow>
     organizationRepository_Create mem_tn_db g w = (None, w\<lparr>tw_orgs := \<lparr>rows = gs @ [domainToOrgModel g], tbl_hidden = 0\<rparr>\<rparr>)"
  by (auto simp: organizationRepository_Create_def mem_tn_db_def mem_simps on_table_def wrap_err_def domainToOrgModel_def list_all_iff)

lemma mem_create_profile:
  "tw_profiles w = \<lparr>rows = ps, tbl_hidden = 0\<rparr> \<Longrightarrow> list_all (\<lambda>x. pfm_UserID x \<noteq> pf_UserID p) ps \<Longrightarrow>
     userProfileRepository_Create mem_tn_db p w = (None, w\<lparr>tw_profiles := \<lparr>rows = ps @ [domainToProfileModel p], tbl_hidden = 0\<rparr>\<rparr>)"
  by (auto simp: userProfileRepository_Create_def mem_tn_db_def mem_simps on_table_def wrap_err_def domainToProfileModel_def list_all_iff)

lemma org_profile_columns [simp]:
  "orm_ID (domainToOrgModel g) = or_ID g" "orm_TenantID (domainToOrgModel g) = or_TenantID g"
  "pfm_UserID (domainToProfileModel p) = pf_UserID p" "pfm_TenantID (domainToProfileModel p) = pf_TenantID p"
  by (simp_all add: domainToOrgModel_def domainToProfileModel_def)

lemma seed_run:
  "\<exists>w'. tn_seed_main (tn_main mem_tn_db) (demo_tn []) = (Inr (), w') \<and> map tnm_Slug (tenant_rows w') = [''demo''] \<and>
     map orm_TenantID (org_rows w') = [''n1'', ''n1'', ''n1''] \<and> map pfm_TenantID (profile_rows w') = [''n1'', ''n1'']"
proof -
  define nt where "nt = new_tenant ''n1'' ''Demo Corp'' ''demo'' PlanEnterprise 1000 1001"
  have nt: "te_ID nt = ''n1''" "te_Slug nt = ''demo''" "tenantModelToDomain (domainToTenantModel nt) = Inr nt"
    by (simp_all add: nt_def read_new_tenant)
  define w1 where "w1 = (demo_tn [domainToTenantModel nt])\<lparr>env_uuids := ''n2'' ## ''n3'' ## sconst ''n'', env_clock := siterate (\<lambda>t. t + 1) 1002\<rparr>"
  have c: "tenantService_CreateTenant (tn_tenants mem_tn_db)
      \<lparr>ctr_Name = ''Demo Corp'', ctr_Slug = ''demo'', ctr_Plan = PlanEnterprise\<rparr> (demo_tn []) = (Inr nt, w1)"
    by (simp add: tenantService_CreateTenant_def demo_slug tenantRepository_FindBySlug_def tenantRepository_Create_def
        tn_eval ErrTenantNotFound_def w1_def nt_def) (simp add: Plan_defs)
  have w1: "tw_tenants w1 = \<lparr>rows = [domainToTenantModel nt], tbl_hidden = 0\<rparr>" "tw_orgs w1 = \<lparr>rows = [], tbl_hidden = 0\<rparr>"
    "tw_profiles w1 = \<lparr>rows = [], tbl_hidden = 0\<rparr>" "env_uuids w1 = ''n2'' ## ''n3'' ## sconst ''n''"
    by (simp_all add: w1_def demo_tn_def)
  have find: "tenantRepository_FindByID mem_tn_db ''n1'' w = (Inr nt, w)"
    if "tw_tenants w = \<lparr>rows = [domainToTenantModel nt], tbl_hidden = 0\<rparr>" for w
    using mem_find_tenant [OF that nt(3)] nt(1) by simp
  show ?thesis
    by (simp add: tn_seed_main_def c nt)
      (simp add: seed_org_names_def seed_profile_reqs_def organizationService_CreateOrganization_def
        userProfileService_CreateProfile_def find mem_create_org mem_create_profile w1 nt Let_def time_Now_def uuid_NewString_def)
qed

lemma seed_reach:
  "tn_seed_main (tn_main mem_tn_db) w = (r, w') \<Longrightarrow> tn_reach (tn_main mem_tn_db) w w'"
  using tn_reach.seed [OF tn_reach.start, of "tn_main mem_tn_db" w] by simp

theorem slugs_unique_witness:
  "\<exists>w' x. tn_reach (tn_main mem_tn_db) (demo_tn []) w' \<and> tenant_rows w' = [x] \<and> tnm_MaxUsers x = maxUsersForPlan (tnm_Plan x)"
  using seed_run
proof (elim exE conjE)
  fix w'
  assume run: "tn_seed_main (tn_main mem_tn_db) (demo_tn []) = (Inr (), w')" and "map tnm_Slug (tenant_rows w') = [''demo'']"
  then obtain x where x: "tenant_rows w' = [x]" by auto
  note reach = seed_reach [OF run]
  from slugs_unique [OF mem_tn.tn_db_laws_axioms reach demo_tn_inv(1), of x x] x
  have "tnm_MaxUsers x = maxUsersForPlan (tnm_Plan x)" by (simp add: mem_tn_db_def)
  with x reach show ?thesis by blast
qed

theorem records_have_tenant_witness:
  "\<exists>w'. tn_reach (tn_main mem_tn_db) (demo_tn []) w' \<and>
     (\<exists>!x. x \<in> set (tenant_rows w') \<and> tdb_eq mem_tn_db (tnm_ID x) ''n1'')"
  using seed_run
proof (elim exE conjE)
  fix w'
  assume run: "tn_seed_main (tn_main mem_tn_db) (demo_tn []) = (Inr (), w')"
    and orgs: "map orm_TenantID (org_rows w') = [''n1'', ''n1'', ''n1'']"
  note reach = seed_reach [OF run]
  have "''n1'' \<in> set (map orm_TenantID (org_rows w'))" unfolding orgs by simp
  then have "''n1'' \<in> orm_TenantID ` set (org_rows w') \<union> pfm_TenantID ` set (profile_rows w')" by auto
  from reach records_have_tenant [OF mem_tn.tn_db_laws_axioms reach demo_tn_inv(1) this] show ?thesis by blast
qed

end
