(* ===== verification/Tn_Updates.thy ===== *)
theory Tn_Updates
  imports Tn_Props
begin

text \<open>
  tenant-service: what updates of a tenant store, what they lose, and what the listings answer.
\<close>

section \<open>Reading after an update\<close>

context tn_db_laws
begin

text \<open>A tenant that was read, changed and written back is found again in its new form.\<close>

lemma update_then_find:
  assumes inv: "tn_inv db w" and find: "tenantRepository_FindByID db i w = (Inr t, w1)"
    and rows: "tn_rows w2 = tn_rows w" and ids: "te_ID t' = te_ID t"
    and run: "tenantRepository_Update db t' w2 = (None, w3)"
    and again: "tenantRepository_FindByID db i w3 = (Inr v, w4)"
  shows "\<exists>m'. tenant_stored (domainToTenantModel t') m' \<and> tenantModelToDomain m' = Inr v"
proof -
  let ?m = "domainToTenantModel t'"
  from found_tenant [OF find] obtain m where m: "m \<in> set (tenant_rows w2)" "tdb_eq db (tnm_ID m) i" "tnm_ID m = tnm_ID ?m"
    using rows ids tenantModelToDomain_ids by auto
  from run obtain s where s: "gorm_Save (tdb_tenants db) ?m (tw_tenants w2) = (None, s)" "w3 = w2\<lparr>tw_tenants := s\<rparr>"
    by (auto simp: tenantRepository_Update_def on_table_def wrap_err_def Let_def split: prod.splits option.splits)
  have key: "tnm_ID ?m \<in> tnm_ID ` set (tenant_rows w2)" using m by force
  have rw: "rewritten tenant_stored (\<lambda>x. tnm_ID x = tnm_ID ?m) (\<lambda>_. ?m) (tw_tenants w2) s"
    using tenants_t.save [OF key s(1)] by simp
  from found_tenant [OF again] s(2) obtain m' where m': "m' \<in> set (rows s)" "tdb_eq db (tnm_ID m') i" "tenantModelToDomain m' = Inr v"
    by auto
  from rewritten_memD [OF rw m'(1)] obtain x where x: "x \<in> set (tenant_rows w2)"
    "if tnm_ID x = tnm_ID ?m then tenant_stored ?m m' else m' = x" by blast
  have "tnm_ID x = tnm_ID ?m"
  proof (rule ccontr)
    assume "tnm_ID x \<noteq> tnm_ID ?m"
    with x m' apart_ids [of "tenant_rows w2" x m i] inv rows m show False by (auto simp: tn_inv_def)
  qed
  with x m' show ?thesis by auto
qed

lemma stored_columns:
  assumes "tenant_stored (domainToTenantModel t) m" "tenantModelToDomain m = Inr v"
    "valid_settings (te_AllowedDomains t) (se_Features (te_Settings t))"
  shows "te_ID v = te_ID t" "te_Name v = te_Name t" "te_Slug v = te_Slug t" "te_Plan v = te_Plan t" "te_Status v = te_Status t"
    "te_MaxUsers v = te_MaxUsers t" "te_Settings v = \<lparr>se_MaxUsers = te_MaxUsers t,
        se_AllowedDomains = Some (elems (te_AllowedDomains t)), se_Features = Some (elems (se_Features (te_Settings t))),
        se_NotificationPrefs = \<lparr>np_EmailEnabled = True, np_SMSEnabled = False, np_InAppEnabled = True\<rparr>\<rparr>"
proof -
  from tenant_storedD [OF assms(1)] have col: "tnm_AllowedDomains m = Marshal_strings (te_AllowedDomains t)"
    "tnm_Features m = Marshal_map JBool (se_Features (te_Settings t))" "tnm_MaxUsers m = te_MaxUsers t"
    by (simp_all add: domainToTenantModel_def)
  with assms(2,3) show "te_Settings v = \<lparr>se_MaxUsers = te_MaxUsers t,
        se_AllowedDomains = Some (elems (te_AllowedDomains t)), se_Features = Some (elems (se_Features (te_Settings t))),
        se_NotificationPrefs = \<lparr>np_EmailEnabled = True, np_SMSEnabled = False, np_InAppEnabled = True\<rparr>\<rparr>"
    by (auto simp: tenantModelToDomain_def valid_settings_def column_strings_text column_features_text)
  from tenantModelToDomain_ids [OF assms(2)] tenant_storedD [OF assms(1)]
  show "te_ID v = te_ID t" "te_Name v = te_Name t" "te_Slug v = te_Slug t" "te_Plan v = te_Plan t" "te_Status v = te_Status t"
    "te_MaxUsers v = te_MaxUsers t" by (simp_all add: domainToTenantModel_def)
qed

lemma read_settings: "tenantModelToDomain m = Inr t \<Longrightarrow> se_MaxUsers (te_Settings t) = te_MaxUsers t"
  by (auto simp: tenantModelToDomain_def split: sum.splits)

lemma settings_read:
  assumes "tenantService_GetSettings (tn_tenants db) i w = (Inr st, w')"
  obtains t where "tenantRepository_FindByID db i w = (Inr t, w')" "st = te_Settings t" "se_MaxUsers st = te_MaxUsers t"
  using assms by (auto simp: tenantService_GetSettings_def split: prod.splits sum.splits dest!: found_tenant read_settings)

lemma UpdateSettings_run:
  assumes "tenantService_UpdateSettings (tn_tenants db) i st w = (None, w')" "tenantRepository_FindByID db i w = (Inr t, w1)"
  obtains n w2 where "tn_rows w2 = tn_rows w" "tenantRepository_Update db (t\<lparr>te_Settings := st,
      te_AllowedDomains := se_AllowedDomains st, te_UpdatedAt := n\<rparr>) w2 = (None, w')"
proof (rule that)
  show "tn_rows (w1\<lparr>env_clock := stl (env_clock w1)\<rparr>) = tn_rows w"
    using keeps_lookups(1) [THEN keepsD, OF assms(2)] by simp
  show "tenantRepository_Update db (t\<lparr>te_Settings := st, te_AllowedDomains := se_AllowedDomains st,
      te_UpdatedAt := shd (env_clock w1)\<rparr>) (w1\<lparr>env_clock := stl (env_clock w1)\<rparr>) = (None, w')"
    using assms by (simp add: tenantService_UpdateSettings_def time_Now_def)
qed

lemma UpdateTenant_run:
  assumes "tenantService_UpdateTenant (tn_tenants db) i req w = (Inr t', w')" "tenantRepository_FindByID db i w = (Inr t, w1)"
  obtains n w2 where "tn_rows w2 = tn_rows w" "t' = (patchedTenant req t)\<lparr>te_UpdatedAt := n\<rparr>"
    "tenantRepository_Update db t' w2 = (None, w')"
proof (rule that)
  show "tn_rows (w1\<lparr>env_clock := stl (env_clock w1)\<rparr>) = tn_rows w"
    using keeps_lookups(1) [THEN keepsD, OF assms(2)] by simp
  show t': "t' = (patchedTenant req t)\<lparr>te_UpdatedAt := shd (env_clock w1)\<rparr>"
    using assms by (auto simp: tenantService_UpdateTenant_def time_Now_def Let_def split: prod.splits option.splits if_splits)
  show "tenantRepository_Update db t' (w1\<lparr>env_clock := stl (env_clock w1)\<rparr>) = (None, w')"
    using assms t' by (auto simp: tenantService_UpdateTenant_def time_Now_def Let_def split: prod.splits option.splits if_splits)
qed

end

section \<open>Settings\<close>

text \<open>
  Settings that were updated successfully are read back with the given domains and features, but
  with the number of users they had before and with the default notification preferences: what the
  request said about these two is lost.
\<close>

theorem settings_update_drops:
  assumes "tn_db_laws db" "tn_inv db w" "valid_settings (se_AllowedDomains st) (se_Features st)"
    "tenantService_GetSettings (tn_tenants db) i w = (Inr old, w0)"
    "tenantService_UpdateSettings (tn_tenants db) i st w = (None, w1)"
    "tenantService_GetSettings (tn_tenants db) i w1 = (Inr new, w2)"
  shows "new = \<lparr>se_MaxUsers = se_MaxUsers old, se_AllowedDomains = Some (elems (se_AllowedDomains st)),
    se_Features = Some (elems (se_Features st)),
    se_NotificationPrefs = \<lparr>np_EmailEnabled = True, np_SMSEnabled = False, np_InAppEnabled = True\<rparr>\<rparr>"
proof -
  note L = assms(1)
  from tn_db_laws.settings_read [OF L assms(4)] obtain t where t: "tenantRepository_FindByID db i w = (Inr t, w0)"
    "se_MaxUsers old = te_MaxUsers t" by metis
  from tn_db_laws.settings_read [OF L assms(6)] obtain v where v: "tenantRepository_FindByID db i w1 = (Inr v, w2)"
    "new = te_Settings v" by metis
  from tn_db_laws.UpdateSettings_run [OF L assms(5) t(1)] obtain n wa where
    up: "tn_rows wa = tn_rows w" "tenantRepository_Update db (t\<lparr>te_Settings := st,
      te_AllowedDomains := se_AllowedDomains st, te_UpdatedAt := n\<rparr>) wa = (None, w1)" by blast
  from tn_db_laws.update_then_find [OF L assms(2) t(1) up(1) _ up(2) v(1)] obtain m where
    "tenant_stored (domainToTenantModel (t\<lparr>te_Settings := st, te_AllowedDomains := se_AllowedDomains st, te_UpdatedAt := n\<rparr>)) m"
    "tenantModelToDomain m = Inr v" by auto
  from tn_db_laws.stored_columns(7) [OF L this] assms(3) t(2) v(2) show ?thesis by simp
qed

section \<open>Patches\<close>

text \<open>
  C29: After an update that succeeds, the tenant is found with the given name, plan and status where
  they were given and the former ones where not, with its slug and identifier; its number of users is
  the one of its plan, and its features are the defaults of the plan when one was given.
\<close>

theorem update_tenant_stored:
  assumes "tn_db_laws db" "tn_inv db w" "tenantService_GetTenant (tn_tenants db) i w = (Inr old, w0)"
    "valid_settings (te_AllowedDomains old) (se_Features (te_Settings old))"
    "tenantService_UpdateTenant (tn_tenants db) i req w = (Inr t, w1)"
    "tenantService_GetTenant (tn_tenants db) i w1 = (Inr new, w2)"
  shows "te_ID new = te_ID old \<and> te_Slug new = te_Slug old \<and>
    te_Name new = (case uten_Name req of None \<Rightarrow> te_Name old | Some n \<Rightarrow> n) \<and>
    te_Plan new = (case uten_Plan req of None \<Rightarrow> te_Plan old | Some p \<Rightarrow> p) \<and>
    te_Status new = (case uten_Status req of None \<Rightarrow> te_Status old | Some s \<Rightarrow> s) \<and>
    te_MaxUsers new = maxUsersForPlan (te_Plan new) \<and>
    se_Features (te_Settings new) = Some (case uten_Plan req of None \<Rightarrow> elems (se_Features (te_Settings old))
      | Some p \<Rightarrow> defaultFeatures p)"
proof -
  note L = assms(1)
  from assms(3,6) have f: "tenantRepository_FindByID db i w = (Inr old, w0)" "tenantRepository_FindByID db i w1 = (Inr new, w2)"
    by (simp_all add: tenantService_GetTenant_def)
  from tn_db_laws.UpdateTenant_run [OF L assms(5) f(1)] obtain n wa where
    up: "tn_rows wa = tn_rows w" "t = (patchedTenant req old)\<lparr>te_UpdatedAt := n\<rparr>" "tenantRepository_Update db t wa = (None, w1)" by blast
  have "te_ID t = te_ID old" by (simp add: up(2))
  from tn_db_laws.update_then_find [OF L assms(2) f(1) up(1) this up(3) f(2)] obtain m where
    m: "tenant_stored (domainToTenantModel t) m" "tenantModelToDomain m = Inr new" by blast
  have keep: "te_AllowedDomains t = te_AllowedDomains old"
    "te_Name t = (case uten_Name req of None \<Rightarrow> te_Name old | Some n \<Rightarrow> n)"
    "te_Plan t = (case uten_Plan req of None \<Rightarrow> te_Plan old | Some p \<Rightarrow> p)"
    "te_Status t = (case uten_Status req of None \<Rightarrow> te_Status old | Some s \<Rightarrow> s)"
    "te_MaxUsers t = (case uten_Plan req of None \<Rightarrow> te_MaxUsers old | Some p \<Rightarrow> maxUsersForPlan p)"
    "se_Features (te_Settings t) = (case uten_Plan req of None \<Rightarrow> se_Features (te_Settings old) | Some p \<Rightarrow> Some (defaultFeatures p))"
    by (simp_all add: up(2) patchedTenant_def Let_def split: option.split)
  have "valid_settings (te_AllowedDomains t) (se_Features (te_Settings t))"
    using assms(4) default_features_valid keep(1,6) by (auto simp: valid_settings_def split: option.split)
  from tn_db_laws.stored_columns [OF L m this] keep tn_db_laws.found_users [OF L assms(2) f(1)] show ?thesis
    by (auto simp: up(2) split: option.split)
qed

section \<open>Concrete runs\<close>

text \<open>A stored tenant with the default features of its plan.\<close>

abbreviation demo_pro :: Tenant where "demo_pro \<equiv> new_tenant ''t1'' ''Acme'' ''acme'' PlanPro 0 0"

definition demo_one :: "Tenant \<Rightarrow> tn_world" where
  "demo_one t = demo_tn [domainToTenantModel t]"

lemma demo_one_find:
  "tw_tenants w = \<lparr>rows = [domainToTenantModel t], tbl_hidden = 0\<rparr> \<Longrightarrow> tenantModelToDomain (domainToTenantModel t) = Inr v \<Longrightarrow>
     tenantRepository_FindByID mem_tn_db (te_ID t) w = (Inr v, w)"
  using mem_find_tenant [of w "domainToTenantModel t" v] by simp

lemma demo_one_update:
  "tw_tenants w = \<lparr>rows = [domainToTenantModel t], tbl_hidden = 0\<rparr> \<Longrightarrow> te_ID t' = te_ID t \<Longrightarrow>
     tenantRepository_Update mem_tn_db t' w = (None, w\<lparr>tw_tenants := \<lparr>rows = [domainToTenantModel t'], tbl_hidden = 0\<rparr>\<rparr>)"
  by (simp add: tenantRepository_Update_def mem_tn_db_def mem_simps on_table_def wrap_err_def)

lemma demo_one_inv: "tn_inv mem_tn_db (demo_one demo_pro)"
  using new_tenant_row(1) [of "''acme''" PlanPro "''t1''" "''Acme''" 0 0] demo_tn_inv(2)
  by (simp add: tn_inv_def tenants_apart_def demo_one_def demo_tn_def tenant_ok_def demo_tenantModel_def Plan_defs)

definition demo_settings :: TenantSettings where
  "demo_settings = \<lparr>se_MaxUsers = 7, se_AllowedDomains = Some [''x.io''], se_Features = None,
     se_NotificationPrefs = \<lparr>np_EmailEnabled = False, np_SMSEnabled = True, np_InAppEnabled = False\<rparr>\<rparr>"

lemma demo_settings_valid: "valid_settings (Some [''x.io'']) None"
  by code_simp

theorem settings_update_drops_witness:
  "\<exists>w1 new w2. tenantService_UpdateSettings (tn_tenants mem_tn_db) ''t1'' demo_settings (demo_one demo_pro) = (None, w1) \<and>
     tenantService_GetSettings (tn_tenants mem_tn_db) ''t1'' w1 = (Inr new, w2) \<and> se_MaxUsers new = 50 \<and>
     se_AllowedDomains new = Some [''x.io''] \<and>
     se_NotificationPrefs new = \<lparr>np_EmailEnabled = True, np_SMSEnabled = False, np_InAppEnabled = True\<rparr>"
proof -
  let ?w = "demo_one demo_pro"
  have w: "tw_tenants ?w = \<lparr>rows = [domainToTenantModel demo_pro], tbl_hidden = 0\<rparr>" by (simp add: demo_one_def demo_tn_def)
  have f: "tenantRepository_FindByID mem_tn_db ''t1'' ?w = (Inr demo_pro, ?w)"
    using demo_one_find [OF w read_new_tenant] by simp
  then have g: "tenantService_GetSettings (tn_tenants mem_tn_db) ''t1'' ?w = (Inr (te_Settings demo_pro), ?w)"
    by (simp add: tenantService_GetSettings_def)
  define t' where "t' = demo_pro\<lparr>te_Settings := demo_settings, te_AllowedDomains := se_AllowedDomains demo_settings,
    te_UpdatedAt := shd (env_clock ?w)\<rparr>"
  define w1 where "w1 = ?w\<lparr>env_clock := stl (env_clock ?w), tw_tenants := \<lparr>rows = [domainToTenantModel t'], tbl_hidden = 0\<rparr>\<rparr>"
  have u: "tenantService_UpdateSettings (tn_tenants mem_tn_db) ''t1'' demo_settings ?w = (None, w1)"
    by (simp add: tenantService_UpdateSettings_def f time_Now_def demo_one_update w w1_def t'_def)
  have "\<exists>v. tenantModelToDomain (domainToTenantModel t') = Inr v"
    using demo_settings_valid by (simp add: tenantModelToDomain_def domainToTenantModel_def t'_def demo_settings_def
        valid_settings_def column_strings_text column_features_text)
  then obtain v where v: "tenantModelToDomain (domainToTenantModel t') = Inr v" ..
  have "tenantService_GetSettings (tn_tenants mem_tn_db) ''t1'' w1 = (Inr (te_Settings v), w1)"
    using demo_one_find [OF _ v, of w1] by (simp add: tenantService_GetSettings_def w1_def t'_def)
  with settings_update_drops [OF mem_tn.tn_db_laws_axioms demo_one_inv _ g u this] u demo_settings_valid show ?thesis
    by (simp add: demo_settings_def new_tenant_def maxUsersForPlan_def)
qed

theorem update_tenant_stored_witness:
  "\<exists>t w1 new w2. tenantService_UpdateTenant (tn_tenants mem_tn_db) ''t1''
       \<lparr>uten_Name = None, uten_Plan = Some PlanEnterprise, uten_Status = None\<rparr> (demo_one demo_pro) = (Inr t, w1) \<and>
     tenantService_GetTenant (tn_tenants mem_tn_db) ''t1'' w1 = (Inr new, w2) \<and> te_Name new = ''Acme'' \<and>
     te_MaxUsers new = maxUsersForPlan PlanEnterprise"
proof -
  let ?w = "demo_one demo_pro" and ?req = "\<lparr>uten_Name = None, uten_Plan = Some PlanEnterprise, uten_Status = None\<rparr>"
  have w: "tw_tenants ?w = \<lparr>rows = [domainToTenantModel demo_pro], tbl_hidden = 0\<rparr>" by (simp add: demo_one_def demo_tn_def)
  have f: "tenantRepository_FindByID mem_tn_db ''t1'' ?w = (Inr demo_pro, ?w)"
    using demo_one_find [OF w read_new_tenant] by simp
  define t' where "t' = (patchedTenant ?req demo_pro)\<lparr>te_UpdatedAt := shd (env_clock ?w)\<rparr>"
  define w1 where "w1 = ?w\<lparr>env_clock := stl (env_clock ?w), tw_tenants := \<lparr>rows = [domainToTenantModel t'], tbl_hidden = 0\<rparr>\<rparr>"
  have u: "tenantService_UpdateTenant (tn_tenants mem_tn_db) ''t1'' ?req ?w = (Inr t', w1)"
    by (simp add: tenantService_UpdateTenant_def f time_Now_def demo_one_update w w1_def t'_def Let_def)
  have "\<exists>v. tenantModelToDomain (domainToTenantModel t') = Inr v"
    using default_features_valid by (simp add: tenantModelToDomain_def domainToTenantModel_def t'_def patchedTenant_def Let_def
        new_tenant_def valid_settings_def column_strings_text column_features_text)
  then obtain v where v: "tenantModelToDomain (domainToTenantModel t') = Inr v" ..
  have g: "tenantService_GetTenant (tn_tenants mem_tn_db) ''t1'' w1 = (Inr v, w1)"
    using demo_one_find [OF _ v, of w1] by (simp add: tenantService_GetTenant_def w1_def t'_def)
  have "valid_settings (te_AllowedDomains demo_pro) (se_Features (te_Settings demo_pro))"
    using default_features_valid by (simp add: new_tenant_def)
  from update_tenant_stored [OF mem_tn.tn_db_laws_axioms demo_one_inv _ this u g, of ?w] f u g show ?thesis
    by (simp add: tenantService_GetTenant_def new_tenant_def)
qed

section \<open>Listings\<close>

lemma sorted_rev_window: "sorted (rev ys) \<Longrightarrow> sorted (rev (take a (drop b ys)))" for ys :: "int list"
  by (simp add: rev_take rev_drop sorted_wrt_drop sorted_wrt_take)

lemma tenantModelToDomain_created: "tenantModelToDomain m = Inr t \<Longrightarrow> te_CreatedAt t = tnm_CreatedAt m"
  by (auto simp: tenantModelToDomain_def split: sum.splits)

context tn_db_laws
begin

lemma list_result:
  assumes run: "tenantRepository_List db page limit w = (Inr (ts, cnt), w')"
    and page: "1 \<le> page" "page \<le> 2 ^ 56" and limit: "1 \<le> limit" "limit \<le> 100"
  shows "int (length ts) \<le> limit \<and> cnt = int (length (tenant_rows w)) \<and> sorted (rev (map te_CreatedAt ts)) \<and>
    set (map te_ID ts) \<subseteq> set (map tnm_ID (tenant_rows w))"
proof -
  let ?off = "(page - 1) * limit"
  have "0 \<le> ?off" "?off \<le> 2 ^ 56 * 100"
    using page limit mult_mono [of "page - 1" "2 ^ 56" limit 100] by simp_all
  then have wrap: "wrap64 (wrap64 (page - 1) * limit) = ?off" "0 \<le> ?off"
    using page by (simp_all add: wrap64_id is_int64_def)
  from run obtain t1 t2 ms where c: "gorm_Count (tdb_tenants db) (\<lambda>_. True) (tw_tenants w) = (Inr cnt, t1)"
    and f: "gorm_Find (tdb_tenants db) (\<lambda>_. True) (Desc tnm_CreatedAt) (Some (?off, limit)) t1 = (Inr ms, t2)"
    and ts: "map_result tenantModelToDomain ms = Inr ts"
    by (auto simp: tenantRepository_List_def on_table_def Let_def wrap map_sum_def split: prod.splits sum.splits)
  from tenants_t.find_ok [OF f] wrap(2) limit obtain xs where
    xs: "mset xs = mset (rows t1)" "sorted_by (Desc tnm_CreatedAt) xs" "ms = take (nat limit) (drop (nat ?off) xs)" by auto
  have all: "list_all2 (\<lambda>m t. tenantModelToDomain m = Inr t) ms ts" using ts by (simp add: map_result_Inr)
  have created: "map te_CreatedAt ts = map tnm_CreatedAt ms" and ids: "map te_ID ts = map tnm_ID ms"
    using all tenantModelToDomain_created tenantModelToDomain_ids by (auto simp: list_all2_conv_all_nth list_eq_iff_nth_eq)
  have "sorted (rev (map te_CreatedAt ts))"
    using sorted_rev_window [of "map tnm_CreatedAt xs"] xs(2,3) by (simp add: created take_map drop_map)
  moreover have "set ms \<subseteq> set (rows t1)" using xs(1,3) set_take_subset set_drop_subset mset_eq_setD by fast
  ultimately show ?thesis
    using tenants_t.count_rows [OF c] tenants_t.count_ok [OF c] list_all2_lengthD [OF all] xs(3) limit
    by (auto simp: ids)
qed

end

text \<open>
  The listing of the tenants answers with stored tenants, the newest first, and with the number of
  all of them; it holds at most \<open>limit\<close> tenants, but at most 20 when the request asks for more than 100
  although the answer repeats the limit of the request.
\<close>

theorem list_tenants_answer:
  assumes "tn_db_laws db" "tn_Handler_ListTenants (tn_main db) r w = (resp, w')"
    "rs_body resp = T_tenants ts cnt page limit" "page \<le> 2 ^ 56"
  shows "(page, limit) = query_page r \<and> int (length ts) \<le> (if 100 < limit then 20 else limit) \<and>
    cnt = int (length (tenant_rows w)) \<and> sorted (rev (map te_CreatedAt ts)) \<and>
    set (map te_ID ts) \<subseteq> set (map tnm_ID (tenant_rows w))"
proof -
  from assms(2,3) have q: "query_page r = (page, limit)"
    and run: "tenantService_ListTenants (tn_tenants db) page limit w = (Inr (ts, cnt), w')"
    by (auto simp: tn_Handler_ListTenants_def tn_respondError_def split: prod.splits sum.splits)
  from q have "1 \<le> page" "1 \<le> limit" by (auto simp: query_page_def Let_def split: if_splits)
  with q run assms(4) tn_db_laws.list_result [OF assms(1), of page "if 100 < limit then 20 else limit" w ts cnt w'] show ?thesis
    by (auto simp: tenantService_ListTenants_def split: if_splits)
qed

definition demo_query :: request where
  "demo_query = \<lparr>rq_Method = ''GET'', rq_Path = [''api'', ''v1'', ''tenants''], rq_Header = (\<lambda>_. ''''),
     rq_Query = (\<lambda>k. if k = ''limit'' then ''500'' else ''''), rq_URLParam = (\<lambda>_. ''''), rq_Body = '''',
     ctx_tenantID = None, ctx_userID = None, ctx_requestID = None\<rparr>"

lemma demo_query_page: "query_page demo_query = (1, 500)"
  by code_simp

theorem list_tenants_answer_witness:
  "\<exists>resp ts w'. tn_Handler_ListTenants (tn_main mem_tn_db) demo_query (demo_one demo_pro) = (resp, w') \<and>
     rs_body resp = T_tenants ts 1 1 500 \<and> length ts \<le> 20"
proof -
  let ?h = "tn_Handler_ListTenants (tn_main mem_tn_db) demo_query (demo_one demo_pro)"
  have "\<exists>ts. rs_body (fst ?h) = T_tenants ts 1 1 500"
    by (simp add: tn_Handler_ListTenants_def demo_query_page tenantService_ListTenants_def)
      (simp add: tenantRepository_List_def demo_one_def tn_eval wrap64_def read_new_tenant)
  then obtain ts resp w' where r: "?h = (resp, w')" "rs_body resp = T_tenants ts 1 1 500" by (metis prod.collapse)
  with list_tenants_answer [OF mem_tn.tn_db_laws_axioms r] show ?thesis by auto
qed

end
