(* ===== verification/Files.thy ===== *)
theory Files
  imports Prelude
begin

text \<open>
  \<open>path/filepath\<close> on a Unix system, written out in full, and the file system of the process as a
  parameter: the calls of package \<open>os\<close> the services make and what they do when they succeed.
\<close>

section \<open>Paths\<close>

fun split_slash :: "string \<Rightarrow> string list" where
  "split_slash [] = [[]]"
| "split_slash (c # cs) =
     (case split_slash cs of
        [] \<Rightarrow> [[c]]
      | p # ps \<Rightarrow> if c = CHR ''/'' then [] # p # ps else (c # p) # ps)"

fun join_slash :: "string list \<Rightarrow> string" where
  "join_slash [] = ''''"
| "join_slash [p] = p"
| "join_slash (p # ps) = p @ CHR ''/'' # join_slash ps"

text \<open>
  The loop of \<open>filepath.Clean\<close>: \<open>out\<close> holds the elements written so far, the last one first. An element
  \<open>..\<close> takes the last one back, unless there is none or it is itself \<open>..\<close>; at the root it is dropped.
\<close>

fun clean_loop :: "bool \<Rightarrow> string list \<Rightarrow> string list \<Rightarrow> string list" where
  "clean_loop rooted out [] = rev out"
| "clean_loop rooted out (p # ps) =
     (if p = '''' \<or> p = ''.'' then clean_loop rooted out ps
      else if p = ''..'' then
        (case out of
           [] \<Rightarrow> clean_loop rooted (if rooted then [] else [p]) ps
         | q # qs \<Rightarrow> if q = ''..'' then clean_loop rooted (p # out) ps else clean_loop rooted qs ps)
      else clean_loop rooted (p # out) ps)"

definition filepath_Clean :: "string \<Rightarrow> string" where
  "filepath_Clean path =
     (case path of
        [] \<Rightarrow> ''.''
      | c # _ \<Rightarrow>
         (let rooted = (c = CHR ''/''); s = join_slash (clean_loop rooted [] (split_slash path))
          in if rooted then CHR ''/'' # s else if s = '''' then ''.'' else s))"

definition filepath_Join :: "string list \<Rightarrow> string" where
  "filepath_Join elements =
     (let ps = filter (\<lambda>p. p \<noteq> '''') elements in if ps = [] then '''' else filepath_Clean (join_slash ps))"

definition filepath_Dir :: "string \<Rightarrow> string" where
  "filepath_Dir path = filepath_Clean (rev (dropWhile (\<lambda>c. c \<noteq> CHR ''/'') (rev path)))"

definition filepath_Base :: "string \<Rightarrow> string" where
  "filepath_Base path =
     (if path = '''' then ''.''
      else let p = dropWhile (\<lambda>c. c = CHR ''/'') (rev path); b = rev (takeWhile (\<lambda>c. c \<noteq> CHR ''/'') p)
           in if b = '''' then ''/'' else b)"

text \<open>An element of a path that \<open>Clean\<close> leaves alone.\<close>

definition plain_element :: "string \<Rightarrow> bool" where
  "plain_element p \<longleftrightarrow> p \<noteq> '''' \<and> p \<noteq> ''.'' \<and> p \<noteq> ''..'' \<and> CHR ''/'' \<notin> set p"

lemma split_slash_nonempty [simp]: "split_slash s \<noteq> []"
  by (induction s) (auto split: list.splits)

lemma split_plain: "CHR ''/'' \<notin> set p \<Longrightarrow> split_slash p = [p]"
  by (induction p) auto

lemma split_append: "CHR ''/'' \<notin> set p \<Longrightarrow> split_slash (p @ CHR ''/'' # s) = p # split_slash s"
  by (induction p) (auto split: list.splits)

lemma split_app_slash: "split_slash (s @ CHR ''/'' # t) = split_slash s @ split_slash t"
  by (induction s) (auto split: list.splits)

lemma split_join: "ps \<noteq> [] \<Longrightarrow> list_all (\<lambda>p. CHR ''/'' \<notin> set p) ps \<Longrightarrow> split_slash (join_slash ps) = ps"
  by (induction ps rule: join_slash.induct) (auto simp: split_plain split_append)

lemma clean_plain: "list_all plain_element ps \<Longrightarrow> clean_loop rooted out (ps @ qs) = clean_loop rooted (rev ps @ out) qs"
  by (induction ps arbitrary: out) (auto simp: plain_element_def)

lemma clean_append: "clean_loop rooted out (ps @ qs) = clean_loop rooted (rev (clean_loop rooted out ps)) qs"
  by (induction rooted out ps rule: clean_loop.induct) (auto split: list.split)

lemma clean_dotdot:
  "es \<noteq> [] \<Longrightarrow> last es \<noteq> ''..'' \<Longrightarrow> clean_loop rooted (rev es) (''..'' # ps) = clean_loop rooted (rev (butlast es)) ps"
  by (cases es rule: rev_cases) auto

lemma split_no_slash: "p \<in> set (split_slash s) \<Longrightarrow> CHR ''/'' \<notin> set p"
  by (induction s arbitrary: p) (auto split: list.splits if_splits)

lemma clean_elements: "p \<in> set (clean_loop rooted out ps) \<Longrightarrow> p \<in> set out \<union> set ps \<and> (p \<in> set out \<or> p \<noteq> '''' \<and> p \<noteq> ''.'')"
  by (induction rooted out ps rule: clean_loop.induct) (auto split: if_splits list.splits)

lemma join_slash_Nil: "list_all (\<lambda>p. p \<noteq> '''') ps \<Longrightarrow> join_slash ps = '''' \<longleftrightarrow> ps = []"
  by (cases ps rule: join_slash.cases) auto

lemma join_slash_inj:
  "list_all (\<lambda>p. CHR ''/'' \<notin> set p) ps \<Longrightarrow> list_all (\<lambda>p. CHR ''/'' \<notin> set p) qs \<Longrightarrow> ps \<noteq> [] \<Longrightarrow> qs \<noteq> [] \<Longrightarrow>
     join_slash ps = join_slash qs \<longleftrightarrow> ps = qs"
  using split_join by metis

text \<open>A directory by its cleaned elements, and the path of elements below it.\<close>

definition is_rooted :: "string \<Rightarrow> bool" where
  "is_rooted dir \<longleftrightarrow> take 1 dir = ''/''"

definition dir_elements :: "string \<Rightarrow> string list" where
  "dir_elements dir = clean_loop (is_rooted dir) [] (split_slash dir)"

definition path_of :: "bool \<Rightarrow> string list \<Rightarrow> string" where
  "path_of rooted ps = (if rooted then CHR ''/'' # join_slash ps else join_slash ps)"

definition inside :: "string \<Rightarrow> string \<Rightarrow> bool" where
  "inside dir path \<longleftrightarrow> (\<exists>ks. ks \<noteq> [] \<and> list_all plain_element ks \<and> path = path_of (is_rooted dir) (dir_elements dir @ ks))"

lemma filepath_Clean_path_of:
  "clean_loop (is_rooted s) [] (split_slash s) \<noteq> [] \<Longrightarrow>
     filepath_Clean s = path_of (is_rooted s) (clean_loop (is_rooted s) [] (split_slash s))"
proof -
  let ?ps = "clean_loop (is_rooted s) [] (split_slash s)"
  assume "?ps \<noteq> []"
  moreover have "list_all (\<lambda>p. p \<noteq> '''') ?ps" using clean_elements by (fastforce simp: list_all_iff)
  ultimately have ne: "join_slash ?ps \<noteq> ''''" by (simp add: join_slash_Nil)
  show ?thesis
  proof (cases s)
    case (Cons c cs)
    with ne show ?thesis
      by (cases "c = CHR ''/''") (simp_all add: filepath_Clean_def path_of_def is_rooted_def Let_def del: split_slash.simps)
  qed (use ne in simp)
qed

text \<open>Joining a path to a directory cleans the elements of the one after those of the other.\<close>

lemma filepath_Join_elements:
  assumes "dir \<noteq> ''''" "key \<noteq> ''''" "clean_loop (is_rooted dir) (rev (dir_elements dir)) (split_slash key) \<noteq> []"
  shows "filepath_Join [dir, key] =
    path_of (is_rooted dir) (clean_loop (is_rooted dir) (rev (dir_elements dir)) (split_slash key))"
proof -
  let ?s = "dir @ CHR ''/'' # key"
  have r: "is_rooted ?s = is_rooted dir" using assms(1) by (cases dir) (simp_all add: is_rooted_def)
  have e: "clean_loop (is_rooted dir) [] (split_slash ?s) = clean_loop (is_rooted dir) (rev (dir_elements dir)) (split_slash key)"
    unfolding split_app_slash clean_append [of _ "[]"] r dir_elements_def ..
  have "filepath_Join [dir, key] = filepath_Clean ?s" using assms(1,2) by (simp add: filepath_Join_def)
  also have "\<dots> = path_of (is_rooted dir) (clean_loop (is_rooted dir) (rev (dir_elements dir)) (split_slash key))"
    using filepath_Clean_path_of [of ?s] assms(3) unfolding r e by simp
  finally show ?thesis .
qed

lemma filepath_Join_plain:
  assumes "dir \<noteq> ''''" "ks \<noteq> []" "list_all plain_element ks"
  shows "filepath_Join [dir, join_slash ks] = path_of (is_rooted dir) (dir_elements dir @ ks)"
proof -
  have "list_all (\<lambda>p. CHR ''/'' \<notin> set p) ks" "list_all (\<lambda>p. p \<noteq> '''') ks"
    using assms(3) by (auto simp: list_all_iff plain_element_def)
  then have "split_slash (join_slash ks) = ks" "join_slash ks \<noteq> ''''" using assms(2) by (simp_all add: split_join join_slash_Nil)
  moreover have "clean_loop r out ks = rev out @ ks" for r out
    using clean_plain [OF assms(3), of r out "[]"] by simp
  ultimately show ?thesis
    using assms(1,2) filepath_Join_elements [of dir "join_slash ks"] by simp
qed

lemma dir_elements_no_slash: "list_all (\<lambda>p. CHR ''/'' \<notin> set p) (dir_elements dir)"
  unfolding dir_elements_def list_all_iff using clean_elements split_no_slash by fastforce

section \<open>The file system\<close>

text \<open>Contents by path; what else the system keeps (directories, faults to come) is coded in \<open>fs_hidden\<close>.\<close>

record fsys =
  fs_files :: "string \<Rightarrow> string option"
  fs_hidden :: nat

record os_calls =
  os_MkdirAll :: "string \<Rightarrow> fsys \<Rightarrow> goerr option \<times> fsys"
  os_WriteFile :: "string \<Rightarrow> string \<Rightarrow> fsys \<Rightarrow> goerr option \<times> fsys"
  os_Remove :: "string \<Rightarrow> fsys \<Rightarrow> goerr option \<times> fsys"

text \<open>A failed write may leave anything under its own path, and nothing else is touched by any call.\<close>

locale os_laws =
  fixes os :: os_calls
  assumes mkdir: "os_MkdirAll os p f = (r, f') \<Longrightarrow> fs_files f' = fs_files f"
    and write_ok: "os_WriteFile os p c f = (None, f') \<Longrightarrow> fs_files f' = (fs_files f)(p \<mapsto> c)"
    and write_other: "os_WriteFile os p c f = (r, f') \<Longrightarrow> q \<noteq> p \<Longrightarrow> fs_files f' q = fs_files f q"
    and remove_ok: "os_Remove os p f = (None, f') \<Longrightarrow> fs_files f' = (fs_files f)(p := None)"
    and remove_failed: "os_Remove os p f = (Some e, f') \<Longrightarrow> fs_files f' = fs_files f"

text \<open>A file system in memory; \<open>fs_hidden\<close> counts the calls until one fails.\<close>

definition mem_os_call :: "(fsys \<Rightarrow> fsys) \<Rightarrow> fsys \<Rightarrow> goerr option \<times> fsys" where
  "mem_os_call act f =
     (if fs_hidden f = Suc 0 then (Some (Foreign ''input/output error''), f\<lparr>fs_hidden := 0\<rparr>)
      else (None, act (f\<lparr>fs_hidden := fs_hidden f - 1\<rparr>)))"

definition mem_os :: os_calls where
  "mem_os =
     \<lparr>os_MkdirAll = (\<lambda>p. mem_os_call id),
      os_WriteFile = (\<lambda>p c. mem_os_call (\<lambda>f. f\<lparr>fs_files := (fs_files f)(p \<mapsto> c)\<rparr>)),
      os_Remove = (\<lambda>p. mem_os_call (\<lambda>f. f\<lparr>fs_files := (fs_files f)(p := None)\<rparr>))\<rparr>"

interpretation mem_os: os_laws mem_os
  by unfold_locales (auto simp: mem_os_def mem_os_call_def split: if_splits)

end
