(* ===== verification/Dc_Domain.thy ===== *)
theory Dc_Domain
  imports Decode Files
begin

text \<open>
  document-service: the data of \<open>internal/domain\<close> and the interfaces of \<open>internal/ports\<close>. A \<open>float64\<close> is given
  by the text \<open>encoding/json\<close> writes for it.
\<close>

section \<open>Forms\<close>

type_synonym FieldType = string

definition FieldTypeText :: FieldType where "FieldTypeText = ''text''"
definition FieldTypeEmail :: FieldType where "FieldTypeEmail = ''email''"
definition FieldTypeNumber :: FieldType where "FieldTypeNumber = ''number''"
definition FieldTypeDate :: FieldType where "FieldTypeDate = ''date''"
definition FieldTypeSelect :: FieldType where "FieldTypeSelect = ''select''"
definition FieldTypeMultiselect :: FieldType where "FieldTypeMultiselect = ''multiselect''"
definition FieldTypeFile :: FieldType where "FieldTypeFile = ''file''"
definition FieldTypeTextarea :: FieldType where "FieldTypeTextarea = ''textarea''"

type_synonym FormStatus = string

definition FormStatusDraft :: FormStatus where "FormStatusDraft = ''draft''"
definition FormStatusPublished :: FormStatus where "FormStatusPublished = ''published''"
definition FormStatusArchived :: FormStatus where "FormStatusArchived = ''archived''"

record FieldValidation =
  fv_MinLength :: "int option"
  fv_MaxLength :: "int option"
  fv_Min :: "string option"
  fv_Max :: "string option"
  fv_Pattern :: string

record FormField =
  ff_Name :: string
  ff_Type :: FieldType
  ff_Label :: string
  ff_Required :: bool
  ff_Placeholder :: string
  ff_Options :: "string list option"
  ff_Validation :: FieldValidation

record FormTemplate =
  ft_ID :: string
  ft_TenantID :: string
  ft_Name :: string
  ft_Description :: string
  ft_Version :: int
  ft_Fields :: "FormField list option"
  ft_Status :: FormStatus
  ft_CreatedBy :: string
  ft_CreatedAt :: time
  ft_UpdatedAt :: time

type_synonym SubmissionStatus = string

definition SubmissionStatusSubmitted :: SubmissionStatus where "SubmissionStatusSubmitted = ''submitted''"
definition SubmissionStatusProcessing :: SubmissionStatus where "SubmissionStatusProcessing = ''processing''"
definition SubmissionStatusApproved :: SubmissionStatus where "SubmissionStatusApproved = ''approved''"
definition SubmissionStatusRejected :: SubmissionStatus where "SubmissionStatusRejected = ''rejected''"

record FormSubmission =
  fs_ID :: string
  fs_FormID :: string
  fs_TenantID :: string
  fs_SubmittedBy :: string
  fs_Data :: "(string \<times> json) list option"
  fs_Status :: SubmissionStatus
  fs_CreatedAt :: time
  fs_UpdatedAt :: time

section \<open>Documents\<close>

record Document =
  do_ID :: string
  do_TenantID :: string
  do_Filename :: string
  do_OriginalName :: string
  do_MimeType :: string
  do_SizeBytes :: int
  do_StorageKey :: string
  do_UploadedBy :: string
  do_CaseID :: "string option"
  do_VersionCount :: int
  do_CurrentVersion :: int
  do_CreatedAt :: time
  do_UpdatedAt :: time

record DocumentVersion =
  dv_ID :: string
  dv_DocumentID :: string
  dv_Version :: int
  dv_StorageKey :: string
  dv_UploadedBy :: string
  dv_CreatedAt :: time

definition ErrFormNotFound :: goerr where "ErrFormNotFound = Sentinel ''form template not found''"
definition ErrSubmissionNotFound :: goerr where "ErrSubmissionNotFound = Sentinel ''form submission not found''"
definition ErrDocumentNotFound :: goerr where "ErrDocumentNotFound = Sentinel ''document not found''"
definition ErrInvalidFormData :: goerr where "ErrInvalidFormData = Sentinel ''invalid form data''"
definition ErrFileTooLarge :: goerr where "ErrFileTooLarge = Sentinel ''file too large''"
definition ErrUnsupportedFileType :: goerr where "ErrUnsupportedFileType = Sentinel ''unsupported file type''"

lemmas dc_error_defs = ErrFormNotFound_def ErrSubmissionNotFound_def ErrDocumentNotFound_def ErrInvalidFormData_def
  ErrFileTooLarge_def ErrUnsupportedFileType_def

section \<open>Ports\<close>

text \<open>
  \<open>Update\<close> gets a pointer and may change the form behind it: it also returns the form as it leaves it.
\<close>

record 'w FormTemplateRepository =
  frm_Create :: "FormTemplate \<Rightarrow> 'w act_err"
  frm_FindByID :: "string \<Rightarrow> ('w, FormTemplate) act"
  frm_ListByTenant :: "string \<Rightarrow> int \<Rightarrow> int \<Rightarrow> ('w, FormTemplate list \<times> int) act"
  frm_Update :: "FormTemplate \<Rightarrow> 'w \<Rightarrow> (goerr option \<times> FormTemplate) \<times> 'w"
  frm_UpdateStatus :: "string \<Rightarrow> FormStatus \<Rightarrow> 'w act_err"

record 'w FormSubmissionRepository =
  sub_Create :: "FormSubmission \<Rightarrow> 'w act_err"
  sub_FindByID :: "string \<Rightarrow> ('w, FormSubmission) act"
  sub_ListByTenant :: "string \<Rightarrow> int \<Rightarrow> int \<Rightarrow> ('w, FormSubmission list \<times> int) act"
  sub_ListByForm :: "string \<Rightarrow> int \<Rightarrow> int \<Rightarrow> ('w, FormSubmission list \<times> int) act"
  sub_UpdateStatus :: "string \<Rightarrow> SubmissionStatus \<Rightarrow> 'w act_err"

record 'w DocumentRepository =
  dcr_Create :: "Document \<Rightarrow> 'w act_err"
  dcr_FindByID :: "string \<Rightarrow> ('w, Document) act"
  dcr_ListByTenant :: "string \<Rightarrow> int \<Rightarrow> int \<Rightarrow> ('w, Document list \<times> int) act"
  dcr_Delete :: "string \<Rightarrow> 'w act_err"
  dcr_AddVersion :: "DocumentVersion \<Rightarrow> 'w act_err"
  dcr_ListVersions :: "string \<Rightarrow> ('w, DocumentVersion list) act"

record CreateFormRequest =
  cfr_Name :: string
  cfr_Description :: string
  cfr_Fields :: "FormField list option"

record UpdateFormRequest =
  ufr_Name :: "string option"
  ufr_Description :: "string option"
  ufr_Fields :: "FormField list option"

record SubmitFormRequest =
  sfr_FormID :: string
  sfr_Data :: "(string \<times> json) list option"

record UploadRequest =
  upl_Filename :: string
  upl_MimeType :: string
  upl_SizeBytes :: int
  upl_Content :: string
  upl_CaseID :: "string option"

record 'w FormService =
  fsv_CreateTemplate :: "string \<Rightarrow> string \<Rightarrow> CreateFormRequest \<Rightarrow> ('w, FormTemplate) act"
  fsv_GetTemplate :: "string \<Rightarrow> ('w, FormTemplate) act"
  fsv_UpdateTemplate :: "string \<Rightarrow> UpdateFormRequest \<Rightarrow> ('w, FormTemplate) act"
  fsv_PublishTemplate :: "string \<Rightarrow> 'w act_err"
  fsv_ArchiveTemplate :: "string \<Rightarrow> 'w act_err"
  fsv_ListTemplates :: "string \<Rightarrow> int \<Rightarrow> int \<Rightarrow> ('w, FormTemplate list \<times> int) act"
  fsv_SubmitForm :: "string \<Rightarrow> string \<Rightarrow> SubmitFormRequest \<Rightarrow> ('w, FormSubmission) act"
  fsv_GetSubmission :: "string \<Rightarrow> ('w, FormSubmission) act"
  fsv_ListSubmissions :: "string \<Rightarrow> int \<Rightarrow> int \<Rightarrow> ('w, FormSubmission list \<times> int) act"

record 'w DocumentService =
  dsv_UploadDocument :: "string \<Rightarrow> string \<Rightarrow> UploadRequest \<Rightarrow> ('w, Document) act"
  dsv_GetDocument :: "string \<Rightarrow> ('w, Document) act"
  dsv_DeleteDocument :: "string \<Rightarrow> 'w act_err"
  dsv_ListDocuments :: "string \<Rightarrow> int \<Rightarrow> int \<Rightarrow> ('w, Document list \<times> int) act"
  dsv_GetVersions :: "string \<Rightarrow> ('w, DocumentVersion list) act"

end
