(* ===== verification/Mongo.thy ===== *)
theory Mongo
  imports Gorm
begin

text \<open>
  The MongoDB driver and server are not code of this repository: a collection is a parameter, a
  record of the calls the repositories make on it, on the same lists of rows as the tables of theory
  Gorm. The locale \<open>mongo_laws\<close> states the documented behaviour the repositories rely on, \<open>mem_col\<close> is an
  executable collection that satisfies it.
\<close>

section \<open>Collections\<close>

record 'm mongo_col =
  mg_InsertOne :: "'m \<Rightarrow> 'm tbl \<Rightarrow> goerr option \<times> 'm tbl"
  mg_FindOne :: "('m \<Rightarrow> bool) \<Rightarrow> 'm tbl \<Rightarrow> (goerr + 'm) \<times> 'm tbl"
  mg_Find :: "('m \<Rightarrow> bool) \<Rightarrow> 'm sort_order \<Rightarrow> (int \<times> int) option \<Rightarrow> 'm tbl \<Rightarrow> (goerr + 'm list) \<times> 'm tbl"
  mg_CountDocuments :: "('m \<Rightarrow> bool) \<Rightarrow> 'm tbl \<Rightarrow> (goerr + int) \<times> 'm tbl"
  mg_ReplaceOne :: "('m \<Rightarrow> bool) \<Rightarrow> 'm \<Rightarrow> 'm tbl \<Rightarrow> (goerr + nat) \<times> 'm tbl"
  mg_UpdateOne :: "('m \<Rightarrow> bool) \<Rightarrow> ('m \<Rightarrow> 'm) \<Rightarrow> 'm tbl \<Rightarrow> (goerr + nat) \<times> 'm tbl"
  mg_DeleteOne :: "('m \<Rightarrow> bool) \<Rightarrow> 'm tbl \<Rightarrow> (goerr + nat) \<times> 'm tbl"

definition ErrNoDocuments :: goerr where
  "ErrNoDocuments = Sentinel ''mongo: no documents in result''"

text \<open>
  An update and a replacement touch at most one document that matches, and report how many matched;
  \<open>eqv m m'\<close> says that \<open>m'\<close> is a stored form of \<open>m\<close> (times are rounded to milliseconds).
\<close>

definition one_updated :: "('m \<Rightarrow> 'm \<Rightarrow> bool) \<Rightarrow> ('m \<Rightarrow> bool) \<Rightarrow> ('m \<Rightarrow> 'm) \<Rightarrow> 'm tbl \<Rightarrow> 'm tbl \<Rightarrow> bool" where
  "one_updated eqv P f t t' \<longleftrightarrow>
     (\<exists>xs x y ys. rows t = xs @ x # ys \<and> rows t' = xs @ y # ys \<and> P x \<and> eqv (f x) y)"

definition one_deleted :: "('m \<Rightarrow> bool) \<Rightarrow> 'm tbl \<Rightarrow> 'm tbl \<Rightarrow> bool" where
  "one_deleted P t t' \<longleftrightarrow> (\<exists>xs x ys. rows t = xs @ x # ys \<and> rows t' = xs @ ys \<and> P x)"

locale mongo_laws =
  fixes C :: "'m mongo_col" and eqv :: "'m \<Rightarrow> 'm \<Rightarrow> bool"
  assumes insert: "mg_InsertOne C m t = (r, t') \<Longrightarrow>
      (\<exists>m'. eqv m m' \<and> rows t' = rows t @ [m']) \<or> r \<noteq> None \<and> rows t' = rows t"
    and one_rows: "mg_FindOne C P t = (fr, t') \<Longrightarrow> rows t' = rows t"
    and one_ok: "mg_FindOne C P t = (Inr m, t') \<Longrightarrow> m \<in> set (rows t) \<and> P m"
    and one_none: "mg_FindOne C P t = (Inl ErrNoDocuments, t') \<Longrightarrow> m \<in> set (rows t) \<Longrightarrow> \<not> P m"
    and find_rows: "mg_Find C P ord win t = (lr, t') \<Longrightarrow> rows t' = rows t"
    and find_ok: "mg_Find C P ord win t = (Inr ms, t') \<Longrightarrow>
      (\<forall>off lim. win = Some (off, lim) \<longrightarrow> 0 \<le> off \<and> 0 < lim) \<Longrightarrow>
      \<exists>xs. mset xs = mset (filter P (rows t)) \<and> sorted_by ord xs \<and> ms = window win xs"
    and count_rows: "mg_CountDocuments C P t = (cr, t') \<Longrightarrow> rows t' = rows t"
    and count_ok: "mg_CountDocuments C P t = (Inr k, t') \<Longrightarrow> k = int (length (filter P (rows t)))"
    and replace: "mg_ReplaceOne C P m t = (nr, t') \<Longrightarrow> one_updated eqv P (\<lambda>_. m) t t' \<or> rows t' = rows t"
    and replace_ok: "mg_ReplaceOne C P m t = (Inr n, t') \<Longrightarrow> x \<in> set (rows t) \<Longrightarrow> P x \<Longrightarrow> one_updated eqv P (\<lambda>_. m) t t'"
    and update: "mg_UpdateOne C P f t = (nr, t') \<Longrightarrow> one_updated eqv P f t t' \<or> rows t' = rows t"
    and update_ok: "mg_UpdateOne C P f t = (Inr n, t') \<Longrightarrow> x \<in> set (rows t) \<Longrightarrow> P x \<Longrightarrow> one_updated eqv P f t t'"
    and update_none: "mg_UpdateOne C P f t = (Inr n, t') \<Longrightarrow> n = 0 \<longleftrightarrow> (\<forall>x\<in>set (rows t). \<not> P x)"
    and delete: "mg_DeleteOne C P t = (nr, t') \<Longrightarrow> one_deleted P t t' \<or> rows t' = rows t"
    and delete_none: "mg_DeleteOne C P t = (Inr n, t') \<Longrightarrow>
      (n = 0 \<longleftrightarrow> (\<forall>x\<in>set (rows t). \<not> P x)) \<and> (n \<noteq> 0 \<longrightarrow> one_deleted P t t')"
begin

lemma insert_ok:
  assumes "mg_InsertOne C m t = (None, t')"
  obtains m' where "eqv m m'" "rows t' = rows t @ [m']"
  using insert [OF assms] by auto

end

section \<open>A reference collection\<close>

fun upd_first :: "('m \<Rightarrow> bool) \<Rightarrow> ('m \<Rightarrow> 'm) \<Rightarrow> 'm list \<Rightarrow> 'm list" where
  "upd_first P f [] = []"
| "upd_first P f (x # xs) = (if P x then f x # xs else x # upd_first P f xs)"

fun del_first :: "('m \<Rightarrow> bool) \<Rightarrow> 'm list \<Rightarrow> 'm list" where
  "del_first P [] = []"
| "del_first P (x # xs) = (if P x then xs else x # del_first P xs)"

definition mem_modify :: "('m \<Rightarrow> bool) \<Rightarrow> ('m list \<Rightarrow> 'm list) \<Rightarrow> 'm tbl \<Rightarrow> (goerr + nat) \<times> 'm tbl" where
  "mem_modify P f t =
     (if mem_fault t then (Inl bad_connection, mem_tick t)
      else (Inr (if list_ex P (rows t) then 1 else 0), (mem_tick t)\<lparr>rows := f (rows t)\<rparr>))"

definition mem_col :: "'m mongo_col" where
  "mem_col =
     \<lparr>mg_InsertOne = (\<lambda>m. mem_write (\<lambda>ms. Inr (ms @ [m]))),
      mg_FindOne = (\<lambda>P. mem_read (\<lambda>ms. case find P ms of None \<Rightarrow> Inl ErrNoDocuments | Some m \<Rightarrow> Inr m)),
      mg_Find = (\<lambda>P ord win. mem_read (\<lambda>ms. Inr (window win (mem_sort ord (filter P ms))))),
      mg_CountDocuments = (\<lambda>P. mem_read (\<lambda>ms. Inr (int (length (filter P ms))))),
      mg_ReplaceOne = (\<lambda>P m. mem_modify P (upd_first P (\<lambda>_. m))),
      mg_UpdateOne = (\<lambda>P f. mem_modify P (upd_first P f)),
      mg_DeleteOne = (\<lambda>P. mem_modify P (del_first P))\<rparr>"

lemma upd_first_split: "list_ex P ms \<Longrightarrow> \<exists>xs x ys. ms = xs @ x # ys \<and> upd_first P f ms = xs @ f x # ys \<and> P x"
proof (induction ms)
  case (Cons m ms)
  show ?case
  proof (cases "P m")
    case False
    with Cons obtain xs x ys where "ms = xs @ x # ys" "upd_first P f ms = xs @ f x # ys" "P x" by auto
    with False show ?thesis by (intro exI [of _ "m # xs"]) auto
  qed (use Cons.prems in \<open>auto intro: exI [of _ "[]"]\<close>)
qed simp

lemma del_first_split: "list_ex P ms \<Longrightarrow> \<exists>xs x ys. ms = xs @ x # ys \<and> del_first P ms = xs @ ys \<and> P x"
proof (induction ms)
  case (Cons m ms)
  show ?case
  proof (cases "P m")
    case False
    with Cons obtain xs x ys where "ms = xs @ x # ys" "del_first P ms = xs @ ys" "P x" by auto
    with False show ?thesis by (intro exI [of _ "m # xs"]) auto
  qed (use Cons.prems in \<open>auto intro: exI [of _ "[]"]\<close>)
qed simp

lemma no_first: "\<not> list_ex P ms \<Longrightarrow> upd_first P f ms = ms" "\<not> list_ex P ms \<Longrightarrow> del_first P ms = ms"
  by (induction ms) auto

lemma one_updated_first:
  "list_ex P (rows t) \<Longrightarrow> rows t' = upd_first P f (rows t) \<Longrightarrow> (\<And>x. eqv x x) \<Longrightarrow> one_updated eqv P f t t'"
  unfolding one_updated_def using upd_first_split [of P "rows t" f] by metis

lemma one_deleted_first: "list_ex P (rows t) \<Longrightarrow> rows t' = del_first P (rows t) \<Longrightarrow> one_deleted P t t'"
  unfolding one_deleted_def using del_first_split [of P "rows t"] by metis

lemma mem_modify_upd:
  "mem_modify P (upd_first P f) t = (nr, t') \<Longrightarrow> (\<And>x. eqv x x) \<Longrightarrow> one_updated eqv P f t t' \<or> rows t' = rows t"
  "mem_modify P (upd_first P f) t = (Inr n, t') \<Longrightarrow> (\<And>x. eqv x x) \<Longrightarrow> list_ex P (rows t) \<Longrightarrow> one_updated eqv P f t t'"
  using one_updated_first [of P t t' f eqv] no_first(1) [of P "rows t" f]
  by (auto simp: mem_modify_def split: if_splits)

lemma mem_modify_del:
  "mem_modify P (del_first P) t = (nr, t') \<Longrightarrow> one_deleted P t t' \<or> rows t' = rows t"
  "mem_modify P (del_first P) t = (Inr n, t') \<Longrightarrow> list_ex P (rows t) \<Longrightarrow> one_deleted P t t'"
  using one_deleted_first [of P t t'] no_first(2) [of P "rows t"]
  by (auto simp: mem_modify_def split: if_splits)

lemma mem_col_laws: "(\<And>x. eqv x x) \<Longrightarrow> mongo_laws mem_col eqv"
proof (unfold_locales, goal_cases)
  case (2 P t fr t') then show ?case by (auto simp: mem_col_def mem_read_def)
next
  case (6 P ord win t ms t') then show ?case
    by (intro exI [of _ "mem_sort ord (filter P (rows t))"])
      (auto simp: mem_col_def mem_read_def sorted_by_mem_sort mset_mem_sort split: if_splits)
next
  case (9 P m t nr t') then show ?case using mem_modify_upd(1) [of P "\<lambda>_. m" t nr t' eqv] by (simp add: mem_col_def)
next
  case (10 P m t n t' x) then show ?case
    using mem_modify_upd(2) [of P "\<lambda>_. m" t n t' eqv] by (auto simp: mem_col_def list_ex_iff)
next
  case (11 P f t nr t') then show ?case using mem_modify_upd(1) [of P f t nr t' eqv] by (simp add: mem_col_def)
next
  case (12 P f t n t' x) then show ?case
    using mem_modify_upd(2) [of P f t n t' eqv] by (auto simp: mem_col_def list_ex_iff)
next
  case (14 P t nr t') then show ?case using mem_modify_del(1) [of P t nr t'] by (simp add: mem_col_def)
next
  case (15 P t n t') then show ?case
    using mem_modify_del(2) [of P t n t'] by (auto simp: mem_col_def mem_modify_def list_ex_iff split: if_splits)
qed (auto simp: mem_col_def mem_write_def mem_read_def mem_modify_def list_ex_iff find_Some_iff find_None_iff
    bad_connection_def ErrNoDocuments_def split: if_splits option.splits)

interpretation mem_mongo: mongo_laws mem_col "(=)"
  by (rule mem_col_laws) simp

end
