(* ===== verification/Dc_Repo.thy ===== *)
theory Dc_Repo
  imports Dc_Domain Mongo
begin

text \<open>
  document-service: the MongoDB repositories of \<open>internal/adapters/mongodb\<close>. The documents of the
  collections are the domain values; a condition on a string field is equality.
\<close>

section \<open>The database and the state\<close>

record dc_db =
  ddb_forms :: "FormTemplate mongo_col"
  ddb_submissions :: "FormSubmission mongo_col"
  ddb_documents :: "Document mongo_col"
  ddb_versions :: "DocumentVersion mongo_col"

text \<open>The state of the process: the collections and the file system.\<close>

record dc_world = env +
  dw_forms :: "FormTemplate tbl"
  dw_submissions :: "FormSubmission tbl"
  dw_documents :: "Document tbl"
  dw_versions :: "DocumentVersion tbl"
  dw_files :: fsys

abbreviation "on_forms \<equiv> on_table dw_forms dw_forms_update"
abbreviation "on_submissions \<equiv> on_table dw_submissions dw_submissions_update"
abbreviation "on_documents \<equiv> on_table dw_documents dw_documents_update"
abbreviation "on_versions \<equiv> on_table dw_versions dw_versions_update"

text \<open>\<open>if err == mongo.ErrNoDocuments { return nil, <sentinel> }; return &x, err\<close>\<close>

definition no_docs :: "goerr \<Rightarrow> goerr + 'a \<Rightarrow> goerr + 'a" where
  "no_docs sentinel r =
     (case r of Inl e \<Rightarrow> Inl (if e = ErrNoDocuments then sentinel else e) | Inr x \<Rightarrow> Inr x)"

text \<open>\<open>if result.MatchedCount == 0 { return <sentinel> }\<close>, and the same for \<open>DeletedCount\<close>.\<close>

definition no_match :: "goerr \<Rightarrow> goerr + nat \<Rightarrow> goerr option" where
  "no_match sentinel r = (case r of Inl e \<Rightarrow> Some e | Inr n \<Rightarrow> if n = 0 then Some sentinel else None)"

text \<open>A page: the count, then the matching documents, the newest first.\<close>

definition mongo_page ::
  "'m mongo_col \<Rightarrow> ('m \<Rightarrow> bool) \<Rightarrow> ('m \<Rightarrow> time) \<Rightarrow> int \<Rightarrow> int \<Rightarrow> 'm tbl \<Rightarrow> (goerr + 'm list \<times> int) \<times> 'm tbl" where
  "mongo_page C P created page limit t =
     (let skip = wrap64 (wrap64 (page - 1) * limit) in
      case mg_CountDocuments C P t of
        (Inl e, t1) \<Rightarrow> (Inl e, t1)
      | (Inr cnt, t1) \<Rightarrow>
         (case mg_Find C P (Desc created) (Some (skip, limit)) t1 of
            (Inl e, t2) \<Rightarrow> (Inl e, t2)
          | (Inr ms, t2) \<Rightarrow> (Inr (ms, cnt), t2)))"

section \<open>form_repository.go\<close>

definition formTemplateRepository_Create :: "dc_db \<Rightarrow> FormTemplate \<Rightarrow> dc_world act_err" where
  "formTemplateRepository_Create db form w = on_forms (mg_InsertOne (ddb_forms db) form) w"

definition formTemplateRepository_FindByID :: "dc_db \<Rightarrow> string \<Rightarrow> (dc_world, FormTemplate) act" where
  "formTemplateRepository_FindByID db ident w =
     (let (r, w1) = on_forms (mg_FindOne (ddb_forms db) (\<lambda>m. ft_ID m = ident)) w in (no_docs ErrFormNotFound r, w1))"

definition formTemplateRepository_ListByTenant ::
  "dc_db \<Rightarrow> string \<Rightarrow> int \<Rightarrow> int \<Rightarrow> (dc_world, FormTemplate list \<times> int) act" where
  "formTemplateRepository_ListByTenant db tenantID page limit w =
     on_forms (mongo_page (ddb_forms db) (\<lambda>m. ft_TenantID m = tenantID) ft_CreatedAt page limit) w"

definition formTemplateRepository_Update ::
  "dc_db \<Rightarrow> FormTemplate \<Rightarrow> dc_world \<Rightarrow> (goerr option \<times> FormTemplate) \<times> dc_world" where
  "formTemplateRepository_Update db form w =
     (let (now, w1) = time_Now w;
          form' = form\<lparr>ft_UpdatedAt := now\<rparr>;
          (r, w2) = on_forms (mg_ReplaceOne (ddb_forms db) (\<lambda>m. ft_ID m = ft_ID form') form') w1
      in ((case r of Inl e \<Rightarrow> Some e | Inr _ \<Rightarrow> None, form'), w2))"

definition formTemplateRepository_UpdateStatus :: "dc_db \<Rightarrow> string \<Rightarrow> FormStatus \<Rightarrow> dc_world act_err" where
  "formTemplateRepository_UpdateStatus db ident status w =
     (let (now, w1) = time_Now w;
          (r, w2) = on_forms (mg_UpdateOne (ddb_forms db) (\<lambda>m. ft_ID m = ident)
                      (\<lambda>m. m\<lparr>ft_Status := status, ft_UpdatedAt := now\<rparr>)) w1
      in (no_match ErrFormNotFound r, w2))"

definition formTemplateRepository :: "dc_db \<Rightarrow> dc_world FormTemplateRepository" where
  "formTemplateRepository db =
     \<lparr>frm_Create = formTemplateRepository_Create db, frm_FindByID = formTemplateRepository_FindByID db,
      frm_ListByTenant = formTemplateRepository_ListByTenant db, frm_Update = formTemplateRepository_Update db,
      frm_UpdateStatus = formTemplateRepository_UpdateStatus db\<rparr>"

section \<open>submission_repository.go\<close>

definition formSubmissionRepository_Create :: "dc_db \<Rightarrow> FormSubmission \<Rightarrow> dc_world act_err" where
  "formSubmissionRepository_Create db sub w = on_submissions (mg_InsertOne (ddb_submissions db) sub) w"

definition formSubmissionRepository_FindByID :: "dc_db \<Rightarrow> string \<Rightarrow> (dc_world, FormSubmission) act" where
  "formSubmissionRepository_FindByID db ident w =
     (let (r, w1) = on_submissions (mg_FindOne (ddb_submissions db) (\<lambda>m. fs_ID m = ident)) w
      in (no_docs ErrSubmissionNotFound r, w1))"

definition formSubmissionRepository_ListByTenant ::
  "dc_db \<Rightarrow> string \<Rightarrow> int \<Rightarrow> int \<Rightarrow> (dc_world, FormSubmission list \<times> int) act" where
  "formSubmissionRepository_ListByTenant db tenantID page limit w =
     on_submissions (mongo_page (ddb_submissions db) (\<lambda>m. fs_TenantID m = tenantID) fs_CreatedAt page limit) w"

definition formSubmissionRepository_ListByForm ::
  "dc_db \<Rightarrow> string \<Rightarrow> int \<Rightarrow> int \<Rightarrow> (dc_world, FormSubmission list \<times> int) act" where
  "formSubmissionRepository_ListByForm db formID page limit w =
     on_submissions (mongo_page (ddb_submissions db) (\<lambda>m. fs_FormID m = formID) fs_CreatedAt page limit) w"

definition formSubmissionRepository_UpdateStatus :: "dc_db \<Rightarrow> string \<Rightarrow> SubmissionStatus \<Rightarrow> dc_world act_err" where
  "formSubmissionRepository_UpdateStatus db ident status w =
     (let (now, w1) = time_Now w;
          (r, w2) = on_submissions (mg_UpdateOne (ddb_submissions db) (\<lambda>m. fs_ID m = ident)
                      (\<lambda>m. m\<lparr>fs_Status := status, fs_UpdatedAt := now\<rparr>)) w1
      in (no_match ErrSubmissionNotFound r, w2))"

definition formSubmissionRepository :: "dc_db \<Rightarrow> dc_world FormSubmissionRepository" where
  "formSubmissionRepository db =
     \<lparr>sub_Create = formSubmissionRepository_Create db, sub_FindByID = formSubmissionRepository_FindByID db,
      sub_ListByTenant = formSubmissionRepository_ListByTenant db, sub_ListByForm = formSubmissionRepository_ListByForm db,
      sub_UpdateStatus = formSubmissionRepository_UpdateStatus db\<rparr>"

section \<open>document_repository.go\<close>

definition documentRepository_Create :: "dc_db \<Rightarrow> Document \<Rightarrow> dc_world act_err" where
  "documentRepository_Create db doc w = on_documents (mg_InsertOne (ddb_documents db) doc) w"

definition documentRepository_FindByID :: "dc_db \<Rightarrow> string \<Rightarrow> (dc_world, Document) act" where
  "documentRepository_FindByID db ident w =
     (let (r, w1) = on_documents (mg_FindOne (ddb_documents db) (\<lambda>m. do_ID m = ident)) w
      in (no_docs ErrDocumentNotFound r, w1))"

definition documentRepository_ListByTenant ::
  "dc_db \<Rightarrow> string \<Rightarrow> int \<Rightarrow> int \<Rightarrow> (dc_world, Document list \<times> int) act" where
  "documentRepository_ListByTenant db tenantID page limit w =
     on_documents (mongo_page (ddb_documents db) (\<lambda>m. do_TenantID m = tenantID) do_CreatedAt page limit) w"

definition documentRepository_Delete :: "dc_db \<Rightarrow> string \<Rightarrow> dc_world act_err" where
  "documentRepository_Delete db ident w =
     (let (r, w1) = on_documents (mg_DeleteOne (ddb_documents db) (\<lambda>m. do_ID m = ident)) w
      in (no_match ErrDocumentNotFound r, w1))"

text \<open>\<open>$inc\<close> fails on a count that would leave the range; a count that is stored is one more.\<close>

definition documentRepository_AddVersion :: "dc_db \<Rightarrow> DocumentVersion \<Rightarrow> dc_world act_err" where
  "documentRepository_AddVersion db version w =
     (case on_versions (mg_InsertOne (ddb_versions db) version) w of
        (Some e, w1) \<Rightarrow> (Some e, w1)
      | (None, w1) \<Rightarrow>
         (let (now, w2) = time_Now w1;
              (r, w3) = on_documents (mg_UpdateOne (ddb_documents db) (\<lambda>m. do_ID m = dv_DocumentID version)
                 (\<lambda>m. m\<lparr>do_CurrentVersion := dv_Version version, do_UpdatedAt := now, do_VersionCount := do_VersionCount m + 1\<rparr>)) w2
          in (case r of Inl e \<Rightarrow> Some e | Inr _ \<Rightarrow> None, w3)))"

definition documentRepository_ListVersions :: "dc_db \<Rightarrow> string \<Rightarrow> (dc_world, DocumentVersion list) act" where
  "documentRepository_ListVersions db documentID w =
     on_versions (mg_Find (ddb_versions db) (\<lambda>m. dv_DocumentID m = documentID) (Asc dv_Version) None) w"

definition documentRepository :: "dc_db \<Rightarrow> dc_world DocumentRepository" where
  "documentRepository db =
     \<lparr>dcr_Create = documentRepository_Create db, dcr_FindByID = documentRepository_FindByID db,
      dcr_ListByTenant = documentRepository_ListByTenant db, dcr_Delete = documentRepository_Delete db,
      dcr_AddVersion = documentRepository_AddVersion db, dcr_ListVersions = documentRepository_ListVersions db\<rparr>"

end
