(* ===== verification/Dc_Service.thy ===== *)
theory Dc_Service
  imports Dc_Domain
begin

text \<open>
  document-service: \<open>internal/application\<close>, the form service and the document service, over any
  implementation of the repositories. The document service also writes files: its state has the file
  system of the process, given by two access functions of the service value.
\<close>

section \<open>form_service.go\<close>

record 'w formService =
  fmi_formRepo :: "'w FormTemplateRepository"
  fmi_submissionRepo :: "'w FormSubmissionRepository"

definition formService_CreateTemplate ::
  "'a env_scheme formService \<Rightarrow> string \<Rightarrow> string \<Rightarrow> CreateFormRequest \<Rightarrow> ('a env_scheme, FormTemplate) act" where
  "formService_CreateTemplate s tenantID createdBy req w =
     (let (now, w1) = time_Now w;
          (ident, w2) = uuid_NewString w1;
          form = \<lparr>ft_ID = ident, ft_TenantID = tenantID, ft_Name = cfr_Name req, ft_Description = cfr_Description req,
                  ft_Version = 1, ft_Fields = cfr_Fields req, ft_Status = FormStatusDraft, ft_CreatedBy = createdBy,
                  ft_CreatedAt = now, ft_UpdatedAt = now\<rparr>
      in case frm_Create (fmi_formRepo s) form w2 of
           (Some e, w3) \<Rightarrow> (Inl e, w3)
         | (None, w3) \<Rightarrow> (Inr form, w3))"

definition formService_GetTemplate :: "'w formService \<Rightarrow> string \<Rightarrow> ('w, FormTemplate) act" where
  "formService_GetTemplate s ident w = frm_FindByID (fmi_formRepo s) ident w"

text \<open>\<open>form.Version++\<close> on an \<open>int\<close> wraps around.\<close>

definition patchedForm :: "UpdateFormRequest \<Rightarrow> FormTemplate \<Rightarrow> FormTemplate" where
  "patchedForm req form =
     (let f1 = (case ufr_Name req of None \<Rightarrow> form | Some n \<Rightarrow> form\<lparr>ft_Name := n\<rparr>);
          f2 = (case ufr_Description req of None \<Rightarrow> f1 | Some d \<Rightarrow> f1\<lparr>ft_Description := d\<rparr>)
      in case ufr_Fields req of None \<Rightarrow> f2
         | Some fl \<Rightarrow> f2\<lparr>ft_Fields := Some fl, ft_Version := wrap64 (ft_Version f2 + 1)\<rparr>)"

definition formService_UpdateTemplate ::
  "'a env_scheme formService \<Rightarrow> string \<Rightarrow> UpdateFormRequest \<Rightarrow> ('a env_scheme, FormTemplate) act" where
  "formService_UpdateTemplate s ident req w =
     (case frm_FindByID (fmi_formRepo s) ident w of
        (Inl e, w1) \<Rightarrow> (Inl e, w1)
      | (Inr form, w1) \<Rightarrow>
         (let (now, w2) = time_Now w1;
              form' = (patchedForm req form)\<lparr>ft_UpdatedAt := now\<rparr>
          in case frm_Update (fmi_formRepo s) form' w2 of
               ((Some e, _), w3) \<Rightarrow> (Inl e, w3)
             | ((None, form''), w3) \<Rightarrow> (Inr form'', w3)))"

definition formService_PublishTemplate :: "'w formService \<Rightarrow> string \<Rightarrow> 'w act_err" where
  "formService_PublishTemplate s ident w = frm_UpdateStatus (fmi_formRepo s) ident FormStatusPublished w"

definition formService_ArchiveTemplate :: "'w formService \<Rightarrow> string \<Rightarrow> 'w act_err" where
  "formService_ArchiveTemplate s ident w = frm_UpdateStatus (fmi_formRepo s) ident FormStatusArchived w"

definition formService_ListTemplates ::
  "'w formService \<Rightarrow> string \<Rightarrow> int \<Rightarrow> int \<Rightarrow> ('w, FormTemplate list \<times> int) act" where
  "formService_ListTemplates s tenantID page limit w = frm_ListByTenant (fmi_formRepo s) tenantID page limit w"

text \<open>The loop over the fields of a form: the first required field without a value is the error.\<close>

definition no_value :: "(string \<times> json) list option \<Rightarrow> string \<Rightarrow> bool" where
  "no_value data name \<longleftrightarrow>
     (case map_of (elems data) name of None \<Rightarrow> True | Some v \<Rightarrow> v = JNull \<or> v = JStr '''')"

fun check_required :: "FormField list \<Rightarrow> (string \<times> json) list option \<Rightarrow> goerr option" where
  "check_required [] data = None"
| "check_required (f # fs) data =
     (if ff_Required f \<and> no_value data (ff_Name f)
      then Some (Errorf '''' ErrInvalidFormData ('': field '' @ CHR 0x27 # ff_Name f @ CHR 0x27 # '' is required''))
      else check_required fs data)"

definition formService_SubmitForm ::
  "'a env_scheme formService \<Rightarrow> string \<Rightarrow> string \<Rightarrow> SubmitFormRequest \<Rightarrow> ('a env_scheme, FormSubmission) act" where
  "formService_SubmitForm s tenantID userID req w =
     (case frm_FindByID (fmi_formRepo s) (sfr_FormID req) w of
        (Inl e, w1) \<Rightarrow> (Inl e, w1)
      | (Inr form, w1) \<Rightarrow>
         (case check_required (elems (ft_Fields form)) (sfr_Data req) of
            Some e \<Rightarrow> (Inl e, w1)
          | None \<Rightarrow>
             (let (now, w2) = time_Now w1;
                  (ident, w3) = uuid_NewString w2;
                  submission = \<lparr>fs_ID = ident, fs_FormID = sfr_FormID req, fs_TenantID = tenantID,
                    fs_SubmittedBy = userID, fs_Data = sfr_Data req, fs_Status = SubmissionStatusSubmitted,
                    fs_CreatedAt = now, fs_UpdatedAt = now\<rparr>
              in case sub_Create (fmi_submissionRepo s) submission w3 of
                   (Some e, w4) \<Rightarrow> (Inl e, w4)
                 | (None, w4) \<Rightarrow> (Inr submission, w4))))"

definition formService_GetSubmission :: "'w formService \<Rightarrow> string \<Rightarrow> ('w, FormSubmission) act" where
  "formService_GetSubmission s ident w = sub_FindByID (fmi_submissionRepo s) ident w"

definition formService_ListSubmissions ::
  "'w formService \<Rightarrow> string \<Rightarrow> int \<Rightarrow> int \<Rightarrow> ('w, FormSubmission list \<times> int) act" where
  "formService_ListSubmissions s tenantID page limit w = sub_ListByTenant (fmi_submissionRepo s) tenantID page limit w"

definition NewFormService ::
  "'a env_scheme FormTemplateRepository \<Rightarrow> 'a env_scheme FormSubmissionRepository \<Rightarrow> 'a env_scheme FormService" where
  "NewFormService formRepo submissionRepo =
     (let s = \<lparr>fmi_formRepo = formRepo, fmi_submissionRepo = submissionRepo\<rparr> in
      \<lparr>fsv_CreateTemplate = formService_CreateTemplate s, fsv_GetTemplate = formService_GetTemplate s,
       fsv_UpdateTemplate = formService_UpdateTemplate s, fsv_PublishTemplate = formService_PublishTemplate s,
       fsv_ArchiveTemplate = formService_ArchiveTemplate s, fsv_ListTemplates = formService_ListTemplates s,
       fsv_SubmitForm = formService_SubmitForm s, fsv_GetSubmission = formService_GetSubmission s,
       fsv_ListSubmissions = formService_ListSubmissions s\<rparr>)"

section \<open>document_service.go\<close>

definition maxFileSizeBytes :: int where
  "maxFileSizeBytes = 50 * 1024 * 1024"

definition allowedMimeTypes :: "string list" where
  "allowedMimeTypes =
     [''application/pdf'', ''application/msword'',
      ''application/vnd.openxmlformats-officedocument.wordprocessingml.document'',
      ''application/vnd.ms-excel'', ''application/vnd.openxmlformats-officedocument.spreadsheetml.sheet'',
      ''image/jpeg'', ''image/png'', ''image/gif'', ''text/plain'', ''text/csv'']"

text \<open>A call of package \<open>os\<close> on the file system in the state.\<close>

record 'w documentService =
  dci_docRepo :: "'w DocumentRepository"
  dci_uploadDir :: string
  dci_os :: os_calls
  dci_get :: "'w \<Rightarrow> fsys"
  dci_put :: "fsys \<Rightarrow> 'w \<Rightarrow> 'w"

definition on_files :: "'w documentService \<Rightarrow> (fsys \<Rightarrow> 'r \<times> fsys) \<Rightarrow> 'w \<Rightarrow> 'r \<times> 'w" where
  "on_files s f w = (let (r, fs) = f (dci_get s w) in (r, dci_put s fs w))"

definition storage_key :: "string \<Rightarrow> string \<Rightarrow> string \<Rightarrow> string" where
  "storage_key tenantID docID filename = tenantID @ ''/'' @ docID @ ''/'' @ filename"

definition documentService_UploadDocument ::
  "'a env_scheme documentService \<Rightarrow> string \<Rightarrow> string \<Rightarrow> UploadRequest \<Rightarrow> ('a env_scheme, Document) act" where
  "documentService_UploadDocument s tenantID userID req w =
     (if upl_SizeBytes req > maxFileSizeBytes then (Inl ErrFileTooLarge, w)
      else if upl_MimeType req \<notin> set allowedMimeTypes then (Inl ErrUnsupportedFileType, w)
      else
        (let (docID, w1) = uuid_NewString w;
             storageKey = storage_key tenantID docID (upl_Filename req);
             fullPath = filepath_Join [dci_uploadDir s, storageKey]
         in case on_files s (os_MkdirAll (dci_os s) (filepath_Dir fullPath)) w1 of
              (Some e, w2) \<Rightarrow> (Inl (Errorf ''failed to create upload directory: '' e ''''), w2)
            | (None, w2) \<Rightarrow>
               (case on_files s (os_WriteFile (dci_os s) fullPath (upl_Content req)) w2 of
                  (Some e, w3) \<Rightarrow> (Inl (Errorf ''failed to write file: '' e ''''), w3)
                | (None, w3) \<Rightarrow>
                   (let (now, w4) = time_Now w3;
                        doc = \<lparr>do_ID = docID, do_TenantID = tenantID, do_Filename = upl_Filename req,
                          do_OriginalName = upl_Filename req, do_MimeType = upl_MimeType req,
                          do_SizeBytes = upl_SizeBytes req, do_StorageKey = storageKey, do_UploadedBy = userID,
                          do_CaseID = upl_CaseID req, do_VersionCount = 1, do_CurrentVersion = 1,
                          do_CreatedAt = now, do_UpdatedAt = now\<rparr>
                    in case dcr_Create (dci_docRepo s) doc w4 of
                         (Some e, w5) \<Rightarrow> (Inl e, snd (on_files s (os_Remove (dci_os s) fullPath) w5))
                       | (None, w5) \<Rightarrow>
                          (let (vid, w6) = uuid_NewString w5;
                               version = \<lparr>dv_ID = vid, dv_DocumentID = docID, dv_Version = 1,
                                 dv_StorageKey = storageKey, dv_UploadedBy = userID, dv_CreatedAt = now\<rparr>;
                               (_, w7) = dcr_AddVersion (dci_docRepo s) version w6
                           in (Inr doc, w7))))))"

definition documentService_GetDocument :: "'w documentService \<Rightarrow> string \<Rightarrow> ('w, Document) act" where
  "documentService_GetDocument s ident w = dcr_FindByID (dci_docRepo s) ident w"

definition documentService_DeleteDocument :: "'w documentService \<Rightarrow> string \<Rightarrow> 'w act_err" where
  "documentService_DeleteDocument s ident w =
     (case dcr_FindByID (dci_docRepo s) ident w of
        (Inl e, w1) \<Rightarrow> (Some e, w1)
      | (Inr doc, w1) \<Rightarrow>
         (let fullPath = filepath_Join [dci_uploadDir s, do_StorageKey doc];
              (_, w2) = on_files s (os_Remove (dci_os s) fullPath) w1
          in dcr_Delete (dci_docRepo s) ident w2))"

definition documentService_ListDocuments ::
  "'w documentService \<Rightarrow> string \<Rightarrow> int \<Rightarrow> int \<Rightarrow> ('w, Document list \<times> int) act" where
  "documentService_ListDocuments s tenantID page limit w = dcr_ListByTenant (dci_docRepo s) tenantID page limit w"

definition documentService_GetVersions :: "'w documentService \<Rightarrow> string \<Rightarrow> ('w, DocumentVersion list) act" where
  "documentService_GetVersions s documentID w = dcr_ListVersions (dci_docRepo s) documentID w"

definition NewDocumentService :: "'a env_scheme documentService \<Rightarrow> 'a env_scheme DocumentService" where
  "NewDocumentService s =
     \<lparr>dsv_UploadDocument = documentService_UploadDocument s, dsv_GetDocument = documentService_GetDocument s,
      dsv_DeleteDocument = documentService_DeleteDocument s, dsv_ListDocuments = documentService_ListDocuments s,
      dsv_GetVersions = documentService_GetVersions s\<rparr>"

end
