(* ===== verification/Dc_Http.thy ===== *)
theory Dc_Http
  imports Dc_Service Http
begin

text \<open>
  document-service: the HTTP layer of \<open>internal/adapters/http\<close>: the handlers, the middleware and the
  router. Responses carry domain values.
\<close>

section \<open>Requests\<close>

text \<open>
  What \<open>mime/multipart\<close> makes of a body: the parts in their order. \<open>pt_filename\<close> is the parameter of
  the disposition (a part with a file name is a file, and \<open>FileName\<close> keeps its last element only),
  \<open>pt_Content\<close> what reading the part gives. \<open>rq_Multipart\<close> is \<open>None\<close> for a body that is no well-formed form,
  otherwise the number of bytes the parser reads and the parts; \<open>rq_FormValues\<close> are the values of
  the query.
\<close>

record part =
  pt_name :: string
  pt_filename :: string
  pt_ContentType :: string
  pt_Content :: "string option"

record dc_request = request +
  rq_Multipart :: "(nat \<times> part list) option"
  rq_FormValues :: "string \<Rightarrow> string list"

definition form_values :: "part list \<Rightarrow> string \<Rightarrow> string list" where
  "form_values parts key =
     map (\<lambda>p. case pt_Content p of None \<Rightarrow> '''' | Some v \<Rightarrow> v) (filter (\<lambda>p. pt_name p = key \<and> pt_filename p = '''') parts)"

definition form_file :: "part list \<Rightarrow> string \<Rightarrow> part option" where
  "form_file parts key = find (\<lambda>p. pt_name p = key \<and> pt_filename p \<noteq> '''') parts"

datatype dc_payload =
    D_error string
  | D_status string
  | D_form FormTemplate
  | D_forms "FormTemplate list" int int int
  | D_submission FormSubmission
  | D_submissions "FormSubmission list" int int int
  | D_document Document
  | D_documents "Document list" int int int
  | D_versions "DocumentVersion list"
  | D_empty

type_synonym 'w dc_handler = "(dc_request, 'w, dc_payload) handler"

record 'w dc_Handler =
  dh_formService :: "'w FormService"
  dh_documentService :: "'w DocumentService"

definition maxUploadSize :: nat where "maxUploadSize = 50 * 1024 * 1024"

definition StatusRequestEntityTooLarge :: nat where "StatusRequestEntityTooLarge = 413"
definition StatusUnsupportedMediaType :: nat where "StatusUnsupportedMediaType = 415"

definition dc_writeError :: "nat \<Rightarrow> string \<Rightarrow> dc_payload response" where
  "dc_writeError status msg = json_response status (D_error msg)"

definition getPagination :: "'r request_scheme \<Rightarrow> int \<times> int" where
  "getPagination r =
     (let page = fst (strconv_Atoi (rq_Query r ''page''));
          limit = fst (strconv_Atoi (rq_Query r ''limit''))
      in (if page < 1 then 1 else page, if limit < 1 \<or> limit > 100 then 20 else limit))"

definition getTenantID :: "'r request_scheme \<Rightarrow> string" where
  "getTenantID r = (let t = rq_Header r ''X-Tenant-ID'' in if t = '''' then ''default'' else t)"

definition getUserID :: "'r request_scheme \<Rightarrow> string" where
  "getUserID r = (let u = rq_Header r ''X-User-ID'' in if u = '''' then ''anonymous'' else u)"

section \<open>Answers\<close>

text \<open>The errors a handler names, with their status and text; every other one is a 500 with its own text.\<close>

fun dc_fail :: "(goerr \<times> nat \<times> string option) list \<Rightarrow> goerr \<Rightarrow> dc_payload response" where
  "dc_fail [] err = dc_writeError StatusInternalServerError (err_Error err)"
| "dc_fail ((e, status, msg) # ks) err =
     (if errors_Is err e then dc_writeError status (case msg of None \<Rightarrow> err_Error err | Some m \<Rightarrow> m)
      else dc_fail ks err)"

fun dc_reply :: "(goerr \<times> nat \<times> string option) list \<Rightarrow> nat \<Rightarrow> ('a \<Rightarrow> dc_payload) \<Rightarrow> (goerr + 'a) \<times> 'w \<Rightarrow>
    dc_payload response \<times> 'w" where
  "dc_reply ks status payload (Inl err, w) = (dc_fail ks err, w)"
| "dc_reply ks status payload (Inr x, w) = (json_response status (payload x), w)"

fun dc_done :: "(goerr \<times> nat \<times> string option) list \<Rightarrow> string \<Rightarrow> goerr option \<times> 'w \<Rightarrow> dc_payload response \<times> 'w" where
  "dc_done ks message (Some err, w) = (dc_fail ks err, w)"
| "dc_done ks message (None, w) = (json_response StatusOK (D_status message), w)"

definition form_missing :: "(goerr \<times> nat \<times> string option) list" where
  "form_missing = [(ErrFormNotFound, StatusNotFound, Some ''form template not found'')]"

definition document_missing :: "(goerr \<times> nat \<times> string option) list" where
  "document_missing = [(ErrDocumentNotFound, StatusNotFound, Some ''document not found'')]"

definition dc_bad_body :: "dc_payload response" where
  "dc_bad_body = dc_writeError StatusBadRequest ''invalid request body''"

definition dc_Handler_HealthCheck :: "'w dc_handler" where
  "dc_Handler_HealthCheck r w = (json_response StatusOK (D_status ''ok''), w)"

section \<open>Decoding\<close>

definition zero_validation :: FieldValidation where
  "zero_validation = \<lparr>fv_MinLength = None, fv_MaxLength = None, fv_Min = None, fv_Max = None, fv_Pattern = ''''\<rparr>"

definition zero_field :: FormField where
  "zero_field = \<lparr>ff_Name = '''', ff_Type = '''', ff_Label = '''', ff_Required = False, ff_Placeholder = '''',
     ff_Options = None, ff_Validation = zero_validation\<rparr>"

definition set_validation :: "(string \<Rightarrow> string option) \<Rightarrow> json \<Rightarrow> FieldValidation \<Rightarrow> FieldValidation option" where
  "set_validation fl v old =
     Option.bind (members v) (\<lambda>kvs.
     Option.bind (field ''min_length'' set_int_ptr kvs (fv_MinLength old)) (\<lambda>minLength.
     Option.bind (field ''max_length'' set_int_ptr kvs (fv_MaxLength old)) (\<lambda>maxLength.
     Option.bind (field ''min'' (set_float_ptr fl) kvs (fv_Min old)) (\<lambda>mn.
     Option.bind (field ''max'' (set_float_ptr fl) kvs (fv_Max old)) (\<lambda>mx.
     Option.bind (field ''pattern'' set_string kvs (fv_Pattern old)) (\<lambda>pattern.
       Some \<lparr>fv_MinLength = minLength, fv_MaxLength = maxLength, fv_Min = mn, fv_Max = mx, fv_Pattern = pattern\<rparr>))))))"

definition set_field :: "(string \<Rightarrow> string option) \<Rightarrow> json \<Rightarrow> FormField \<Rightarrow> FormField option" where
  "set_field fl v old =
     Option.bind (members v) (\<lambda>kvs.
     Option.bind (field ''name'' set_string kvs (ff_Name old)) (\<lambda>name.
     Option.bind (field ''type'' set_string kvs (ff_Type old)) (\<lambda>ty.
     Option.bind (field ''label'' set_string kvs (ff_Label old)) (\<lambda>label.
     Option.bind (field ''required'' set_bool kvs (ff_Required old)) (\<lambda>required.
     Option.bind (field ''placeholder'' set_string kvs (ff_Placeholder old)) (\<lambda>placeholder.
     Option.bind (field ''options'' (set_slice set_string '''') kvs (ff_Options old)) (\<lambda>opts.
     Option.bind (field ''validation'' (set_validation fl) kvs (ff_Validation old)) (\<lambda>validation.
       Some \<lparr>ff_Name = name, ff_Type = ty, ff_Label = label, ff_Required = required, ff_Placeholder = placeholder,
             ff_Options = opts, ff_Validation = validation\<rparr>))))))))"

definition decode_CreateForm :: "(string \<Rightarrow> string option) \<Rightarrow> string \<Rightarrow> CreateFormRequest option" where
  "decode_CreateForm fl body =
     Option.bind (body_members body) (\<lambda>kvs.
     Option.bind (field ''Name'' set_string kvs '''') (\<lambda>name.
     Option.bind (field ''Description'' set_string kvs '''') (\<lambda>description.
     Option.bind (field ''Fields'' (set_slice (set_field fl) zero_field) kvs None) (\<lambda>fs.
       Some \<lparr>cfr_Name = name, cfr_Description = description, cfr_Fields = fs\<rparr>))))"

definition decode_UpdateForm :: "(string \<Rightarrow> string option) \<Rightarrow> string \<Rightarrow> UpdateFormRequest option" where
  "decode_UpdateForm fl body =
     Option.bind (body_members body) (\<lambda>kvs.
     Option.bind (field ''Name'' set_string_ptr kvs None) (\<lambda>name.
     Option.bind (field ''Description'' set_string_ptr kvs None) (\<lambda>description.
     Option.bind (field ''Fields'' (set_slice (set_field fl) zero_field) kvs None) (\<lambda>fs.
       Some \<lparr>ufr_Name = name, ufr_Description = description, ufr_Fields = fs\<rparr>))))"

definition decode_SubmitForm :: "(string \<Rightarrow> string option) \<Rightarrow> string \<Rightarrow> SubmitFormRequest option" where
  "decode_SubmitForm fl body =
     Option.bind (body_members body) (\<lambda>kvs.
     Option.bind (field ''FormID'' set_string kvs '''') (\<lambda>formID.
     Option.bind (field ''Data'' (set_map (any_json fl)) kvs None) (\<lambda>data.
       Some \<lparr>sfr_FormID = formID, sfr_Data = data\<rparr>)))"

section \<open>Forms\<close>

text \<open>
  \<open>fl\<close> gives the text with which the runtime writes the \<open>float64\<close> nearest to a number literal, nothing
  for a literal out of range.
\<close>

definition Handler_CreateFormTemplate :: "(string \<Rightarrow> string option) \<Rightarrow> 'w dc_Handler \<Rightarrow> 'w dc_handler" where
  "Handler_CreateFormTemplate fl h r w =
     (case decode_CreateForm fl (rq_Body r) of
        None \<Rightarrow> (dc_bad_body, w)
      | Some req \<Rightarrow>
         dc_reply [] StatusCreated D_form (fsv_CreateTemplate (dh_formService h) (getTenantID r) (getUserID r) req w))"

definition Handler_GetFormTemplate :: "'w dc_Handler \<Rightarrow> 'w dc_handler" where
  "Handler_GetFormTemplate h r w =
     dc_reply form_missing StatusOK D_form (fsv_GetTemplate (dh_formService h) (rq_URLParam r ''id'') w)"

definition Handler_UpdateFormTemplate :: "(string \<Rightarrow> string option) \<Rightarrow> 'w dc_Handler \<Rightarrow> 'w dc_handler" where
  "Handler_UpdateFormTemplate fl h r w =
     (case decode_UpdateForm fl (rq_Body r) of
        None \<Rightarrow> (dc_bad_body, w)
      | Some req \<Rightarrow>
         dc_reply form_missing StatusOK D_form (fsv_UpdateTemplate (dh_formService h) (rq_URLParam r ''id'') req w))"

definition Handler_PublishFormTemplate :: "'w dc_Handler \<Rightarrow> 'w dc_handler" where
  "Handler_PublishFormTemplate h r w =
     dc_done form_missing ''published'' (fsv_PublishTemplate (dh_formService h) (rq_URLParam r ''id'') w)"

definition Handler_ArchiveFormTemplate :: "'w dc_Handler \<Rightarrow> 'w dc_handler" where
  "Handler_ArchiveFormTemplate h r w =
     dc_done form_missing ''archived'' (fsv_ArchiveTemplate (dh_formService h) (rq_URLParam r ''id'') w)"

definition Handler_ListFormTemplates :: "'w dc_Handler \<Rightarrow> 'w dc_handler" where
  "Handler_ListFormTemplates h r w =
     (let (page, limit) = getPagination r in
      dc_reply [] StatusOK (\<lambda>(forms, cnt). D_forms forms cnt page limit)
        (fsv_ListTemplates (dh_formService h) (getTenantID r) page limit w))"

definition Handler_SubmitForm :: "(string \<Rightarrow> string option) \<Rightarrow> 'w dc_Handler \<Rightarrow> 'w dc_handler" where
  "Handler_SubmitForm fl h r w =
     (case decode_SubmitForm fl (rq_Body r) of
        None \<Rightarrow> (dc_bad_body, w)
      | Some req \<Rightarrow>
         dc_reply (form_missing @ [(ErrInvalidFormData, StatusBadRequest, None)]) StatusCreated D_submission
           (fsv_SubmitForm (dh_formService h) (getTenantID r) (getUserID r) req w))"

definition Handler_GetSubmission :: "'w dc_Handler \<Rightarrow> 'w dc_handler" where
  "Handler_GetSubmission h r w =
     dc_reply [(ErrSubmissionNotFound, StatusNotFound, Some ''submission not found'')] StatusOK D_submission
       (fsv_GetSubmission (dh_formService h) (rq_URLParam r ''id'') w)"

definition Handler_ListSubmissions :: "'w dc_Handler \<Rightarrow> 'w dc_handler" where
  "Handler_ListSubmissions h r w =
     (let (page, limit) = getPagination r in
      dc_reply [] StatusOK (\<lambda>(subs, cnt). D_submissions subs cnt page limit)
        (fsv_ListSubmissions (dh_formService h) (getTenantID r) page limit w))"

section \<open>Documents\<close>

definition upload_of :: "part \<Rightarrow> string \<Rightarrow> string \<Rightarrow> UploadRequest" where
  "upload_of file content cid =
     \<lparr>upl_Filename = filepath_Base (pt_filename file),
      upl_MimeType = (if pt_ContentType file = '''' then ''application/octet-stream'' else pt_ContentType file),
      upl_SizeBytes = int (length content), upl_Content = content,
      upl_CaseID = (if cid = '''' then None else Some cid)\<rparr>"

definition Handler_UploadDocument :: "'w dc_Handler \<Rightarrow> 'w dc_handler" where
  "Handler_UploadDocument h r w =
     (case rq_Multipart r of
        None \<Rightarrow> (dc_writeError StatusBadRequest ''file too large or invalid form'', w)
      | Some (bytes, parts) \<Rightarrow>
         if bytes > maxUploadSize then (dc_writeError StatusBadRequest ''file too large or invalid form'', w)
         else (case form_file parts ''file'' of
             None \<Rightarrow> (dc_writeError StatusBadRequest ''file is required'', w)
           | Some file \<Rightarrow>
              (case pt_Content file of
                 None \<Rightarrow> (dc_writeError StatusInternalServerError ''failed to read file'', w)
               | Some content \<Rightarrow>
                  (let cid = (case rq_FormValues r ''case_id'' @ form_values parts ''case_id'' of [] \<Rightarrow> '''' | v # _ \<Rightarrow> v)
                   in dc_reply [(ErrFileTooLarge, StatusRequestEntityTooLarge, None),
                                (ErrUnsupportedFileType, StatusUnsupportedMediaType, None)] StatusCreated D_document
                        (dsv_UploadDocument (dh_documentService h) (getTenantID r) (getUserID r)
                           (upload_of file content cid) w)))))"

definition Handler_GetDocument :: "'w dc_Handler \<Rightarrow> 'w dc_handler" where
  "Handler_GetDocument h r w =
     dc_reply document_missing StatusOK D_document (dsv_GetDocument (dh_documentService h) (rq_URLParam r ''id'') w)"

definition Handler_DeleteDocument :: "'w dc_Handler \<Rightarrow> 'w dc_handler" where
  "Handler_DeleteDocument h r w =
     dc_done document_missing ''deleted'' (dsv_DeleteDocument (dh_documentService h) (rq_URLParam r ''id'') w)"

definition Handler_ListDocuments :: "'w dc_Handler \<Rightarrow> 'w dc_handler" where
  "Handler_ListDocuments h r w =
     (let (page, limit) = getPagination r in
      dc_reply [] StatusOK (\<lambda>(docs, cnt). D_documents docs cnt page limit)
        (dsv_ListDocuments (dh_documentService h) (getTenantID r) page limit w))"

definition Handler_GetDocumentVersions :: "'w dc_Handler \<Rightarrow> 'w dc_handler" where
  "Handler_GetDocumentVersions h r w =
     dc_reply [] StatusOK D_versions (dsv_GetVersions (dh_documentService h) (rq_URLParam r ''id'') w)"

section \<open>Middleware and router\<close>

definition dc_LoggingMiddleware :: "'a env_scheme dc_handler \<Rightarrow> 'a env_scheme dc_handler" where
  "dc_LoggingMiddleware next r w =
     (let (start, w1) = time_Now w; (resp, w2) = next r w1; (stop, w3) = time_Now w2 in (resp, w3))"

definition dc_CORSMiddleware :: "'w dc_handler \<Rightarrow> 'w dc_handler" where
  "dc_CORSMiddleware next r w =
     (let (resp, w1) =
        (if rq_Method r = ''OPTIONS''
         then (\<lparr>rs_status = StatusNoContent, rs_header = [], rs_body = D_empty\<rparr>, w)
         else next r w)
      in (add_header ''Access-Control-Allow-Origin'' ''*''
           (add_header ''Access-Control-Allow-Methods'' ''GET, POST, PUT, PATCH, DELETE, OPTIONS''
             (add_header ''Access-Control-Allow-Headers''
               ''Content-Type, Authorization, X-Tenant-ID, X-User-ID, x-api-key'' resp)), w1))"

text \<open>What chi makes of a request: a pattern under \<open>/api/v1\<close>, the health route, or no route.\<close>

datatype dc_match =
    D_Matched string "string \<Rightarrow> string"
  | D_Health
  | D_None nat

definition dc_endpoint :: "(string \<Rightarrow> string option) \<Rightarrow> 'w dc_Handler \<Rightarrow> string \<Rightarrow> string \<Rightarrow> 'w dc_handler" where
  "dc_endpoint fl h meth pat r w =
     (if (meth, pat) = (''GET'', ''/forms/'') then Handler_ListFormTemplates h r w
      else if (meth, pat) = (''POST'', ''/forms/'') then Handler_CreateFormTemplate fl h r w
      else if (meth, pat) = (''GET'', ''/forms/{id}'') then Handler_GetFormTemplate h r w
      else if (meth, pat) = (''PUT'', ''/forms/{id}'') then Handler_UpdateFormTemplate fl h r w
      else if (meth, pat) = (''POST'', ''/forms/{id}/publish'') then Handler_PublishFormTemplate h r w
      else if (meth, pat) = (''POST'', ''/forms/{id}/archive'') then Handler_ArchiveFormTemplate h r w
      else if (meth, pat) = (''GET'', ''/submissions/'') then Handler_ListSubmissions h r w
      else if (meth, pat) = (''POST'', ''/submissions/'') then Handler_SubmitForm fl h r w
      else if (meth, pat) = (''GET'', ''/submissions/{id}'') then Handler_GetSubmission h r w
      else if (meth, pat) = (''GET'', ''/documents/'') then Handler_ListDocuments h r w
      else if (meth, pat) = (''POST'', ''/documents/upload'') then Handler_UploadDocument h r w
      else if (meth, pat) = (''GET'', ''/documents/{id}'') then Handler_GetDocument h r w
      else if (meth, pat) = (''DELETE'', ''/documents/{id}'') then Handler_DeleteDocument h r w
      else if (meth, pat) = (''GET'', ''/documents/{id}/versions'') then Handler_GetDocumentVersions h r w
      else (json_response StatusNotFound D_empty, w))"

definition dc_NewRouter ::
  "(dc_request \<Rightarrow> dc_match) \<Rightarrow> (string \<Rightarrow> string option) \<Rightarrow> 'a env_scheme dc_Handler \<Rightarrow> 'a env_scheme dc_handler" where
  "dc_NewRouter mux fl h =
     dc_CORSMiddleware (dc_LoggingMiddleware (\<lambda>r w.
       case mux r of
         D_Matched pat params \<Rightarrow> dc_endpoint fl h (rq_Method r) pat (r\<lparr>rq_URLParam := params\<rparr>) w
       | D_Health \<Rightarrow> dc_Handler_HealthCheck r w
       | D_None status \<Rightarrow> (json_response status D_empty, w)))"

end
