(* ===== verification/Dc_Laws.thy ===== *)
theory Dc_Laws
  imports Dc_Repo Dc_Http
begin

text \<open>
  document-service: the contract of the database, an executable database that satisfies it, the wiring
  of \<open>cmd/server/main.go\<close>, and the rule that an invariant kept by every operation of the services is
  kept by every sequence of requests.
\<close>

section \<open>The database\<close>

text \<open>
  The stored form of a document: times are rounded to milliseconds, and a list of options without
  elements is left out and comes back as nil.
\<close>

definition plain_options :: "FormField \<Rightarrow> FormField" where
  "plain_options f = (if ff_Options f = Some [] then f\<lparr>ff_Options := None\<rparr> else f)"

definition form_stored :: "FormTemplate \<Rightarrow> FormTemplate \<Rightarrow> bool" where
  "form_stored m m' \<longleftrightarrow>
     m'\<lparr>ft_CreatedAt := ft_CreatedAt m, ft_UpdatedAt := ft_UpdatedAt m, ft_Fields := ft_Fields m\<rparr> = m \<and>
     map_option (map plain_options) (ft_Fields m') = map_option (map plain_options) (ft_Fields m)"

definition submission_stored :: "FormSubmission \<Rightarrow> FormSubmission \<Rightarrow> bool" where
  "submission_stored m m' \<longleftrightarrow> m'\<lparr>fs_CreatedAt := fs_CreatedAt m, fs_UpdatedAt := fs_UpdatedAt m\<rparr> = m"

definition document_stored :: "Document \<Rightarrow> Document \<Rightarrow> bool" where
  "document_stored m m' \<longleftrightarrow> m'\<lparr>do_CreatedAt := do_CreatedAt m, do_UpdatedAt := do_UpdatedAt m\<rparr> = m"

definition version_stored :: "DocumentVersion \<Rightarrow> DocumentVersion \<Rightarrow> bool" where
  "version_stored m m' \<longleftrightarrow> m'\<lparr>dv_CreatedAt := dv_CreatedAt m\<rparr> = m"

lemma form_storedD: "form_stored m m' \<Longrightarrow> ft_ID m' = ft_ID m \<and> ft_TenantID m' = ft_TenantID m \<and>
    ft_Name m' = ft_Name m \<and> ft_Description m' = ft_Description m \<and> ft_Version m' = ft_Version m \<and>
    ft_Status m' = ft_Status m \<and> ft_CreatedBy m' = ft_CreatedBy m"
  by (cases m; cases m') (simp add: form_stored_def)

lemma submission_storedD: "submission_stored m m' \<Longrightarrow> fs_ID m' = fs_ID m \<and> fs_FormID m' = fs_FormID m \<and>
    fs_TenantID m' = fs_TenantID m \<and> fs_SubmittedBy m' = fs_SubmittedBy m \<and> fs_Data m' = fs_Data m \<and>
    fs_Status m' = fs_Status m"
  by (cases m; cases m') (simp add: submission_stored_def)

lemma document_storedD: "document_stored m m' \<Longrightarrow> do_ID m' = do_ID m \<and> do_TenantID m' = do_TenantID m \<and>
    do_Filename m' = do_Filename m \<and> do_MimeType m' = do_MimeType m \<and> do_SizeBytes m' = do_SizeBytes m \<and>
    do_StorageKey m' = do_StorageKey m \<and> do_UploadedBy m' = do_UploadedBy m \<and> do_VersionCount m' = do_VersionCount m \<and>
    do_CurrentVersion m' = do_CurrentVersion m"
  by (cases m; cases m') (simp add: document_stored_def)

lemma version_storedD: "version_stored m m' \<Longrightarrow> dv_ID m' = dv_ID m \<and> dv_DocumentID m' = dv_DocumentID m \<and>
    dv_Version m' = dv_Version m \<and> dv_StorageKey m' = dv_StorageKey m"
  by (cases m; cases m') (simp add: version_stored_def)

lemma dc_stored_refl [simp]: "form_stored f f" "submission_stored s s" "document_stored d d" "version_stored v v"
  by (simp_all add: form_stored_def submission_stored_def document_stored_def version_stored_def)

locale dc_db_laws =
  fixes db :: dc_db
  assumes forms_laws: "mongo_laws (ddb_forms db) form_stored"
    and submissions_laws: "mongo_laws (ddb_submissions db) submission_stored"
    and documents_laws: "mongo_laws (ddb_documents db) document_stored"
    and versions_laws: "mongo_laws (ddb_versions db) version_stored"

sublocale dc_db_laws \<subseteq> forms_c: mongo_laws "ddb_forms db" form_stored
  by (rule forms_laws)

sublocale dc_db_laws \<subseteq> submissions_c: mongo_laws "ddb_submissions db" submission_stored
  by (rule submissions_laws)

sublocale dc_db_laws \<subseteq> documents_c: mongo_laws "ddb_documents db" document_stored
  by (rule documents_laws)

sublocale dc_db_laws \<subseteq> versions_c: mongo_laws "ddb_versions db" version_stored
  by (rule versions_laws)

definition mem_dc_db :: dc_db where
  "mem_dc_db = \<lparr>ddb_forms = mem_col, ddb_submissions = mem_col, ddb_documents = mem_col, ddb_versions = mem_col\<rparr>"

interpretation mem_dc: dc_db_laws mem_dc_db
  by (rule dc_db_laws.intro) (simp_all add: mem_dc_db_def mem_col_laws)

section \<open>Wiring\<close>

definition dc_main :: "dc_db \<Rightarrow> os_calls \<Rightarrow> string \<Rightarrow> dc_world dc_Handler" where
  "dc_main db os uploadDir =
     \<lparr>dh_formService = NewFormService (formTemplateRepository db) (formSubmissionRepository db),
      dh_documentService = NewDocumentService
        \<lparr>dci_docRepo = documentRepository db, dci_uploadDir = uploadDir, dci_os = os, dci_get = dw_files,
         dci_put = (\<lambda>f w. w\<lparr>dw_files := f\<rparr>)\<rparr>\<rparr>"

section \<open>Runs\<close>

inductive dc_reach :: "(string \<Rightarrow> string option) \<Rightarrow> 'a env_scheme dc_Handler \<Rightarrow> 'a env_scheme \<Rightarrow> 'a env_scheme \<Rightarrow> bool"
  for fl :: "string \<Rightarrow> string option" and h :: "'a env_scheme dc_Handler" and w :: "'a env_scheme" where
  start: "dc_reach fl h w w"
| request: "dc_reach fl h w w1 \<Longrightarrow> dc_reach fl h w (snd (dc_NewRouter mux fl h r w1))"

text \<open>\<open>dc_kept\<close>: an invariant kept by every operation the handlers call.\<close>

locale dc_kept =
  fixes h :: "'a env_scheme dc_Handler" and I :: "'a env_scheme \<Rightarrow> bool"
  assumes now: "I w \<Longrightarrow> I (w\<lparr>env_clock := k\<rparr>)"
    and CreateTemplate: "I w \<Longrightarrow> I (snd (fsv_CreateTemplate (dh_formService h) t u creq w))"
    and GetTemplate: "I w \<Longrightarrow> I (snd (fsv_GetTemplate (dh_formService h) i w))"
    and UpdateTemplate: "I w \<Longrightarrow> I (snd (fsv_UpdateTemplate (dh_formService h) i ureq w))"
    and PublishTemplate: "I w \<Longrightarrow> I (snd (fsv_PublishTemplate (dh_formService h) i w))"
    and ArchiveTemplate: "I w \<Longrightarrow> I (snd (fsv_ArchiveTemplate (dh_formService h) i w))"
    and ListTemplates: "I w \<Longrightarrow> I (snd (fsv_ListTemplates (dh_formService h) t pg l w))"
    and SubmitForm: "I w \<Longrightarrow> I (snd (fsv_SubmitForm (dh_formService h) t u sreq w))"
    and GetSubmission: "I w \<Longrightarrow> I (snd (fsv_GetSubmission (dh_formService h) i w))"
    and ListSubmissions: "I w \<Longrightarrow> I (snd (fsv_ListSubmissions (dh_formService h) t pg l w))"
    and UploadDocument: "I w \<Longrightarrow> I (snd (dsv_UploadDocument (dh_documentService h) t u
      (upload_of p content cid) w))"
    and GetDocument: "I w \<Longrightarrow> I (snd (dsv_GetDocument (dh_documentService h) i w))"
    and DeleteDocument: "I w \<Longrightarrow> I (snd (dsv_DeleteDocument (dh_documentService h) i w))"
    and ListDocuments: "I w \<Longrightarrow> I (snd (dsv_ListDocuments (dh_documentService h) t pg l w))"
    and GetVersions: "I w \<Longrightarrow> I (snd (dsv_GetVersions (dh_documentService h) i w))"
begin

lemmas ops = CreateTemplate GetTemplate UpdateTemplate PublishTemplate ArchiveTemplate ListTemplates SubmitForm
  GetSubmission ListSubmissions UploadDocument GetDocument DeleteDocument ListDocuments GetVersions

definition serves :: "'a env_scheme dc_handler \<Rightarrow> bool" where
  "serves f \<longleftrightarrow> (\<forall>r w. I w \<longrightarrow> I (snd (f r w)))"

lemma servesD: "serves f \<Longrightarrow> I w \<Longrightarrow> I (snd (f r w))"
  by (simp add: serves_def)

lemma answers [simp]: "snd (dc_reply ks st f x) = snd x" "snd (dc_done ks msg y) = snd y"
  by (cases x; cases "fst x"; simp) (cases y; cases "fst y"; simp)

lemma dc_handlers:
  "serves (Handler_CreateFormTemplate fl h)" "serves (Handler_GetFormTemplate h)" "serves (Handler_UpdateFormTemplate fl h)"
  "serves (Handler_PublishFormTemplate h)" "serves (Handler_ArchiveFormTemplate h)" "serves (Handler_ListFormTemplates h)"
  "serves (Handler_SubmitForm fl h)" "serves (Handler_GetSubmission h)" "serves (Handler_ListSubmissions h)"
  "serves (Handler_UploadDocument h)" "serves (Handler_GetDocument h)" "serves (Handler_DeleteDocument h)"
  "serves (Handler_ListDocuments h)" "serves (Handler_GetDocumentVersions h)"
  unfolding serves_def
  by (simp_all add: Handler_CreateFormTemplate_def Handler_GetFormTemplate_def Handler_UpdateFormTemplate_def
      Handler_PublishFormTemplate_def Handler_ArchiveFormTemplate_def Handler_ListFormTemplates_def Handler_SubmitForm_def
      Handler_GetSubmission_def Handler_ListSubmissions_def Handler_UploadDocument_def Handler_GetDocument_def
      Handler_DeleteDocument_def Handler_ListDocuments_def Handler_GetDocumentVersions_def Let_def ops
      split: option.split prod.split)

lemma router: "I w \<Longrightarrow> I (snd (dc_NewRouter mux fl h r w))"
proof -
  assume w: "I w"
  have "serves (dc_endpoint fl h m pat)" for m pat
    using dc_handlers unfolding serves_def dc_endpoint_def by simp
  then have inner: "serves (\<lambda>r w. case mux r of
         D_Matched pat params \<Rightarrow> dc_endpoint fl h (rq_Method r) pat (r\<lparr>rq_URLParam := params\<rparr>) w
       | D_Health \<Rightarrow> dc_Handler_HealthCheck r w
       | D_None status \<Rightarrow> (json_response status D_empty, w))"
    unfolding serves_def by (simp add: dc_Handler_HealthCheck_def split: dc_match.split)
  have log: "serves (dc_LoggingMiddleware f)" if "serves f" for f
    using servesD [OF that] unfolding serves_def dc_LoggingMiddleware_def time_Now_def
    by (auto simp: Let_def split_beta intro!: now)
  have "serves (dc_CORSMiddleware f)" if "serves f" for f
    using servesD [OF that] unfolding serves_def dc_CORSMiddleware_def by (auto simp: Let_def split_beta)
  with log inner have "serves (dc_NewRouter mux fl h)" unfolding dc_NewRouter_def by blast
  then show ?thesis using w by (rule servesD)
qed

lemma dc_reach_kept: "dc_reach fl h w w' \<Longrightarrow> I w \<Longrightarrow> I w'"
  by (induction rule: dc_reach.induct) (auto intro: router)

end

end
