(* ===== verification/Dc_Inv.thy ===== *)
theory Dc_Inv
  imports Dc_Laws
begin

text \<open>
  document-service: the invariant of the stored data, what every operation leaves of it, and the proof
  that sequences of requests keep it (locale \<open>dc_kept\<close> of theory Dc_Laws). The collections have no
  unique index: identifiers stay distinct because the generated ones are.
\<close>

section \<open>The invariant\<close>

abbreviation form_rows :: "dc_world \<Rightarrow> FormTemplate list" where "form_rows w \<equiv> rows (dw_forms w)"
abbreviation submission_rows :: "dc_world \<Rightarrow> FormSubmission list" where "submission_rows w \<equiv> rows (dw_submissions w)"
abbreviation document_rows :: "dc_world \<Rightarrow> Document list" where "document_rows w \<equiv> rows (dw_documents w)"
abbreviation version_rows :: "dc_world \<Rightarrow> DocumentVersion list" where "version_rows w \<equiv> rows (dw_versions w)"
abbreviation "dc_rows w \<equiv> (form_rows w, submission_rows w, document_rows w, version_rows w)"
abbreviation "dc_data w \<equiv> (dc_rows w, env_uuids w)"

definition used_ids :: "dc_world \<Rightarrow> string set" where
  "used_ids w = ft_ID ` set (form_rows w) \<union> fs_ID ` set (submission_rows w) \<union> do_ID ` set (document_rows w) \<union>
     dv_DocumentID ` set (version_rows w)"

definition form_ok :: "FormTemplate \<Rightarrow> bool" where
  "form_ok m \<longleftrightarrow> ft_Status m \<in> {FormStatusDraft, FormStatusPublished, FormStatusArchived}"

definition submission_ok :: "FormTemplate list \<Rightarrow> FormSubmission \<Rightarrow> bool" where
  "submission_ok forms s \<longleftrightarrow> fs_Status s = SubmissionStatusSubmitted \<and> fs_FormID s \<in> ft_ID ` set forms"

definition document_ok :: "Document \<Rightarrow> bool" where
  "document_ok d \<longleftrightarrow> do_MimeType d \<in> set allowedMimeTypes \<and> 0 \<le> do_SizeBytes d \<and> do_SizeBytes d \<le> maxFileSizeBytes \<and>
     do_StorageKey d = storage_key (do_TenantID d) (do_ID d) (do_Filename d) \<and> do_CurrentVersion d = 1"

text \<open>The recorded number of versions is one, and one more once the version has been recorded.\<close>

definition versions_of :: "DocumentVersion list \<Rightarrow> string \<Rightarrow> DocumentVersion list" where
  "versions_of vs ident = filter (\<lambda>v. dv_DocumentID v = ident) vs"

definition counted :: "DocumentVersion list \<Rightarrow> Document \<Rightarrow> bool" where
  "counted vs d \<longleftrightarrow> 1 \<le> do_VersionCount d \<and> do_VersionCount d \<le> 1 + int (length (versions_of vs (do_ID d)))"

definition dc_inv :: "dc_world \<Rightarrow> bool" where
  "dc_inv w \<longleftrightarrow> fresh_ids (env_uuids w) (used_ids w) \<and>
     distinct (map ft_ID (form_rows w)) \<and> distinct (map fs_ID (submission_rows w)) \<and>
     distinct (map do_ID (document_rows w)) \<and> distinct (map dv_DocumentID (version_rows w)) \<and>
     list_all form_ok (form_rows w) \<and> list_all (submission_ok (form_rows w)) (submission_rows w) \<and>
     list_all document_ok (document_rows w) \<and> list_all (counted (version_rows w)) (document_rows w)"

text \<open>What a sequence of requests leaves of the forms and submissions it started with.\<close>

definition form_kept :: "FormTemplate \<Rightarrow> FormTemplate \<Rightarrow> bool" where
  "form_kept x y \<longleftrightarrow> ft_ID y = ft_ID x \<and> ft_TenantID y = ft_TenantID x \<and> ft_CreatedBy y = ft_CreatedBy x \<and>
     (ft_Status y = FormStatusDraft \<longrightarrow> ft_Status x = FormStatusDraft)"

definition dc_grown :: "dc_world \<Rightarrow> dc_world \<Rightarrow> bool" where
  "dc_grown w w' \<longleftrightarrow> set (submission_rows w) \<subseteq> set (submission_rows w') \<and>
     (\<forall>x\<in>set (form_rows w). \<exists>y\<in>set (form_rows w'). form_kept x y)"

definition dc_step :: "dc_world \<Rightarrow> dc_world \<Rightarrow> bool" where
  "dc_step w w' \<longleftrightarrow> (dc_inv w \<longrightarrow> dc_inv w' \<and> dc_grown w w')"

lemma form_kept_refl [simp]: "form_kept x x"
  by (simp add: form_kept_def)

lemma form_kept_in: "x \<in> S \<Longrightarrow> \<exists>y\<in>S. form_kept x y"
  using form_kept_refl by blast

lemma form_kept_trans: "form_kept x y \<Longrightarrow> form_kept y z \<Longrightarrow> form_kept x z"
  by (simp add: form_kept_def)

lemma dc_grown_refl [simp]: "dc_grown w w"
  by (auto simp: dc_grown_def form_kept_in)

lemma dc_grown_trans: "dc_grown u v \<Longrightarrow> dc_grown v w \<Longrightarrow> dc_grown u w"
  unfolding dc_grown_def by (meson form_kept_trans order_trans)

lemma dc_step_trans [trans]: "dc_step u v \<Longrightarrow> dc_step v w \<Longrightarrow> dc_step u w"
  unfolding dc_step_def by (blast intro: dc_grown_trans)

lemma dc_step_same: "dc_data w' = dc_data w \<Longrightarrow> dc_step w w'"
  by (simp add: dc_step_def dc_inv_def dc_grown_def used_ids_def form_kept_in)

section \<open>Fresh identifiers\<close>

lemma inv_shd: "dc_inv w \<Longrightarrow> shd (env_uuids w) \<notin> used_ids w"
  by (simp add: dc_inv_def fresh_shd)

lemma step_uuid: "dc_step w (snd (uuid_NewString w))"
  by (auto simp: dc_step_def dc_inv_def uuid_NewString_def used_ids_def dc_grown_def
      intro: fresh_mono [OF fresh_stl] form_kept_in)

section \<open>Collections\<close>

text \<open>What an insertion and a change of one document do to lists with distinct keys.\<close>

lemma one_updated_cases:
  assumes "one_updated eqv P f t t' \<or> rows t' = rows t"
  obtains (upd) xs x y ys where "rows t = xs @ x # ys" "rows t' = xs @ y # ys" "P x" "eqv (f x) y"
  | (same) "rows t' = rows t"
  using assms by (auto simp: one_updated_def)

lemma one_deleted_set: "one_deleted P t t' \<or> rows t' = rows t \<Longrightarrow> set (rows t') \<subseteq> set (rows t)"
  by (auto simp: one_deleted_def)

lemma one_deleted_distinct: "one_deleted P t t' \<or> rows t' = rows t \<Longrightarrow> distinct (map k (rows t)) \<Longrightarrow> distinct (map k (rows t'))"
  by (auto simp: one_deleted_def)

text \<open>Steps, by what they change.\<close>

lemma step_form_added:
  assumes "form_rows w' = form_rows w @ [m]" "submission_rows w' = submission_rows w" "document_rows w' = document_rows w"
    "version_rows w' = version_rows w" "form_ok m" "ft_ID m \<notin> used_ids w" "fresh_ids (env_uuids w') (insert (ft_ID m) (used_ids w))"
  shows "dc_step w w'"
  using assms by (auto simp: dc_step_def dc_inv_def dc_grown_def used_ids_def submission_ok_def list_all_iff
      elim!: fresh_mono intro: form_kept_in)

lemma step_form_changed:
  assumes "form_rows w = xs @ x # ys" "form_rows w' = xs @ y # ys" "form_kept x y" "form_ok y"
    "submission_rows w' = submission_rows w" "document_rows w' = document_rows w" "version_rows w' = version_rows w"
    "env_uuids w' = env_uuids w"
  shows "dc_step w w'"
proof -
  have "used_ids w' = used_ids w" "map ft_ID (form_rows w') = map ft_ID (form_rows w)"
    "ft_ID ` set (form_rows w') = ft_ID ` set (form_rows w)"
    using assms by (simp_all add: used_ids_def form_kept_def)
  moreover have "\<forall>z\<in>set (form_rows w). \<exists>y\<in>set (form_rows w'). form_kept z y"
    using assms(3) by (auto simp: assms(1,2) dest: form_kept_in)
  moreover have "list_all form_ok (form_rows w) \<longrightarrow> list_all form_ok (form_rows w')"
    using assms(1,2,4) by simp
  ultimately show ?thesis
    using assms(5-8) by (simp add: dc_step_def dc_inv_def dc_grown_def submission_ok_def [abs_def])
qed

lemma step_submission_added:
  assumes "submission_rows w' = submission_rows w @ [m]" "form_rows w' = form_rows w" "document_rows w' = document_rows w"
    "version_rows w' = version_rows w" "submission_ok (form_rows w) m" "fs_ID m \<notin> used_ids w"
    "fresh_ids (env_uuids w') (insert (fs_ID m) (used_ids w))"
  shows "dc_step w w'"
  using assms by (auto simp: dc_step_def dc_inv_def dc_grown_def used_ids_def list_all_iff
      elim!: fresh_mono intro: form_kept_in)

text \<open>Steps that touch documents and versions only.\<close>

lemma step_documents:
  assumes "form_rows w' = form_rows w" "submission_rows w' = submission_rows w"
    and "dc_inv w \<Longrightarrow> fresh_ids (env_uuids w') (used_ids w') \<and> distinct (map do_ID (document_rows w')) \<and>
      distinct (map dv_DocumentID (version_rows w')) \<and> list_all document_ok (document_rows w') \<and>
      list_all (counted (version_rows w')) (document_rows w')"
  shows "dc_step w w'"
  using assms by (simp add: dc_step_def dc_grown_def form_kept_in) (simp add: dc_inv_def)

section \<open>The operations of the form service\<close>

context dc_db_laws
begin

lemma keeps_reads:
  "keeps dc_data (formTemplateRepository_FindByID db i)" "keeps dc_data (formTemplateRepository_ListByTenant db i pg l)"
  "keeps dc_data (formSubmissionRepository_FindByID db i)" "keeps dc_data (formSubmissionRepository_ListByTenant db i pg l)"
  "keeps dc_data (documentRepository_FindByID db i)" "keeps dc_data (documentRepository_ListByTenant db i pg l)"
  "keeps dc_data (documentRepository_ListVersions db i)"
  by (auto simp: keeps_def formTemplateRepository_FindByID_def formTemplateRepository_ListByTenant_def
      formSubmissionRepository_FindByID_def formSubmissionRepository_ListByTenant_def documentRepository_FindByID_def
      documentRepository_ListByTenant_def documentRepository_ListVersions_def mongo_page_def on_table_def Let_def
      dest!: forms_c.one_rows submissions_c.one_rows documents_c.one_rows forms_c.find_rows submissions_c.find_rows
        documents_c.find_rows versions_c.find_rows forms_c.count_rows submissions_c.count_rows documents_c.count_rows
      split: prod.splits sum.splits)

lemma found_form: "formTemplateRepository_FindByID db i w = (Inr m, w') \<Longrightarrow> m \<in> set (form_rows w) \<and> ft_ID m = i"
  by (auto simp: formTemplateRepository_FindByID_def on_table_def no_docs_def dest!: forms_c.one_ok
      split: prod.splits sum.splits)

lemma found_document: "documentRepository_FindByID db i w = (Inr m, w') \<Longrightarrow> m \<in> set (document_rows w) \<and> do_ID m = i"
  by (auto simp: documentRepository_FindByID_def on_table_def no_docs_def dest!: documents_c.one_ok
      split: prod.splits sum.splits)

lemma step_form_Create:
  assumes run: "formTemplateRepository_Create db m v = (r, w')" and v: "dc_rows v = dc_rows w" "env_uuids v = stl (env_uuids w)"
    and m: "form_ok m" "ft_ID m = shd (env_uuids w)"
  shows "dc_step w w'"
proof -
  from run obtain t' where c: "mg_InsertOne (ddb_forms db) m (dw_forms v) = (r, t')" and w': "w' = v\<lparr>dw_forms := t'\<rparr>"
    by (auto simp: formTemplateRepository_Create_def on_table_def Let_def split: prod.splits)
  have fresh: "ft_ID m \<notin> used_ids w \<and> fresh_ids (stl (env_uuids w)) (insert (ft_ID m) (used_ids w))" if "dc_inv w"
    using that m(2) by (auto simp: dc_inv_def intro: fresh_stl dest: fresh_shd)
  from forms_c.insert [OF c] show ?thesis
  proof (elim disjE exE conjE)
    fix m' assume st: "form_stored m m'" and rows: "rows t' = rows (dw_forms v) @ [m']"
    have "form_ok m'" "ft_ID m' = ft_ID m" using m(1) form_storedD [OF st] by (simp_all add: form_ok_def)
    then show ?thesis using step_form_added [of w' w m'] rows v fresh by (auto simp: w' dc_step_def)
  next
    assume "rows t' = rows (dw_forms v)"
    then have "dc_data w' = dc_data (snd (uuid_NewString w))" using v by (simp add: w' uuid_NewString_def)
    then show ?thesis using dc_step_trans [OF step_uuid dc_step_same] by blast
  qed
qed

lemma step_submission_Create:
  assumes run: "formSubmissionRepository_Create db m v = (r, w')" and v: "dc_rows v = dc_rows w" "env_uuids v = stl (env_uuids w)"
    and m: "submission_ok (form_rows w) m" "fs_ID m = shd (env_uuids w)"
  shows "dc_step w w'"
proof -
  from run obtain t' where c: "mg_InsertOne (ddb_submissions db) m (dw_submissions v) = (r, t')" and w': "w' = v\<lparr>dw_submissions := t'\<rparr>"
    by (auto simp: formSubmissionRepository_Create_def on_table_def Let_def split: prod.splits)
  have fresh: "fs_ID m \<notin> used_ids w \<and> fresh_ids (stl (env_uuids w)) (insert (fs_ID m) (used_ids w))" if "dc_inv w"
    using that m(2) by (auto simp: dc_inv_def intro: fresh_stl dest: fresh_shd)
  from submissions_c.insert [OF c] show ?thesis
  proof (elim disjE exE conjE)
    fix m' assume st: "submission_stored m m'" and rows: "rows t' = rows (dw_submissions v) @ [m']"
    have "submission_ok (form_rows w) m'" "fs_ID m' = fs_ID m" using m(1) submission_storedD [OF st] by (simp_all add: submission_ok_def)
    then show ?thesis using step_submission_added [of w' w m'] rows v fresh by (auto simp: w' dc_step_def)
  next
    assume "rows t' = rows (dw_submissions v)"
    then have "dc_data w' = dc_data (snd (uuid_NewString w))" using v by (simp add: w' uuid_NewString_def)
    then show ?thesis using dc_step_trans [OF step_uuid dc_step_same] by blast
  qed
qed

lemma step_form_Update:
  assumes run: "formTemplateRepository_Update db f v = ((r, f'), w')" and v: "dc_data v = dc_data w"
    and m: "m \<in> set (form_rows w)" "form_kept m f" "ft_Status f = ft_Status m"
  shows "dc_step w w'"
proof -
  define now where "now = shd (env_clock v)"
  let ?f = "f\<lparr>ft_UpdatedAt := now\<rparr>"
  from run obtain nr t' where c: "mg_ReplaceOne (ddb_forms db) (\<lambda>m. ft_ID m = ft_ID ?f) ?f (dw_forms v) = (nr, t')"
    and w': "w' = v\<lparr>env_clock := stl (env_clock v), dw_forms := t'\<rparr>"
    by (auto simp: formTemplateRepository_Update_def on_table_def Let_def time_Now_def now_def split: prod.splits)
  from forms_c.replace [OF c] show ?thesis
  proof (cases rule: one_updated_cases)
    case (upd xs x y ys)
    show ?thesis unfolding dc_step_def
    proof
      assume inv: "dc_inv w"
      have "form_rows w = xs @ x # ys" using upd(1) v by simp
      then have xin: "x \<in> set (form_rows w)" by simp
      have "x = m"
        by (rule distinct_key_eq [OF _ xin m(1), of ft_ID]) (use inv upd(3) m(2) in \<open>auto simp: dc_inv_def form_kept_def\<close>)
      moreover have "form_ok m" using inv m(1) by (auto simp: dc_inv_def list_all_iff)
      ultimately have "form_kept x y" "form_ok y"
        using form_storedD [OF upd(4)] m by (simp_all add: form_kept_def form_ok_def)
      then show "dc_inv w' \<and> dc_grown w w'"
        using step_form_changed [of w xs x ys w' y] upd v inv by (simp add: w' dc_step_def)
    qed
  qed (use v in \<open>auto simp: w' intro: dc_step_same\<close>)
qed

lemma step_form_UpdateStatus:
  assumes run: "formTemplateRepository_UpdateStatus db i st w = (r, w')"
    and st: "st \<in> {FormStatusPublished, FormStatusArchived}"
  shows "dc_step w w'"
proof -
  define now where "now = shd (env_clock w)"
  from run obtain nr t' where c: "mg_UpdateOne (ddb_forms db) (\<lambda>m. ft_ID m = i)
      (\<lambda>m. m\<lparr>ft_Status := st, ft_UpdatedAt := now\<rparr>) (dw_forms w) = (nr, t')"
    and w': "w' = w\<lparr>env_clock := stl (env_clock w), dw_forms := t'\<rparr>"
    by (auto simp: formTemplateRepository_UpdateStatus_def on_table_def Let_def time_Now_def now_def split: prod.splits)
  from forms_c.update [OF c] show ?thesis
  proof (cases rule: one_updated_cases)
    case (upd xs x y ys)
    then have "form_kept x y" "form_ok y"
      using form_storedD [OF upd(4)] st
      by (auto simp: form_kept_def form_ok_def FormStatusDraft_def FormStatusPublished_def FormStatusArchived_def)
    then show ?thesis using step_form_changed [of w xs x ys w' y] upd by (simp add: w')
  qed (auto simp: w' intro: dc_step_same)
qed

end

text \<open>The operations a handler value calls, spelled out.\<close>

definition the_forms :: "dc_db \<Rightarrow> dc_world formService" where
  "the_forms db = \<lparr>fmi_formRepo = formTemplateRepository db, fmi_submissionRepo = formSubmissionRepository db\<rparr>"

definition the_documents :: "dc_db \<Rightarrow> os_calls \<Rightarrow> string \<Rightarrow> dc_world documentService" where
  "the_documents db os dir =
     \<lparr>dci_docRepo = documentRepository db, dci_uploadDir = dir, dci_os = os, dci_get = dw_files,
      dci_put = (\<lambda>f w. w\<lparr>dw_files := f\<rparr>)\<rparr>"

lemma dc_main_simps [simp]:
  "dh_formService (dc_main db os dir) = NewFormService (formTemplateRepository db) (formSubmissionRepository db)"
  "dh_documentService (dc_main db os dir) = NewDocumentService (the_documents db os dir)"
  by (simp_all add: dc_main_def the_documents_def)

lemma form_ops [simp]:
  "fsv_CreateTemplate (NewFormService (formTemplateRepository db) (formSubmissionRepository db)) = formService_CreateTemplate (the_forms db)"
  "fsv_GetTemplate (NewFormService (formTemplateRepository db) (formSubmissionRepository db)) = formService_GetTemplate (the_forms db)"
  "fsv_UpdateTemplate (NewFormService (formTemplateRepository db) (formSubmissionRepository db)) = formService_UpdateTemplate (the_forms db)"
  "fsv_PublishTemplate (NewFormService (formTemplateRepository db) (formSubmissionRepository db)) = formService_PublishTemplate (the_forms db)"
  "fsv_ArchiveTemplate (NewFormService (formTemplateRepository db) (formSubmissionRepository db)) = formService_ArchiveTemplate (the_forms db)"
  "fsv_ListTemplates (NewFormService (formTemplateRepository db) (formSubmissionRepository db)) = formService_ListTemplates (the_forms db)"
  "fsv_SubmitForm (NewFormService (formTemplateRepository db) (formSubmissionRepository db)) = formService_SubmitForm (the_forms db)"
  "fsv_GetSubmission (NewFormService (formTemplateRepository db) (formSubmissionRepository db)) = formService_GetSubmission (the_forms db)"
  "fsv_ListSubmissions (NewFormService (formTemplateRepository db) (formSubmissionRepository db)) = formService_ListSubmissions (the_forms db)"
  by (simp_all add: NewFormService_def the_forms_def Let_def)

lemma document_ops [simp]:
  "dsv_UploadDocument (NewDocumentService s) = documentService_UploadDocument s"
  "dsv_GetDocument (NewDocumentService s) = documentService_GetDocument s"
  "dsv_DeleteDocument (NewDocumentService s) = documentService_DeleteDocument s"
  "dsv_ListDocuments (NewDocumentService s) = documentService_ListDocuments s"
  "dsv_GetVersions (NewDocumentService s) = documentService_GetVersions s"
  by (simp_all add: NewDocumentService_def)

lemma form_repos [simp]:
  "frm_Create (fmi_formRepo (the_forms db)) = formTemplateRepository_Create db"
  "frm_FindByID (fmi_formRepo (the_forms db)) = formTemplateRepository_FindByID db"
  "frm_ListByTenant (fmi_formRepo (the_forms db)) = formTemplateRepository_ListByTenant db"
  "frm_Update (fmi_formRepo (the_forms db)) = formTemplateRepository_Update db"
  "frm_UpdateStatus (fmi_formRepo (the_forms db)) = formTemplateRepository_UpdateStatus db"
  "sub_Create (fmi_submissionRepo (the_forms db)) = formSubmissionRepository_Create db"
  "sub_FindByID (fmi_submissionRepo (the_forms db)) = formSubmissionRepository_FindByID db"
  "sub_ListByTenant (fmi_submissionRepo (the_forms db)) = formSubmissionRepository_ListByTenant db"
  by (simp_all add: the_forms_def formTemplateRepository_def formSubmissionRepository_def)

lemma document_repos [simp]:
  "dcr_Create (dci_docRepo (the_documents db os dir)) = documentRepository_Create db"
  "dcr_FindByID (dci_docRepo (the_documents db os dir)) = documentRepository_FindByID db"
  "dcr_ListByTenant (dci_docRepo (the_documents db os dir)) = documentRepository_ListByTenant db"
  "dcr_Delete (dci_docRepo (the_documents db os dir)) = documentRepository_Delete db"
  "dcr_AddVersion (dci_docRepo (the_documents db os dir)) = documentRepository_AddVersion db"
  "dcr_ListVersions (dci_docRepo (the_documents db os dir)) = documentRepository_ListVersions db"
  "dci_uploadDir (the_documents db os dir) = dir" "dci_os (the_documents db os dir) = os"
  by (simp_all add: the_documents_def documentRepository_def)

lemma on_files_main: "on_files (the_documents db os dir) f w = (fst (f (dw_files w)), w\<lparr>dw_files := snd (f (dw_files w))\<rparr>)"
  by (simp add: on_files_def the_documents_def split_beta)

lemma patchedForm_kept: "form_kept m ((patchedForm req m)\<lparr>ft_UpdatedAt := t\<rparr>)" "ft_Status ((patchedForm req m)\<lparr>ft_UpdatedAt := t\<rparr>) = ft_Status m"
  by (simp_all add: patchedForm_def form_kept_def Let_def split: option.split)

context dc_db_laws
begin

lemma step_reads:
  "dc_step w (snd (formTemplateRepository_FindByID db i w))" "dc_step w (snd (formTemplateRepository_ListByTenant db i pg l w))"
  "dc_step w (snd (formSubmissionRepository_FindByID db i w))" "dc_step w (snd (formSubmissionRepository_ListByTenant db i pg l w))"
  "dc_step w (snd (documentRepository_FindByID db i w))" "dc_step w (snd (documentRepository_ListByTenant db i pg l w))"
  "dc_step w (snd (documentRepository_ListVersions db i w))"
  by (rule dc_step_same, rule keeps_snd, rule keeps_reads)+

lemma step_CreateTemplate: "dc_step w (snd (formService_CreateTemplate (the_forms db) t u req w))"
proof -
  obtain r w' where c: "formService_CreateTemplate (the_forms db) t u req w = (r, w')" by fastforce
  then obtain m v r' where run: "formTemplateRepository_Create db m v = (r', w')" and
      v: "dc_rows v = dc_rows w" "env_uuids v = stl (env_uuids w)" and m: "form_ok m" "ft_ID m = shd (env_uuids w)"
    by (auto simp: formService_CreateTemplate_def Let_def time_Now_def uuid_NewString_def form_ok_def
        split: prod.splits option.splits)
  then have "dc_step w w'" by (rule step_form_Create)
  then show ?thesis using c by simp
qed

lemma step_UpdateTemplate: "dc_step w (snd (formService_UpdateTemplate (the_forms db) i req w))"
proof -
  obtain fr w1 where f: "formTemplateRepository_FindByID db i w = (fr, w1)" by fastforce
  have same: "dc_data w1 = dc_data w" by (rule keepsD [OF keeps_reads(1) f])
  show ?thesis
  proof (cases fr)
    case (Inl e)
    then show ?thesis using f same by (simp add: formService_UpdateTemplate_def dc_step_same)
  next
    case (Inr m)
    define form where "form = (patchedForm req m)\<lparr>ft_UpdatedAt := shd (env_clock w1)\<rparr>"
    define v where "v = w1\<lparr>env_clock := stl (env_clock w1)\<rparr>"
    obtain r form' w' where u: "formTemplateRepository_Update db form v = ((r, form'), w')" by (metis surj_pair)
    then have "snd (formService_UpdateTemplate (the_forms db) i req w) = w'"
      using f Inr by (simp add: formService_UpdateTemplate_def time_Now_def form_def v_def split: option.split)
    moreover have "dc_step w w'"
      by (rule step_form_Update [OF u, of w m])
        (use same found_form [of i w m w1] f Inr patchedForm_kept in \<open>simp_all add: v_def form_def\<close>)
    ultimately show ?thesis by simp
  qed
qed

lemma step_SubmitForm: "dc_step w (snd (formService_SubmitForm (the_forms db) t u req w))"
proof -
  obtain fr w1 where f: "formTemplateRepository_FindByID db (sfr_FormID req) w = (fr, w1)" by fastforce
  have same: "dc_data w1 = dc_data w" by (rule keepsD [OF keeps_reads(1) f])
  show ?thesis
  proof (cases "\<exists>form. fr = Inr form \<and> check_required (elems (ft_Fields form)) (sfr_Data req) = None")
    case False
    then have "snd (formService_SubmitForm (the_forms db) t u req w) = w1"
      using f by (cases fr) (auto simp: formService_SubmitForm_def split: option.split)
    then show ?thesis using same by (simp add: dc_step_same)
  next
    case True
    then obtain form where form: "fr = Inr form" "check_required (elems (ft_Fields form)) (sfr_Data req) = None" by blast
    define m where "m = \<lparr>fs_ID = shd (env_uuids w1), fs_FormID = sfr_FormID req, fs_TenantID = t, fs_SubmittedBy = u,
      fs_Data = sfr_Data req, fs_Status = SubmissionStatusSubmitted, fs_CreatedAt = shd (env_clock w1),
      fs_UpdatedAt = shd (env_clock w1)\<rparr>"
    define v where "v = w1\<lparr>env_clock := stl (env_clock w1), env_uuids := stl (env_uuids w1)\<rparr>"
    obtain r w' where c: "formSubmissionRepository_Create db m v = (r, w')" by fastforce
    then have "snd (formService_SubmitForm (the_forms db) t u req w) = w'"
      using f form by (simp add: formService_SubmitForm_def Let_def time_Now_def uuid_NewString_def m_def v_def split: option.split)
    moreover have "sfr_FormID req \<in> ft_ID ` set (form_rows w)" using f form(1) found_form by force
    ultimately show ?thesis
      using step_submission_Create [OF c, of w] same by (simp add: submission_ok_def m_def v_def)
  qed
qed

lemma form_steps:
  "dc_step w (snd (formService_GetTemplate (the_forms db) i w))" "dc_step w (snd (formService_PublishTemplate (the_forms db) i w))"
  "dc_step w (snd (formService_ArchiveTemplate (the_forms db) i w))" "dc_step w (snd (formService_ListTemplates (the_forms db) t pg l w))"
  "dc_step w (snd (formService_GetSubmission (the_forms db) i w))" "dc_step w (snd (formService_ListSubmissions (the_forms db) t pg l w))"
  using step_form_UpdateStatus [of i _ w] step_reads [of w]
  by (auto simp: formService_GetTemplate_def formService_PublishTemplate_def formService_ArchiveTemplate_def
      formService_ListTemplates_def formService_GetSubmission_def formService_ListSubmissions_def
      intro: step_form_UpdateStatus [OF prod.collapse [symmetric]])

end

section \<open>The operations of the document service\<close>

lemma versions_of_snoc [simp]:
  "versions_of (vs @ [v]) i = versions_of vs i @ (if dv_DocumentID v = i then [v] else [])"
  by (simp add: versions_of_def)

lemma counted_snoc: "counted vs d \<Longrightarrow> counted (vs @ [v]) d"
  by (simp add: counted_def)

text \<open>The state between the creation of a document and the recording of its version.\<close>

definition unversioned :: "dc_world \<Rightarrow> string \<Rightarrow> bool" where
  "unversioned w i \<longleftrightarrow> fresh_ids (env_uuids w) (insert i (used_ids w)) \<and> i \<notin> dv_DocumentID ` set (version_rows w) \<and>
     (\<forall>d\<in>set (document_rows w). do_ID d = i \<longrightarrow> do_VersionCount d = 1)"

text \<open>What recording a version makes of its document.\<close>

definition recorded :: "DocumentVersion \<Rightarrow> time \<Rightarrow> Document \<Rightarrow> Document" where
  "recorded ver t d = d\<lparr>do_CurrentVersion := dv_Version ver, do_UpdatedAt := t, do_VersionCount := do_VersionCount d + 1\<rparr>"

context dc_db_laws
begin

lemma document_Create_effect:
  assumes "documentRepository_Create db m v = (r, w')"
  obtains t' where "w' = v\<lparr>dw_documents := t'\<rparr>" "rows t' = document_rows v" "r \<noteq> None"
  | m' t' where "w' = v\<lparr>dw_documents := t'\<rparr>" "rows t' = document_rows v @ [m']" "document_stored m m'"
proof -
  from assms obtain t' where c: "mg_InsertOne (ddb_documents db) m (dw_documents v) = (r, t')" and w': "w' = v\<lparr>dw_documents := t'\<rparr>"
    by (auto simp: documentRepository_Create_def on_table_def Let_def split: prod.splits)
  from documents_c.insert [OF c] that w' show thesis by blast
qed

lemma step_document_Create:
  assumes run: "documentRepository_Create db m v = (r, w')" and v: "dc_rows v = dc_rows w" "env_uuids v = stl (env_uuids w)"
    and m: "document_ok m" "do_ID m = shd (env_uuids w)" "do_VersionCount m = 1"
  shows "dc_step w w'" and "dc_inv w \<Longrightarrow> unversioned w' (do_ID m)"
proof -
  have fresh: "do_ID m \<notin> used_ids w \<and> fresh_ids (stl (env_uuids w)) (insert (do_ID m) (used_ids w))" if "dc_inv w"
    using that m(2) by (auto simp: dc_inv_def intro: fresh_stl dest: fresh_shd)
  have absent: "i \<notin> do_ID ` S \<Longrightarrow> \<forall>d\<in>S. do_ID d \<noteq> i" for i S by auto
  from run have "dc_step w w' \<and> (dc_inv w \<longrightarrow> unversioned w' (do_ID m))"
  proof (cases rule: document_Create_effect)
    case (1 t')
    then have "dc_data w' = dc_data (snd (uuid_NewString w))" using v by (simp add: uuid_NewString_def)
    then have "dc_step w w'" using dc_step_trans [OF step_uuid dc_step_same] by blast
    moreover have "unversioned w' (do_ID m)" if "dc_inv w"
      using fresh [OF that] 1 v by (auto simp: unversioned_def used_ids_def dest!: absent)
    ultimately show ?thesis by blast
  next
    case (2 m' t')
    note st = document_storedD [OF 2(3)]
    have ok: "document_ok m'" "counted vs m'" for vs using m st by (simp_all add: document_ok_def counted_def)
    have "dc_step w w'"
      by (rule step_documents) (use 2 v fresh ok st in \<open>auto simp: dc_inv_def used_ids_def elim!: fresh_mono\<close>)
    moreover have "unversioned w' (do_ID m)" if "dc_inv w"
      using fresh [OF that] 2 v st m by (auto simp: unversioned_def used_ids_def elim!: fresh_mono dest!: absent)
    ultimately show ?thesis by blast
  qed
  then show "dc_step w w'" and "dc_inv w \<Longrightarrow> unversioned w' (do_ID m)" by simp_all
qed

text \<open>Recording a version: nothing, the version alone, or the version and the change of the document.\<close>

lemma AddVersion_effect:
  assumes "documentRepository_AddVersion db ver v = (r, w')"
  obtains (none) "dc_data w' = dc_data v" "dw_files w' = dw_files v" "r \<noteq> None"
  | (version) ver' where "version_stored ver ver'" "form_rows w' = form_rows v" "submission_rows w' = submission_rows v"
      "document_rows w' = document_rows v" "version_rows w' = version_rows v @ [ver']" "env_uuids w' = env_uuids v"
      "dw_files w' = dw_files v" "r = None \<longrightarrow> dv_DocumentID ver \<notin> do_ID ` set (document_rows v)"
  | (both) ver' t xs x y ys where "version_stored ver ver'" "form_rows w' = form_rows v" "submission_rows w' = submission_rows v"
      "document_rows v = xs @ x # ys" "document_rows w' = xs @ y # ys" "do_ID x = dv_DocumentID ver"
      "document_stored (recorded ver t x) y" "version_rows w' = version_rows v @ [ver']" "env_uuids w' = env_uuids v"
      "dw_files w' = dw_files v"
proof -
  obtain r1 t1 where c: "mg_InsertOne (ddb_versions db) ver (dw_versions v) = (r1, t1)" by fastforce
  let ?v1 = "v\<lparr>dw_versions := t1\<rparr>"
  show thesis
  proof (cases r1)
    case (Some e)
    then have "w' = ?v1" "r = Some e" using assms c by (simp_all add: documentRepository_AddVersion_def on_table_def)
    with versions_c.insert [OF c] none version show thesis by auto
  next
    case None
    obtain ver' where ver: "version_stored ver ver'" "rows t1 = version_rows v @ [ver']"
      using versions_c.insert_ok [of ver "dw_versions v" t1] c None by auto
    obtain nr t2 where u: "mg_UpdateOne (ddb_documents db) (\<lambda>m. do_ID m = dv_DocumentID ver)
        (recorded ver (shd (env_clock v))) (dw_documents v) = (nr, t2)" by fastforce
    have w': "w' = v\<lparr>dw_versions := t1, env_clock := stl (env_clock v), dw_documents := t2\<rparr>" "r = (case nr of Inl e \<Rightarrow> Some e | Inr _ \<Rightarrow> None)"
      using assms c u None by (simp_all add: documentRepository_AddVersion_def on_table_def Let_def time_Now_def recorded_def [abs_def] split: prod.splits)
    from documents_c.update [OF u] show thesis
    proof (cases rule: one_updated_cases)
      case (upd xs x y ys)
      then show thesis using both [OF ver(1), of xs x ys y "shd (env_clock v)"] ver(2) by (simp add: w'(1))
    next
      case same
      show thesis
      proof (cases "r = None \<and> dv_DocumentID ver \<in> do_ID ` set (document_rows v)")
        case False
        then have "r = None \<longrightarrow> dv_DocumentID ver \<notin> do_ID ` set (document_rows v)" by blast
        then show thesis by (intro version [OF ver(1)]) (simp_all add: w'(1) ver(2) same)
      next
        case True
        then obtain n x where "nr = Inr n" "x \<in> set (document_rows v)" "do_ID x = dv_DocumentID ver"
          using w'(2) by (auto split: sum.splits)
        with documents_c.update_ok [of _ _ _ n t2 x] u
        have "one_updated document_stored (\<lambda>m. do_ID m = dv_DocumentID ver) (recorded ver (shd (env_clock v))) (dw_documents v) t2" by blast
        then obtain xs x y ys where "document_rows v = xs @ x # ys" "rows t2 = xs @ y # ys" "do_ID x = dv_DocumentID ver"
            "document_stored (recorded ver (shd (env_clock v)) x) y" unfolding one_updated_def by blast
        then show thesis using both [OF ver(1), of xs x ys y "shd (env_clock v)"] ver(2) by (simp add: w'(1))
      qed
    qed
  qed
qed

lemma step_AddVersion:
  assumes run: "documentRepository_AddVersion db ver v = (r, w')" and ver: "unversioned v (dv_DocumentID ver)" "dv_Version ver = 1"
  shows "dc_step v w'"
  using run
proof (cases rule: AddVersion_effect)
  case none
  then show ?thesis by (simp add: dc_step_same)
next
  case (version ver')
  note st = version_storedD [OF version(1)]
  show ?thesis
    by (rule step_documents)
      (use version(2-6) ver st in \<open>auto simp: dc_inv_def used_ids_def unversioned_def list_all_iff counted_snoc elim!: fresh_mono\<close>)
next
  case (both ver' t xs x y ys)
  note st = version_storedD [OF both(1)] and std = document_storedD [OF both(7)]
  show ?thesis
  proof (rule step_documents [OF both(2,3)])
    assume inv: "dc_inv v"
    have x: "document_ok x" using inv both(4) by (simp add: dc_inv_def)
    have count: "do_VersionCount x = 1" using ver(1) both(4,6) by (simp add: unversioned_def)
    have y: "document_ok y" "do_ID y = do_ID x" "counted (version_rows w') y"
      using x std st ver(2) both(6,8) count by (simp_all add: document_ok_def recorded_def counted_def)
    have "used_ids w' \<subseteq> insert (dv_DocumentID ver) (used_ids v)"
      using both(2-5,8) y(2) st by (auto simp: used_ids_def)
    then have "fresh_ids (env_uuids w') (used_ids w')"
      using ver(1) both(9) by (auto simp: unversioned_def elim: fresh_mono)
    then show "fresh_ids (env_uuids w') (used_ids w') \<and> distinct (map do_ID (document_rows w')) \<and>
      distinct (map dv_DocumentID (version_rows w')) \<and> list_all document_ok (document_rows w') \<and>
      list_all (counted (version_rows w')) (document_rows w')"
      using inv ver(1) both(4,5,8) y st by (auto simp: dc_inv_def unversioned_def list_all_iff counted_snoc)
  qed
qed

lemma unversioned_uuid: "unversioned w i \<Longrightarrow> unversioned (snd (uuid_NewString w)) i"
  by (auto simp: unversioned_def uuid_NewString_def used_ids_def elim!: fresh_mono [OF fresh_stl])

end

text \<open>The document and the version of an upload.\<close>

definition uploaded :: "string \<Rightarrow> string \<Rightarrow> UploadRequest \<Rightarrow> string \<Rightarrow> time \<Rightarrow> Document" where
  "uploaded t u req i now = \<lparr>do_ID = i, do_TenantID = t, do_Filename = upl_Filename req, do_OriginalName = upl_Filename req,
     do_MimeType = upl_MimeType req, do_SizeBytes = upl_SizeBytes req, do_StorageKey = storage_key t i (upl_Filename req),
     do_UploadedBy = u, do_CaseID = upl_CaseID req, do_VersionCount = 1, do_CurrentVersion = 1, do_CreatedAt = now, do_UpdatedAt = now\<rparr>"

definition first_version :: "string \<Rightarrow> Document \<Rightarrow> DocumentVersion" where
  "first_version vid d = \<lparr>dv_ID = vid, dv_DocumentID = do_ID d, dv_Version = 1, dv_StorageKey = do_StorageKey d,
     dv_UploadedBy = do_UploadedBy d, dv_CreatedAt = do_CreatedAt d\<rparr>"

definition upload_path :: "string \<Rightarrow> string \<Rightarrow> string \<Rightarrow> UploadRequest \<Rightarrow> string" where
  "upload_path dir t i req = filepath_Join [dir, storage_key t i (upl_Filename req)]"

text \<open>
  The ways an upload can end: refused, stopped before or while writing the file, stopped at the
  creation of the document, or done.
\<close>

lemma Upload_cases:
  fixes w :: dc_world
  assumes "documentService_UploadDocument (the_documents db os dir) t u req w = (r, w')"
  defines "i \<equiv> shd (env_uuids w)" and "w1 \<equiv> snd (uuid_NewString w)"
  defines "path \<equiv> upload_path dir t i req"
  obtains (refused) e where "r = Inl e" "w' = w"
      "e = (if upl_SizeBytes req > maxFileSizeBytes then ErrFileTooLarge else ErrUnsupportedFileType)"
      "upl_SizeBytes req > maxFileSizeBytes \<or> upl_MimeType req \<notin> set allowedMimeTypes"
  | (mkdir) e f where "r = Inl (Errorf ''failed to create upload directory: '' e '''')" "w' = w1\<lparr>dw_files := f\<rparr>"
      "os_MkdirAll os (filepath_Dir path) (dw_files w) = (Some e, f)"
      "upl_SizeBytes req \<le> maxFileSizeBytes" "upl_MimeType req \<in> set allowedMimeTypes"
  | (written) e f f' where "r = Inl (Errorf ''failed to write file: '' e '''')" "w' = w1\<lparr>dw_files := f'\<rparr>"
      "os_MkdirAll os (filepath_Dir path) (dw_files w) = (None, f)" "os_WriteFile os path (upl_Content req) f = (Some e, f')"
      "upl_SizeBytes req \<le> maxFileSizeBytes" "upl_MimeType req \<in> set allowedMimeTypes"
  | (create) e f f' v w5 f'' r'' where "r = Inl e" "w' = w5\<lparr>dw_files := f''\<rparr>"
      "os_MkdirAll os (filepath_Dir path) (dw_files w) = (None, f)" "os_WriteFile os path (upl_Content req) f = (None, f')"
      "upl_SizeBytes req \<le> maxFileSizeBytes" "upl_MimeType req \<in> set allowedMimeTypes"
      "v = w1\<lparr>dw_files := f', env_clock := stl (env_clock w)\<rparr>"
      "documentRepository_Create db (uploaded t u req i (shd (env_clock w))) v = (Some e, w5)"
      "os_Remove os path (dw_files w5) = (r'', f'')"
  | (stored) f f' v w5 r7 where "r = Inr (uploaded t u req i (shd (env_clock w)))"
      "os_MkdirAll os (filepath_Dir path) (dw_files w) = (None, f)" "os_WriteFile os path (upl_Content req) f = (None, f')"
      "upl_SizeBytes req \<le> maxFileSizeBytes" "upl_MimeType req \<in> set allowedMimeTypes"
      "v = w1\<lparr>dw_files := f', env_clock := stl (env_clock w)\<rparr>"
      "documentRepository_Create db (uploaded t u req i (shd (env_clock w))) v = (None, w5)"
      "documentRepository_AddVersion db
         (first_version (shd (env_uuids w5)) (uploaded t u req i (shd (env_clock w)))) (snd (uuid_NewString w5)) = (r7, w')"
proof -
  let ?doc = "uploaded t u req i (shd (env_clock w))"
  obtain r1 f where mk: "os_MkdirAll os (filepath_Dir path) (dw_files w) = (r1, f)" by fastforce
  obtain r2 f' where wr: "os_WriteFile os path (upl_Content req) f = (r2, f')" by fastforce
  define v where "v = w1\<lparr>dw_files := f', env_clock := stl (env_clock w)\<rparr>"
  obtain rc w5 where cr: "documentRepository_Create db ?doc v = (rc, w5)" by fastforce
  obtain r'' f'' where rm: "os_Remove os path (dw_files w5) = (r'', f'')" by fastforce
  obtain vid w6 where u5: "uuid_NewString w5 = (vid, w6)" by fastforce
  then have vid: "vid = shd (env_uuids w5)" by (simp add: uuid_NewString_def)
  obtain r7 w7 where av: "documentRepository_AddVersion db (first_version vid ?doc) w6 = (r7, w7)" by fastforce
  have mk1: "on_files (the_documents db os dir) (os_MkdirAll os (filepath_Dir path)) w1 = (r1, w1\<lparr>dw_files := f\<rparr>)"
    using mk by (simp add: on_files_main w1_def uuid_NewString_def)
  have wr1: "on_files (the_documents db os dir) (os_WriteFile os path (upl_Content req)) (w1\<lparr>dw_files := f\<rparr>) = (r2, w1\<lparr>dw_files := f'\<rparr>)"
    using wr by (simp add: on_files_main)
  have now: "time_Now (w1\<lparr>dw_files := f'\<rparr>) = (shd (env_clock w), v)"
    by (simp add: time_Now_def v_def w1_def uuid_NewString_def)
  have rm1: "snd (on_files (the_documents db os dir) (os_Remove os path) w5) = w5\<lparr>dw_files := f''\<rparr>"
    using rm by (simp add: on_files_main)
  have u1: "uuid_NewString w = (i, w1)" by (simp add: w1_def i_def uuid_NewString_def)
  have path: "filepath_Join [dir, storage_key t i (upl_Filename req)] = path" by (simp add: path_def upload_path_def)
  show thesis
  proof (cases "upl_SizeBytes req > maxFileSizeBytes \<or> upl_MimeType req \<notin> set allowedMimeTypes")
    case True
    then show thesis using assms(1) by (intro refused) (auto simp: documentService_UploadDocument_def split: if_splits)
  next
    case False
    then have ok: "upl_SizeBytes req \<le> maxFileSizeBytes" "upl_MimeType req \<in> set allowedMimeTypes" by auto
    have run: "documentService_UploadDocument (the_documents db os dir) t u req w =
      (case r1 of Some e \<Rightarrow> (Inl (Errorf ''failed to create upload directory: '' e ''''), w1\<lparr>dw_files := f\<rparr>)
       | None \<Rightarrow> (case r2 of Some e \<Rightarrow> (Inl (Errorf ''failed to write file: '' e ''''), w1\<lparr>dw_files := f'\<rparr>)
         | None \<Rightarrow> (case rc of Some e \<Rightarrow> (Inl e, w5\<lparr>dw_files := f''\<rparr>) | None \<Rightarrow> (Inr ?doc, w7))))"
      using ok cr [unfolded uploaded_def] av [unfolded uploaded_def first_version_def] 
      by (simp add: documentService_UploadDocument_def u1 u5 path mk1 wr1 now rm1 Let_def uploaded_def split: option.split)
    show thesis
    proof (cases r1)
      case (Some e)
      then show thesis using mkdir [of e f] mk ok run assms(1) by simp
    next
      case r1: None
      show thesis
      proof (cases r2)
        case (Some e)
        then show thesis using written [of e f' f] mk wr r1 ok run assms(1) by simp
      next
        case r2: None
        show thesis
          using create [of _ f'' w5 f f' v r''] stored [of f f' v w5 r7] mk wr cr rm av r1 r2 ok run assms(1) v_def u5 vid
          by (cases rc) simp_all
      qed
    qed
  qed
qed

lemma uploaded_ok:
  "0 \<le> upl_SizeBytes req \<Longrightarrow> upl_SizeBytes req \<le> maxFileSizeBytes \<Longrightarrow> upl_MimeType req \<in> set allowedMimeTypes \<Longrightarrow>
     document_ok (uploaded t u req i now)"
  "do_ID (uploaded t u req i now) = i" "do_VersionCount (uploaded t u req i now) = 1"
  by (simp_all add: uploaded_def document_ok_def)

context dc_db_laws
begin

lemma step_UploadDocument:
  assumes "0 \<le> upl_SizeBytes req"
  shows "dc_step w (snd (documentService_UploadDocument (the_documents db os dir) t u req w))"
proof -
  obtain r w' where run: "documentService_UploadDocument (the_documents db os dir) t u req w = (r, w')" by fastforce
  then have "dc_step w w'"
  proof (cases rule: Upload_cases)
    case (mkdir e f)
    then show ?thesis using dc_step_trans [OF step_uuid dc_step_same] by simp
  next
    case (written e f f')
    then show ?thesis using dc_step_trans [OF step_uuid dc_step_same] by simp
  next
    case (create e f f' v w5 f'' r'')
    then have "dc_step w w5"
      by (intro step_document_Create(1) [OF create(8)]) (simp_all add: uploaded_ok assms uuid_NewString_def)
    then show ?thesis using dc_step_trans dc_step_same create(2) by simp
  next
    case (stored f f' v w5 r7)
    let ?d = "uploaded t u req (shd (env_uuids w)) (shd (env_clock w))"
    have 1: "dc_step w w5" "dc_inv w \<Longrightarrow> unversioned w5 (do_ID ?d)"
      using stored by (intro step_document_Create [OF stored(7), of w]; simp add: uploaded_ok assms uuid_NewString_def)+
    have "dc_step (snd (uuid_NewString w5)) w'" if "dc_inv w"
      using step_AddVersion [OF stored(8)] unversioned_uuid [OF 1(2) [OF that]] by (simp add: first_version_def)
    then show ?thesis using 1(1) dc_step_trans [OF 1(1) step_uuid] by (auto simp: dc_step_def intro: dc_grown_trans)
  qed (simp add: dc_step_same)
  then show ?thesis using run by simp
qed

lemma step_document_Delete: "dc_step w (snd (documentRepository_Delete db i w))"
proof -
  obtain nr t' where c: "mg_DeleteOne (ddb_documents db) (\<lambda>m. do_ID m = i) (dw_documents w) = (nr, t')" by fastforce
  let ?w = "w\<lparr>dw_documents := t'\<rparr>"
  note sub = one_deleted_set [OF documents_c.delete [OF c]] and dist = one_deleted_distinct [OF documents_c.delete [OF c], of do_ID]
  have "dc_step w ?w"
    by (rule step_documents) (use sub dist in \<open>auto simp: dc_inv_def used_ids_def list_all_iff elim!: fresh_mono\<close>)
  then show ?thesis using c by (simp add: documentRepository_Delete_def on_table_def)
qed

lemma step_DeleteDocument: "dc_step w (snd (documentService_DeleteDocument (the_documents db os dir) i w))"
proof -
  obtain fr w1 where f: "documentRepository_FindByID db i w = (fr, w1)" by fastforce
  have 1: "dc_step w w1" using step_reads(5) [of w i] f by simp
  show ?thesis
  proof (cases fr)
    case (Inl e)
    then show ?thesis using 1 f by (simp add: documentService_DeleteDocument_def)
  next
    case (Inr d)
    define w2 where "w2 = snd (on_files (the_documents db os dir) (os_Remove os (filepath_Join [dir, do_StorageKey d])) w1)"
    have "dc_step w1 w2" by (rule dc_step_same) (simp add: w2_def on_files_main)
    then have "dc_step w (snd (documentRepository_Delete db i w2))"
      using 1 step_document_Delete dc_step_trans by blast
    then show ?thesis using f Inr by (simp add: documentService_DeleteDocument_def w2_def split_beta Let_def)
  qed
qed

lemma document_steps:
  "dc_step w (snd (documentService_GetDocument (the_documents db os dir) i w))"
  "dc_step w (snd (documentService_ListDocuments (the_documents db os dir) t pg l w))"
  "dc_step w (snd (documentService_GetVersions (the_documents db os dir) i w))"
  using step_reads [of w]
  by (simp_all add: documentService_GetDocument_def documentService_ListDocuments_def documentService_GetVersions_def)

end

text \<open>Every operation is a step, so every sequence of requests is one.\<close>

sublocale dc_db_laws \<subseteq> data: dc_kept "dc_main db os dir" "\<lambda>w. dc_step w0 w" for os dir w0
proof (unfold_locales, goal_cases)
  case (1 w k) then show ?case by (rule dc_step_trans) (simp add: dc_step_same)
next
  case (2 w t u req) then show ?case using dc_step_trans step_CreateTemplate by simp
next
  case (4 w i req) then show ?case using dc_step_trans step_UpdateTemplate by simp
next
  case (8 w t u req) then show ?case using dc_step_trans step_SubmitForm by simp
next
  case (11 w t u p content cid) then show ?case
    using dc_step_trans step_UploadDocument [of "upload_of p content cid"] by (simp add: upload_of_def)
next
  case (13 w i) then show ?case using dc_step_trans step_DeleteDocument by simp
qed (use dc_step_trans form_steps document_steps in simp_all)

end
