(* ===== verification/Dc_Props.thy ===== *)
theory Dc_Props
  imports Dc_Inv
begin

text \<open>
  document-service: the properties of forms, submissions and documents, each with a run on concrete
  data where it has hypotheses.
\<close>

section \<open>Data for the concrete runs\<close>

definition demo_dc :: "FormTemplate list \<Rightarrow> Document list \<Rightarrow> DocumentVersion list \<Rightarrow> dc_world" where
  "demo_dc fs ds vs = \<lparr>env_clock = siterate (\<lambda>t. t + 1) 1000, env_uuids = siterate (\<lambda>s. CHR ''n'' # s) ''n1'',
     env_lower = id, env_upper = id, dw_forms = \<lparr>rows = fs, tbl_hidden = 0\<rparr>,
     dw_submissions = \<lparr>rows = [], tbl_hidden = 0\<rparr>, dw_documents = \<lparr>rows = ds, tbl_hidden = 0\<rparr>,
     dw_versions = \<lparr>rows = vs, tbl_hidden = 0\<rparr>, dw_files = \<lparr>fs_files = Map.empty, fs_hidden = 0\<rparr>\<rparr>"

definition demo_form :: FormTemplate where
  "demo_form = \<lparr>ft_ID = ''f1'', ft_TenantID = ''t1'', ft_Name = ''Contact'', ft_Description = '''', ft_Version = 1,
     ft_Fields = Some [zero_field\<lparr>ff_Name := ''email'', ff_Type := FieldTypeEmail, ff_Required := True\<rparr>,
       zero_field\<lparr>ff_Name := ''phone''\<rparr>],
     ft_Status = FormStatusDraft, ft_CreatedBy = ''u1'', ft_CreatedAt = 5, ft_UpdatedAt = 5\<rparr>"

definition demo_upload :: UploadRequest where
  "demo_upload = \<lparr>upl_Filename = ''a.pdf'', upl_MimeType = ''application/pdf'', upl_SizeBytes = 4, upl_Content = ''%PDF'',
     upl_CaseID = None\<rparr>"

lemma demo_dc_inv: "dc_inv (demo_dc [demo_form] [] [])" "dc_inv (demo_dc [] [] [])"
  by (simp_all add: dc_inv_def demo_fresh used_ids_def demo_dc_def demo_form_def form_ok_def FormStatusDraft_def)

lemmas dc_eval = mem_dc_db_def mem_col_def mem_write_def mem_read_def mem_modify_def mem_fault_def mem_tick_def on_table_def
  time_Now_def uuid_NewString_def Let_def demo_dc_def

section \<open>What requests keep\<close>

context dc_db_laws
begin

lemma reach_step: "dc_reach fl (dc_main db os dir) w w' \<Longrightarrow> dc_step w w'"
  by (erule data.dc_reach_kept) (simp add: dc_step_same)

end

text \<open>
  C7: Over any sequence of requests no submission is lost or changed, every form stays stored with its
  identifier, tenant and creator and never becomes a draft again once published or archived, and every
  submission belongs to exactly one stored form.
\<close>

theorem forms_stay:
  assumes "dc_db_laws db" "dc_reach fl (dc_main db os dir) w w'" "dc_inv w"
  shows "set (submission_rows w) \<subseteq> set (submission_rows w') \<and>
    (\<forall>x\<in>set (form_rows w). \<exists>y\<in>set (form_rows w'). form_kept x y) \<and>
    (\<forall>s\<in>set (submission_rows w'). fs_Status s = SubmissionStatusSubmitted \<and> (\<exists>!f. f \<in> set (form_rows w') \<and> ft_ID f = fs_FormID s))"
proof -
  have inv: "dc_inv w'" and grown: "dc_grown w w'"
    using dc_db_laws.reach_step [OF assms(1,2)] assms(3) by (simp_all add: dc_step_def)
  have "\<exists>!f. f \<in> set (form_rows w') \<and> ft_ID f = fs_FormID s" if "s \<in> set (submission_rows w')" for s
  proof -
    have "fs_FormID s \<in> ft_ID ` set (form_rows w')" using inv that by (auto simp: dc_inv_def list_all_iff submission_ok_def)
    then obtain f where "f \<in> set (form_rows w')" "ft_ID f = fs_FormID s" by force
    then show ?thesis using inv distinct_key_eq [of ft_ID "form_rows w'"] by (auto simp: dc_inv_def)
  qed
  with inv grown show ?thesis by (auto simp: dc_grown_def dc_inv_def list_all_iff submission_ok_def)
qed

text \<open>
  C8: Over any sequence of requests every stored document has a type of the list of the code, at most 50 MB,
  the limit of the code (contracts/document.yaml allows 100 MB), a storage key made of its own tenant,
  identifier and name and 1 as its current version; it has at most one recorded version and a count of
  versions that is one or one more than that.
\<close>

theorem documents_sound:
  assumes "dc_db_laws db" "dc_reach fl (dc_main db os dir) w w'" "dc_inv w" "d \<in> set (document_rows w')"
  shows "document_ok d \<and> length (versions_of (version_rows w') (do_ID d)) \<le> 1 \<and> 1 \<le> do_VersionCount d \<and>
    do_VersionCount d \<le> 1 + int (length (versions_of (version_rows w') (do_ID d)))"
proof -
  have inv: "dc_inv w'" using dc_db_laws.reach_step [OF assms(1,2)] assms(3) by (simp add: dc_step_def)
  have "length (versions_of vs i) \<le> 1" if "distinct (map dv_DocumentID vs)" for vs i
    using that by (induction vs) (auto simp: versions_of_def filter_empty_conv image_iff)
  with inv assms(4) show ?thesis by (auto simp: dc_inv_def list_all_iff counted_def)
qed

section \<open>Uploads\<close>

text \<open>What stays of a document when its version is recorded.\<close>

definition same_document :: "Document \<Rightarrow> Document \<Rightarrow> bool" where
  "same_document x y \<longleftrightarrow> do_ID y = do_ID x \<and> do_TenantID y = do_TenantID x \<and> do_MimeType y = do_MimeType x \<and>
     do_SizeBytes y = do_SizeBytes x \<and> do_StorageKey y = do_StorageKey x"

context dc_db_laws
begin

lemma document_ops_files:
  "documentRepository_Create db m v = (r, w') \<Longrightarrow> dw_files w' = dw_files v"
  "documentRepository_AddVersion db ver v = (r', w'') \<Longrightarrow> dw_files w'' = dw_files v"
  by (auto elim: document_Create_effect AddVersion_effect)

lemma uuid_files [simp]: "dw_files (snd (uuid_NewString w)) = dw_files w"
  by (simp add: uuid_NewString_def)

lemma upload_files:
  assumes "os_laws os" "documentService_UploadDocument (the_documents db os dir) t u req w = (r, w')"
  defines "path \<equiv> upload_path dir t (shd (env_uuids w)) req"
  shows "q \<noteq> path \<Longrightarrow> fs_files (dw_files w') q = fs_files (dw_files w) q"
    and "r = Inr d \<Longrightarrow> fs_files (dw_files w') path = Some (upl_Content req)"
proof -
  note L = os_laws.mkdir [OF assms(1)] os_laws.write_ok [OF assms(1)] os_laws.write_other [OF assms(1)]
    os_laws.remove_ok [OF assms(1)] os_laws.remove_failed [OF assms(1)]
  from assms(2) have "(q \<noteq> path \<longrightarrow> fs_files (dw_files w') q = fs_files (dw_files w) q) \<and>
    (r = Inr d \<longrightarrow> fs_files (dw_files w') path = Some (upl_Content req))" for q d
  proof (cases rule: Upload_cases)
    case (mkdir e f)
    then show ?thesis using L(1) by simp
  next
    case (written e f f')
    then show ?thesis using L(1) [OF written(3)] L(3) [OF written(4)] by (simp add: path_def)
  next
    case (create e f f' v w5 f'' r'')
    have "fs_files (dw_files w5) = (fs_files (dw_files w))(path \<mapsto> upl_Content req)"
      using document_ops_files(1) [OF create(8)] create(7) L(1) [OF create(3)] L(2) [OF create(4)] by (simp add: path_def)
    then show ?thesis using create(1,2) L(4) [of path "dw_files w5" f''] L(5) [of path "dw_files w5" _ f''] create(9)
      by (cases r'') (simp_all add: path_def)
  next
    case (stored f f' v w5 r7)
    have "fs_files (dw_files w') = (fs_files (dw_files w))(path \<mapsto> upl_Content req)"
      using document_ops_files(1) [OF stored(7)] document_ops_files(2) [OF stored(8)] stored(6) L(1) [OF stored(2)]
        L(2) [OF stored(3)] by (simp add: path_def)
    then show ?thesis by simp
  qed simp
  then show "q \<noteq> path \<Longrightarrow> fs_files (dw_files w') q = fs_files (dw_files w) q"
    and "r = Inr d \<Longrightarrow> fs_files (dw_files w') path = Some (upl_Content req)" by simp_all
qed

lemma AddVersion_same:
  assumes "documentRepository_AddVersion db ver v = (r, w')" "x \<in> set (document_rows v)"
  shows "\<exists>y\<in>set (document_rows w'). same_document x y"
  using assms(1)
proof (cases rule: AddVersion_effect)
  case (both ver' t xs z y ys)
  then have "same_document z y" using document_storedD [OF both(7)] by (simp add: same_document_def recorded_def)
  then show ?thesis using both(4,5) assms(2) by (auto simp: same_document_def)
qed (use assms(2) in \<open>auto simp: same_document_def\<close>)

lemma upload_document:
  assumes "documentService_UploadDocument (the_documents db os dir) t u req w = (Inr d, w')"
  shows "d = uploaded t u req (shd (env_uuids w)) (shd (env_clock w)) \<and> (\<exists>x\<in>set (document_rows w'). same_document d x)"
  using assms
proof (cases rule: Upload_cases)
  case (stored f f' v w5 r7)
  from stored(7) obtain m' where "m' \<in> set (document_rows w5)" "document_stored (uploaded t u req (shd (env_uuids w)) (shd (env_clock w))) m'"
    by (cases rule: document_Create_effect) auto
  moreover have "document_rows (snd (uuid_NewString w5)) = document_rows w5" by (simp add: uuid_NewString_def)
  ultimately show ?thesis
    using AddVersion_same [OF stored(8), of m'] stored(1) document_storedD [of _ m'] by (auto simp: same_document_def)
qed simp_all

end

lemma upload_path_plain:
  assumes "dir \<noteq> ''''" "plain_element t" "plain_element i" "plain_element (upl_Filename req)"
  shows "upload_path dir t i req = path_of (is_rooted dir) (dir_elements dir @ [t, i, upl_Filename req])"
  using filepath_Join_plain [of dir "[t, i, upl_Filename req]"] assms by (simp add: upload_path_def storage_key_def)

text \<open>
  C15: An upload whose tenant, identifier and file name are plain path elements touches no file but the
  one under the upload directory named by them; when it succeeds that file has the uploaded content and
  the document is stored with that tenant, type and size, the document answered with being of a version
  count of one.
\<close>

theorem upload_confined:
  assumes "dc_db_laws db" "os_laws os" "dir \<noteq> ''''"
    "list_all plain_element [t, shd (env_uuids w), upl_Filename req]"
    "documentService_UploadDocument (the_documents db os dir) t u req w = (r, w')"
    "path = path_of (is_rooted dir) (dir_elements dir @ [t, shd (env_uuids w), upl_Filename req])"
  shows "inside dir path \<and> (\<forall>q. q \<noteq> path \<longrightarrow> fs_files (dw_files w') q = fs_files (dw_files w) q) \<and>
    (\<forall>d. r = Inr d \<longrightarrow> fs_files (dw_files w') path = Some (upl_Content req) \<and> do_VersionCount d = 1 \<and>
       (\<exists>x\<in>set (document_rows w'). same_document d x) \<and> do_TenantID d = t \<and> do_MimeType d = upl_MimeType req \<and>
       do_SizeBytes d = upl_SizeBytes req)"
proof -
  have path: "upload_path dir t (shd (env_uuids w)) req = path"
    using assms(3,4) by (simp add: upload_path_plain assms(6))
  have "inside dir path"
    unfolding inside_def assms(6) using assms(4) by (intro exI [of _ "[t, shd (env_uuids w), upl_Filename req]"]) simp
  moreover have "fs_files (dw_files w') q = fs_files (dw_files w) q" if "q \<noteq> path" for q
    using dc_db_laws.upload_files(1) [OF assms(1,2,5)] that path by simp
  moreover have "fs_files (dw_files w') path = Some (upl_Content req)" if "r = Inr d" for d
    using dc_db_laws.upload_files(2) [OF assms(1,2,5) that] path by simp
  moreover have "do_VersionCount d = 1 \<and> (\<exists>x\<in>set (document_rows w'). same_document d x) \<and> do_TenantID d = t \<and>
      do_MimeType d = upl_MimeType req \<and> do_SizeBytes d = upl_SizeBytes req" if "r = Inr d" for d
    using dc_db_laws.upload_document [OF assms(1) assms(5) [unfolded that]] by (auto simp: uploaded_def)
  ultimately show ?thesis by blast
qed

lemma demo_upload_run:
  "\<exists>d w'. documentService_UploadDocument (the_documents mem_dc_db mem_os ''/tmp/up'') t u demo_upload (demo_dc [] [] []) = (Inr d, w')"
proof -
  let ?r = "documentService_UploadDocument (the_documents mem_dc_db mem_os ''/tmp/up'') t u demo_upload (demo_dc [] [] [])"
  have "\<exists>d. fst ?r = Inr d"
    by (simp add: documentService_UploadDocument_def demo_upload_def maxFileSizeBytes_def allowedMimeTypes_def on_files_main
        mem_os_def mem_os_call_def documentRepository_Create_def documentRepository_AddVersion_def dc_eval split: prod.split)
  then show ?thesis by (metis prod.collapse)
qed

theorem upload_confined_witness:
  "\<exists>d w'. documentService_UploadDocument (the_documents mem_dc_db mem_os ''/tmp/up'') ''t1'' ''u1'' demo_upload (demo_dc [] [] []) =
       (Inr d, w') \<and> fs_files (dw_files w') ''/tmp/up/t1/n1/a.pdf'' = Some ''%PDF'' \<and> fs_files (dw_files w') ''/tmp/up'' = None"
proof -
  obtain d w' where r: "documentService_UploadDocument (the_documents mem_dc_db mem_os ''/tmp/up'') ''t1'' ''u1'' demo_upload
      (demo_dc [] [] []) = (Inr d, w')" using demo_upload_run by blast
  have path: "''/tmp/up/t1/n1/a.pdf'' = path_of (is_rooted ''/tmp/up'') (dir_elements ''/tmp/up'' @
      [''t1'', shd (env_uuids (demo_dc [] [] [])), upl_Filename demo_upload])"
    by (simp add: path_of_def is_rooted_def dir_elements_def demo_dc_def demo_upload_def)
  have "list_all plain_element [''t1'', shd (env_uuids (demo_dc [] [] [])), upl_Filename demo_upload]"
    by (simp add: plain_element_def demo_dc_def demo_upload_def)
  from upload_confined [OF mem_dc.dc_db_laws_axioms mem_os.os_laws_axioms _ this r path] r show ?thesis
    by (simp add: demo_dc_def demo_upload_def)
qed

text \<open>
  An upload for the tenant \<open>..\<close>, a name a client can send in the header \<open>X-Tenant-ID\<close>, writes its
  file outside the upload directory.
\<close>

theorem upload_escapes:
  assumes "dc_db_laws db" "os_laws os" "dir \<noteq> ''''" "dir_elements dir \<noteq> []"
    "last (dir_elements dir) \<notin> {''..'', shd (env_uuids w)}"
    "list_all plain_element [shd (env_uuids w), upl_Filename req]"
    "documentService_UploadDocument (the_documents db os dir) ''..'' u req w = (Inr d, w')"
    "path = path_of (is_rooted dir) (butlast (dir_elements dir) @ [shd (env_uuids w), upl_Filename req])"
  shows "fs_files (dw_files w') path = Some (upl_Content req) \<and> \<not> inside dir path"
proof
  let ?i = "shd (env_uuids w)" and ?f = "upl_Filename req" and ?E = "dir_elements dir"
  let ?key = "storage_key ''..'' ?i ?f"
  have key: "split_slash ?key = [''..'', ?i, ?f]" "?key \<noteq> ''''"
    using assms(6) split_join [of "[''..'', ?i, ?f]"] by (simp_all add: storage_key_def plain_element_def)
  have "clean_loop (is_rooted dir) (rev ?E) (split_slash ?key) = butlast ?E @ [?i, ?f]"
    using clean_dotdot [of ?E "is_rooted dir" "[?i, ?f]"] clean_plain [OF assms(6), of _ _ "[]"] assms(4,5) key by simp
  then have "upload_path dir ''..'' ?i req = path"
    using filepath_Join_elements [OF assms(3) key(2)] by (simp add: upload_path_def assms(8))
  then show "fs_files (dw_files w') path = Some (upl_Content req)"
    using dc_db_laws.upload_files(2) [OF assms(1,2,7) refl] by simp
  show "\<not> inside dir path"
  proof
    assume "inside dir path"
    then obtain ks where ks: "ks \<noteq> []" "list_all plain_element ks" "path = path_of (is_rooted dir) (?E @ ks)"
      unfolding inside_def by blast
    have "list_all (\<lambda>p. CHR ''/'' \<notin> set p) (butlast ?E @ [?i, ?f])" "list_all (\<lambda>p. CHR ''/'' \<notin> set p) (?E @ ks)"
      using dir_elements_no_slash [of dir] assms(6) ks(2) by (auto simp: list_all_iff plain_element_def dest: in_set_butlastD)
    with ks assms(4,8) have "butlast ?E @ [?i, ?f] = ?E @ ks"
      using join_slash_inj [of "butlast ?E @ [?i, ?f]" "?E @ ks"] by (simp add: path_of_def split: if_splits)
    also have "\<dots> = butlast ?E @ last ?E # ks" using assms(4) by (simp flip: append_butlast_last_id)
    finally show False using assms(5) by simp
  qed
qed

theorem upload_escapes_witness:
  "\<exists>d w'. documentService_UploadDocument (the_documents mem_dc_db mem_os ''/tmp/up'') ''..'' ''u1'' demo_upload (demo_dc [] [] []) =
       (Inr d, w') \<and> fs_files (dw_files w') ''/tmp/n1/a.pdf'' = Some ''%PDF'' \<and> \<not> inside ''/tmp/up'' ''/tmp/n1/a.pdf''"
proof -
  obtain d w' where r: "documentService_UploadDocument (the_documents mem_dc_db mem_os ''/tmp/up'') ''..'' ''u1'' demo_upload
      (demo_dc [] [] []) = (Inr d, w')" using demo_upload_run by blast
  have path: "''/tmp/n1/a.pdf'' = path_of (is_rooted ''/tmp/up'') (butlast (dir_elements ''/tmp/up'') @
      [shd (env_uuids (demo_dc [] [] [])), upl_Filename demo_upload])"
    by (simp add: path_of_def is_rooted_def dir_elements_def demo_dc_def demo_upload_def)
  have "list_all plain_element [shd (env_uuids (demo_dc [] [] [])), upl_Filename demo_upload]"
    by (simp add: plain_element_def demo_dc_def demo_upload_def)
  moreover have "dir_elements ''/tmp/up'' = [''tmp'', ''up'']" by (simp add: dir_elements_def is_rooted_def)
  ultimately show ?thesis
    using upload_escapes [OF mem_dc.dc_db_laws_axioms mem_os.os_laws_axioms _ _ _ _ r path] r
    by (simp add: demo_dc_def demo_upload_def)
qed

section \<open>Two requests\<close>

definition demo_dc_request :: "string \<Rightarrow> dc_request" where
  "demo_dc_request meth = \<lparr>rq_Method = meth, rq_Path = [], rq_Header = (\<lambda>k. if k = ''X-Tenant-ID'' then ''t1'' else ''''),
     rq_Query = (\<lambda>_. ''''), rq_URLParam = (\<lambda>_. ''''), rq_Body = '''', ctx_tenantID = None, ctx_userID = None,
     ctx_requestID = None,
     rq_Multipart = Some (300, [\<lparr>pt_name = ''file'', pt_filename = ''/home/a.pdf'', pt_ContentType = ''application/pdf'',
       pt_Content = Some ''%PDF''\<rparr>]), rq_FormValues = (\<lambda>_. [])\<rparr>"

definition demo_router :: "string \<Rightarrow> string \<Rightarrow> string \<Rightarrow> dc_world \<Rightarrow> dc_payload response \<times> dc_world" where
  "demo_router meth pat ident =
     dc_NewRouter (\<lambda>_. D_Matched pat (\<lambda>_. ident)) Some (dc_main mem_dc_db mem_os ''/tmp/up'') (demo_dc_request meth)"

lemma demo_router_reach: "demo_router meth pat ident w = (resp, w') \<Longrightarrow> dc_reach Some (dc_main mem_dc_db mem_os ''/tmp/up'') w w'"
  using dc_reach.request [OF dc_reach.start] unfolding demo_router_def by (metis snd_conv)

lemmas dc_run = demo_router_def dc_NewRouter_def dc_CORSMiddleware_def dc_LoggingMiddleware_def dc_endpoint_def
  demo_dc_request_def

lemma demo_publish:
  "\<exists>resp w'. demo_router ''POST'' ''/forms/{id}/publish'' ''f1'' (demo_dc [demo_form] [] []) = (resp, w') \<and>
     rs_status resp = 200 \<and> map ft_Status (form_rows w') = [FormStatusPublished]"
  by (simp add: dc_run Handler_PublishFormTemplate_def formService_PublishTemplate_def formTemplateRepository_UpdateStatus_def
      no_match_def dc_eval demo_form_def StatusOK_def)

lemma demo_upload_request:
  "\<exists>resp w' d. demo_router ''POST'' ''/documents/upload'' '''' (demo_dc [] [] []) = (resp, w') \<and> rs_status resp = 201 \<and>
     document_rows w' = [d] \<and> do_Filename d = ''a.pdf'' \<and> do_VersionCount d = 2 \<and> map dv_DocumentID (version_rows w') = [do_ID d]"
  by (simp add: dc_run Handler_UploadDocument_def form_file_def form_values_def upload_of_def maxUploadSize_def getTenantID_def
      getUserID_def filepath_Base_def documentService_UploadDocument_def maxFileSizeBytes_def allowedMimeTypes_def on_files_main
      mem_os_def mem_os_call_def documentRepository_Create_def documentRepository_AddVersion_def dc_eval StatusCreated_def)

theorem forms_stay_witness:
  "\<exists>w'. dc_reach Some (dc_main mem_dc_db mem_os ''/tmp/up'') (demo_dc [demo_form] [] []) w' \<and>
     map ft_Status (form_rows w') = [FormStatusPublished] \<and> (\<exists>y\<in>set (form_rows w'). form_kept demo_form y)"
proof -
  obtain resp w' where r: "demo_router ''POST'' ''/forms/{id}/publish'' ''f1'' (demo_dc [demo_form] [] []) = (resp, w')"
    and st: "map ft_Status (form_rows w') = [FormStatusPublished]" using demo_publish by metis
  note reach = demo_router_reach [OF r]
  have "demo_form \<in> set (form_rows (demo_dc [demo_form] [] []))" by (simp add: demo_dc_def)
  with forms_stay [OF mem_dc.dc_db_laws_axioms reach demo_dc_inv(1)]
  have "\<exists>y\<in>set (form_rows w'). form_kept demo_form y" by simp
  with reach st show ?thesis by (intro exI [of _ w']) simp
qed

theorem documents_sound_witness:
  "\<exists>w' d. dc_reach Some (dc_main mem_dc_db mem_os ''/tmp/up'') (demo_dc [] [] []) w' \<and> d \<in> set (document_rows w') \<and>
     document_ok d \<and> do_VersionCount d = 2"
proof -
  obtain resp w' d where r: "demo_router ''POST'' ''/documents/upload'' '''' (demo_dc [] [] []) = (resp, w')"
    and d: "document_rows w' = [d]" "do_VersionCount d = 2" using demo_upload_request by metis
  note reach = demo_router_reach [OF r]
  from documents_sound [OF mem_dc.dc_db_laws_axioms reach demo_dc_inv(2), of d] reach d show ?thesis by auto
qed

section \<open>Versions\<close>

lemma in_key_image: "a \<in> f ` S \<longleftrightarrow> (\<exists>x\<in>S. f x = a)"
  by auto

context dc_db_laws
begin

lemma version_count:
  assumes inv: "dc_inv w" and run: "documentService_UploadDocument (the_documents db os dir) t u req w = (Inr d, w')"
  shows "\<exists>v r ver. documentRepository_AddVersion db ver v = (r, w') \<and> dv_DocumentID ver = do_ID d \<and>
    (r = None \<longrightarrow> length (versions_of (version_rows w') (do_ID d)) = 1 \<and>
       map do_VersionCount (filter (\<lambda>x. do_ID x = do_ID d) (document_rows w')) = [2])"
  using run
proof (cases rule: Upload_cases)
  case (stored f f' v w5 r7)
  let ?i = "shd (env_uuids w)" and ?v = "snd (uuid_NewString w5)" and ?P = "\<lambda>x. do_ID x = shd (env_uuids w)"
  have d: "do_ID d = ?i" "do_VersionCount d = 1" using stored(1) by (simp_all add: uploaded_ok)
  from stored(7) obtain m' where m': "document_rows w5 = document_rows w @ [m']" "do_ID m' = ?i" "do_VersionCount m' = 1"
      and vers: "version_rows w5 = version_rows w"
    using stored(6) by (cases rule: document_Create_effect) (auto dest: document_storedD simp: uuid_NewString_def uploaded_ok)
  have v: "document_rows ?v = document_rows w @ [m']" "version_rows ?v = version_rows w"
    using m'(1) vers by (simp_all add: uuid_NewString_def)
  have new: "\<forall>x\<in>set (document_rows w). do_ID x \<noteq> ?i" "\<forall>x\<in>set (version_rows w). dv_DocumentID x \<noteq> ?i"
    using inv_shd [OF inv] by (simp_all add: used_ids_def in_key_image)
  then have old: "filter ?P (document_rows w) = []" "versions_of (version_rows w) ?i = []"
    by (auto simp: filter_empty_conv versions_of_def)
  have "length (versions_of (version_rows w') ?i) = 1 \<and> map do_VersionCount (filter ?P (document_rows w')) = [2]" if "r7 = None"
    using stored(8)
  proof (cases rule: AddVersion_effect)
    case none
    then show ?thesis using that by simp
  next
    case (version ver')
    then show ?thesis using that v(1) m'(2) by (simp add: first_version_def uploaded_ok)
  next
    case (both ver' t' xs x y ys)
    have x: "do_ID x = ?i" using both(6) by (simp add: first_version_def uploaded_ok)
    have "xs @ x # ys = document_rows w @ [m']" using both(4) v(1) by simp
    then have "filter ?P (xs @ x # ys) = [m']" using old(1) m'(2) by (simp only:) simp
    then have "filter ?P xs = []" "x = m'" "filter ?P ys = []" using x by (simp_all add: append_eq_Cons_conv)
    then show ?thesis
      using both(5,8) v(2) old(2) m'(3) x document_storedD [OF both(7)] version_storedD [OF both(1)]
      by (simp add: recorded_def first_version_def uploaded_ok)
  qed
  then show ?thesis using stored(8) d by (metis DocumentVersion.select_convs(2) first_version_def uploaded_ok(2))
qed simp_all

end

text \<open>
  Uploading a document ends with the recording of its one version, and when that succeeds the stored
  document counts two.
\<close>

theorem version_count_off:
  assumes "dc_db_laws db" "dc_inv w" "documentService_UploadDocument (the_documents db os dir) t u req w = (Inr d, w')"
  shows "\<exists>v r ver. documentRepository_AddVersion db ver v = (r, w') \<and> dv_DocumentID ver = do_ID d \<and>
    (r = None \<longrightarrow> length (versions_of (version_rows w') (do_ID d)) = 1 \<and>
       map do_VersionCount (filter (\<lambda>x. do_ID x = do_ID d) (document_rows w')) = [2])"
  by (rule dc_db_laws.version_count [OF assms])

theorem version_count_off_witness:
  "\<exists>d w' v r ver. documentService_UploadDocument (the_documents mem_dc_db mem_os ''/tmp/up'') ''t1'' ''u1'' demo_upload (demo_dc [] [] []) =
     (Inr d, w') \<and> documentRepository_AddVersion mem_dc_db ver v = (r, w') \<and> dv_DocumentID ver = do_ID d"
proof -
  obtain d w' where r: "documentService_UploadDocument (the_documents mem_dc_db mem_os ''/tmp/up'') ''t1'' ''u1'' demo_upload
      (demo_dc [] [] []) = (Inr d, w')" using demo_upload_run by blast
  from version_count_off [OF mem_dc.dc_db_laws_axioms demo_dc_inv(2) r] r show ?thesis by auto
qed

end
