(* ===== verification/Dc_Forms.thy ===== *)
theory Dc_Forms
  imports Dc_Props
begin

text \<open>
  document-service: what submitting and updating a form, deleting a document and listing documents do,
  on every branch, and the limits of an upload, each with a run on concrete data where it has
  hypotheses.
\<close>

section \<open>Submitting a form\<close>

definition filled :: "(string \<times> json) list option \<Rightarrow> FormField \<Rightarrow> bool" where
  "filled data f \<longleftrightarrow> (\<exists>v. map_of (elems data) (ff_Name f) = Some v \<and> v \<noteq> JNull \<and> v \<noteq> JStr '''')"

definition missing_error :: "FormField \<Rightarrow> goerr" where
  "missing_error f = Errorf '''' ErrInvalidFormData ('': field '' @ CHR 0x27 # ff_Name f @ CHR 0x27 # '' is required'')"

lemma check_required_find:
  "check_required fs data = map_option missing_error (find (\<lambda>f. ff_Required f \<and> \<not> filled data f) fs)"
proof -
  have "no_value data (ff_Name f) \<longleftrightarrow> \<not> filled data f" for f
    by (auto simp: no_value_def filled_def split: option.split)
  then show ?thesis by (induction fs) (simp_all add: missing_error_def)
qed

context dc_db_laws
begin

lemma submit_cases:
  assumes run: "formService_SubmitForm (the_forms db) t u req w = (r, w')"
  obtains (lookup) e where "formTemplateRepository_FindByID db (sfr_FormID req) w = (Inl e, w')" "r = Inl e"
  | (missing) form f where "form \<in> set (form_rows w)" "ft_ID form = sfr_FormID req" "dc_data w' = dc_data w"
      "find (\<lambda>f. ff_Required f \<and> \<not> filled (sfr_Data req) f) (elems (ft_Fields form)) = Some f" "r = Inl (missing_error f)"
  | (create) form s v r' where "form \<in> set (form_rows w)" "ft_ID form = sfr_FormID req"
      "\<forall>f\<in>set (elems (ft_Fields form)). ff_Required f \<longrightarrow> filled (sfr_Data req) f" "dc_rows v = dc_rows w"
      "formSubmissionRepository_Create db s v = (r', w')" "r = (case r' of None \<Rightarrow> Inr s | Some e \<Rightarrow> Inl e)"
      "fs_FormID s = sfr_FormID req" "fs_TenantID s = t" "fs_SubmittedBy s = u" "fs_Data s = sfr_Data req"
      "fs_Status s = SubmissionStatusSubmitted"
proof -
  obtain fr w1 where f: "formTemplateRepository_FindByID db (sfr_FormID req) w = (fr, w1)" by fastforce
  have same: "dc_data w1 = dc_data w" by (rule keepsD [OF keeps_reads(1) f])
  show thesis
  proof (cases fr)
    case (Inl e)
    then show thesis using lookup f run by (simp add: formService_SubmitForm_def)
  next
    case (Inr form)
    note form = found_form [OF f [unfolded Inr]]
    show thesis
    proof (cases "find (\<lambda>f. ff_Required f \<and> \<not> filled (sfr_Data req) f) (elems (ft_Fields form))")
      case (Some x)
      then show thesis using missing [of form x] form same f run Inr
        by (simp add: formService_SubmitForm_def check_required_find)
    next
      case None
      define s where "s = \<lparr>fs_ID = shd (env_uuids w1), fs_FormID = sfr_FormID req, fs_TenantID = t, fs_SubmittedBy = u,
        fs_Data = sfr_Data req, fs_Status = SubmissionStatusSubmitted, fs_CreatedAt = shd (env_clock w1),
        fs_UpdatedAt = shd (env_clock w1)\<rparr>"
      define v where "v = w1\<lparr>env_clock := stl (env_clock w1), env_uuids := stl (env_uuids w1)\<rparr>"
      obtain r' w2 where c: "formSubmissionRepository_Create db s v = (r', w2)" by fastforce
      have "(r, w') = (case r' of None \<Rightarrow> Inr s | Some e \<Rightarrow> Inl e, w2)"
        using f run Inr None c by (cases r') (simp_all add: formService_SubmitForm_def check_required_find Let_def time_Now_def
          uuid_NewString_def s_def v_def)
      then show thesis
        using create [of form v s r'] form c same None by (auto simp: s_def v_def find_None_iff)
    qed
  qed
qed

lemma submission_Create_effect:
  assumes "formSubmissionRepository_Create db m v = (r, w')"
  obtains "r \<noteq> None" "dc_rows w' = dc_rows v"
  | m' where "submission_rows w' = submission_rows v @ [m']" "submission_stored m m'" "form_rows w' = form_rows v"
proof -
  from assms obtain t' where c: "mg_InsertOne (ddb_submissions db) m (dw_submissions v) = (r, t')" and w': "w' = v\<lparr>dw_submissions := t'\<rparr>"
    by (auto simp: formSubmissionRepository_Create_def on_table_def Let_def split: prod.splits)
  from submissions_c.insert [OF c] that w' show thesis by auto
qed

end

text \<open>
  C24: A submission that succeeds is for a stored form, all of whose required fields have a value that is
  neither null nor the empty string, and adds exactly one submission, with the data as they were sent. The
  code looks neither at the tenant of the form nor at its status, so a form that is not published is accepted
  too, which contracts/document.yaml refuses with 404. A submission that fails because such a field has no
  value names the first one, is an invalid-form-data error and adds nothing.
\<close>

theorem submit_form_outcome:
  assumes "dc_db_laws db" "formService_SubmitForm (the_forms db) t u req w = (r, w')"
  shows "case r of
      Inr s \<Rightarrow> (\<exists>form\<in>set (form_rows w). ft_ID form = sfr_FormID req \<and>
          (\<forall>f\<in>set (elems (ft_Fields form)). ff_Required f \<longrightarrow> filled (sfr_Data req) f)) \<and>
        fs_FormID s = sfr_FormID req \<and> fs_TenantID s = t \<and> fs_SubmittedBy s = u \<and> fs_Data s = sfr_Data req \<and>
        (\<exists>s'. submission_stored s s' \<and> submission_rows w' = submission_rows w @ [s'])
    | Inl e \<Rightarrow>
        (\<exists>w1. formTemplateRepository_FindByID db (sfr_FormID req) w = (Inl e, w1)) \<or>
        (\<exists>form\<in>set (form_rows w). \<exists>f. ft_ID form = sfr_FormID req \<and>
           find (\<lambda>f. ff_Required f \<and> \<not> filled (sfr_Data req) f) (elems (ft_Fields form)) = Some f \<and>
           e = missing_error f \<and> errors_Is e ErrInvalidFormData \<and> dc_rows w' = dc_rows w) \<or>
        (\<exists>v s. formSubmissionRepository_Create db s v = (Some e, w'))"
proof (rule dc_db_laws.submit_cases [OF assms], goal_cases)
  case (1 e)
  then show ?case by auto
next
  case (2 form f)
  then show ?case by (auto simp: missing_error_def ErrInvalidFormData_def)
next
  case (3 form s v r')
  show ?case
  proof (cases r')
    case None
    from dc_db_laws.submission_Create_effect [OF assms(1) 3(5)] None 3(4)
    obtain s' where "submission_stored s s'" "submission_rows w' = submission_rows w @ [s']" by auto
    with None 3 show ?thesis by auto
  next
    case (Some e)
    with 3(5,6) show ?thesis by auto
  qed
qed

definition demo_submit :: "(string \<times> json) list \<Rightarrow> SubmitFormRequest" where
  "demo_submit data = \<lparr>sfr_FormID = ''f1'', sfr_Data = Some data\<rparr>"

lemma demo_submit_run:
  "\<exists>s w'. formService_SubmitForm (the_forms mem_dc_db) ''t2'' ''u2'' (demo_submit [(''email'', JStr ''a'')]) (demo_dc [demo_form] [] []) =
     (Inr s, w')"
  by (simp add: formService_SubmitForm_def demo_submit_def formTemplateRepository_FindByID_def no_docs_def
      formSubmissionRepository_Create_def dc_eval demo_form_def no_value_def zero_field_def)

theorem submit_form_outcome_witness:
  "\<exists>s w' s'. formService_SubmitForm (the_forms mem_dc_db) ''t2'' ''u2'' (demo_submit [(''email'', JStr ''a'')]) (demo_dc [demo_form] [] []) =
     (Inr s, w') \<and> submission_rows w' = [s'] \<and> fs_TenantID s' = ''t2'' \<and> ft_TenantID demo_form = ''t1'' \<and>
     ft_Status demo_form = FormStatusDraft"
proof -
  obtain s w' where r: "formService_SubmitForm (the_forms mem_dc_db) ''t2'' ''u2'' (demo_submit [(''email'', JStr ''a'')])
      (demo_dc [demo_form] [] []) = (Inr s, w')" using demo_submit_run by blast
  from submit_form_outcome [OF mem_dc.dc_db_laws_axioms r] obtain s' where
    "fs_TenantID s = ''t2''" "submission_stored s s'" "submission_rows w' = [s']" by (auto simp: demo_dc_def)
  with r submission_storedD [of s s'] show ?thesis by (auto simp: demo_form_def)
qed

section \<open>Updating a form\<close>

lemma patchedForm_fields:
  "ft_Name (patchedForm req m) = (case ufr_Name req of None \<Rightarrow> ft_Name m | Some n \<Rightarrow> n)"
  "ft_Description (patchedForm req m) = (case ufr_Description req of None \<Rightarrow> ft_Description m | Some d \<Rightarrow> d)"
  "ft_Version (patchedForm req m) = (if ufr_Fields req = None then ft_Version m else wrap64 (ft_Version m + 1))"
  "ft_Fields (patchedForm req m) = (case ufr_Fields req of None \<Rightarrow> ft_Fields m | Some fl \<Rightarrow> Some fl)"
  by (simp_all add: patchedForm_def Let_def split: option.split)

context dc_db_laws
begin

lemma update_form:
  assumes inv: "dc_inv w" and upd: "formService_UpdateTemplate (the_forms db) i req w = (Inr f, w1)"
    and get: "formService_GetTemplate (the_forms db) i w1 = (Inr x, w2)"
  shows "\<exists>m\<in>set (form_rows w). ft_ID m = i \<and> (\<exists>t. f = (patchedForm req m)\<lparr>ft_UpdatedAt := t\<rparr>) \<and> form_stored f x"
proof -
  obtain fr v where fnd: "formTemplateRepository_FindByID db i w = (fr, v)" by fastforce
  have same: "dc_data v = dc_data w" by (rule keepsD [OF keeps_reads(1) fnd])
  from upd fnd obtain m where fr: "fr = Inr m" by (cases fr) (auto simp: formService_UpdateTemplate_def)
  note m = found_form [OF fnd [unfolded fr]]
  define v2 where "v2 = v\<lparr>env_clock := stl (stl (env_clock v))\<rparr>"
  define g where "g = (patchedForm req m)\<lparr>ft_UpdatedAt := shd (stl (env_clock v))\<rparr>"
  have g: "ft_ID g = i" using m patchedForm_kept(1) [of m "shd (stl (env_clock v))" req] by (simp add: g_def form_kept_def)
  obtain nr t' where c: "mg_ReplaceOne (ddb_forms db) (\<lambda>m. ft_ID m = ft_ID g) g (dw_forms v2) = (nr, t')" by fastforce
  have "(case nr of Inl e \<Rightarrow> Inl e | Inr _ \<Rightarrow> Inr g, v2\<lparr>dw_forms := t'\<rparr>) = (Inr f, w1)"
    using upd fnd fr c by (simp add: formService_UpdateTemplate_def formTemplateRepository_Update_def time_Now_def on_table_def
        Let_def v2_def g_def split: sum.splits prod.splits)
  then obtain n where n: "nr = Inr n" "f = g" and w1: "w1 = v2\<lparr>dw_forms := t'\<rparr>" by (auto split: sum.splits)
  from forms_c.replace_ok [OF c [unfolded n(1)], of m] m same g
  have "one_updated form_stored (\<lambda>m. ft_ID m = ft_ID g) (\<lambda>_. g) (dw_forms v2) t'" by (simp add: v2_def)
  then obtain xs z y ys where upd: "form_rows w = xs @ z # ys" "rows t' = xs @ y # ys" "ft_ID z = i" "form_stored g y"
    using g same unfolding one_updated_def by (auto simp: v2_def)
  have y: "ft_ID y = i" using form_storedD [OF upd(4)] g by simp
  have "x \<in> set (rows t')" "ft_ID x = i"
    using get found_form [of i w1 x w2] by (simp_all add: formService_GetTemplate_def w1)
  moreover have "distinct (map ft_ID (rows t'))" using inv upd y by (simp add: dc_inv_def)
  ultimately have "x = y" using distinct_key_eq [of ft_ID "rows t'" x y] upd(2) y by simp
  with upd(4) n m show ?thesis by (auto simp: g_def)
qed

end

text \<open>
  C30: A form that was updated successfully is read back as the patch of the stored one: the given
  fields are replaced, the others, the tenant, the status and the creator are kept, and the version
  goes up by one exactly when a list of fields is given.
\<close>

theorem update_form_stored:
  assumes "dc_db_laws db" "dc_inv w" "formService_UpdateTemplate (the_forms db) i req w = (Inr f, w1)"
    "formService_GetTemplate (the_forms db) i w1 = (Inr x, w2)"
  shows "\<exists>m\<in>set (form_rows w). ft_ID m = i \<and> form_kept m x \<and> ft_Status x = ft_Status m \<and>
    ft_Name x = (case ufr_Name req of None \<Rightarrow> ft_Name m | Some n \<Rightarrow> n) \<and>
    ft_Description x = (case ufr_Description req of None \<Rightarrow> ft_Description m | Some d \<Rightarrow> d) \<and>
    ft_Version x = (if ufr_Fields req = None then ft_Version m else wrap64 (ft_Version m + 1)) \<and>
    map_option (map plain_options) (ft_Fields x) =
      map_option (map plain_options) (case ufr_Fields req of None \<Rightarrow> ft_Fields m | Some fl \<Rightarrow> Some fl)"
proof -
  from dc_db_laws.update_form [OF assms] obtain m t where m: "m \<in> set (form_rows w)" "ft_ID m = i"
    and f: "f = (patchedForm req m)\<lparr>ft_UpdatedAt := t\<rparr>" and st: "form_stored f x" by blast
  note kept = patchedForm_kept [where m = m and t = t and req = req]
  have "form_kept m x" "ft_Status x = ft_Status m" using kept form_storedD [OF st] by (simp_all add: f form_kept_def)
  moreover have "map_option (map plain_options) (ft_Fields x) = map_option (map plain_options) (ft_Fields f)"
    using st by (simp add: form_stored_def)
  ultimately show ?thesis
    using m form_storedD [OF st] by (intro bexI [of _ m]) (simp_all add: f patchedForm_fields)
qed

definition demo_patch :: UpdateFormRequest where
  "demo_patch = \<lparr>ufr_Name = None, ufr_Description = Some ''new'', ufr_Fields = Some []\<rparr>"

lemma demo_patch_run:
  "\<exists>f w1 x w2. formService_UpdateTemplate (the_forms mem_dc_db) ''f1'' demo_patch (demo_dc [demo_form] [] []) = (Inr f, w1) \<and>
     formService_GetTemplate (the_forms mem_dc_db) ''f1'' w1 = (Inr x, w2)"
  by (simp add: formService_UpdateTemplate_def formService_GetTemplate_def demo_patch_def formTemplateRepository_FindByID_def
      formTemplateRepository_Update_def no_docs_def dc_eval demo_form_def patchedForm_def)

theorem update_form_stored_witness:
  "\<exists>f w1 x w2. formService_UpdateTemplate (the_forms mem_dc_db) ''f1'' demo_patch (demo_dc [demo_form] [] []) = (Inr f, w1) \<and>
     formService_GetTemplate (the_forms mem_dc_db) ''f1'' w1 = (Inr x, w2) \<and> ft_Name x = ''Contact'' \<and>
     ft_Description x = ''new'' \<and> ft_Version x = 2"
proof -
  obtain f w1 x w2 where r: "formService_UpdateTemplate (the_forms mem_dc_db) ''f1'' demo_patch (demo_dc [demo_form] [] []) = (Inr f, w1)"
    "formService_GetTemplate (the_forms mem_dc_db) ''f1'' w1 = (Inr x, w2)" using demo_patch_run by blast
  from update_form_stored [OF mem_dc.dc_db_laws_axioms demo_dc_inv(1) r] have
    "ft_Name x = ''Contact'' \<and> ft_Description x = ''new'' \<and> ft_Version x = 2"
    by (auto simp: demo_dc_def demo_form_def demo_patch_def wrap64_def)
  with r show ?thesis by blast
qed

end
