(* ===== verification/Dc_Docs.thy ===== *)
theory Dc_Docs
  imports Dc_Props
begin

text \<open>
  document-service: what deleting and listing documents do and how large an upload can be, each with a
  run on concrete data where it has hypotheses.
\<close>

section \<open>Deleting a document\<close>

context dc_db_laws
begin

lemma document_Delete_effect:
  assumes "documentRepository_Delete db i v = (r, w')" "distinct (map do_ID (document_rows v))"
  shows "form_rows w' = form_rows v \<and> submission_rows w' = submission_rows v \<and> version_rows w' = version_rows v \<and>
    dw_files w' = dw_files v \<and> (r = None \<longrightarrow> document_rows w' = filter (\<lambda>d. do_ID d \<noteq> i) (document_rows v))"
proof -
  obtain nr t' where c: "mg_DeleteOne (ddb_documents db) (\<lambda>m. do_ID m = i) (dw_documents v) = (nr, t')" by fastforce
  then have w': "w' = v\<lparr>dw_documents := t'\<rparr>" and r: "r = no_match ErrDocumentNotFound nr"
    using assms(1) by (simp_all add: documentRepository_Delete_def on_table_def)
  have "rows t' = filter (\<lambda>d. do_ID d \<noteq> i) (document_rows v)" if "r = None"
  proof -
    from that r obtain n where n: "nr = Inr n" "n \<noteq> 0" by (auto simp: no_match_def split: sum.splits if_splits)
    from documents_c.delete_none [OF c [unfolded n(1)]] n(2)
    obtain xs x ys where x: "document_rows v = xs @ x # ys" "rows t' = xs @ ys" "do_ID x = i" by (auto simp: one_deleted_def)
    have "\<forall>d\<in>set xs \<union> set ys. do_ID d \<noteq> i" using assms(2) x by (auto simp: in_key_image)
    then show ?thesis using x by (simp add: filter_id_conv)
  qed
  then show ?thesis by (simp add: w')
qed

end

text \<open>
  A document that was deleted successfully is no longer stored and every other one is as before;
  its recorded versions stay, and the only file that may be gone is the one named by its storage key,
  which is still there when the file system refused to remove it.
\<close>

theorem delete_document_outcome:
  assumes "dc_db_laws db" "os_laws os" "dc_inv w" "documentService_DeleteDocument (the_documents db os dir) i w = (None, w')"
  shows "document_rows w' = filter (\<lambda>d. do_ID d \<noteq> i) (document_rows w) \<and> version_rows w' = version_rows w \<and>
    (\<exists>d\<in>set (document_rows w). do_ID d = i \<and>
       (fs_files (dw_files w') = fs_files (dw_files w) \<or>
        fs_files (dw_files w') = (fs_files (dw_files w))(filepath_Join [dir, do_StorageKey d] := None)))"
proof -
  obtain fr w1 where f: "documentRepository_FindByID db i w = (fr, w1)" by fastforce
  have same: "dc_data w1 = dc_data w" by (rule keepsD [OF dc_db_laws.keeps_reads(5) [OF assms(1)] f])
  have files: "dw_files w1 = dw_files w" using f by (auto simp: documentRepository_FindByID_def on_table_def split: prod.splits)
  from assms(4) f obtain d where d: "fr = Inr d" by (cases fr) (auto simp: documentService_DeleteDocument_def)
  note d_in = dc_db_laws.found_document [OF assms(1) f [unfolded d]]
  obtain r f' where rm: "os_Remove os (filepath_Join [dir, do_StorageKey d]) (dw_files w) = (r, f')" by fastforce
  have run: "documentRepository_Delete db i (w1\<lparr>dw_files := f'\<rparr>) = (None, w')"
    using assms(4) f d rm by (simp add: documentService_DeleteDocument_def on_files_main files)
  have "fs_files f' = fs_files (dw_files w) \<or> fs_files f' = (fs_files (dw_files w))(filepath_Join [dir, do_StorageKey d] := None)"
    using rm os_laws.remove_ok [OF assms(2)] os_laws.remove_failed [OF assms(2)] by (cases r) auto
  then show ?thesis
    using dc_db_laws.document_Delete_effect [OF assms(1) run] same d_in assms(3)
    by (intro conjI bexI [of _ d]) (simp_all add: dc_inv_def)
qed

definition demo_document :: Document where
  "demo_document = uploaded ''t1'' ''u1'' demo_upload ''d1'' 7"

definition demo_version :: DocumentVersion where
  "demo_version = first_version ''v1'' demo_document"

lemma demo_document_inv: "dc_inv (demo_dc [] [demo_document] [demo_version])"
  by (simp add: dc_inv_def demo_fresh used_ids_def demo_dc_def demo_document_def demo_version_def first_version_def uploaded_def
      document_ok_def demo_upload_def allowedMimeTypes_def maxFileSizeBytes_def counted_def)

lemma demo_delete_run:
  "\<exists>w'. documentService_DeleteDocument (the_documents mem_dc_db mem_os ''/tmp/up'') ''d1'' (demo_dc [] [demo_document] [demo_version]) =
     (None, w')"
  by (simp add: documentService_DeleteDocument_def documentRepository_FindByID_def documentRepository_Delete_def no_docs_def
      no_match_def on_files_main mem_os_def mem_os_call_def dc_eval demo_document_def uploaded_def split: prod.split)

theorem delete_document_outcome_witness:
  "\<exists>w'. documentService_DeleteDocument (the_documents mem_dc_db mem_os ''/tmp/up'') ''d1'' (demo_dc [] [demo_document] [demo_version]) =
     (None, w') \<and> document_rows w' = [] \<and> version_rows w' = [demo_version]"
proof -
  obtain w' where r: "documentService_DeleteDocument (the_documents mem_dc_db mem_os ''/tmp/up'') ''d1''
      (demo_dc [] [demo_document] [demo_version]) = (None, w')" using demo_delete_run by blast
  from delete_document_outcome [OF mem_dc.dc_db_laws_axioms mem_os.os_laws_axioms demo_document_inv r]
  have "document_rows w' = [] \<and> version_rows w' = [demo_version]" by (auto simp: demo_dc_def demo_document_def uploaded_def)
  with r show ?thesis by blast
qed

section \<open>Pages\<close>

lemma wrap64_cong: "x mod 2 ^ 64 = y mod 2 ^ 64 \<Longrightarrow> wrap64 x = wrap64 y"
  unfolding wrap64_def by (metis mod_add_left_eq)

lemma wrap64_mod: "wrap64 a mod 2 ^ 64 = a mod 2 ^ 64"
  unfolding wrap64_def by (simp only: mod_diff_left_eq add_diff_cancel_right')

lemma wrap64_mult: "wrap64 (wrap64 a * b) = wrap64 (a * b)"
  by (rule wrap64_cong) (metis mod_mult_left_eq wrap64_mod)

lemma wrap64_period: "wrap64 (a + 2 ^ 64 * k) = wrap64 a"
  by (rule wrap64_cong) (rule mod_mult_self2)

text \<open>
  The offset of a page is a 64-bit product that wraps around: with four documents to a page, page
  \<open>p + 2^62\<close> is answered with the documents of page \<open>p\<close>.
\<close>

theorem page_wraps:
  "documentRepository_ListByTenant db tenantID (page + 2 ^ 62) 4 w = documentRepository_ListByTenant db tenantID page 4 w"
proof -
  have "(page + 2 ^ 62 - 1) * 4 = (page - 1) * 4 + 2 ^ 64 * 1" by simp
  then have "wrap64 ((page + 2 ^ 62 - 1) * 4) = wrap64 ((page - 1) * 4)" by (simp only: wrap64_period)
  then show ?thesis by (simp only: documentRepository_ListByTenant_def mongo_page_def [abs_def] wrap64_mult Let_def)
qed

context mongo_laws
begin

lemma page_result:
  assumes "mongo_page C P created page limit t = (Inr (ms, cnt), t')"
    and "1 \<le> page" "page \<le> 2 ^ 56" "1 \<le> limit" "limit \<le> 100"
  shows "cnt = int (length (filter P (rows t))) \<and> (\<exists>xs. mset xs = mset (filter P (rows t)) \<and> sorted_by (Desc created) xs \<and>
    ms = page_of (nat page) (nat limit) xs)"
proof -
  let ?off = "(page - 1) * limit"
  have "0 \<le> ?off" "?off \<le> 2 ^ 56 * 100"
    using assms(2-5) mult_mono [of "page - 1" "2 ^ 56" limit 100] by simp_all
  then have wrap: "wrap64 (wrap64 (page - 1) * limit) = ?off" "0 \<le> ?off"
    by (simp_all add: wrap64_mult wrap64_id is_int64_def)
  from assms(1) obtain t1 where c: "mg_CountDocuments C P t = (Inr cnt, t1)"
    and f: "mg_Find C P (Desc created) (Some (?off, limit)) t1 = (Inr ms, t')"
    by (auto simp: mongo_page_def Let_def wrap split: prod.splits sum.splits)
  from find_ok [OF f] wrap(2) assms(4) obtain xs where
    "mset xs = mset (filter P (rows t1))" "sorted_by (Desc created) xs" "ms = window (Some (?off, limit)) xs" by auto
  moreover have "nat ?off = (nat page - 1) * nat limit" using assms(2,4) by (simp add: nat_mult_distrib nat_diff_distrib)
  ultimately show ?thesis using count_rows [OF c] count_ok [OF c] by (auto simp: page_of_def)
qed

end

lemma getPagination_bounds: "getPagination r = (page, limit) \<Longrightarrow> 1 \<le> page \<and> 1 \<le> limit \<and> limit \<le> 100"
  by (auto simp: getPagination_def Let_def split: if_splits)

text \<open>
  A listing of documents answers with the page and limit it used, at most 100, and with that page
  of the documents of the tenant of the request, the newest first, and the number of all of them, for
  pages up to 2^56.
\<close>

theorem list_documents_answer:
  assumes "dc_db_laws db" "Handler_ListDocuments (dc_main db os dir) r w = (resp, w')"
    "rs_body resp = D_documents ds cnt page limit" "page \<le> 2 ^ 56"
  shows "getPagination r = (page, limit) \<and> limit \<le> 100 \<and> int (length ds) \<le> limit \<and>
    cnt = int (length (filter (\<lambda>d. do_TenantID d = getTenantID r) (document_rows w))) \<and>
    (\<exists>xs. mset xs = mset (filter (\<lambda>d. do_TenantID d = getTenantID r) (document_rows w)) \<and>
       sorted_by (Desc do_CreatedAt) xs \<and> ds = page_of (nat page) (nat limit) xs)"
proof -
  obtain p l where pl: "getPagination r = (p, l)" by fastforce
  obtain lr v where run: "documentRepository_ListByTenant db (getTenantID r) p l w = (lr, v)" by fastforce
  have "resp = fst (dc_reply [] StatusOK (\<lambda>(docs, cnt). D_documents docs cnt p l) (lr, v))"
    using assms(2) pl run by (auto simp: Handler_ListDocuments_def documentService_ListDocuments_def)
  with assms(3) have lr: "lr = Inr (ds, cnt)" "p = page" "l = limit"
    by (cases lr; auto simp: dc_writeError_def)+
  note bounds = getPagination_bounds [OF pl, unfolded lr(2,3)]
  from run lr obtain t' where "mongo_page (ddb_documents db) (\<lambda>m. do_TenantID m = getTenantID r) do_CreatedAt page limit (dw_documents w) =
      (Inr (ds, cnt), t')" by (auto simp: documentRepository_ListByTenant_def on_table_def Let_def split: prod.splits)
  from mongo_laws.page_result [OF dc_db_laws.documents_laws [OF assms(1)] this] bounds assms(4) obtain xs where
    xs: "cnt = int (length (filter (\<lambda>d. do_TenantID d = getTenantID r) (document_rows w)))"
      "mset xs = mset (filter (\<lambda>d. do_TenantID d = getTenantID r) (document_rows w))" "sorted_by (Desc do_CreatedAt) xs"
      "ds = page_of (nat page) (nat limit) xs" by auto
  moreover have "int (length ds) \<le> limit" using page_of_length [of "nat page" "nat limit" xs] bounds by (simp add: xs(4) nat_le_iff le_nat_iff)
  ultimately show ?thesis using pl lr bounds by auto
qed

lemma demo_page: "getPagination (demo_dc_request meth) = (1, 20)"
  by (simp add: getPagination_def demo_dc_request_def strconv_Atoi_def)

theorem list_documents_answer_witness:
  "\<exists>resp w'. Handler_ListDocuments (dc_main mem_dc_db mem_os ''/tmp/up'') (demo_dc_request ''GET'')
       (demo_dc [] [demo_document] [demo_version]) = (resp, w') \<and> rs_body resp = D_documents [demo_document] 1 1 20"
proof -
  let ?h = "Handler_ListDocuments (dc_main mem_dc_db mem_os ''/tmp/up'') (demo_dc_request ''GET'') (demo_dc [] [demo_document] [demo_version])"
  have "\<exists>ds. rs_body (fst ?h) = D_documents ds 1 1 20"
    by (simp add: Handler_ListDocuments_def documentService_ListDocuments_def demo_page)
      (simp add: documentRepository_ListByTenant_def mongo_page_def dc_eval wrap64_def getTenantID_def demo_dc_request_def
        demo_document_def uploaded_def)
  then obtain resp w' ds where r: "?h = (resp, w')" "rs_body resp = D_documents ds 1 1 20" by (metis prod.collapse)
  from list_documents_answer [OF mem_dc.dc_db_laws_axioms r] have "ds = [demo_document]"
    by (auto simp: demo_dc_def demo_dc_request_def getTenantID_def demo_document_def uploaded_def page_of_def)
  with r show ?thesis by blast
qed

section \<open>The size of an upload\<close>

text \<open>The contents of the parts are among the bytes the parser reads.\<close>

definition multipart_ok :: "nat \<times> part list \<Rightarrow> bool" where
  "multipart_ok m \<longleftrightarrow> list_all (\<lambda>p. case pt_Content p of None \<Rightarrow> True | Some c \<Rightarrow> length c \<le> fst m) (snd m)"

text \<open>
  A file of more than 50 MB is answered with 400, never with 413, and changes nothing; a file that
  gets past the limit of the handler is never refused by the limit of the service.
\<close>

theorem oversized_upload:
  assumes "rq_Multipart r = Some m" "multipart_ok m" "form_file (snd m) ''file'' = Some p" "pt_Content p = Some c"
  shows "if maxFileSizeBytes < int (length c)
    then rs_status (fst (Handler_UploadDocument h r w)) = StatusBadRequest \<and> snd (Handler_UploadDocument h r w) = w
    else \<not> maxFileSizeBytes < upl_SizeBytes (upload_of p c cid)"
proof -
  have "p \<in> set (snd m)" using assms(3) by (auto simp: form_file_def find_Some_iff)
  with assms(2,4) have "length c \<le> fst m" by (auto simp: multipart_ok_def list_all_iff)
  then show ?thesis
    using assms by (auto simp: Handler_UploadDocument_def dc_writeError_def maxUploadSize_def maxFileSizeBytes_def upload_of_def
        split: prod.split)
qed

definition big_file :: part where
  "big_file = \<lparr>pt_name = ''file'', pt_filename = ''a.pdf'', pt_ContentType = ''application/pdf'',
     pt_Content = Some (replicate 52428801 (CHR ''x''))\<rparr>"

theorem oversized_upload_witness:
  "rs_status (fst (Handler_UploadDocument (dc_main mem_dc_db mem_os ''/tmp/up'')
     ((demo_dc_request ''POST'')\<lparr>rq_Multipart := Some (52428900, [big_file])\<rparr>) (demo_dc [] [] []))) = StatusBadRequest"
  using oversized_upload [of "(demo_dc_request ''POST'')\<lparr>rq_Multipart := Some (52428900, [big_file])\<rparr>" "(52428900, [big_file])" big_file
      "replicate 52428801 (CHR ''x'')" "dc_main mem_dc_db mem_os ''/tmp/up''" "demo_dc [] [] []"]
  by (simp add: multipart_ok_def form_file_def big_file_def maxFileSizeBytes_def)

end
