(* ===== verification/Nt_Domain.thy ===== *)
theory Nt_Domain
  imports Decode
begin

text \<open>notification-service: the data of \<open>internal/domain\<close> and the interfaces of \<open>internal/ports\<close>.\<close>

section \<open>Notifications\<close>

type_synonym NotificationType = string

definition NotificationTypeInfo :: NotificationType where "NotificationTypeInfo = ''info''"
definition NotificationTypeWarning :: NotificationType where "NotificationTypeWarning = ''warning''"
definition NotificationTypeError :: NotificationType where "NotificationTypeError = ''error''"
definition NotificationTypeSuccess :: NotificationType where "NotificationTypeSuccess = ''success''"

type_synonym NotificationChannel = string

definition ChannelInApp :: NotificationChannel where "ChannelInApp = ''in_app''"
definition ChannelEmail :: NotificationChannel where "ChannelEmail = ''email''"
definition ChannelSMS :: NotificationChannel where "ChannelSMS = ''sms''"

record Notification =
  nf_ID :: string
  nf_TenantID :: string
  nf_UserID :: string
  nf_Type :: NotificationType
  nf_Title :: string
  nf_Body :: string
  nf_Channel :: NotificationChannel
  nf_Read :: bool
  nf_ReadAt :: "time option"
  nf_Metadata :: "(string \<times> string) list option"
  nf_CreatedAt :: time

section \<open>Audit events\<close>

record AuditEvent =
  ae_ID :: string
  ae_TenantID :: string
  ae_ActorID :: string
  ae_ActorEmail :: string
  ae_Action :: string
  ae_Resource :: string
  ae_ResourceID :: string
  ae_OldValue :: "(string \<times> json) list option"
  ae_NewValue :: "(string \<times> json) list option"
  ae_IPAddress :: string
  ae_UserAgent :: string
  ae_Timestamp :: time

definition ErrNotificationNotFound :: goerr where "ErrNotificationNotFound = Sentinel ''notification not found''"
definition ErrAuditEventNotFound :: goerr where "ErrAuditEventNotFound = Sentinel ''audit event not found''"
definition nt_ErrInvalidInput :: goerr where "nt_ErrInvalidInput = Sentinel ''invalid input''"

lemmas nt_error_defs = ErrNotificationNotFound_def ErrAuditEventNotFound_def nt_ErrInvalidInput_def

section \<open>Ports\<close>

record SendNotificationRequest =
  snr_TenantID :: string
  snr_UserID :: string
  snr_Type :: NotificationType
  snr_Title :: string
  snr_Body :: string
  snr_Channel :: NotificationChannel
  snr_Metadata :: "(string \<times> string) list option"

record RecordAuditRequest =
  rar_TenantID :: string
  rar_ActorID :: string
  rar_ActorEmail :: string
  rar_Action :: string
  rar_Resource :: string
  rar_ResourceID :: string
  rar_OldValue :: "(string \<times> json) list option"
  rar_NewValue :: "(string \<times> json) list option"
  rar_IPAddress :: string
  rar_UserAgent :: string

record AuditFilter =
  aft_ActorID :: "string option"
  aft_Action :: "string option"
  aft_Resource :: "string option"
  aft_ResourceID :: "string option"
  aft_From :: "time option"
  aft_To :: "time option"

text \<open>The two listings take a slice of what they read, and may panic.\<close>

record 'w NotificationRepository =
  nr_Create :: "Notification \<Rightarrow> 'w act_err"
  nr_FindByID :: "string \<Rightarrow> string \<Rightarrow> ('w, Notification) act"
  nr_ListByUser :: "string \<Rightarrow> string \<Rightarrow> int \<Rightarrow> int \<Rightarrow> 'w \<Rightarrow> (goerr + Notification list \<times> int) outcome \<times> 'w"
  nr_MarkRead :: "string \<Rightarrow> string \<Rightarrow> 'w act_err"
  nr_MarkAllRead :: "string \<Rightarrow> string \<Rightarrow> 'w act_err"
  nr_Delete :: "string \<Rightarrow> string \<Rightarrow> 'w act_err"

record 'w AuditRepository =
  ar_Record :: "AuditEvent \<Rightarrow> 'w act_err"
  ar_FindByID :: "string \<Rightarrow> string \<Rightarrow> ('w, AuditEvent) act"
  ar_Query :: "string \<Rightarrow> AuditFilter \<Rightarrow> int \<Rightarrow> int \<Rightarrow> 'w \<Rightarrow> (goerr + AuditEvent list \<times> int) outcome \<times> 'w"

record 'w NotificationService =
  nsv_Send :: "SendNotificationRequest \<Rightarrow> ('w, Notification) act"
  nsv_SendBulk :: "SendNotificationRequest list \<Rightarrow> 'w act_err"
  nsv_GetNotification :: "string \<Rightarrow> string \<Rightarrow> ('w, Notification) act"
  nsv_ListForUser :: "string \<Rightarrow> string \<Rightarrow> int \<Rightarrow> int \<Rightarrow> 'w \<Rightarrow> (goerr + Notification list \<times> int) outcome \<times> 'w"
  nsv_MarkRead :: "string \<Rightarrow> string \<Rightarrow> 'w act_err"
  nsv_MarkAllRead :: "string \<Rightarrow> string \<Rightarrow> 'w act_err"
  nsv_Dismiss :: "string \<Rightarrow> string \<Rightarrow> 'w act_err"

record 'w AuditService =
  asv_Record :: "RecordAuditRequest \<Rightarrow> ('w, AuditEvent) act"
  asv_GetEvent :: "string \<Rightarrow> string \<Rightarrow> ('w, AuditEvent) act"
  asv_QueryEvents :: "string \<Rightarrow> AuditFilter \<Rightarrow> int \<Rightarrow> int \<Rightarrow> 'w \<Rightarrow> (goerr + AuditEvent list \<times> int) outcome \<times> 'w"

end
