(* ===== verification/Dynamo.thy ===== *)
theory Dynamo
  imports Gorm Decode "HOL-Library.AList"
begin

text \<open>
  The AWS client and DynamoDB are not code of this repository: a table is a parameter, a record of the
  calls the repositories make on it. The locale \<open>dyn_laws\<close> states the documented behaviour the
  repositories rely on; the expressions of a query and of an update are the texts the code builds,
  with a small evaluator for the fragment it uses. \<open>mem_dyn\<close> is an executable table that satisfies
  the laws.
\<close>

section \<open>Items and tables\<close>

datatype av =
    AvS string
  | AvN string
  | AvBOOL bool
  | AvNULL
  | AvM "(string \<times> av) list"
  | AvL "av list"

type_synonym item = "string \<Rightarrow> av option"
type_synonym dyn_key = "string \<times> string"
type_synonym dyn_tbl = "(dyn_key \<times> item) tbl"

abbreviation stored :: "dyn_tbl \<Rightarrow> dyn_key \<Rightarrow> item option" where
  "stored t \<equiv> map_of (rows t)"

text \<open>The key of an item: the values of the two key attributes, which are strings.\<close>

definition item_key :: "string \<Rightarrow> string \<Rightarrow> item \<Rightarrow> dyn_key option" where
  "item_key pk sk it = (case (it pk, it sk) of (Some (AvS a), Some (AvS b)) \<Rightarrow> Some (a, b) | _ \<Rightarrow> None)"

record query_input =
  qi_KeyConditionExpression :: string
  qi_FilterExpression :: "string option"
  qi_ExpressionAttributeNames :: "(string \<times> string) list"
  qi_ExpressionAttributeValues :: "(string \<times> av) list"

record update_input =
  ui_UpdateExpression :: string
  ui_ExpressionAttributeNames :: "(string \<times> string) list"
  ui_ExpressionAttributeValues :: "(string \<times> av) list"

text \<open>A query also says whether it stopped before the end (\<open>LastEvaluatedKey\<close> is set).\<close>

record dyn_client =
  dy_PutItem :: "item \<Rightarrow> dyn_tbl \<Rightarrow> goerr option \<times> dyn_tbl"
  dy_GetItem :: "item \<Rightarrow> dyn_tbl \<Rightarrow> (goerr + item option) \<times> dyn_tbl"
  dy_Query :: "query_input \<Rightarrow> dyn_tbl \<Rightarrow> (goerr + item list \<times> bool) \<times> dyn_tbl"
  dy_UpdateItem :: "item \<Rightarrow> update_input \<Rightarrow> dyn_tbl \<Rightarrow> goerr option \<times> dyn_tbl"
  dy_DeleteItem :: "item \<Rightarrow> dyn_tbl \<Rightarrow> goerr option \<times> dyn_tbl"

section \<open>Expressions\<close>

definition token :: "string \<Rightarrow> string list" where
  "token acc = (if acc = [] then [] else [acc])"

fun tokens :: "string \<Rightarrow> string \<Rightarrow> string list" where
  "tokens acc [] = token acc"
| "tokens acc (c # cs) =
     (if c = CHR '' '' then token acc @ tokens [] cs
      else if c = CHR '','' then token acc @ [c] # tokens [] cs
      else tokens (acc @ [c]) cs)"

lemma tokens_space: "tokens acc (s @ CHR '' '' # r) = tokens acc s @ tokens [] r"
  by (induction acc s rule: tokens.induct) simp_all

text \<open>A name is an attribute, or with \<open>#\<close> a reference to one; a value is always a reference.\<close>

definition attribute_name :: "(string \<times> string) list \<Rightarrow> string \<Rightarrow> string option" where
  "attribute_name names a = (if take 1 a = ''#'' then map_of names a else Some a)"

text \<open>
  A comparison with an attribute the item does not have, or whose value is of another type, is false.
  Numbers are not ordered here.
\<close>

fun compares :: "string \<Rightarrow> av \<Rightarrow> av \<Rightarrow> bool option" where
  "compares rel (AvS a) (AvS b) =
     (if rel = ''='' then Some (a = b) else if rel = ''<='' then Some (a \<le> b)
      else if rel = ''>='' then Some (b \<le> a) else None)"
| "compares rel (AvN a) (AvN b) = None"
| "compares rel a b = (if rel = ''='' then Some (a = b) else None)"

definition comparison :: "(string \<times> string) list \<Rightarrow> (string \<times> av) list \<Rightarrow> string \<Rightarrow> string \<Rightarrow> string \<Rightarrow> item \<Rightarrow> bool option" where
  "comparison names values a rel v it =
     (case (attribute_name names a, map_of values v) of
        (Some x, Some y) \<Rightarrow> (case it x of None \<Rightarrow> Some False | Some z \<Rightarrow> compares rel z y)
      | _ \<Rightarrow> None)"

fun condition :: "(string \<times> string) list \<Rightarrow> (string \<times> av) list \<Rightarrow> string list \<Rightarrow> item \<Rightarrow> bool option" where
  "condition names values [a, rel, v] it = comparison names values a rel v it"
| "condition names values (a # rel # v # k # ts) it =
     (if k \<noteq> ''AND'' then None
      else case (comparison names values a rel v it, condition names values ts it) of
        (Some p, Some q) \<Rightarrow> Some (p \<and> q) | _ \<Rightarrow> None)"
| "condition names values _ it = None"

definition query_keys :: "query_input \<Rightarrow> item \<Rightarrow> bool option" where
  "query_keys q = condition (qi_ExpressionAttributeNames q) (qi_ExpressionAttributeValues q)
     (tokens [] (qi_KeyConditionExpression q))"

definition query_filter :: "query_input \<Rightarrow> item \<Rightarrow> bool option" where
  "query_filter q it =
     (case qi_FilterExpression q of None \<Rightarrow> Some True
      | Some f \<Rightarrow> condition (qi_ExpressionAttributeNames q) (qi_ExpressionAttributeValues q) (tokens [] f) it)"

text \<open>\<open>SET a = :v, b = :w\<close>\<close>

fun assignments :: "(string \<times> string) list \<Rightarrow> (string \<times> av) list \<Rightarrow> string list \<Rightarrow> item \<Rightarrow> item option" where
  "assignments names values (a # eq # v # ts) it =
     (case (attribute_name names a, map_of values v) of
        (Some x, Some y) \<Rightarrow>
          if eq \<noteq> ''='' then None
          else (case ts of [] \<Rightarrow> Some (it(x \<mapsto> y))
            | k # ts' \<Rightarrow> if k = '','' then assignments names values ts' (it(x \<mapsto> y)) else None)
      | _ \<Rightarrow> None)"
| "assignments names values _ it = None"

definition updated :: "update_input \<Rightarrow> item \<Rightarrow> item option" where
  "updated u it =
     (case tokens [] (ui_UpdateExpression u) of
        k # ts \<Rightarrow> if k = ''SET''
          then assignments (ui_ExpressionAttributeNames u) (ui_ExpressionAttributeValues u) ts it else None
      | [] \<Rightarrow> None)"

section \<open>The documented behaviour\<close>

text \<open>
  A read is eventually consistent: it answers from a replica, \<open>seen\<close>, which need not be up to date.
  An update of an item that does not exist makes one with the key attributes. A write that reports an
  error may have been applied or not. A query reads items that satisfy the key condition in the order
  of the sort key, all of them or, when it says so, the first ones only, and then drops those that do
  not satisfy the filter.
\<close>

locale dyn_laws =
  fixes C :: dyn_client and pk sk :: string and seen :: "dyn_tbl \<Rightarrow> dyn_key \<Rightarrow> item option"
  assumes put: "dy_PutItem C it t = (r, t') \<Longrightarrow>
      (\<exists>k. item_key pk sk it = Some k \<and> stored t' = (stored t)(k \<mapsto> it)) \<or> r \<noteq> None \<and> stored t' = stored t"
    and get_stored: "dy_GetItem C key t = (gr, t') \<Longrightarrow> stored t' = stored t"
    and get_ok: "dy_GetItem C key t = (Inr found, t') \<Longrightarrow> item_key pk sk key = Some k \<Longrightarrow> found = seen t k"
    and query_stored: "dy_Query C q t = (qr, t') \<Longrightarrow> stored t' = stored t"
    and query_ok: "dy_Query C q t = (Inr (its, trunc), t') \<Longrightarrow>
      (\<forall>it. query_keys q it \<noteq> None \<and> query_filter q it \<noteq> None) \<Longrightarrow>
      \<exists>ks. distinct ks \<and> sorted (map snd ks) \<and>
        (\<forall>k\<in>set ks. \<exists>it. seen t k = Some it \<and> query_keys q it = Some True) \<and>
        (\<not> trunc \<longrightarrow> (\<forall>k it. seen t k = Some it \<and> query_keys q it = Some True \<longrightarrow> k \<in> set ks)) \<and>
        its = filter (\<lambda>it. query_filter q it = Some True) (map (\<lambda>k. the (seen t k)) ks)"
    and update: "dy_UpdateItem C key u t = (r, t') \<Longrightarrow>
      (\<exists>k it. item_key pk sk key = Some k \<and>
         updated u (case stored t k of None \<Rightarrow> key | Some x \<Rightarrow> x) = Some it \<and> stored t' = (stored t)(k \<mapsto> it))
      \<or> r \<noteq> None \<and> stored t' = stored t"
    and delete: "dy_DeleteItem C key t = (r, t') \<Longrightarrow>
      (\<exists>k. item_key pk sk key = Some k \<and> stored t' = (stored t)(k := None)) \<or> r \<noteq> None \<and> stored t' = stored t"
    and seen_key: "seen t k = Some it \<Longrightarrow> item_key pk sk it = Some k"
begin

lemma put_ok: "dy_PutItem C it t = (None, t') \<Longrightarrow> item_key pk sk it = Some k \<Longrightarrow> stored t' = (stored t)(k \<mapsto> it)"
  using put by fastforce

lemma query_item:
  assumes "dy_Query C q t = (Inr (its, trunc), t')" "\<forall>it. query_keys q it \<noteq> None \<and> query_filter q it \<noteq> None" "it \<in> set its"
  shows "query_keys q it = Some True \<and> query_filter q it = Some True \<and> (\<exists>k. seen t k = Some it)"
  using query_ok [OF assms(1,2)] assms(3) by fastforce

lemma delete_cases:
  "dy_DeleteItem C key t = (r, t') \<Longrightarrow> item_key pk sk key = Some k \<Longrightarrow>
    stored t' = (stored t)(k := None) \<or> r \<noteq> None \<and> stored t' = stored t"
  using delete by fastforce

end

section \<open>A reference table\<close>

text \<open>It keeps one replica, which is up to date, and a query reads at most \<open>n\<close> items.\<close>

definition mem_seen :: "string \<Rightarrow> string \<Rightarrow> dyn_tbl \<Rightarrow> dyn_key \<Rightarrow> item option" where
  "mem_seen pk sk t k =
     (case stored t k of None \<Rightarrow> None | Some it \<Rightarrow> if item_key pk sk it = Some k then Some it else None)"

definition validation_error :: goerr where
  "validation_error = Foreign ''ValidationException''"

definition mem_update :: "dyn_key option \<Rightarrow> item \<Rightarrow> update_input \<Rightarrow> (dyn_key \<times> item) list \<Rightarrow> goerr + (dyn_key \<times> item) list" where
  "mem_update key it u rs =
     (case key of None \<Rightarrow> Inl validation_error
      | Some k \<Rightarrow> (case updated u (case map_of rs k of None \<Rightarrow> it | Some x \<Rightarrow> x) of
          None \<Rightarrow> Inl validation_error | Some x \<Rightarrow> Inr (AList.update k x rs)))"

definition mem_keys :: "string \<Rightarrow> string \<Rightarrow> query_input \<Rightarrow> dyn_tbl \<Rightarrow> dyn_key list" where
  "mem_keys pk sk q t =
     sort_key snd (filter (\<lambda>k. case mem_seen pk sk t k of None \<Rightarrow> False | Some it \<Rightarrow> query_keys q it = Some True)
       (remdups (map fst (rows t))))"

definition mem_query :: "string \<Rightarrow> string \<Rightarrow> nat \<Rightarrow> query_input \<Rightarrow> dyn_tbl \<Rightarrow> (goerr + item list \<times> bool) \<times> dyn_tbl" where
  "mem_query pk sk n q t =
     (if mem_fault t then (Inl bad_connection, mem_tick t)
      else let ks = mem_keys pk sk q t in
        (Inr (filter (\<lambda>it. query_filter q it = Some True) (map (\<lambda>k. the (mem_seen pk sk t k)) (take n ks)), n < length ks),
         mem_tick t))"

definition mem_dyn :: "string \<Rightarrow> string \<Rightarrow> nat \<Rightarrow> dyn_client" where
  "mem_dyn pk sk n =
     \<lparr>dy_PutItem = (\<lambda>it. mem_write (\<lambda>rs. case item_key pk sk it of None \<Rightarrow> Inl validation_error
        | Some k \<Rightarrow> Inr (AList.update k it rs))),
      dy_GetItem = (\<lambda>key t. if mem_fault t then (Inl bad_connection, mem_tick t)
        else (case item_key pk sk key of None \<Rightarrow> Inl validation_error | Some k \<Rightarrow> Inr (mem_seen pk sk t k), mem_tick t)),
      dy_Query = mem_query pk sk n,
      dy_UpdateItem = (\<lambda>key u. mem_write (mem_update (item_key pk sk key) key u)),
      dy_DeleteItem = (\<lambda>key. mem_write (\<lambda>rs. case item_key pk sk key of None \<Rightarrow> Inl validation_error
        | Some k \<Rightarrow> Inr (AList.delete k rs)))\<rparr>"

lemma mem_updateD:
  assumes "mem_update key it u rs = Inr rs'"
  shows "\<exists>k x. key = Some k \<and> updated u (case map_of rs k of None \<Rightarrow> it | Some y \<Rightarrow> y) = Some x \<and>
    map_of rs' = (map_of rs)(k \<mapsto> x)"
proof (cases key)
  case (Some k)
  with assms show ?thesis
    by (cases "updated u (case map_of rs k of None \<Rightarrow> it | Some y \<Rightarrow> y)") (auto simp: mem_update_def update_conv')
qed (use assms in \<open>simp add: mem_update_def\<close>)

lemma mem_seen_SomeD: "mem_seen pk sk t k = Some it \<Longrightarrow> stored t k = Some it \<and> item_key pk sk it = Some k"
  by (auto simp: mem_seen_def split: option.splits if_splits)

lemma mem_seen_tick: "mem_seen pk sk t k = Some it \<Longrightarrow> k \<in> fst ` set (rows t)"
  using mem_seen_SomeD [of pk sk t k it] by (metis domI dom_map_of_conv_image_fst)

lemma set_mem_keys:
  "set (mem_keys pk sk q t) = {k. \<exists>it. mem_seen pk sk t k = Some it \<and> query_keys q it = Some True}"
  by (auto simp: mem_keys_def dest: mem_seen_tick split: option.splits)

lemma sorted_mem_keys: "distinct (mem_keys pk sk q t)" "sorted (map snd (mem_keys pk sk q t))"
  by (simp_all add: mem_keys_def)

lemma mem_query_laws:
  assumes "mem_query pk sk n q t = (Inr (its, trunc), t')"
  shows "\<exists>ks. distinct ks \<and> sorted (map snd ks) \<and>
    (\<forall>k\<in>set ks. \<exists>it. mem_seen pk sk t k = Some it \<and> query_keys q it = Some True) \<and>
    (\<not> trunc \<longrightarrow> (\<forall>k it. mem_seen pk sk t k = Some it \<and> query_keys q it = Some True \<longrightarrow> k \<in> set ks)) \<and>
    its = filter (\<lambda>it. query_filter q it = Some True) (map (\<lambda>k. the (mem_seen pk sk t k)) ks)"
proof (intro exI conjI)
  let ?ks = "take n (mem_keys pk sk q t)"
  show "distinct ?ks" "sorted (map snd ?ks)" using sorted_mem_keys [of pk sk q t] by (auto simp: sorted_wrt_take take_map [symmetric])
  have "set ?ks \<subseteq> set (mem_keys pk sk q t)" by (rule set_take_subset)
  then show "\<forall>k\<in>set ?ks. \<exists>it. mem_seen pk sk t k = Some it \<and> query_keys q it = Some True"
    unfolding set_mem_keys by blast
  show "\<not> trunc \<longrightarrow> (\<forall>k it. mem_seen pk sk t k = Some it \<and> query_keys q it = Some True \<longrightarrow> k \<in> set ?ks)"
  proof (intro impI allI)
    fix k it assume "\<not> trunc" "mem_seen pk sk t k = Some it \<and> query_keys q it = Some True"
    then have "?ks = mem_keys pk sk q t" "k \<in> set (mem_keys pk sk q t)"
      using assms by (auto simp: mem_query_def Let_def set_mem_keys split: if_splits)
    then show "k \<in> set ?ks" by simp
  qed
  show "its = filter (\<lambda>it. query_filter q it = Some True) (map (\<lambda>k. the (mem_seen pk sk t k)) ?ks)"
    using assms by (auto simp: mem_query_def Let_def split: if_splits)
qed

interpretation mem_dyn: dyn_laws "mem_dyn pk sk n" pk sk "mem_seen pk sk" for pk sk n
proof (unfold_locales, goal_cases)
  case (1 it t r t')
  then show ?case by (auto simp: mem_dyn_def mem_write_def update_conv' split: if_splits option.splits)
next
  case (5 q t its trunc t')
  then show ?case using mem_query_laws [of pk sk n q t its trunc t'] by (simp add: mem_dyn_def)
next
  case (6 key u t r t')
  then have "(\<exists>rs. mem_update (item_key pk sk key) key u (rows t) = Inr rs \<and> rows t' = rs) \<or> r \<noteq> None \<and> rows t' = rows t"
    by (auto simp: mem_dyn_def mem_write_def split: if_splits sum.splits)
  then show ?case using mem_updateD by metis
next
  case (7 key t r t')
  then show ?case by (auto simp: mem_dyn_def mem_write_def delete_conv' split: if_splits option.splits)
next
  case (8 t k it)
  then show ?case by (simp add: mem_seen_SomeD)
qed (auto simp: mem_dyn_def mem_query_def Let_def split: if_splits option.splits)

end
