(* ===== verification/Rfc3339.thy ===== *)
theory Rfc3339
  imports GoStd
begin

text \<open>
  Package \<open>time\<close>, as far as the repositories use it: the calendar, \<open>Format\<close> and \<open>Parse\<close> with the layout
  \<open>time.RFC3339\<close>. An instant is a number of nanoseconds since the epoch; it is written in UTC. The
  result is \<open>rfc3339_roundtrip\<close>: a text \<open>Format\<close> writes is read back as the instant without its
  fraction of a second.
\<close>

section \<open>The calendar\<close>

definition is_leap :: "int \<Rightarrow> bool" where
  "is_leap y \<longleftrightarrow> y mod 4 = 0 \<and> (y mod 100 \<noteq> 0 \<or> y mod 400 = 0)"

definition month_lengths :: "int \<Rightarrow> int list" where
  "month_lengths y = [31, if is_leap y then 29 else 28, 31, 30, 31, 30, 31, 31, 30, 31, 30, 31]"

text \<open>Days since 1 January of the year 1.\<close>

definition days_before_year :: "int \<Rightarrow> int" where
  "days_before_year y = 365 * (y - 1) + (y - 1) div 4 - (y - 1) div 100 + (y - 1) div 400"

definition days_of_date :: "int \<Rightarrow> int \<Rightarrow> int \<Rightarrow> int" where
  "days_of_date y m d = days_before_year y + sum_list (take (nat (m - 1)) (month_lengths y)) + d - 1"

text \<open>The year of a day by cycles of 400, 100 and 4 years; the last year of a cycle may be a day longer.\<close>

definition year_of_days :: "int \<Rightarrow> int \<times> int" where
  "year_of_days n =
     (let a = n div 146097; r = n mod 146097;
          b = min 3 (r div 36524); r' = r - 36524 * b;
          c = r' div 1461; r'' = r' mod 1461;
          e = min 3 (r'' div 365)
      in (400 * a + 100 * b + 4 * c + e + 1, r'' - 365 * e))"

fun month_of_day :: "int list \<Rightarrow> int \<Rightarrow> int \<Rightarrow> int \<times> int" where
  "month_of_day [] m d = (m, d + 1)"
| "month_of_day (l # ls) m d = (if d < l then (m, d + 1) else month_of_day ls (m + 1) (d - l))"

definition date_of_days :: "int \<Rightarrow> int \<times> int \<times> int" where
  "date_of_days n = (let (y, yday) = year_of_days n; (m, d) = month_of_day (month_lengths y) 1 yday in (y, m, d))"

lemma year_of_days_spec:
  assumes "year_of_days n = (y, yday)"
  shows "n = days_before_year y + yday" "0 \<le> yday" "yday < (if is_leap y then 366 else 365)"
proof -
  define a r b r' c r'' e where d: "a = n div 146097" "r = n mod 146097" "b = min 3 (r div 36524)"
    "r' = r - 36524 * b" "c = r' div 1461" "r'' = r' mod 1461" "e = min 3 (r'' div 365)"
  have "year_of_days n = (400 * a + 100 * b + 4 * c + e + 1, r'' - 365 * e)"
    by (simp only: year_of_days_def Let_def d)
  with assms have y: "y = 400 * a + 100 * b + 4 * c + e + 1" "yday = r'' - 365 * e" by simp_all
  have n: "n = 146097 * a + 36524 * b + 1461 * c + r''" unfolding d by (simp add: algebra_simps)
  have r: "0 \<le> r" "r < 146097" unfolding d by simp_all
  then have b: "0 \<le> b" "b \<le> 3" "0 \<le> r'" "r' \<le> 36524" "b < 3 \<Longrightarrow> r' < 36524" unfolding d(3,4) by linarith+
  have r'': "0 \<le> r''" "r'' < 1461" unfolding d(6) by simp_all
  have c: "0 \<le> c" "c \<le> 24" "r' = 1461 * c + r''" unfolding d(5,6) using b by (linarith, linarith, simp)
  have e: "0 \<le> e" "e \<le> 3" "0 \<le> r'' - 365 * e" "r'' - 365 * e \<le> 365" "e < 3 \<Longrightarrow> r'' - 365 * e < 365"
    unfolding d(7) using r'' by linarith+
  have q: "(y - 1) div 4 = 100 * a + 25 * b + c" "(y - 1) div 100 = 4 * a + b" "(y - 1) div 400 = a"
    unfolding y(1) using b(1,2) c(1,2) e(1,2) by linarith+
  have "days_before_year y = 365 * (y - 1) + (100 * a + 25 * b + c) - (4 * a + b) + a"
    by (simp only: days_before_year_def q)
  also have "\<dots> = 146097 * a + 36524 * b + 1461 * c + 365 * e" unfolding y(1) by (simp add: algebra_simps)
  finally show "n = days_before_year y + yday" using n y(2) by simp
  show "0 \<le> yday" using e y(2) by simp
  have "is_leap y" if "yday = 365"
  proof -
    from that y(2) e have e3: "e = 3" "r'' = 1460" by force+
    with c b have "c < 24 \<or> b = 3" by (cases "b < 3") linarith+
    have y4: "y = 4 * (100 * a + 25 * b + c + 1)" and y100: "y = 4 * (c + 1) + 100 * (4 * a + b)"
      using e3 y(1) by simp_all
    have "y mod 4 = 0" unfolding y4 by simp
    moreover have "y mod 100 = 4 * (c + 1) mod 100" unfolding y100 by (rule mod_mult_self2)
    moreover have "y mod 400 = 0" if "c = 24" "b = 3"
    proof -
      from that y100 have "y = 400 * (a + 1)" by simp
      then show ?thesis by simp
    qed
    ultimately show ?thesis using \<open>c < 24 \<or> b = 3\<close> c(1,2)
      by (cases "c < 24") (simp_all add: is_leap_def)
  qed
  then show "yday < (if is_leap y then 366 else 365)" using e(4) y(2) by (cases "yday = 365") auto
qed

lemma month_of_day_spec:
  assumes "month_of_day ls m0 n = (m, d)" "0 \<le> n" "n < sum_list ls"
  shows "m0 \<le> m \<and> nat (m - m0) < length ls \<and> 1 \<le> d \<and> d \<le> ls ! nat (m - m0) \<and>
    n = sum_list (take (nat (m - m0)) ls) + d - 1"
  using assms
proof (induction ls m0 n rule: month_of_day.induct)
  case (2 l ls m0 n)
  show ?case
  proof (cases "n < l")
    case False
    with 2 have IH: "m0 + 1 \<le> m \<and> nat (m - (m0 + 1)) < length ls \<and> 1 \<le> d \<and> d \<le> ls ! nat (m - (m0 + 1)) \<and>
        n - l = sum_list (take (nat (m - (m0 + 1))) ls) + d - 1"
      by (intro "2.IH") auto
    then have "nat (m - m0) = Suc (nat (m - (m0 + 1)))" by linarith
    with IH show ?thesis by simp
  qed (use 2 in auto)
qed simp

lemma date_of_days_spec:
  assumes "date_of_days n = (y, m, d)"
  shows "1 \<le> m" "m \<le> 12" "1 \<le> d" "d \<le> month_lengths y ! nat (m - 1)" "days_of_date y m d = n"
proof -
  obtain yday where y: "year_of_days n = (y, yday)" and m: "month_of_day (month_lengths y) 1 yday = (m, d)"
    using assms by (auto simp: date_of_days_def split: prod.splits)
  have "sum_list (month_lengths y) = (if is_leap y then 366 else 365)" by (simp add: month_lengths_def)
  with month_of_day_spec [OF m] year_of_days_spec [OF y]
  have *: "1 \<le> m \<and> nat (m - 1) < length (month_lengths y) \<and> 1 \<le> d \<and> d \<le> month_lengths y ! nat (m - 1) \<and>
    yday = sum_list (take (nat (m - 1)) (month_lengths y)) + d - 1" by simp
  then show "1 \<le> m" "1 \<le> d" "d \<le> month_lengths y ! nat (m - 1)" by simp_all
  from * have "nat (m - 1) < 12" by (simp add: month_lengths_def)
  then show "m \<le> 12" by linarith
  from * year_of_days_spec(1) [OF y] show "days_of_date y m d = n" by (simp add: days_of_date_def)
qed

lemma month_lengths_le: "1 \<le> m \<Longrightarrow> m \<le> 12 \<Longrightarrow> month_lengths y ! nat (m - 1) \<le> 31"
proof -
  assume "1 \<le> m" "m \<le> 12"
  then have "month_lengths y ! nat (m - 1) \<in> set (month_lengths y)" by (intro nth_mem) (simp add: month_lengths_def)
  then show ?thesis by (auto simp: month_lengths_def split: if_splits)
qed


section \<open>Format\<close>

text \<open>\<open>appendInt\<close>: a decimal number of at least \<open>w\<close> digits.\<close>

definition append_int :: "nat \<Rightarrow> int \<Rightarrow> string" where
  "append_int w n =
     (if n < 0 then CHR ''-'' # pad_zeros w (nat_dec (nat (- n))) else pad_zeros w (nat_dec (nat n)))"

definition unix_seconds :: "time \<Rightarrow> int" where
  "unix_seconds t = t div 1000000000"

text \<open>The epoch is day 719162 of the calendar.\<close>

definition format_RFC3339 :: "time \<Rightarrow> string" where
  "format_RFC3339 t =
     (let s = unix_seconds t;
          (y, m, d) = date_of_days (s div 86400 + 719162);
          r = s mod 86400
      in append_int 4 y @ ''-'' @ append_int 2 m @ ''-'' @ append_int 2 d @ ''T'' @
         append_int 2 (r div 3600) @ '':'' @ append_int 2 (r mod 3600 div 60) @ '':'' @ append_int 2 (r mod 60) @ ''Z'')"

section \<open>Parse\<close>

text \<open>
  \<open>time.Parse\<close> takes the value apart from the left: every step gives its number and what follows.
  \<open>num2\<close> reads two digits, \<open>num12\<close> one or two.
\<close>

fun num2 :: "string \<Rightarrow> (int \<times> string) option" where
  "num2 (a # b # r) = (if is_digit a \<and> is_digit b then Some (digit_val a * 10 + digit_val b, r) else None)"
| "num2 _ = None"

fun num12 :: "string \<Rightarrow> (int \<times> string) option" where
  "num12 [] = None"
| "num12 (a # r) =
     (if \<not> is_digit a then None
      else case r of
        b # r' \<Rightarrow> if is_digit b then Some (digit_val a * 10 + digit_val b, r') else Some (digit_val a, r)
      | [] \<Rightarrow> Some (digit_val a, r))"

definition num4 :: "string \<Rightarrow> (int \<times> string) option" where
  "num4 s =
     (if length s < 4 \<or> \<not> list_all is_digit (take 4 s) then None else Some (dec_val (take 4 s), drop 4 s))"

fun literal :: "char \<Rightarrow> string \<Rightarrow> string option" where
  "literal c [] = None"
| "literal c (a # r) = (if a = c then Some r else None)"

definition in_range :: "int \<Rightarrow> int \<Rightarrow> int \<times> string \<Rightarrow> (int \<times> string) option" where
  "in_range lo hi p = (if lo \<le> fst p \<and> fst p \<le> hi then Some p else None)"

text \<open>A fraction may follow the seconds: nine of its digits count.\<close>

definition fraction :: "string \<Rightarrow> int \<times> string" where
  "fraction s =
     (case s of
        c # a # r \<Rightarrow>
          if (c = CHR ''.'' \<or> c = CHR '','') \<and> is_digit a then
            (let ds = takeWhile is_digit (a # r); d9 = take 9 ds
             in (dec_val d9 * 10 ^ (9 - length d9), dropWhile is_digit (a # r)))
          else (0, s)
      | _ \<Rightarrow> (0, s))"

text \<open>The zone: \<open>Z\<close>, or the hours and minutes of an offset, in seconds.\<close>

definition zone :: "string \<Rightarrow> (int \<times> string) option" where
  "zone s =
     (case s of
        [] \<Rightarrow> None
      | c # r \<Rightarrow>
          if c = CHR ''Z'' then Some (0, r)
          else if c \<noteq> CHR ''+'' \<and> c \<noteq> CHR ''-'' then None
          else
            Option.bind (num2 r) (\<lambda>p. Option.bind (in_range 0 24 p) (\<lambda>(h, r1).
            Option.bind (literal (CHR '':'') r1) (\<lambda>r2.
            Option.bind (num2 r2) (\<lambda>q. Option.bind (in_range 0 60 q) (\<lambda>(m, r3).
              Some ((if c = CHR ''+'' then 1 else -1) * (h * 60 + m) * 60, r3)))))))"

definition parse_RFC3339 :: "string \<Rightarrow> time option" where
  "parse_RFC3339 s =
     Option.bind (num4 s) (\<lambda>(y, s1).
     Option.bind (literal (CHR ''-'') s1) (\<lambda>s2.
     Option.bind (num2 s2) (\<lambda>p. Option.bind (in_range 1 12 p) (\<lambda>(m, s3).
     Option.bind (literal (CHR ''-'') s3) (\<lambda>s4.
     Option.bind (num2 s4) (\<lambda>(d, s5).
     Option.bind (literal (CHR ''T'') s5) (\<lambda>s6.
     Option.bind (num12 s6) (\<lambda>p. Option.bind (in_range 0 23 p) (\<lambda>(hh, s7).
     Option.bind (literal (CHR '':'') s7) (\<lambda>s8.
     Option.bind (num2 s8) (\<lambda>p. Option.bind (in_range 0 59 p) (\<lambda>(mi, s9).
     Option.bind (literal (CHR '':'') s9) (\<lambda>s10.
     Option.bind (num2 s10) (\<lambda>p. Option.bind (in_range 0 59 p) (\<lambda>(se, s11).
       let (ns, s12) = fraction s11 in
     Option.bind (zone s12) (\<lambda>(off, s13).
       if s13 = [] \<and> 1 \<le> d \<and> d \<le> month_lengths y ! nat (m - 1)
       then Some (((days_of_date y m d - 719162) * 86400 + hh * 3600 + mi * 60 + se - off) * 1000000000 + ns)
       else None))))))))))))))))"

text \<open>The zero \<open>time.Time\<close>: 1 January of the year 1.\<close>

definition zero_time :: time where
  "zero_time = - 62135596800 * 1000000000"

section \<open>The round trip\<close>

lemma digit_char_0: "digit_char 0 = CHR ''0''"
  by code_simp

lemma append_int_2:
  assumes "0 \<le> n" "n < 100"
  shows "append_int 2 n = [digit_char (nat n div 10), digit_char (nat n mod 10)]"
proof (cases "n < 10")
  case True
  with assms show ?thesis
    by (simp add: append_int_def nat_dec.simps pad_zeros_def digit_char_0 numeral_2_eq_2)
next
  case False
  with assms have "nat n div 10 < 10" "\<not> nat n < 10" by linarith+
  with assms show ?thesis by (simp add: append_int_def nat_dec.simps pad_zeros_def)
qed

lemma num2_append_int: "0 \<le> n \<Longrightarrow> n < 100 \<Longrightarrow> num2 (append_int 2 n @ r) = Some (n, r)"
proof -
  assume n: "0 \<le> n" "n < 100"
  then have "nat n div 10 < 10" "nat n mod 10 < 10" by linarith+
  moreover have "int (nat n div 10) * 10 + int (nat n mod 10) = int (nat n div 10 * 10 + nat n mod 10)"
    by (simp only: of_nat_add of_nat_mult of_nat_numeral)
  ultimately show ?thesis using n by (simp add: append_int_2 digit_char_props)
qed

lemma num12_append_int: "0 \<le> n \<Longrightarrow> n < 100 \<Longrightarrow> num12 (append_int 2 n @ r) = Some (n, r)"
  using num2_append_int [of n r] by (simp add: append_int_2 split: if_splits)

lemma nat_dec_length: "n < 10 ^ Suc k \<Longrightarrow> length (nat_dec n) \<le> Suc k"
proof (induction k arbitrary: n)
  case (Suc k)
  then have "n div 10 < 10 ^ Suc k" by (simp add: less_mult_imp_div_less)
  from Suc.IH [OF this] show ?case by (simp add: nat_dec.simps [of n])
qed (simp add: nat_dec.simps)

lemma num4_append_int:
  assumes "0 \<le> y" "y < 10000"
  shows "num4 (append_int 4 y @ r) = Some (y, r)"
proof -
  let ?s = "pad_zeros 4 (nat_dec (nat y))"
  have "length (nat_dec (nat y)) \<le> 4" using nat_dec_length [of "nat y" 3] assms by simp
  then have len: "length ?s = 4" by (simp add: pad_zeros_def)
  have "list_all is_digit ?s"
    using nat_dec_digits [of "nat y"] by (auto simp: pad_zeros_def list_all_iff is_digit_def)
  moreover have "dec_val ?s = y"
    using assms foldl_zeros [of _ "nat_dec (nat y)"] by (simp add: pad_zeros_def dec_val_def [of "replicate _ _ @ _"] nat_dec_val)
  ultimately show ?thesis using assms len by (simp add: num4_def append_int_def)
qed

lemma parse_written:
  assumes "0 \<le> y" "y < 10000" "1 \<le> m" "m \<le> 12" "1 \<le> d" "d \<le> month_lengths y ! nat (m - 1)" "0 \<le> hh" "hh \<le> 23"
    and "0 \<le> mi" "mi \<le> 59" "0 \<le> se" "se \<le> 59"
  shows "parse_RFC3339 (append_int 4 y @ ''-'' @ append_int 2 m @ ''-'' @ append_int 2 d @ ''T'' @
      append_int 2 hh @ '':'' @ append_int 2 mi @ '':'' @ append_int 2 se @ ''Z'') =
    Some (((days_of_date y m d - 719162) * 86400 + hh * 3600 + mi * 60 + se) * 1000000000)"
proof -
  have "d < 100" using assms(6) month_lengths_le [OF assms(3,4), of y] by linarith
  with assms have n: "num4 (append_int 4 y @ r) = Some (y, r)" "num2 (append_int 2 m @ r) = Some (m, r)"
    "num2 (append_int 2 d @ r) = Some (d, r)" "num12 (append_int 2 hh @ r) = Some (hh, r)"
    "num2 (append_int 2 mi @ r) = Some (mi, r)" "num2 (append_int 2 se @ r) = Some (se, r)" for r
    by (simp_all add: num4_append_int num2_append_int num12_append_int)
  from assms show ?thesis
    by (simp add: parse_RFC3339_def n in_range_def fraction_def zone_def)
qed

definition year_of :: "time \<Rightarrow> int" where
  "year_of t = fst (date_of_days (unix_seconds t div 86400 + 719162))"

theorem rfc3339_roundtrip:
  assumes "0 \<le> year_of t" "year_of t \<le> 9999"
  shows "parse_RFC3339 (format_RFC3339 t) = Some (unix_seconds t * 1000000000)"
proof -
  define s where "s = unix_seconds t"
  define r where "r = s mod 86400"
  obtain y m d where date: "date_of_days (s div 86400 + 719162) = (y, m, d)" by (metis prod_cases3)
  note ds = date_of_days_spec [OF date]
  have r: "0 \<le> r" "r < 86400" by (simp_all add: r_def)
  have hms: "0 \<le> r div 3600" "r div 3600 \<le> 23" "0 \<le> r mod 3600 div 60" "r mod 3600 div 60 \<le> 59" "0 \<le> r mod 60" "r mod 60 \<le> 59"
    using r by (auto intro: order.trans)
  have y: "0 \<le> y" "y < 10000" using assms date by (simp_all add: year_of_def s_def)
  note m = ds(1,2)
  have "r mod 3600 mod 60 = r mod 60" by (simp add: mod_mod_cancel)
  then have "r div 3600 * 3600 + r mod 3600 div 60 * 60 + r mod 60 = r"
    using div_mult_mod_eq [of r 3600] div_mult_mod_eq [of "r mod 3600" 60] by linarith
  moreover have "(days_of_date y m d - 719162) * 86400 + r = s" using ds(5) by (simp add: r_def)
  ultimately have secs: "(days_of_date y m d - 719162) * 86400 + r div 3600 * 3600 + r mod 3600 div 60 * 60 + r mod 60 = s"
    by (metis add.assoc)
  have "format_RFC3339 t = append_int 4 y @ ''-'' @ append_int 2 m @ ''-'' @ append_int 2 d @ ''T'' @
      append_int 2 (r div 3600) @ '':'' @ append_int 2 (r mod 3600 div 60) @ '':'' @ append_int 2 (r mod 60) @ ''Z''"
    by (simp add: format_RFC3339_def date flip: s_def r_def)
  moreover have "parse_RFC3339 \<dots> = Some (s * 1000000000)"
    using parse_written [OF y m(1,2) ds(3,4) hms] by (simp only: secs)
  ultimately show ?thesis by (simp flip: s_def)
qed

end
