(* ===== verification/Nt_Repo.thy ===== *)
theory Nt_Repo
  imports Nt_Domain Dynamo Rfc3339
begin

text \<open>
  notification-service: the DynamoDB repositories of \<open>internal/adapters/dynamodb\<close>. The package
  \<open>attributevalue\<close>, which turns the item structs into attribute maps and back, is a parameter.
\<close>

section \<open>Items\<close>

record notificationItem =
  ni_TenantID :: string
  ni_ID :: string
  ni_UserID :: string
  ni_Type :: string
  ni_Title :: string
  ni_Body :: string
  ni_Channel :: string
  ni_Read :: bool
  ni_ReadAt :: "string option"
  ni_Metadata :: "(string \<times> string) list option"
  ni_CreatedAt :: string

record auditItem =
  ai_TenantID :: string
  ai_ID :: string
  ai_ActorID :: string
  ai_ActorEmail :: string
  ai_Action :: string
  ai_Resource :: string
  ai_ResourceID :: string
  ai_OldValue :: string
  ai_NewValue :: string
  ai_IPAddress :: string
  ai_UserAgent :: string
  ai_Timestamp :: string

record nt_codec =
  av_MarshalKey :: "(string \<times> string) list \<Rightarrow> goerr + item"
  av_MarshalNotification :: "notificationItem \<Rightarrow> goerr + item"
  av_UnmarshalNotification :: "item \<Rightarrow> goerr + notificationItem"
  av_MarshalAudit :: "auditItem \<Rightarrow> goerr + item"
  av_UnmarshalAudit :: "item \<Rightarrow> goerr + auditItem"

text \<open>The client on the two tables, and the state: the tables themselves.\<close>

record nt_db =
  ndb_notifications :: dyn_client
  ndb_audit :: dyn_client
  ndb_codec :: nt_codec

record nt_world = env +
  nw_notifications :: dyn_tbl
  nw_audit :: dyn_tbl

abbreviation "on_notifications \<equiv> on_table nw_notifications nw_notifications_update"
abbreviation "on_audit \<equiv> on_table nw_audit nw_audit_update"

text \<open>The loop that skips items it cannot decode.\<close>

fun decoded :: "(item \<Rightarrow> goerr + 'a) \<Rightarrow> item list \<Rightarrow> 'a list" where
  "decoded f [] = []"
| "decoded f (it # its) = (case f it of Inl _ \<Rightarrow> decoded f its | Inr x \<Rightarrow> x # decoded f its)"

text \<open>\<open>// Manual pagination\<close>\<close>

definition page_slice :: "'a list \<Rightarrow> int \<Rightarrow> int \<Rightarrow> 'a list outcome" where
  "page_slice xs page limit =
     (let start = wrap64 (wrap64 (page - 1) * limit);
          stop = wrap64 (start + limit);
          len = int (length xs)
      in if len \<le> start then Ret [] else go_slice xs start (if len < stop then len else stop))"

definition listing :: "'a list \<Rightarrow> int \<Rightarrow> int \<Rightarrow> (goerr + 'a list \<times> int) outcome" where
  "listing xs page limit =
     (case page_slice xs page limit of Panic \<Rightarrow> Panic | Ret ys \<Rightarrow> Ret (Inr (ys, int (length xs))))"

section \<open>notification_repository.go\<close>

definition toNotificationItem :: "Notification \<Rightarrow> notificationItem" where
  "toNotificationItem n =
     \<lparr>ni_TenantID = nf_TenantID n, ni_ID = nf_ID n, ni_UserID = nf_UserID n, ni_Type = nf_Type n,
      ni_Title = nf_Title n, ni_Body = nf_Body n, ni_Channel = nf_Channel n, ni_Read = nf_Read n,
      ni_ReadAt = map_option format_RFC3339 (nf_ReadAt n), ni_Metadata = nf_Metadata n,
      ni_CreatedAt = format_RFC3339 (nf_CreatedAt n)\<rparr>"

definition fromNotificationItem :: "notificationItem \<Rightarrow> Notification" where
  "fromNotificationItem it =
     \<lparr>nf_ID = ni_ID it, nf_TenantID = ni_TenantID it, nf_UserID = ni_UserID it, nf_Type = ni_Type it,
      nf_Title = ni_Title it, nf_Body = ni_Body it, nf_Channel = ni_Channel it, nf_Read = ni_Read it,
      nf_ReadAt = Option.bind (ni_ReadAt it) parse_RFC3339, nf_Metadata = ni_Metadata it,
      nf_CreatedAt = (case parse_RFC3339 (ni_CreatedAt it) of None \<Rightarrow> zero_time | Some t \<Rightarrow> t)\<rparr>"

definition notification_key :: "string \<Rightarrow> string \<Rightarrow> (string \<times> string) list" where
  "notification_key tenantID ident = [(''notificationId'', ident), (''tenantId'', tenantID)]"

definition notificationRepository_Create :: "nt_db \<Rightarrow> Notification \<Rightarrow> nt_world act_err" where
  "notificationRepository_Create db n w =
     (case av_MarshalNotification (ndb_codec db) (toNotificationItem n) of
        Inl e \<Rightarrow> (Some e, w)
      | Inr it \<Rightarrow> on_notifications (dy_PutItem (ndb_notifications db) it) w)"

definition notificationRepository_FindByID :: "nt_db \<Rightarrow> string \<Rightarrow> string \<Rightarrow> (nt_world, Notification) act" where
  "notificationRepository_FindByID db tenantID ident w =
     (case av_MarshalKey (ndb_codec db) (notification_key tenantID ident) of
        Inl e \<Rightarrow> (Inl e, w)
      | Inr key \<Rightarrow>
         (case on_notifications (dy_GetItem (ndb_notifications db) key) w of
            (Inl e, w1) \<Rightarrow> (Inl e, w1)
          | (Inr None, w1) \<Rightarrow> (Inl ErrNotificationNotFound, w1)
          | (Inr (Some it), w1) \<Rightarrow>
             (case av_UnmarshalNotification (ndb_codec db) it of
                Inl e \<Rightarrow> (Inl e, w1)
              | Inr x \<Rightarrow> (Inr (fromNotificationItem x), w1))))"

definition user_query :: "string \<Rightarrow> string \<Rightarrow> query_input" where
  "user_query tenantID userID =
     \<lparr>qi_KeyConditionExpression = ''tenantId = :tid'', qi_FilterExpression = Some ''userId = :uid'',
      qi_ExpressionAttributeNames = [],
      qi_ExpressionAttributeValues = [('':tid'', AvS tenantID), ('':uid'', AvS userID)]\<rparr>"

definition notificationRepository_ListByUser ::
  "nt_db \<Rightarrow> string \<Rightarrow> string \<Rightarrow> int \<Rightarrow> int \<Rightarrow> nt_world \<Rightarrow> (goerr + Notification list \<times> int) outcome \<times> nt_world" where
  "notificationRepository_ListByUser db tenantID userID page limit w =
     (case on_notifications (dy_Query (ndb_notifications db) (user_query tenantID userID)) w of
        (Inl e, w1) \<Rightarrow> (Ret (Inl e), w1)
      | (Inr (its, _), w1) \<Rightarrow>
         (listing (map fromNotificationItem (decoded (av_UnmarshalNotification (ndb_codec db)) its)) page limit, w1))"

definition read_update :: "string \<Rightarrow> update_input" where
  "read_update now =
     \<lparr>ui_UpdateExpression = ''SET #r = :r, readAt = :ra'', ui_ExpressionAttributeNames = [(''#r'', ''read'')],
      ui_ExpressionAttributeValues = [('':r'', AvBOOL True), ('':ra'', AvS now)]\<rparr>"

definition notificationRepository_MarkRead :: "nt_db \<Rightarrow> string \<Rightarrow> string \<Rightarrow> nt_world act_err" where
  "notificationRepository_MarkRead db tenantID ident w =
     (case av_MarshalKey (ndb_codec db) (notification_key tenantID ident) of
        Inl e \<Rightarrow> (Some e, w)
      | Inr key \<Rightarrow>
         (let (now, w1) = time_Now w
          in on_notifications (dy_UpdateItem (ndb_notifications db) key (read_update (format_RFC3339 now))) w1))"

definition unread_query :: "string \<Rightarrow> string \<Rightarrow> query_input" where
  "unread_query tenantID userID =
     \<lparr>qi_KeyConditionExpression = ''tenantId = :tid'',
      qi_FilterExpression = Some ''userId = :uid AND #r = :unread'',
      qi_ExpressionAttributeNames = [(''#r'', ''read'')],
      qi_ExpressionAttributeValues = [('':tid'', AvS tenantID), ('':uid'', AvS userID), ('':unread'', AvBOOL False)]\<rparr>"

text \<open>The loop over the unread notifications leaves those it cannot decode or update.\<close>

fun mark_each :: "nt_db \<Rightarrow> string \<Rightarrow> item list \<Rightarrow> nt_world \<Rightarrow> nt_world" where
  "mark_each db tenantID [] w = w"
| "mark_each db tenantID (it # its) w =
     (case av_UnmarshalNotification (ndb_codec db) it of
        Inl _ \<Rightarrow> mark_each db tenantID its w
      | Inr x \<Rightarrow> mark_each db tenantID its (snd (notificationRepository_MarkRead db tenantID (ni_ID x) w)))"

definition notificationRepository_MarkAllRead :: "nt_db \<Rightarrow> string \<Rightarrow> string \<Rightarrow> nt_world act_err" where
  "notificationRepository_MarkAllRead db tenantID userID w =
     (case on_notifications (dy_Query (ndb_notifications db) (unread_query tenantID userID)) w of
        (Inl e, w1) \<Rightarrow> (Some e, w1)
      | (Inr (its, _), w1) \<Rightarrow> (None, mark_each db tenantID its w1))"

definition notificationRepository_Delete :: "nt_db \<Rightarrow> string \<Rightarrow> string \<Rightarrow> nt_world act_err" where
  "notificationRepository_Delete db tenantID ident w =
     (case av_MarshalKey (ndb_codec db) (notification_key tenantID ident) of
        Inl e \<Rightarrow> (Some e, w)
      | Inr key \<Rightarrow> on_notifications (dy_DeleteItem (ndb_notifications db) key) w)"

definition notificationRepository :: "nt_db \<Rightarrow> nt_world NotificationRepository" where
  "notificationRepository db =
     \<lparr>nr_Create = notificationRepository_Create db, nr_FindByID = notificationRepository_FindByID db,
      nr_ListByUser = notificationRepository_ListByUser db, nr_MarkRead = notificationRepository_MarkRead db,
      nr_MarkAllRead = notificationRepository_MarkAllRead db, nr_Delete = notificationRepository_Delete db\<rparr>"

section \<open>audit_repository.go\<close>

text \<open>The values of an event came out of a JSON body: \<open>json.Marshal\<close> does not fail on them.\<close>

definition any_text :: "(string \<times> json) list option \<Rightarrow> string" where
  "any_text m = (case m of None \<Rightarrow> '''' | Some kvs \<Rightarrow> json_text (JObj kvs))"

definition toAuditItem :: "AuditEvent \<Rightarrow> auditItem" where
  "toAuditItem e =
     \<lparr>ai_TenantID = ae_TenantID e, ai_ID = ae_ID e, ai_ActorID = ae_ActorID e, ai_ActorEmail = ae_ActorEmail e,
      ai_Action = ae_Action e, ai_Resource = ae_Resource e, ai_ResourceID = ae_ResourceID e,
      ai_OldValue = any_text (ae_OldValue e), ai_NewValue = any_text (ae_NewValue e),
      ai_IPAddress = ae_IPAddress e, ai_UserAgent = ae_UserAgent e, ai_Timestamp = format_RFC3339 (ae_Timestamp e)\<rparr>"

text \<open>
  \<open>json.Unmarshal\<close> with its error ignored: a number out of range becomes \<open>null\<close>, and a text that is no
  JSON or no object leaves the map nil.
\<close>

fun lax_json :: "(string \<Rightarrow> string option) \<Rightarrow> json \<Rightarrow> json"
  and lax_list :: "(string \<Rightarrow> string option) \<Rightarrow> json list \<Rightarrow> json list"
  and lax_members :: "(string \<Rightarrow> string option) \<Rightarrow> (string \<times> json) list \<Rightarrow> (string \<times> json) list \<Rightarrow> (string \<times> json) list" where
  "lax_json fl JNull = JNull"
| "lax_json fl (JBool b) = JBool b"
| "lax_json fl (JNum l) = (case fl l of None \<Rightarrow> JNull | Some x \<Rightarrow> JNum x)"
| "lax_json fl (JStr s) = JStr s"
| "lax_json fl (JArr vs) = JArr (lax_list fl vs)"
| "lax_json fl (JObj kvs) = JObj (lax_members fl kvs [])"
| "lax_list fl [] = []"
| "lax_list fl (v # vs) = lax_json fl v # lax_list fl vs"
| "lax_members fl [] m = m"
| "lax_members fl ((k, v) # kvs) m = lax_members fl kvs (map_put k (lax_json fl v) m)"

definition any_of_text :: "(string \<Rightarrow> string option) \<Rightarrow> string \<Rightarrow> (string \<times> json) list option" where
  "any_of_text fl s =
     (if s = '''' then None
      else case json_parse s of Some (JObj kvs) \<Rightarrow> Some (lax_members fl kvs []) | _ \<Rightarrow> None)"

definition fromAuditItem :: "(string \<Rightarrow> string option) \<Rightarrow> auditItem \<Rightarrow> AuditEvent" where
  "fromAuditItem fl it =
     \<lparr>ae_ID = ai_ID it, ae_TenantID = ai_TenantID it, ae_ActorID = ai_ActorID it, ae_ActorEmail = ai_ActorEmail it,
      ae_Action = ai_Action it, ae_Resource = ai_Resource it, ae_ResourceID = ai_ResourceID it,
      ae_OldValue = any_of_text fl (ai_OldValue it), ae_NewValue = any_of_text fl (ai_NewValue it),
      ae_IPAddress = ai_IPAddress it, ae_UserAgent = ai_UserAgent it,
      ae_Timestamp = (case parse_RFC3339 (ai_Timestamp it) of None \<Rightarrow> zero_time | Some t \<Rightarrow> t)\<rparr>"

definition audit_key :: "string \<Rightarrow> string \<Rightarrow> (string \<times> string) list" where
  "audit_key tenantID ident = [(''eventId'', ident), (''tenantId'', tenantID)]"

definition auditRepository_Record :: "nt_db \<Rightarrow> AuditEvent \<Rightarrow> nt_world act_err" where
  "auditRepository_Record db event w =
     (case av_MarshalAudit (ndb_codec db) (toAuditItem event) of
        Inl e \<Rightarrow> (Some e, w)
      | Inr it \<Rightarrow> on_audit (dy_PutItem (ndb_audit db) it) w)"

definition auditRepository_FindByID ::
  "(string \<Rightarrow> string option) \<Rightarrow> nt_db \<Rightarrow> string \<Rightarrow> string \<Rightarrow> (nt_world, AuditEvent) act" where
  "auditRepository_FindByID fl db tenantID ident w =
     (case av_MarshalKey (ndb_codec db) (audit_key tenantID ident) of
        Inl e \<Rightarrow> (Inl e, w)
      | Inr key \<Rightarrow>
         (case on_audit (dy_GetItem (ndb_audit db) key) w of
            (Inl e, w1) \<Rightarrow> (Inl e, w1)
          | (Inr None, w1) \<Rightarrow> (Inl ErrAuditEventNotFound, w1)
          | (Inr (Some it), w1) \<Rightarrow>
             (case av_UnmarshalAudit (ndb_codec db) it of
                Inl e \<Rightarrow> (Inl e, w1)
              | Inr x \<Rightarrow> (Inr (fromAuditItem fl x), w1))))"

text \<open>The filter expression is put together from the conditions that are set, each after \<open>" AND "\<close>.\<close>

definition if_set :: "'a option \<Rightarrow> 'b list \<Rightarrow> 'b list" where
  "if_set v xs = (case v of None \<Rightarrow> [] | Some _ \<Rightarrow> xs)"

definition value_of :: "string \<Rightarrow> string option \<Rightarrow> (string \<times> av) list" where
  "value_of ref v = (case v of None \<Rightarrow> [] | Some s \<Rightarrow> [(ref, AvS s)])"

definition filter_parts :: "AuditFilter \<Rightarrow> string" where
  "filter_parts f =
     if_set (aft_ActorID f) '' AND actorId = :actorId'' @ if_set (aft_Action f) '' AND #action = :action'' @
     if_set (aft_Resource f) '' AND #resource = :resource'' @
     if_set (aft_ResourceID f) '' AND resourceId = :resourceId'' @
     if_set (aft_From f) '' AND #ts >= :from'' @ if_set (aft_To f) '' AND #ts <= :to''"

definition audit_query :: "string \<Rightarrow> AuditFilter \<Rightarrow> query_input" where
  "audit_query tenantID f =
     \<lparr>qi_KeyConditionExpression = ''tenantId = :tid'',
      qi_FilterExpression = (if filter_parts f = '''' then None else Some (drop 5 (filter_parts f))),
      qi_ExpressionAttributeNames =
        if_set (aft_Action f) [(''#action'', ''action'')] @ if_set (aft_Resource f) [(''#resource'', ''resource'')] @
        (if aft_From f = None \<and> aft_To f = None then [] else [(''#ts'', ''timestamp'')]),
      qi_ExpressionAttributeValues =
        ('':tid'', AvS tenantID) # value_of '':actorId'' (aft_ActorID f) @ value_of '':action'' (aft_Action f) @
        value_of '':resource'' (aft_Resource f) @ value_of '':resourceId'' (aft_ResourceID f) @
        value_of '':from'' (map_option format_RFC3339 (aft_From f)) @ value_of '':to'' (map_option format_RFC3339 (aft_To f))\<rparr>"

definition auditRepository_Query ::
  "(string \<Rightarrow> string option) \<Rightarrow> nt_db \<Rightarrow> string \<Rightarrow> AuditFilter \<Rightarrow> int \<Rightarrow> int \<Rightarrow> nt_world \<Rightarrow>
    (goerr + AuditEvent list \<times> int) outcome \<times> nt_world" where
  "auditRepository_Query fl db tenantID f page limit w =
     (case on_audit (dy_Query (ndb_audit db) (audit_query tenantID f)) w of
        (Inl e, w1) \<Rightarrow> (Ret (Inl e), w1)
      | (Inr (its, _), w1) \<Rightarrow>
         (listing (map (fromAuditItem fl) (decoded (av_UnmarshalAudit (ndb_codec db)) its)) page limit, w1))"

definition auditRepository :: "(string \<Rightarrow> string option) \<Rightarrow> nt_db \<Rightarrow> nt_world AuditRepository" where
  "auditRepository fl db =
     \<lparr>ar_Record = auditRepository_Record db, ar_FindByID = auditRepository_FindByID fl db,
      ar_Query = auditRepository_Query fl db\<rparr>"

end
