(* ===== verification/Nt_Service.thy ===== *)
theory Nt_Service
  imports Nt_Domain
begin

text \<open>
  notification-service: \<open>internal/application\<close>, the notification service and the audit service, over any
  implementation of the repositories.
\<close>

section \<open>notification_service.go\<close>

record 'w notificationService =
  nsi_repo :: "'w NotificationRepository"

definition newNotification :: "string \<Rightarrow> time \<Rightarrow> SendNotificationRequest \<Rightarrow> Notification" where
  "newNotification ident now req =
     \<lparr>nf_ID = ident, nf_TenantID = snr_TenantID req, nf_UserID = snr_UserID req, nf_Type = snr_Type req,
      nf_Title = snr_Title req, nf_Body = snr_Body req, nf_Channel = snr_Channel req, nf_Read = False,
      nf_ReadAt = None, nf_Metadata = snr_Metadata req, nf_CreatedAt = now\<rparr>"

definition notificationService_Send ::
  "'a env_scheme notificationService \<Rightarrow> SendNotificationRequest \<Rightarrow> ('a env_scheme, Notification) act" where
  "notificationService_Send s req w =
     (let (ident, w1) = uuid_NewString w;
          (now, w2) = time_Now w1;
          n = newNotification ident now req
      in case nr_Create (nsi_repo s) n w2 of
           (Some e, w3) \<Rightarrow> (Inl e, w3)
         | (None, w3) \<Rightarrow> (Inr n, w3))"

text \<open>The loop stops at the first notification that cannot be stored.\<close>

fun notificationService_SendBulk ::
  "'a env_scheme notificationService \<Rightarrow> SendNotificationRequest list \<Rightarrow> 'a env_scheme act_err" where
  "notificationService_SendBulk s [] w = (None, w)"
| "notificationService_SendBulk s (req # reqs) w =
     (case notificationService_Send s req w of
        (Inl e, w1) \<Rightarrow> (Some e, w1)
      | (Inr _, w1) \<Rightarrow> notificationService_SendBulk s reqs w1)"

definition notificationService_GetNotification ::
  "'w notificationService \<Rightarrow> string \<Rightarrow> string \<Rightarrow> ('w, Notification) act" where
  "notificationService_GetNotification s tenantID ident w = nr_FindByID (nsi_repo s) tenantID ident w"

definition notificationService_ListForUser ::
  "'w notificationService \<Rightarrow> string \<Rightarrow> string \<Rightarrow> int \<Rightarrow> int \<Rightarrow> 'w \<Rightarrow> (goerr + Notification list \<times> int) outcome \<times> 'w" where
  "notificationService_ListForUser s tenantID userID page limit w =
     nr_ListByUser (nsi_repo s) tenantID userID page limit w"

definition notificationService_MarkRead :: "'w notificationService \<Rightarrow> string \<Rightarrow> string \<Rightarrow> 'w act_err" where
  "notificationService_MarkRead s tenantID ident w = nr_MarkRead (nsi_repo s) tenantID ident w"

definition notificationService_MarkAllRead :: "'w notificationService \<Rightarrow> string \<Rightarrow> string \<Rightarrow> 'w act_err" where
  "notificationService_MarkAllRead s tenantID userID w = nr_MarkAllRead (nsi_repo s) tenantID userID w"

definition notificationService_Dismiss :: "'w notificationService \<Rightarrow> string \<Rightarrow> string \<Rightarrow> 'w act_err" where
  "notificationService_Dismiss s tenantID ident w = nr_Delete (nsi_repo s) tenantID ident w"

definition NewNotificationService :: "'a env_scheme NotificationRepository \<Rightarrow> 'a env_scheme NotificationService" where
  "NewNotificationService repo =
     (let s = \<lparr>nsi_repo = repo\<rparr> in
      \<lparr>nsv_Send = notificationService_Send s, nsv_SendBulk = notificationService_SendBulk s,
       nsv_GetNotification = notificationService_GetNotification s,
       nsv_ListForUser = notificationService_ListForUser s, nsv_MarkRead = notificationService_MarkRead s,
       nsv_MarkAllRead = notificationService_MarkAllRead s, nsv_Dismiss = notificationService_Dismiss s\<rparr>)"

section \<open>audit_service.go\<close>

record 'w auditService =
  asi_repo :: "'w AuditRepository"

definition newAuditEvent :: "string \<Rightarrow> time \<Rightarrow> RecordAuditRequest \<Rightarrow> AuditEvent" where
  "newAuditEvent ident now req =
     \<lparr>ae_ID = ident, ae_TenantID = rar_TenantID req, ae_ActorID = rar_ActorID req, ae_ActorEmail = rar_ActorEmail req,
      ae_Action = rar_Action req, ae_Resource = rar_Resource req, ae_ResourceID = rar_ResourceID req,
      ae_OldValue = rar_OldValue req, ae_NewValue = rar_NewValue req, ae_IPAddress = rar_IPAddress req,
      ae_UserAgent = rar_UserAgent req, ae_Timestamp = now\<rparr>"

definition auditService_Record ::
  "'a env_scheme auditService \<Rightarrow> RecordAuditRequest \<Rightarrow> ('a env_scheme, AuditEvent) act" where
  "auditService_Record s req w =
     (let (ident, w1) = uuid_NewString w;
          (now, w2) = time_Now w1;
          event = newAuditEvent ident now req
      in case ar_Record (asi_repo s) event w2 of
           (Some e, w3) \<Rightarrow> (Inl e, w3)
         | (None, w3) \<Rightarrow> (Inr event, w3))"

definition auditService_GetEvent :: "'w auditService \<Rightarrow> string \<Rightarrow> string \<Rightarrow> ('w, AuditEvent) act" where
  "auditService_GetEvent s tenantID ident w = ar_FindByID (asi_repo s) tenantID ident w"

definition auditService_QueryEvents ::
  "'w auditService \<Rightarrow> string \<Rightarrow> AuditFilter \<Rightarrow> int \<Rightarrow> int \<Rightarrow> 'w \<Rightarrow> (goerr + AuditEvent list \<times> int) outcome \<times> 'w" where
  "auditService_QueryEvents s tenantID filt page limit w = ar_Query (asi_repo s) tenantID filt page limit w"

definition NewAuditService :: "'a env_scheme AuditRepository \<Rightarrow> 'a env_scheme AuditService" where
  "NewAuditService repo =
     (let s = \<lparr>asi_repo = repo\<rparr> in
      \<lparr>asv_Record = auditService_Record s, asv_GetEvent = auditService_GetEvent s,
       asv_QueryEvents = auditService_QueryEvents s\<rparr>)"

end
