(* ===== verification/Nt_Http.thy ===== *)
theory Nt_Http
  imports Nt_Service Http
begin

text \<open>
  notification-service: the HTTP layer of \<open>internal/adapters/http\<close>: the handlers, the middleware and the
  router. Responses carry domain values. A handler may panic; then the headers set so far are known and
  \<open>middleware.Recoverer\<close> of chi answers.
\<close>

section \<open>Answers\<close>

datatype nt_payload =
    N_error string
  | N_status string
  | N_health string string
  | N_notification Notification
  | N_notifications "Notification list" int int int
  | N_event AuditEvent
  | N_events "AuditEvent list" int int int
  | N_empty

datatype nt_answer =
    Reply "nt_payload response"
  | Panicked "(string \<times> string) list"

type_synonym 'w nt_handler = "request \<Rightarrow> 'w \<Rightarrow> nt_answer \<times> 'w"

record 'w nt_Handler =
  nh_notifSvc :: "'w NotificationService"
  nh_auditSvc :: "'w AuditService"

definition nt_writeJSON :: "nat \<Rightarrow> nt_payload \<Rightarrow> nt_answer" where
  "nt_writeJSON status v = Reply (json_response status v)"

definition nt_writeError :: "nat \<Rightarrow> string \<Rightarrow> nt_answer" where
  "nt_writeError status msg = nt_writeJSON status (N_error msg)"

definition nt_getPagination :: "request \<Rightarrow> int \<times> int" where
  "nt_getPagination r =
     (let page = fst (strconv_Atoi (rq_Query r ''page''));
          limit = fst (strconv_Atoi (rq_Query r ''limit''))
      in (if page < 1 then 1 else page, if limit < 1 \<or> limit > 100 then 20 else limit))"

definition nt_getTenantID :: "request \<Rightarrow> string" where
  "nt_getTenantID r = (let t = rq_Header r ''X-Tenant-ID'' in if t = '''' then ''default'' else t)"

definition nt_getUserID :: "request \<Rightarrow> string" where
  "nt_getUserID r = (let u = rq_Header r ''X-User-ID'' in if u = '''' then ''anonymous'' else u)"

text \<open>The error a handler names, with its text; every other one is a 500 with its own text.\<close>

definition nt_fail :: "(goerr \<times> string) option \<Rightarrow> goerr \<Rightarrow> nt_answer" where
  "nt_fail known err =
     (case known of
        Some (e, msg) \<Rightarrow> if errors_Is err e then nt_writeError StatusNotFound msg
          else nt_writeError StatusInternalServerError (err_Error err)
      | None \<Rightarrow> nt_writeError StatusInternalServerError (err_Error err))"

definition nt_reply :: "(goerr \<times> string) option \<Rightarrow> nat \<Rightarrow> ('a \<Rightarrow> nt_payload) \<Rightarrow> (goerr + 'a) \<times> 'w \<Rightarrow> nt_answer \<times> 'w" where
  "nt_reply known status payload p =
     (case p of (Inl err, w) \<Rightarrow> (nt_fail known err, w) | (Inr x, w) \<Rightarrow> (nt_writeJSON status (payload x), w))"

definition nt_done :: "(goerr \<times> string) option \<Rightarrow> nat \<Rightarrow> string \<Rightarrow> goerr option \<times> 'w \<Rightarrow> nt_answer \<times> 'w" where
  "nt_done known status msg p =
     (case p of (Some err, w) \<Rightarrow> (nt_fail known err, w) | (None, w) \<Rightarrow> (nt_writeJSON status (N_status msg), w))"

definition nt_page ::
  "('a list \<Rightarrow> int \<Rightarrow> nt_payload) \<Rightarrow> (goerr + 'a list \<times> int) outcome \<times> 'w \<Rightarrow> nt_answer \<times> 'w" where
  "nt_page payload p =
     (case p of
        (Panic, w) \<Rightarrow> (Panicked [], w)
      | (Ret r, w) \<Rightarrow> nt_reply None StatusOK (\<lambda>(xs, cnt). payload xs cnt) (r, w))"

definition notification_missing :: "(goerr \<times> string) option" where
  "notification_missing = Some (ErrNotificationNotFound, ''notification not found'')"

definition event_missing :: "(goerr \<times> string) option" where
  "event_missing = Some (ErrAuditEventNotFound, ''audit event not found'')"

definition nt_Handler_HealthCheck :: "'w nt_handler" where
  "nt_Handler_HealthCheck r w = (nt_writeJSON StatusOK (N_health ''ok'' ''notification-service''), w)"

section \<open>Decoding\<close>

definition zero_send :: SendNotificationRequest where
  "zero_send = \<lparr>snr_TenantID = '''', snr_UserID = '''', snr_Type = '''', snr_Title = '''', snr_Body = '''',
     snr_Channel = '''', snr_Metadata = None\<rparr>"

definition set_send :: "json \<Rightarrow> SendNotificationRequest \<Rightarrow> SendNotificationRequest option" where
  "set_send v old =
     Option.bind (members v) (\<lambda>kvs.
     Option.bind (field ''TenantID'' set_string kvs (snr_TenantID old)) (\<lambda>tenantID.
     Option.bind (field ''UserID'' set_string kvs (snr_UserID old)) (\<lambda>userID.
     Option.bind (field ''Type'' set_string kvs (snr_Type old)) (\<lambda>ty.
     Option.bind (field ''Title'' set_string kvs (snr_Title old)) (\<lambda>title.
     Option.bind (field ''Body'' set_string kvs (snr_Body old)) (\<lambda>body.
     Option.bind (field ''Channel'' set_string kvs (snr_Channel old)) (\<lambda>channel.
     Option.bind (field ''Metadata'' (set_map (\<lambda>x. set_string x '''')) kvs (snr_Metadata old)) (\<lambda>metadata.
       Some \<lparr>snr_TenantID = tenantID, snr_UserID = userID, snr_Type = ty, snr_Title = title, snr_Body = body,
             snr_Channel = channel, snr_Metadata = metadata\<rparr>))))))))"

definition decode_Send :: "string \<Rightarrow> SendNotificationRequest option" where
  "decode_Send body = Option.bind (decode_first body) (\<lambda>v. set_send v zero_send)"

definition decode_Sends :: "string \<Rightarrow> SendNotificationRequest list option" where
  "decode_Sends body =
     Option.bind (decode_first body) (\<lambda>v. map_option elems (set_slice set_send zero_send v None))"

definition decode_Audit :: "(string \<Rightarrow> string option) \<Rightarrow> string \<Rightarrow> RecordAuditRequest option" where
  "decode_Audit fl body =
     Option.bind (body_members body) (\<lambda>kvs.
     Option.bind (field ''TenantID'' set_string kvs '''') (\<lambda>tenantID.
     Option.bind (field ''ActorID'' set_string kvs '''') (\<lambda>actorID.
     Option.bind (field ''ActorEmail'' set_string kvs '''') (\<lambda>actorEmail.
     Option.bind (field ''Action'' set_string kvs '''') (\<lambda>act.
     Option.bind (field ''Resource'' set_string kvs '''') (\<lambda>res.
     Option.bind (field ''ResourceID'' set_string kvs '''') (\<lambda>resourceID.
     Option.bind (field ''OldValue'' (set_map (any_json fl)) kvs None) (\<lambda>oldValue.
     Option.bind (field ''NewValue'' (set_map (any_json fl)) kvs None) (\<lambda>newValue.
     Option.bind (field ''IPAddress'' set_string kvs '''') (\<lambda>ip.
     Option.bind (field ''UserAgent'' set_string kvs '''') (\<lambda>agent.
       Some \<lparr>rar_TenantID = tenantID, rar_ActorID = actorID, rar_ActorEmail = actorEmail, rar_Action = act,
             rar_Resource = res, rar_ResourceID = resourceID, rar_OldValue = oldValue, rar_NewValue = newValue,
             rar_IPAddress = ip, rar_UserAgent = agent\<rparr>)))))))))))"

definition nt_bad_body :: nt_answer where
  "nt_bad_body = nt_writeError StatusBadRequest ''invalid request body''"

section \<open>Notifications\<close>

definition Handler_SendNotification :: "'w nt_Handler \<Rightarrow> 'w nt_handler" where
  "Handler_SendNotification h r w =
     (case decode_Send (rq_Body r) of
        None \<Rightarrow> (nt_bad_body, w)
      | Some req \<Rightarrow>
         (let req' = (if snr_TenantID req = '''' then req\<lparr>snr_TenantID := nt_getTenantID r\<rparr> else req)
          in nt_reply None StatusCreated N_notification (nsv_Send (nh_notifSvc h) req' w)))"

definition Handler_SendBulkNotifications :: "'w nt_Handler \<Rightarrow> 'w nt_handler" where
  "Handler_SendBulkNotifications h r w =
     (case decode_Sends (rq_Body r) of
        None \<Rightarrow> (nt_bad_body, w)
      | Some reqs \<Rightarrow> nt_done None StatusCreated ''sent'' (nsv_SendBulk (nh_notifSvc h) reqs w))"

definition Handler_GetNotification :: "'w nt_Handler \<Rightarrow> 'w nt_handler" where
  "Handler_GetNotification h r w =
     nt_reply notification_missing StatusOK N_notification
       (nsv_GetNotification (nh_notifSvc h) (nt_getTenantID r) (rq_URLParam r ''id'') w)"

definition Handler_ListNotifications :: "'w nt_Handler \<Rightarrow> 'w nt_handler" where
  "Handler_ListNotifications h r w =
     (let tenantID = nt_getTenantID r;
          userID = (if rq_Query r ''user_id'' = '''' then nt_getUserID r else rq_Query r ''user_id'');
          (page, limit) = nt_getPagination r
      in nt_page (\<lambda>ns cnt. N_notifications ns cnt page limit)
           (nsv_ListForUser (nh_notifSvc h) tenantID userID page limit w))"

definition Handler_MarkRead :: "'w nt_Handler \<Rightarrow> 'w nt_handler" where
  "Handler_MarkRead h r w =
     nt_done notification_missing StatusOK ''read''
       (nsv_MarkRead (nh_notifSvc h) (nt_getTenantID r) (rq_URLParam r ''id'') w)"

definition Handler_MarkAllRead :: "'w nt_Handler \<Rightarrow> 'w nt_handler" where
  "Handler_MarkAllRead h r w =
     nt_done None StatusOK ''all read'' (nsv_MarkAllRead (nh_notifSvc h) (nt_getTenantID r) (nt_getUserID r) w)"

definition Handler_DismissNotification :: "'w nt_Handler \<Rightarrow> 'w nt_handler" where
  "Handler_DismissNotification h r w =
     nt_done None StatusOK ''dismissed'' (nsv_Dismiss (nh_notifSvc h) (nt_getTenantID r) (rq_URLParam r ''id'') w)"

section \<open>Audit events\<close>

definition Handler_RecordAuditEvent :: "(string \<Rightarrow> string option) \<Rightarrow> 'w nt_Handler \<Rightarrow> 'w nt_handler" where
  "Handler_RecordAuditEvent fl h r w =
     (case decode_Audit fl (rq_Body r) of
        None \<Rightarrow> (nt_bad_body, w)
      | Some req \<Rightarrow>
         (let req' = (if rar_TenantID req = '''' then req\<lparr>rar_TenantID := nt_getTenantID r\<rparr> else req)
          in nt_reply None StatusCreated N_event (asv_Record (nh_auditSvc h) req' w)))"

definition Handler_GetAuditEvent :: "'w nt_Handler \<Rightarrow> 'w nt_handler" where
  "Handler_GetAuditEvent h r w =
     nt_reply event_missing StatusOK N_event
       (asv_GetEvent (nh_auditSvc h) (nt_getTenantID r) (rq_URLParam r ''id'') w)"

definition query_value :: "request \<Rightarrow> string \<Rightarrow> string option" where
  "query_value r key = (let v = rq_Query r key in if v = '''' then None else Some v)"

definition Handler_QueryAuditEvents :: "'w nt_Handler \<Rightarrow> 'w nt_handler" where
  "Handler_QueryAuditEvents h r w =
     (let tenantID = nt_getTenantID r;
          (page, limit) = nt_getPagination r;
          filt = \<lparr>aft_ActorID = query_value r ''actor_id'', aft_Action = query_value r ''action'',
                  aft_Resource = query_value r ''resource'', aft_ResourceID = query_value r ''resource_id'',
                  aft_From = None, aft_To = None\<rparr>
      in nt_page (\<lambda>es cnt. N_events es cnt page limit) (asv_QueryEvents (nh_auditSvc h) tenantID filt page limit w))"

section \<open>Middleware and router\<close>

text \<open>A panic passes the logging middleware, which then does not look at the clock again.\<close>

definition nt_LoggingMiddleware :: "'a env_scheme nt_handler \<Rightarrow> 'a env_scheme nt_handler" where
  "nt_LoggingMiddleware next r w =
     (let (start, w1) = time_Now w in
      case next r w1 of
        (Reply resp, w2) \<Rightarrow> (let (stop, w3) = time_Now w2 in (Reply resp, w3))
      | (Panicked hs, w2) \<Rightarrow> (Panicked hs, w2))"

definition cors_headers :: "(string \<times> string) list" where
  "cors_headers =
     [(''Access-Control-Allow-Origin'', ''*''),
      (''Access-Control-Allow-Methods'', ''GET, POST, PUT, PATCH, DELETE, OPTIONS''),
      (''Access-Control-Allow-Headers'', ''Content-Type, Authorization, X-Tenant-ID, X-User-ID, x-api-key'')]"

fun with_headers :: "(string \<times> string) list \<Rightarrow> nt_answer \<Rightarrow> nt_answer" where
  "with_headers hs (Reply resp) = Reply (resp\<lparr>rs_header := hs @ rs_header resp\<rparr>)"
| "with_headers hs (Panicked hs') = Panicked (hs @ hs')"

definition nt_CORSMiddleware :: "'w nt_handler \<Rightarrow> 'w nt_handler" where
  "nt_CORSMiddleware next r w =
     (let (answer, w1) =
        (if rq_Method r = ''OPTIONS''
         then (Reply \<lparr>rs_status = StatusNoContent, rs_header = [], rs_body = N_empty\<rparr>, w)
         else next r w)
      in (with_headers cors_headers answer, w1))"

text \<open>
  What chi makes of a request: a pattern under \<open>/api/v1\<close>, the health route, or no route. \<open>rcv\<close> is what
  \<open>Recoverer\<close> answers after a panic, given the headers set so far.
\<close>

datatype nt_match =
    N_Matched string "string \<Rightarrow> string"
  | N_Health
  | N_None nat

definition nt_endpoint :: "(string \<Rightarrow> string option) \<Rightarrow> 'w nt_Handler \<Rightarrow> string \<Rightarrow> string \<Rightarrow> 'w nt_handler" where
  "nt_endpoint fl h meth pat r w =
     (if (meth, pat) = (''GET'', ''/notifications/'') then Handler_ListNotifications h r w
      else if (meth, pat) = (''POST'', ''/notifications/'') then Handler_SendNotification h r w
      else if (meth, pat) = (''POST'', ''/notifications/bulk'') then Handler_SendBulkNotifications h r w
      else if (meth, pat) = (''POST'', ''/notifications/mark-all-read'') then Handler_MarkAllRead h r w
      else if (meth, pat) = (''GET'', ''/notifications/{id}'') then Handler_GetNotification h r w
      else if (meth, pat) = (''POST'', ''/notifications/{id}/read'') then Handler_MarkRead h r w
      else if (meth, pat) = (''DELETE'', ''/notifications/{id}'') then Handler_DismissNotification h r w
      else if (meth, pat) = (''GET'', ''/audit/'') then Handler_QueryAuditEvents h r w
      else if (meth, pat) = (''POST'', ''/audit/'') then Handler_RecordAuditEvent fl h r w
      else if (meth, pat) = (''GET'', ''/audit/{id}'') then Handler_GetAuditEvent h r w
      else if (meth, pat) = (''GET'', ''/audit-events/'') then Handler_QueryAuditEvents h r w
      else if (meth, pat) = (''POST'', ''/audit-events/'') then Handler_RecordAuditEvent fl h r w
      else if (meth, pat) = (''GET'', ''/audit-events/{id}'') then Handler_GetAuditEvent h r w
      else (Reply (json_response StatusNotFound N_empty), w))"

fun recovered :: "((string \<times> string) list \<Rightarrow> nt_payload response) \<Rightarrow> nt_answer \<Rightarrow> nt_payload response" where
  "recovered rcv (Reply resp) = resp"
| "recovered rcv (Panicked hs) = rcv hs"

definition nt_NewRouter ::
  "(request \<Rightarrow> nt_match) \<Rightarrow> ((string \<times> string) list \<Rightarrow> nt_payload response) \<Rightarrow> (string \<Rightarrow> string option) \<Rightarrow>
    'a env_scheme nt_Handler \<Rightarrow> request \<Rightarrow> 'a env_scheme \<Rightarrow> nt_payload response \<times> 'a env_scheme" where
  "nt_NewRouter mux rcv fl h r w =
     (let (answer, w1) = nt_CORSMiddleware (nt_LoggingMiddleware (\<lambda>r w.
        case mux r of
          N_Matched pat params \<Rightarrow> nt_endpoint fl h (rq_Method r) pat (r\<lparr>rq_URLParam := params\<rparr>) w
        | N_Health \<Rightarrow> nt_Handler_HealthCheck r w
        | N_None status \<Rightarrow> (Reply (json_response status N_empty), w))) r w
      in (recovered rcv answer, w1))"

end
