(* ===== verification/Nt_Laws.thy ===== *)
theory Nt_Laws
  imports Nt_Repo Nt_Http
begin

text \<open>
  notification-service: the contract of the client and of the package \<open>attributevalue\<close>, executable
  instances of both, the wiring of \<open>cmd/server/main.go\<close>, and the rule that an invariant kept by every
  operation of the services is kept by every sequence of requests.
\<close>

section \<open>Attribute maps\<close>

text \<open>The attributes of an item struct, by its \<open>dynamodbav\<close> tags.\<close>

definition notification_attrs :: "notificationItem \<Rightarrow> item" where
  "notification_attrs x =
     [''tenantId'' \<mapsto> AvS (ni_TenantID x), ''notificationId'' \<mapsto> AvS (ni_ID x), ''userId'' \<mapsto> AvS (ni_UserID x),
      ''type'' \<mapsto> AvS (ni_Type x), ''title'' \<mapsto> AvS (ni_Title x), ''body'' \<mapsto> AvS (ni_Body x),
      ''channel'' \<mapsto> AvS (ni_Channel x), ''read'' \<mapsto> AvBOOL (ni_Read x), ''createdAt'' \<mapsto> AvS (ni_CreatedAt x)]
     (''readAt'' := map_option AvS (ni_ReadAt x),
      ''metadata'' := map_option (\<lambda>m. AvM (map (\<lambda>(k, v). (k, AvS v)) m)) (ni_Metadata x))"

definition or_omitted :: "string \<Rightarrow> av option" where
  "or_omitted s = (if s = '''' then None else Some (AvS s))"

definition audit_attrs :: "auditItem \<Rightarrow> item" where
  "audit_attrs x =
     [''tenantId'' \<mapsto> AvS (ai_TenantID x), ''eventId'' \<mapsto> AvS (ai_ID x), ''actorId'' \<mapsto> AvS (ai_ActorID x),
      ''actorEmail'' \<mapsto> AvS (ai_ActorEmail x), ''action'' \<mapsto> AvS (ai_Action x), ''resource'' \<mapsto> AvS (ai_Resource x),
      ''resourceId'' \<mapsto> AvS (ai_ResourceID x), ''ipAddress'' \<mapsto> AvS (ai_IPAddress x),
      ''userAgent'' \<mapsto> AvS (ai_UserAgent x), ''timestamp'' \<mapsto> AvS (ai_Timestamp x)]
     (''oldValue'' := or_omitted (ai_OldValue x), ''newValue'' := or_omitted (ai_NewValue x))"

text \<open>
  What an item whose attributes have the types of the struct is decoded to: absent ones stay zero, others
  are ignored (attributes that differ from the tags in the case of letters only are not modelled).
\<close>

fun is_str :: "av option \<Rightarrow> bool" where
  "is_str None = True"
| "is_str (Some (AvS _)) = True"
| "is_str _ = False"

fun str_of :: "av option \<Rightarrow> string" where
  "str_of (Some (AvS s)) = s"
| "str_of _ = ''''"

fun str_ptr :: "av option \<Rightarrow> string option" where
  "str_ptr (Some (AvS s)) = Some s"
| "str_ptr _ = None"

fun is_bool :: "av option \<Rightarrow> bool" where
  "is_bool None = True"
| "is_bool (Some (AvBOOL _)) = True"
| "is_bool _ = False"

fun is_str_map :: "av option \<Rightarrow> bool" where
  "is_str_map None = True"
| "is_str_map (Some (AvM m)) = (go_map m \<and> list_all (\<lambda>(k, v). is_str (Some v)) m)"
| "is_str_map _ = False"

fun str_map :: "av option \<Rightarrow> (string \<times> string) list option" where
  "str_map (Some (AvM m)) = Some (map (\<lambda>(k, v). (k, str_of (Some v))) m)"
| "str_map _ = None"

definition notification_typed :: "item \<Rightarrow> bool" where
  "notification_typed it \<longleftrightarrow>
     list_all (\<lambda>a. is_str (it a)) [''tenantId'', ''notificationId'', ''userId'', ''type'', ''title'', ''body'',
       ''channel'', ''readAt'', ''createdAt''] \<and> is_bool (it ''read'') \<and> is_str_map (it ''metadata'')"

definition item_notification :: "item \<Rightarrow> notificationItem" where
  "item_notification it =
     \<lparr>ni_TenantID = str_of (it ''tenantId''), ni_ID = str_of (it ''notificationId''),
      ni_UserID = str_of (it ''userId''), ni_Type = str_of (it ''type''), ni_Title = str_of (it ''title''),
      ni_Body = str_of (it ''body''), ni_Channel = str_of (it ''channel''), ni_Read = (it ''read'' = Some (AvBOOL True)),
      ni_ReadAt = str_ptr (it ''readAt''), ni_Metadata = str_map (it ''metadata''),
      ni_CreatedAt = str_of (it ''createdAt'')\<rparr>"

definition audit_typed :: "item \<Rightarrow> bool" where
  "audit_typed it \<longleftrightarrow>
     list_all (\<lambda>a. is_str (it a)) [''tenantId'', ''eventId'', ''actorId'', ''actorEmail'', ''action'', ''resource'',
       ''resourceId'', ''oldValue'', ''newValue'', ''ipAddress'', ''userAgent'', ''timestamp'']"

definition item_audit :: "item \<Rightarrow> auditItem" where
  "item_audit it =
     \<lparr>ai_TenantID = str_of (it ''tenantId''), ai_ID = str_of (it ''eventId''), ai_ActorID = str_of (it ''actorId''),
      ai_ActorEmail = str_of (it ''actorEmail''), ai_Action = str_of (it ''action''),
      ai_Resource = str_of (it ''resource''), ai_ResourceID = str_of (it ''resourceId''),
      ai_OldValue = str_of (it ''oldValue''), ai_NewValue = str_of (it ''newValue''),
      ai_IPAddress = str_of (it ''ipAddress''), ai_UserAgent = str_of (it ''userAgent''),
      ai_Timestamp = str_of (it ''timestamp'')\<rparr>"

text \<open>A map without entries may be written or left out (\<open>omitempty\<close>).\<close>

definition notification_written :: "notificationItem \<Rightarrow> item \<Rightarrow> bool" where
  "notification_written x it \<longleftrightarrow>
     (\<exists>m. elems m = elems (ni_Metadata x) \<and> it = notification_attrs (x\<lparr>ni_Metadata := m\<rparr>))"

text \<open>A \<open>map[string]string\<close> becomes string attributes.\<close>

definition key_attrs :: "(string \<times> string) list \<Rightarrow> item" where
  "key_attrs kvs a = map_option AvS (map_of kvs a)"

locale nt_codec_laws =
  fixes K :: nt_codec
  assumes marshal_key: "av_MarshalKey K kvs = Inr it \<Longrightarrow> it = key_attrs kvs"
    and marshal_notification: "av_MarshalNotification K x = Inr it \<Longrightarrow> notification_written x it"
    and unmarshal_notification: "notification_typed it \<Longrightarrow> av_UnmarshalNotification K it = Inr (item_notification it)"
    and unmarshal_notification_strings: "av_UnmarshalNotification K it = Inr x \<Longrightarrow>
      (it ''tenantId'' = Some (AvS s) \<longrightarrow> ni_TenantID x = s) \<and> (it ''notificationId'' = Some (AvS s) \<longrightarrow> ni_ID x = s) \<and>
      (it ''userId'' = Some (AvS s) \<longrightarrow> ni_UserID x = s)"
    and marshal_audit: "av_MarshalAudit K y = Inr it \<Longrightarrow> it = audit_attrs y"
    and unmarshal_audit: "audit_typed it \<Longrightarrow> av_UnmarshalAudit K it = Inr (item_audit it)"
    and unmarshal_audit_strings: "av_UnmarshalAudit K it = Inr y \<Longrightarrow>
      (it ''tenantId'' = Some (AvS s) \<longrightarrow> ai_TenantID y = s) \<and> (it ''eventId'' = Some (AvS s) \<longrightarrow> ai_ID y = s) \<and>
      (it ''actorId'' = Some (AvS s) \<longrightarrow> ai_ActorID y = s) \<and> (it ''action'' = Some (AvS s) \<longrightarrow> ai_Action y = s) \<and>
      (it ''resource'' = Some (AvS s) \<longrightarrow> ai_Resource y = s) \<and> (it ''resourceId'' = Some (AvS s) \<longrightarrow> ai_ResourceID y = s)"

definition type_error :: goerr where
  "type_error = Foreign ''UnmarshalTypeError''"

definition mem_codec :: nt_codec where
  "mem_codec =
     \<lparr>av_MarshalKey = (\<lambda>kvs. Inr (key_attrs kvs)),
      av_MarshalNotification = (\<lambda>x. Inr (notification_attrs x)),
      av_UnmarshalNotification = (\<lambda>it. if notification_typed it then Inr (item_notification it) else Inl type_error),
      av_MarshalAudit = (\<lambda>y. Inr (audit_attrs y)),
      av_UnmarshalAudit = (\<lambda>it. if audit_typed it then Inr (item_audit it) else Inl type_error)\<rparr>"

lemma notification_written_refl [simp]: "notification_written x (notification_attrs x)"
  unfolding notification_written_def by (rule exI [of _ "ni_Metadata x"]) simp

interpretation mem_codec: nt_codec_laws mem_codec
  by unfold_locales (auto simp: mem_codec_def item_notification_def item_audit_def split: if_splits)

text \<open>What was written is read back.\<close>

lemma str_ptr_map [simp]: "str_ptr (map_option AvS r) = r"
  by (cases r) simp_all

lemma str_map_map [simp]: "str_map (map_option (\<lambda>m. AvM (map (\<lambda>(k, v). (k, AvS v)) m)) mm) = mm"
  by (cases mm) (simp_all add: comp_def split_beta)

lemma item_notification_attrs: "item_notification (notification_attrs x) = x"
  by (simp add: item_notification_def notification_attrs_def)

lemma notification_attrs_typed: "go_map (elems (ni_Metadata x)) \<Longrightarrow> notification_typed (notification_attrs x)"
  by (cases "ni_ReadAt x"; cases "ni_Metadata x")
    (auto simp: notification_typed_def notification_attrs_def go_map_def comp_def split_beta list_all_iff)

lemma item_audit_attrs: "item_audit (audit_attrs y) = y"
  by (simp add: item_audit_def audit_attrs_def or_omitted_def)

lemma audit_attrs_typed: "audit_typed (audit_attrs y)"
  by (simp add: audit_typed_def audit_attrs_def or_omitted_def)

section \<open>The database\<close>

locale nt_db_laws =
  fixes db :: nt_db and seenN seenA :: "dyn_tbl \<Rightarrow> dyn_key \<Rightarrow> item option"
  assumes notifications_laws: "dyn_laws (ndb_notifications db) ''tenantId'' ''notificationId'' seenN"
    and audit_laws: "dyn_laws (ndb_audit db) ''tenantId'' ''eventId'' seenA"
    and codec_laws: "nt_codec_laws (ndb_codec db)"

sublocale nt_db_laws \<subseteq> notifications_t: dyn_laws "ndb_notifications db" "''tenantId''" "''notificationId''" seenN
  by (rule notifications_laws)

sublocale nt_db_laws \<subseteq> audit_t: dyn_laws "ndb_audit db" "''tenantId''" "''eventId''" seenA
  by (rule audit_laws)

sublocale nt_db_laws \<subseteq> codec: nt_codec_laws "ndb_codec db"
  by (rule codec_laws)

abbreviation "mem_seenN \<equiv> mem_seen ''tenantId'' ''notificationId''"
abbreviation "mem_seenA \<equiv> mem_seen ''tenantId'' ''eventId''"

definition mem_nt_db :: "nat \<Rightarrow> nt_db" where
  "mem_nt_db n =
     \<lparr>ndb_notifications = mem_dyn ''tenantId'' ''notificationId'' n, ndb_audit = mem_dyn ''tenantId'' ''eventId'' n,
      ndb_codec = mem_codec\<rparr>"

interpretation mem_nt: nt_db_laws "mem_nt_db n" mem_seenN mem_seenA for n
  by (rule nt_db_laws.intro)
    (simp_all add: mem_nt_db_def mem_dyn.dyn_laws_axioms mem_codec.nt_codec_laws_axioms)

section \<open>Wiring\<close>

definition nt_main :: "(string \<Rightarrow> string option) \<Rightarrow> nt_db \<Rightarrow> nt_world nt_Handler" where
  "nt_main fl db =
     \<lparr>nh_notifSvc = NewNotificationService (notificationRepository db),
      nh_auditSvc = NewAuditService (auditRepository fl db)\<rparr>"

section \<open>Runs\<close>

text \<open>
  The tenants whose data a request may change, by its method and the pattern chi finds: in a request that stores
  something the tenant of the body, or the one of the header where the body names none (in a bulk request the
  ones of the body), in one that marks or dismisses the one of the header, and none in every other request.
\<close>

definition sent_tenants :: "request \<Rightarrow> string set" where
  "sent_tenants r =
     (case decode_Send (rq_Body r) of
        None \<Rightarrow> {}
      | Some q \<Rightarrow> {if snr_TenantID q = '''' then nt_getTenantID r else snr_TenantID q})"

definition bulk_tenants :: "request \<Rightarrow> string set" where
  "bulk_tenants r = (case decode_Sends (rq_Body r) of None \<Rightarrow> {} | Some qs \<Rightarrow> snr_TenantID ` set qs)"

definition recorded_tenants :: "(string \<Rightarrow> string option) \<Rightarrow> request \<Rightarrow> string set" where
  "recorded_tenants fl r =
     (case decode_Audit fl (rq_Body r) of
        None \<Rightarrow> {}
      | Some q \<Rightarrow> {if rar_TenantID q = '''' then nt_getTenantID r else rar_TenantID q})"

definition endpoint_tenants :: "(string \<Rightarrow> string option) \<Rightarrow> string \<Rightarrow> string \<Rightarrow> request \<Rightarrow> string set" where
  "endpoint_tenants fl meth pat r =
     (if (meth, pat) = (''GET'', ''/notifications/'') then {}
      else if (meth, pat) = (''POST'', ''/notifications/'') then sent_tenants r
      else if (meth, pat) = (''POST'', ''/notifications/bulk'') then bulk_tenants r
      else if (meth, pat) = (''POST'', ''/notifications/mark-all-read'') then {nt_getTenantID r}
      else if (meth, pat) = (''GET'', ''/notifications/{id}'') then {}
      else if (meth, pat) = (''POST'', ''/notifications/{id}/read'') then {nt_getTenantID r}
      else if (meth, pat) = (''DELETE'', ''/notifications/{id}'') then {nt_getTenantID r}
      else if (meth, pat) = (''GET'', ''/audit/'') then {}
      else if (meth, pat) = (''POST'', ''/audit/'') then recorded_tenants fl r
      else if (meth, pat) = (''GET'', ''/audit/{id}'') then {}
      else if (meth, pat) = (''GET'', ''/audit-events/'') then {}
      else if (meth, pat) = (''POST'', ''/audit-events/'') then recorded_tenants fl r
      else if (meth, pat) = (''GET'', ''/audit-events/{id}'') then {}
      else {})"

definition request_tenants :: "(string \<Rightarrow> string option) \<Rightarrow> (request \<Rightarrow> nt_match) \<Rightarrow> request \<Rightarrow> string set" where
  "request_tenants fl mux r =
     (case mux r of N_Matched pat params \<Rightarrow> endpoint_tenants fl (rq_Method r) pat r | _ \<Rightarrow> {})"

inductive nt_reach ::
  "(string \<Rightarrow> string option) \<Rightarrow> 'a env_scheme nt_Handler \<Rightarrow> 'a env_scheme \<Rightarrow> 'a env_scheme \<Rightarrow> bool"
  for fl :: "string \<Rightarrow> string option" and h :: "'a env_scheme nt_Handler" and w :: "'a env_scheme" where
  start: "nt_reach fl h w w"
| request: "nt_reach fl h w w1 \<Longrightarrow> nt_reach fl h w (snd (nt_NewRouter mux rcv fl h r w1))"

text \<open>\<open>nt_kept\<close>: an invariant kept by every operation the handlers call, when it works for a tenant in \<open>T\<close>.\<close>

locale nt_kept =
  fixes h :: "'a env_scheme nt_Handler" and I :: "'a env_scheme \<Rightarrow> bool" and T :: "string set"
  assumes now: "I w \<Longrightarrow> I (w\<lparr>env_clock := k\<rparr>)"
    and Send: "I w \<Longrightarrow> snr_TenantID q \<in> T \<Longrightarrow> I (snd (nsv_Send (nh_notifSvc h) q w))"
    and SendBulk: "I w \<Longrightarrow> \<forall>q\<in>set qs. snr_TenantID q \<in> T \<Longrightarrow> I (snd (nsv_SendBulk (nh_notifSvc h) qs w))"
    and GetNotification: "I w \<Longrightarrow> I (snd (nsv_GetNotification (nh_notifSvc h) t i w))"
    and ListForUser: "I w \<Longrightarrow> I (snd (nsv_ListForUser (nh_notifSvc h) t u pg l w))"
    and MarkRead: "I w \<Longrightarrow> t \<in> T \<Longrightarrow> I (snd (nsv_MarkRead (nh_notifSvc h) t i w))"
    and MarkAllRead: "I w \<Longrightarrow> t \<in> T \<Longrightarrow> I (snd (nsv_MarkAllRead (nh_notifSvc h) t u w))"
    and Dismiss: "I w \<Longrightarrow> t \<in> T \<Longrightarrow> I (snd (nsv_Dismiss (nh_notifSvc h) t i w))"
    and Record: "I w \<Longrightarrow> rar_TenantID a \<in> T \<Longrightarrow> I (snd (asv_Record (nh_auditSvc h) a w))"
    and GetEvent: "I w \<Longrightarrow> I (snd (asv_GetEvent (nh_auditSvc h) t i w))"
    and QueryEvents: "I w \<Longrightarrow> I (snd (asv_QueryEvents (nh_auditSvc h) t f pg l w))"
begin

lemma answers [simp]:
  "snd (nt_reply known st pay x) = snd x" "snd (nt_done known st msg y) = snd y" "snd (nt_page pg z) = snd z"
  by (auto simp: nt_reply_def nt_done_def nt_page_def split: prod.split sum.split option.split outcome.split)

text \<open>\<open>serves S f\<close>: the handler keeps the invariant where \<open>T\<close> has the tenants \<open>S\<close> gives the request.\<close>

definition serves :: "(request \<Rightarrow> string set) \<Rightarrow> 'a env_scheme nt_handler \<Rightarrow> bool" where
  "serves S f \<longleftrightarrow> (\<forall>r w. I w \<longrightarrow> S r \<subseteq> T \<longrightarrow> I (snd (f r w)))"

lemma servesD: "serves S f \<Longrightarrow> I w \<Longrightarrow> S r \<subseteq> T \<Longrightarrow> I (snd (f r w))"
  by (simp add: serves_def)

lemma nt_storing_handlers:
  "serves sent_tenants (Handler_SendNotification h)" "serves bulk_tenants (Handler_SendBulkNotifications h)"
  "serves (recorded_tenants fl) (Handler_RecordAuditEvent fl h)"
  unfolding serves_def sent_tenants_def bulk_tenants_def recorded_tenants_def
  by (auto simp: Handler_SendNotification_def Handler_SendBulkNotifications_def Handler_RecordAuditEvent_def Let_def
      intro!: Send SendBulk Record split: option.split)

lemma nt_marking_handlers:
  "serves (\<lambda>r. {nt_getTenantID r}) (Handler_MarkRead h)" "serves (\<lambda>r. {nt_getTenantID r}) (Handler_MarkAllRead h)"
  "serves (\<lambda>r. {nt_getTenantID r}) (Handler_DismissNotification h)"
  unfolding serves_def
  by (auto simp: Handler_MarkRead_def Handler_MarkAllRead_def Handler_DismissNotification_def intro!: MarkRead MarkAllRead Dismiss)

lemma nt_reading_handlers:
  "serves (\<lambda>_. {}) (Handler_GetNotification h)" "serves (\<lambda>_. {}) (Handler_ListNotifications h)"
  "serves (\<lambda>_. {}) (Handler_GetAuditEvent h)" "serves (\<lambda>_. {}) (Handler_QueryAuditEvents h)"
  unfolding serves_def
  by (auto simp: Handler_GetNotification_def Handler_ListNotifications_def Handler_GetAuditEvent_def
      Handler_QueryAuditEvents_def Let_def intro!: GetNotification ListForUser GetEvent QueryEvents split: prod.split)

lemma serves_if:
  "serves S f \<Longrightarrow> serves S' g \<Longrightarrow> serves (\<lambda>r. if b then S r else S' r) (\<lambda>r w. if b then f r w else g r w)"
  by (simp add: serves_def)

lemma serves_endpoint: "serves (endpoint_tenants fl meth pat) (nt_endpoint fl h meth pat)"
proof -
  have other: "serves (\<lambda>_. {}) (\<lambda>r w. (Reply (json_response StatusNotFound N_empty), w))" by (simp add: serves_def)
  show ?thesis
    unfolding nt_endpoint_def [abs_def] endpoint_tenants_def [abs_def]
    by (intro serves_if nt_storing_handlers nt_marking_handlers nt_reading_handlers other)
qed

lemma endpoint_tenants_params [simp]:
  "endpoint_tenants fl meth pat (r\<lparr>rq_URLParam := p\<rparr>) = endpoint_tenants fl meth pat r"
proof -
  have "nt_getTenantID (r\<lparr>rq_URLParam := p\<rparr>) = nt_getTenantID r" by (simp add: nt_getTenantID_def)
  moreover have "rq_Body (r\<lparr>rq_URLParam := p\<rparr>) = rq_Body r" by simp
  ultimately show ?thesis
    by (simp only: endpoint_tenants_def sent_tenants_def bulk_tenants_def recorded_tenants_def)
qed

lemma serves_log: "serves S f \<Longrightarrow> serves S (nt_LoggingMiddleware f)"
  unfolding serves_def nt_LoggingMiddleware_def time_Now_def
  by (auto simp: Let_def now split: prod.split nt_answer.split) (metis now snd_conv)+

lemma serves_cors: "serves S f \<Longrightarrow> serves S (nt_CORSMiddleware f)"
  unfolding serves_def nt_CORSMiddleware_def by (auto simp: Let_def split_beta)

lemma router:
  assumes "I w" "request_tenants fl mux r \<subseteq> T"
  shows "I (snd (nt_NewRouter mux rcv fl h r w))"
proof -
  have "serves (request_tenants fl mux) (\<lambda>r w. case mux r of
          N_Matched pat params \<Rightarrow> nt_endpoint fl h (rq_Method r) pat (r\<lparr>rq_URLParam := params\<rparr>) w
        | N_Health \<Rightarrow> nt_Handler_HealthCheck r w
        | N_None status \<Rightarrow> (Reply (json_response status N_empty), w))"
    using servesD [OF serves_endpoint] unfolding serves_def request_tenants_def
    by (auto simp: nt_Handler_HealthCheck_def split: nt_match.split)
  from servesD [where S = "request_tenants fl mux", OF serves_cors [OF serves_log [OF this]] assms] show ?thesis
    unfolding nt_NewRouter_def by (simp add: Let_def split_beta)
qed

lemma nt_reach_kept: "nt_reach fl h w w' \<Longrightarrow> I w \<Longrightarrow> T = UNIV \<Longrightarrow> I w'"
  by (induction rule: nt_reach.induct) (auto intro: router)

end

end
