(* ===== verification/Nt_Inv.thy ===== *)
theory Nt_Inv
  imports Nt_Laws
begin

text \<open>
  notification-service: what every operation does to the two tables, and the two invariants that follow
  for sequences of requests (locale \<open>nt_kept\<close> of theory Nt_Laws): recorded audit events stay, and a
  request touches only the tenants it names.
\<close>

section \<open>Vocabulary\<close>

abbreviation notifs :: "nt_world \<Rightarrow> dyn_key \<Rightarrow> item option" where "notifs w \<equiv> stored (nw_notifications w)"
abbreviation events :: "nt_world \<Rightarrow> dyn_key \<Rightarrow> item option" where "events w \<equiv> stored (nw_audit w)"
abbreviation "nt_data w \<equiv> (notifs w, events w, env_uuids w)"

definition marked :: "string \<Rightarrow> item \<Rightarrow> item" where
  "marked now it = it(''read'' \<mapsto> AvBOOL True, ''readAt'' \<mapsto> AvS now)"

definition base_item :: "string \<Rightarrow> string \<Rightarrow> item option \<Rightarrow> item" where
  "base_item t i found = (case found of None \<Rightarrow> key_attrs (notification_key t i) | Some it \<Rightarrow> it)"

lemma notification_item_key [simp]:
  "item_key ''tenantId'' ''notificationId'' (key_attrs (notification_key t i)) = Some (t, i)"
  by (simp add: item_key_def key_attrs_def notification_key_def)

lemma audit_item_key [simp]:
  "item_key ''tenantId'' ''eventId'' (key_attrs (audit_key t i)) = Some (t, i)"
  "item_key ''tenantId'' ''eventId'' (audit_attrs y) = Some (ai_TenantID y, ai_ID y)"
  by (simp_all add: item_key_def key_attrs_def audit_key_def audit_attrs_def)

lemma written_item_key:
  "notification_written x it \<Longrightarrow> item_key ''tenantId'' ''notificationId'' it = Some (ni_TenantID x, ni_ID x)"
  by (auto simp: notification_written_def item_key_def notification_attrs_def)

lemma updated_read [simp]: "updated (read_update now) it = Some (marked now it)"
  by (simp add: updated_def read_update_def token_def attribute_name_def marked_def)

lemma item_keyD: "item_key pk sk it = Some (a, b) \<Longrightarrow> it pk = Some (AvS a) \<and> it sk = Some (AvS b)"
  by (auto simp: item_key_def split: option.splits av.splits)

section \<open>What the operations of the repositories do\<close>

context nt_db_laws
begin

lemma Create_effect:
  assumes "notificationRepository_Create db n w = (r, w')"
  obtains (failed) "r \<noteq> None" "nt_data w' = nt_data w"
  | (put) it where "notification_written (toNotificationItem n) it"
    "notifs w' = (notifs w)((nf_TenantID n, nf_ID n) \<mapsto> it)" "events w' = events w" "env_uuids w' = env_uuids w"
proof (cases "av_MarshalNotification (ndb_codec db) (toNotificationItem n)")
  case (Inl e)
  show ?thesis by (rule failed) (use assms Inl in \<open>auto simp: notificationRepository_Create_def\<close>)
next
  case (Inr it)
  obtain t' where t': "dy_PutItem (ndb_notifications db) it (nw_notifications w) = (r, t')" "w' = w\<lparr>nw_notifications := t'\<rparr>"
    using assms Inr by (auto simp: notificationRepository_Create_def on_table_def Let_def split: prod.splits)
  note wr = codec.marshal_notification [OF Inr]
  from notifications_t.put [OF t'(1)] written_item_key [OF wr] show ?thesis
    using failed put [OF wr] t'(2) by (auto simp: toNotificationItem_def)
qed

lemma MarkRead_effect:
  assumes "notificationRepository_MarkRead db t i w = (r, w')"
  obtains (failed) "r \<noteq> None" "nt_data w' = nt_data w"
  | (update) "notifs w' = (notifs w)((t, i) \<mapsto> marked (format_RFC3339 (shd (env_clock w))) (base_item t i (notifs w (t, i))))"
    "events w' = events w" "env_uuids w' = env_uuids w"
proof (cases "av_MarshalKey (ndb_codec db) (notification_key t i)")
  case (Inl e)
  show ?thesis by (rule failed) (use assms Inl in \<open>auto simp: notificationRepository_MarkRead_def\<close>)
next
  case (Inr key)
  obtain t' where t': "dy_UpdateItem (ndb_notifications db) key (read_update (format_RFC3339 (shd (env_clock w)))) (nw_notifications w) = (r, t')"
      "nt_data w' = (stored t', events w, env_uuids w)"
    using assms Inr by (auto simp: notificationRepository_MarkRead_def on_table_def Let_def time_Now_def split: prod.splits)
  from notifications_t.update [OF t'(1)] show ?thesis
    using failed update t'(2) codec.marshal_key [OF Inr] by (auto simp: base_item_def)
qed

lemma Delete_effect:
  assumes "notificationRepository_Delete db t i w = (r, w')"
  obtains (failed) "r \<noteq> None" "nt_data w' = nt_data w"
  | (delete) "notifs w' = (notifs w)((t, i) := None)" "events w' = events w" "env_uuids w' = env_uuids w"
proof (cases "av_MarshalKey (ndb_codec db) (notification_key t i)")
  case (Inl e)
  show ?thesis by (rule failed) (use assms Inl in \<open>auto simp: notificationRepository_Delete_def\<close>)
next
  case (Inr key)
  obtain t' where t': "dy_DeleteItem (ndb_notifications db) key (nw_notifications w) = (r, t')" "w' = w\<lparr>nw_notifications := t'\<rparr>"
    using assms Inr by (auto simp: notificationRepository_Delete_def on_table_def Let_def split: prod.splits)
  from notifications_t.delete [OF t'(1)] show ?thesis
    using failed delete t'(2) codec.marshal_key [OF Inr] by auto
qed

lemma Record_effect:
  assumes "auditRepository_Record db e w = (r, w')"
  obtains (failed) "r \<noteq> None" "nt_data w' = nt_data w"
  | (put) "events w' = (events w)((ae_TenantID e, ae_ID e) \<mapsto> audit_attrs (toAuditItem e))"
    "notifs w' = notifs w" "env_uuids w' = env_uuids w"
proof (cases "av_MarshalAudit (ndb_codec db) (toAuditItem e)")
  case (Inl err)
  show ?thesis by (rule failed) (use assms Inl in \<open>auto simp: auditRepository_Record_def\<close>)
next
  case (Inr it)
  obtain t' where t': "dy_PutItem (ndb_audit db) it (nw_audit w) = (r, t')" "w' = w\<lparr>nw_audit := t'\<rparr>"
    using assms Inr by (auto simp: auditRepository_Record_def on_table_def Let_def split: prod.splits)
  from audit_t.put [OF t'(1)] codec.marshal_audit [OF Inr] show ?thesis
    using failed put t'(2) by (auto simp: toAuditItem_def)
qed

text \<open>A lookup answers with what the replica holds under the key.\<close>

lemma FindByID_ok:
  assumes "notificationRepository_FindByID db t i w = (Inr n, w')"
  obtains it x where "seenN (nw_notifications w) (t, i) = Some it"
    "av_UnmarshalNotification (ndb_codec db) it = Inr x" "n = fromNotificationItem x"
proof -
  from assms obtain key where key: "av_MarshalKey (ndb_codec db) (notification_key t i) = Inr key"
    by (auto simp: notificationRepository_FindByID_def split: sum.splits)
  obtain g t' where g: "dy_GetItem (ndb_notifications db) key (nw_notifications w) = (g, t')" by (cases "dy_GetItem (ndb_notifications db) key (nw_notifications w)")
  from assms key g obtain it x where f: "g = Inr (Some it)" "av_UnmarshalNotification (ndb_codec db) it = Inr x" "n = fromNotificationItem x"
    by (auto simp: notificationRepository_FindByID_def on_table_def split: sum.splits option.splits)
  with g key codec.marshal_key [OF key] have "seenN (nw_notifications w) (t, i) = Some it"
    using notifications_t.get_ok [of key "nw_notifications w" "Some it" t' "(t, i)"] by simp
  with f that show ?thesis by blast
qed

lemma FindEvent_ok:
  assumes "auditRepository_FindByID fl db t i w = (Inr e, w')"
  obtains it y where "seenA (nw_audit w) (t, i) = Some it"
    "av_UnmarshalAudit (ndb_codec db) it = Inr y" "e = fromAuditItem fl y"
proof -
  from assms obtain key where key: "av_MarshalKey (ndb_codec db) (audit_key t i) = Inr key"
    by (auto simp: auditRepository_FindByID_def split: sum.splits)
  obtain g t' where g: "dy_GetItem (ndb_audit db) key (nw_audit w) = (g, t')" by (cases "dy_GetItem (ndb_audit db) key (nw_audit w)")
  from assms key g obtain it y where f: "g = Inr (Some it)" "av_UnmarshalAudit (ndb_codec db) it = Inr y" "e = fromAuditItem fl y"
    by (auto simp: auditRepository_FindByID_def on_table_def split: sum.splits option.splits)
  with g key codec.marshal_key [OF key] have "seenA (nw_audit w) (t, i) = Some it"
    using audit_t.get_ok [of key "nw_audit w" "Some it" t' "(t, i)"] by simp
  with f that show ?thesis by blast
qed

lemma reads_data:
  "nt_data (snd (notificationRepository_FindByID db t i w)) = nt_data w"
  "nt_data (snd (notificationRepository_ListByUser db t u pg l w)) = nt_data w"
  "nt_data (snd (auditRepository_FindByID fl db t i w)) = nt_data w"
  "nt_data (snd (auditRepository_Query fl db t f pg l w)) = nt_data w"
  by (auto simp: notificationRepository_FindByID_def notificationRepository_ListByUser_def auditRepository_FindByID_def
      auditRepository_Query_def on_table_def Let_def notifications_t.get_stored notifications_t.query_stored
      audit_t.get_stored audit_t.query_stored split: sum.splits prod.splits option.splits)

text \<open>The loop of \<open>MarkAllRead\<close> touches one tenant, and leaves an item as it is or marked.\<close>

definition only_marks :: "string \<Rightarrow> nt_world \<Rightarrow> nt_world \<Rightarrow> bool" where
  "only_marks t w w' \<longleftrightarrow> events w' = events w \<and> env_uuids w' = env_uuids w \<and>
     (\<forall>k. fst k \<noteq> t \<longrightarrow> notifs w' k = notifs w k) \<and>
     (\<forall>k it. notifs w' k = Some it \<longrightarrow> notifs w k = Some it \<or> it ''read'' = Some (AvBOOL True))"

lemma only_marks_same: "nt_data w' = nt_data w \<Longrightarrow> only_marks t w w'"
  by (simp add: only_marks_def)

lemma only_marks_trans: "only_marks t u v \<Longrightarrow> only_marks t v w \<Longrightarrow> only_marks t u w"
  unfolding only_marks_def by (metis option.inject)

lemma MarkRead_marks: "only_marks t w (snd (notificationRepository_MarkRead db t i w))"
proof -
  obtain r w' where "notificationRepository_MarkRead db t i w = (r, w')" by (cases "notificationRepository_MarkRead db t i w")
  then show ?thesis
  proof (cases rule: MarkRead_effect)
    case update
    then show ?thesis using \<open>_ = (r, w')\<close> by (auto simp: only_marks_def marked_def)
  qed (simp add: only_marks_same \<open>_ = (r, w')\<close>)
qed

lemma mark_each_marks: "only_marks t w (mark_each db t its w)"
proof (induction its arbitrary: w)
  case (Cons it its)
  then show ?case using only_marks_trans [OF MarkRead_marks Cons.IH] by (simp split: sum.split)
qed (simp add: only_marks_same)

lemma MarkAllRead_marks: "only_marks t w (snd (notificationRepository_MarkAllRead db t u w))"
proof -
  obtain qr t' where q: "dy_Query (ndb_notifications db) (unread_query t u) (nw_notifications w) = (qr, t')"
    by (cases "dy_Query (ndb_notifications db) (unread_query t u) (nw_notifications w)")
  have "only_marks t w (w\<lparr>nw_notifications := t'\<rparr>)"
    by (rule only_marks_same) (simp add: notifications_t.query_stored [OF q])
  with q only_marks_trans [OF this mark_each_marks] show ?thesis
    by (auto simp: notificationRepository_MarkAllRead_def on_table_def split: sum.split)
qed

end

section \<open>Audit events stay\<close>

text \<open>The events of \<open>m\<close> are there, and the identifiers to come are no identifiers of events.\<close>

definition log_inv :: "(dyn_key \<Rightarrow> item option) \<Rightarrow> nt_world \<Rightarrow> bool" where
  "log_inv m w \<longleftrightarrow> fresh_ids (env_uuids w) (snd ` dom (events w)) \<and> m \<subseteq>\<^sub>m events w"

lemma log_inv_same: "log_inv m w \<Longrightarrow> events w' = events w \<Longrightarrow> env_uuids w' = env_uuids w \<Longrightarrow> log_inv m w'"
  by (simp add: log_inv_def)

lemma log_inv_skip: "log_inv m w \<Longrightarrow> events w' = events w \<Longrightarrow> env_uuids w' = stl (env_uuids w) \<Longrightarrow> log_inv m w'"
  unfolding log_inv_def by (metis fresh_mono fresh_stl subset_insertI)

lemma log_inv_put:
  assumes "log_inv m w" "events w' = (events w)((t, shd (env_uuids w)) \<mapsto> it)" "env_uuids w' = stl (env_uuids w)"
  shows "log_inv m w'"
proof -
  from assms(1) have new: "events w (t, shd (env_uuids w)) = None"
    unfolding log_inv_def by (metis domIff fresh_shd image_eqI snd_conv)
  have "snd ` dom (events w') = insert (shd (env_uuids w)) (snd ` dom (events w))" by (auto simp: assms(2))
  with assms(1,3) have "fresh_ids (env_uuids w') (snd ` dom (events w'))" by (simp add: log_inv_def fresh_stl)
  moreover have "m \<subseteq>\<^sub>m events w'"
    using assms(1,2) new by (auto simp: log_inv_def map_le_def dom_def)
  ultimately show ?thesis by (simp add: log_inv_def)
qed

section \<open>Tenants\<close>

text \<open>Outside the tenants of \<open>T\<close> the tables are as in \<open>w0\<close>.\<close>

definition tenants_inv :: "string set \<Rightarrow> nt_world \<Rightarrow> nt_world \<Rightarrow> bool" where
  "tenants_inv T w0 w \<longleftrightarrow> (\<forall>k. fst k \<notin> T \<longrightarrow> notifs w k = notifs w0 k \<and> events w k = events w0 k)"

lemma tenants_inv_same: "tenants_inv T w0 w \<Longrightarrow> notifs w' = notifs w \<Longrightarrow> events w' = events w \<Longrightarrow> tenants_inv T w0 w'"
  by (simp add: tenants_inv_def)

lemma nt_main_simps [simp]:
  "nsv_Send (nh_notifSvc (nt_main fl db)) = notificationService_Send \<lparr>nsi_repo = notificationRepository db\<rparr>"
  "nsv_SendBulk (nh_notifSvc (nt_main fl db)) = notificationService_SendBulk \<lparr>nsi_repo = notificationRepository db\<rparr>"
  "nsv_GetNotification (nh_notifSvc (nt_main fl db)) t i w = notificationRepository_FindByID db t i w"
  "nsv_ListForUser (nh_notifSvc (nt_main fl db)) t u pg l w = notificationRepository_ListByUser db t u pg l w"
  "nsv_MarkRead (nh_notifSvc (nt_main fl db)) t i w = notificationRepository_MarkRead db t i w"
  "nsv_MarkAllRead (nh_notifSvc (nt_main fl db)) t u w = notificationRepository_MarkAllRead db t u w"
  "nsv_Dismiss (nh_notifSvc (nt_main fl db)) t i w = notificationRepository_Delete db t i w"
  "asv_Record (nh_auditSvc (nt_main fl db)) = auditService_Record \<lparr>asi_repo = auditRepository fl db\<rparr>"
  "asv_GetEvent (nh_auditSvc (nt_main fl db)) t i w = auditRepository_FindByID fl db t i w"
  "asv_QueryEvents (nh_auditSvc (nt_main fl db)) t f pg l w = auditRepository_Query fl db t f pg l w"
  by (simp_all add: nt_main_def Let_def NewNotificationService_def NewAuditService_def notificationService_GetNotification_def
      notificationService_ListForUser_def notificationService_MarkRead_def notificationService_MarkAllRead_def
      notificationService_Dismiss_def auditService_GetEvent_def auditService_QueryEvents_def notificationRepository_def
      auditRepository_def)

abbreviation "the_notifications db \<equiv> \<lparr>nsi_repo = notificationRepository db\<rparr>"
abbreviation "the_audit fl db \<equiv> \<lparr>asi_repo = auditRepository fl db\<rparr>"

context nt_db_laws
begin

lemma Send_effect:
  assumes "notificationService_Send (the_notifications db) q w = (r, w')"
  obtains (failed) e where "r = Inl e" "notifs w' = notifs w" "events w' = events w" "env_uuids w' = stl (env_uuids w)"
  | (put) it where "notification_written (toNotificationItem (newNotification (shd (env_uuids w)) (shd (env_clock w)) q)) it"
    "notifs w' = (notifs w)((snr_TenantID q, shd (env_uuids w)) \<mapsto> it)" "events w' = events w"
    "env_uuids w' = stl (env_uuids w)" "\<And>n. r = Inr n \<Longrightarrow> n = newNotification (shd (env_uuids w)) (shd (env_clock w)) q"
proof -
  let ?n = "newNotification (shd (env_uuids w)) (shd (env_clock w)) q"
  let ?v = "snd (time_Now (snd (uuid_NewString w)))"
  have v: "notifs ?v = notifs w" "events ?v = events w" "env_uuids ?v = stl (env_uuids w)"
    by (simp_all add: time_Now_def uuid_NewString_def)
  obtain cr where c: "notificationRepository_Create db ?n ?v = (cr, w')" "r = (case cr of None \<Rightarrow> Inr ?n | Some e \<Rightarrow> Inl e)"
    using assms by (auto simp: notificationService_Send_def notificationRepository_def Let_def time_Now_def uuid_NewString_def
        split: prod.splits option.splits)
  from c(1) show ?thesis
  proof (cases rule: Create_effect)
    case failed
    then show ?thesis using that(1) c(2) v by auto
  next
    case (put it)
    then show ?thesis using that(2) [of it] c(2) v by (auto simp: newNotification_def split: option.splits)
  qed
qed

lemma RecordEvent_effect:
  assumes "auditService_Record (the_audit fl db) q w = (r, w')"
  obtains (failed) e where "r = Inl e" "notifs w' = notifs w" "events w' = events w" "env_uuids w' = stl (env_uuids w)"
  | (put) "events w' = (events w)((rar_TenantID q, shd (env_uuids w)) \<mapsto>
      audit_attrs (toAuditItem (newAuditEvent (shd (env_uuids w)) (shd (env_clock w)) q)))"
    "notifs w' = notifs w" "env_uuids w' = stl (env_uuids w)"
    "\<And>e. r = Inr e \<Longrightarrow> e = newAuditEvent (shd (env_uuids w)) (shd (env_clock w)) q"
proof -
  let ?e = "newAuditEvent (shd (env_uuids w)) (shd (env_clock w)) q"
  let ?v = "snd (time_Now (snd (uuid_NewString w)))"
  have v: "notifs ?v = notifs w" "events ?v = events w" "env_uuids ?v = stl (env_uuids w)"
    by (simp_all add: time_Now_def uuid_NewString_def)
  obtain cr where c: "auditRepository_Record db ?e ?v = (cr, w')" "r = (case cr of None \<Rightarrow> Inr ?e | Some e \<Rightarrow> Inl e)"
    using assms by (auto simp: auditService_Record_def auditRepository_def Let_def time_Now_def uuid_NewString_def
        split: prod.splits option.splits)
  from c(1) show ?thesis
  proof (cases rule: Record_effect)
    case failed
    then show ?thesis using that(1) c(2) v by auto
  next
    case put
    then show ?thesis using that(2) c(2) v by (auto simp: newAuditEvent_def split: option.splits)
  qed
qed

end

section \<open>Sequences of requests\<close>

lemma bulk_kept:
  assumes "\<And>q w. I w \<Longrightarrow> snr_TenantID q \<in> T \<Longrightarrow> I (snd (notificationService_Send s q w))"
  shows "I w \<Longrightarrow> \<forall>q\<in>set qs. snr_TenantID q \<in> T \<Longrightarrow> I (snd (notificationService_SendBulk s qs w))"
proof (induction qs arbitrary: w)
  case (Cons q qs)
  from Cons.prems assms [of w q] have "I (snd (notificationService_Send s q w))" by simp
  with Cons.IH Cons.prems(2) show ?case by (auto split: prod.split sum.split)
qed simp

context nt_db_laws
begin

lemma log_Send: "log_inv m w \<Longrightarrow> log_inv m (snd (notificationService_Send (the_notifications db) q w))"
proof -
  assume inv: "log_inv m w"
  obtain r w' where run: "notificationService_Send (the_notifications db) q w = (r, w')"
    by (cases "notificationService_Send (the_notifications db) q w")
  then show ?thesis by (cases rule: Send_effect) (use inv run in \<open>simp_all add: log_inv_skip\<close>)
qed

lemma log_Record: "log_inv m w \<Longrightarrow> log_inv m (snd (auditService_Record (the_audit fl db) q w))"
proof -
  assume inv: "log_inv m w"
  obtain r w' where run: "auditService_Record (the_audit fl db) q w = (r, w')"
    by (cases "auditService_Record (the_audit fl db) q w")
  then show ?thesis
  proof (cases rule: RecordEvent_effect)
    case failed
    with run inv show ?thesis by (simp add: log_inv_skip)
  next
    case put
    from log_inv_put [OF inv put(1,3)] run show ?thesis by simp
  qed
qed

lemma marks_events:
  "events (snd (notificationRepository_MarkRead db t i w)) = events w"
  "env_uuids (snd (notificationRepository_MarkRead db t i w)) = env_uuids w"
  "events (snd (notificationRepository_MarkAllRead db t u w)) = events w"
  "env_uuids (snd (notificationRepository_MarkAllRead db t u w)) = env_uuids w"
  using MarkRead_marks [of t w i] MarkAllRead_marks [of t w u] by (simp_all add: only_marks_def)

lemma Delete_events:
  "events (snd (notificationRepository_Delete db t i w)) = events w"
  "env_uuids (snd (notificationRepository_Delete db t i w)) = env_uuids w"
  "k \<noteq> (t, i) \<Longrightarrow> notifs (snd (notificationRepository_Delete db t i w)) k = notifs w k"
proof -
  obtain r w' where run: "notificationRepository_Delete db t i w = (r, w')" by (cases "notificationRepository_Delete db t i w")
  then show "events (snd (notificationRepository_Delete db t i w)) = events w"
    "env_uuids (snd (notificationRepository_Delete db t i w)) = env_uuids w"
    "k \<noteq> (t, i) \<Longrightarrow> notifs (snd (notificationRepository_Delete db t i w)) k = notifs w k"
    by (cases rule: Delete_effect; simp)+
qed

lemma tenants_Send:
  "tenants_inv T w0 w \<Longrightarrow> snr_TenantID q \<in> T \<Longrightarrow> tenants_inv T w0 (snd (notificationService_Send (the_notifications db) q w))"
proof -
  assume inv: "tenants_inv T w0 w" "snr_TenantID q \<in> T"
  obtain r w' where run: "notificationService_Send (the_notifications db) q w = (r, w')"
    by (cases "notificationService_Send (the_notifications db) q w")
  then show ?thesis by (cases rule: Send_effect) (use inv run in \<open>auto simp: tenants_inv_def\<close>)
qed

lemma tenants_Record:
  "tenants_inv T w0 w \<Longrightarrow> rar_TenantID q \<in> T \<Longrightarrow> tenants_inv T w0 (snd (auditService_Record (the_audit fl db) q w))"
proof -
  assume inv: "tenants_inv T w0 w" "rar_TenantID q \<in> T"
  obtain r w' where run: "auditService_Record (the_audit fl db) q w = (r, w')"
    by (cases "auditService_Record (the_audit fl db) q w")
  then show ?thesis by (cases rule: RecordEvent_effect) (use inv run in \<open>auto simp: tenants_inv_def\<close>)
qed

lemma tenants_marks: "tenants_inv T w0 w \<Longrightarrow> t \<in> T \<Longrightarrow> only_marks t w w' \<Longrightarrow> tenants_inv T w0 w'"
  unfolding tenants_inv_def only_marks_def by metis

end

sublocale nt_db_laws \<subseteq> log: nt_kept "nt_main fl db" "log_inv m" UNIV for fl m
proof (unfold_locales, goal_cases)
  case (1 w k) then show ?case by (simp add: log_inv_def)
next
  case (3 w qs) then show ?case by (simp add: bulk_kept [where I = "log_inv m" and T = UNIV] log_Send)
qed (use reads_data in \<open>simp_all add: log_Send log_Record log_inv_same marks_events Delete_events\<close>)

sublocale nt_db_laws \<subseteq> tenants: nt_kept "nt_main fl db" "tenants_inv T w0" T for fl T w0
proof (unfold_locales, goal_cases)
  case (1 w k) then show ?case by (simp add: tenants_inv_def)
next
  case (3 w qs) then show ?case by (simp add: bulk_kept [where I = "tenants_inv T w0" and T = T] tenants_Send)
next
  case (6 w t i) then show ?case by (simp add: tenants_marks [OF _ _ MarkRead_marks])
next
  case (7 w t u) then show ?case by (simp add: tenants_marks [OF _ _ MarkAllRead_marks])
next
  case (8 w t i)
  then have "k \<noteq> (t, i)" if "fst k \<notin> T" for k using that by auto
  with 8 show ?case by (simp add: tenants_inv_def Delete_events)
qed (use reads_data in \<open>simp_all add: tenants_Send tenants_Record tenants_inv_same\<close>)

end
