(* ===== verification/Nt_Props.thy ===== *)
theory Nt_Props
  imports Nt_Inv
begin

text \<open>
  notification-service: sending, reading back and marking notifications, the tenants a request touches
  and the audit log, each with a run on concrete data where it has hypotheses.
\<close>

section \<open>Data for the concrete runs\<close>

definition demo_nt :: "(dyn_key \<times> item) list \<Rightarrow> (dyn_key \<times> item) list \<Rightarrow> nt_world" where
  "demo_nt ns es = \<lparr>env_clock = siterate (\<lambda>t. t + 1) 1705325400000000000, env_uuids = siterate (\<lambda>s. CHR ''n'' # s) ''n1'',
     env_lower = id, env_upper = id, nw_notifications = \<lparr>rows = ns, tbl_hidden = 0\<rparr>,
     nw_audit = \<lparr>rows = es, tbl_hidden = 0\<rparr>\<rparr>"

definition demo_send :: SendNotificationRequest where
  "demo_send = zero_send\<lparr>snr_TenantID := ''t1'', snr_UserID := ''u1'', snr_Title := ''Hello''\<rparr>"

definition demo_nt_request :: "string \<Rightarrow> string \<Rightarrow> request" where
  "demo_nt_request meth body = \<lparr>rq_Method = meth, rq_Path = [],
     rq_Header = (\<lambda>k. if k = ''X-Tenant-ID'' then ''t1'' else if k = ''X-User-ID'' then ''u1'' else ''''),
     rq_Query = (\<lambda>_. ''''), rq_URLParam = (\<lambda>_. ''x1''), rq_Body = body, ctx_tenantID = None, ctx_userID = None,
     ctx_requestID = None\<rparr>"

definition demo_notification :: "string \<Rightarrow> string \<Rightarrow> bool \<Rightarrow> item" where
  "demo_notification ident user seen =
     notification_attrs \<lparr>ni_TenantID = ''t1'', ni_ID = ident, ni_UserID = user, ni_Type = ''info'', ni_Title = ''Hello'',
       ni_Body = '''', ni_Channel = ''in_app'', ni_Read = seen, ni_ReadAt = None, ni_Metadata = None,
       ni_CreatedAt = ''2024-01-15T13:30:00Z''\<rparr>"

lemmas nt_eval = mem_nt_db_def mem_dyn_def mem_write_def mem_read_def mem_update_def mem_fault_def mem_tick_def mem_codec_def
  on_table_def time_Now_def uuid_NewString_def Let_def demo_nt_def

section \<open>The audit log\<close>

context nt_db_laws
begin

lemma log_reach:
  assumes "fresh_ids (env_uuids w) (snd ` dom (events w))" "nt_reach fl (nt_main fl db) w w'"
  shows "events w \<subseteq>\<^sub>m events w'"
  using log.nt_reach_kept [OF assms(2), of "events w"] assms(1) by (simp add: log_inv_def)

lemma tenants_router:
  assumes "nt_NewRouter mux rcv fl (nt_main fl db) r w = (resp, w')"
  shows "tenants_inv (request_tenants fl mux r) w w'"
  using tenants.router [of "request_tenants fl mux r" w w fl mux r rcv fl] assms by (simp add: tenants_inv_def)

end

text \<open>
  C9: An audit event that is recorded stays as it is through every sequence of requests, as long as the
  generated identifiers are new: no request changes or removes one.
\<close>

theorem audit_events_stay:
  assumes "nt_db_laws db seenN seenA" "fresh_ids (env_uuids w) (snd ` dom (events w))" "nt_reach fl (nt_main fl db) w w'"
    and "events w k = Some it"
  shows "events w' k = Some it"
  using nt_db_laws.log_reach [OF assms(1-3)] assms(4) by (metis domI map_le_def)

section \<open>Tenants\<close>

text \<open>
  C10: A request changes the notifications and audit events of the tenants it names only. Sending one
  notification and recording an audit event change those of the tenant in the body, or of the one in the
  header where the body names none; a bulk request those of the tenants in its body; marking as read, one or
  all, and dismissing those of the tenant in the header, whatever the body says; every other request none.
\<close>

theorem request_touches_named_tenants:
  assumes "nt_db_laws db seenN seenA" "nt_NewRouter mux rcv fl (nt_main fl db) r w = (resp, w')"
    and "fst k \<notin> request_tenants fl mux r"
  shows "notifs w' k = notifs w k \<and> events w' k = events w k"
  using nt_db_laws.tenants_router [OF assms(1,2)] assms(3) by (cases k) (simp add: tenants_inv_def)

section \<open>Sending\<close>

context nt_db_laws
begin

lemma send_outcome:
  assumes run: "Handler_SendNotification (nt_main fl db) r w = (answer, w')" and q: "decode_Send (rq_Body r) = Some q"
    and t: "t = (if snr_TenantID q = '''' then nt_getTenantID r else snr_TenantID q)"
    and n: "n = newNotification (shd (env_uuids w)) (shd (env_clock w)) (q\<lparr>snr_TenantID := t\<rparr>)"
  shows "answer = nt_writeJSON StatusCreated (N_notification n) \<and>
      (\<exists>it. notification_written (toNotificationItem n) it \<and> notifs w' = (notifs w)((t, nf_ID n) \<mapsto> it)) \<or>
    (\<exists>e. answer = nt_writeError StatusInternalServerError (err_Error e) \<and>
      (notifs w' = notifs w \<or> (\<exists>it. notification_written (toNotificationItem n) it \<and> notifs w' = (notifs w)((t, nf_ID n) \<mapsto> it))))"
proof -
  have q': "(if snr_TenantID q = '''' then q\<lparr>snr_TenantID := nt_getTenantID r\<rparr> else q) = q\<lparr>snr_TenantID := t\<rparr>"
    by (cases q) (simp add: t)
  obtain res where s: "notificationService_Send (the_notifications db) (q\<lparr>snr_TenantID := t\<rparr>) w = (res, w')"
    and a: "answer = (case res of Inl e \<Rightarrow> nt_writeError StatusInternalServerError (err_Error e)
      | Inr x \<Rightarrow> nt_writeJSON StatusCreated (N_notification x))"
    using run by (auto simp: Handler_SendNotification_def q q' Let_def nt_reply_def nt_fail_def split: prod.splits sum.splits)
  from s show ?thesis
  proof (cases rule: Send_effect)
    case (failed e)
    then show ?thesis using a by auto
  next
    case (put it)
    then show ?thesis using a n by (cases res) (auto simp: newNotification_def)
  qed
qed

end

text \<open>
  Sending a notification stores it, unread and with a generated identifier, under the tenant of the body,
  or of the header when the body names none, and answers with it; otherwise the answer is an error.
\<close>

theorem send_notification_outcome:
  assumes "nt_db_laws db seenN seenA" "Handler_SendNotification (nt_main fl db) r w = (answer, w')"
    and "decode_Send (rq_Body r) = Some q"
    and "t = (if snr_TenantID q = '''' then nt_getTenantID r else snr_TenantID q)"
    and "n = newNotification (shd (env_uuids w)) (shd (env_clock w)) (q\<lparr>snr_TenantID := t\<rparr>)"
  shows "answer = nt_writeJSON StatusCreated (N_notification n) \<and>
      (\<exists>it. notification_written (toNotificationItem n) it \<and> notifs w' = (notifs w)((t, nf_ID n) \<mapsto> it)) \<or>
    (\<exists>e. answer = nt_writeError StatusInternalServerError (err_Error e) \<and>
      (notifs w' = notifs w \<or> (\<exists>it. notification_written (toNotificationItem n) it \<and> notifs w' = (notifs w)((t, nf_ID n) \<mapsto> it))))"
  by (rule nt_db_laws.send_outcome [OF assms])

section \<open>Reading back\<close>

definition printable :: "time \<Rightarrow> bool" where
  "printable t \<longleftrightarrow> 0 \<le> year_of t \<and> year_of t \<le> 9999"

definition whole_second :: "time \<Rightarrow> time" where
  "whole_second t = unix_seconds t * 1000000000"

text \<open>The lookup of an item fails: its key cannot be written, or the client reports an error.\<close>

definition lookup_fails :: "nt_db \<Rightarrow> string \<Rightarrow> string \<Rightarrow> nt_world \<Rightarrow> goerr \<Rightarrow> bool" where
  "lookup_fails db t i w e \<longleftrightarrow>
     (case av_MarshalKey (ndb_codec db) (notification_key t i) of
        Inl e' \<Rightarrow> e = e'
      | Inr key \<Rightarrow> fst (dy_GetItem (ndb_notifications db) key (nw_notifications w)) = Inl e)"

lemma item_roundtrip:
  assumes "printable (nf_CreatedAt n)" "nf_ReadAt n = None"
  shows "fromNotificationItem (toNotificationItem n) = n\<lparr>nf_CreatedAt := whole_second (nf_CreatedAt n)\<rparr>"
  using assms rfc3339_roundtrip [of "nf_CreatedAt n"]
  by (cases n) (simp add: fromNotificationItem_def toNotificationItem_def printable_def whole_second_def)

context nt_db_laws
begin

lemma sent_found:
  assumes send: "notificationService_Send (the_notifications db) q w = (Inr n, w1)"
    and meta: "go_map (elems (snr_Metadata q))" and clock: "printable (shd (env_clock w))"
    and current: "seenN (nw_notifications w1) = notifs w1"
    and get: "notificationService_GetNotification (the_notifications db) (nf_TenantID n) (nf_ID n) w1 = (res, w2)"
  shows "(\<exists>m. elems m = elems (nf_Metadata n) \<and>
      res = Inr (n\<lparr>nf_CreatedAt := whole_second (nf_CreatedAt n), nf_Metadata := m\<rparr>)) \<or>
    (\<exists>e. res = Inl e \<and> lookup_fails db (nf_TenantID n) (nf_ID n) w1 e)"
  using send
proof (cases rule: Send_effect)
  case (put it)
  then have n: "n = newNotification (shd (env_uuids w)) (shd (env_clock w)) q" by simp
  with put(1) obtain m where m: "elems m = elems (nf_Metadata n)" and
      it: "it = notification_attrs (toNotificationItem (n\<lparr>nf_Metadata := m\<rparr>))"
    by (auto simp: notification_written_def toNotificationItem_def newNotification_def)
  have "nf_Metadata n = snr_Metadata q" by (simp add: n newNotification_def)
  with m meta have gm: "go_map (elems m)" by simp
  then have typed: "notification_typed it"
    unfolding it by (intro notification_attrs_typed) (simp add: toNotificationItem_def)
  from put(2) n current have seen: "seenN (nw_notifications w1) (nf_TenantID n, nf_ID n) = Some it"
    by (simp add: newNotification_def)
  have rt: "fromNotificationItem (item_notification it) = n\<lparr>nf_CreatedAt := whole_second (nf_CreatedAt n), nf_Metadata := m\<rparr>"
    using item_roundtrip [of "n\<lparr>nf_Metadata := m\<rparr>"] clock unfolding it item_notification_attrs by (simp add: n newNotification_def)
  have get': "notificationRepository_FindByID db (nf_TenantID n) (nf_ID n) w1 = (res, w2)"
    using get by (simp add: notificationService_GetNotification_def notificationRepository_def)
  show ?thesis
  proof (cases "av_MarshalKey (ndb_codec db) (notification_key (nf_TenantID n) (nf_ID n))")
    case (Inl e)
    with get' show ?thesis by (simp add: notificationRepository_FindByID_def lookup_fails_def)
  next
    case (Inr key)
    obtain g t' where g: "dy_GetItem (ndb_notifications db) key (nw_notifications w1) = (g, t')" by fastforce
    show ?thesis
    proof (cases g)
      case (Inl e)
      with get' g Inr show ?thesis by (simp add: notificationRepository_FindByID_def lookup_fails_def on_table_def)
    next
      case found: (Inr x)
      from g found codec.marshal_key [OF Inr] seen have "x = Some it"
        using notifications_t.get_ok [of key "nw_notifications w1" x t' "(nf_TenantID n, nf_ID n)"] by simp
      with get' g found Inr rt m codec.unmarshal_notification [OF typed] show ?thesis
        by (auto simp: notificationRepository_FindByID_def on_table_def)
    qed
  qed
qed simp

end

text \<open>
  A notification that was sent is found under its tenant and identifier, with everything it was sent with;
  the time is cut to the second, and a metadata map without entries may have become nil. Only an error of
  the lookup itself stands in the way, where reads are up to date and the clock is between the years 0 and 9999.
\<close>

theorem sent_is_found:
  assumes "nt_db_laws db seenN seenA" "notificationService_Send (the_notifications db) q w = (Inr n, w1)"
    and "go_map (elems (snr_Metadata q))" "printable (shd (env_clock w))" "seenN (nw_notifications w1) = notifs w1"
    and "notificationService_GetNotification (the_notifications db) (nf_TenantID n) (nf_ID n) w1 = (res, w2)"
  shows "(\<exists>m. elems m = elems (nf_Metadata n) \<and>
      res = Inr (n\<lparr>nf_CreatedAt := whole_second (nf_CreatedAt n), nf_Metadata := m\<rparr>)) \<or>
    (\<exists>e. res = Inl e \<and> lookup_fails db (nf_TenantID n) (nf_ID n) w1 e)"
  by (rule nt_db_laws.sent_found [OF assms])

section \<open>Concrete runs\<close>

definition demo_nt_router :: "string \<Rightarrow> string \<Rightarrow> string \<Rightarrow> nt_world \<Rightarrow> nt_payload response \<times> nt_world" where
  "demo_nt_router meth pat body =
     nt_NewRouter (\<lambda>_. N_Matched pat (\<lambda>_. ''x1'')) (\<lambda>hs. \<lparr>rs_status = 500, rs_header = hs, rs_body = N_empty\<rparr>) Some
       (nt_main Some (mem_nt_db 9)) (demo_nt_request meth body)"

lemmas nt_run = demo_nt_router_def nt_NewRouter_def nt_CORSMiddleware_def nt_LoggingMiddleware_def nt_endpoint_def
  demo_nt_request_def nt_getTenantID_def nt_getUserID_def nt_reply_def nt_done_def nt_writeJSON_def

definition demo_event :: item where
  "demo_event = audit_attrs \<lparr>ai_TenantID = ''t1'', ai_ID = ''a1'', ai_ActorID = ''u1'', ai_ActorEmail = '''', ai_Action = ''login'',
     ai_Resource = '''', ai_ResourceID = '''', ai_OldValue = '''', ai_NewValue = '''', ai_IPAddress = '''', ai_UserAgent = '''',
     ai_Timestamp = ''2024-01-15T13:30:00Z''\<rparr>"

lemma demo_empty_body: "decode_Audit Some ''{}'' = Some \<lparr>rar_TenantID = '''', rar_ActorID = '''', rar_ActorEmail = '''',
    rar_Action = '''', rar_Resource = '''', rar_ResourceID = '''', rar_OldValue = None, rar_NewValue = None,
    rar_IPAddress = '''', rar_UserAgent = ''''\<rparr>"
  by code_simp

lemma demo_record:
  "\<exists>resp w'. demo_nt_router ''POST'' ''/audit/'' ''{}'' (demo_nt [] [((''t1'', ''a1''), demo_event)]) = (resp, w') \<and>
     rs_status resp = 201 \<and> events w' (''t1'', ''n1'') \<noteq> None"
  by (simp add: nt_run Handler_RecordAuditEvent_def demo_empty_body auditService_Record_def
      auditRepository_def auditRepository_Record_def newAuditEvent_def toAuditItem_def nt_eval update_conv' StatusCreated_def)

theorem audit_events_stay_witness:
  "\<exists>w'. nt_reach Some (nt_main Some (mem_nt_db 9)) (demo_nt [] [((''t1'', ''a1''), demo_event)]) w' \<and>
     events w' (''t1'', ''n1'') \<noteq> None \<and> events w' (''t1'', ''a1'') = Some demo_event"
proof -
  let ?w = "demo_nt [] [((''t1'', ''a1''), demo_event)]"
  obtain resp w' where r: "demo_nt_router ''POST'' ''/audit/'' ''{}'' ?w = (resp, w')"
    and new: "events w' (''t1'', ''n1'') \<noteq> None" using demo_record by metis
  have reach: "nt_reach Some (nt_main Some (mem_nt_db 9)) ?w w'"
    using nt_reach.request [OF nt_reach.start] r unfolding demo_nt_router_def by (metis snd_conv)
  have "fresh_ids (env_uuids ?w) (snd ` dom (events ?w))" by (simp add: demo_nt_def demo_fresh)
  from audit_events_stay [OF mem_nt.nt_db_laws_axioms this reach, of "(''t1'', ''a1'')" demo_event] reach new
  show ?thesis by (intro exI [of _ w']) (simp add: demo_nt_def)
qed

lemma demo_dismiss:
  "\<exists>resp w'. demo_nt_router ''DELETE'' ''/notifications/{id}'' ''''
       (demo_nt [((''t1'', ''x1''), demo_notification ''x1'' ''u1'' False), ((''t2'', ''x1''), demo_notification ''x1'' ''u1'' False)] []) = (resp, w') \<and>
     rs_status resp = 200 \<and> notifs w' (''t1'', ''x1'') = None"
  by (simp add: nt_run Handler_DismissNotification_def notificationRepository_Delete_def nt_eval delete_conv' StatusOK_def)

theorem request_touches_named_tenants_witness:
  "\<exists>resp w'. demo_nt_router ''DELETE'' ''/notifications/{id}'' ''''
       (demo_nt [((''t1'', ''x1''), demo_notification ''x1'' ''u1'' False), ((''t2'', ''x1''), demo_notification ''x1'' ''u1'' False)] []) = (resp, w') \<and>
     notifs w' (''t1'', ''x1'') = None \<and> notifs w' (''t2'', ''x1'') \<noteq> None"
proof -
  let ?w = "demo_nt [((''t1'', ''x1''), demo_notification ''x1'' ''u1'' False), ((''t2'', ''x1''), demo_notification ''x1'' ''u1'' False)] []"
  obtain resp w' where r: "demo_nt_router ''DELETE'' ''/notifications/{id}'' '''' ?w = (resp, w')"
    and gone: "notifs w' (''t1'', ''x1'') = None" using demo_dismiss by metis
  have "request_tenants Some (\<lambda>_. N_Matched ''/notifications/{id}'' (\<lambda>_. ''x1'')) (demo_nt_request ''DELETE'' '''') = {''t1''}"
    by (simp add: request_tenants_def endpoint_tenants_def demo_nt_request_def nt_getTenantID_def)
  with request_touches_named_tenants [OF mem_nt.nt_db_laws_axioms r [unfolded demo_nt_router_def], of "(''t2'', ''x1'')"]
  have "notifs w' (''t2'', ''x1'') = notifs ?w (''t2'', ''x1'')" by simp
  with r gone show ?thesis by (auto simp: demo_nt_def)
qed

lemma demo_decode: "decode_Send ''{\"UserID\":\"u1\"}'' = Some (zero_send\<lparr>snr_UserID := ''u1''\<rparr>)"
  by code_simp

lemma demo_sending:
  "\<exists>n w'. Handler_SendNotification (nt_main Some (mem_nt_db 9)) (demo_nt_request ''POST'' ''{\"UserID\":\"u1\"}'') (demo_nt [] []) =
     (nt_writeJSON StatusCreated (N_notification n), w')"
  by (simp add: Handler_SendNotification_def demo_nt_request_def demo_decode nt_getTenantID_def notificationService_Send_def
      notificationRepository_def notificationRepository_Create_def newNotification_def toNotificationItem_def nt_eval
      nt_reply_def nt_writeJSON_def item_key_def notification_attrs_def zero_send_def)

theorem send_notification_outcome_witness:
  "\<exists>n w' it. Handler_SendNotification (nt_main Some (mem_nt_db 9)) (demo_nt_request ''POST'' ''{\"UserID\":\"u1\"}'') (demo_nt [] []) =
     (nt_writeJSON StatusCreated (N_notification n), w') \<and> notifs w' (''t1'', ''n1'') = Some it \<and> it ''userId'' = Some (AvS ''u1'') \<and>
     it ''read'' = Some (AvBOOL False)"
proof -
  let ?q = "zero_send\<lparr>snr_UserID := ''u1''\<rparr>"
  obtain n w' where r: "Handler_SendNotification (nt_main Some (mem_nt_db 9)) (demo_nt_request ''POST'' ''{\"UserID\":\"u1\"}'')
      (demo_nt [] []) = (nt_writeJSON StatusCreated (N_notification n), w')" using demo_sending by blast
  have q: "decode_Send (rq_Body (demo_nt_request ''POST'' ''{\"UserID\":\"u1\"}'')) = Some ?q"
    by (simp add: demo_nt_request_def demo_decode)
  from send_notification_outcome [OF mem_nt.nt_db_laws_axioms r q refl refl] r show ?thesis
    by (auto simp: nt_writeJSON_def nt_writeError_def StatusCreated_def StatusInternalServerError_def demo_nt_request_def
        nt_getTenantID_def zero_send_def newNotification_def toNotificationItem_def notification_written_def
        notification_attrs_def demo_nt_def)
qed

lemma demo_printable: "printable 1705325400000000000"
  by code_simp

lemma demo_sent:
  "\<exists>n w1. notificationService_Send (the_notifications (mem_nt_db 9)) demo_send (demo_nt [] []) = (Inr n, w1) \<and>
     mem_seenN (nw_notifications w1) = notifs w1 \<and> nf_Title n = ''Hello'' \<and> nf_TenantID n = ''t1'' \<and> nf_ID n = ''n1'' \<and>
     tbl_hidden (nw_notifications w1) = 0"
  by (simp add: demo_send_def zero_send_def notificationService_Send_def notificationRepository_def notificationRepository_Create_def
      newNotification_def toNotificationItem_def nt_eval item_key_def notification_attrs_def mem_seen_def fun_eq_iff)

theorem sent_is_found_witness:
  "\<exists>n w1 n' w2. notificationService_Send (the_notifications (mem_nt_db 9)) demo_send (demo_nt [] []) = (Inr n, w1) \<and>
     notificationService_GetNotification (the_notifications (mem_nt_db 9)) ''t1'' ''n1'' w1 = (Inr n', w2) \<and> nf_Title n' = ''Hello''"
proof -
  obtain n w1 where s: "notificationService_Send (the_notifications (mem_nt_db 9)) demo_send (demo_nt [] []) = (Inr n, w1)"
    and w1: "mem_seenN (nw_notifications w1) = notifs w1" "tbl_hidden (nw_notifications w1) = 0"
    and n: "nf_Title n = ''Hello''" "nf_TenantID n = ''t1''" "nf_ID n = ''n1''" using demo_sent by blast
  obtain res w2 where g: "notificationService_GetNotification (the_notifications (mem_nt_db 9)) (nf_TenantID n) (nf_ID n) w1 = (res, w2)"
    by fastforce
  have ok: "\<not> lookup_fails (mem_nt_db 9) (nf_TenantID n) (nf_ID n) w1 e" for e
    using w1(2) by (simp add: lookup_fails_def mem_nt_db_def mem_codec_def mem_dyn_def mem_fault_def)
  have "go_map (elems (snr_Metadata demo_send))" "printable (shd (env_clock (demo_nt [] [])))"
    using demo_printable by (simp_all add: demo_send_def zero_send_def go_map_def demo_nt_def)
  from sent_is_found [OF mem_nt.nt_db_laws_axioms s this w1(1) g] ok obtain m where
    "res = Inr (n\<lparr>nf_CreatedAt := whole_second (nf_CreatedAt n), nf_Metadata := m\<rparr>)" by blast
  with s g n show ?thesis by auto
qed

end
