(* ===== verification/Nt_Marks.thy ===== *)
theory Nt_Marks
  imports Nt_Props
begin

text \<open>
  notification-service: marking notifications as read, one and all of a user, and sending in bulk, each
  with a run on concrete data where it has hypotheses.
\<close>

section \<open>Marking one notification\<close>

context nt_db_laws
begin

lemma mark_read:
  assumes run: "Handler_MarkRead (nt_main fl db) r w = (answer, w')" and t: "t = nt_getTenantID r" and i: "i = rq_URLParam r ''id''"
    and m: "m = (notifs w)((t, i) \<mapsto> marked (format_RFC3339 (shd (env_clock w))) (base_item t i (notifs w (t, i))))"
  shows "answer = nt_writeJSON StatusOK (N_status ''read'') \<and> notifs w' = m \<or>
    (\<exists>e. answer = nt_fail notification_missing e \<and> (notifs w' = notifs w \<or> notifs w' = m))"
proof -
  obtain res where s: "notificationRepository_MarkRead db t i w = (res, w')"
    and a: "answer = (case res of None \<Rightarrow> nt_writeJSON StatusOK (N_status ''read'') | Some e \<Rightarrow> nt_fail notification_missing e)"
    using run by (auto simp: Handler_MarkRead_def nt_done_def t i split: prod.splits option.splits)
  from s show ?thesis
    by (cases rule: MarkRead_effect) (use a m in \<open>auto split: option.splits\<close>)
qed

end

text \<open>
  Marking a notification as read sets its flag and the time and leaves the rest of it; an identifier
  the tenant does not have makes a new item with the key, the flag and the time only. Otherwise the answer is
  the error of the client.
\<close>

theorem mark_read_outcome:
  assumes "nt_db_laws db seenN seenA" "Handler_MarkRead (nt_main fl db) r w = (answer, w')"
    and "t = nt_getTenantID r" "i = rq_URLParam r ''id''"
    and "m = (notifs w)((t, i) \<mapsto> marked (format_RFC3339 (shd (env_clock w))) (base_item t i (notifs w (t, i))))"
  shows "answer = nt_writeJSON StatusOK (N_status ''read'') \<and> notifs w' = m \<or>
    (\<exists>e. answer = nt_fail notification_missing e \<and> (notifs w' = notifs w \<or> notifs w' = m))"
  by (rule nt_db_laws.mark_read [OF assms])

lemma demo_mark:
  "\<exists>w'. Handler_MarkRead (nt_main Some (mem_nt_db 9)) (demo_nt_request ''POST'' '''') (demo_nt [] []) =
     (nt_writeJSON StatusOK (N_status ''read''), w')"
  by (simp add: Handler_MarkRead_def demo_nt_request_def nt_getTenantID_def notificationRepository_MarkRead_def nt_eval nt_done_def)

text \<open>No such notification: the answer is 200 and there is an item without a user.\<close>

theorem mark_read_outcome_witness:
  "\<exists>w' it. Handler_MarkRead (nt_main Some (mem_nt_db 9)) (demo_nt_request ''POST'' '''') (demo_nt [] []) =
     (nt_writeJSON StatusOK (N_status ''read''), w') \<and> notifs w' (''t1'', ''x1'') = Some it \<and>
     it ''read'' = Some (AvBOOL True) \<and> it ''userId'' = None"
proof -
  obtain w' where r: "Handler_MarkRead (nt_main Some (mem_nt_db 9)) (demo_nt_request ''POST'' '''') (demo_nt [] []) =
     (nt_writeJSON StatusOK (N_status ''read''), w')" using demo_mark by blast
  from mark_read_outcome [OF mem_nt.nt_db_laws_axioms r refl refl refl] r show ?thesis
    by (auto simp: nt_writeJSON_def nt_writeError_def nt_fail_def notification_missing_def StatusOK_def StatusNotFound_def
        StatusInternalServerError_def demo_nt_request_def nt_getTenantID_def demo_nt_def base_item_def marked_def key_attrs_def
        notification_key_def split: if_splits)
qed

section \<open>Marking all notifications of a user\<close>

lemma compares_eq [simp]: "(\<forall>n. y \<noteq> AvN n) \<Longrightarrow> compares ''='' z y = Some (z = y)"
  by (cases z; cases y) simp_all

lemma comparison_eq:
  "attribute_name names a = Some x \<Longrightarrow> map_of values v = Some y \<Longrightarrow> \<forall>n. y \<noteq> AvN n \<Longrightarrow>
    comparison names values a ''='' v it = Some (it x = Some y)"
  by (cases "it x") (simp_all add: comparison_def)

lemma unread_query_keys: "query_keys (unread_query t u) it = Some (it ''tenantId'' = Some (AvS t))"
  by (simp add: query_keys_def unread_query_def token_def comparison_eq attribute_name_def)

lemma unread_query_filter:
  "query_filter (unread_query t u) it = Some (it ''userId'' = Some (AvS u) \<and> it ''read'' = Some (AvBOOL False))"
  by (simp add: query_filter_def unread_query_def token_def comparison_eq attribute_name_def)

context nt_db_laws
begin

lemma mark_each_all:
  assumes "\<forall>v r v' i. P v \<longrightarrow> notificationRepository_MarkRead db t i v = (r, v') \<longrightarrow> r = None \<and> P v'"
  shows "P v \<Longrightarrow> \<forall>it\<in>set its. notification_typed it \<Longrightarrow> it \<in> set its \<Longrightarrow>
    notifs (mark_each db t its v) (t, str_of (it ''notificationId'')) = Some x \<Longrightarrow> x ''read'' = Some (AvBOOL True)"
proof (induction its arbitrary: v)
  case (Cons y its)
  let ?i = "str_of (y ''notificationId'')"
  let ?v = "snd (notificationRepository_MarkRead db t ?i v)"
  have um: "av_UnmarshalNotification (ndb_codec db) y = Inr (item_notification y)"
    using Cons.prems(2) by (simp add: codec.unmarshal_notification)
  have idy: "ni_ID (item_notification y) = ?i" by (simp add: item_notification_def)
  have step: "mark_each db t (y # its) v = mark_each db t its ?v" by (simp add: um idy)
  obtain r w' where mr: "notificationRepository_MarkRead db t ?i v = (r, w')" by fastforce
  with assms Cons.prems(1) have ok: "r = None" "P ?v" by auto
  show ?case
  proof (cases "it \<in> set its")
    case True
    from Cons.IH [OF ok(2) _ True] Cons.prems(2,4) step show ?thesis by simp
  next
    case False
    then have y: "it = y" using Cons.prems(3) by simp
    from mr have "\<exists>z. notifs ?v (t, ?i) = Some z \<and> z ''read'' = Some (AvBOOL True)"
      by (cases rule: MarkRead_effect) (use ok mr in \<open>auto simp: marked_def\<close>)
    moreover from Cons.prems(4) step y have "notifs (mark_each db t its ?v) (t, ?i) = Some x" by simp
    ultimately show ?thesis
      using mark_each_marks [of t ?v its] unfolding only_marks_def by (metis option.inject)
  qed
qed simp

lemma mark_all:
  assumes run: "notificationService_MarkAllRead (the_notifications db) t u w = (r, w')"
    and query: "dy_Query (ndb_notifications db) (unread_query t u) (nw_notifications w) = (Inr (its, False), tq)"
    and current: "seenN (nw_notifications w) = notifs w"
    and typed: "\<forall>k it. notifs w k = Some it \<longrightarrow> notification_typed it"
    and reliable: "P (w\<lparr>nw_notifications := tq\<rparr>)"
      "\<forall>v r v' i. P v \<longrightarrow> notificationRepository_MarkRead db t i v = (r, v') \<longrightarrow> r = None \<and> P v'"
  shows "r = None \<and> (\<forall>i it. notifs w' (t, i) = Some it \<longrightarrow> it ''userId'' = Some (AvS u) \<longrightarrow> it ''read'' \<noteq> Some (AvBOOL False))"
proof -
  have r: "r = None" and w': "w' = mark_each db t its (w\<lparr>nw_notifications := tq\<rparr>)"
    using run query by (simp_all add: notificationService_MarkAllRead_def notificationRepository_def
        notificationRepository_MarkAllRead_def on_table_def)
  obtain ks where ks: "\<forall>k\<in>set ks. \<exists>it. notifs w k = Some it \<and> it ''tenantId'' = Some (AvS t)"
      "\<forall>k it. notifs w k = Some it \<and> it ''tenantId'' = Some (AvS t) \<longrightarrow> k \<in> set ks"
      and its: "its = filter (\<lambda>it. it ''userId'' = Some (AvS u) \<and> it ''read'' = Some (AvBOOL False)) (map (\<lambda>k. the (notifs w k)) ks)"
    using notifications_t.query_ok [OF query] by (auto simp: unread_query_keys unread_query_filter current)
  have its_typed: "\<forall>it\<in>set its. notification_typed it" using its ks(1) typed by fastforce
  have "it ''read'' \<noteq> Some (AvBOOL False)" if it: "notifs w' (t, i) = Some it" "it ''userId'' = Some (AvS u)" for i it
  proof
    assume unread: "it ''read'' = Some (AvBOOL False)"
    have "only_marks t w w'" using MarkAllRead_marks [of t w u] run
      by (simp add: notificationService_MarkAllRead_def notificationRepository_def)
    with it(1) unread have old: "notifs w (t, i) = Some it" unfolding only_marks_def by fastforce
    with current have key: "it ''tenantId'' = Some (AvS t)" "it ''notificationId'' = Some (AvS i)"
      using item_keyD notifications_t.seen_key by metis+
    with ks(2) old have "(t, i) \<in> set ks" by blast
    with its old it(2) unread have "it \<in> set its" by (auto intro!: image_eqI [of _ _ "(t, i)"])
    from mark_each_all [OF reliable(2,1) its_typed this, of it] it(1) key(2) w' unread show False by simp
  qed
  with r show ?thesis by blast
qed

end

text \<open>
  C18: After all notifications of a user are marked, none of them is unread, provided that the query has read
  them all and is up to date, that the stored items have the types of the struct, and that no update fails.
\<close>

theorem mark_all_read_complete:
  assumes "nt_db_laws db seenN seenA" "notificationService_MarkAllRead (the_notifications db) t u w = (r, w')"
    and "dy_Query (ndb_notifications db) (unread_query t u) (nw_notifications w) = (Inr (its, False), tq)"
    and "seenN (nw_notifications w) = notifs w" "\<forall>k it. notifs w k = Some it \<longrightarrow> notification_typed it"
    and "P (w\<lparr>nw_notifications := tq\<rparr>)"
    and "\<forall>v r v' i. P v \<longrightarrow> notificationRepository_MarkRead db t i v = (r, v') \<longrightarrow> r = None \<and> P v'"
  shows "r = None \<and> (\<forall>i it. notifs w' (t, i) = Some it \<longrightarrow> it ''userId'' = Some (AvS u) \<longrightarrow> it ''read'' \<noteq> Some (AvBOOL False))"
  by (rule nt_db_laws.mark_all [OF assms])

definition demo_unread :: nt_world where
  "demo_unread = demo_nt [((''t1'', ''x1''), demo_notification ''x1'' ''u1'' False), ((''t1'', ''x2''), demo_notification ''x2'' ''u1'' False)] []"

lemma demo_notification_attrs [simp]:
  "demo_notification i u s ''tenantId'' = Some (AvS ''t1'')" "demo_notification i u s ''notificationId'' = Some (AvS i)"
  "demo_notification i u s ''userId'' = Some (AvS u)" "demo_notification i u s ''read'' = Some (AvBOOL s)"
  by (simp_all add: demo_notification_def notification_attrs_def)

lemma demo_notification_typed [simp]: "notification_typed (demo_notification i u s)"
  unfolding demo_notification_def by (intro notification_attrs_typed) (simp add: go_map_def)

lemma demo_unread_seen: "mem_seenN (nw_notifications demo_unread) = notifs demo_unread"
  by (auto simp: fun_eq_iff mem_seen_def demo_unread_def demo_nt_def item_key_def)

lemma demo_unread_keys:
  "mem_keys ''tenantId'' ''notificationId'' (unread_query ''t1'' ''u1'') (nw_notifications demo_unread) = [(''t1'', ''x1''), (''t1'', ''x2'')]"
  by (simp add: mem_keys_def mem_seen_def demo_unread_def demo_nt_def item_key_def unread_query_keys)

lemma demo_unread_query:
  "dy_Query (ndb_notifications (mem_nt_db 9)) (unread_query ''t1'' ''u1'') (nw_notifications demo_unread) =
     (Inr ([demo_notification ''x1'' ''u1'' False, demo_notification ''x2'' ''u1'' False], False), nw_notifications demo_unread)"
  by (simp add: mem_nt_db_def mem_dyn_def mem_query_def demo_unread_keys unread_query_filter mem_fault_def mem_tick_def demo_unread_seen
      Let_def) (simp add: demo_unread_def demo_nt_def)

lemma mem_MarkRead_ok:
  "tbl_hidden (nw_notifications v) = 0 \<Longrightarrow> notificationRepository_MarkRead (mem_nt_db n) t i v = (r, v') \<Longrightarrow>
    r = None \<and> tbl_hidden (nw_notifications v') = 0"
  by (auto simp: notificationRepository_MarkRead_def nt_eval split: option.splits)

theorem mark_all_read_complete_witness:
  "\<exists>w'. notificationService_MarkAllRead (the_notifications (mem_nt_db 9)) ''t1'' ''u1'' demo_unread = (None, w') \<and>
     (\<forall>i it. notifs w' (''t1'', i) = Some it \<longrightarrow> it ''userId'' = Some (AvS ''u1'') \<longrightarrow> it ''read'' \<noteq> Some (AvBOOL False))"
proof -
  obtain r w' where run: "notificationService_MarkAllRead (the_notifications (mem_nt_db 9)) ''t1'' ''u1'' demo_unread = (r, w')"
    by fastforce
  have typed: "\<forall>k it. notifs demo_unread k = Some it \<longrightarrow> notification_typed it"
    by (auto simp: demo_unread_def demo_nt_def split: if_splits)
  let ?P = "\<lambda>v. tbl_hidden (nw_notifications v) = 0"
  have P: "?P (demo_unread\<lparr>nw_notifications := nw_notifications demo_unread\<rparr>)" by (simp add: demo_unread_def demo_nt_def)
  have ok: "\<forall>v r v' i. ?P v \<longrightarrow> notificationRepository_MarkRead (mem_nt_db 9) ''t1'' i v = (r, v') \<longrightarrow> r = None \<and> ?P v'"
    using mem_MarkRead_ok by blast
  from mark_all_read_complete [OF mem_nt.nt_db_laws_axioms run demo_unread_query demo_unread_seen typed P ok] run
  show ?thesis by blast
qed

text \<open>
  A query that stops early is not continued: on a table that reads one item per query, as a table does
  whose items are large, marking all notifications of a user succeeds and leaves one unread.
\<close>

theorem mark_all_read_cut_short:
  "\<exists>w'. notificationService_MarkAllRead (the_notifications (mem_nt_db 1)) ''t1'' ''u1'' demo_unread = (None, w') \<and>
     notifs w' (''t1'', ''x2'') = Some (demo_notification ''x2'' ''u1'' False)"
proof -
  have "dy_Query (ndb_notifications (mem_nt_db 1)) (unread_query ''t1'' ''u1'') (nw_notifications demo_unread) =
     (Inr ([demo_notification ''x1'' ''u1'' False], True), nw_notifications demo_unread)"
    by (simp add: mem_nt_db_def mem_dyn_def mem_query_def demo_unread_keys unread_query_filter mem_fault_def mem_tick_def
        demo_unread_seen Let_def) (simp add: demo_unread_def demo_nt_def)
  then show ?thesis
    by (simp add: notificationService_MarkAllRead_def notificationRepository_def notificationRepository_MarkAllRead_def
        notificationRepository_MarkRead_def item_notification_def nt_eval demo_unread_def update_conv')
qed

section \<open>Sending in bulk\<close>

lemma Send_clock: "env_clock (snd (notificationService_Send (the_notifications db) q w)) = stl (env_clock w)"
  by (auto simp: notificationService_Send_def notificationRepository_def notificationRepository_Create_def on_table_def
      time_Now_def uuid_NewString_def Let_def split: sum.split option.split prod.split)

text \<open>The first requests, one identifier and one reading of the clock for each, have been stored.\<close>

definition stored_prefix :: "nt_world \<Rightarrow> SendNotificationRequest list \<Rightarrow> nt_world \<Rightarrow> bool" where
  "stored_prefix w qs w' \<longleftrightarrow> (\<forall>j<length qs. \<exists>it. notifs w' (snr_TenantID (qs ! j), env_uuids w !! j) = Some it \<and>
     notification_written (toNotificationItem (newNotification (env_uuids w !! j) (env_clock w !! j) (qs ! j))) it)"

definition others_kept :: "nt_world \<Rightarrow> nat \<Rightarrow> nt_world \<Rightarrow> bool" where
  "others_kept w n w' \<longleftrightarrow> (\<forall>k. (\<forall>j\<le>n. snd k \<noteq> env_uuids w !! j) \<longrightarrow> notifs w' k = notifs w k)"

context nt_db_laws
begin

lemma bulk_prefix:
  assumes "notificationService_SendBulk (the_notifications db) qs w = (r, w')" "fresh_ids (env_uuids w) {}"
  shows "\<exists>sent rest. qs = sent @ rest \<and> (r = None \<longleftrightarrow> rest = []) \<and> stored_prefix w sent w' \<and> others_kept w (length sent) w'"
  using assms
proof (induction qs arbitrary: w)
  case Nil
  then show ?case by (simp add: stored_prefix_def others_kept_def)
next
  case (Cons q qs)
  obtain sr w1 where s: "notificationService_Send (the_notifications db) q w = (sr, w1)" by fastforce
  have clock: "env_clock w1 = stl (env_clock w)" using Send_clock [of db q w] s by simp
  have fresh: "fresh_ids (env_uuids w) {}" by (rule Cons.prems(2))
  have first: "\<exists>sent rest. q # qs = sent @ rest \<and> (Some e = None \<longleftrightarrow> rest = []) \<and> stored_prefix w sent w1 \<and> others_kept w (length sent) w1"
    if "\<And>k. snd k \<noteq> shd (env_uuids w) \<Longrightarrow> notifs w1 k = notifs w k" for e :: goerr
    by (intro exI [of _ "[]"] exI [of _ "q # qs"]) (simp add: stored_prefix_def others_kept_def that del: split_paired_All)
  from s show ?case
  proof (cases rule: Send_effect)
    case (failed e)
    then show ?thesis using first [of e] Cons.prems(1) s by auto
  next
    case (put it)
    show ?thesis
    proof (cases sr)
      case (Inl e)
      then show ?thesis using first [of e] put(2) Cons.prems(1) s by (auto simp: fun_upd_def)
    next
      case (Inr n)
      with Cons.prems(1) s have run: "notificationService_SendBulk (the_notifications db) qs w1 = (r, w')" by simp
      have "fresh_ids (env_uuids w1) {}" using fresh_mono [OF fresh_stl [OF fresh]] put(4) by simp
      from Cons.IH [OF run this] obtain sent rest where ih: "qs = sent @ rest" "r = None \<longleftrightarrow> rest = []"
        "stored_prefix w1 sent w'" "others_kept w1 (length sent) w'" by blast
      have "notifs w' (snr_TenantID q, shd (env_uuids w)) = Some it"
      proof -
        have "shd (env_uuids w) \<noteq> env_uuids w1 !! j" for j
          using fresh [unfolded fresh_ids_def, rule_format, of "Suc j"] put(4) by force
        with ih(4) put(2) show ?thesis by (simp add: others_kept_def)
      qed
      with put(1) ih(3) have "stored_prefix w (q # sent) w'"
        using put(4) clock by (auto simp: stored_prefix_def less_Suc_eq_0_disj)
      moreover have "others_kept w (length (q # sent)) w'"
        unfolding others_kept_def
      proof (intro allI impI)
        fix k :: dyn_key assume k: "\<forall>j\<le>length (q # sent). snd k \<noteq> env_uuids w !! j"
        then have "snd k \<noteq> shd (env_uuids w)" "\<forall>j\<le>length sent. snd k \<noteq> env_uuids w1 !! j"
          using put(4) by (force, force dest: spec [of _ "Suc _"])
        with ih(4) put(2) show "notifs w' k = notifs w k" by (cases k) (auto simp: others_kept_def)
      qed
      ultimately show ?thesis using ih(1,2) by (intro exI [of _ "q # sent"] exI [of _ rest]) simp
    qed
  qed
qed

end

text \<open>
  C25: Sending in bulk stores the notifications one after the other and stops at the first error: a prefix of
  the list has been stored, all of it exactly when the call succeeds, and nothing else has changed but, after an
  error, possibly the one that failed.
\<close>

theorem bulk_sends_prefix:
  assumes "nt_db_laws db seenN seenA" "notificationService_SendBulk (the_notifications db) qs w = (r, w')"
    and "fresh_ids (env_uuids w) {}"
  shows "\<exists>sent rest. qs = sent @ rest \<and> (r = None \<longleftrightarrow> rest = []) \<and> stored_prefix w sent w' \<and> others_kept w (length sent) w'"
  by (rule nt_db_laws.bulk_prefix [OF assms])

definition demo_failing :: nt_world where
  "demo_failing = (demo_nt [] [])\<lparr>nw_notifications := \<lparr>rows = [], tbl_hidden = 2\<rparr>\<rparr>"

lemma demo_bulk:
  "\<exists>e w'. notificationService_SendBulk (the_notifications (mem_nt_db 9)) [demo_send, demo_send] demo_failing = (Some e, w') \<and>
     notifs w' (''t1'', ''n1'') \<noteq> None"
  by (simp add: demo_failing_def demo_send_def zero_send_def notificationService_Send_def notificationRepository_def
      notificationRepository_Create_def newNotification_def toNotificationItem_def nt_eval item_key_def notification_attrs_def)

theorem bulk_sends_prefix_witness:
  "\<exists>e w' sent rest. notificationService_SendBulk (the_notifications (mem_nt_db 9)) [demo_send, demo_send] demo_failing = (Some e, w') \<and>
     notifs w' (''t1'', ''n1'') \<noteq> None \<and> [demo_send, demo_send] = sent @ rest \<and> rest \<noteq> [] \<and> stored_prefix demo_failing sent w'"
proof -
  obtain e w' where r: "notificationService_SendBulk (the_notifications (mem_nt_db 9)) [demo_send, demo_send] demo_failing = (Some e, w')"
    and n1: "notifs w' (''t1'', ''n1'') \<noteq> None" using demo_bulk by blast
  have "fresh_ids (env_uuids demo_failing) {}" by (simp add: demo_failing_def demo_nt_def demo_fresh)
  from bulk_sends_prefix [OF mem_nt.nt_db_laws_axioms r this] r n1 show ?thesis by blast
qed

end
