(* ===== verification/Nt_Lists.thy ===== *)
theory Nt_Lists
  imports Nt_Marks
begin

text \<open>
  notification-service: the meaning of the filter expression of the audit query, what lookups and listings
  answer with, and their pages, each with a run on concrete data where it has hypotheses.
\<close>

section \<open>The filter of the audit query\<close>

definition spaced :: "string \<Rightarrow> bool" where
  "spaced s \<longleftrightarrow> s = '''' \<or> (\<exists>r. s = CHR '' '' # r)"

lemma tokens_spaced: "spaced s \<Longrightarrow> tokens [] (p @ s) = tokens [] p @ tokens [] s"
  by (auto simp: spaced_def tokens_space token_def)

lemma spaced_parts [simp]:
  "spaced ''''" "spaced (CHR '' '' # r)" "spaced p \<Longrightarrow> spaced q \<Longrightarrow> spaced (p @ q)"
  "spaced s \<Longrightarrow> spaced (if_set v s)"
  by (auto simp: spaced_def if_set_def split: option.split)

definition conj_tokens :: "(string \<times> string \<times> string) list \<Rightarrow> string list" where
  "conj_tokens cs = concat (map (\<lambda>(a, rel, v). [''AND'', a, rel, v]) cs)"

lemma conj_tokens_append: "conj_tokens (cs @ ds) = conj_tokens cs @ conj_tokens ds"
  by (simp add: conj_tokens_def)

lemma condition_conj:
  assumes "cs \<noteq> []" "\<And>a rel v. (a, rel, v) \<in> set cs \<Longrightarrow> comparison names values a rel v it = Some (B (a, rel, v))"
  shows "condition names values (tl (conj_tokens cs)) it = Some (\<forall>c\<in>set cs. B c)"
  using assms
proof (induction cs rule: induct_list012)
  case (2 c)
  obtain a rel v where "c = (a, rel, v)" by (cases c)
  with 2 show ?case by (simp add: conj_tokens_def)
next
  case (3 c d cs)
  obtain a rel v where c: "c = (a, rel, v)" by (cases c)
  obtain a' rel' v' where d: "d = (a', rel', v')" by (cases d)
  have "conj_tokens (d # cs) = ''AND'' # tl (conj_tokens (d # cs))" by (simp add: conj_tokens_def d)
  moreover have "tl (conj_tokens (c # d # cs)) = a # rel # v # conj_tokens (d # cs)" by (simp add: conj_tokens_def c)
  ultimately have "tl (conj_tokens (c # d # cs)) = a # rel # v # ''AND'' # tl (conj_tokens (d # cs))" by simp
  with 3 show ?case by (simp add: c)
qed simp

text \<open>The conditions of a filter, in the order of the code.\<close>

definition audit_conds :: "AuditFilter \<Rightarrow> (string \<times> string \<times> string) list" where
  "audit_conds f =
     if_set (aft_ActorID f) [(''actorId'', ''='', '':actorId'')] @ if_set (aft_Action f) [(''#action'', ''='', '':action'')] @
     if_set (aft_Resource f) [(''#resource'', ''='', '':resource'')] @
     if_set (aft_ResourceID f) [(''resourceId'', ''='', '':resourceId'')] @
     if_set (aft_From f) [(''#ts'', ''>='', '':from'')] @ if_set (aft_To f) [(''#ts'', ''<='', '':to'')]"

lemma if_set_tokens:
  "tokens [] (if_set v s) = if_set v (tokens [] s)" "conj_tokens (if_set v cs) = if_set v (conj_tokens cs)"
  by (simp_all add: if_set_def token_def conj_tokens_def split: option.split)

lemma filter_parts_tokens: "tokens [] (filter_parts f) = conj_tokens (audit_conds f)"
  unfolding filter_parts_def audit_conds_def conj_tokens_append
  by (subst tokens_spaced, simp)+ (simp add: if_set_tokens, simp add: conj_tokens_def token_def)

lemma filter_parts_prefix: "filter_parts f \<noteq> '''' \<Longrightarrow> filter_parts f = '' AND '' @ drop 5 (filter_parts f)"
  by (cases "aft_ActorID f"; cases "aft_Action f"; cases "aft_Resource f"; cases "aft_ResourceID f"; cases "aft_From f";
      cases "aft_To f") (simp_all add: filter_parts_def if_set_def)

lemma filter_tokens:
  assumes "filter_parts f \<noteq> ''''"
  shows "tokens [] (drop 5 (filter_parts f)) = tl (conj_tokens (audit_conds f))" "audit_conds f \<noteq> []"
proof -
  have "tokens [] (filter_parts f) = ''AND'' # tokens [] (drop 5 (filter_parts f))"
    by (subst filter_parts_prefix [OF assms]) (simp add: token_def)
  then have "conj_tokens (audit_conds f) = ''AND'' # tokens [] (drop 5 (filter_parts f))" by (simp add: filter_parts_tokens)
  then show "tokens [] (drop 5 (filter_parts f)) = tl (conj_tokens (audit_conds f))" "audit_conds f \<noteq> []"
    by (auto simp: conj_tokens_def)
qed

lemma no_parts: "filter_parts f = '''' \<Longrightarrow> audit_conds f = []"
  by (auto simp: filter_parts_def audit_conds_def if_set_def split: option.splits)

lemma map_of_value_of [simp]: "map_of (value_of ref v) k = (if k = ref then map_option AvS v else None)"
  by (cases v) (simp_all add: value_of_def)

lemma map_of_if_set [simp]: "map_of (if_set v [(a, b)]) k = (if k = a \<and> v \<noteq> None then Some b else None)"
  by (cases v) (simp_all add: if_set_def)

lemma in_if_set: "x \<in> set (if_set v xs) \<longleftrightarrow> v \<noteq> None \<and> x \<in> set xs"
  by (cases v) (simp_all add: if_set_def)

text \<open>What the filter asks of an item: every condition that is set holds.\<close>

definition audit_wanted :: "AuditFilter \<Rightarrow> item \<Rightarrow> bool" where
  "audit_wanted f it \<longleftrightarrow>
     (\<forall>s. aft_ActorID f = Some s \<longrightarrow> it ''actorId'' = Some (AvS s)) \<and>
     (\<forall>s. aft_Action f = Some s \<longrightarrow> it ''action'' = Some (AvS s)) \<and>
     (\<forall>s. aft_Resource f = Some s \<longrightarrow> it ''resource'' = Some (AvS s)) \<and>
     (\<forall>s. aft_ResourceID f = Some s \<longrightarrow> it ''resourceId'' = Some (AvS s)) \<and>
     (\<forall>t. aft_From f = Some t \<longrightarrow> (\<exists>s. it ''timestamp'' = Some (AvS s) \<and> format_RFC3339 t \<le> s)) \<and>
     (\<forall>t. aft_To f = Some t \<longrightarrow> (\<exists>s. it ''timestamp'' = Some (AvS s) \<and> s \<le> format_RFC3339 t))"

definition cond_holds :: "AuditFilter \<Rightarrow> item \<Rightarrow> string \<times> string \<times> string \<Rightarrow> bool" where
  "cond_holds f it c =
     (let v = snd (snd c) in
      if v = '':actorId'' then it ''actorId'' = map_option AvS (aft_ActorID f)
      else if v = '':action'' then it ''action'' = map_option AvS (aft_Action f)
      else if v = '':resource'' then it ''resource'' = map_option AvS (aft_Resource f)
      else if v = '':resourceId'' then it ''resourceId'' = map_option AvS (aft_ResourceID f)
      else if v = '':from'' then \<exists>s t. it ''timestamp'' = Some (AvS s) \<and> aft_From f = Some t \<and> format_RFC3339 t \<le> s
      else \<exists>s t. it ''timestamp'' = Some (AvS s) \<and> aft_To f = Some t \<and> s \<le> format_RFC3339 t)"

lemma audit_wanted_conds: "audit_wanted f it \<longleftrightarrow> (\<forall>c\<in>set (audit_conds f). cond_holds f it c)"
  by (cases "aft_ActorID f"; cases "aft_Action f"; cases "aft_Resource f"; cases "aft_ResourceID f"; cases "aft_From f";
      cases "aft_To f") (simp_all add: audit_wanted_def audit_conds_def if_set_def cond_holds_def)

lemma audit_comparisons:
  assumes "aft_From f = None \<and> aft_To f = None \<or> is_str (it ''timestamp'')" "(a, rel, v) \<in> set (audit_conds f)"
  shows "comparison (qi_ExpressionAttributeNames (audit_query t f)) (qi_ExpressionAttributeValues (audit_query t f)) a rel v it =
    Some (cond_holds f it (a, rel, v))"
proof -
  have ts: "it ''timestamp'' = None \<or> (\<exists>s. it ''timestamp'' = Some (AvS s))" if "is_str (it ''timestamp'')"
    using that by (cases "it ''timestamp''" rule: is_str.cases) simp_all
  from assms(2) consider "aft_ActorID f \<noteq> None" "(a, rel, v) = (''actorId'', ''='', '':actorId'')"
    | "aft_Action f \<noteq> None" "(a, rel, v) = (''#action'', ''='', '':action'')"
    | "aft_Resource f \<noteq> None" "(a, rel, v) = (''#resource'', ''='', '':resource'')"
    | "aft_ResourceID f \<noteq> None" "(a, rel, v) = (''resourceId'', ''='', '':resourceId'')"
    | "aft_From f \<noteq> None" "(a, rel, v) = (''#ts'', ''>='', '':from'')"
    | "aft_To f \<noteq> None" "(a, rel, v) = (''#ts'', ''<='', '':to'')"
    unfolding audit_conds_def set_append Un_iff in_if_set by (elim disjE conjE) simp_all
  then show ?thesis
  proof cases
    case 5
    then show ?thesis using assms(1) ts
      by (auto simp: audit_query_def comparison_def attribute_name_def cond_holds_def map_add_def)
  next
    case 6
    then show ?thesis using assms(1) ts
      by (auto simp: audit_query_def comparison_def attribute_name_def cond_holds_def map_add_def)
  qed (auto simp: audit_query_def comparison_eq attribute_name_def cond_holds_def map_add_def)
qed

lemma audit_filter_meaning':
  assumes "aft_From f = None \<and> aft_To f = None \<or> is_str (it ''timestamp'')"
  shows "query_keys (audit_query t f) it = Some (it ''tenantId'' = Some (AvS t)) \<and>
    query_filter (audit_query t f) it = Some (audit_wanted f it)"
proof
  show "query_keys (audit_query t f) it = Some (it ''tenantId'' = Some (AvS t))"
    by (simp add: query_keys_def audit_query_def token_def comparison_eq attribute_name_def)
  show "query_filter (audit_query t f) it = Some (audit_wanted f it)"
  proof (cases "filter_parts f = ''''")
    case True
    then show ?thesis by (simp add: query_filter_def audit_query_def audit_wanted_conds no_parts)
  next
    case False
    then have "qi_FilterExpression (audit_query t f) = Some (drop 5 (filter_parts f))" by (simp add: audit_query_def)
    with condition_conj [OF filter_tokens(2) [OF False] audit_comparisons [where f = f and it = it and t = t]] assms show ?thesis
      by (simp add: query_filter_def filter_tokens(1) [OF False] audit_wanted_conds)
  qed
qed

text \<open>
  C26: The texts the audit query is put together from ask for what the fields of the filter say to the code: the
  key condition for the tenant, the filter expression for the conjunction of the conditions that are set,
  whichever they are. A condition on actor, action, resource or identifier is equality with the whole value,
  for the action too, where contracts/notification.yaml describes a prefix match; one on the time is a bound.
\<close>

theorem audit_filter_meaning:
  assumes "aft_From f = None \<and> aft_To f = None \<or> is_str (it ''timestamp'')"
  shows "query_keys (audit_query t f) it = Some (it ''tenantId'' = Some (AvS t)) \<and>
    query_filter (audit_query t f) it = Some (audit_wanted f it)"
  using audit_filter_meaning' [where f = f and it = it and t = t] assms by blast

theorem audit_filter_meaning_witness:
  "query_filter (audit_query ''t1'' \<lparr>aft_ActorID = Some ''u1'', aft_Action = None, aft_Resource = None, aft_ResourceID = None,
     aft_From = Some 0, aft_To = None\<rparr>) demo_event = Some True"
proof -
  let ?f = "\<lparr>aft_ActorID = Some ''u1'', aft_Action = None, aft_Resource = None, aft_ResourceID = None, aft_From = Some 0, aft_To = None\<rparr>"
  have "aft_From ?f = None \<and> aft_To ?f = None \<or> is_str (demo_event ''timestamp'')" by (simp add: demo_event_def audit_attrs_def)
  with audit_filter_meaning [where f = ?f and it = demo_event and t = "''t1''"]
  have "query_filter (audit_query ''t1'' ?f) demo_event = Some (audit_wanted ?f demo_event)" by blast
  moreover have "format_RFC3339 0 \<le> ''2024-01-15T13:30:00Z''" by code_simp
  ultimately show ?thesis by (simp add: audit_wanted_def demo_event_def audit_attrs_def)
qed

section \<open>What is answered\<close>

lemma decoded_in: "x \<in> set (decoded f its) \<Longrightarrow> \<exists>it\<in>set its. f it = Inr x"
  by (induction its) (auto split: sum.splits)

lemma page_slice_in: "page_slice xs page limit = Ret ys \<Longrightarrow> set ys \<subseteq> set xs"
  by (auto simp: page_slice_def go_slice_def Let_def dest!: in_set_takeD in_set_dropD split: if_splits)

lemma listing_in: "listing xs page limit = Ret (Inr (ys, cnt)) \<Longrightarrow> set ys \<subseteq> set xs \<and> cnt = int (length xs)"
  by (auto simp: listing_def dest: page_slice_in split: outcome.splits)

lemma user_query_keys: "query_keys (user_query t u) it = Some (it ''tenantId'' = Some (AvS t))"
  by (simp add: query_keys_def user_query_def token_def comparison_eq attribute_name_def)

lemma user_query_filter: "query_filter (user_query t u) it = Some (it ''userId'' = Some (AvS u))"
  by (simp add: query_filter_def user_query_def token_def comparison_eq attribute_name_def)

context nt_db_laws
begin

lemma list_confined:
  assumes "notificationRepository_ListByUser db t u page limit w = (Ret (Inr (ns, cnt)), w')" "n \<in> set ns"
  shows "nf_TenantID n = t \<and> nf_UserID n = u"
proof -
  obtain qr tq where q: "dy_Query (ndb_notifications db) (user_query t u) (nw_notifications w) = (qr, tq)" by fastforce
  with assms(1) obtain its trunc where qr: "qr = Inr (its, trunc)"
    and l: "listing (map fromNotificationItem (decoded (av_UnmarshalNotification (ndb_codec db)) its)) page limit = Ret (Inr (ns, cnt))"
    by (auto simp: notificationRepository_ListByUser_def on_table_def split: sum.splits)
  from listing_in [OF l] assms(2) obtain x where x: "x \<in> set (decoded (av_UnmarshalNotification (ndb_codec db)) its)" "n = fromNotificationItem x"
    by auto
  from decoded_in [OF x(1)] obtain it where it: "it \<in> set its" "av_UnmarshalNotification (ndb_codec db) it = Inr x" by blast
  from notifications_t.query_item [OF q [unfolded qr] _ it(1)]
  have "it ''tenantId'' = Some (AvS t)" "it ''userId'' = Some (AvS u)" by (simp_all add: user_query_keys user_query_filter)
  with codec.unmarshal_notification_strings [OF it(2)] x(2) show ?thesis by (simp add: fromNotificationItem_def)
qed

lemma find_confined:
  assumes "notificationRepository_FindByID db t i w = (Inr n, w')"
  shows "nf_TenantID n = t \<and> nf_ID n = i"
  using assms
proof (cases rule: FindByID_ok)
  case (1 it x)
  with item_keyD [OF notifications_t.seen_key [OF 1(1)]] codec.unmarshal_notification_strings [OF 1(2)]
  show ?thesis by (simp add: fromNotificationItem_def)
qed

lemma events_confined:
  assumes "auditRepository_Query fl db t f page limit w = (Ret (Inr (es, cnt)), w')" "e \<in> set es" "aft_From f = None" "aft_To f = None"
  shows "ae_TenantID e = t \<and> (\<forall>s. aft_ActorID f = Some s \<longrightarrow> ae_ActorID e = s) \<and> (\<forall>s. aft_Action f = Some s \<longrightarrow> ae_Action e = s) \<and>
    (\<forall>s. aft_Resource f = Some s \<longrightarrow> ae_Resource e = s) \<and> (\<forall>s. aft_ResourceID f = Some s \<longrightarrow> ae_ResourceID e = s)"
proof -
  obtain qr tq where q: "dy_Query (ndb_audit db) (audit_query t f) (nw_audit w) = (qr, tq)" by fastforce
  with assms(1) obtain its trunc where qr: "qr = Inr (its, trunc)"
    and l: "listing (map (fromAuditItem fl) (decoded (av_UnmarshalAudit (ndb_codec db)) its)) page limit = Ret (Inr (es, cnt))"
    by (auto simp: auditRepository_Query_def on_table_def split: sum.splits)
  from listing_in [OF l] assms(2) obtain y where y: "y \<in> set (decoded (av_UnmarshalAudit (ndb_codec db)) its)" "e = fromAuditItem fl y"
    by auto
  from decoded_in [OF y(1)] obtain it where it: "it \<in> set its" "av_UnmarshalAudit (ndb_codec db) it = Inr y" by blast
  from assms(3,4) have "query_keys (audit_query t f) x = Some (x ''tenantId'' = Some (AvS t))"
    "query_filter (audit_query t f) x = Some (audit_wanted f x)" for x
    using audit_filter_meaning' [of f x t] by simp_all
  with audit_t.query_item [OF q [unfolded qr] _ it(1)] have "it ''tenantId'' = Some (AvS t)" "audit_wanted f it" by simp_all
  with codec.unmarshal_audit_strings [OF it(2)] y(2) show ?thesis by (auto simp: fromAuditItem_def audit_wanted_def)
qed

end

text \<open>
  C32: A lookup answers with the notification of the tenant and the identifier it was asked for, and a listing of
  a user with notifications of the tenant and the user. An audit query whose filter has no time bounds, as every
  filter the HTTP handler builds, answers with events of the tenant whose actor, action, resource and identifier
  are equal to the values that are set, the action as a whole and not as a prefix.
\<close>

theorem reads_confined:
  assumes "nt_db_laws db seenN seenA"
  shows "(notificationService_GetNotification (the_notifications db) t i w = (Inr n, w') \<longrightarrow> nf_TenantID n = t \<and> nf_ID n = i) \<and>
    (notificationService_ListForUser (the_notifications db) t u page limit w = (Ret (Inr (ns, cnt)), w') \<longrightarrow>
      (\<forall>n\<in>set ns. nf_TenantID n = t \<and> nf_UserID n = u)) \<and>
    (auditService_QueryEvents (the_audit fl db) t f page limit w = (Ret (Inr (es, cnt)), w') \<longrightarrow> aft_From f = None \<longrightarrow>
      aft_To f = None \<longrightarrow> (\<forall>e\<in>set es. ae_TenantID e = t \<and> (\<forall>s. aft_ActorID f = Some s \<longrightarrow> ae_ActorID e = s) \<and>
        (\<forall>s. aft_Action f = Some s \<longrightarrow> ae_Action e = s) \<and> (\<forall>s. aft_Resource f = Some s \<longrightarrow> ae_Resource e = s) \<and>
        (\<forall>s. aft_ResourceID f = Some s \<longrightarrow> ae_ResourceID e = s)))"
  using nt_db_laws.find_confined [OF assms] nt_db_laws.list_confined [OF assms] nt_db_laws.events_confined [OF assms]
  unfolding notificationService_GetNotification_def notificationService_ListForUser_def auditService_QueryEvents_def
    notificationRepository_def auditRepository_def by simp

lemma demo_user_query:
  "dy_Query (ndb_notifications (mem_nt_db 9)) (user_query ''t1'' ''u1'') (nw_notifications demo_unread) =
     (Inr ([demo_notification ''x1'' ''u1'' False, demo_notification ''x2'' ''u1'' False], False), nw_notifications demo_unread)"
proof -
  have "mem_keys ''tenantId'' ''notificationId'' (user_query ''t1'' ''u1'') (nw_notifications demo_unread) = [(''t1'', ''x1''), (''t1'', ''x2'')]"
    by (simp add: mem_keys_def mem_seen_def demo_unread_def demo_nt_def item_key_def user_query_keys)
  then show ?thesis
    by (simp add: mem_nt_db_def mem_dyn_def mem_query_def user_query_filter mem_fault_def mem_tick_def demo_unread_seen Let_def)
      (simp add: demo_unread_def demo_nt_def)
qed

lemma demo_unmarshal: "notification_typed it \<Longrightarrow> av_UnmarshalNotification (ndb_codec (mem_nt_db n)) it = Inr (item_notification it)"
  by (simp add: mem_nt_db_def mem_codec_def)

lemma demo_list:
  "\<exists>ns w'. notificationService_ListForUser (the_notifications (mem_nt_db 9)) ''t1'' ''u1'' 1 20 demo_unread = (Ret (Inr (ns, 2)), w') \<and>
     map nf_ID ns = [''x1'', ''x2'']"
  by (simp add: notificationService_ListForUser_def notificationRepository_def notificationRepository_ListByUser_def on_table_def
      demo_user_query demo_unmarshal listing_def page_slice_def go_slice_def wrap64_def item_notification_def fromNotificationItem_def)

theorem reads_confined_witness:
  "\<exists>ns w'. notificationService_ListForUser (the_notifications (mem_nt_db 9)) ''t1'' ''u1'' 1 20 demo_unread = (Ret (Inr (ns, 2)), w') \<and>
     map nf_ID ns = [''x1'', ''x2''] \<and> (\<forall>n\<in>set ns. nf_TenantID n = ''t1'' \<and> nf_UserID n = ''u1'')"
proof -
  obtain ns w' where r: "notificationService_ListForUser (the_notifications (mem_nt_db 9)) ''t1'' ''u1'' 1 20 demo_unread = (Ret (Inr (ns, 2)), w')"
    and ids: "map nf_ID ns = [''x1'', ''x2'']" using demo_list by metis
  from reads_confined [OF mem_nt.nt_db_laws_axioms, THEN conjunct2, THEN conjunct1, THEN mp, OF r] r ids
  show ?thesis by (intro exI [of _ ns] exI [of _ w'] conjI)
qed

section \<open>Pages\<close>

text \<open>
  C37: A listing cuts the page out of what the query returned: with the page numbers and sizes the handlers let
  through the offset is a 64-bit product, and when that is negative the slice panics.
\<close>

theorem listing_pages:
  assumes "1 \<le> page" "is_int64 page" "1 \<le> limit" "limit \<le> 100" "int (length xs) + 100 < 2 ^ 63"
  shows "listing xs page limit =
    (let s = wrap64 ((page - 1) * limit) in
     if s < 0 then Panic else Ret (Inr (take (nat limit) (drop (nat s) xs), int (length xs))))"
proof -
  define s where "s = wrap64 ((page - 1) * limit)"
  have "wrap64 (page - 1) = page - 1" using assms(1,2) by (intro wrap64_id) (simp add: is_int64_def)
  then have slice: "page_slice xs page limit = (if int (length xs) \<le> s then Ret []
      else go_slice xs s (if int (length xs) < wrap64 (s + limit) then int (length xs) else wrap64 (s + limit)))"
    by (simp add: page_slice_def Let_def s_def)
  have "page_slice xs page limit = (if s < 0 then Panic else Ret (take (nat limit) (drop (nat s) xs)))"
  proof (cases "int (length xs) \<le> s \<or> s < 0")
    case True
    then show ?thesis by (auto simp: slice go_slice_def)
  next
    case False
    with assms have stop: "wrap64 (s + limit) = s + limit" by (intro wrap64_id) (simp add: is_int64_def)
    have "nat (s + limit) - nat s = nat limit" using False assms(3) by linarith
    then show ?thesis using False assms(3) by (auto simp: slice stop go_slice_def)
  qed
  then show ?thesis by (simp add: listing_def Let_def flip: s_def)
qed

text \<open>Page \<open>2^62 + 1\<close> of three: the offset is \<open>3 * 2^62\<close>, which wraps around to a negative number.\<close>

theorem listing_pages_witness:
  "listing [0, 1, 2 :: nat] 4611686018427387905 3 = Panic \<and> listing [0, 1, 2 :: nat] 2 2 = Ret (Inr ([2], 3))"
  using listing_pages [of 4611686018427387905 3 "[0, 1, 2 :: nat]"] listing_pages [of 2 2 "[0, 1, 2 :: nat]"]
  by (simp add: is_int64_def wrap64_def)

end
