(* ===== verification/Nt_Audit.thy ===== *)
theory Nt_Audit
  imports Nt_Lists
begin

text \<open>
  notification-service: a recorded audit event is found again, with the values before and after the action
  that travel through the table as JSON text.
\<close>

section \<open>Values\<close>

text \<open>A value as the decoder of a request leaves it: maps in order, numbers as the runtime writes them.\<close>

fun any_stable :: "(string \<Rightarrow> string option) \<Rightarrow> json \<Rightarrow> bool" where
  "any_stable fl (JNum l) = (fl l = Some l)"
| "any_stable fl (JArr vs) = list_all (any_stable fl) vs"
| "any_stable fl (JObj kvs) = (go_map kvs \<and> list_all (\<lambda>(k, v). any_stable fl v) kvs)"
| "any_stable fl _ = True"

lemma lax_stable:
  "any_stable fl v \<Longrightarrow> lax_json fl v = v"
  "list_all (any_stable fl) vs \<Longrightarrow> lax_list fl vs = vs"
  "list_all (\<lambda>(k, v). any_stable fl v) kvs \<Longrightarrow> go_map (m @ kvs) \<Longrightarrow> lax_members fl kvs m = m @ kvs"
proof (induction fl v and fl vs and fl kvs m rule: lax_json_lax_list_lax_members.induct)
  case (10 fl k v kvs m)
  then have "go_map (m @ [(k, v)])" by (auto simp: go_map_def sorted_wrt_append)
  with 10 show ?case by (simp add: map_put_snoc)
qed simp_all

definition any_ok :: "(string \<Rightarrow> string option) \<Rightarrow> (string \<times> json) list option \<Rightarrow> bool" where
  "any_ok fl m \<longleftrightarrow> (case m of None \<Rightarrow> True | Some kvs \<Rightarrow> wf_json (JObj kvs) \<and> any_stable fl (JObj kvs))"

lemma any_roundtrip: "any_ok fl m \<Longrightarrow> any_of_text fl (any_text m) = m"
proof (cases m)
  case (Some kvs)
  assume "any_ok fl m"
  with Some have wf: "wf_json (JObj kvs)" and st: "go_map kvs" "list_all (\<lambda>(k, v). any_stable fl v) kvs"
    by (simp_all add: any_ok_def)
  have "json_text (JObj kvs) \<noteq> ''''" by simp
  with Some json_roundtrip [OF wf] lax_stable(3) [OF st(2), of "[]"] st(1) show ?thesis
    by (simp add: any_of_text_def any_text_def del: json_text.simps)
qed (simp add: any_of_text_def any_text_def)

lemma event_roundtrip:
  assumes "printable (ae_Timestamp e)" "any_ok fl (ae_OldValue e)" "any_ok fl (ae_NewValue e)"
  shows "fromAuditItem fl (toAuditItem e) = e\<lparr>ae_Timestamp := whole_second (ae_Timestamp e)\<rparr>"
  using assms rfc3339_roundtrip [of "ae_Timestamp e"]
  by (cases e) (simp add: fromAuditItem_def toAuditItem_def any_roundtrip printable_def whole_second_def)

section \<open>Recorded events\<close>

definition event_lookup_fails :: "nt_db \<Rightarrow> string \<Rightarrow> string \<Rightarrow> nt_world \<Rightarrow> goerr \<Rightarrow> bool" where
  "event_lookup_fails db t i w e \<longleftrightarrow>
     (case av_MarshalKey (ndb_codec db) (audit_key t i) of
        Inl e' \<Rightarrow> e = e'
      | Inr key \<Rightarrow> fst (dy_GetItem (ndb_audit db) key (nw_audit w)) = Inl e)"

context nt_db_laws
begin

text \<open>What the table holds is what a lookup answers with, in any later state.\<close>

lemma event_found:
  assumes held: "events v (t, i) = Some (audit_attrs (toAuditItem e))" and current: "seenA (nw_audit v) = events v"
    and e: "printable (ae_Timestamp e)" "any_ok fl (ae_OldValue e)" "any_ok fl (ae_NewValue e)"
    and get: "auditService_GetEvent (the_audit fl db) t i v = (res, v')"
  shows "res = Inr (e\<lparr>ae_Timestamp := whole_second (ae_Timestamp e)\<rparr>) \<or> (\<exists>err. res = Inl err \<and> event_lookup_fails db t i v err)"
proof -
  have get': "auditRepository_FindByID fl db t i v = (res, v')"
    using get by (simp add: auditService_GetEvent_def auditRepository_def)
  have rt: "fromAuditItem fl (item_audit (audit_attrs (toAuditItem e))) = e\<lparr>ae_Timestamp := whole_second (ae_Timestamp e)\<rparr>"
    by (simp add: item_audit_attrs event_roundtrip e)
  show ?thesis
  proof (cases "av_MarshalKey (ndb_codec db) (audit_key t i)")
    case (Inl err)
    with get' show ?thesis by (simp add: auditRepository_FindByID_def event_lookup_fails_def)
  next
    case (Inr key)
    obtain g t' where g: "dy_GetItem (ndb_audit db) key (nw_audit v) = (g, t')" by fastforce
    show ?thesis
    proof (cases g)
      case (Inl err)
      with get' g Inr show ?thesis by (simp add: auditRepository_FindByID_def event_lookup_fails_def on_table_def)
    next
      case found: (Inr x)
      from g found codec.marshal_key [OF Inr] held current have "x = Some (audit_attrs (toAuditItem e))"
        using audit_t.get_ok [of key "nw_audit v" x t' "(t, i)"] by simp
      with get' g found Inr rt codec.unmarshal_audit [OF audit_attrs_typed] show ?thesis
        by (auto simp: auditRepository_FindByID_def on_table_def)
    qed
  qed
qed

lemma recorded_held:
  assumes "auditService_Record (the_audit fl db) q w = (Inr e, w1)" "fresh_ids (env_uuids w) (snd ` dom (events w))"
    and "nt_reach fl (nt_main fl db) w1 v"
  shows "events v (ae_TenantID e, ae_ID e) = Some (audit_attrs (toAuditItem e))" "e = newAuditEvent (shd (env_uuids w)) (shd (env_clock w)) q"
proof -
  have held: "events w1 (ae_TenantID e, ae_ID e) = Some (audit_attrs (toAuditItem e)) \<and> e = newAuditEvent (shd (env_uuids w)) (shd (env_clock w)) q"
    using assms(1) by (cases rule: RecordEvent_effect) (auto simp: newAuditEvent_def)
  have "log_inv Map.empty w" using assms(2) by (simp add: log_inv_def)
  from log_Record [OF this, of fl q] assms(1) have "fresh_ids (env_uuids w1) (snd ` dom (events w1))" by (simp add: log_inv_def)
  from log_reach [OF this assms(3)] held show "events v (ae_TenantID e, ae_ID e) = Some (audit_attrs (toAuditItem e))"
    by (metis domI map_le_def)
  from held show "e = newAuditEvent (shd (env_uuids w)) (shd (env_clock w)) q" by simp
qed

end

text \<open>
  C17: An audit event that was recorded is found by its tenant and identifier after any sequence of requests,
  as it was recorded: who did what to what, and the values before and after; the time is cut to the second.
  Only an error of the lookup itself stands in the way, where reads are up to date and identifiers are new.
\<close>

theorem recorded_event_is_found:
  assumes "nt_db_laws db seenN seenA" "auditService_Record (the_audit fl db) q w = (Inr e, w1)"
    and "fresh_ids (env_uuids w) (snd ` dom (events w))" "nt_reach fl (nt_main fl db) w1 v"
    and "printable (shd (env_clock w))" "any_ok fl (rar_OldValue q)" "any_ok fl (rar_NewValue q)"
    and "seenA (nw_audit v) = events v" "auditService_GetEvent (the_audit fl db) (rar_TenantID q) (ae_ID e) v = (res, v')"
  shows "res = Inr (e\<lparr>ae_Timestamp := whole_second (ae_Timestamp e)\<rparr>) \<or>
    (\<exists>err. res = Inl err \<and> event_lookup_fails db (rar_TenantID q) (ae_ID e) v err)"
proof -
  note held = nt_db_laws.recorded_held [OF assms(1-4)]
  from held(2) have "ae_TenantID e = rar_TenantID q" "ae_Timestamp e = shd (env_clock w)" "ae_OldValue e = rar_OldValue q"
    "ae_NewValue e = rar_NewValue q" by (simp_all add: newAuditEvent_def)
  with nt_db_laws.event_found [OF assms(1) held(1) assms(8), of fl res v'] assms(5-7,9) show ?thesis by simp
qed

definition demo_change :: RecordAuditRequest where
  "demo_change = \<lparr>rar_TenantID = ''t1'', rar_ActorID = ''u1'', rar_ActorEmail = '''', rar_Action = ''case.closed'',
     rar_Resource = ''case'', rar_ResourceID = ''c1'', rar_OldValue = Some [(''status'', JStr ''open'')],
     rar_NewValue = None, rar_IPAddress = '''', rar_UserAgent = ''''\<rparr>"

lemma demo_change_recorded:
  "\<exists>e w1. auditService_Record (the_audit Some (mem_nt_db 9)) demo_change (demo_nt [] []) = (Inr e, w1) \<and>
     mem_seenA (nw_audit w1) = events w1 \<and> tbl_hidden (nw_audit w1) = 0 \<and> ae_ID e = ''n1'' \<and> ae_OldValue e = Some [(''status'', JStr ''open'')]"
  by (simp add: demo_change_def auditService_Record_def auditRepository_def auditRepository_Record_def newAuditEvent_def
      toAuditItem_def nt_eval item_key_def audit_attrs_def mem_seen_def fun_eq_iff)

lemma demo_change_ok: "any_ok Some (rar_OldValue demo_change)" "any_ok Some (rar_NewValue demo_change)"
proof -
  have "valid_utf8 ''status''" "valid_utf8 ''open''" by code_simp+
  then show "any_ok Some (rar_OldValue demo_change)" "any_ok Some (rar_NewValue demo_change)"
    by (simp_all add: demo_change_def any_ok_def go_map_def)
qed

theorem recorded_event_is_found_witness:
  "\<exists>e w1 e' v'. auditService_Record (the_audit Some (mem_nt_db 9)) demo_change (demo_nt [] []) = (Inr e, w1) \<and>
     auditService_GetEvent (the_audit Some (mem_nt_db 9)) ''t1'' ''n1'' w1 = (Inr e', v') \<and>
     ae_OldValue e' = Some [(''status'', JStr ''open'')]"
proof -
  obtain e w1 where s: "auditService_Record (the_audit Some (mem_nt_db 9)) demo_change (demo_nt [] []) = (Inr e, w1)"
    and w1: "mem_seenA (nw_audit w1) = events w1" "tbl_hidden (nw_audit w1) = 0"
    and e: "ae_ID e = ''n1''" "ae_OldValue e = Some [(''status'', JStr ''open'')]" using demo_change_recorded by blast
  have t: "rar_TenantID demo_change = ''t1''" by (simp add: demo_change_def)
  obtain res v' where g: "auditService_GetEvent (the_audit Some (mem_nt_db 9)) (rar_TenantID demo_change) (ae_ID e) w1 = (res, v')"
    by fastforce
  have ok: "\<not> event_lookup_fails (mem_nt_db 9) t' i w1 err" for t' i err
    using w1(2) by (simp add: event_lookup_fails_def mem_nt_db_def mem_codec_def mem_dyn_def mem_fault_def)
  have "fresh_ids (env_uuids (demo_nt [] [])) (snd ` dom (events (demo_nt [] [])))" "printable (shd (env_clock (demo_nt [] [])))"
    using demo_printable by (simp_all add: demo_nt_def demo_fresh)
  from recorded_event_is_found [OF mem_nt.nt_db_laws_axioms s this(1) nt_reach.start this(2) demo_change_ok w1(1) g] ok
  have "res = Inr (e\<lparr>ae_Timestamp := whole_second (ae_Timestamp e)\<rparr>)" by blast
  with s g e t show ?thesis by auto
qed

end
