(* ===== verification/Parse_Duration.thy ===== *)
theory Parse_Duration
  imports Json
begin

text \<open>
  \<open>time.ParseDuration\<close> of Go's standard library, which the configuration of the workflow service
  reads its timeouts with. Durations are nanoseconds; the accumulators are 64-bit unsigned, and their
  overflow is written out. A fraction is multiplied in floating point, which is a parameter: \<open>frac ds u\<close>
  is what the digits \<open>ds\<close> behind the period add in the unit \<open>u\<close>.
\<close>

section \<open>The parser\<close>

text \<open>\<open>quote\<close>, for the texts of the errors.\<close>

definition quote_byte :: "char \<Rightarrow> string" where
  "quote_byte c =
     (if 128 \<le> byte c \<or> byte c < 32
      then [CHR 0x5C, CHR ''x'', hex_digit (byte c div 16), hex_digit (byte c mod 16)]
      else if c = CHR 0x22 \<or> c = CHR 0x5C then [CHR 0x5C, c] else [c])"

definition time_quote :: "string \<Rightarrow> string" where
  "time_quote s = CHR 0x22 # concat (map quote_byte s) @ [CHR 0x22]"

definition invalid_duration :: "string \<Rightarrow> goerr" where
  "invalid_duration orig = Foreign (''time: invalid duration '' @ time_quote orig)"

definition missing_unit :: "string \<Rightarrow> goerr" where
  "missing_unit orig = Foreign (''time: missing unit in duration '' @ time_quote orig)"

definition unknown_unit :: "string \<Rightarrow> string \<Rightarrow> goerr" where
  "unknown_unit u orig = Foreign (''time: unknown unit '' @ time_quote u @ '' in duration '' @ time_quote orig)"

text \<open>The micro sign and the Greek letter mu are two ways to write microseconds.\<close>

definition unitMap :: "string \<Rightarrow> int option" where
  "unitMap = map_of
     [(''ns'', 1), (''us'', 1000), ([CHR 0xC2, CHR 0xB5, CHR ''s''], 1000), ([CHR 0xCE, CHR 0xBC, CHR ''s''], 1000),
      (''ms'', 1000000), (''s'', Second), (''m'', Minute), (''h'', Hour)]"

fun leadingInt :: "int \<Rightarrow> string \<Rightarrow> (int \<times> string) option" where
  "leadingInt x [] = Some (x, [])"
| "leadingInt x (c # cs) =
     (if \<not> is_digit c then Some (x, c # cs)
      else if 2 ^ 63 div 10 < x then None
      else if 2 ^ 63 < x * 10 + digit_val c then None
      else leadingInt (x * 10 + digit_val c) cs)"

definition unit_char :: "char \<Rightarrow> bool" where
  "unit_char c \<longleftrightarrow> c \<noteq> CHR ''.'' \<and> \<not> is_digit c"

text \<open>The digits of a fraction, if a period comes next, and the rest.\<close>

definition take_fraction :: "string \<Rightarrow> string \<times> string" where
  "take_fraction s =
     (case s of
        [] \<Rightarrow> ([], [])
      | c # cs \<Rightarrow> if c = CHR ''.'' then (takeWhile is_digit cs, dropWhile is_digit cs) else ([], s))"

text \<open>One number with its unit: its nanoseconds, at most \<open>2 ^ 63\<close>, and the rest of the text.\<close>

definition parse_segment :: "(string \<Rightarrow> int \<Rightarrow> nat) \<Rightarrow> string \<Rightarrow> string \<Rightarrow> goerr + (int \<times> string)" where
  "parse_segment frac orig s =
     (case leadingInt 0 s of
        None \<Rightarrow> Inl (invalid_duration orig)
      | Some (v, s1) \<Rightarrow>
         (let (ds, s2) = take_fraction s1;
              pre = (length s1 \<noteq> length s);
              u = takeWhile unit_char s2;
              s3 = dropWhile unit_char s2
          in if \<not> pre \<and> ds = [] then Inl (invalid_duration orig)
             else if u = [] then Inl (missing_unit orig)
             else case unitMap u of
               None \<Rightarrow> Inl (unknown_unit u orig)
             | Some unit \<Rightarrow>
                if 2 ^ 63 div unit < v then Inl (invalid_duration orig)
                else (let w = (if \<exists>c\<in>set ds. c \<noteq> CHR ''0'' then v * unit + int (frac ds unit) else v * unit)
                      in if 2 ^ 63 < w then Inl (invalid_duration orig) else Inr (w, s3))))"

lemma leadingInt_length: "leadingInt x s = Some (v, r) \<Longrightarrow> length r \<le> length s"
  by (induction x s rule: leadingInt.induct) (auto split: if_splits)

lemma parse_segment_length: "parse_segment frac orig s = Inr (v, r) \<Longrightarrow> length r < length s"
proof -
  assume r: "parse_segment frac orig s = Inr (v, r)"
  then obtain x s1 where l: "leadingInt 0 s = Some (x, s1)" by (auto simp: parse_segment_def split: option.splits)
  obtain ds s2 where f: "take_fraction s1 = (ds, s2)" by force
  have "length s2 \<le> length s1"
    using f length_dropWhile_le [of is_digit "tl s1"] by (auto simp: take_fraction_def split: list.splits if_splits)
  moreover have u: "takeWhile unit_char s2 \<noteq> []" "r = dropWhile unit_char s2"
    using r l f by (auto simp: parse_segment_def Let_def split: if_splits option.splits)
  moreover have "length (takeWhile unit_char s2) + length (dropWhile unit_char s2) = length s2"
    by (metis length_append takeWhile_dropWhile_id)
  then have "length r < length s2" using u by (cases "takeWhile unit_char s2") auto
  ultimately show ?thesis using leadingInt_length [OF l] by linarith
qed

text \<open>The loop over the segments; the sum of two of them can leave 64 bits.\<close>

function parse_segments :: "(string \<Rightarrow> int \<Rightarrow> nat) \<Rightarrow> string \<Rightarrow> int \<Rightarrow> string \<Rightarrow> goerr + int" where
  "parse_segments frac orig d s =
     (case s of
        [] \<Rightarrow> Inr d
      | c # _ \<Rightarrow>
         if \<not> (c = CHR ''.'' \<or> is_digit c) then Inl (invalid_duration orig)
         else (case parse_segment frac orig s of
            Inl e \<Rightarrow> Inl e
          | Inr (v, r) \<Rightarrow>
             (let d' = (d + v) mod 2 ^ 64
              in if 2 ^ 63 < d' then Inl (invalid_duration orig) else parse_segments frac orig d' r)))"
  by pat_completeness auto
termination
  by (relation "measure (\<lambda>(frac, orig, d, s). length s)") (auto dest: parse_segment_length)

declare parse_segments.simps [simp del]

definition time_ParseDuration :: "(string \<Rightarrow> int \<Rightarrow> nat) \<Rightarrow> string \<Rightarrow> goerr + int" where
  "time_ParseDuration frac orig =
     (let neg = (case orig of c # _ \<Rightarrow> c = CHR ''-'' | [] \<Rightarrow> False);
          s = (case orig of c # cs \<Rightarrow> if c = CHR ''-'' \<or> c = CHR ''+'' then cs else orig | [] \<Rightarrow> [])
      in if s = ''0'' then Inr 0
         else if s = [] then Inl (invalid_duration orig)
         else case parse_segments frac orig 0 s of
           Inl e \<Rightarrow> Inl e
         | Inr d \<Rightarrow> if neg then Inr (- d)
                    else if 2 ^ 63 - 1 < d then Inl (invalid_duration orig) else Inr d)"

section \<open>Texts made of whole numbers and units\<close>

abbreviation (input) dec_step :: "int \<Rightarrow> char \<Rightarrow> int" where
  "dec_step v c \<equiv> v * 10 + digit_val c"

lemma dec_step_mono: "0 \<le> v \<Longrightarrow> \<forall>c\<in>set s. is_digit c \<Longrightarrow> v \<le> foldl dec_step v s"
proof (induction s arbitrary: v)
  case (Cons c s)
  have "0 \<le> digit_val c" using Cons.prems by (auto simp: digit_val_def is_digit_def)
  then show ?case using Cons.IH [of "dec_step v c"] Cons.prems by simp
qed simp

lemma leadingInt_digits:
  assumes "\<forall>c\<in>set s. is_digit c" "r = [] \<or> \<not> is_digit (hd r)" "0 \<le> v" "foldl dec_step v s \<le> 2 ^ 63"
  shows "leadingInt v (s @ r) = Some (foldl dec_step v s, r)"
  using assms
proof (induction s arbitrary: v)
  case Nil then show ?case by (cases r) auto
next
  case (Cons c s)
  have "0 \<le> digit_val c" using Cons.prems by (auto simp: digit_val_def is_digit_def)
  moreover have "dec_step v c \<le> foldl dec_step (dec_step v c) s"
    using Cons.prems calculation by (intro dec_step_mono) auto
  ultimately have "dec_step v c \<le> 2 ^ 63" "v \<le> 2 ^ 63 div 10" using Cons.prems(4) by auto
  with Cons \<open>0 \<le> digit_val c\<close> show ?case by simp
qed

lemma leadingInt_nat_dec:
  "int n \<le> 2 ^ 63 \<Longrightarrow> r = [] \<or> \<not> is_digit (hd r) \<Longrightarrow> leadingInt 0 (nat_dec n @ r) = Some (int n, r)"
  using leadingInt_digits [of "nat_dec n" r 0] nat_dec_digits [of n] nat_dec_val [of n] by (simp add: dec_val_def)

definition dur_text :: "(nat \<times> string) list \<Rightarrow> string" where
  "dur_text segs = concat (map (\<lambda>(n, u). nat_dec n @ u) segs)"

definition dur_sum :: "(nat \<times> string) list \<Rightarrow> int" where
  "dur_sum segs = sum_list (map (\<lambda>(n, u). int n * the (unitMap u)) segs)"

lemma unitMap_Some: "unitMap u = Some k \<Longrightarrow> 0 < k \<and> u \<noteq> [] \<and> takeWhile unit_char u = u"
  by (auto simp: unitMap_def unit_char_def is_digit_def Second_def Minute_def Hour_def split: if_splits)

lemma takeWhile_unit:
  assumes "unitMap u = Some k" "r = [] \<or> \<not> unit_char (hd r)"
  shows "takeWhile unit_char (u @ r) = u" "dropWhile unit_char (u @ r) = r"
proof -
  have u: "\<forall>c\<in>set u. unit_char c" using unitMap_Some [OF assms(1)] by (metis set_takeWhileD)
  then show "takeWhile unit_char (u @ r) = u" "dropWhile unit_char (u @ r) = r"
    using assms(2) by (cases r; simp)+
qed

lemma parse_segment_whole:
  assumes u: "unitMap u = Some k" and bound: "int n * k \<le> 2 ^ 63" and r: "r = [] \<or> \<not> unit_char (hd r)"
  shows "parse_segment frac orig (nat_dec n @ u @ r) = Inr (int n * k, r)"
proof -
  note u' = unitMap_Some [OF u]
  obtain c cs where c: "u = c # cs" "unit_char c" using u' by (cases u) (auto split: if_splits)
  have "int n \<le> int n * k" using u' mult_left_mono [of 1 k "int n"] by simp
  then have "leadingInt 0 (nat_dec n @ u @ r) = Some (int n, u @ r)"
    using bound c by (intro leadingInt_nat_dec) (auto simp: unit_char_def)
  moreover have "take_fraction (u @ r) = ([], u @ r)" using c by (simp add: take_fraction_def unit_char_def)
  moreover have "\<not> 2 ^ 63 div k < int n" using bound u' zdiv_mono1 [of "int n * k" "2 ^ 63" k] by simp
  ultimately show ?thesis
    using u u' bound takeWhile_unit [OF u r] nat_dec_nonempty [of n] by (simp add: parse_segment_def)
qed

lemma dur_sum_nonneg: "\<forall>(n, u)\<in>set segs. unitMap u \<noteq> None \<Longrightarrow> 0 \<le> dur_sum segs"
  unfolding dur_sum_def
  by (rule sum_list_nonneg) (fastforce intro!: mult_nonneg_nonneg dest: unitMap_Some)

lemma dur_text_Cons: "\<exists>c cs. dur_text (p # segs) = c # cs \<and> is_digit c"
  using nat_dec_digits [of "fst p"] nat_dec_nonempty [of "fst p"]
  by (cases "nat_dec (fst p)") (auto simp: dur_text_def split: prod.split)

lemma parse_segments_whole:
  assumes "\<forall>(n, u)\<in>set segs. unitMap u \<noteq> None" "0 \<le> d" "d + dur_sum segs \<le> 2 ^ 63"
  shows "parse_segments frac orig d (dur_text segs) = Inr (d + dur_sum segs)"
  using assms
proof (induction segs arbitrary: d)
  case Nil then show ?case by (simp add: dur_text_def dur_sum_def parse_segments.simps)
next
  case (Cons p segs)
  obtain n u where p: "p = (n, u)" by force
  then obtain k where k: "unitMap u = Some k" using Cons.prems(1) by auto
  have nonneg: "0 \<le> dur_sum segs" using Cons.prems(1) by (intro dur_sum_nonneg) simp
  have sum: "dur_sum (p # segs) = int n * k + dur_sum segs" by (simp add: dur_sum_def p k)
  have pos: "0 \<le> int n * k" using unitMap_Some [OF k] by simp
  have t: "dur_text (p # segs) = nat_dec n @ u @ dur_text segs" by (simp add: dur_text_def p)
  have r: "dur_text segs = [] \<or> \<not> unit_char (hd (dur_text segs))"
    using dur_text_Cons by (cases segs) (auto simp: dur_text_def [of "[]"] unit_char_def, metis list.sel(1))
  have seg: "parse_segment frac orig (dur_text (p # segs)) = Inr (int n * k, dur_text segs)"
    unfolding t using Cons.prems(2,3) nonneg sum by (intro parse_segment_whole [OF k _ r]) linarith
  obtain c cs where c: "dur_text (p # segs) = c # cs" "is_digit c"
    using dur_text_Cons by blast
  have "(d + int n * k) mod 2 ^ 64 = d + int n * k"
    using Cons.prems(2,3) nonneg sum pos by (intro mod_pos_pos_trivial) auto
  moreover have "parse_segments frac orig (d + int n * k) (dur_text segs) = Inr (d + int n * k + dur_sum segs)"
    using Cons.prems sum pos by (intro Cons.IH) auto
  ultimately show ?case
    using c seg Cons.prems(2,3) nonneg sum by (simp add: parse_segments.simps [of frac orig d "c # cs"])
qed

text \<open>
  A text made of whole numbers and units is read as their sum where the sum is a duration. A number
  without a unit, other than a lone zero, is refused.
\<close>

lemma ParseDuration_whole:
  assumes "segs \<noteq> []" "\<forall>(n, u)\<in>set segs. unitMap u \<noteq> None" "dur_sum segs \<le> max_int64"
  shows "time_ParseDuration frac (dur_text segs) = Inr (dur_sum segs)"
proof -
  obtain p ps where p: "segs = p # ps" using assms(1) by (cases segs) auto
  obtain c cs where c: "dur_text segs = c # cs" "is_digit c" using dur_text_Cons p by blast
  have "parse_segments frac (dur_text segs) 0 (dur_text segs) = Inr (dur_sum segs)"
    using parse_segments_whole [OF assms(2), of 0] assms(3) by (simp add: max_int64_def)
  moreover have "dur_text segs \<noteq> ''0''"
  proof
    obtain n u where nu: "p = (n, u)" by force
    assume "dur_text segs = ''0''"
    then have "u = []" using p nu nat_dec_nonempty [of n] by (cases "nat_dec n") (auto simp: dur_text_def)
    then show False using assms(2) p nu by (simp add: unitMap_def)
  qed
  ultimately show ?thesis using c assms(3)
    by (auto simp: time_ParseDuration_def is_digit_def max_int64_def Let_def)
qed

lemma ParseDuration_no_unit:
  assumes "s \<noteq> []" "\<forall>c\<in>set s. is_digit c" "s \<noteq> ''0''"
  shows "\<exists>e. time_ParseDuration frac s = Inl e"
proof -
  obtain c cs where c: "s = c # cs" "is_digit c" using assms by (cases s) auto
  have "\<exists>e. parse_segment frac s s = Inl e"
  proof (cases "leadingInt 0 s")
    case (Some q)
    obtain v r where q: "q = (v, r)" by force
    have "set r \<subseteq> set s \<and> (r = [] \<or> \<not> is_digit (hd r))" if "leadingInt x s = Some (v, r)" for x s v r
      using that by (induction x s rule: leadingInt.induct) (auto split: if_splits)
    from this [OF Some [unfolded q]] assms(2) have "r = []" by (metis hd_in_set subsetD)
    then show ?thesis using Some q c by (simp add: parse_segment_def take_fraction_def)
  qed (simp add: parse_segment_def)
  then show ?thesis using c assms(3) parse_segments.simps [of frac s 0 s]
    by (auto simp: time_ParseDuration_def is_digit_def Let_def)
qed

end
