(* ===== verification/Url.thy ===== *)
theory Url
  imports Json
begin

text \<open>
  \<open>url.QueryEscape\<close> of Go's standard library, which the document service puts credentials into a
  connection URI with, and the two ways to read an escaped text back: a query component writes a space
  as a plus sign, every other part of a URI has percent escapes only (RFC 3986).
\<close>

section \<open>Escaping\<close>

definition upper_hex :: "nat \<Rightarrow> char" where
  "upper_hex d = (if d < 10 then char_of (48 + d) else char_of (55 + d))"

definition unreserved :: "char \<Rightarrow> bool" where
  "unreserved c \<longleftrightarrow> (97 \<le> byte c \<and> byte c \<le> 122) \<or> (65 \<le> byte c \<and> byte c \<le> 90) \<or> is_digit c \<or>
     c \<in> {CHR ''-'', CHR ''_'', CHR ''.'', CHR ''~''}"

definition escape_byte :: "char \<Rightarrow> string" where
  "escape_byte c =
     (if c = CHR '' '' then ''+'' else if unreserved c then [c]
      else [CHR ''%'', upper_hex (byte c div 16), upper_hex (byte c mod 16)])"

definition url_QueryEscape :: "string \<Rightarrow> string" where
  "url_QueryEscape s = concat (map escape_byte s)"

section \<open>Reading back\<close>

fun url_decode :: "bool \<Rightarrow> string \<Rightarrow> string option" where
  "url_decode query [] = Some []"
| "url_decode query (c # s) =
     (if c = CHR ''%'' then
        (case s of
           a # b # t \<Rightarrow>
             (case (hex_val a, hex_val b) of
                (Some x, Some y) \<Rightarrow> map_option ((#) (char_of (16 * x + y))) (url_decode query t)
              | _ \<Rightarrow> None)
         | _ \<Rightarrow> None)
      else map_option ((#) (if query \<and> c = CHR ''+'' then CHR '' '' else c)) (url_decode query s))"

lemma hex_val_upper: "d < 16 \<Longrightarrow> hex_val (upper_hex d) = Some d"
  by (auto simp: hex_val_def upper_hex_def)

lemma byte_nibbles: "byte c div 16 < 16" "byte c mod 16 < 16"
  using nat_of_char_less_256 [of c] by (auto simp del: nat_of_char_less_256 intro: less_mult_imp_div_less)

definition plus_for_space :: "bool \<Rightarrow> char \<Rightarrow> char" where
  "plus_for_space query c = (if \<not> query \<and> c = CHR '' '' then CHR ''+'' else c)"

lemma decode_escape_byte:
  "url_decode query (escape_byte c @ t) = map_option ((#) (plus_for_space query c)) (url_decode query t)"
proof (cases "c = CHR '' '' \<or> unreserved c")
  case True
  then have "c \<noteq> CHR ''%''" "c \<noteq> CHR ''+''" by (auto simp: unreserved_def is_digit_def)
  with True show ?thesis by (auto simp: escape_byte_def plus_for_space_def)
next
  case False
  note byte_nibbles [of c]
  then have "hex_val (upper_hex (byte c div 16)) = Some (byte c div 16)"
    "hex_val (upper_hex (byte c mod 16)) = Some (byte c mod 16)" by (simp_all only: hex_val_upper)
  with False show ?thesis by (simp add: escape_byte_def plus_for_space_def)
qed

lemma decode_QueryEscape: "url_decode query (url_QueryEscape s) = Some (map (plus_for_space query) s)"
  by (induction s) (simp_all add: url_QueryEscape_def decode_escape_byte)

lemma QueryEscape_roundtrip: "url_decode True (url_QueryEscape s) = Some s"
  by (simp add: decode_QueryEscape plus_for_space_def map_idI)

lemma QueryEscape_path: "url_decode False (url_QueryEscape s) = Some s \<longleftrightarrow> CHR '' '' \<notin> set s"
  by (induction s) (auto simp: decode_QueryEscape plus_for_space_def)

lemma upper_hex_unreserved: "d < 16 \<Longrightarrow> unreserved (upper_hex d)"
  by (auto simp: unreserved_def upper_hex_def is_digit_def)

lemma escape_byte_chars: "set (escape_byte c) \<subseteq> {x. unreserved x} \<union> {CHR ''+'', CHR ''%''}"
proof -
  note byte_nibbles [of c]
  then show ?thesis using upper_hex_unreserved by (auto simp: escape_byte_def)
qed

lemma QueryEscape_chars: "set (url_QueryEscape s) \<subseteq> {x. unreserved x} \<union> {CHR ''+'', CHR ''%''}"
  using escape_byte_chars by (auto simp: url_QueryEscape_def)

lemma QueryEscape_no_delimiter:
  "d \<in> {CHR '':'', CHR ''@'', CHR ''/'', CHR ''?'', CHR ''&'', CHR ''=''} \<Longrightarrow> d \<notin> set (url_QueryEscape s)"
  using QueryEscape_chars [of s] by (auto simp: unreserved_def is_digit_def)

end
