(* ===== verification/Config.thy ===== *)
theory Config
  imports Parse_Duration Url
begin

text \<open>
  The packages \<open>internal/config\<close> of the five services. Settings are read through viper, which is not
  code of this repository: \<open>viper_setup\<close> is what a service tells it (defaults, names and places of the
  configuration file, environment), the record \<open>viper\<close> has the calls that read a setting, and the locale
  \<open>viper_laws\<close> states what they give, as documented.
\<close>

section \<open>viper\<close>

datatype setting_value = VStr string | VInt int | VBool bool

datatype setting_kind = KStr | KInt

record viper_setup =
  vs_ConfigName :: string
  vs_ConfigFile :: string
  vs_ConfigType :: string
  vs_ConfigPaths :: "string list"
  vs_AutomaticEnv :: bool
  vs_EnvKeyReplacer :: "(string \<times> string) list"
  vs_Defaults :: "(string \<times> setting_value) list"
  vs_ReadInConfig :: bool

definition viper_New :: viper_setup where
  "viper_New =
     \<lparr>vs_ConfigName = ''config'', vs_ConfigFile = '''', vs_ConfigType = '''', vs_ConfigPaths = [], vs_AutomaticEnv = False,
      vs_EnvKeyReplacer = [], vs_Defaults = [], vs_ReadInConfig = False\<rparr>"

record viper =
  vp_GetString :: "viper_setup \<Rightarrow> string \<Rightarrow> string"
  vp_GetInt :: "viper_setup \<Rightarrow> string \<Rightarrow> int"
  vp_GetBool :: "viper_setup \<Rightarrow> string \<Rightarrow> bool"
  vp_Unmarshal :: "viper_setup \<Rightarrow> (string \<times> setting_kind) list \<Rightarrow> goerr + (string \<Rightarrow> setting_value)"

text \<open>
  \<open>setting k\<close> is what the environment or else the configuration file says of \<open>k\<close>; an empty variable
  counts as unset. Without it the last default counts, and without a default the zero value.
\<close>

locale viper_laws =
  fixes V :: viper and setting :: "string \<Rightarrow> string option"
  assumes GetString_set: "vs_AutomaticEnv st \<Longrightarrow> setting k = Some s \<Longrightarrow> vp_GetString V st k = s"
    and GetString_default: "setting k = None \<Longrightarrow> map_of (rev (vs_Defaults st)) k = Some (VStr s) \<Longrightarrow> vp_GetString V st k = s"
    and GetString_unset: "setting k = None \<Longrightarrow> map_of (rev (vs_Defaults st)) k = None \<Longrightarrow> vp_GetString V st k = ''''"
    and GetInt_set: "vs_AutomaticEnv st \<Longrightarrow> setting k = Some (strconv_Itoa n) \<Longrightarrow> is_int64 n \<Longrightarrow> vp_GetInt V st k = n"
    and GetInt_default: "setting k = None \<Longrightarrow> map_of (rev (vs_Defaults st)) k = Some (VInt n) \<Longrightarrow> vp_GetInt V st k = n"
    and GetBool_default: "setting k = None \<Longrightarrow> map_of (rev (vs_Defaults st)) k = Some (VBool b) \<Longrightarrow> vp_GetBool V st k = b"
    and Unmarshal_default: "\<forall>k\<in>fst ` set tags. setting k = None \<Longrightarrow> \<forall>k\<in>fst ` set tags. map_of (rev (vs_Defaults st)) k \<noteq> None \<Longrightarrow>
      \<exists>g. vp_Unmarshal V st tags = Inr g \<and> (\<forall>k\<in>fst ` set tags. map_of (rev (vs_Defaults st)) k = Some (g k))"

text \<open>An executable reader that satisfies the laws.\<close>

definition env_viper :: "(string \<Rightarrow> string option) \<Rightarrow> viper" where
  "env_viper setting =
     \<lparr>vp_GetString = (\<lambda>st k. case setting k of Some s \<Rightarrow> s
        | None \<Rightarrow> (case map_of (rev (vs_Defaults st)) k of Some (VStr s) \<Rightarrow> s | Some (VInt n) \<Rightarrow> strconv_Itoa n
            | Some (VBool b) \<Rightarrow> (if b then ''true'' else ''false'') | None \<Rightarrow> '''')),
      vp_GetInt = (\<lambda>st k. case setting k of Some s \<Rightarrow> fst (strconv_Atoi s)
        | None \<Rightarrow> (case map_of (rev (vs_Defaults st)) k of Some (VInt n) \<Rightarrow> n | _ \<Rightarrow> 0)),
      vp_GetBool = (\<lambda>st k. case setting k of Some s \<Rightarrow> s = ''true''
        | None \<Rightarrow> (case map_of (rev (vs_Defaults st)) k of Some (VBool b) \<Rightarrow> b | _ \<Rightarrow> False)),
      vp_Unmarshal = (\<lambda>st tags. Inr (\<lambda>k. case setting k of
          Some s \<Rightarrow> if map_of tags k = Some KInt then VInt (fst (strconv_Atoi s)) else VStr s
        | None \<Rightarrow> (case map_of (rev (vs_Defaults st)) k of Some v \<Rightarrow> v | None \<Rightarrow> VStr '''')))\<rparr>"

interpretation env: viper_laws "env_viper setting" setting for setting
  by unfold_locales (auto simp: env_viper_def Atoi_Itoa split: option.splits)

definition value_string :: "setting_value \<Rightarrow> string" where
  "value_string v = (case v of VStr s \<Rightarrow> s | _ \<Rightarrow> '''')"

definition value_int :: "setting_value \<Rightarrow> int" where
  "value_int v = (case v of VInt n \<Rightarrow> n | _ \<Rightarrow> 0)"

section \<open>Data source names\<close>

definition mysql_dsn :: "string \<Rightarrow> string \<Rightarrow> string \<Rightarrow> string \<Rightarrow> string \<Rightarrow> string \<Rightarrow> string" where
  "mysql_dsn user pass host port name loc =
     user @ '':'' @ pass @ ''@tcp('' @ host @ '':'' @ port @ '')/'' @ name @ ''?charset=utf8mb4&parseTime=True&loc='' @ loc"

section \<open>workflow-service\<close>

record wf_ServerConfig =
  wsc_Port :: int
  wsc_ReadTimeout :: int
  wsc_WriteTimeout :: int
  wsc_ShutdownTimeout :: int

record wf_DatabaseConfig =
  wdc_DSN :: string
  wdc_Host :: string
  wdc_Port :: string
  wdc_User :: string
  wdc_Password :: string
  wdc_Name :: string
  wdc_MaxOpenConns :: int
  wdc_MaxIdleConns :: int
  wdc_ConnMaxLifetime :: int

record LogConfig =
  lgc_Level :: string
  lgc_JSON :: bool

record wf_Config =
  wcf_Server :: wf_ServerConfig
  wcf_Database :: wf_DatabaseConfig
  wcf_Log :: LogConfig

definition wf_setup :: viper_setup where
  "wf_setup = viper_New\<lparr>vs_ConfigName := ''.env'', vs_ConfigType := ''env'', vs_ConfigPaths := [''.'', ''/app''],
     vs_AutomaticEnv := True, vs_EnvKeyReplacer := [(''.'', ''_'')],
     vs_Defaults := [(''SERVER_PORT'', VInt 8083), (''SERVER_READ_TIMEOUT'', VStr ''15s''),
       (''SERVER_WRITE_TIMEOUT'', VStr ''15s''), (''SERVER_SHUTDOWN_TIMEOUT'', VStr ''30s''),
       (''DB_MAX_OPEN_CONNS'', VInt 25), (''DB_MAX_IDLE_CONNS'', VInt 10), (''DB_CONN_MAX_LIFETIME'', VStr ''5m''),
       (''LOG_LEVEL'', VStr ''info''), (''LOG_JSON'', VBool True)],
     vs_ReadInConfig := True\<rparr>"

definition wf_duration :: "(string \<Rightarrow> int \<Rightarrow> nat) \<Rightarrow> viper \<Rightarrow> string \<Rightarrow> goerr + int" where
  "wf_duration frac V k =
     (case time_ParseDuration frac (vp_GetString V wf_setup k) of
        Inl e \<Rightarrow> Inl (Errorf (''parsing '' @ k @ '': '') e '''') | Inr d \<Rightarrow> Inr d)"

definition wf_database :: "viper \<Rightarrow> int \<Rightarrow> wf_DatabaseConfig" where
  "wf_database V connMaxLifetime =
     (let get = vp_GetString V wf_setup;
          host = (if get ''DB_HOST'' = '''' then ''localhost'' else get ''DB_HOST'');
          port = (if get ''DB_PORT'' = '''' then ''3306'' else get ''DB_PORT'');
          user = get ''DB_USER''; pass = get ''DB_PASSWORD''; name = get ''DB_NAME'';
          dsn = (if get ''DATABASE_URL'' = '''' then mysql_dsn user pass host port name ''UTC'' else get ''DATABASE_URL'')
      in \<lparr>wdc_DSN = dsn, wdc_Host = host, wdc_Port = port, wdc_User = user, wdc_Password = pass, wdc_Name = name,
          wdc_MaxOpenConns = vp_GetInt V wf_setup ''DB_MAX_OPEN_CONNS'',
          wdc_MaxIdleConns = vp_GetInt V wf_setup ''DB_MAX_IDLE_CONNS'', wdc_ConnMaxLifetime = connMaxLifetime\<rparr>)"

definition wf_Load :: "(string \<Rightarrow> int \<Rightarrow> nat) \<Rightarrow> viper \<Rightarrow> goerr + wf_Config" where
  "wf_Load frac V =
     (case wf_duration frac V ''SERVER_READ_TIMEOUT'' of Inl e \<Rightarrow> Inl e | Inr readTimeout \<Rightarrow>
     (case wf_duration frac V ''SERVER_WRITE_TIMEOUT'' of Inl e \<Rightarrow> Inl e | Inr writeTimeout \<Rightarrow>
     (case wf_duration frac V ''SERVER_SHUTDOWN_TIMEOUT'' of Inl e \<Rightarrow> Inl e | Inr shutdownTimeout \<Rightarrow>
     (case wf_duration frac V ''DB_CONN_MAX_LIFETIME'' of Inl e \<Rightarrow> Inl e | Inr connMaxLifetime \<Rightarrow>
        Inr \<lparr>wcf_Server = \<lparr>wsc_Port = vp_GetInt V wf_setup ''SERVER_PORT'', wsc_ReadTimeout = readTimeout,
               wsc_WriteTimeout = writeTimeout, wsc_ShutdownTimeout = shutdownTimeout\<rparr>,
             wcf_Database = wf_database V connMaxLifetime,
             wcf_Log = \<lparr>lgc_Level = vp_GetString V wf_setup ''LOG_LEVEL'', lgc_JSON = vp_GetBool V wf_setup ''LOG_JSON''\<rparr>\<rparr>))))"

section \<open>auth-service\<close>

record auth_ServerConfig =
  asc_Port :: string
  asc_Env :: string

record auth_DatabaseConfig =
  adc_Host :: string
  adc_Port :: string
  adc_User :: string
  adc_Password :: string
  adc_Name :: string

record JWTConfig =
  jwc_Secret :: string
  jwc_AccessTTLMinutes :: int
  jwc_RefreshTTLHours :: int

record auth_Config =
  acf_Server :: auth_ServerConfig
  acf_Database :: auth_DatabaseConfig
  acf_JWT :: JWTConfig

definition auth_setup :: viper_setup where
  "auth_setup = viper_New\<lparr>vs_ConfigName := ''.env'', vs_ConfigType := ''env'', vs_ConfigPaths := [''.''],
     vs_AutomaticEnv := True,
     vs_Defaults := [(''AUTH_SERVICE_PORT'', VStr ''8081''), (''SERVER_ENV'', VStr ''development''),
       (''MYSQL_HOST'', VStr ''localhost''), (''MYSQL_PORT'', VStr ''3306''), (''AUTH_DB_NAME'', VStr ''auth_db''),
       (''JWT_ACCESS_TTL_MINUTES'', VInt 15), (''JWT_REFRESH_TTL_HOURS'', VInt 168)],
     vs_ReadInConfig := True\<rparr>"

definition auth_Load :: "viper \<Rightarrow> goerr + auth_Config" where
  "auth_Load V =
     (let get = vp_GetString V auth_setup
      in Inr \<lparr>acf_Server = \<lparr>asc_Port = get ''AUTH_SERVICE_PORT'', asc_Env = get ''SERVER_ENV''\<rparr>,
              acf_Database = \<lparr>adc_Host = get ''MYSQL_HOST'', adc_Port = get ''MYSQL_PORT'', adc_User = get ''AUTH_DB_USER'',
                adc_Password = get ''AUTH_DB_PASSWORD'', adc_Name = get ''AUTH_DB_NAME''\<rparr>,
              acf_JWT = \<lparr>jwc_Secret = get ''JWT_SECRET'',
                jwc_AccessTTLMinutes = vp_GetInt V auth_setup ''JWT_ACCESS_TTL_MINUTES'',
                jwc_RefreshTTLHours = vp_GetInt V auth_setup ''JWT_REFRESH_TTL_HOURS''\<rparr>\<rparr>)"

section \<open>tenant-service\<close>

record tn_Config =
  tcf_Port :: int
  tcf_MySQLHost :: string
  tcf_MySQLPort :: int
  tcf_DBUser :: string
  tcf_DBPass :: string
  tcf_DBName :: string
  tcf_ServerEnv :: string

definition tn_DSN :: "tn_Config \<Rightarrow> string" where
  "tn_DSN c = mysql_dsn (tcf_DBUser c) (tcf_DBPass c) (tcf_MySQLHost c) (strconv_Itoa (tcf_MySQLPort c)) (tcf_DBName c) ''Local''"

definition tn_setup :: viper_setup where
  "tn_setup = viper_New\<lparr>vs_ConfigFile := ''.env'', vs_ConfigType := ''env'', vs_AutomaticEnv := True,
     vs_EnvKeyReplacer := [(''.'', ''_'')],
     vs_Defaults := [(''TENANT_SERVICE_PORT'', VInt 8082), (''MYSQL_HOST'', VStr ''localhost''), (''MYSQL_PORT'', VInt 3306),
       (''TENANT_DB_USER'', VStr ''root''), (''TENANT_DB_PASSWORD'', VStr ''''), (''TENANT_DB_NAME'', VStr ''tenant_db''),
       (''SERVER_ENV'', VStr ''development'')],
     vs_ReadInConfig := True\<rparr>"

text \<open>The \<open>mapstructure\<close> tags of the struct, with the kinds of its fields.\<close>

definition tn_tags :: "(string \<times> setting_kind) list" where
  "tn_tags = [(''TENANT_SERVICE_PORT'', KInt), (''MYSQL_HOST'', KStr), (''MYSQL_PORT'', KInt), (''TENANT_DB_USER'', KStr),
     (''TENANT_DB_PASSWORD'', KStr), (''TENANT_DB_NAME'', KStr), (''SERVER_ENV'', KStr)]"

definition tn_Load :: "viper \<Rightarrow> goerr + tn_Config" where
  "tn_Load V =
     (case vp_Unmarshal V tn_setup tn_tags of
        Inl e \<Rightarrow> Inl (Errorf ''unmarshal config: '' e '''')
      | Inr g \<Rightarrow> Inr \<lparr>tcf_Port = value_int (g ''TENANT_SERVICE_PORT''), tcf_MySQLHost = value_string (g ''MYSQL_HOST''),
          tcf_MySQLPort = value_int (g ''MYSQL_PORT''), tcf_DBUser = value_string (g ''TENANT_DB_USER''),
          tcf_DBPass = value_string (g ''TENANT_DB_PASSWORD''), tcf_DBName = value_string (g ''TENANT_DB_NAME''),
          tcf_ServerEnv = value_string (g ''SERVER_ENV'')\<rparr>)"

section \<open>document-service\<close>

record dc_Config =
  dcf_Port :: string
  dcf_MongoURI :: string
  dcf_MongoDBName :: string
  dcf_ServerEnv :: string
  dcf_UploadDir :: string

definition dc_setup :: viper_setup where
  "dc_setup = viper_New\<lparr>vs_AutomaticEnv := True,
     vs_Defaults := [(''DOCUMENT_SERVICE_PORT'', VStr ''8084''), (''MONGO_URI'', VStr ''mongodb://localhost:27017''),
       (''MONGO_DB_NAME'', VStr ''documents_db''), (''SERVER_ENV'', VStr ''development''),
       (''UPLOAD_DIR'', VStr ''/tmp/opsnexus-uploads'')]\<rparr>"

definition docdb_query :: "string \<Rightarrow> string" where
  "docdb_query tlsCAFile =
     ''tls=true&replicaSet=rs0&readPreference=secondaryPreferred&retryWrites=false'' @
     (if tlsCAFile \<noteq> '''' then ''&tlsCAFile='' @ url_QueryEscape tlsCAFile else '''')"

definition docdb_uri :: "string \<Rightarrow> string \<Rightarrow> string \<Rightarrow> string \<Rightarrow> string \<Rightarrow> string" where
  "docdb_uri user pass host port tlsCAFile =
     ''mongodb://'' @ url_QueryEscape user @ '':'' @ url_QueryEscape pass @ ''@'' @ host @ '':'' @
     (if port = '''' then ''27017'' else port) @ ''/?'' @ docdb_query tlsCAFile"

definition dc_Load :: "viper \<Rightarrow> goerr + dc_Config" where
  "dc_Load V =
     (let get = vp_GetString V dc_setup;
          host = get ''DOCDB_HOST''; port = get ''DOCDB_PORT''; user = get ''DOCDB_USER''; pass = get ''DOCDB_PASSWORD'';
          mongoURI = (if host \<noteq> '''' \<and> user \<noteq> '''' \<and> pass \<noteq> '''' then docdb_uri user pass host port (get ''DOCDB_TLS_CA_FILE'')
                      else get ''MONGO_URI'')
      in Inr \<lparr>dcf_Port = get ''DOCUMENT_SERVICE_PORT'', dcf_MongoURI = mongoURI, dcf_MongoDBName = get ''MONGO_DB_NAME'',
              dcf_ServerEnv = get ''SERVER_ENV'', dcf_UploadDir = get ''UPLOAD_DIR''\<rparr>)"

section \<open>notification-service\<close>

record nt_Config =
  ncf_Port :: string
  ncf_AWSEndpointURL :: string
  ncf_AWSRegion :: string
  ncf_AWSAccessKeyID :: string
  ncf_AWSSecretAccessKey :: string
  ncf_DynamoDBNotificationsTable :: string
  ncf_DynamoDBAuditTable :: string
  ncf_ServerEnv :: string

definition nt_setup :: viper_setup where
  "nt_setup = viper_New\<lparr>vs_AutomaticEnv := True,
     vs_Defaults := [(''NOTIFICATION_SERVICE_PORT'', VStr ''8085''), (''AWS_ENDPOINT_URL'', VStr ''''),
       (''AWS_REGION'', VStr ''us-east-1''), (''AWS_ACCESS_KEY_ID'', VStr ''''), (''AWS_SECRET_ACCESS_KEY'', VStr ''''),
       (''DYNAMODB_NOTIFICATIONS_TABLE'', VStr ''notifications''), (''DYNAMODB_AUDIT_TABLE'', VStr ''audit_events''),
       (''SERVER_ENV'', VStr ''development'')]\<rparr>"

definition nt_Load :: "viper \<Rightarrow> goerr + nt_Config" where
  "nt_Load V =
     (let get = vp_GetString V nt_setup
      in Inr \<lparr>ncf_Port = get ''NOTIFICATION_SERVICE_PORT'', ncf_AWSEndpointURL = get ''AWS_ENDPOINT_URL'',
              ncf_AWSRegion = get ''AWS_REGION'', ncf_AWSAccessKeyID = get ''AWS_ACCESS_KEY_ID'',
              ncf_AWSSecretAccessKey = get ''AWS_SECRET_ACCESS_KEY'',
              ncf_DynamoDBNotificationsTable = get ''DYNAMODB_NOTIFICATIONS_TABLE'',
              ncf_DynamoDBAuditTable = get ''DYNAMODB_AUDIT_TABLE'', ncf_ServerEnv = get ''SERVER_ENV''\<rparr>)"

end
