(* ===== verification/Startup.thy ===== *)
theory Startup
  imports Config Wf_Inv Wf_Seed Auth_Seed Tn_Inv Dc_Laws Nt_Laws
begin

text \<open>
  Starting the services: the connections of \<open>internal/adapters\<close> (\<open>db.go\<close>, \<open>migrate.go\<close>, \<open>client.go\<close>) and
  the main functions of \<open>cmd/server\<close> and \<open>cmd/migrate\<close> up to the point where the HTTP server is started.
  The drivers are not code of this repository. A run keeps the list of the calls it has made on them; the
  parameter \<open>drv\<close> gives the answer of the last call of such a list, an error or none. Calls on a
  connection are calls on the one opened last; what \<open>gorm.Open\<close> gives is named by its data source name.
\<close>

section \<open>Calls on the drivers\<close>

datatype db_call =
    C_Open string
  | C_Exec string
  | C_DB
  | C_MaxOpenConns int
  | C_MaxIdleConns int
  | C_ConnMaxLifetime int
  | C_ConnMaxIdleTime int
  | C_Ping
  | C_AutoMigrate "string list"
  | C_Connect string
  | C_CreateIndexes string "string list list"
  | C_AWSConfig string "(string \<times> string \<times> string) option"

type_synonym driver = "db_call list \<Rightarrow> goerr option"

definition db_do :: "driver \<Rightarrow> db_call \<Rightarrow> db_call list \<Rightarrow> goerr option \<times> db_call list" where
  "db_do drv c h = (drv (h @ [c]), h @ [c])"

text \<open>One call after the other; an error, wrapped with the text that stands before the call, ends the run.\<close>

fun db_steps :: "driver \<Rightarrow> (string \<times> db_call) list \<Rightarrow> db_call list \<Rightarrow> goerr option \<times> db_call list" where
  "db_steps drv [] h = (None, h)"
| "db_steps drv ((pre, c) # cs) h =
     (case db_do drv c h of (Some e, h1) \<Rightarrow> (Some (Errorf pre e ''''), h1) | (None, h1) \<Rightarrow> db_steps drv cs h1)"

text \<open>Calls without a result.\<close>

definition db_set :: "db_call list \<Rightarrow> db_call list \<Rightarrow> db_call list" where
  "db_set cs h = h @ cs"

definition create_database :: "string \<Rightarrow> string" where
  "create_database name =
     ''CREATE DATABASE IF NOT EXISTS `'' @ name @ ''` CHARACTER SET utf8mb4 COLLATE utf8mb4_unicode_ci''"

definition ensure_calls :: "string \<Rightarrow> string \<Rightarrow> (string \<times> db_call) list" where
  "ensure_calls rootDSN name =
     [(''connecting to mysql (no db): '', C_Open rootDSN),
      (''creating database '' @ name @ '': '', C_Exec (create_database name))]"

section \<open>workflow-service: db.go\<close>

record wf_mysql_Config =
  wmc_DSN :: string
  wmc_DBHost :: string
  wmc_DBPort :: string
  wmc_DBUser :: string
  wmc_DBPassword :: string
  wmc_DBName :: string
  wmc_MaxOpenConns :: int
  wmc_MaxIdleConns :: int
  wmc_ConnMaxLifetime :: int

definition wf_EnsureDatabase :: "driver \<Rightarrow> wf_mysql_Config \<Rightarrow> db_call list \<Rightarrow> goerr option \<times> db_call list" where
  "wf_EnsureDatabase drv cfg h =
     (let host = (if wmc_DBHost cfg = '''' then ''localhost'' else wmc_DBHost cfg);
          port = (if wmc_DBPort cfg = '''' then ''3306'' else wmc_DBPort cfg);
          rootDSN = mysql_dsn (wmc_DBUser cfg) (wmc_DBPassword cfg) host port '''' ''UTC''
      in db_steps drv (ensure_calls rootDSN (wmc_DBName cfg)) h)"

definition wf_pool :: "wf_mysql_Config \<Rightarrow> db_call list" where
  "wf_pool cfg =
     [C_MaxOpenConns (if wmc_MaxOpenConns cfg = 0 then 25 else wmc_MaxOpenConns cfg),
      C_MaxIdleConns (if wmc_MaxIdleConns cfg = 0 then 10 else wmc_MaxIdleConns cfg),
      C_ConnMaxLifetime (if wmc_ConnMaxLifetime cfg = 0 then 5 * Minute else wmc_ConnMaxLifetime cfg)]"

definition wf_NewDB :: "driver \<Rightarrow> wf_mysql_Config \<Rightarrow> db_call list \<Rightarrow> (goerr + string) \<times> db_call list" where
  "wf_NewDB drv cfg h =
     (case db_steps drv [(''opening mysql connection: '', C_Open (wmc_DSN cfg)), (''getting sql.DB: '', C_DB)] h of
        (Some e, h1) \<Rightarrow> (Inl e, h1)
      | (None, h1) \<Rightarrow>
         (case db_steps drv [(''pinging mysql: '', C_Ping)] (db_set (wf_pool cfg) h1) of
            (Some e, h2) \<Rightarrow> (Inl e, h2) | (None, h2) \<Rightarrow> (Inr (wmc_DSN cfg), h2)))"

definition wf_AutoMigrate :: "driver \<Rightarrow> db_call list \<Rightarrow> goerr option \<times> db_call list" where
  "wf_AutoMigrate drv =
     db_do drv (C_AutoMigrate [''cases'', ''case_transitions'', ''case_counters'', ''tasks'', ''workflow_templates'', ''comments''])"

section \<open>auth-service: db.go and migrate.go\<close>

definition auth_EnsureDatabase :: "driver \<Rightarrow> auth_DatabaseConfig \<Rightarrow> db_call list \<Rightarrow> goerr option \<times> db_call list" where
  "auth_EnsureDatabase drv cfg h =
     (let rootDSN = mysql_dsn (adc_User cfg) (adc_Password cfg) (adc_Host cfg) (adc_Port cfg) '''' ''UTC''
      in db_steps drv (ensure_calls rootDSN (adc_Name cfg)) h)"

definition auth_dsn :: "auth_DatabaseConfig \<Rightarrow> string" where
  "auth_dsn cfg = mysql_dsn (adc_User cfg) (adc_Password cfg) (adc_Host cfg) (adc_Port cfg) (adc_Name cfg) ''UTC''"

definition auth_NewConnection :: "driver \<Rightarrow> auth_DatabaseConfig \<Rightarrow> db_call list \<Rightarrow> (goerr + string) \<times> db_call list" where
  "auth_NewConnection drv cfg h =
     (case db_steps drv [(''connecting to mysql: '', C_Open (auth_dsn cfg))] h of
        (Some e, h1) \<Rightarrow> (Inl e, h1)
      | (None, h1) \<Rightarrow>
         (case db_do drv C_DB h1 of
            (Some e, h2) \<Rightarrow> (Inl e, h2)
          | (None, h2) \<Rightarrow> (Inr (auth_dsn cfg), db_set [C_MaxOpenConns 25, C_MaxIdleConns 5] h2)))"

definition auth_AutoMigrate :: "driver \<Rightarrow> db_call list \<Rightarrow> goerr option \<times> db_call list" where
  "auth_AutoMigrate drv =
     db_steps drv [(''auto migrating schema: '', C_AutoMigrate [''users'', ''roles'', ''permissions'', ''refresh_tokens''])]"

section \<open>tenant-service: db.go\<close>

definition tn_EnsureDatabase :: "driver \<Rightarrow> tn_Config \<Rightarrow> db_call list \<Rightarrow> goerr option \<times> db_call list" where
  "tn_EnsureDatabase drv cfg h =
     (let rootDSN = mysql_dsn (tcf_DBUser cfg) (tcf_DBPass cfg) (tcf_MySQLHost cfg) (strconv_Itoa (tcf_MySQLPort cfg)) '''' ''Local''
      in db_steps drv (ensure_calls rootDSN (tcf_DBName cfg)) h)"

definition tn_AutoMigrate :: "driver \<Rightarrow> db_call list \<Rightarrow> goerr option \<times> db_call list" where
  "tn_AutoMigrate drv = db_do drv (C_AutoMigrate [''tenants'', ''organizations'', ''user_profiles''])"

definition tn_NewDB :: "driver \<Rightarrow> tn_Config \<Rightarrow> db_call list \<Rightarrow> (goerr + string) \<times> db_call list" where
  "tn_NewDB drv cfg h =
     (case db_steps drv [(''open mysql: '', C_Open (tn_DSN cfg)), (''get sql.DB: '', C_DB)] h of
        (Some e, h1) \<Rightarrow> (Inl e, h1)
      | (None, h1) \<Rightarrow>
         (case db_steps drv [(''ping mysql: '', C_Ping)]
             (db_set [C_MaxOpenConns 25, C_MaxIdleConns 10, C_ConnMaxLifetime (5 * Minute), C_ConnMaxIdleTime (2 * Minute)] h1) of
            (Some e, h2) \<Rightarrow> (Inl e, h2) | (None, h2) \<Rightarrow> (Inr (tn_DSN cfg), h2)))"

section \<open>document-service and notification-service: client.go and the indexes\<close>

definition dc_NewClient :: "driver \<Rightarrow> string \<Rightarrow> db_call list \<Rightarrow> goerr option \<times> db_call list" where
  "dc_NewClient drv uri h =
     (case db_do drv (C_Connect uri) h of (Some e, h1) \<Rightarrow> (Some e, h1) | (None, h1) \<Rightarrow> db_do drv C_Ping h1)"

definition formTemplateRepository_EnsureIndexes :: "driver \<Rightarrow> db_call list \<Rightarrow> goerr option \<times> db_call list" where
  "formTemplateRepository_EnsureIndexes drv =
     db_do drv (C_CreateIndexes ''forms'' [[''tenant_id''], [''tenant_id'', ''status'']])"

definition formSubmissionRepository_EnsureIndexes :: "driver \<Rightarrow> db_call list \<Rightarrow> goerr option \<times> db_call list" where
  "formSubmissionRepository_EnsureIndexes drv =
     db_do drv (C_CreateIndexes ''form_submissions'' [[''tenant_id''], [''tenant_id'', ''form_id'']])"

definition documentRepository_EnsureIndexes :: "driver \<Rightarrow> db_call list \<Rightarrow> goerr option \<times> db_call list" where
  "documentRepository_EnsureIndexes drv h =
     (case db_do drv (C_CreateIndexes ''documents'' [[''tenant_id''], [''tenant_id'', ''case_id'']]) h of
        (Some e, h1) \<Rightarrow> (Some e, h1)
      | (None, h1) \<Rightarrow> db_do drv (C_CreateIndexes ''document_versions'' [[''document_id'']]) h1)"

text \<open>The loop over the repositories logs an error and goes on.\<close>

fun ensure_indexes :: "(db_call list \<Rightarrow> goerr option \<times> db_call list) list \<Rightarrow> db_call list \<Rightarrow> db_call list" where
  "ensure_indexes [] h = h"
| "ensure_indexes (f # fs) h = ensure_indexes fs (snd (f h))"

text \<open>With an endpoint the client has the endpoint and fixed credentials, else those of the environment.\<close>

definition nt_NewClient :: "driver \<Rightarrow> string \<Rightarrow> string \<Rightarrow> string \<Rightarrow> string \<Rightarrow> db_call list \<Rightarrow> goerr option \<times> db_call list" where
  "nt_NewClient drv endpointURL region accessKey secretKey =
     db_do drv (C_AWSConfig region (if endpointURL \<noteq> '''' then Some (endpointURL, accessKey, secretKey) else None))"

section \<open>The main functions\<close>

record http_server =
  hs_Addr :: string
  hs_ReadTimeout :: int
  hs_WriteTimeout :: int
  hs_IdleTimeout :: int

text \<open>
  How a main function ends or, for a server, gets to the point where it listens: a line on the standard
  error and status 1, \<open>logger.Fatal\<close> (status 1), the end of a command, a server with its handler, or the run of a seeding
  command over the repositories.
\<close>

datatype 'h started =
    Stderr string goerr
  | Fatal string goerr
  | Finished string
  | Serving http_server 'h
  | Seeding 'h

type_synonym 'h start = "db_call list \<Rightarrow> 'h started \<times> db_call list"

text \<open>The next step after a call that may fail.\<close>

definition or_fatal :: "string \<Rightarrow> (db_call list \<Rightarrow> goerr option \<times> db_call list) \<Rightarrow> 'h start \<Rightarrow> 'h start" where
  "or_fatal msg f next h = (case f h of (Some e, h1) \<Rightarrow> (Fatal msg e, h1) | (None, h1) \<Rightarrow> next h1)"

definition or_fatal_db :: "string \<Rightarrow> (db_call list \<Rightarrow> (goerr + string) \<times> db_call list) \<Rightarrow> (string \<Rightarrow> 'h start) \<Rightarrow> 'h start" where
  "or_fatal_db msg f next h = (case f h of (Inl e, h1) \<Rightarrow> (Fatal msg e, h1) | (Inr dsn, h1) \<Rightarrow> next dsn h1)"

text \<open>\<open>len(os.Args) > 1 && os.Args[1] == "migrate"\<close>.\<close>

definition asks_migrate :: "string list \<Rightarrow> bool" where
  "asks_migrate args \<longleftrightarrow> 1 < length args \<and> args ! 1 = ''migrate''"

text \<open>
  \<open>zap production\<close> is the error of building the logger, \<open>tables\<close> the tables behind a data source name.
\<close>

definition wf_dbCfg :: "wf_Config \<Rightarrow> wf_mysql_Config" where
  "wf_dbCfg cfg =
     (let d = wcf_Database cfg
      in \<lparr>wmc_DSN = wdc_DSN d, wmc_DBHost = wdc_Host d, wmc_DBPort = wdc_Port d, wmc_DBUser = wdc_User d,
          wmc_DBPassword = wdc_Password d, wmc_DBName = wdc_Name d, wmc_MaxOpenConns = wdc_MaxOpenConns d,
          wmc_MaxIdleConns = wdc_MaxIdleConns d, wmc_ConnMaxLifetime = wdc_ConnMaxLifetime d\<rparr>)"

definition wf_server_main ::
  "(string \<Rightarrow> int \<Rightarrow> nat) \<Rightarrow> viper \<Rightarrow> (bool \<Rightarrow> goerr option) \<Rightarrow> driver \<Rightarrow> (request \<Rightarrow> chi_match) \<Rightarrow> (string \<Rightarrow> wf_db)
     \<Rightarrow> string list \<Rightarrow> wf_world wf_handler start" where
  "wf_server_main frac V zap drv mux tables args h =
     (case wf_Load frac V of
        Inl e \<Rightarrow> (Stderr ''loading config: '' e, h)
      | Inr cfg \<Rightarrow>
         (case zap (lgc_JSON (wcf_Log cfg)) of
            Some e \<Rightarrow> (Stderr ''creating logger: '' e, h)
          | None \<Rightarrow>
             if asks_migrate args
             then or_fatal ''failed to ensure database'' (wf_EnsureDatabase drv (wf_dbCfg cfg))
                    (or_fatal_db ''connecting to database'' (wf_NewDB drv (wf_dbCfg cfg)) (\<lambda>_.
                      or_fatal ''running migrations'' (wf_AutoMigrate drv) (\<lambda>h. (Finished ''migrations complete'', h)))) h
             else or_fatal_db ''connecting to database'' (wf_NewDB drv (wf_dbCfg cfg)) (\<lambda>dsn.
                    or_fatal ''running migrations'' (wf_AutoMigrate drv) (\<lambda>h.
                      (Serving \<lparr>hs_Addr = '':'' @ strconv_Itoa (wsc_Port (wcf_Server cfg)),
                         hs_ReadTimeout = wsc_ReadTimeout (wcf_Server cfg),
                         hs_WriteTimeout = wsc_WriteTimeout (wcf_Server cfg), hs_IdleTimeout = 0\<rparr>
                        (wf_NewRouter mux (wf_main (tables dsn))), h))) h))"

definition auth_server_main ::
  "viper \<Rightarrow> (bool \<Rightarrow> goerr option) \<Rightarrow> driver \<Rightarrow> (auth_request \<Rightarrow> auth_match) \<Rightarrow> auth_libs \<Rightarrow> (string \<Rightarrow> auth_db)
     \<Rightarrow> string list \<Rightarrow> auth_world auth_handler start" where
  "auth_server_main V zap drv mux libs tables args h =
     (case auth_Load V of
        Inl e \<Rightarrow> (Stderr ''failed to load config: '' e, h)
      | Inr cfg \<Rightarrow>
         (case zap (asc_Env (acf_Server cfg) = ''production'') of
            Some e \<Rightarrow> (Stderr ''failed to initialize logger: '' e, h)
          | None \<Rightarrow>
             if asks_migrate args
             then or_fatal ''failed to ensure database'' (auth_EnsureDatabase drv (acf_Database cfg))
                    (or_fatal_db ''failed to connect to database'' (auth_NewConnection drv (acf_Database cfg)) (\<lambda>_.
                      or_fatal ''failed to run migrations'' (auth_AutoMigrate drv) (\<lambda>h. (Finished ''migrations complete'', h)))) h
             else or_fatal_db ''failed to connect to database'' (auth_NewConnection drv (acf_Database cfg)) (\<lambda>dsn.
                    or_fatal ''failed to run migrations'' (auth_AutoMigrate drv) (\<lambda>h.
                      (Serving \<lparr>hs_Addr = '':'' @ asc_Port (acf_Server cfg), hs_ReadTimeout = 15 * Second,
                         hs_WriteTimeout = 15 * Second, hs_IdleTimeout = 60 * Second\<rparr>
                        (auth_NewRouter mux (auth_main (tables dsn) libs (jwc_Secret (acf_JWT cfg))
                          (jwc_AccessTTLMinutes (acf_JWT cfg)) (jwc_RefreshTTLHours (acf_JWT cfg)))), h))) h))"

definition tn_server_main ::
  "viper \<Rightarrow> (bool \<Rightarrow> goerr option) \<Rightarrow> driver \<Rightarrow> (request \<Rightarrow> tn_match) \<Rightarrow> (string \<Rightarrow> tn_db)
     \<Rightarrow> string list \<Rightarrow> tn_world tn_handler start" where
  "tn_server_main V zap drv mux tables args h =
     (case zap True of
        Some e \<Rightarrow> (Stderr ''failed to build logger: '' e, h)
      | None \<Rightarrow>
         (case tn_Load V of
            Inl e \<Rightarrow> (Fatal ''failed to load config'' e, h)
          | Inr cfg \<Rightarrow>
             if asks_migrate args
             then or_fatal ''failed to ensure database'' (tn_EnsureDatabase drv cfg)
                    (or_fatal_db ''failed to connect to database'' (tn_NewDB drv cfg) (\<lambda>_.
                      or_fatal ''failed to run migrations'' (tn_AutoMigrate drv) (\<lambda>h. (Finished ''migrations complete'', h)))) h
             else or_fatal_db ''failed to connect to database'' (tn_NewDB drv cfg) (\<lambda>dsn.
                    or_fatal ''running migrations'' (tn_AutoMigrate drv) (\<lambda>h.
                      (Serving \<lparr>hs_Addr = '':'' @ strconv_Itoa (tcf_Port cfg), hs_ReadTimeout = 15 * Second,
                         hs_WriteTimeout = 30 * Second, hs_IdleTimeout = 60 * Second\<rparr>
                        (tn_NewRouter mux (tn_main (tables dsn))), h))) h))"

definition dc_server_main ::
  "viper \<Rightarrow> driver \<Rightarrow> (dc_request \<Rightarrow> dc_match) \<Rightarrow> (string \<Rightarrow> string option) \<Rightarrow> os_calls \<Rightarrow> (string \<Rightarrow> string \<Rightarrow> dc_db)
     \<Rightarrow> dc_world dc_handler start" where
  "dc_server_main V drv mux fl os collections h =
     (case dc_Load V of
        Inl e \<Rightarrow> (Fatal ''failed to load config'' e, h)
      | Inr cfg \<Rightarrow>
         or_fatal ''failed to connect to MongoDB'' (dc_NewClient drv (dcf_MongoURI cfg)) (\<lambda>h.
           (Serving \<lparr>hs_Addr = '':'' @ dcf_Port cfg, hs_ReadTimeout = 15 * Second, hs_WriteTimeout = 15 * Second,
              hs_IdleTimeout = 60 * Second\<rparr>
             (dc_NewRouter mux fl (dc_main (collections (dcf_MongoURI cfg) (dcf_MongoDBName cfg)) os (dcf_UploadDir cfg))),
            ensure_indexes [formTemplateRepository_EnsureIndexes drv, formSubmissionRepository_EnsureIndexes drv,
              documentRepository_EnsureIndexes drv] h)) h)"

definition nt_server_main ::
  "viper \<Rightarrow> driver \<Rightarrow> (request \<Rightarrow> nt_match) \<Rightarrow> ((string \<times> string) list \<Rightarrow> nt_payload response) \<Rightarrow> (string \<Rightarrow> string option)
     \<Rightarrow> (string \<Rightarrow> string \<Rightarrow> nt_db) \<Rightarrow> (request \<Rightarrow> nt_world \<Rightarrow> nt_payload response \<times> nt_world) start" where
  "nt_server_main V drv mux rcv fl client h =
     (case nt_Load V of
        Inl e \<Rightarrow> (Fatal ''failed to load config'' e, h)
      | Inr cfg \<Rightarrow>
         or_fatal ''failed to create DynamoDB client'' (nt_NewClient drv (ncf_AWSEndpointURL cfg) (ncf_AWSRegion cfg)
             (ncf_AWSAccessKeyID cfg) (ncf_AWSSecretAccessKey cfg)) (\<lambda>h.
           (Serving \<lparr>hs_Addr = '':'' @ ncf_Port cfg, hs_ReadTimeout = 15 * Second, hs_WriteTimeout = 15 * Second,
              hs_IdleTimeout = 60 * Second\<rparr>
             (nt_NewRouter mux rcv fl
               (nt_main fl (client (ncf_DynamoDBNotificationsTable cfg) (ncf_DynamoDBAuditTable cfg)))), h)) h)"

section \<open>cmd/migrate\<close>

text \<open>The command of the workflow service leaves the parts of the connection empty that only \<open>EnsureDatabase\<close> reads.\<close>

definition wf_poolCfg :: "wf_Config \<Rightarrow> wf_mysql_Config" where
  "wf_poolCfg cfg =
     (let d = wcf_Database cfg
      in \<lparr>wmc_DSN = wdc_DSN d, wmc_DBHost = '''', wmc_DBPort = '''', wmc_DBUser = '''', wmc_DBPassword = '''', wmc_DBName = '''',
          wmc_MaxOpenConns = wdc_MaxOpenConns d, wmc_MaxIdleConns = wdc_MaxIdleConns d,
          wmc_ConnMaxLifetime = wdc_ConnMaxLifetime d\<rparr>)"

definition wf_migrate_main :: "(string \<Rightarrow> int \<Rightarrow> nat) \<Rightarrow> viper \<Rightarrow> driver \<Rightarrow> unit start" where
  "wf_migrate_main frac V drv h =
     (case wf_Load frac V of
        Inl e \<Rightarrow> (Stderr ''loading config: '' e, h)
      | Inr cfg \<Rightarrow>
         or_fatal_db ''connecting to database'' (wf_NewDB drv (wf_poolCfg cfg)) (\<lambda>_.
           or_fatal ''migration failed'' (wf_AutoMigrate drv) (\<lambda>h. (Finished ''migrations completed successfully'', h))) h)"

definition auth_migrate_main :: "viper \<Rightarrow> driver \<Rightarrow> unit start" where
  "auth_migrate_main V drv h =
     (case auth_Load V of
        Inl e \<Rightarrow> (Stderr ''failed to load config: '' e, h)
      | Inr cfg \<Rightarrow>
         (case auth_NewConnection drv (acf_Database cfg) h of
            (Inl e, h1) \<Rightarrow> (Stderr ''failed to connect to database: '' e, h1)
          | (Inr _, h1) \<Rightarrow>
             (case auth_AutoMigrate drv h1 of
                (Some e, h2) \<Rightarrow> (Stderr ''migration failed: '' e, h2)
              | (None, h2) \<Rightarrow> (Finished ''Migrations completed successfully.'', h2))))"

definition tn_migrate_main :: "viper \<Rightarrow> driver \<Rightarrow> unit start" where
  "tn_migrate_main V drv h =
     (case tn_Load V of
        Inl e \<Rightarrow> (Fatal ''load config'' e, h)
      | Inr cfg \<Rightarrow>
         or_fatal_db ''connect to database'' (tn_NewDB drv cfg) (\<lambda>_ h1.
           (case tn_AutoMigrate drv h1 of
              (Some e, h2) \<Rightarrow> (Stderr ''auto-migrate failed: '' e, h2)
            | (None, h2) \<Rightarrow> (Finished ''migration completed successfully'', h2))) h)"

section \<open>cmd/seed\<close>

definition wf_seed_command ::
  "(string \<Rightarrow> int \<Rightarrow> nat) \<Rightarrow> viper \<Rightarrow> driver \<Rightarrow> (string \<Rightarrow> wf_db) \<Rightarrow> (wf_world, unit) act start" where
  "wf_seed_command frac V drv tables h =
     (case wf_Load frac V of
        Inl e \<Rightarrow> (Stderr ''loading config: '' e, h)
      | Inr cfg \<Rightarrow>
         or_fatal_db ''connecting to database'' (wf_NewDB drv (wf_poolCfg cfg)) (\<lambda>dsn.
           or_fatal ''migration failed'' (wf_AutoMigrate drv) (\<lambda>h.
             (let services = wf_main (tables dsn)
              in (Seeding (wf_seed_main (h_caseService services) (h_taskService services) (h_workflowService services)), h)))) h)"

definition auth_seed_command ::
  "viper \<Rightarrow> driver \<Rightarrow> auth_libs \<Rightarrow> (string \<Rightarrow> auth_db) \<Rightarrow> (auth_world seed_run) start" where
  "auth_seed_command V drv libs tables h =
     (case auth_Load V of
        Inl e \<Rightarrow> (Stderr ''failed to load config: '' e, h)
      | Inr cfg \<Rightarrow>
         (case auth_NewConnection drv (acf_Database cfg) h of
            (Inl e, h1) \<Rightarrow> (Stderr ''failed to connect to database: '' e, h1)
          | (Inr dsn, h1) \<Rightarrow>
             (case auth_AutoMigrate drv h1 of
                (Some e, h2) \<Rightarrow> (Stderr ''migration failed: '' e, h2)
              | (None, h2) \<Rightarrow>
                 (Seeding (auth_seed_main libs (roleRepository (tables dsn)) (userRepository (tables dsn))), h2))))"

text \<open>The command of the tenant service migrates nothing.\<close>

definition tn_seed_command ::
  "viper \<Rightarrow> driver \<Rightarrow> (string \<Rightarrow> tn_db) \<Rightarrow> (tn_world \<Rightarrow> (string + unit) \<times> tn_world) start" where
  "tn_seed_command V drv tables h =
     (case tn_Load V of
        Inl e \<Rightarrow> (Fatal ''load config'' e, h)
      | Inr cfg \<Rightarrow>
         or_fatal_db ''connect to database'' (tn_NewDB drv cfg) (\<lambda>dsn h.
           (Seeding (tn_seed_main (tn_main (tables dsn))), h)) h)"

end
