(* ===== verification/Config_Props.thy ===== *)
theory Config_Props
  imports Config
begin

text \<open>
  What the configurations are: without any setting, with timeouts made of whole numbers and units, with
  a timeout that cannot be read, and the connection URI of the document service.
\<close>

section \<open>Defaults\<close>

lemma dur_texts: "''15s'' = dur_text [(15, ''s'')]" "''30s'' = dur_text [(30, ''s'')]" "''5m'' = dur_text [(5, ''m'')]"
  by code_simp+

lemma unit_values: "unitMap ''s'' = Some Second" "unitMap ''m'' = Some Minute" "unitMap ''h'' = Some Hour" "unitMap ''ms'' = Some 1000000"
  by (simp_all add: unitMap_def)

lemma ParseDuration_defaults:
  "time_ParseDuration frac ''15s'' = Inr (15 * Second)" "time_ParseDuration frac ''30s'' = Inr (30 * Second)"
  "time_ParseDuration frac ''5m'' = Inr (5 * Minute)"
  unfolding dur_texts
  by (subst ParseDuration_whole; simp add: unit_values dur_sum_def max_int64_def Second_def Minute_def)+

lemmas setup_defs = wf_setup_def auth_setup_def tn_setup_def dc_setup_def nt_setup_def viper_New_def

text \<open>
  Without any setting the five services load: the workflow service listens on port 8083 with
  timeouts of 15 seconds, the others on 8081, 8082, 8084 and 8085; the authentication service has the
  empty string as the secret of its tokens.
\<close>

theorem load_defaults:
  assumes "viper_laws V (\<lambda>_. None)"
  shows "wf_Load frac V = Inr \<lparr>wcf_Server = \<lparr>wsc_Port = 8083, wsc_ReadTimeout = 15 * Second, wsc_WriteTimeout = 15 * Second,
        wsc_ShutdownTimeout = 30 * Second\<rparr>,
      wcf_Database = \<lparr>wdc_DSN = '':@tcp(localhost:3306)/?charset=utf8mb4&parseTime=True&loc=UTC'', wdc_Host = ''localhost'',
        wdc_Port = ''3306'', wdc_User = '''', wdc_Password = '''', wdc_Name = '''', wdc_MaxOpenConns = 25,
        wdc_MaxIdleConns = 10, wdc_ConnMaxLifetime = 5 * Minute\<rparr>,
      wcf_Log = \<lparr>lgc_Level = ''info'', lgc_JSON = True\<rparr>\<rparr> \<and>
    auth_Load V = Inr \<lparr>acf_Server = \<lparr>asc_Port = ''8081'', asc_Env = ''development''\<rparr>,
      acf_Database = \<lparr>adc_Host = ''localhost'', adc_Port = ''3306'', adc_User = '''', adc_Password = '''', adc_Name = ''auth_db''\<rparr>,
      acf_JWT = \<lparr>jwc_Secret = '''', jwc_AccessTTLMinutes = 15, jwc_RefreshTTLHours = 168\<rparr>\<rparr> \<and>
    tn_Load V = Inr \<lparr>tcf_Port = 8082, tcf_MySQLHost = ''localhost'', tcf_MySQLPort = 3306, tcf_DBUser = ''root'', tcf_DBPass = '''',
      tcf_DBName = ''tenant_db'', tcf_ServerEnv = ''development''\<rparr> \<and>
    dc_Load V = Inr \<lparr>dcf_Port = ''8084'', dcf_MongoURI = ''mongodb://localhost:27017'', dcf_MongoDBName = ''documents_db'',
      dcf_ServerEnv = ''development'', dcf_UploadDir = ''/tmp/opsnexus-uploads''\<rparr> \<and>
    nt_Load V = Inr \<lparr>ncf_Port = ''8085'', ncf_AWSEndpointURL = '''', ncf_AWSRegion = ''us-east-1'', ncf_AWSAccessKeyID = '''',
      ncf_AWSSecretAccessKey = '''', ncf_DynamoDBNotificationsTable = ''notifications'', ncf_DynamoDBAuditTable = ''audit_events'',
      ncf_ServerEnv = ''development''\<rparr>"
proof -
  have s: "map_of (rev (vs_Defaults st)) k = Some (VStr s) \<Longrightarrow> vp_GetString V st k = s"
    "map_of (rev (vs_Defaults st)) k = None \<Longrightarrow> vp_GetString V st k = ''''"
    "map_of (rev (vs_Defaults st)) k = Some (VInt n) \<Longrightarrow> vp_GetInt V st k = n"
    "map_of (rev (vs_Defaults st)) k = Some (VBool b) \<Longrightarrow> vp_GetBool V st k = b" for st k s n b
    using viper_laws.GetString_default [OF assms] viper_laws.GetString_unset [OF assms]
      viper_laws.GetInt_default [OF assms] viper_laws.GetBool_default [OF assms] by simp_all
  obtain g where g: "vp_Unmarshal V tn_setup tn_tags = Inr g"
    "\<forall>k\<in>fst ` set tn_tags. map_of (rev (vs_Defaults tn_setup)) k = Some (g k)"
    using viper_laws.Unmarshal_default [OF assms, of tn_tags tn_setup] by (auto simp: tn_tags_def setup_defs)
  have "wf_Load frac V = Inr \<lparr>wcf_Server = \<lparr>wsc_Port = 8083, wsc_ReadTimeout = 15 * Second, wsc_WriteTimeout = 15 * Second,
        wsc_ShutdownTimeout = 30 * Second\<rparr>,
      wcf_Database = \<lparr>wdc_DSN = '':@tcp(localhost:3306)/?charset=utf8mb4&parseTime=True&loc=UTC'', wdc_Host = ''localhost'',
        wdc_Port = ''3306'', wdc_User = '''', wdc_Password = '''', wdc_Name = '''', wdc_MaxOpenConns = 25,
        wdc_MaxIdleConns = 10, wdc_ConnMaxLifetime = 5 * Minute\<rparr>,
      wcf_Log = \<lparr>lgc_Level = ''info'', lgc_JSON = True\<rparr>\<rparr>"
    by (simp add: wf_Load_def wf_duration_def wf_database_def mysql_dsn_def Let_def s setup_defs ParseDuration_defaults)
  moreover have "auth_Load V = Inr \<lparr>acf_Server = \<lparr>asc_Port = ''8081'', asc_Env = ''development''\<rparr>,
      acf_Database = \<lparr>adc_Host = ''localhost'', adc_Port = ''3306'', adc_User = '''', adc_Password = '''', adc_Name = ''auth_db''\<rparr>,
      acf_JWT = \<lparr>jwc_Secret = '''', jwc_AccessTTLMinutes = 15, jwc_RefreshTTLHours = 168\<rparr>\<rparr>"
    by (simp add: auth_Load_def s setup_defs)
  moreover have "tn_Load V = Inr \<lparr>tcf_Port = 8082, tcf_MySQLHost = ''localhost'', tcf_MySQLPort = 3306, tcf_DBUser = ''root'',
      tcf_DBPass = '''', tcf_DBName = ''tenant_db'', tcf_ServerEnv = ''development''\<rparr>"
    using g by (auto simp: tn_Load_def tn_tags_def setup_defs value_int_def value_string_def dest!: sym [of "VInt _"] sym [of "VStr _"])
  moreover have "dc_Load V = Inr \<lparr>dcf_Port = ''8084'', dcf_MongoURI = ''mongodb://localhost:27017'',
      dcf_MongoDBName = ''documents_db'', dcf_ServerEnv = ''development'', dcf_UploadDir = ''/tmp/opsnexus-uploads''\<rparr>"
    by (simp add: dc_Load_def s setup_defs)
  moreover have "nt_Load V = Inr \<lparr>ncf_Port = ''8085'', ncf_AWSEndpointURL = '''', ncf_AWSRegion = ''us-east-1'',
      ncf_AWSAccessKeyID = '''', ncf_AWSSecretAccessKey = '''', ncf_DynamoDBNotificationsTable = ''notifications'',
      ncf_DynamoDBAuditTable = ''audit_events'', ncf_ServerEnv = ''development''\<rparr>"
    by (simp add: nt_Load_def s setup_defs)
  ultimately show ?thesis by blast
qed

theorem load_defaults_witness:
  "\<exists>c. auth_Load (env_viper (\<lambda>_. None)) = Inr c \<and> asc_Port (acf_Server c) = ''8081'' \<and> jwc_Secret (acf_JWT c) = ''''"
  using load_defaults [OF env.viper_laws_axioms] by simp

section \<open>Timeouts\<close>

definition timeout_keys :: "string list" where
  "timeout_keys = [''SERVER_READ_TIMEOUT'', ''SERVER_WRITE_TIMEOUT'', ''SERVER_SHUTDOWN_TIMEOUT'', ''DB_CONN_MAX_LIFETIME'']"

definition durations :: "wf_Config \<Rightarrow> int list" where
  "durations c = [wsc_ReadTimeout (wcf_Server c), wsc_WriteTimeout (wcf_Server c), wsc_ShutdownTimeout (wcf_Server c),
     wdc_ConnMaxLifetime (wcf_Database c)]"

text \<open>A text of whole numbers and units whose sum is a duration.\<close>

definition good_duration :: "(nat \<times> string) list \<Rightarrow> bool" where
  "good_duration segs \<longleftrightarrow> segs \<noteq> [] \<and> (\<forall>(n, u)\<in>set segs. unitMap u \<noteq> None) \<and> dur_sum segs \<le> max_int64"

lemma wf_duration_set:
  assumes "viper_laws V setting" "setting k = Some (dur_text segs)" "good_duration segs"
  shows "wf_duration frac V k = Inr (dur_sum segs)"
proof -
  have "vp_GetString V wf_setup k = dur_text segs"
    by (rule viper_laws.GetString_set [OF assms(1)]) (simp_all add: assms(2) wf_setup_def)
  with assms(3) show ?thesis by (simp add: wf_duration_def ParseDuration_whole good_duration_def)
qed

text \<open>
  Where each of the four timeouts of the workflow service is set to a text of whole numbers and
  units, like "1h30m", with a sum below \<open>2 ^ 63\<close> nanoseconds, the configuration loads and has the sums.
\<close>

theorem load_timeouts:
  assumes "viper_laws V setting"
    and "\<forall>k\<in>{''SERVER_READ_TIMEOUT'', ''SERVER_WRITE_TIMEOUT'', ''SERVER_SHUTDOWN_TIMEOUT'', ''DB_CONN_MAX_LIFETIME''}.
      setting k = Some (dur_text (segs k)) \<and> good_duration (segs k)"
  shows "\<exists>c. wf_Load frac V = Inr c \<and>
    wsc_ReadTimeout (wcf_Server c) = dur_sum (segs ''SERVER_READ_TIMEOUT'') \<and>
    wsc_WriteTimeout (wcf_Server c) = dur_sum (segs ''SERVER_WRITE_TIMEOUT'') \<and>
    wsc_ShutdownTimeout (wcf_Server c) = dur_sum (segs ''SERVER_SHUTDOWN_TIMEOUT'') \<and>
    wdc_ConnMaxLifetime (wcf_Database c) = dur_sum (segs ''DB_CONN_MAX_LIFETIME'')"
  using wf_duration_set [OF assms(1)] assms(2) by (simp add: wf_Load_def wf_database_def Let_def)

theorem load_timeouts_witness:
  "\<exists>c. wf_Load (\<lambda>_ _. 0) (env_viper (\<lambda>_. Some ''1h30m'')) = Inr c \<and> wsc_WriteTimeout (wcf_Server c) = 5400 * Second"
proof -
  let ?segs = "\<lambda>_ :: string. [(1, ''h''), (30, ''m'')] :: (nat \<times> string) list"
  have t: "''1h30m'' = dur_text [(1, ''h''), (30, ''m'')]" by code_simp
  have "good_duration [(1, ''h''), (30, ''m'')]"
    by (simp add: good_duration_def unit_values dur_sum_def max_int64_def Hour_def Minute_def)
  with load_timeouts [OF env.viper_laws_axioms, of "\<lambda>_. Some ''1h30m''" ?segs "\<lambda>_ _. 0"] t
  show ?thesis by (auto simp: dur_sum_def unit_values Hour_def Minute_def Second_def)
qed

text \<open>
  C36: A timeout that is a number without a unit, other than a lone zero, stops the workflow service: the
  configuration is refused with an error that names the first setting that cannot be read.
\<close>

theorem load_refused:
  assumes "viper_laws V setting" "timeout_keys = before @ k # later" "setting k = Some s"
    and "s \<noteq> []" "\<forall>c\<in>set s. is_digit c" "s \<noteq> ''0''"
    and "\<forall>j\<in>set before. setting j = Some (dur_text (segs j)) \<and> good_duration (segs j)"
  shows "\<exists>e. wf_Load frac V = Inl (Errorf (''parsing '' @ k @ '': '') e '''')"
proof -
  have "vp_GetString V wf_setup k = s"
    by (rule viper_laws.GetString_set [OF assms(1)]) (simp_all add: assms(3) wf_setup_def)
  then obtain e where e: "wf_duration frac V k = Inl (Errorf (''parsing '' @ k @ '': '') e '''')"
    using ParseDuration_no_unit [OF assms(4-6), of frac] by (auto simp: wf_duration_def)
  have ok: "wf_duration frac V j = Inr (dur_sum (segs j))" if "j \<in> set before" for j
    using that assms(7) wf_duration_set [OF assms(1)] by blast
  from assms(2) have "(before, k) \<in> {([], ''SERVER_READ_TIMEOUT''), ([''SERVER_READ_TIMEOUT''], ''SERVER_WRITE_TIMEOUT''),
      ([''SERVER_READ_TIMEOUT'', ''SERVER_WRITE_TIMEOUT''], ''SERVER_SHUTDOWN_TIMEOUT''),
      ([''SERVER_READ_TIMEOUT'', ''SERVER_WRITE_TIMEOUT'', ''SERVER_SHUTDOWN_TIMEOUT''], ''DB_CONN_MAX_LIFETIME'')}"
    by (auto simp: timeout_keys_def Cons_eq_append_conv)
  with e ok show ?thesis unfolding wf_Load_def by (elim insertE) auto
qed

theorem load_refused_witness:
  "\<exists>e. wf_Load (\<lambda>_ _. 0) (env_viper (\<lambda>_. Some ''15'')) = Inl (Errorf ''parsing SERVER_READ_TIMEOUT: '' e '''')"
  using load_refused [OF env.viper_laws_axioms, of "[]" "''SERVER_READ_TIMEOUT''" "tl timeout_keys" "\<lambda>_. Some ''15''" "''15''"]
  by (simp add: timeout_keys_def is_digit_def)

section \<open>Where the databases are\<close>

text \<open>
  C35: With a host, a user and a password the document service connects to a URI whose parts can be told
  apart: the user and the password are free of the delimiters and decode, as query components, to what
  was set. Read with percent escapes only, as that part of a URI is, the password comes out right
  exactly where it has no space.
\<close>

theorem docdb_credentials:
  assumes "viper_laws V setting" "setting ''DOCDB_HOST'' = Some host" "setting ''DOCDB_USER'' = Some user"
    "setting ''DOCDB_PASSWORD'' = Some pass" "host \<noteq> ''''" "user \<noteq> ''''" "pass \<noteq> ''''"
  shows "\<exists>c u p rest. dc_Load V = Inr c \<and> dcf_MongoURI c = ''mongodb://'' @ u @ '':'' @ p @ ''@'' @ host @ '':'' @ rest \<and>
    (set u \<union> set p) \<inter> {CHR '':'', CHR ''@'', CHR ''/''} = {} \<and>
    url_decode True u = Some user \<and> url_decode True p = Some pass \<and>
    (url_decode False p = Some pass \<longleftrightarrow> CHR '' '' \<notin> set pass)"
proof -
  have get: "vp_GetString V dc_setup ''DOCDB_HOST'' = host" "vp_GetString V dc_setup ''DOCDB_USER'' = user"
    "vp_GetString V dc_setup ''DOCDB_PASSWORD'' = pass"
    using viper_laws.GetString_set [OF assms(1), of dc_setup] assms(2-4) by (simp_all add: dc_setup_def)
  have "(set (url_QueryEscape user) \<union> set (url_QueryEscape pass)) \<inter> {CHR '':'', CHR ''@'', CHR ''/''} = {}"
    using QueryEscape_no_delimiter by blast
  moreover have "\<exists>c rest. dc_Load V = Inr c \<and> dcf_MongoURI c =
      ''mongodb://'' @ url_QueryEscape user @ '':'' @ url_QueryEscape pass @ ''@'' @ host @ '':'' @ rest"
    using get assms(5-7) by (simp add: dc_Load_def docdb_uri_def Let_def)
  ultimately show ?thesis using QueryEscape_roundtrip QueryEscape_path by blast
qed

theorem docdb_credentials_witness:
  "\<exists>c u p rest. dc_Load (env_viper (\<lambda>_. Some ''p@ss word'')) = Inr c \<and>
     dcf_MongoURI c = ''mongodb://'' @ u @ '':'' @ p @ ''@'' @ ''p@ss word'' @ '':'' @ rest \<and>
     url_decode True p = Some ''p@ss word'' \<and> url_decode False p \<noteq> Some ''p@ss word''"
  using docdb_credentials [OF env.viper_laws_axioms, of "\<lambda>_. Some ''p@ss word''" "''p@ss word''" "''p@ss word''" "''p@ss word''"]
  by simp blast

end
