(* ===== verification/Startup_Props.thy ===== *)
theory Startup_Props
  imports Startup Config_Props Auth_Props
begin

text \<open>
  What has happened when a server listens, what the command \<open>migrate\<close> connects to, and which tokens the
  authentication service takes when it was given no secret.
\<close>

section \<open>Listening\<close>

lemma db_do_simp [simp]: "db_do drv c h = (drv (h @ [c]), h @ [c])"
  by (simp add: db_do_def)

lemma or_fatal_Serving [simp]:
  "or_fatal msg f next h = (Serving srv k, calls) \<longleftrightarrow> (\<exists>h1. f h = (None, h1) \<and> next h1 = (Serving srv k, calls))"
  by (auto simp: or_fatal_def split: option.splits prod.splits)

lemma or_fatal_db_Serving [simp]:
  "or_fatal_db msg f next h = (Serving srv k, calls) \<longleftrightarrow>
     (\<exists>dsn h1. f h = (Inr dsn, h1) \<and> next dsn h1 = (Serving srv k, calls))"
  by (auto simp: or_fatal_db_def split: sum.splits prod.splits)

text \<open>The calls of a connection that was made.\<close>

lemma wf_NewDB_made:
  "wf_NewDB drv cfg h = (Inr dsn, h') \<longleftrightarrow> dsn = wmc_DSN cfg \<and>
     h' = h @ [C_Open (wmc_DSN cfg), C_DB] @ wf_pool cfg @ [C_Ping] \<and>
     drv (h @ [C_Open (wmc_DSN cfg)]) = None \<and> drv (h @ [C_Open (wmc_DSN cfg), C_DB]) = None \<and> drv h' = None"
  by (auto simp: wf_NewDB_def db_set_def split: option.splits prod.splits)

lemma auth_NewConnection_made:
  "auth_NewConnection drv cfg h = (Inr dsn, h') \<longleftrightarrow> dsn = auth_dsn cfg \<and>
     h' = h @ [C_Open (auth_dsn cfg), C_DB, C_MaxOpenConns 25, C_MaxIdleConns 5] \<and>
     drv (h @ [C_Open (auth_dsn cfg)]) = None \<and> drv (h @ [C_Open (auth_dsn cfg), C_DB]) = None"
  by (auto simp: auth_NewConnection_def db_set_def split: option.splits prod.splits)

lemma tn_NewDB_made:
  "tn_NewDB drv cfg h = (Inr dsn, h') \<longleftrightarrow> dsn = tn_DSN cfg \<and>
     h' = h @ [C_Open (tn_DSN cfg), C_DB, C_MaxOpenConns 25, C_MaxIdleConns 10, C_ConnMaxLifetime (5 * Minute),
       C_ConnMaxIdleTime (2 * Minute), C_Ping] \<and>
     drv (h @ [C_Open (tn_DSN cfg)]) = None \<and> drv (h @ [C_Open (tn_DSN cfg), C_DB]) = None \<and> drv h' = None"
  by (auto simp: tn_NewDB_def db_set_def split: option.splits prod.splits)

lemmas made = wf_NewDB_made auth_NewConnection_made tn_NewDB_made

lemma migrated [simp]:
  "wf_AutoMigrate drv h = (None, h') \<longleftrightarrow> h' = h @ [C_AutoMigrate [''cases'', ''case_transitions'', ''case_counters'', ''tasks'',
     ''workflow_templates'', ''comments'']] \<and> drv h' = None"
  "auth_AutoMigrate drv h = (None, h') \<longleftrightarrow>
     h' = h @ [C_AutoMigrate [''users'', ''roles'', ''permissions'', ''refresh_tokens'']] \<and> drv h' = None"
  "tn_AutoMigrate drv h = (None, h') \<longleftrightarrow>
     h' = h @ [C_AutoMigrate [''tenants'', ''organizations'', ''user_profiles'']] \<and> drv h' = None"
  by (auto simp: wf_AutoMigrate_def auth_AutoMigrate_def tn_AutoMigrate_def split: option.splits)

text \<open>
  C21: A server of the three services on MySQL listens only after the connection it serves from was
  opened, its pool set up and its schema migrated, each call without an error: these are all the calls it
  has made, in this order, and its handler works on the tables of that connection.
\<close>

theorem served_after_migration:
  assumes "wf_Load frac V = Inr wcfg" "auth_Load V = Inr acfg" "tn_Load V = Inr tcfg"
  shows "(wf_server_main frac V zap drv mux1 tables1 args [] = (Serving s1 h1, calls1) \<longrightarrow>
      calls1 = [C_Open (wdc_DSN (wcf_Database wcfg)), C_DB] @ wf_pool (wf_dbCfg wcfg) @
        [C_Ping, C_AutoMigrate [''cases'', ''case_transitions'', ''case_counters'', ''tasks'', ''workflow_templates'', ''comments'']] \<and>
      (\<forall>n\<in>{1, 2, 6, 7}. drv (take n calls1) = None) \<and>
      h1 = wf_NewRouter mux1 (wf_main (tables1 (wdc_DSN (wcf_Database wcfg))))) \<and>
    (auth_server_main V zap drv mux2 libs tables2 args [] = (Serving s2 h2, calls2) \<longrightarrow>
      calls2 = [C_Open (auth_dsn (acf_Database acfg)), C_DB, C_MaxOpenConns 25, C_MaxIdleConns 5,
        C_AutoMigrate [''users'', ''roles'', ''permissions'', ''refresh_tokens'']] \<and>
      (\<forall>n\<in>{1, 2, 5}. drv (take n calls2) = None) \<and>
      h2 = auth_NewRouter mux2 (auth_main (tables2 (auth_dsn (acf_Database acfg))) libs (jwc_Secret (acf_JWT acfg))
        (jwc_AccessTTLMinutes (acf_JWT acfg)) (jwc_RefreshTTLHours (acf_JWT acfg)))) \<and>
    (tn_server_main V zap drv mux3 tables3 args [] = (Serving s3 h3, calls3) \<longrightarrow>
      calls3 = [C_Open (tn_DSN tcfg), C_DB, C_MaxOpenConns 25, C_MaxIdleConns 10, C_ConnMaxLifetime (5 * Minute),
        C_ConnMaxIdleTime (2 * Minute), C_Ping, C_AutoMigrate [''tenants'', ''organizations'', ''user_profiles'']] \<and>
      (\<forall>n\<in>{1, 2, 7, 8}. drv (take n calls3) = None) \<and>
      h3 = tn_NewRouter mux3 (tn_main (tables3 (tn_DSN tcfg))))"
proof (intro conjI [OF impI conjI] impI)
  obtain a b c where pool: "wf_pool (wf_dbCfg wcfg) = [a, b, c]" by (simp add: wf_pool_def)
  have dsn: "wmc_DSN (wf_dbCfg wcfg) = wdc_DSN (wcf_Database wcfg)" by (simp add: wf_dbCfg_def Let_def)
  assume "wf_server_main frac V zap drv mux1 tables1 args [] = (Serving s1 h1, calls1)"
  then show "calls1 = [C_Open (wdc_DSN (wcf_Database wcfg)), C_DB] @ wf_pool (wf_dbCfg wcfg) @
        [C_Ping, C_AutoMigrate [''cases'', ''case_transitions'', ''case_counters'', ''tasks'', ''workflow_templates'', ''comments'']] \<and>
      (\<forall>n\<in>{1, 2, 6, 7}. drv (take n calls1) = None) \<and>
      h1 = wf_NewRouter mux1 (wf_main (tables1 (wdc_DSN (wcf_Database wcfg))))"
    using assms(1) pool dsn by (auto simp: wf_server_main_def made split: option.splits if_split_asm)
next
  assume "auth_server_main V zap drv mux2 libs tables2 args [] = (Serving s2 h2, calls2)"
  then show "calls2 = [C_Open (auth_dsn (acf_Database acfg)), C_DB, C_MaxOpenConns 25, C_MaxIdleConns 5,
        C_AutoMigrate [''users'', ''roles'', ''permissions'', ''refresh_tokens'']] \<and>
      (\<forall>n\<in>{1, 2, 5}. drv (take n calls2) = None) \<and>
      h2 = auth_NewRouter mux2 (auth_main (tables2 (auth_dsn (acf_Database acfg))) libs (jwc_Secret (acf_JWT acfg))
        (jwc_AccessTTLMinutes (acf_JWT acfg)) (jwc_RefreshTTLHours (acf_JWT acfg)))"
    using assms(2) by (auto simp: auth_server_main_def made split: option.splits if_split_asm)
next
  assume "tn_server_main V zap drv mux3 tables3 args [] = (Serving s3 h3, calls3)"
  then show "calls3 = [C_Open (tn_DSN tcfg), C_DB, C_MaxOpenConns 25, C_MaxIdleConns 10, C_ConnMaxLifetime (5 * Minute),
        C_ConnMaxIdleTime (2 * Minute), C_Ping, C_AutoMigrate [''tenants'', ''organizations'', ''user_profiles'']] \<and>
      (\<forall>n\<in>{1, 2, 7, 8}. drv (take n calls3) = None) \<and> h3 = tn_NewRouter mux3 (tn_main (tables3 (tn_DSN tcfg)))"
    using assms(3) by (auto simp: tn_server_main_def made split: option.splits if_split_asm)
qed

lemma demo_serving:
  "\<exists>s h. auth_server_main (env_viper (\<lambda>_. None)) (\<lambda>_. None) (\<lambda>_. None) mux libs tables [] [] =
     (Serving s h, [C_Open '':@tcp(localhost:3306)/auth_db?charset=utf8mb4&parseTime=True&loc=UTC'', C_DB, C_MaxOpenConns 25,
        C_MaxIdleConns 5, C_AutoMigrate [''users'', ''roles'', ''permissions'', ''refresh_tokens'']])"
  by (simp add: auth_server_main_def auth_Load_def made env_viper_def setup_defs asks_migrate_def auth_dsn_def mysql_dsn_def)

theorem served_after_migration_witness:
  "\<forall>mux. \<exists>s h calls. auth_server_main (env_viper (\<lambda>_. None)) (\<lambda>_. None) (\<lambda>_. None) mux demo_libs (\<lambda>_. mem_auth_db) [] [] = (Serving s h, calls) \<and>
     C_AutoMigrate [''users'', ''roles'', ''permissions'', ''refresh_tokens''] \<in> set calls"
proof
  fix mux
  let ?V = "env_viper (\<lambda>_. None)"
  obtain s h calls where r: "auth_server_main ?V (\<lambda>_. None) (\<lambda>_. None) mux demo_libs (\<lambda>_. mem_auth_db) [] [] = (Serving s h, calls)"
    using demo_serving by blast
  have "wf_Load (\<lambda>_ _. 0) ?V = Inr (projr (wf_Load (\<lambda>_ _. 0) ?V))" "auth_Load ?V = Inr (projr (auth_Load ?V))"
    "tn_Load ?V = Inr (projr (tn_Load ?V))"
    by (simp_all add: wf_Load_def wf_duration_def auth_Load_def tn_Load_def env_viper_def setup_defs ParseDuration_defaults)
  from served_after_migration [OF this, of "\<lambda>_. None" "\<lambda>_. None" undefined undefined "[]"] r show "\<exists>s h calls. auth_server_main ?V (\<lambda>_. None) (\<lambda>_. None) mux demo_libs (\<lambda>_. mem_auth_db) [] [] = (Serving s h, calls) \<and>
     C_AutoMigrate [''users'', ''roles'', ''permissions'', ''refresh_tokens''] \<in> set calls" by fastforce
qed

section \<open>The command migrate\<close>

text \<open>
  With \<open>DATABASE_URL\<close> set and the host, the port and the user left out, the workflow service serves
  from the database of that URL, but \<open>migrate\<close> asks the server at localhost:3306, as the empty user, to
  create the database with the empty name: it does not look at the URL before that.
\<close>

theorem migrate_ignores_url:
  assumes "viper_laws V setting" "setting ''DATABASE_URL'' = Some url" "url \<noteq> ''''" "wf_Load frac V = Inr cfg"
    and "\<forall>k\<in>{''DB_HOST'', ''DB_PORT'', ''DB_USER'', ''DB_PASSWORD'', ''DB_NAME''}. setting k = None"
    and "zap (lgc_JSON (wcf_Log cfg)) = None"
  shows "(\<exists>r calls. wf_server_main frac V zap drv mux tables [''workflow-service'', ''migrate''] [] =
      (r, C_Open '':@tcp(localhost:3306)/?charset=utf8mb4&parseTime=True&loc=UTC'' # calls)) \<and>
    (\<forall>s k calls. wf_server_main frac V zap drv mux tables [''workflow-service''] [] = (Serving s k, calls) \<longrightarrow>
      calls \<noteq> [] \<and> hd calls = C_Open url)"
proof (intro conjI allI impI)
  have get: "vp_GetString V wf_setup j = ''''" if "j \<in> {''DB_HOST'', ''DB_PORT'', ''DB_USER'', ''DB_PASSWORD'', ''DB_NAME''}" for j
    using that assms(5) viper_laws.GetString_unset [OF assms(1), of j wf_setup] by (auto simp: setup_defs)
  have url: "vp_GetString V wf_setup ''DATABASE_URL'' = url"
    by (rule viper_laws.GetString_set [OF assms(1)]) (simp_all add: assms(2) wf_setup_def)
  obtain l where "wcf_Database cfg = wf_database V l"
    using assms(4) by (auto simp: wf_Load_def split: sum.splits)
  then have db: "wmc_DSN (wf_dbCfg cfg) = url" "wmc_DBHost (wf_dbCfg cfg) = ''localhost''" "wmc_DBPort (wf_dbCfg cfg) = ''3306''"
    "wmc_DBUser (wf_dbCfg cfg) = ''''" "wmc_DBPassword (wf_dbCfg cfg) = ''''" "wmc_DBName (wf_dbCfg cfg) = ''''"
    using get url assms(3) by (simp_all add: wf_dbCfg_def wf_database_def Let_def)
  show "\<exists>r calls. wf_server_main frac V zap drv mux tables [''workflow-service'', ''migrate''] [] =
      (r, C_Open '':@tcp(localhost:3306)/?charset=utf8mb4&parseTime=True&loc=UTC'' # calls)"
    using assms(4,6) db
    by (auto simp: wf_server_main_def asks_migrate_def or_fatal_def or_fatal_db_def wf_EnsureDatabase_def ensure_calls_def
        mysql_dsn_def wf_NewDB_def db_set_def wf_AutoMigrate_def Let_def split: option.split)
  fix s k calls
  assume "wf_server_main frac V zap drv mux tables [''workflow-service''] [] = (Serving s k, calls)"
  with assms(4,6) db show "calls \<noteq> []" "hd calls = C_Open url" by (auto simp: wf_server_main_def asks_migrate_def made)
qed

definition demo_url :: "string \<Rightarrow> string option" where
  "demo_url k = (if k = ''DATABASE_URL'' then Some ''app:pw@tcp(db:3306)/workflow'' else None)"

theorem migrate_ignores_url_witness:
  "\<forall>mux tables. \<exists>r calls. wf_server_main (\<lambda>_ _. 0) (env_viper demo_url) (\<lambda>_. None) (\<lambda>_. None) mux tables [''workflow-service'', ''migrate''] [] =
     (r, C_Open '':@tcp(localhost:3306)/?charset=utf8mb4&parseTime=True&loc=UTC'' # calls)"
proof -
  let ?V = "env_viper demo_url"
  have "wf_Load (\<lambda>_ _. 0) ?V = Inr (projr (wf_Load (\<lambda>_ _. 0) ?V))"
    by (simp add: wf_Load_def wf_duration_def env_viper_def setup_defs ParseDuration_defaults demo_url_def)
  from migrate_ignores_url [OF env.viper_laws_axioms _ _ this, of "''app:pw@tcp(db:3306)/workflow''" "\<lambda>_. None" "\<lambda>_. None"]
  show ?thesis by (simp add: demo_url_def)
qed

section \<open>Tokens without a secret\<close>

text \<open>
  C33: Where \<open>JWT_SECRET\<close> is not set the authentication service starts with the empty secret, so a token
  anyone signs with the empty key, naming any user, any tenant and any roles, is accepted until the
  expiry it states itself.
\<close>

theorem unset_secret_accepts:
  assumes "viper_laws V setting" "setting ''JWT_SECRET'' = None" "auth_Load V = Inr cfg" "auth_libs_laws libs"
    and "jwt_SignHS256 libs '''' (access_claims u now ttl) = Inr tok"
    and "valid_utf8 (user_ID u)" "valid_utf8 (user_TenantID u)" "valid_utf8 (user_Email u)"
      "list_all (\<lambda>r. valid_utf8 (role_Name r)) (user_Roles u)"
    and "is_int64 (time_Unix (now + ttl))" "fst (time_Now w) < time_Unix (now + ttl) * Second"
  shows "fst (authService_ValidateToken (auth_service db libs (jwc_Secret (acf_JWT cfg)) (jwc_AccessTTLMinutes (acf_JWT cfg))
      (jwc_RefreshTTLHours (acf_JWT cfg))) tok w) =
    Inr \<lparr>cl_UserID = user_ID u, cl_TenantID = user_TenantID u, cl_Email = user_Email u, cl_Roles = map role_Name (user_Roles u)\<rparr>"
proof -
  have "vp_GetString V auth_setup ''JWT_SECRET'' = ''''"
    by (rule viper_laws.GetString_unset [OF assms(1,2)]) (simp add: setup_defs)
  then have secret: "jwc_Secret (acf_JWT cfg) = ''''" using assms(3) by (auto simp: auth_Load_def Let_def)
  have exp: "map_of (access_claims u now ttl) ''exp'' = Some (JNum (strconv_Itoa (time_Unix (now + ttl))))"
    by (simp add: access_claims_def)
  have key: "jwt_key_func '''' True ''HS256'' = Inr ''''" by (simp add: jwt_key_func_def)
  from auth_libs_laws.sign_parse [where kf = "jwt_key_func ''''", OF assms(4,5) wf_access_claims [OF assms(6-9)] exp assms(10) key assms(11)]
  show ?thesis
    by (auto simp: authService_ValidateToken_def secret Let_def claim_string_def access_claims_def split_beta)
qed

theorem unset_secret_accepts_witness:
  "\<exists>tok. jwt_SignHS256 demo_libs '''' (access_claims (toDomainUser demo_userModel) 0 9000000000) = Inr tok \<and>
     fst (authService_ValidateToken (auth_service mem_auth_db demo_libs '''' 15 168) tok (demo_auth [])) =
       Inr \<lparr>cl_UserID = ''u1'', cl_TenantID = ''acme'', cl_Email = ''bob@x.io'', cl_Roles = [''admin'']\<rparr>"
proof -
  let ?V = "env_viper (\<lambda>_. None)" and ?u = "toDomainUser demo_userModel"
  obtain tok where tok: "jwt_SignHS256 demo_libs '''' (access_claims ?u 0 9000000000) = Inr tok" by (simp add: demo_libs_def)
  have "auth_Load ?V = Inr (projr (auth_Load ?V))" by (simp add: auth_Load_def Let_def)
  moreover have "jwc_Secret (acf_JWT (projr (auth_Load ?V))) = ''''" "jwc_AccessTTLMinutes (acf_JWT (projr (auth_Load ?V))) = 15"
    "jwc_RefreshTTLHours (acf_JWT (projr (auth_Load ?V))) = 168"
    by (simp_all add: auth_Load_def Let_def env_viper_def setup_defs)
  moreover have "list_all valid_utf8 [''u1'', ''acme'', ''bob@x.io'', ''admin'']" by code_simp
  moreover have "is_int64 (time_Unix 9000000000)" "fst (time_Now (demo_auth [])) < time_Unix 9000000000 * Second"
    by (simp_all add: time_Unix_def Second_def is_int64_def demo_auth_def time_Now_def min_int64_def max_int64_def)
  ultimately show ?thesis
    using tok unset_secret_accepts [OF env.viper_laws_axioms refl _ demo_libs.auth_libs_laws_axioms tok, of "projr (auth_Load ?V)" "demo_auth []" mem_auth_db]
    by (simp add: toDomainUser_def toDomainRole_def demo_userModel_def demo_roleModel_def del: valid_utf8.simps)
qed

end
