(* ===== verification/Lifecycle.thy ===== *)
theory Lifecycle
  imports Startup
begin

text \<open>
  A server from the point where it listens and the handler of the signals is installed to its end: the
  goroutine inside \<open>ListenAndServe\<close>, the main goroutine that waits for a signal and shuts the server down,
  and the channels between them. The two are interleaved in every order. The workflow service hands an
  error of the server to the main goroutine through a channel with room for one; the other four end the
  process from the goroutine of the server.
\<close>

section \<open>States and events\<close>

text \<open>\<open>Broken\<close>: \<open>ListenAndServe\<close> has returned another error than \<open>ErrServerClosed\<close>, not yet dealt with.\<close>

datatype server_phase = Listening | Broken goerr | Stopped

datatype main_phase = Waiting | ShuttingDown | Returned

record life =
  lf_server :: server_phase
  lf_main :: main_phase
  lf_serverErr :: "goerr list"
  lf_quit :: bool
  lf_exit :: "int option"

definition life_start :: life where
  "life_start = \<lparr>lf_server = Listening, lf_main = Waiting, lf_serverErr = [], lf_quit = False, lf_exit = None\<rparr>"

text \<open>What comes from outside, a failure of the listener or a signal, and the steps of the program.\<close>

datatype life_event = E_fail goerr | E_signal | E_program

text \<open>A signal that finds the channel \<open>quit\<close> full is dropped. \<open>Shutdown\<close> makes \<open>ListenAndServe\<close> return \<open>ErrServerClosed\<close>.\<close>

inductive wf_life :: "life \<Rightarrow> life_event \<Rightarrow> life \<Rightarrow> bool" where
  fails: "lf_exit s = None \<Longrightarrow> lf_server s = Listening \<Longrightarrow> wf_life s (E_fail e) (s\<lparr>lf_server := Broken e\<rparr>)"
| signal: "lf_exit s = None \<Longrightarrow> \<not> lf_quit s \<Longrightarrow> wf_life s E_signal (s\<lparr>lf_quit := True\<rparr>)"
| closed: "lf_exit s = None \<Longrightarrow> lf_server s = Listening \<Longrightarrow> lf_main s = ShuttingDown \<Longrightarrow>
    wf_life s E_program (s\<lparr>lf_server := Stopped\<rparr>)"
| report: "lf_exit s = None \<Longrightarrow> lf_server s = Broken e \<Longrightarrow> length (lf_serverErr s) < 1 \<Longrightarrow>
    wf_life s E_program (s\<lparr>lf_server := Stopped, lf_serverErr := lf_serverErr s @ [e]\<rparr>)"
| take_error: "lf_exit s = None \<Longrightarrow> lf_main s = Waiting \<Longrightarrow> lf_serverErr s = e # es \<Longrightarrow>
    wf_life s E_program (s\<lparr>lf_serverErr := es, lf_exit := Some 1\<rparr>)"
| take_signal: "lf_exit s = None \<Longrightarrow> lf_main s = Waiting \<Longrightarrow> lf_quit s \<Longrightarrow>
    wf_life s E_program (s\<lparr>lf_quit := False, lf_main := ShuttingDown\<rparr>)"
| shut_down: "lf_exit s = None \<Longrightarrow> lf_main s = ShuttingDown \<Longrightarrow>
    wf_life s E_program (s\<lparr>lf_main := Returned, lf_exit := Some 0\<rparr>)"

text \<open>The auth, tenant, document and notification services: \<open>logger.Fatal\<close> in the goroutine of the server.\<close>

inductive fatal_life :: "life \<Rightarrow> life_event \<Rightarrow> life \<Rightarrow> bool" where
  fails: "lf_exit s = None \<Longrightarrow> lf_server s = Listening \<Longrightarrow> fatal_life s (E_fail e) (s\<lparr>lf_server := Broken e\<rparr>)"
| signal: "lf_exit s = None \<Longrightarrow> \<not> lf_quit s \<Longrightarrow> fatal_life s E_signal (s\<lparr>lf_quit := True\<rparr>)"
| closed: "lf_exit s = None \<Longrightarrow> lf_server s = Listening \<Longrightarrow> lf_main s = ShuttingDown \<Longrightarrow>
    fatal_life s E_program (s\<lparr>lf_server := Stopped\<rparr>)"
| fatal: "lf_exit s = None \<Longrightarrow> lf_server s = Broken e \<Longrightarrow> fatal_life s E_program (s\<lparr>lf_server := Stopped, lf_exit := Some 1\<rparr>)"
| take_signal: "lf_exit s = None \<Longrightarrow> lf_main s = Waiting \<Longrightarrow> lf_quit s \<Longrightarrow>
    fatal_life s E_program (s\<lparr>lf_quit := False, lf_main := ShuttingDown\<rparr>)"
| shut_down: "lf_exit s = None \<Longrightarrow> lf_main s = ShuttingDown \<Longrightarrow>
    fatal_life s E_program (s\<lparr>lf_main := Returned, lf_exit := Some 0\<rparr>)"

inductive_cases wf_lifeE: "wf_life s ev t"
inductive_cases fatal_lifeE: "fatal_life s ev t"

section \<open>Runs\<close>

text \<open>The state after a list of events.\<close>

inductive life_run :: "(life \<Rightarrow> life_event \<Rightarrow> life \<Rightarrow> bool) \<Rightarrow> life_event list \<Rightarrow> life \<Rightarrow> bool"
  for step :: "life \<Rightarrow> life_event \<Rightarrow> life \<Rightarrow> bool" where
  start: "life_run step [] life_start"
| step: "life_run step evs s \<Longrightarrow> step s ev t \<Longrightarrow> life_run step (evs @ [ev]) t"

text \<open>
  \<open>must_end step s\<close>: on every way to go on from \<open>s\<close> the process ends, and until then the program can move.
\<close>

inductive must_end :: "(life \<Rightarrow> life_event \<Rightarrow> life \<Rightarrow> bool) \<Rightarrow> life \<Rightarrow> bool"
  for step :: "life \<Rightarrow> life_event \<Rightarrow> life \<Rightarrow> bool" where
  ended: "lf_exit s \<noteq> None \<Longrightarrow> must_end step s"
| moving: "step s E_program u \<Longrightarrow> (\<And>ev t. step s ev t \<Longrightarrow> must_end step t) \<Longrightarrow> must_end step s"

definition life_rank :: "life \<Rightarrow> nat" where
  "life_rank s =
     (case lf_exit s of
        Some _ \<Rightarrow> 0
      | None \<Rightarrow>
         1 + (case lf_server s of Listening \<Rightarrow> 6 | Broken _ \<Rightarrow> 3 | Stopped \<Rightarrow> 0) +
         (case lf_main s of Waiting \<Rightarrow> 4 | ShuttingDown \<Rightarrow> 2 | Returned \<Rightarrow> 0) +
         length (lf_serverErr s) + (if lf_quit s then 0 else 1))"

text \<open>What the states of a run have in common; \<open>idle\<close> waits for an event from outside.\<close>

fun failed :: "life_event list \<Rightarrow> bool" where
  "failed [] = False"
| "failed (E_fail e # evs) = True"
| "failed (E_signal # evs) = failed evs"
| "failed (E_program # evs) = failed evs"

lemma failed_append [simp]: "failed (xs @ ys) = (failed xs \<or> failed ys)"
  by (induction xs rule: failed.induct) simp_all

lemma failed_iff: "failed evs \<longleftrightarrow> (\<exists>e. E_fail e \<in> set evs)"
  by (induction evs rule: failed.induct) auto

definition broken :: "life \<Rightarrow> bool" where
  "broken s \<longleftrightarrow> (case lf_server s of Broken _ \<Rightarrow> True | _ \<Rightarrow> False)"

definition life_inv :: "life_event list \<Rightarrow> life \<Rightarrow> bool" where
  "life_inv evs s \<longleftrightarrow>
     length (lf_serverErr s) \<le> 1 \<and>
     (lf_server s \<noteq> Stopped \<longrightarrow> lf_serverErr s = []) \<and>
     (lf_server s = Stopped \<and> lf_main s = Waiting \<and> lf_exit s = None \<longrightarrow> lf_serverErr s \<noteq> []) \<and>
     (lf_main s = Returned \<longleftrightarrow> lf_exit s = Some 0) \<and> lf_exit s \<in> {None, Some 0, Some 1} \<and>
     (lf_quit s \<or> lf_main s \<noteq> Waiting \<longleftrightarrow> E_signal \<in> set evs) \<and>
     (failed evs \<longrightarrow> lf_server s \<noteq> Listening) \<and>
     (broken s \<or> lf_serverErr s \<noteq> [] \<or> lf_exit s = Some 1 \<longrightarrow> failed evs)"

definition idle :: "life \<Rightarrow> bool" where
  "idle s \<longleftrightarrow> lf_server s = Listening \<and> lf_main s = Waiting \<and> \<not> lf_quit s"

text \<open>The contract of a life cycle.\<close>

locale life_cycle =
  fixes step :: "life \<Rightarrow> life_event \<Rightarrow> life \<Rightarrow> bool" and I :: "life_event list \<Rightarrow> life \<Rightarrow> bool"
  assumes start: "I [] life_start" and sound: "I evs s \<Longrightarrow> life_inv evs s"
    and rank: "step s ev t \<Longrightarrow> life_rank t < life_rank s"
    and ended: "lf_exit s \<noteq> None \<Longrightarrow> \<not> step s ev t"
    and inv: "I evs s \<Longrightarrow> step s ev t \<Longrightarrow> I (evs @ [ev]) t"
    and moves: "I evs s \<Longrightarrow> lf_exit s = None \<Longrightarrow> \<not> idle s \<Longrightarrow> \<exists>t. step s E_program t"
begin

lemma run_inv: "life_run step evs s \<Longrightarrow> I evs s"
  by (induction rule: life_run.induct) (auto intro: start inv)

lemma quiet: "life_run step evs s \<Longrightarrow> \<forall>t. \<not> step s E_program t \<Longrightarrow> lf_exit s \<noteq> None \<or> idle s"
  using moves run_inv by blast

text \<open>Once there was a signal or a failure, no way to go on avoids the end.\<close>

lemma ends: "I evs s \<Longrightarrow> E_signal \<in> set evs \<or> failed evs \<Longrightarrow> must_end step s"
proof (induction "life_rank s" arbitrary: s evs rule: less_induct)
  case less
  have "\<not> idle s" using sound [OF less.prems(1)] less.prems(2) by (auto simp: life_inv_def idle_def)
  moreover have "must_end step t" if "step s ev t" for ev t
    by (rule less.hyps [OF rank [OF that] inv [OF less.prems(1) that]]) (use less.prems(2) in auto)
  ultimately show ?case
    using moves [OF less.prems(1)] by (blast intro: must_end.ended must_end.moving)
qed

text \<open>The program steps alone lead to the end once there was a signal or a failure.\<close>

lemma program_ends:
  "I evs s \<Longrightarrow> \<exists>n t. I (evs @ replicate n E_program) t \<and> (lf_exit t \<noteq> None \<or> idle t) \<and>
     (life_run step evs s \<longrightarrow> life_run step (evs @ replicate n E_program) t)"
proof (induction "life_rank s" arbitrary: s evs rule: less_induct)
  case less
  show ?case
  proof (cases "lf_exit s \<noteq> None \<or> idle s")
    case True
    with less.prems show ?thesis by (intro exI [of _ 0] exI [of _ s]) simp
  next
    case False
    with moves [OF less.prems] obtain t where t: "step s E_program t" by blast
    from less.hyps [OF rank [OF t] inv [OF less.prems t]] obtain n u where
      "I ((evs @ [E_program]) @ replicate n E_program) u" "lf_exit u \<noteq> None \<or> idle u"
      "life_run step (evs @ [E_program]) t \<longrightarrow> life_run step ((evs @ [E_program]) @ replicate n E_program) u" by blast
    then show ?thesis using life_run.step [where step = step, OF _ t]
      by (intro exI [of _ "Suc n"] exI [of _ u]) auto
  qed
qed

end

interpretation wf_cycle: life_cycle wf_life life_inv
proof (unfold_locales, goal_cases)
  case 1 then show ?case by (simp add: life_inv_def life_start_def broken_def)
next
  case (3 s ev t) then show ?case by (cases rule: wf_lifeE) (auto simp: life_rank_def split: server_phase.splits)
next
  case (4 s ev t) then show ?case by (auto elim: wf_lifeE)
next
  case (5 evs s ev t)
  from 5(2) show ?case
    by (cases rule: wf_lifeE) (use 5(1) in \<open>simp_all add: life_inv_def broken_def\<close>, (cases "lf_main s"; auto)+)
next
  case (6 evs s)
  show ?case
  proof (cases "lf_server s")
    case (Broken e) with 6 show ?thesis by (intro exI) (rule wf_life.report, auto simp: life_inv_def)
  next
    case Listening
    with 6 consider "lf_main s = ShuttingDown" | "lf_main s = Waiting" "lf_quit s"
      by (cases "lf_main s") (auto simp: life_inv_def idle_def)
    then show ?thesis using 6 by cases (blast intro: wf_life.shut_down wf_life.take_signal)+
  next
    case Stopped
    with 6 consider "lf_main s = ShuttingDown" | e es where "lf_main s = Waiting" "lf_serverErr s = e # es"
      by (cases "lf_main s"; cases "lf_serverErr s") (auto simp: life_inv_def)
    then show ?thesis using 6 by cases (blast intro: wf_life.shut_down wf_life.take_error)+
  qed
qed

definition fatal_inv :: "life_event list \<Rightarrow> life \<Rightarrow> bool" where
  "fatal_inv evs s \<longleftrightarrow> life_inv evs s \<and> lf_serverErr s = []"

interpretation fatal_cycle: life_cycle fatal_life fatal_inv
proof (unfold_locales, goal_cases)
  case 1 then show ?case by (simp add: fatal_inv_def life_inv_def life_start_def broken_def)
next
  case 2 then show ?case by (simp add: fatal_inv_def)
next
  case (3 s ev t) then show ?case by (cases rule: fatal_lifeE) (auto simp: life_rank_def split: server_phase.splits)
next
  case (4 s ev t) then show ?case by (auto elim: fatal_lifeE)
next
  case (5 evs s ev t)
  from 5(2) show ?case
    by (cases rule: fatal_lifeE) (use 5(1) in \<open>simp_all add: fatal_inv_def life_inv_def broken_def\<close>, (cases "lf_main s"; auto)+)
next
  case (6 evs s)
  show ?case
  proof (cases "lf_server s")
    case (Broken e) with 6 show ?thesis by (blast intro: fatal_life.fatal)
  next
    case Listening
    with 6 consider "lf_main s = ShuttingDown" | "lf_main s = Waiting" "lf_quit s"
      by (cases "lf_main s") (auto simp: fatal_inv_def life_inv_def idle_def)
    then show ?thesis using 6 by cases (blast intro: fatal_life.shut_down fatal_life.take_signal)+
  next
    case Stopped
    with 6 have "lf_main s = ShuttingDown" by (cases "lf_main s") (auto simp: fatal_inv_def life_inv_def)
    then show ?thesis using 6 by (blast intro: fatal_life.shut_down)
  qed
qed

section \<open>The properties\<close>

text \<open>
  C14: After a signal or a failure of the listener the end of the process is inevitable: from every state
  of a run that has seen one, in the life cycle of the workflow service and in the one of the other
  four, and whatever the order of the goroutines, further failures and further signals, the process has
  ended or the program has a step to take, and every step leads to such a state again, finitely often.
\<close>

theorem server_must_end:
  assumes "step = wf_life \<or> step = fatal_life" "life_run step evs s" "E_signal \<in> set evs \<or> E_fail e \<in> set evs"
  shows "must_end step s"
proof -
  have "E_signal \<in> set evs \<or> failed evs" using assms(3) failed_iff by blast
  then show ?thesis
    using assms(1,2) wf_cycle.ends [OF wf_cycle.run_inv] fatal_cycle.ends [OF fatal_cycle.run_inv] by blast
qed

theorem server_must_end_witness:
  "must_end wf_life (life_start\<lparr>lf_quit := True\<rparr>) \<and>
   \<not> must_end wf_life life_start \<and> lf_exit (life_start\<lparr>lf_quit := True\<rparr>) = None"
proof -
  have "life_run wf_life ([] @ [E_signal]) (life_start\<lparr>lf_quit := True\<rparr>)"
    by (rule life_run.step [OF life_run.start], rule wf_life.signal) (simp_all add: life_start_def)
  then have "life_run wf_life [E_signal] (life_start\<lparr>lf_quit := True\<rparr>)" by simp
  moreover have "\<not> wf_life life_start E_program t" for t by (auto elim!: wf_lifeE simp: life_start_def)
  then have "\<not> must_end wf_life life_start" by (auto elim: must_end.cases simp: life_start_def)
  ultimately show ?thesis
    using server_must_end [OF disjI1 [OF refl], where evs = "[E_signal]" and e = "Foreign ''''"]
    by (simp add: life_start_def)
qed

text \<open>
  C27: A process ends with status 1 only after the listener failed and with status 0 only after a
  signal; where no step of the program is left, the process has ended or waits for an event from
  outside, with the server listening and no signal pending. So no goroutine blocks on a channel.
\<close>

theorem exit_status:
  assumes "step = wf_life \<or> step = fatal_life" "life_run step evs s"
  shows "(lf_exit s = Some 1 \<longrightarrow> (\<exists>e. E_fail e \<in> set evs)) \<and> (lf_exit s = Some 0 \<longrightarrow> E_signal \<in> set evs) \<and>
    lf_exit s \<in> {None, Some 0, Some 1} \<and>
    ((\<forall>t. \<not> step s E_program t) \<longrightarrow>
      lf_exit s \<noteq> None \<or> lf_server s = Listening \<and> lf_main s = Waiting \<and> \<not> lf_quit s)"
proof -
  have "life_inv evs s"
    using assms wf_cycle.run_inv fatal_cycle.run_inv by (auto simp: fatal_inv_def)
  moreover have "(\<forall>t. \<not> step s E_program t) \<longrightarrow> lf_exit s \<noteq> None \<or> idle s"
    using assms wf_cycle.quiet fatal_cycle.quiet by blast
  ultimately show ?thesis by (auto simp: life_inv_def idle_def failed_iff)
qed

lemma demo_life:
  "life_run fatal_life [E_fail (Foreign ''bind: address already in use''), E_program]
     \<lparr>lf_server = Stopped, lf_main = Waiting, lf_serverErr = [], lf_quit = False, lf_exit = Some 1\<rparr>"
proof -
  let ?e = "Foreign ''bind: address already in use''"
  have "life_run fatal_life ([] @ [E_fail ?e]) (life_start\<lparr>lf_server := Broken ?e\<rparr>)"
    by (rule life_run.step [OF life_run.start], rule fatal_life.fails) (simp_all add: life_start_def)
  from life_run.step [OF this fatal_life.fatal [of _ ?e]] show ?thesis by (simp add: life_start_def)
qed

theorem exit_status_witness:
  "\<exists>evs s. life_run fatal_life evs s \<and> lf_exit s = Some 1 \<and> (\<exists>e. E_fail e \<in> set evs)"
proof -
  from exit_status [OF disjI2 [OF refl] demo_life] demo_life show ?thesis
    by (intro exI [of _ "[E_fail (Foreign ''bind: address already in use''), E_program]"] exI) auto
qed



end
