(* ===== verification/Tn_Schema.thy ===== *)
theory Tn_Schema
  imports Startup
begin

text \<open>
  tenant-service: the structs of \<open>mysql/models.go\<close>, which the migration makes the tables from, and the
  structs the repositories read and write, each with its table and the tags of its fields as they
  stand in the source. The tags are split as GORM documents it; the unique keys and the defaults they
  give are the ones the contract of the tables, \<open>tn_db_laws\<close>, speaks of.
\<close>

section \<open>Structs with tags\<close>

record go_model =
  gm_TableName :: string
  gm_Fields :: "(string \<times> string) list"

text \<open>The parts of a tag are separated by semicolons, a key and its value by a colon.\<close>

fun tag_parts :: "string \<Rightarrow> string list" where
  "tag_parts [] = [[]]"
| "tag_parts (c # cs) =
     (if c = CHR '';'' then [] # tag_parts cs
      else (case tag_parts cs of [] \<Rightarrow> [[c]] | p # ps \<Rightarrow> (c # p) # ps))"

definition tag_key :: "string \<Rightarrow> string" where
  "tag_key part = takeWhile (\<lambda>c. c \<noteq> CHR '':'') part"

definition has_tag :: "string \<Rightarrow> string \<Rightarrow> bool" where
  "has_tag k tag \<longleftrightarrow> list_ex (\<lambda>part. tag_key part = k) (tag_parts tag)"

definition tagged :: "string list \<Rightarrow> go_model \<Rightarrow> string list" where
  "tagged ks g = map fst (filter (\<lambda>(name, tag). list_ex (\<lambda>k. has_tag k tag) ks) (gm_Fields g))"

definition unique_fields :: "go_model \<Rightarrow> string list" where
  "unique_fields g = tagged [''primaryKey'', ''uniqueIndex''] g"

definition default_fields :: "go_model \<Rightarrow> string list" where
  "default_fields g = tagged [''default''] g"

section \<open>models.go\<close>

definition TenantModelExported :: go_model where
  "TenantModelExported =
     \<lparr>gm_TableName = ''tenants'',
      gm_Fields =
        [(''ID'', ''primaryKey;type:varchar(36)''),
         (''Name'', ''type:varchar(255);not null''),
         (''Slug'', ''type:varchar(100);uniqueIndex;not null''),
         (''Plan'', ''type:varchar(50);not null;default:free''),
         (''Status'', ''type:varchar(20);not null;default:active''),
         (''MaxUsers'', ''not null;default:10''),
         (''AllowedDomains'', ''type:text''),
         (''Features'', ''type:text''),
         (''CreatedAt'', ''not null''),
         (''UpdatedAt'', ''not null'')]\<rparr>"

definition OrganizationModelExported :: go_model where
  "OrganizationModelExported =
     \<lparr>gm_TableName = ''organizations'',
      gm_Fields =
        [(''ID'', ''primaryKey;type:varchar(36)''),
         (''TenantID'', ''type:varchar(36);not null;index:idx_org_tenant_id''),
         (''Name'', ''type:varchar(255);not null''),
         (''Type'', ''type:varchar(100)''),
         (''ParentID'', ''type:varchar(36)''),
         (''Metadata'', ''type:text''),
         (''CreatedAt'', ''not null''),
         (''UpdatedAt'', ''not null'')]\<rparr>"

definition UserProfileModelExported :: go_model where
  "UserProfileModelExported =
     \<lparr>gm_TableName = ''user_profiles'',
      gm_Fields =
        [(''UserID'', ''primaryKey;type:varchar(36)''),
         (''TenantID'', ''type:varchar(36);not null;index:idx_profile_tenant_id''),
         (''OrganizationID'', ''type:varchar(36)''),
         (''DisplayName'', ''type:varchar(255)''),
         (''AvatarURL'', ''type:varchar(512)''),
         (''Timezone'', ''type:varchar(100);default:UTC''),
         (''Locale'', ''type:varchar(20);default:en''),
         (''Metadata'', ''type:text''),
         (''CreatedAt'', ''not null''),
         (''UpdatedAt'', ''not null'')]\<rparr>"

section \<open>The structs of the repositories\<close>

definition tenantModel_tags :: go_model where
  "tenantModel_tags =
     \<lparr>gm_TableName = ''tenants'',
      gm_Fields =
        [(''ID'', ''primaryKey;type:varchar(36)''), (''Name'', ''type:varchar(255);not null''),
         (''Slug'', ''type:varchar(100);uniqueIndex;not null''), (''Plan'', ''type:varchar(50);not null;default:free''),
         (''Status'', ''type:varchar(20);not null;default:active''), (''MaxUsers'', ''not null;default:10''),
         (''AllowedDomains'', ''type:text''), (''Features'', ''type:text''), (''CreatedAt'', ''not null''),
         (''UpdatedAt'', ''not null'')]\<rparr>"

definition organizationModel_tags :: go_model where
  "organizationModel_tags =
     \<lparr>gm_TableName = ''organizations'',
      gm_Fields =
        [(''ID'', ''primaryKey;type:varchar(36)''), (''TenantID'', ''type:varchar(36);not null;index:idx_org_tenant_id''),
         (''Name'', ''type:varchar(255);not null''), (''Type'', ''type:varchar(100)''), (''ParentID'', ''type:varchar(36)''),
         (''Metadata'', ''type:text''), (''CreatedAt'', ''not null''), (''UpdatedAt'', ''not null'')]\<rparr>"

definition userProfileModel_tags :: go_model where
  "userProfileModel_tags =
     \<lparr>gm_TableName = ''user_profiles'',
      gm_Fields =
        [(''UserID'', ''primaryKey;type:varchar(36)''),
         (''TenantID'', ''type:varchar(36);not null;index:idx_profile_tenant_id''),
         (''OrganizationID'', ''type:varchar(36)''), (''DisplayName'', ''type:varchar(255)''),
         (''AvatarURL'', ''type:varchar(512)''), (''Timezone'', ''type:varchar(100);default:UTC''),
         (''Locale'', ''type:varchar(20);default:en''), (''Metadata'', ''type:text''), (''CreatedAt'', ''not null''),
         (''UpdatedAt'', ''not null'')]\<rparr>"

text \<open>The values of the fields of a row by their names; times and pointers are in no key and have no default.\<close>

datatype cell = Text string | Number int | Other

definition tenant_cell :: "tenantModel \<Rightarrow> string \<Rightarrow> cell" where
  "tenant_cell m f =
     (if f = ''ID'' then Text (tnm_ID m) else if f = ''Name'' then Text (tnm_Name m)
      else if f = ''Slug'' then Text (tnm_Slug m) else if f = ''Plan'' then Text (tnm_Plan m)
      else if f = ''Status'' then Text (tnm_Status m) else if f = ''MaxUsers'' then Number (tnm_MaxUsers m)
      else if f = ''AllowedDomains'' then Text (tnm_AllowedDomains m)
      else if f = ''Features'' then Text (tnm_Features m) else Other)"

definition org_cell :: "organizationModel \<Rightarrow> string \<Rightarrow> cell" where
  "org_cell m f =
     (if f = ''ID'' then Text (orm_ID m) else if f = ''TenantID'' then Text (orm_TenantID m)
      else if f = ''Name'' then Text (orm_Name m) else if f = ''Type'' then Text (orm_Type m)
      else if f = ''Metadata'' then Text (orm_Metadata m) else Other)"

definition profile_cell :: "userProfileModel \<Rightarrow> string \<Rightarrow> cell" where
  "profile_cell m f =
     (if f = ''UserID'' then Text (pfm_UserID m) else if f = ''TenantID'' then Text (pfm_TenantID m)
      else if f = ''DisplayName'' then Text (pfm_DisplayName m) else if f = ''AvatarURL'' then Text (pfm_AvatarURL m)
      else if f = ''Timezone'' then Text (pfm_Timezone m) else if f = ''Locale'' then Text (pfm_Locale m)
      else if f = ''Metadata'' then Text (pfm_Metadata m) else Other)"

fun cells_equal :: "(string \<Rightarrow> string \<Rightarrow> bool) \<Rightarrow> cell \<Rightarrow> cell \<Rightarrow> bool" where
  "cells_equal eq (Text a) (Text b) = eq a b"
| "cells_equal eq (Number a) (Number b) = (a = b)"
| "cells_equal eq _ _ = False"

text \<open>Two rows with an equal value in a unique key; a row without a zero value where the column has a default.\<close>

definition schema_conflict ::
  "go_model \<Rightarrow> (string \<Rightarrow> string \<Rightarrow> bool) \<Rightarrow> ('m \<Rightarrow> string \<Rightarrow> cell) \<Rightarrow> 'm \<Rightarrow> 'm \<Rightarrow> bool" where
  "schema_conflict g eq val x m \<longleftrightarrow> list_ex (\<lambda>f. cells_equal eq (val x f) (val m f)) (unique_fields g)"

definition schema_ready :: "go_model \<Rightarrow> ('m \<Rightarrow> string \<Rightarrow> cell) \<Rightarrow> 'm \<Rightarrow> bool" where
  "schema_ready g val m \<longleftrightarrow> list_all (\<lambda>f. val m f \<notin> {Text '''', Number 0}) (default_fields g)"

section \<open>The schema and the contract\<close>

lemma unique_fields_of_models:
  "unique_fields TenantModelExported = [''ID'', ''Slug'']"
  "unique_fields OrganizationModelExported = [''ID'']"
  "unique_fields UserProfileModelExported = [''UserID'']"
  by code_simp+

lemma default_fields_of_models:
  "default_fields TenantModelExported = [''Plan'', ''Status'', ''MaxUsers'']"
  "default_fields OrganizationModelExported = []"
  "default_fields UserProfileModelExported = [''Timezone'', ''Locale'']"
  by code_simp+

lemmas schema_simps = schema_conflict_def schema_ready_def unique_fields_of_models default_fields_of_models
  tenant_cell_def org_cell_def profile_cell_def

text \<open>The tables are migrated from structs with the columns of the structs the repositories use.\<close>

theorem migrated_tables:
  "tn_AutoMigrate drv =
     db_do drv (C_AutoMigrate (map gm_TableName [TenantModelExported, OrganizationModelExported, UserProfileModelExported]))"
  "[TenantModelExported, OrganizationModelExported, UserProfileModelExported] =
     [tenantModel_tags, organizationModel_tags, userProfileModel_tags]"
  by (simp_all add: tn_AutoMigrate_def TenantModelExported_def OrganizationModelExported_def UserProfileModelExported_def
      tenantModel_tags_def organizationModel_tags_def userProfileModel_tags_def)

text \<open>The unique keys and the defaults of the three tables are those of the contract.\<close>

theorem schema_keys:
  "schema_conflict TenantModelExported (tdb_eq db) tenant_cell = tenant_conflict db"
  "schema_ready TenantModelExported tenant_cell = tenant_ready"
  "schema_conflict OrganizationModelExported (tdb_eq db) org_cell = (\<lambda>x m. tdb_eq db (orm_ID x) (orm_ID m))"
  "schema_ready OrganizationModelExported org_cell = (\<lambda>_. True)"
  "schema_conflict UserProfileModelExported (tdb_eq db) profile_cell = (\<lambda>x m. tdb_eq db (pfm_UserID x) (pfm_UserID m))"
  "schema_ready UserProfileModelExported profile_cell = profile_ready"
  by (simp_all add: fun_eq_iff schema_simps tenant_conflict_def tenant_ready_def profile_ready_def)

text \<open>So a table that keeps the documented laws with the keys and defaults of the schema meets the contract.\<close>

theorem schema_gives_contract:
  assumes "\<And>a. tdb_eq db a a" "\<And>a b. tdb_eq db a b \<Longrightarrow> tdb_eq db b a"
    "\<And>a b c. tdb_eq db a b \<Longrightarrow> tdb_eq db b c \<Longrightarrow> tdb_eq db a c"
    and "gorm_table_laws (tdb_tenants db) tnm_ID (schema_conflict TenantModelExported (tdb_eq db) tenant_cell)
      tenant_stored (schema_ready TenantModelExported tenant_cell)"
    and "gorm_table_laws (tdb_orgs db) orm_ID (schema_conflict OrganizationModelExported (tdb_eq db) org_cell)
      org_stored (schema_ready OrganizationModelExported org_cell)"
    and "gorm_table_laws (tdb_profiles db) pfm_UserID (schema_conflict UserProfileModelExported (tdb_eq db) profile_cell)
      profile_stored (schema_ready UserProfileModelExported profile_cell)"
  shows "tn_db_laws db"
  using assms unfolding schema_keys by (rule tn_db_laws.intro)

end
