(* ===== verification/Spec2Isabelle.thy ===== *)
theory Spec2Isabelle
  imports Wf_Api Auth_Seeded Tn_Updates Dc_Forms Dc_Docs Nt_Audit Startup_Props Lifecycle Tn_Schema
begin

text \<open>
  OpsNexus: a model of the Go services under \<open>src/services\<close>, with the properties that make them
  correct.

  The program. OpsNexus is a multi-tenant operations platform of five services. Each has the same
  layers: \<open>internal/domain\<close> (values and errors), \<open>internal/ports\<close> (interfaces and requests),
  \<open>internal/application\<close> (the services), \<open>internal/adapters/mysql\<close>, \<open>mongodb\<close> or \<open>dynamodb\<close> (repositories
  over GORM, the MongoDB driver or the AWS client) and \<open>internal/adapters/http\<close> (handlers, middleware, the chi router);
  \<open>internal/config\<close> reads the settings; \<open>cmd/server\<close> opens the database, migrates it, wires the layers and
  runs the server, \<open>cmd/migrate\<close> migrates only and \<open>cmd/seed\<close> fills a database. Modelled are the workflow service (cases,
  tasks, comments, workflow templates), the authentication service (users, roles, tokens), the tenant
  service (tenants, organizations, profiles), the document service (forms, submissions, documents) and the
  notification service (notifications, audit events). The services do not call each other; the web
  frontend calls all of them.

  Shared theories.
  \<^item> Prelude: Go's errors (\<open>errors.Is\<close>, \<open>fmt.Errorf\<close> with one wrapped error), 64-bit integers with
    wrap-around, slices that panic, the environment record \<open>env\<close> (clock and identifiers as streams),
    loops that stop at an error.
  \<^item> GoStd: \<open>strings.TrimSpace\<close>, \<open>strings.ToLower\<close>, \<open>strconv.Atoi\<close> and \<open>Itoa\<close>, \<open>fmt\<close> with zero padding.
  \<^item> Json and Decode: \<open>encoding/json\<close>. The text of a value, a parser for all of JSON and UTF-8, the
    round trip, and the storing of values into strings, pointers, slices, maps and struct fields. The
    fuel of the parser is twice the length of the text: every call consumes a byte or enters a
    value, so it never runs out (\<open>json_roundtrip\<close> and the lemmas before it).
  \<^item> Gorm: a table of the database as a parameter, a record of calls; the locale \<open>gorm_table_laws\<close> says
    what GORM and the server document, \<open>mem_table\<close> is a table in memory that can be told to fail and
    satisfies the laws (interpretation \<open>mem\<close>).
  \<^item> Mongo: a collection as a parameter in the same way (locale \<open>mongo_laws\<close>, interpretation \<open>mem_mongo\<close>).
  \<^item> Files: \<open>path/filepath\<close> written out, with what it makes of plain elements and of \<open>..\<close>; the calls of
    package \<open>os\<close> as a parameter (locale \<open>os_laws\<close>, interpretation \<open>mem_os\<close>).
  \<^item> Dynamo: a table of DynamoDB as a parameter (locale \<open>dyn_laws\<close>, interpretation \<open>mem_dyn\<close>). The texts of
    the expressions are kept, with an evaluator for conjunctions of comparisons and for \<open>SET\<close>; a read
    answers from a replica, \<open>seen\<close>, and a query may stop early.
  \<^item> Rfc3339: the calendar, \<open>Format\<close> and \<open>Parse\<close> of package \<open>time\<close> with the layout \<open>time.RFC3339\<close>, and their
    round trip.
  \<^item> Http: requests, responses and handlers.
  \<^item> Parse_Duration: \<open>time.ParseDuration\<close>; the value of a fraction, which the library computes in floating
    point, is the parameter \<open>frac\<close>. The loop over the segments terminates because every segment consumes a byte
    (\<open>parse_segment_length\<close>).
  \<^item> Url: \<open>url.QueryEscape\<close> and both ways of unescaping.

  The services, each as \<open>*_Domain\<close> (domain and ports), \<open>*_Service\<close> (application), \<open>*_Repo\<close>
  (repositories), \<open>*_Http\<close> (HTTP layer) and \<open>*_Laws\<close> (the contract of its database as a locale, an
  interpretation on tables in memory, the wiring of \<open>cmd/server/main.go\<close>). A method of a Go type is
  the definition \<open>Type_Method\<close>; where two services share a name, a prefix \<open>wf_\<close>, \<open>auth_\<close>, \<open>tn_\<close>, \<open>dc_\<close> or
  \<open>nt_\<close> tells them apart. Interfaces are records of functions, so that a service runs over any implementation of
  its repositories, as in the code. State is passed explicitly: an operation maps the state (clock,
  identifiers, tables) to a result and a new state.
  \<^item> Workflow service: Wf_Inv, Wf_Serve, Wf_Reach, Wf_Steps and Wf_Numbers prove what every sequence of
    requests keeps, the numbering of cases among it; Wf_Seed is \<open>cmd/seed\<close>; Wf_Props and Wf_Api have
    the properties of transitions, deadlines, tasks, listings, errors and headers.
  \<^item> Authentication service: Auth_Inv proves that revocations and the tenants of roles are kept by every
    request, from the repositories up; Auth_Props has tokens, roles, administration routes, login and
    refresh (bcrypt and JWT are the parameter \<open>auth_libs\<close> with the laws \<open>auth_libs_laws\<close>, interpreted on
    \<open>demo_libs\<close>); Auth_Accounts has registration, status and profile. Auth_Seed is \<open>cmd/seed\<close>, Auth_Seeded
    says what a run leaves, what a second run does and that the seeded account can log in.
  \<^item> Tenant service: Tn_Laws has also \<open>cmd/seed\<close>; Tn_Inv proves the invariant of the stored tenants,
    organizations and profiles; Tn_Props and Tn_Updates have slugs, creation, settings, patches and
    listings; Tn_Schema takes the structs the migration works from, with their tags, and shows that the
    keys and defaults of the contract are theirs.
  \<^item> Document service: Dc_Inv proves the invariant of the stored forms, submissions, documents and
    versions; Dc_Props has what requests keep, the files an upload writes and the count of versions,
    Dc_Forms submissions and updates of forms, Dc_Docs deletion, pages and the size of an upload.
  \<^item> Notification service: Nt_Repo has the item structs and the expressions, Nt_Laws the contract of the
    client and of the package \<open>attributevalue\<close> (locale \<open>nt_codec_laws\<close>, interpretation \<open>mem_codec\<close>), Nt_Inv what
    every operation does to the two tables; Nt_Props has the audit log, the tenants a request touches (\<open>request_tenants\<close>, by route),
    sending and reading back, Nt_Marks marking as read and sending in bulk, Nt_Lists the filter
    expression, what reads answer with and the pages (a listing that panics is a value of the model),
    Nt_Audit the round trip of audit events.

  The processes, for all five services together.
  \<^item> Config is \<open>internal/config\<close>: what a service tells viper and what it makes of the settings. viper is a
    parameter (locale \<open>viper_laws\<close>, interpretation \<open>env\<close>). Config_Props has the values without settings, the
    timeouts that load and that are refused, the credentials in the URI of the document database.
  \<^item> Startup is \<open>db.go\<close>, \<open>migrate.go\<close>, \<open>client.go\<close>, the creation of indexes, and the main functions of \<open>cmd/server\<close>
    up to the point where the server listens, of \<open>cmd/migrate\<close> and of \<open>cmd/seed\<close>. A run keeps the list of
    the calls it has made on the drivers, whose answers are the parameter \<open>drv\<close>. Its result is how the
    process ended or the router it serves, built over the tables of the connection: the one the properties
    of the service are about. Startup_Props has what was called before a server listens, which
    database \<open>migrate\<close> asks for, and the tokens accepted without a secret.
  \<^item> Lifecycle is the rest of \<open>cmd/server\<close>: the two goroutines, the signal and the shutdown, as the step relations
    \<open>wf_life\<close> and \<open>fatal_life\<close> (locale \<open>life_cycle\<close>, interpretations \<open>wf_cycle\<close> and \<open>fatal_cycle\<close>): after a
    signal or a failure the process ends in every order of the goroutines (\<open>must_end\<close>), with which status, and it
    blocks nowhere. Serving a request changes nothing of this and is no step of the relations.

  How sequences of requests are treated. \<open>wf_reach\<close>, \<open>auth_reach\<close>, \<open>tn_reach\<close>, \<open>dc_reach\<close> and \<open>nt_reach\<close> are
  inductive: a request of any content, routed anyhow, is a step. The locales \<open>auth_frame\<close>, \<open>tn_kept\<close>, \<open>dc_kept\<close>
  and \<open>nt_kept\<close> (and their counterpart for the workflow service) turn a fact about every operation of the service interface
  into a fact about the handlers, the middleware, the router and every sequence. Requests are atomic
  steps, except for the race of the case counter, which \<open>case_numbers_race\<close> treats with the statements of
  two transactions interleaved.

  What is assumed. The equality of the server's collation is an equivalence; tables obey
  \<open>gorm_table_laws\<close>, collections \<open>mongo_laws\<close>, tables of DynamoDB \<open>dyn_laws\<close> and the file system \<open>os_laws\<close>, which
  leave open whether a failed write was applied and how times are rounded; a hash matches the password it
  was made from and a signed token parses until it expires. Each law is proved for an instance, on which
  the witnesses of the properties run. Where a property needs more it says so: that the generated
  identifiers are new (\<open>fresh_ids\<close>), that a replica is up to date, that no update fails.

  The properties say what the code does. Where contracts/*.yaml promise something else (the size and the status
  checks of uploads and submissions, slugs, plans and settings of tenants, the action filter of audit queries, the
  status of a new account, the rotation of refresh tokens), the property states the behaviour of the code and its
  text names the difference.

  Simplifications. Member names of JSON are compared without ASCII case; in an array the elements start
  as zero values even when a key is repeated; numbers in metadata are rewritten by the parameter
  \<open>tw_float\<close>; log calls have no effect, \<open>Recovery\<close>, \<open>RealIP\<close> and \<open>Compress\<close> are left out of the
  middleware of services whose handlers do not panic; which route a request matches is decided by the parameter \<open>mux\<close>.

  Not modelled: the log output; what the drivers do with a pool, a schema or an index (the settings, the
  models and the keys handed to them are in the trace of Startup); the struct tags of the models of the
  workflow and the authentication service, which appear as the conflicts of \<open>gorm_table_laws\<close> only; the instant between
  the start of the server and the installation of the signal handler; the web frontend (TypeScript), the
  deployment files and the tests.
\<close>

end
